(* ===== verification/Prelude.thy ===== *)
theory Prelude
  imports
    Main
    "HOL-Library.Word"
    "HOL-Library.List_Lexorder"
    "HOL-Library.Char_ord"
    "HOL-Library.Product_Lexorder"
    "HOL-Library.Sublist"
begin

text \<open>
  Shared vocabulary of the development: Rust's \<open>Result\<close> with panics made explicit, loops with
  early return, the string operations of the Rust standard library the sources use
  (\<open>split\<close>, \<open>split_once\<close>, \<open>rsplitn\<close>, \<open>join\<close>, \<open>parse::<u32>\<close>, decimal printing), and the
  lemma collections the components share.

  Strings are lists of bytes (\<open>char\<close> is an 8-bit character), so \<open>length\<close> is Rust's
  \<open>str::len\<close>. \<open>to_lowercase\<close> acts on ASCII letters, which is all the identifiers of the
  framework may contain.
\<close>

type_synonym u16 = "16 word"
type_synonym u32 = "32 word"
type_synonym u64 = "64 word"
type_synonym addr = string
type_synonym binary = string

named_theorems result_simps
named_theorems code_defs

section \<open>Results\<close>

text \<open>A call returns a value, returns an error, or aborts the transaction by a panic.\<close>

datatype ('a, 'e) result = Ok (the_Ok: 'a) | Err (the_Err: 'e) | Panic

definition and_then :: "('a, 'e) result \<Rightarrow> ('a \<Rightarrow> ('b, 'e) result) \<Rightarrow> ('b, 'e) result" where
  "and_then r f = (case r of Ok a \<Rightarrow> f a | Err e \<Rightarrow> Err e | Panic \<Rightarrow> Panic)"

definition map_err :: "('e \<Rightarrow> 'f) \<Rightarrow> ('a, 'e) result \<Rightarrow> ('a, 'f) result" where
  "map_err g r = (case r of Ok a \<Rightarrow> Ok a | Err e \<Rightarrow> Err (g e) | Panic \<Rightarrow> Panic)"

definition map_ok :: "('a \<Rightarrow> 'b) \<Rightarrow> ('a, 'e) result \<Rightarrow> ('b, 'e) result" where
  "map_ok g r = (case r of Ok a \<Rightarrow> Ok (g a) | Err e \<Rightarrow> Err e | Panic \<Rightarrow> Panic)"

definition ok_or :: "'e \<Rightarrow> 'a option \<Rightarrow> ('a, 'e) result" where
  "ok_or e x = (case x of Some a \<Rightarrow> Ok a | None \<Rightarrow> Err e)"

definition ensure :: "bool \<Rightarrow> 'e \<Rightarrow> (unit, 'e) result" where
  "ensure b e = (if b then Ok () else Err e)"

text \<open>\<open>Option::unwrap\<close> and \<open>Result::unwrap\<close>.\<close>

definition unwrap :: "'a option \<Rightarrow> ('a, 'e) result" where
  "unwrap x = (case x of Some a \<Rightarrow> Ok a | None \<Rightarrow> Panic)"

definition unwrap_res :: "('a, 'f) result \<Rightarrow> ('a, 'e) result" where
  "unwrap_res r = (case r of Ok a \<Rightarrow> Ok a | _ \<Rightarrow> Panic)"

definition is_ok :: "('a, 'e) result \<Rightarrow> bool" where
  "is_ok r = (case r of Ok _ \<Rightarrow> True | _ \<Rightarrow> False)"

lemma and_then_simps [simp]:
  "and_then (Ok a) f = f a" "and_then (Err e) f = Err e" "and_then Panic f = Panic"
  by (simp_all add: and_then_def)

lemma map_err_simps [simp]:
  "map_err g (Ok a) = Ok a" "map_err g (Err e) = Err (g e)" "map_err g Panic = Panic"
  by (simp_all add: map_err_def)

lemma map_ok_simps [simp]:
  "map_ok g (Ok a) = Ok (g a)" "map_ok g (Err e) = Err e" "map_ok g Panic = Panic"
  by (simp_all add: map_ok_def)

lemma ok_or_simps [simp]: "ok_or e (Some a) = Ok a" "ok_or e None = Err e"
  by (simp_all add: ok_or_def)

lemma ensure_simps [simp]: "ensure True e = Ok ()" "ensure False e = Err e"
  by (simp_all add: ensure_def)

lemma unwrap_simps [simp]: "unwrap (Some a) = Ok a" "unwrap None = Panic"
  by (simp_all add: unwrap_def)

lemma unwrap_res_simps [simp]:
  "unwrap_res (Ok a) = Ok a" "unwrap_res (Err e) = Panic" "unwrap_res Panic = Panic"
  by (simp_all add: unwrap_res_def)

lemma is_ok_simps [simp]: "is_ok (Ok a)" "\<not> is_ok (Err e)" "\<not> is_ok Panic"
  by (simp_all add: is_ok_def)

lemma is_ok_iff: "is_ok r \<longleftrightarrow> (\<exists>a. r = Ok a)"
  by (cases r) simp_all

text \<open>Inversion of a successful run: what every \<open>?\<close> on the path must have returned.\<close>

lemma and_then_Ok [result_simps]:
  "and_then r f = Ok b \<longleftrightarrow> (\<exists>a. r = Ok a \<and> f a = Ok b)"
  by (cases r) simp_all

lemma map_err_Ok [result_simps]: "map_err g r = Ok a \<longleftrightarrow> r = Ok a"
  by (cases r) simp_all

lemma map_ok_Ok [result_simps]: "map_ok g r = Ok b \<longleftrightarrow> (\<exists>a. r = Ok a \<and> b = g a)"
  by (cases r) auto

lemma ok_or_Ok [result_simps]: "ok_or e x = Ok a \<longleftrightarrow> x = Some a"
  by (cases x) simp_all

lemma ensure_Ok [result_simps]: "ensure b e = Ok u \<longleftrightarrow> b"
  by (simp add: ensure_def)

lemma unwrap_Ok [result_simps]: "unwrap x = Ok a \<longleftrightarrow> x = Some a"
  by (cases x) simp_all

lemma unwrap_res_Ok [result_simps]: "unwrap_res r = Ok a \<longleftrightarrow> r = Ok a"
  by (cases r) simp_all

lemma map_err_and_then: "map_err g (and_then r f) = and_then (map_err g r) (\<lambda>a. map_err g (f a))"
  by (cases r) simp_all

lemma and_then_assoc: "and_then (and_then r f) g = and_then r (\<lambda>a. and_then (f a) g)"
  by (cases r) simp_all

text \<open>A congruence so that recursive calls under \<open>and_then\<close> are seen by the function package.\<close>

lemma and_then_cong [fundef_cong]:
  "r = r' \<Longrightarrow> (\<And>a. r' = Ok a \<Longrightarrow> f a = f' a) \<Longrightarrow> and_then r f = and_then r' f'"
  by (cases r') simp_all

section \<open>Loops with early return\<close>

text \<open>\<open>for x in xs { s = f(s, x)? }\<close>\<close>

fun try_fold :: "('s \<Rightarrow> 'x \<Rightarrow> ('s, 'e) result) \<Rightarrow> 's \<Rightarrow> 'x list \<Rightarrow> ('s, 'e) result" where
  "try_fold f s [] = Ok s"
| "try_fold f s (x # xs) = and_then (f s x) (\<lambda>s'. try_fold f s' xs)"

text \<open>\<open>xs.map(f).collect::<Result<Vec<_>, _>>()\<close>\<close>

fun try_map :: "('x \<Rightarrow> ('y, 'e) result) \<Rightarrow> 'x list \<Rightarrow> ('y list, 'e) result" where
  "try_map f [] = Ok []"
| "try_map f (x # xs) = and_then (f x) (\<lambda>y. and_then (try_map f xs) (\<lambda>ys. Ok (y # ys)))"

lemma try_fold_append:
  "try_fold f s (xs @ ys) = and_then (try_fold f s xs) (\<lambda>s'. try_fold f s' ys)"
  by (induction xs arbitrary: s) (simp_all add: and_then_assoc)

lemma try_fold_invariant:
  assumes "try_fold f s xs = Ok s'" and "P s"
    and "\<And>s x s'. x \<in> set xs \<Longrightarrow> P s \<Longrightarrow> f s x = Ok s' \<Longrightarrow> P s'"
  shows "P s'"
  using assms
proof (induction xs arbitrary: s)
  case Nil
  then show ?case by simp
next
  case (Cons x xs)
  then obtain t where t: "f s x = Ok t" "try_fold f t xs = Ok s'"
    by (auto simp: result_simps)
  have "P t" using Cons.prems(2,3) t(1) by (meson list.set_intros(1))
  with t(2) show ?case
    by (rule Cons.IH) (use Cons.prems(3) in auto)
qed

text \<open>Every element is processed by a step that succeeded.\<close>

lemma try_fold_each:
  assumes "try_fold f s xs = Ok s'" and "x \<in> set xs"
  shows "\<exists>t t'. f t x = Ok t'"
  using assms by (induction xs arbitrary: s) (auto simp: result_simps)

text \<open>The run before, at and after one of the elements.\<close>

lemma try_fold_split:
  assumes "try_fold f s xs = Ok s'" and "x \<in> set xs"
  obtains ys zs t t' where "xs = ys @ x # zs" and "try_fold f s ys = Ok t" and "f t x = Ok t'"
    and "try_fold f t' zs = Ok s'"
proof -
  from split_list [OF assms(2)] obtain ys zs where xs: "xs = ys @ x # zs" by blast
  with assms(1) show thesis using that by (auto simp: try_fold_append result_simps)
qed

lemma try_map_Ok_iff:
  "try_map f xs = Ok ys \<longleftrightarrow> list_all2 (\<lambda>x y. f x = Ok y) xs ys"
  by (induction xs arbitrary: ys) (auto simp: result_simps list_all2_Cons1)

lemma try_map_Ok_length: "try_map f xs = Ok ys \<Longrightarrow> length ys = length xs"
  by (simp add: try_map_Ok_iff list_all2_lengthD)

section \<open>Checked arithmetic\<close>

definition checked_sub :: "'a::len word \<Rightarrow> 'a word \<Rightarrow> 'a word option" where
  "checked_sub a b = (if b \<le> a then Some (a - b) else None)"

definition checked_add :: "'a::len word \<Rightarrow> 'a word \<Rightarrow> 'a word option" where
  "checked_add a b = (if unat a + unat b < 2 ^ LENGTH('a) then Some (a + b) else None)"

lemma checked_sub_Some: "checked_sub a b = Some c \<longleftrightarrow> unat a = unat b + unat c"
proof
  assume "checked_sub a b = Some c"
  then have "b \<le> a" and "c = a - b" by (auto simp: checked_sub_def split: if_splits)
  then show "unat a = unat b + unat c" by (simp add: unat_sub word_le_nat_alt)
next
  assume *: "unat a = unat b + unat c"
  then have "b \<le> a" by (simp add: word_le_nat_alt)
  moreover from this * have "unat (a - b) = unat c" by (simp add: unat_sub)
  then have "a - b = c" by (simp add: word_unat_eq_iff)
  ultimately show "checked_sub a b = Some c" by (simp add: checked_sub_def)
qed

lemma checked_add_Some: "checked_add a b = Some c \<Longrightarrow> unat c = unat a + unat b"
  by (auto simp: checked_add_def unat_word_ariths split: if_splits)

section \<open>Strings\<close>

text \<open>\<open>str::split(c)\<close>: always at least one part.\<close>

fun split_char :: "char \<Rightarrow> string \<Rightarrow> string list" where
  "split_char c [] = [[]]"
| "split_char c (x # xs) =
     (if x = c then [] # split_char c xs
      else (case split_char c xs of [] \<Rightarrow> [[x]] | p # ps \<Rightarrow> (x # p) # ps))"

text \<open>\<open>str::split_once(c)\<close>: at the first occurrence.\<close>

fun split_once :: "char \<Rightarrow> string \<Rightarrow> (string \<times> string) option" where
  "split_once c [] = None"
| "split_once c (x # xs) =
     (if x = c then Some ([], xs)
      else map_option (\<lambda>(a, b). (x # a, b)) (split_once c xs))"

text \<open>\<open>s.rsplitn(2, c).last()\<close>: what is before the last occurrence, the whole string without one.\<close>

definition before_last :: "char \<Rightarrow> string \<Rightarrow> string" where
  "before_last c s =
     (case split_once c (rev s) of None \<Rightarrow> s | Some (_, rest) \<Rightarrow> rev rest)"

fun join :: "char \<Rightarrow> string list \<Rightarrow> string" where
  "join c [] = []"
| "join c [p] = p"
| "join c (p # q # ps) = p @ c # join c (q # ps)"

lemma split_char_nonempty [simp]: "split_char c s \<noteq> []"
  by (induction s) (auto split: list.split)

lemma split_char_no_sep: "c \<notin> set s \<Longrightarrow> split_char c s = [s]"
  by (induction s) auto

lemma split_char_append:
  "c \<notin> set p \<Longrightarrow> split_char c (p @ c # s) = p # split_char c s"
  by (induction p) auto

lemma split_char_join:
  "ps \<noteq> [] \<Longrightarrow> \<forall>p \<in> set ps. c \<notin> set p \<Longrightarrow> split_char c (join c ps) = ps"
  by (induction c ps rule: join.induct) (auto simp: split_char_append split_char_no_sep)

lemma join_split_char: "join c (split_char c s) = s"
proof (induction s)
  case (Cons x s)
  show ?case
  proof (cases "split_char c s")
    case (Cons p ps)
    with \<open>join c (split_char c s) = s\<close> show ?thesis by (cases ps) auto
  qed simp
qed simp

lemma split_char_parts: "p \<in> set (split_char c s) \<Longrightarrow> c \<notin> set p"
  by (induction s arbitrary: p) (auto split: list.splits if_splits)

lemma split_once_append: "c \<notin> set p \<Longrightarrow> split_once c (p @ c # s) = Some (p, s)"
  by (induction p) auto

lemma split_once_None: "split_once c s = None \<longleftrightarrow> c \<notin> set s"
  by (induction s) auto

lemma split_once_Some:
  "split_once c s = Some (a, b) \<Longrightarrow> s = a @ c # b \<and> c \<notin> set a"
  by (induction s arbitrary: a) (auto split: if_splits)

lemma before_last_append: "c \<notin> set s \<Longrightarrow> before_last c (p @ c # s) = p"
  by (simp add: before_last_def split_once_append)

lemma before_last_no_sep: "c \<notin> set s \<Longrightarrow> before_last c s = s"
  using split_once_None [of c "rev s"] by (simp add: before_last_def)

text \<open>ASCII classes.\<close>

definition is_ascii_lowercase :: "char \<Rightarrow> bool" where
  "is_ascii_lowercase c \<longleftrightarrow> CHR ''a'' \<le> c \<and> c \<le> CHR ''z''"

definition is_ascii_uppercase :: "char \<Rightarrow> bool" where
  "is_ascii_uppercase c \<longleftrightarrow> CHR ''A'' \<le> c \<and> c \<le> CHR ''Z''"

definition is_ascii_digit :: "char \<Rightarrow> bool" where
  "is_ascii_digit c \<longleftrightarrow> CHR ''0'' \<le> c \<and> c \<le> CHR ''9''"

definition is_ascii_alphanumeric :: "char \<Rightarrow> bool" where
  "is_ascii_alphanumeric c \<longleftrightarrow> is_ascii_lowercase c \<or> is_ascii_uppercase c \<or> is_ascii_digit c"

definition to_ascii_lower :: "char \<Rightarrow> char" where
  "to_ascii_lower c = (if is_ascii_uppercase c then char_of (of_char c + 32 :: nat) else c)"

definition to_lowercase :: "string \<Rightarrow> string" where
  "to_lowercase s = map to_ascii_lower s"

lemmas [code_defs] =
  is_ascii_lowercase_def is_ascii_uppercase_def is_ascii_digit_def is_ascii_alphanumeric_def
  to_ascii_lower_def to_lowercase_def before_last_def checked_sub_def checked_add_def

section \<open>Decimal printing and parsing of unsigned integers\<close>

definition digit_char :: "nat \<Rightarrow> char" where
  "digit_char d = char_of (48 + d)"

definition char_digit :: "char \<Rightarrow> nat option" where
  "char_digit c = (if is_ascii_digit c then Some (of_char c - 48) else None)"

fun show_nat :: "nat \<Rightarrow> string" where
  "show_nat n = (if n < 10 then [digit_char n] else show_nat (n div 10) @ [digit_char (n mod 10)])"

declare show_nat.simps [simp del]

text \<open>The digits of a \<open>parse\<close>, most significant first; \<open>None\<close> for a character that is no digit.\<close>

definition parse_digits :: "string \<Rightarrow> nat option" where
  "parse_digits s = foldl (\<lambda>acc c. Option.bind acc (\<lambda>n. map_option (\<lambda>d. 10 * n + d) (char_digit c)))
     (Some 0) s"

text \<open>\<open>str::parse::<u32>\<close>: an optional \<open>+\<close>, at least one digit, no overflow.\<close>

definition parse_u32 :: "string \<Rightarrow> u32 option" where
  "parse_u32 s =
     (let ds = (case s of c # r \<Rightarrow> (if c = CHR ''+'' then r else s) | [] \<Rightarrow> [])
      in if ds = [] then None
         else Option.bind (parse_digits ds) (\<lambda>n. if n < 2 ^ 32 then Some (of_nat n) else None))"

definition show_u32 :: "u32 \<Rightarrow> string" where
  "show_u32 w = show_nat (unat w)"

lemma digit_char_code: "d < 10 \<Longrightarrow> of_char (digit_char d) = 48 + (d :: nat)"
  by (simp add: digit_char_def)

lemma is_ascii_digit_digit_char: "d < 10 \<Longrightarrow> is_ascii_digit (digit_char d)"
  by (simp add: is_ascii_digit_def less_eq_char_def digit_char_code)

lemma char_digit_digit_char [simp]: "d < 10 \<Longrightarrow> char_digit (digit_char d) = Some d"
  by (simp add: char_digit_def is_ascii_digit_digit_char digit_char_code)

lemma parse_digits_append1:
  "parse_digits (s @ [c]) =
     Option.bind (parse_digits s) (\<lambda>n. map_option (\<lambda>d. 10 * n + d) (char_digit c))"
  by (simp add: parse_digits_def)

lemma parse_digits_show_nat: "parse_digits (show_nat n) = Some n"
proof (induction n rule: show_nat.induct)
  case (1 n)
  show ?case
  proof (cases "n < 10")
    case True
    then show ?thesis by (subst show_nat.simps) (simp add: parse_digits_def)
  next
    case False
    with 1 have "parse_digits (show_nat (n div 10)) = Some (n div 10)" by simp
    with False show ?thesis by (subst show_nat.simps) (simp add: parse_digits_append1)
  qed
qed

lemma show_nat_digits: "\<forall>c \<in> set (show_nat n). is_ascii_digit c"
proof (induction n rule: show_nat.induct)
  case (1 n)
  show ?case
  proof (cases "n < 10")
    case True
    then show ?thesis by (subst show_nat.simps) (simp add: is_ascii_digit_digit_char)
  next
    case False
    with 1 have "\<forall>c \<in> set (show_nat (n div 10)). is_ascii_digit c" by simp
    with False show ?thesis by (subst show_nat.simps) (auto simp: is_ascii_digit_digit_char)
  qed
qed

lemma show_nat_nonempty [simp]: "show_nat n \<noteq> []"
  by (subst show_nat.simps) simp

lemma foldl_bind_None:
  "foldl (\<lambda>acc c. Option.bind acc (f c)) None s = None"
  by (induction s) simp_all

lemma parse_digits_bad: "c \<in> set s \<Longrightarrow> \<not> is_ascii_digit c \<Longrightarrow> parse_digits s = None"
proof (induction s rule: rev_induct)
  case (snoc x s)
  then show ?case
    by (auto simp: parse_digits_append1 char_digit_def)
qed simp

lemma parse_u32_show_u32: "parse_u32 (show_u32 w) = Some w"
proof -
  let ?s = "show_nat (unat w)"
  obtain c r where s: "?s = c # r" by (cases ?s) auto
  have "is_ascii_digit c" using show_nat_digits [of "unat w"] s by simp
  then have "c \<noteq> CHR ''+''" by (auto simp: is_ascii_digit_def)
  moreover have "unat w < 2 ^ 32" using unsigned_less [of w] by simp
  ultimately show ?thesis
    using parse_digits_show_nat [of "unat w"] s
    by (simp add: parse_u32_def show_u32_def)
qed

lemma parse_u32_bad:
  assumes "c \<in> set s" and "\<not> is_ascii_digit c" and "c \<noteq> CHR ''+''"
  shows "parse_u32 s = None"
proof (cases s)
  case (Cons x r)
  have "parse_digits (if x = CHR ''+'' then r else s) = None"
    using assms Cons by (intro parse_digits_bad [of c]) auto
  then show ?thesis using Cons by (auto simp: parse_u32_def)
qed (use assms in simp)

section \<open>State machines\<close>

text \<open>The states a contract can get into: from a start state by any number of steps.\<close>

inductive reachable :: "('s \<Rightarrow> bool) \<Rightarrow> ('s \<Rightarrow> 's \<Rightarrow> bool) \<Rightarrow> 's \<Rightarrow> bool" for start step where
  reach_start: "start s \<Longrightarrow> reachable start step s"
| reach_step: "reachable start step s \<Longrightarrow> step s s' \<Longrightarrow> reachable start step s'"

inductive_cases reachableE: "reachable start step s"

text \<open>An inductive invariant of a machine holds in every reachable state; a second property may
  use the first as a hypothesis of its own step.\<close>

locale invariant =
  fixes start :: "'s \<Rightarrow> bool" and step :: "'s \<Rightarrow> 's \<Rightarrow> bool" and I :: "'s \<Rightarrow> bool"
  assumes inv_start: "start s \<Longrightarrow> I s"
    and inv_step: "I s \<Longrightarrow> step s s' \<Longrightarrow> I s'"
begin

lemma holds: "reachable start step s \<Longrightarrow> I s"
  by (induction rule: reachable.induct) (auto intro: inv_start inv_step)

lemma strengthen:
  assumes "reachable start step s"
    and "\<And>s. start s \<Longrightarrow> J s"
    and "\<And>s s'. I s \<Longrightarrow> J s \<Longrightarrow> step s s' \<Longrightarrow> J s'"
  shows "J s"
  using assms(1) by (induction rule: reachable.induct) (use assms holds in auto)

end

end
