(* ===== verification/Storage.thy ===== *)
theory Storage
  imports Prelude
begin

text \<open>
  The contract storage behind \<open>cw_storage_plus::Map\<close>: an ordered key-value store. A map is a
  list of entries in ascending order of the storage key, so that \<open>range\<close> with
  \<open>Order::Ascending\<close> is the list itself and \<open>Order::Descending\<close> its reverse. The contracts
  only rely on the laws of the locale \<open>kv_store\<close>, which is interpreted on these operations;
  what they derive from the laws is proved once inside it.

  A composite storage key is a tuple of sub-keys in which every sub-key but the last carries its
  length, so shorter sub-keys come first. \<open>subkey\<close> is such a length-prefixed part, with the
  order of its bytes: length first, content second.
\<close>

type_synonym ('k, 'v) store = "('k \<times> 'v) list"

definition load :: "('k, 'v) store \<Rightarrow> 'k \<Rightarrow> 'v option" where
  "load m k = map_of m k"

definition has :: "('k, 'v) store \<Rightarrow> 'k \<Rightarrow> bool" where
  "has m k \<longleftrightarrow> load m k \<noteq> None"

fun save :: "('k::linorder) \<Rightarrow> 'v \<Rightarrow> ('k, 'v) store \<Rightarrow> ('k, 'v) store" where
  "save k v [] = [(k, v)]"
| "save k v ((k', v') # m) =
     (if k < k' then (k, v) # (k', v') # m
      else if k = k' then (k, v) # m
      else (k', v') # save k v m)"

definition remove :: "'k \<Rightarrow> ('k, 'v) store \<Rightarrow> ('k, 'v) store" where
  "remove k m = filter (\<lambda>e. fst e \<noteq> k) m"

text \<open>\<open>range(None, None, Ascending)\<close>, \<open>range(Bound::exclusive(k), None, Ascending)\<close> and the
  prefixes, which keep the order.\<close>

definition entries_after :: "('k::linorder) option \<Rightarrow> ('k, 'v) store \<Rightarrow> ('k, 'v) store" where
  "entries_after b m = (case b of None \<Rightarrow> m | Some k \<Rightarrow> filter (\<lambda>e. k < fst e) m)"

definition entries_where :: "('k \<Rightarrow> bool) \<Rightarrow> ('k, 'v) store \<Rightarrow> ('k, 'v) store" where
  "entries_where P m = filter (\<lambda>e. P (fst e)) m"

definition ordered :: "('k::linorder, 'v) store \<Rightarrow> bool" where
  "ordered m \<longleftrightarrow> sorted_wrt (<) (map fst m)"

lemma load_empty [simp]: "load [] k = None"
  by (simp add: load_def)

lemma load_single [simp]: "load [(k, v)] = [k \<mapsto> v]"
  by (simp add: load_def fun_eq_iff)

lemma load_save [simp]: "load (save k v m) = (load m)(k \<mapsto> v)"
  by (induction k v m rule: save.induct) (auto simp: load_def fun_eq_iff)

lemma load_remove [simp]: "load (remove k m) = (load m)(k := None)"
  by (induction m) (auto simp: load_def remove_def fun_eq_iff)

lemma load_entries_where: "load (entries_where P m) k = (if P k then load m k else None)"
  by (induction m) (auto simp: load_def entries_where_def)

lemma set_save: "set (save k v m) \<subseteq> insert (k, v) (set m)"
  by (induction k v m rule: save.induct) auto

lemma ordered_save: "ordered m \<Longrightarrow> ordered (save k v m)"
proof (induction k v m rule: save.induct)
  case (2 k v k' v' m)
  have sub: "fst ` set (save k v m) \<subseteq> insert k (fst ` set m)"
    using set_save [of k v m] by auto
  show ?case
    using 2 sub by (force simp: ordered_def)
qed (simp add: ordered_def)

lemma ordered_filter: "ordered m \<Longrightarrow> ordered (filter P m)"
  unfolding ordered_def
  by (induction m) (auto)

lemma ordered_remove: "ordered m \<Longrightarrow> ordered (remove k m)"
  by (simp add: remove_def ordered_filter)

lemma ordered_empty [simp]: "ordered []"
  by (simp add: ordered_def)

lemma load_in_set: "load m k = Some v \<Longrightarrow> (k, v) \<in> set m"
  by (simp add: load_def map_of_SomeD)

lemma ordered_load_iff: "ordered m \<Longrightarrow> (k, v) \<in> set m \<longleftrightarrow> load m k = Some v"
  unfolding ordered_def load_def
  by (metis map_of_eq_Some_iff strict_sorted_iff)

lemma entries_where_Nil: "entries_where P m = [] \<longleftrightarrow> (\<forall>k. P k \<longrightarrow> load m k = None)"
proof
  assume "entries_where P m = []"
  then show "\<forall>k. P k \<longrightarrow> load m k = None"
    using load_entries_where [of P m] by (metis load_empty)
next
  assume *: "\<forall>k. P k \<longrightarrow> load m k = None"
  have "False" if "e \<in> set (entries_where P m)" for e
  proof -
    from that have "e \<in> set m" "P (fst e)" by (auto simp: entries_where_def)
    with * have "map_of m (fst e) = None" by (simp add: load_def)
    with \<open>e \<in> set m\<close> show False by (auto simp: map_of_eq_None_iff)
  qed
  then show "entries_where P m = []" by (metis list.set_intros(1) neq_Nil_conv)
qed

lemma sum_save:
  assumes "ordered m"
  shows "(\<Sum>(k, v)\<leftarrow>save k v m. f v) + (case load m k of Some v0 \<Rightarrow> f v0 | None \<Rightarrow> 0) = (\<Sum>(k, v)\<leftarrow>m. f v) + (f v :: nat)"
  using assms
proof (induction k v m rule: save.induct)
  case (2 k v k' v' m)
  have none: "k < k' \<Longrightarrow> load ((k', v') # m) k = None"
    using 2(2) by (auto simp: ordered_def load_def map_of_eq_None_iff)
  from 2(2) have "ordered m" by (simp add: ordered_def)
  with 2(1) none show ?case by (auto simp: load_def split: option.splits)
qed (simp add: load_def)

lemma entries_where_save_other: "\<not> P k \<Longrightarrow> entries_where P (save k v m) = entries_where P m"
  by (induction k v m rule: save.induct) (auto simp: entries_where_def)

lemma entries_where_save_new:
  assumes "\<not> has m k" and "P k" and "ordered m" and "\<forall>x\<in>fst ` set m. P x \<longrightarrow> x < k"
  shows "entries_where P (save k v m) = entries_where P m @ [(k, v)]"
  using assms
proof (induction k v m rule: save.induct)
  case (2 k v k' v' m)
  from "2.prems"(1) have ne: "k \<noteq> k'" and rest: "\<not> has m k" by (auto simp: has_def load_def split: if_splits)
  show ?case
  proof (cases "k < k'")
    case True
    with "2.prems"(3) have "\<forall>x\<in>fst ` set ((k', v') # m). k < x" by (force simp: ordered_def)
    with "2.prems"(4) have "\<forall>x\<in>fst ` set ((k', v') # m). \<not> P x" by (meson less_asym)
    then have "entries_where P ((k', v') # m) = []" by (auto simp: entries_where_def filter_empty_conv)
    with True "2.prems"(2) show ?thesis by (simp add: entries_where_def)
  next
    case False
    from "2.prems" have "ordered m" by (simp add: ordered_def)
    with "2.IH" [OF False ne rest "2.prems"(2)] "2.prems"(4) have "entries_where P (save k v m) = entries_where P m @ [(k, v)]"
      by simp
    with False ne show ?thesis by (simp add: entries_where_def)
  qed
qed (simp add: entries_where_def)

section \<open>The interface the contracts use\<close>

locale kv_store =
  fixes look :: "'m \<Rightarrow> 'k \<Rightarrow> 'v option"
    and put :: "'k \<Rightarrow> 'v \<Rightarrow> 'm \<Rightarrow> 'm"
    and del :: "'k \<Rightarrow> 'm \<Rightarrow> 'm"
  assumes look_put: "look (put k v m) = (look m)(k \<mapsto> v)"
    and look_del: "look (del k m) = (look m)(k := None)"
begin

text \<open>Loops that save or remove a list of entries.\<close>

lemma look_put_all:
  "look (fold (\<lambda>e. put (fst e) (snd e)) es m) = (look m)(map fst es [\<mapsto>] map snd es)"
  by (induction es arbitrary: m) (simp_all add: look_put)

lemma look_del_all:
  "look (fold del ks m) k = (if k \<in> set ks then None else look m k)"
  by (induction ks arbitrary: m) (simp_all add: look_del)

text \<open>Moving an entry between two stores of the same kind, as registration, approval and
  yanking do: the key is in exactly one of them afterwards.\<close>

lemma move_look:
  assumes "look a k = Some v"
  shows "look (put k v b) k = Some v" and "look (del k a) k = None"
    and "k' \<noteq> k \<Longrightarrow> look (put k v b) k' = look b k'"
    and "k' \<noteq> k \<Longrightarrow> look (del k a) k' = look a k'"
  using assms by (simp_all add: look_put look_del)

lemma move_disjoint:
  assumes "dom (look a) \<inter> dom (look b) = {}"
  shows "dom (look (del k a)) \<inter> dom (look (put k v b)) = {}"
  using assms by (auto simp: look_put look_del split: if_splits)

lemma dom_put: "dom (look (put k v m)) = insert k (dom (look m))"
  by (simp add: look_put)

lemma dom_del: "dom (look (del k m)) = dom (look m) - {k}"
  by (auto simp: look_del split: if_splits)

end

interpretation kv: kv_store load save remove
  by unfold_locales (simp_all)

text \<open>An ordered store: what \<open>range\<close> lists is what \<open>load\<close> finds, in ascending key order.\<close>

locale ordered_kv_store = kv_store look put del
  for look :: "'m \<Rightarrow> 'k::linorder \<Rightarrow> 'v option"
    and put :: "'k \<Rightarrow> 'v \<Rightarrow> 'm \<Rightarrow> 'm"
    and del :: "'k \<Rightarrow> 'm \<Rightarrow> 'm" +
  fixes entries :: "'m \<Rightarrow> ('k \<times> 'v) list"
    and wf :: "'m \<Rightarrow> bool"
  assumes entries_look: "wf m \<Longrightarrow> (k, v) \<in> set (entries m) \<longleftrightarrow> look m k = Some v"
    and entries_sorted: "wf m \<Longrightarrow> sorted_wrt (<) (map fst (entries m))"
    and wf_put: "wf m \<Longrightarrow> wf (put k v m)"
    and wf_del: "wf m \<Longrightarrow> wf (del k m)"
begin

text \<open>The last entry that satisfies a filter has the greatest key among those that do:
  iteration in descending order with \<open>skip_while\<close> and \<open>take(1)\<close>.\<close>

lemma last_filter_greatest:
  assumes "wf m" and "filter P (entries m) \<noteq> []" and "last (filter P (entries m)) = (k, v)"
  shows "look m k = Some v" and "P (k, v)"
    and "look m k' = Some v' \<Longrightarrow> P (k', v') \<Longrightarrow> k' \<le> k"
proof -
  have in_set: "(k, v) \<in> set (filter P (entries m))"
    using assms(2,3) by (metis last_in_set)
  then show "look m k = Some v" and "P (k, v)"
    using assms(1) entries_look by auto
  assume "look m k' = Some v'" and "P (k', v')"
  then have mem: "(k', v') \<in> set (filter P (entries m))"
    using assms(1) entries_look by auto
  have sorted: "sorted_wrt (<) (map fst (filter P (entries m)))"
    using entries_sorted [OF assms(1)]
    by (simp add: sorted_wrt_map sorted_wrt_filter)
  have "filter P (entries m) = butlast (filter P (entries m)) @ [(k, v)]"
    using assms(2,3) by (metis append_butlast_last_id)
  then obtain es where es: "filter P (entries m) = es @ [(k, v)]" by blast
  with sorted have "\<forall>e \<in> set es. fst e < k"
    by (simp add: sorted_wrt_append)
  moreover have "(k', v') \<in> set es \<or> (k', v') = (k, v)"
    using mem es by auto
  ultimately show "k' \<le> k" by fastforce
qed

end

interpretation okv: ordered_kv_store load save remove "\<lambda>m. m" ordered
  by unfold_locales
    (simp_all add: ordered_load_iff ordered_save ordered_remove, simp add: ordered_def)

section \<open>A map and its reverse map\<close>

text \<open>Contracts keep a second map to look up the other way: \<open>r\<close> sends the key of a value of \<open>f\<close>
  back to where it is stored.\<close>

definition inverse_maps :: "('v \<Rightarrow> 'k) \<Rightarrow> ('n \<rightharpoonup> 'v) \<Rightarrow> ('k \<rightharpoonup> 'n) \<Rightarrow> bool" where
  "inverse_maps key f r \<longleftrightarrow> (\<forall>n a. f n = Some a \<longrightarrow> r (key a) = Some n)
     \<and> (\<forall>k n. r k = Some n \<longrightarrow> (\<exists>a. key a = k \<and> f n = Some a))"

lemma inverse_mapsD:
  assumes "inverse_maps key f r"
  shows "f n = Some a \<Longrightarrow> r (key a) = Some n"
    and "r k = Some n \<Longrightarrow> \<exists>a. key a = k \<and> f n = Some a"
  using assms by (auto simp: inverse_maps_def)

lemma inverse_maps_insert:
  assumes "inverse_maps key f r" and "f n = None" and "r (key a) = None"
  shows "inverse_maps key (f(n \<mapsto> a)) (r(key a \<mapsto> n))"
  unfolding inverse_maps_def
proof (intro conjI allI impI)
  fix n' a' assume f: "(f(n \<mapsto> a)) n' = Some a'"
  show "(r(key a \<mapsto> n)) (key a') = Some n'"
  proof (cases "n' = n")
    case False
    with f inverse_mapsD(1) [OF assms(1), of n' a'] have "r (key a') = Some n'" by simp
    with assms(3) show ?thesis by auto
  qed (use f in simp)
next
  fix k n' assume r: "(r(key a \<mapsto> n)) k = Some n'"
  show "\<exists>a'. key a' = k \<and> (f(n \<mapsto> a)) n' = Some a'"
  proof (cases "k = key a")
    case False
    with r inverse_mapsD(2) [OF assms(1), of k n'] obtain a' where "key a' = k" "f n' = Some a'"
      by auto
    with assms(2) show ?thesis by auto
  qed (use r in auto)
qed

lemma inverse_maps_delete:
  assumes "inverse_maps key f r" and "f n = Some a"
  shows "inverse_maps key (f(n := None)) (r(key a := None))"
  unfolding inverse_maps_def
proof (intro conjI allI impI)
  fix n' a' assume "(f(n := None)) n' = Some a'"
  then have "n' \<noteq> n" and f: "f n' = Some a'" by (auto split: if_splits)
  with inverse_mapsD(1) [OF assms(1) f] inverse_mapsD(1) [OF assms]
  show "(r(key a := None)) (key a') = Some n'" by auto
next
  fix k n' assume "(r(key a := None)) k = Some n'"
  then have k: "k \<noteq> key a" and r: "r k = Some n'" by (auto split: if_splits)
  from inverse_mapsD(2) [OF assms(1) r] obtain a' where a': "key a' = k" "f n' = Some a'" by blast
  with k assms(2) have "n' \<noteq> n" by auto
  with a' show "\<exists>a'. key a' = k \<and> (f(n := None)) n' = Some a'" by auto
qed

lemma inverse_maps_single: "inverse_maps key [n \<mapsto> a] [key a \<mapsto> n]"
  using inverse_maps_insert [of key Map.empty Map.empty n a] by (simp add: inverse_maps_def)

text \<open>Both maps are injective up to the key.\<close>

lemma inverse_maps_inj:
  assumes "inverse_maps key f r" and "f n = Some a" and "f n' = Some a'" and "key a = key a'"
  shows "n = n'"
  using inverse_mapsD(1) [OF assms(1,2)] inverse_mapsD(1) [OF assms(1,3)] assms(4) by simp

section \<open>Length-prefixed sub-keys\<close>

datatype subkey = SubKey (sub_bytes: string)

instantiation subkey :: linorder
begin

definition less_eq_subkey :: "subkey \<Rightarrow> subkey \<Rightarrow> bool" where
  "less_eq_subkey a b \<longleftrightarrow>
     (length (sub_bytes a), sub_bytes a) \<le> (length (sub_bytes b), sub_bytes b)"

definition less_subkey :: "subkey \<Rightarrow> subkey \<Rightarrow> bool" where
  "less_subkey a b \<longleftrightarrow>
     (length (sub_bytes a), sub_bytes a) < (length (sub_bytes b), sub_bytes b)"

instance
  by intro_classes
    (auto simp: less_eq_subkey_def less_subkey_def subkey.expand not_le intro: subkey.expand)

end

lemma less_subkey_simps [simp]:
  "SubKey a < SubKey b \<longleftrightarrow> (length a, a) < (length b, b)"
  "SubKey a \<le> SubKey b \<longleftrightarrow> (length a, a) \<le> (length b, b)"
  by (simp_all add: less_eq_subkey_def less_subkey_def)

section \<open>Serialised keys\<close>

text \<open>\<open>u16::to_be_bytes\<close> and \<open>u16::from_be_bytes\<close> on a length.\<close>

definition be16 :: "nat \<Rightarrow> string" where
  "be16 n = [char_of (n div 256 mod 256), char_of (n mod 256)]"

definition of_be16 :: "char \<Rightarrow> char \<Rightarrow> nat" where
  "of_be16 a b = of_char a * 256 + of_char b"

definition be32 :: "u32 \<Rightarrow> string" where
  "be32 w = (let n = unat w in
     [char_of (n div 256 div 256 div 256), char_of (n div 256 div 256 mod 256),
      char_of (n div 256 mod 256), char_of (n mod 256)])"

definition of_be32 :: "string \<Rightarrow> u32 option" where
  "of_be32 s = (case s of [a, b, c, d] \<Rightarrow>
       Some (of_nat (((of_char a * 256 + of_char b) * 256 + of_char c) * 256 + of_char d))
     | _ \<Rightarrow> None)"

lemma of_be16_be16: "n < 2 ^ 16 \<Longrightarrow> of_be16 (char_of (n div 256 mod 256)) (char_of (n mod 256)) = n"
  by (simp add: of_be16_def)

lemma be16_length [simp]: "length (be16 n) = 2"
  by (simp add: be16_def)

lemma horner256:
  "((n div 256 div 256 div 256 * 256 + n div 256 div 256 mod 256) * 256 + n div 256 mod 256) * 256
     + n mod 256 = n" for n :: nat
  by (simp only: div_mult_mod_eq)

lemma of_char_of_byte: "n < 256 \<Longrightarrow> of_char (char_of n :: char) = (n :: nat)"
  by simp

lemma of_be32_be32: "of_be32 (be32 w) = Some w"
proof -
  have "unat w < 2 ^ 32" using unsigned_less [of w] by simp
  then have top: "unat w div 256 div 256 div 256 < 256" by (simp add: div_mult2_eq [symmetric])
  show ?thesis
    unfolding of_be32_def be32_def Let_def list.case
    by (subst of_char_of_byte [OF top], subst (1 2 3) of_char_of_byte, simp, simp, simp)
      (simp only: horner256, simp)
qed

text \<open>\<open>joined_key\<close>: all parts but the last length-prefixed.\<close>

fun joined_key :: "string list \<Rightarrow> string" where
  "joined_key [] = []"
| "joined_key [k] = k"
| "joined_key (k # l # ks) = be16 (length k) @ k @ joined_key (l # ks)"

lemmas [code_defs] = be16_def of_be16_def be32_def of_be32_def

end
