(* ===== verification/Data_Types.thy ===== *)
theory Data_Types
  imports Storage
begin

text \<open>
  The structs and enums of \<open>abstract-std\<close> that several contracts share: account identifiers,
  module descriptions, governance and the error enums. A Rust newtype around \<open>String\<close>
  (\<open>TruncatedChainId\<close>, \<open>Namespace\<close>, \<open>Addr\<close>) is a string, and a struct or enum generic in the
  kind of address is one record or datatype over strings.

  Values of third-party crates appear only through their public shape: \<open>semver::Version\<close> as the
  record of its public fields, \<open>semver::Comparator\<close> as its text, \<open>cw2::ContractVersion\<close>,
  \<open>cosmwasm_std::Coin\<close> and \<open>cw_utils::Expiration\<close> as their public fields and constructors. What
  those crates compute is a parameter of the model (theory \<open>Chain\<close>).
\<close>

type_synonym u8 = "8 word"
type_synonym u256 = "256 word"
type_synonym truncated_chain_id = string
type_synonym namespace = string
type_synonym account_sequence = u32
type_synonym comparator = string

datatype std_error = StdMsg string | StdNotFound string | StdOther string

record version =
  major :: u64
  minor :: u64
  patch :: u64
  pre :: string
  build :: string

record contract_version =
  cv_contract :: string
  cv_version :: string

record coin =
  denom :: string
  amount :: u256

datatype expiration = AtHeight u64 | AtTime u64 | Never

record block_info =
  height :: u64
  time :: u64
  chain_id :: string

section \<open>Account identifiers\<close>

datatype account_trace = Local | Remote "truncated_chain_id list"

record account_id =
  acc_trace :: account_trace
  acc_seq :: account_sequence

section \<open>Modules\<close>

datatype module_version = Latest | Version string

record module_info =
  mi_namespace :: namespace
  mi_name :: string
  mi_version :: module_version

datatype module_reference =
    Account u64
  | Native addr
  | Adapter addr
  | App u64
  | Standalone u64
  | Service addr

record module =
  m_info :: module_info
  m_reference :: module_reference

datatype module_status = Registered | Pending | Yanked

record dependency =
  dep_id :: string
  version_req :: "comparator list"

record module_data =
  md_module :: string
  md_version :: string
  md_dependencies :: "dependency list"
  md_metadata :: "string option"

text \<open>\<open>FixedFee\<close> is a wrapper around its coin.\<close>

type_synonym fixed_fee = coin

datatype monetization = NoMonetization | InstallFee fixed_fee

record module_configuration =
  mc_monetization :: monetization
  mc_metadata :: "string option"
  mc_instantiation_funds :: "coin list"

section \<open>Errors\<close>

datatype validation_error =
    DescriptionInvalidShort nat
  | DescriptionInvalidLong nat
  | DescriptionContainsDangerousCharacters
  | LinkInvalidShort nat
  | LinkInvalidLong nat
  | LinkInvalidFormat
  | LinkContainsDangerousCharacters
  | TitleInvalidShort nat
  | TitleInvalidLong nat
  | TitleContainsDangerousCharacters

text \<open>\<open>objects::registry::RegistryError\<close>, the errors of the registry's clients.\<close>

datatype registry_query_error =
    RqModuleNotFound string addr
  | RqFailedToQueryAccountId addr
  | RqStandaloneNotFound u64 addr
  | RqUnknownAccountId account_id addr
  | RqNotAccount addr account_id
  | RqQueryFailed string std_error
  | RqServiceNotFound addr addr
  | RqInvalidReference module_info

datatype abstract_error =
    AbsStd std_error
  | AbsRegistryError registry_query_error
  | Instantiate2AddressError
  | Semver string
  | EntryFormattingError string string
  | FormattingError string string string
  | CannotDowngradeContract string version version
  | ContractNameMismatch string string
  | AppNotInstalled string
  | MissingVersion string
  | Assert string
  | FeeError "coin list" "coin list"
  | FeeShareError
  | AbsAsset string
  | UnequalModuleData string string
  | CannotSkipVersion string version version

section \<open>Governance\<close>

datatype governance_details =
    Monarchy addr
  | SubAccount addr
  | External addr string
  | NFT addr string
  | AbstractAccount addr
  | Renounced

datatype gov_action =
    TransferOwnership governance_details "expiration option"
  | AcceptOwnership
  | RenounceOwnership

record ownership =
  own_owner :: governance_details
  own_pending_owner :: "governance_details option"
  own_pending_expiry :: "expiration option"

datatype gov_ownership_error =
    OwnStd std_error
  | OwnAbstract abstract_error
  | NoOwner
  | NotOwner
  | NotPendingOwner
  | TransferNotFound
  | TransferExpired
  | TransferToRenounced
  | ChangeOfNftOwned

section \<open>Names of the native modules (abstract-std/src/constants.rs)\<close>

definition ACCOUNT :: string where "ACCOUNT = ''abstract:account''"
definition REGISTRY :: string where "REGISTRY = ''abstract:registry''"
definition MODULE_FACTORY :: string where "MODULE_FACTORY = ''abstract:module-factory''"
definition IBC_CLIENT :: string where "IBC_CLIENT = ''abstract:ibc-client''"
definition ICA_CLIENT :: string where "ICA_CLIENT = ''abstract:ica-client''"
definition IBC_HOST :: string where "IBC_HOST = ''abstract:ibc-host''"
definition ABSTRACT_NAMESPACE :: string where "ABSTRACT_NAMESPACE = ''abstract''"

definition ABSTRACT_ACCOUNT_ID :: account_id where
  "ABSTRACT_ACCOUNT_ID = \<lparr>acc_trace = Local, acc_seq = 0\<rparr>"

lemmas [code_defs] =
  ACCOUNT_def REGISTRY_def MODULE_FACTORY_def IBC_CLIENT_def ICA_CLIENT_def IBC_HOST_def
  ABSTRACT_NAMESPACE_def ABSTRACT_ACCOUNT_ID_def

end
