(* ===== verification/Identifiers.thy ===== *)
theory Identifiers
  imports Data_Types
begin

text \<open>
  Names and identifiers: \<open>TruncatedChainId\<close>, \<open>AccountTrace\<close> and \<open>AccountId\<close> with their text
  form (\<open>Display\<close>/\<open>FromStr\<close>) and their storage keys, and the text validators of account
  information. The theorems are the round trips of both encodings and the exact set of
  identifiers for which the text form does not come back.
\<close>

section \<open>Chain names (objects/truncated_chain_id.rs)\<close>

definition MAX_CHAIN_NAME_LENGTH :: nat where "MAX_CHAIN_NAME_LENGTH = 20"
definition MIN_CHAIN_NAME_LENGTH :: nat where "MIN_CHAIN_NAME_LENGTH = 3"

definition from_chain_id :: "string \<Rightarrow> truncated_chain_id" where
  "from_chain_id cid = before_last CHR ''-'' cid"

definition chain_verify :: "truncated_chain_id \<Rightarrow> (unit, abstract_error) result" where
  "chain_verify c =
     (if c = [] \<or> length c < MIN_CHAIN_NAME_LENGTH \<or> MAX_CHAIN_NAME_LENGTH < length c
      then Err (FormattingError ''chain-seq'' ''between 3 and 20'' (show_nat (length c)))
      else if \<not> list_all (\<lambda>x. is_ascii_lowercase x \<or> x = CHR ''-'') c
      then Err (FormattingError ''chain_name'' ''chain-name'' c)
      else Ok ())"

definition chain_from_string :: "string \<Rightarrow> (truncated_chain_id, abstract_error) result" where
  "chain_from_string s = and_then (chain_verify s) (\<lambda>_. Ok s)"

section \<open>Account traces (objects/account/account_trace.rs)\<close>

definition MAX_TRACE_LENGTH :: nat where "MAX_TRACE_LENGTH = 6"
definition LOCAL :: string where "LOCAL = ''local''"
definition CHAIN_DELIMITER :: char where "CHAIN_DELIMITER = CHR ''>''"

definition trace_verify_chain :: "unit \<Rightarrow> truncated_chain_id \<Rightarrow> (unit, abstract_error) result" where
  "trace_verify_chain u c =
     and_then (chain_verify c) (\<lambda>_.
     if c = LOCAL then Err (FormattingError ''chain-seq'' (''not '' @ CHR 0x27 # ''local'' @ [CHR 0x27]) c) else Ok ())"

fun trace_verify :: "account_trace \<Rightarrow> (unit, abstract_error) result" where
  "trace_verify Local = Ok ()"
| "trace_verify (Remote chain_trace) =
     and_then (ensure (length chain_trace \<le> MAX_TRACE_LENGTH)
       (FormattingError ''chain-seq'' ''between 1 and 6'' (show_nat (length chain_trace))))
     (\<lambda>_. try_fold trace_verify_chain () chain_trace)"

definition trace_verify_remote :: "account_trace \<Rightarrow> (unit, abstract_error) result" where
  "trace_verify_remote t =
     (if t = Local then Err (AbsStd (StdMsg ''expected remote account trace''))
      else trace_verify t)"

fun trace_verify_local :: "account_trace \<Rightarrow> (unit, abstract_error) result" where
  "trace_verify_local (Remote _) = Err (AbsStd (StdMsg ''expected local account trace''))"
| "trace_verify_local Local = Ok ()"

fun trace_push_chain :: "account_trace \<Rightarrow> truncated_chain_id \<Rightarrow> account_trace" where
  "trace_push_chain Local c = Remote [c]"
| "trace_push_chain (Remote path) c = Remote (path @ [c])"

definition account_trace_from_str :: "string \<Rightarrow> account_trace" where
  "account_trace_from_str s =
     (if s = LOCAL then Local else Remote (rev (split_char CHAIN_DELIMITER s)))"

definition trace_from_str :: "string \<Rightarrow> (account_trace, abstract_error) result" where
  "trace_from_str s =
     (let acc = account_trace_from_str s in and_then (trace_verify acc) (\<lambda>_. Ok acc))"

fun trace_display :: "account_trace \<Rightarrow> string" where
  "trace_display Local = LOCAL"
| "trace_display (Remote chain_name) = join CHAIN_DELIMITER (rev chain_name)"

text \<open>\<open>PrimaryKey::key\<close>: the chains, padded with empty keys up to the maximal length.\<close>

definition account_trace_key :: "account_trace \<Rightarrow> string list" where
  "account_trace_key t =
     (let ser = (case t of Local \<Rightarrow> [LOCAL] | Remote cs \<Rightarrow> cs)
      in ser @ replicate (MAX_TRACE_LENGTH - length ser) [])"

text \<open>\<open>deser::split_first_key\<close>: the loop over \<open>key_elems\<close> sub-keys. A slice out of range panics.\<close>

fun split_first_key_loop :: "nat \<Rightarrow> string \<Rightarrow> string \<Rightarrow> (string \<times> string, std_error) result" where
  "split_first_key_loop 0 first_key rest = Ok (first_key, rest)"
| "split_first_key_loop (Suc k) first_key rest =
     (case rest of
        a # b # rest' \<Rightarrow>
          (let first_key = (if k \<noteq> 0 then first_key @ [a, b] else first_key);
               subkey_len = of_be16 a b
           in if subkey_len \<le> length rest'
              then split_first_key_loop k (first_key @ take subkey_len rest') (drop subkey_len rest')
              else Panic)
      | _ \<Rightarrow> Panic)"

definition split_first_key :: "nat \<Rightarrow> string \<Rightarrow> (string \<times> string, std_error) result" where
  "split_first_key key_elems v = split_first_key_loop key_elems [] v"

text \<open>\<open>String::from_utf8\<close>: the well-formed byte sequences of the Unicode standard.\<close>

definition utf8_cont :: "nat \<Rightarrow> bool" where
  "utf8_cont b \<longleftrightarrow> 128 \<le> b \<and> b \<le> 191"

fun valid_utf8 :: "nat list \<Rightarrow> bool" where
  "valid_utf8 [] = True"
| "valid_utf8 (b # r) =
     (if b < 128 then valid_utf8 r
      else if 194 \<le> b \<and> b \<le> 223 then
        (case r of c # r' \<Rightarrow> utf8_cont c \<and> valid_utf8 r' | _ \<Rightarrow> False)
      else if 224 \<le> b \<and> b \<le> 239 then
        (case r of c # d # r' \<Rightarrow>
             (if b = 224 then 160 \<le> c else True) \<and> (if b = 237 then c \<le> 159 else True)
             \<and> utf8_cont c \<and> utf8_cont d \<and> valid_utf8 r'
         | _ \<Rightarrow> False)
      else if 240 \<le> b \<and> b \<le> 244 then
        (case r of c # d # e # r' \<Rightarrow>
             (if b = 240 then 144 \<le> c else True) \<and> (if b = 244 then c \<le> 143 else True)
             \<and> utf8_cont c \<and> utf8_cont d \<and> utf8_cont e \<and> valid_utf8 r'
         | _ \<Rightarrow> False)
      else False)"

definition from_utf8 :: "string \<Rightarrow> (string, std_error) result" where
  "from_utf8 s = (if valid_utf8 (map of_char s) then Ok s else Err (StdMsg ''invalid utf-8''))"

text \<open>\<open>KeyDeserialize for &AccountTrace\<close>: the loop over \<open>0..MAX_TRACE_LENGTH - 1\<close>.\<close>

fun trace_from_vec_loop ::
  "nat \<Rightarrow> nat \<Rightarrow> truncated_chain_id list \<Rightarrow> string \<Rightarrow> (account_trace, std_error) result" where
  "trace_from_vec_loop 0 i trace v = Ok (Remote trace)"
| "trace_from_vec_loop (Suc n) i trace v =
     and_then (split_first_key 1 v) (\<lambda>(current_chain, remainder).
     if current_chain = [] then trace_from_vec_loop n (Suc i) trace remainder
     else and_then (from_utf8 current_chain) (\<lambda>chain.
       if i = 0 \<and> chain = ''local'' then Ok Local
       else and_then (unwrap_res (chain_from_string chain)) (\<lambda>c.
         trace_from_vec_loop n (Suc i) (trace @ [c]) remainder)))"

definition account_trace_from_vec :: "string \<Rightarrow> (account_trace, std_error) result" where
  "account_trace_from_vec v = trace_from_vec_loop (MAX_TRACE_LENGTH - 1) 0 [] v"

section \<open>Account ids (objects/account/account_id.rs)\<close>

definition account_id_new ::
  "account_sequence \<Rightarrow> account_trace \<Rightarrow> (account_id, abstract_error) result" where
  "account_id_new seq trace =
     and_then (trace_verify trace) (\<lambda>_. Ok \<lparr>acc_trace = trace, acc_seq = seq\<rparr>)"

definition account_id_local :: "account_sequence \<Rightarrow> account_id" where
  "account_id_local seq = \<lparr>acc_trace = Local, acc_seq = seq\<rparr>"

definition account_id_remote ::
  "account_sequence \<Rightarrow> truncated_chain_id list \<Rightarrow> (account_id, abstract_error) result" where
  "account_id_remote seq trace =
     and_then (trace_verify (Remote trace)) (\<lambda>_. Ok \<lparr>acc_trace = Remote trace, acc_seq = seq\<rparr>)"

fun last_opt :: "'a list \<Rightarrow> 'a option" where
  "last_opt [] = None"
| "last_opt (x # xs) = Some (last (x # xs))"

definition into_remote_account_id ::
  "account_id \<Rightarrow> truncated_chain_id \<Rightarrow> truncated_chain_id \<Rightarrow> account_id" where
  "into_remote_account_id a client_chain host_chain =
     (case acc_trace a of
        Remote cs \<Rightarrow>
          (if last_opt cs \<noteq> Some host_chain
           then a\<lparr>acc_trace := Remote (cs @ [client_chain])\<rparr>
           else let cs = butlast cs
                in if cs = [] then a\<lparr>acc_trace := Local\<rparr>
                   else a\<lparr>acc_trace := Remote cs\<rparr>)
      | Local \<Rightarrow> a\<lparr>acc_trace := Remote [client_chain]\<rparr>)"

definition is_local :: "account_id \<Rightarrow> bool" where
  "is_local a \<longleftrightarrow> (case acc_trace a of Local \<Rightarrow> True | Remote _ \<Rightarrow> False)"

definition account_id_push_chain :: "account_id \<Rightarrow> truncated_chain_id \<Rightarrow> account_id" where
  "account_id_push_chain a c = a\<lparr>acc_trace := trace_push_chain (acc_trace a) c\<rparr>"

definition account_id_display :: "account_id \<Rightarrow> string" where
  "account_id_display a = trace_display (acc_trace a) @ ''-'' @ show_u32 (acc_seq a)"

definition account_id_from_str :: "string \<Rightarrow> (account_id, abstract_error) result" where
  "account_id_from_str s =
     and_then (ok_or (FormattingError ''AccountId'' ''trace-999'' s) (split_once CHR ''-'' s))
     (\<lambda>(trace_str, seq_str).
     and_then (unwrap (parse_u32 seq_str)) (\<lambda>seq.
     if prefix LOCAL s then Ok \<lparr>acc_trace = Local, acc_seq = seq\<rparr>
     else Ok \<lparr>acc_trace = account_trace_from_str trace_str, acc_seq = seq\<rparr>))"

definition account_id_key :: "account_id \<Rightarrow> string list" where
  "account_id_key a = account_trace_key (acc_trace a) @ [be32 (acc_seq a)]"

text \<open>\<open>u32::from_vec\<close> wants exactly four bytes.\<close>

definition account_id_from_vec :: "string \<Rightarrow> (account_id, std_error) result" where
  "account_id_from_vec v =
     and_then (split_first_key MAX_TRACE_LENGTH v) (\<lambda>(trace, seq).
     and_then (ok_or (StdMsg ''Expected array of length 4'') (of_be32 seq)) (\<lambda>s.
     and_then (account_trace_from_vec trace) (\<lambda>t. Ok \<lparr>acc_trace = t, acc_seq = s\<rparr>)))"

text \<open>The key under which a store of the registry keeps an account.\<close>

definition acc_key :: "account_id \<Rightarrow> subkey list \<times> u32" where
  "acc_key a = (map SubKey (account_trace_key (acc_trace a)), acc_seq a)"

section \<open>Text validators (objects/validation/verifiers.rs)\<close>

definition MIN_DESC_LENGTH :: nat where "MIN_DESC_LENGTH = 1"
definition MAX_DESC_LENGTH :: nat where "MAX_DESC_LENGTH = 1024"
definition MIN_LINK_LENGTH :: nat where "MIN_LINK_LENGTH = 11"
definition MAX_LINK_LENGTH :: nat where "MAX_LINK_LENGTH = 128"
definition MIN_TITLE_LENGTH :: nat where "MIN_TITLE_LENGTH = 1"
definition MAX_TITLE_LENGTH :: nat where "MAX_TITLE_LENGTH = 64"

definition DANGEROUS_CHARS :: "char list" where
  "DANGEROUS_CHARS = [CHR 0x22, CHR 0x27, CHR ''='', CHR ''>'', CHR ''<'']"

definition contains_dangerous_characters :: "string \<Rightarrow> bool" where
  "contains_dangerous_characters s \<longleftrightarrow> list_ex (\<lambda>c. c \<in> set DANGEROUS_CHARS) s"

definition is_valid_url :: "string \<Rightarrow> bool" where
  "is_valid_url link \<longleftrightarrow>
     prefix ''http://'' link \<or> prefix ''https://'' link \<or> prefix ''ipfs://'' link"

definition validate_link :: "string option \<Rightarrow> (unit, validation_error) result" where
  "validate_link l = (case l of
       Some link \<Rightarrow>
         (if length link < MIN_LINK_LENGTH then Err (LinkInvalidShort MIN_LINK_LENGTH)
          else if MAX_LINK_LENGTH < length link then Err (LinkInvalidLong MAX_LINK_LENGTH)
          else if \<not> is_valid_url link then Err LinkInvalidFormat
          else if contains_dangerous_characters link then Err LinkContainsDangerousCharacters
          else Ok ())
     | None \<Rightarrow> Ok ())"

definition validate_name :: "string \<Rightarrow> (unit, validation_error) result" where
  "validate_name title =
     (if length title < MIN_TITLE_LENGTH then Err (TitleInvalidShort MIN_TITLE_LENGTH)
      else if MAX_TITLE_LENGTH < length title then Err (TitleInvalidLong MAX_TITLE_LENGTH)
      else if contains_dangerous_characters title then Err TitleContainsDangerousCharacters
      else Ok ())"

definition validate_description :: "string option \<Rightarrow> (unit, validation_error) result" where
  "validate_description d = (case d of
       Some description \<Rightarrow>
         (if length description < MIN_DESC_LENGTH then Err (DescriptionInvalidShort MIN_DESC_LENGTH)
          else if MAX_DESC_LENGTH < length description
          then Err (DescriptionInvalidLong MAX_DESC_LENGTH)
          else if contains_dangerous_characters description
          then Err DescriptionContainsDangerousCharacters
          else Ok ())
     | None \<Rightarrow> Ok ())"

lemmas [code_defs] =
  MAX_CHAIN_NAME_LENGTH_def MIN_CHAIN_NAME_LENGTH_def MAX_TRACE_LENGTH_def LOCAL_def
  CHAIN_DELIMITER_def MIN_DESC_LENGTH_def MAX_DESC_LENGTH_def MIN_LINK_LENGTH_def
  MAX_LINK_LENGTH_def MIN_TITLE_LENGTH_def MAX_TITLE_LENGTH_def DANGEROUS_CHARS_def

section \<open>Verified traces\<close>

definition verified_chain :: "truncated_chain_id \<Rightarrow> bool" where
  "verified_chain c \<longleftrightarrow> 3 \<le> length c \<and> length c \<le> 20
     \<and> (\<forall>x \<in> set c. is_ascii_lowercase x \<or> x = CHR ''-'') \<and> c \<noteq> LOCAL"

lemma chain_verify_Ok:
  "chain_verify c = Ok () \<longleftrightarrow> 3 \<le> length c \<and> length c \<le> 20
     \<and> (\<forall>x \<in> set c. is_ascii_lowercase x \<or> x = CHR ''-'')"
  by (auto simp: chain_verify_def MIN_CHAIN_NAME_LENGTH_def MAX_CHAIN_NAME_LENGTH_def
      list_all_iff)

lemma trace_verify_chain_Ok: "trace_verify_chain u c = Ok () \<longleftrightarrow> verified_chain c"
  by (auto simp: trace_verify_chain_def verified_chain_def chain_verify_Ok [symmetric]
      result_simps)

lemma try_fold_verify_Ok:
  "try_fold trace_verify_chain u cs = Ok () \<longleftrightarrow> (\<forall>c \<in> set cs. verified_chain c)"
  by (induction cs arbitrary: u) (auto simp: result_simps trace_verify_chain_Ok)

lemma trace_verify_Remote_Ok:
  "trace_verify (Remote cs) = Ok () \<longleftrightarrow> length cs \<le> 6 \<and> (\<forall>c \<in> set cs. verified_chain c)"
  by (auto simp: result_simps try_fold_verify_Ok MAX_TRACE_LENGTH_def)

lemma verified_chain_chars:
  assumes "verified_chain c" and "x \<in> set c"
  shows "x \<noteq> CHR ''>''" and "of_char x < (128 :: nat)" and "\<not> is_ascii_digit x"
  using assms
  by (auto simp: verified_chain_def is_ascii_lowercase_def is_ascii_digit_def less_eq_char_def)

lemma verified_chain_nonempty: "verified_chain c \<Longrightarrow> c \<noteq> []"
  by (auto simp: verified_chain_def)

section \<open>The text form of an account id\<close>

lemma join_set: "set (join c ps) \<subseteq> insert c (\<Union>p \<in> set ps. set p)"
  by (induction c ps rule: join.induct) auto

lemma join_mem: "p \<in> set ps \<Longrightarrow> x \<in> set p \<Longrightarrow> x \<in> set (join c ps)"
  by (induction c ps rule: join.induct) auto

lemma join_starts: "\<exists>r. join c (p # ps) = p @ r \<and> (r = [] \<or> hd r = c)"
  by (cases ps) auto

lemma prefix_before_sep:
  assumes "x \<notin> set p"
  shows "prefix p (q @ x # r) \<longleftrightarrow> prefix p q"
  using assms
proof (induction p arbitrary: q)
  case (Cons y p)
  then show ?case by (cases q) auto
qed simp

lemma LOCAL_no_sep: "CHR ''>'' \<notin> set LOCAL" "CHR ''-'' \<notin> set LOCAL"
  by (simp_all add: LOCAL_def)

text \<open>The text of a remote id starts with the last chain of the trace.\<close>

lemma prefix_local_display:
  assumes "cs \<noteq> []"
  shows "prefix LOCAL (trace_display (Remote cs) @ CHR ''-'' # r) \<longleftrightarrow> prefix LOCAL (last cs)"
proof -
  obtain ds c where cs: "cs = ds @ [c]"
    using assms by (metis append_butlast_last_id)
  obtain q where q: "join CHAIN_DELIMITER (c # rev ds) = c @ q"
    "q = [] \<or> hd q = CHAIN_DELIMITER"
    using join_starts by blast
  show ?thesis
  proof (cases q)
    case Nil
    then show ?thesis using q cs by (simp add: prefix_before_sep LOCAL_no_sep)
  next
    case (Cons y q')
    then have "trace_display (Remote cs) @ CHR ''-'' # r = c @ CHR ''>'' # (q' @ CHR ''-'' # r)"
      using q cs by (simp add: CHAIN_DELIMITER_def)
    then show ?thesis using cs by (simp only: prefix_before_sep [OF LOCAL_no_sep(1)] last_snoc)
  qed
qed

lemma trace_text_roundtrip:
  assumes "cs \<noteq> []" and "\<forall>c \<in> set cs. verified_chain c"
  shows "account_trace_from_str (trace_display (Remote cs)) = Remote cs"
proof -
  have no_sep: "\<forall>c \<in> set (rev cs). CHAIN_DELIMITER \<notin> set c"
    using assms(2) verified_chain_chars(1) by (auto simp: CHAIN_DELIMITER_def)
  have split: "split_char CHAIN_DELIMITER (trace_display (Remote cs)) = rev cs"
    using assms(1) no_sep by (simp add: split_char_join)
  have "trace_display (Remote cs) \<noteq> LOCAL"
  proof
    assume "trace_display (Remote cs) = LOCAL"
    with split have "rev cs = [LOCAL]"
      by (metis CHAIN_DELIMITER_def LOCAL_no_sep(1) split_char_no_sep)
    with assms(2) show False by (auto simp: verified_chain_def)
  qed
  with split show ?thesis by (simp add: account_trace_from_str_def)
qed

lemma hyphen_free_display:
  assumes "\<forall>c \<in> set cs. CHR ''-'' \<notin> set c"
  shows "CHR ''-'' \<notin> set (trace_display (Remote cs))"
  using assms join_set [of CHAIN_DELIMITER "rev cs"] by (auto simp: CHAIN_DELIMITER_def)

lemma from_str_hyphen_free:
  assumes "CHR ''-'' \<notin> set t"
  shows "account_id_from_str (t @ ''-'' @ show_u32 n) =
    (if prefix LOCAL (t @ ''-'' @ show_u32 n) then Ok \<lparr>acc_trace = Local, acc_seq = n\<rparr>
     else Ok \<lparr>acc_trace = account_trace_from_str t, acc_seq = n\<rparr>)"
  using split_once_append [OF assms, of "show_u32 n"]
  by (simp add: account_id_from_str_def parse_u32_show_u32)

text \<open>
  C40: printing an account id and parsing the text gives the id back, for every local id and every
  verified, non-empty remote trace whose chain names contain no hyphen and whose last chain does
  not start with "local".
\<close>

theorem account_id_text_roundtrip:
  assumes "trace_verify (acc_trace a) = Ok ()"
    and "\<And>cs. acc_trace a = Remote cs \<Longrightarrow>
      cs \<noteq> [] \<and> (\<forall>c \<in> set cs. CHR ''-'' \<notin> set c) \<and> \<not> prefix LOCAL (last cs)"
  shows "account_id_from_str (account_id_display a) = Ok a"
proof (cases "acc_trace a")
  case Local
  have "prefix LOCAL (LOCAL @ ''-'' @ show_u32 (acc_seq a))" by simp
  with Local show ?thesis
    using from_str_hyphen_free [OF LOCAL_no_sep(2)] by (simp add: account_id_display_def)
next
  case (Remote cs)
  note cs = assms(2) [OF Remote]
  have "\<forall>c \<in> set cs. verified_chain c"
    using assms(1) Remote by (simp add: trace_verify_Remote_Ok del: trace_verify.simps)
  then show ?thesis
    using cs Remote trace_text_roundtrip [of cs] prefix_local_display [of cs "show_u32 (acc_seq a)"]
      from_str_hyphen_free [OF hyphen_free_display, of cs "acc_seq a"]
    by (simp add: account_id_display_def del: trace_display.simps)
qed

theorem account_id_text_roundtrip_witness:
  "account_id_from_str (account_id_display
     \<lparr>acc_trace = Remote [''juno'', ''osmosis''], acc_seq = 7\<rparr>)
   = Ok \<lparr>acc_trace = Remote [''juno'', ''osmosis''], acc_seq = 7\<rparr>"
  by (rule account_id_text_roundtrip)
    (auto simp: trace_verify_Remote_Ok verified_chain_def is_ascii_lowercase_def LOCAL_def
      simp del: trace_verify.simps)

text \<open>
  the text form of a verified remote id that has a hyphen in any chain name (which
  \<open>TruncatedChainId::verify\<close> allows) makes \<open>AccountId::from_str\<close> panic: the text is split at
  the first hyphen, and what follows is no number.
\<close>

theorem account_id_hyphen_panics:
  assumes "acc_trace a = Remote cs" and "c \<in> set cs" and "CHR ''-'' \<in> set c"
  shows "account_id_from_str (account_id_display a) = Panic"
proof -
  let ?t = "trace_display (Remote cs)"
  have "CHR ''-'' \<in> set ?t" using assms(2,3) by (auto intro: join_mem)
  then obtain p q where t: "?t = p @ CHR ''-'' # q" and p: "CHR ''-'' \<notin> set p"
    by (meson split_list_first)
  let ?rest = "q @ ''-'' @ show_u32 (acc_seq a)"
  have "split_once CHR ''-'' (account_id_display a) = Some (p, ?rest)"
    using split_once_append [OF p, of ?rest] t assms(1) by (simp add: account_id_display_def)
  moreover have "parse_u32 ?rest = None"
    by (rule parse_u32_bad [of "CHR ''-''"]) (auto simp: is_ascii_digit_def)
  ultimately show ?thesis by (simp add: account_id_from_str_def)
qed

theorem account_id_hyphen_panics_witness:
  "trace_verify (Remote [''cosmos-testnet'']) = Ok ()
   \<and> account_id_from_str (account_id_display
       \<lparr>acc_trace = Remote [''cosmos-testnet''], acc_seq = 3\<rparr>) = Panic"
  using account_id_hyphen_panics [of "\<lparr>acc_trace = Remote [''cosmos-testnet''], acc_seq = 3\<rparr>"
      "[''cosmos-testnet'']" "''cosmos-testnet''"]
  by (simp add: trace_verify_Remote_Ok verified_chain_def is_ascii_lowercase_def LOCAL_def
      del: trace_verify.simps)

text \<open>
  a verified remote id whose last chain merely starts with "local" is parsed back as a local
  id with the same sequence, another account.
\<close>

theorem account_id_local_prefix_collapses:
  assumes "acc_trace a = Remote cs" and "cs \<noteq> []" and "\<forall>c \<in> set cs. CHR ''-'' \<notin> set c"
    and "prefix LOCAL (last cs)"
  shows "account_id_from_str (account_id_display a) = Ok (account_id_local (acc_seq a))"
  using assms prefix_local_display [of cs "show_u32 (acc_seq a)"]
    from_str_hyphen_free [OF hyphen_free_display, of cs "acc_seq a"]
  by (simp add: account_id_display_def account_id_local_def del: trace_display.simps)

theorem account_id_local_prefix_collapses_witness:
  "trace_verify (Remote [''localosmosis'']) = Ok ()
   \<and> account_id_from_str (account_id_display
       \<lparr>acc_trace = Remote [''localosmosis''], acc_seq = 3\<rparr>) = Ok (account_id_local 3)"
  using account_id_local_prefix_collapses
    [of "\<lparr>acc_trace = Remote [''localosmosis''], acc_seq = 3\<rparr>" "[''localosmosis'']"]
  by (simp add: trace_verify_Remote_Ok verified_chain_def is_ascii_lowercase_def LOCAL_def
      del: trace_verify.simps)

section \<open>Storage keys of account ids\<close>

lemma split_first_key_loop_Suc:
  assumes "length k < 2 ^ 16"
  shows "split_first_key_loop (Suc n) acc (be16 (length k) @ k @ r) =
    split_first_key_loop n ((if n \<noteq> 0 then acc @ be16 (length k) else acc) @ k) r"
  using of_be16_be16 [OF assms] by (simp add: be16_def Let_def)

text \<open>The bytes in front of the last part of a key whose parts all carry their length.\<close>

fun prefixed :: "string list \<Rightarrow> string" where
  "prefixed [] = []"
| "prefixed (k # ks) = be16 (length k) @ k @ prefixed ks"

lemma joined_key_append: "joined_key (ks @ [l]) = prefixed ks @ l"
proof (induction ks)
  case (Cons k ks)
  then show ?case by (cases "ks @ [l]") auto
qed simp

lemma split_first_key_prefixed:
  assumes "\<forall>k \<in> set (ks @ [l]). length k < 2 ^ 16"
  shows "split_first_key_loop (Suc (length ks)) acc (prefixed (ks @ [l]) @ r) =
    Ok (acc @ prefixed ks @ l, r)"
  using assms
proof (induction ks arbitrary: acc)
  case Nil
  then show ?case using split_first_key_loop_Suc [of l 0 acc r] by simp
next
  case (Cons k ks)
  then show ?case
    using split_first_key_loop_Suc [of k "Suc (length ks)" acc "prefixed (ks @ [l]) @ r"]
    by (simp del: split_first_key_loop.simps(2))
qed

lemma split_first_key_1:
  "length k < 2 ^ 16 \<Longrightarrow> split_first_key 1 (be16 (length k) @ k @ r) = Ok (k, r)"
  using split_first_key_loop_Suc [of k 0 "[]" r] by (simp add: split_first_key_def)

lemma valid_utf8_ascii: "\<forall>b \<in> set bs. b < 128 \<Longrightarrow> valid_utf8 bs"
  by (induction bs) auto

lemma from_utf8_verified: "verified_chain c \<Longrightarrow> from_utf8 c = Ok c"
  using verified_chain_chars(2) by (auto simp: from_utf8_def intro!: valid_utf8_ascii)

lemma chain_from_string_verified: "verified_chain c \<Longrightarrow> chain_from_string c = Ok c"
  by (simp add: chain_from_string_def verified_chain_def chain_verify_Ok [THEN iffD2])

lemma verified_chain_length: "verified_chain c \<Longrightarrow> length c < 2 ^ 16"
  by (simp add: verified_chain_def)

text \<open>One step of the deserialisation loop on a verified chain, and on padding.\<close>

lemma from_vec_loop_chain:
  assumes "verified_chain c"
  shows "trace_from_vec_loop (Suc n) i acc (be16 (length c) @ c @ r) =
    trace_from_vec_loop n (Suc i) (acc @ [c]) r"
proof -
  have "c \<noteq> ''local''" using assms by (simp add: verified_chain_def LOCAL_def)
  then show ?thesis
    using verified_chain_nonempty [OF assms] from_utf8_verified [OF assms]
      chain_from_string_verified [OF assms] split_first_key_1 [OF verified_chain_length [OF assms], of r]
    by simp
qed

lemma from_vec_loop_pad:
  "trace_from_vec_loop (Suc n) i acc (be16 0 @ r) = trace_from_vec_loop n (Suc i) acc r"
  using split_first_key_1 [of "[]" r] by simp

lemma from_vec_loop_chains:
  assumes "\<forall>c \<in> set cs. verified_chain c" and "length cs \<le> n"
  shows "trace_from_vec_loop n i acc (prefixed cs @ r) =
    trace_from_vec_loop (n - length cs) (i + length cs) (acc @ cs) r"
  using assms
proof (induction cs arbitrary: n i acc)
  case (Cons c cs)
  then obtain m where n: "n = Suc m" by (cases n) auto
  show ?case
    using Cons.prems Cons.IH [of m "Suc i" "acc @ [c]"]
      from_vec_loop_chain [of c m i acc "prefixed cs @ r"] n
    by (simp del: trace_from_vec_loop.simps(2))
qed simp

lemma from_vec_loop_pads:
  "trace_from_vec_loop n i acc (prefixed (replicate n []) @ r) = Ok (Remote acc)"
proof (induction n arbitrary: i)
  case (Suc n)
  then show ?case
    using from_vec_loop_pad [of n i acc "prefixed (replicate n []) @ r"]
    by (simp del: trace_from_vec_loop.simps(2))
qed simp

lemma prefixed_append: "prefixed (ks @ ls) = prefixed ks @ prefixed ls"
  by (induction ks) auto

lemma trace_from_vec_remote:
  assumes "\<forall>c \<in> set cs. verified_chain c" and "length cs \<le> 6"
  shows "account_trace_from_vec (joined_key (account_trace_key (Remote cs))) = Ok (Remote (take 5 cs))"
proof (cases "length cs \<le> 5")
  case True
  define n where "n = 5 - length cs"
  have "account_trace_key (Remote cs) = (cs @ replicate n []) @ [[]]"
    using True by (simp add: account_trace_key_def MAX_TRACE_LENGTH_def n_def
        replicate_append_same Suc_diff_le flip: replicate_Suc)
  then have "joined_key (account_trace_key (Remote cs)) = prefixed cs @ prefixed (replicate n [])"
    by (simp add: joined_key_append prefixed_append del: append_assoc)
  then show ?thesis
    using True assms from_vec_loop_chains [of cs 5 0 "[]" "prefixed (replicate n [])"]
      from_vec_loop_pads [of n "length cs" cs "[]"]
    by (simp add: account_trace_from_vec_def MAX_TRACE_LENGTH_def n_def)
next
  case False
  define ds where "ds = take 5 cs"
  have cs: "cs = ds @ [cs ! 5]" and len: "length ds = 5"
    using False assms(2) by (simp_all add: ds_def take_Suc_conv_app_nth [symmetric])
  have "account_trace_key (Remote cs) = cs"
    using False by (simp add: account_trace_key_def MAX_TRACE_LENGTH_def)
  then have "joined_key (account_trace_key (Remote cs)) = prefixed ds @ cs ! 5"
    using joined_key_append [of ds "cs ! 5"] cs by simp
  moreover have "\<forall>c \<in> set ds. verified_chain c"
    using assms(1) by (auto simp: ds_def dest: in_set_takeD)
  ultimately show ?thesis
    using from_vec_loop_chains [of ds 5 0 "[]" "cs ! 5"] len
    by (simp add: account_trace_from_vec_def MAX_TRACE_LENGTH_def ds_def)
qed

lemma trace_from_vec_local:
  "account_trace_from_vec (joined_key (account_trace_key Local)) = Ok Local"
  by code_simp

lemma trace_key_snoc:
  assumes "length (account_trace_key t) = 6"
  obtains ks l where "account_trace_key t = ks @ [l]" and "length ks = 5"
proof
  show "account_trace_key t = butlast (account_trace_key t) @ [last (account_trace_key t)]"
    using assms by (metis append_butlast_last_id list.size(3) zero_neq_numeral)
  show "length (butlast (account_trace_key t)) = 5" using assms by simp
qed

text \<open>
  reading back the storage key of an account id (as \<open>range\<close> over \<open>ACCOUNT_ADDRESSES\<close> does)
  returns the sequence and the first five chains of the trace: the identity for verified traces of
  at most five chains, while the sixth chain, which \<open>MAX_TRACE_LENGTH\<close> and \<open>verify\<close> allow, is
  dropped.
\<close>

theorem account_id_key_roundtrip:
  assumes "trace_verify (acc_trace a) = Ok ()"
  shows "account_id_from_vec (joined_key (account_id_key a)) =
    Ok (a\<lparr>acc_trace := (case acc_trace a of Local \<Rightarrow> Local | Remote cs \<Rightarrow> Remote (take 5 cs))\<rparr>)"
proof -
  let ?ks = "account_trace_key (acc_trace a)"
  have six: "length ?ks = 6 \<and> (\<forall>k \<in> set ?ks. length k < 2 ^ 16)"
  proof (cases "acc_trace a")
    case (Remote cs)
    then show ?thesis using assms verified_chain_length
      by (auto simp: account_trace_key_def MAX_TRACE_LENGTH_def trace_verify_Remote_Ok
          simp del: trace_verify.simps)
  qed (simp add: account_trace_key_def MAX_TRACE_LENGTH_def LOCAL_def)
  then obtain ks l where ks: "?ks = ks @ [l]" "length ks = 5" by (blast intro: trace_key_snoc)
  have max: "MAX_TRACE_LENGTH = Suc (length ks)"
    using ks by (simp add: MAX_TRACE_LENGTH_def)
  have key: "joined_key (account_id_key a) = prefixed (ks @ [l]) @ be32 (acc_seq a)"
    using joined_key_append [of "ks @ [l]" "be32 (acc_seq a)"] ks by (simp add: account_id_key_def)
  have "split_first_key MAX_TRACE_LENGTH (joined_key (account_id_key a)) =
      Ok (joined_key ?ks, be32 (acc_seq a))"
    using split_first_key_prefixed [of ks l "[]" "be32 (acc_seq a)"] six ks key max
    by (simp add: split_first_key_def joined_key_append del: split_first_key_loop.simps)
  moreover have "account_trace_from_vec (joined_key ?ks) =
      Ok (case acc_trace a of Local \<Rightarrow> Local | Remote cs \<Rightarrow> Remote (take 5 cs))"
    using assms trace_from_vec_local trace_from_vec_remote
    by (auto split: account_trace.split simp: trace_verify_Remote_Ok simp del: trace_verify.simps)
  ultimately show ?thesis
    by (simp add: account_id_from_vec_def of_be32_be32)
qed

theorem account_id_key_roundtrip_witness:
  "account_id_from_vec (joined_key (account_id_key
     \<lparr>acc_trace = Remote [''aaa'', ''bbb'', ''ccc'', ''ddd'', ''eee'', ''fff''], acc_seq = 9\<rparr>))
   = Ok \<lparr>acc_trace = Remote [''aaa'', ''bbb'', ''ccc'', ''ddd'', ''eee''], acc_seq = 9\<rparr>"
  by (subst account_id_key_roundtrip)
    (simp_all add: trace_verify_Remote_Ok verified_chain_def is_ascii_lowercase_def LOCAL_def
      del: trace_verify.simps)

section \<open>Interchain identities\<close>

text \<open>
  the id an account gets on a host chain leads back to the account: going from chain
  \<open>client\<close> to chain \<open>host\<close> and back is the identity on every id that is not an empty remote
  trace and whose trace does not already bounce between the two chains.
\<close>

theorem into_remote_account_id_inverse:
  assumes "acc_trace a \<noteq> Remote []"
    and "\<And>cs. acc_trace a \<noteq> Remote (cs @ [client, host])"
  shows "into_remote_account_id (into_remote_account_id a client host) host client = a"
proof (cases "acc_trace a")
  case Local
  then show ?thesis by (simp add: into_remote_account_id_def)
next
  case (Remote cs)
  then obtain ds c where cs: "cs = ds @ [c]"
    using assms(1) by (metis append_butlast_last_id)
  have last: "last_opt (xs @ [x]) = Some x" for xs and x :: string
    by (cases xs) auto
  show ?thesis
  proof (cases "c = host")
    case False
    then show ?thesis using Remote cs last [of ds c] last [of "ds @ [c]" client]
      by (simp add: into_remote_account_id_def butlast_append)
  next
    case True
    have "last_opt ds \<noteq> Some client"
    proof
      assume "last_opt ds = Some client"
      then obtain es where "ds = es @ [client]"
        using last by (cases ds rule: rev_cases) auto
      then show False using assms(2) [of es] Remote cs True by simp
    qed
    then show ?thesis using True Remote cs last [of ds c]
      by (cases "ds = []") (simp_all add: into_remote_account_id_def Let_def)
  qed
qed

theorem into_remote_account_id_inverse_witness:
  "into_remote_account_id (into_remote_account_id
     \<lparr>acc_trace = Remote [''juno''], acc_seq = 1\<rparr> ''osmosis'' ''juno'') ''juno'' ''osmosis''
   = \<lparr>acc_trace = Remote [''juno''], acc_seq = 1\<rparr>"
  by (rule into_remote_account_id_inverse) auto

text \<open>Verified ids are told apart by their storage keys.\<close>

lemma account_trace_key_inj:
  assumes "trace_verify s = Ok ()" and "trace_verify t = Ok ()"
    and "account_trace_key s = account_trace_key t"
  shows "s = t"
proof -
  have filt: "filter (\<lambda>k. k \<noteq> []) (account_trace_key (Remote cs)) = cs"
    if "trace_verify (Remote cs) = Ok ()" for cs
    using that verified_chain_nonempty
    by (auto simp: account_trace_key_def trace_verify_Remote_Ok filter_id_conv
        simp del: trace_verify.simps)
  have loc: "filter (\<lambda>k. k \<noteq> []) (account_trace_key Local) = [LOCAL]"
    by (simp add: account_trace_key_def LOCAL_def)
  have bad: "cs \<noteq> [LOCAL]" if "trace_verify (Remote cs) = Ok ()" for cs
  proof
    assume "cs = [LOCAL]"
    with that have "verified_chain LOCAL" unfolding trace_verify_Remote_Ok by simp
    then show False by (simp add: verified_chain_def)
  qed
  have neq: "account_trace_key (Remote cs) \<noteq> account_trace_key Local"
    if "trace_verify (Remote cs) = Ok ()" for cs
  proof
    assume "account_trace_key (Remote cs) = account_trace_key Local"
    with filt [OF that] loc have "cs = [LOCAL]" by simp
    with bad [OF that] show False by simp
  qed
  show ?thesis
  proof (cases s)
    case Local
    then show ?thesis using assms neq by (cases t) auto
  next
    case (Remote cs)
    note s = this
    show ?thesis
    proof (cases t)
      case Local
      then show ?thesis using assms s neq by auto
    next
      case (Remote ds)
      note t = this
      have "cs = filter (\<lambda>k. k \<noteq> []) (account_trace_key s)"
        using filt [of cs] assms(1) s by metis
      also have "\<dots> = ds"
        using filt [of ds] assms(2,3) t by metis
      finally show ?thesis using s t by simp
    qed
  qed
qed

lemma acc_key_inj:
  assumes "trace_verify (acc_trace a) = Ok ()" and "trace_verify (acc_trace b) = Ok ()"
    and "acc_key a = acc_key b"
  shows "a = b"
proof -
  have "account_trace_key (acc_trace a) = account_trace_key (acc_trace b)"
    using assms(3) inj_map_eq_map [of SubKey] by (simp add: acc_key_def inj_def)
  then show ?thesis
    using assms account_trace_key_inj by (simp add: acc_key_def account_id.equality)
qed

end
