(* ===== verification/Modules.thy ===== *)
theory Modules
  imports Identifiers
begin

text \<open>
  Module descriptions: names, namespaces and versions (\<open>objects/module.rs\<close>,
  \<open>objects/namespace.rs\<close>), references (\<open>objects/module_reference.rs\<close>), the on-chain module data
  and the upgrade rule (\<open>objects/module_version.rs\<close>). The \<open>semver\<close> crate is the parameter
  \<open>semver_lib\<close>; the raw queries for a contract's \<open>cw2\<close> and \<open>module_data\<close> items are arguments of
  the functions that use them.

  Theorems: identifiers and storage keys of modules come back from their encodings, the upgrade
  rule accepts exactly the single steps, and a validated module is what it claims to be.
\<close>

record semver_lib =
  sv_parse :: "string \<Rightarrow> version option"
  sv_less :: "version \<Rightarrow> version \<Rightarrow> bool"
  comp_matches :: "comparator \<Rightarrow> version \<Rightarrow> bool"
  sv_show :: "version \<Rightarrow> string"

definition semver_error :: abstract_error where
  "semver_error = Semver ''parse''"

section \<open>Names and namespaces\<close>

definition MAX_LENGTH :: nat where "MAX_LENGTH = 64"

definition module_validate_name :: "string \<Rightarrow> (unit, abstract_error) result" where
  "module_validate_name name =
     (if name = [] then Err (FormattingError ''module name'' ''with content'' ''empty'')
      else if MAX_LENGTH < length name
      then Err (FormattingError ''module name'' ''at most 64 characters'' (show_nat (length name)))
      else if list_ex (\<lambda>c. \<not> is_ascii_alphanumeric c \<and> c \<noteq> CHR ''-'') name
      then Err (FormattingError ''module name'' ''alphanumeric characters and hyphens'' name)
      else if name \<noteq> to_lowercase name
      then Err (FormattingError ''module name'' (to_lowercase name) name)
      else Ok ())"

definition namespace_new :: "string \<Rightarrow> (namespace, abstract_error) result" where
  "namespace_new ns = and_then (module_validate_name ns) (\<lambda>_. Ok ns)"

definition namespace_validate :: "namespace \<Rightarrow> (unit, abstract_error) result" where
  "namespace_validate ns = and_then (module_validate_name ns) (\<lambda>_. Ok ())"

definition namespace_from_id :: "string \<Rightarrow> (namespace, abstract_error) result" where
  "namespace_from_id mid =
     (let parts = split_char CHR '':'' mid
      in if length parts \<noteq> 2
         then Err (FormattingError ''module_id'' ''namespace:module'' mid)
         else namespace_new (parts ! 0))"

section \<open>Module infos\<close>

definition module_info_from_id ::
  "string \<Rightarrow> module_version \<Rightarrow> (module_info, abstract_error) result" where
  "module_info_from_id mid version =
     (let split = split_char CHR '':'' mid
      in if length split \<noteq> 2
         then Err (FormattingError ''contract id'' ''namespace:contract_name'' mid)
         else and_then (namespace_new (split ! 0)) (\<lambda>ns.
           Ok \<lparr>mi_namespace = ns, mi_name = to_lowercase (split ! 1), mi_version = version\<rparr>))"

definition module_info_from_id_latest :: "string \<Rightarrow> (module_info, abstract_error) result" where
  "module_info_from_id_latest mid = module_info_from_id mid Latest"

definition module_id :: "module_info \<Rightarrow> string" where
  "module_id mi = mi_namespace mi @ '':'' @ mi_name mi"

fun module_version_display :: "module_version \<Rightarrow> string" where
  "module_version_display Latest = ''latest''"
| "module_version_display (Version ver) = ver"

definition id_with_version :: "module_info \<Rightarrow> string" where
  "id_with_version mi = module_id mi @ '':'' @ module_version_display (mi_version mi)"

definition module_info_display :: "module_info \<Rightarrow> string" where
  "module_info_display mi = mi_name mi @ '' provided by '' @ mi_namespace mi @ '' with version ''
     @ module_version_display (mi_version mi)"

fun module_version_validate :: "semver_lib \<Rightarrow> module_version \<Rightarrow> (unit, abstract_error) result" where
  "module_version_validate sv Latest = Ok ()"
| "module_version_validate sv (Version ver) =
     and_then (ok_or semver_error (sv_parse sv ver)) (\<lambda>_. Ok ())"

definition module_version_from_str ::
  "semver_lib \<Rightarrow> string \<Rightarrow> (module_version, abstract_error) result" where
  "module_version_from_str sv s =
     (if s = ''latest'' then Ok Latest
      else and_then (module_version_validate sv (Version s)) (\<lambda>_. Ok (Version s)))"

fun module_version_try_into :: "semver_lib \<Rightarrow> module_version \<Rightarrow> (version, abstract_error) result" where
  "module_version_try_into sv Latest = Err (MissingVersion ''module'')"
| "module_version_try_into sv (Version ver) = ok_or semver_error (sv_parse sv ver)"

definition module_info_validate :: "semver_lib \<Rightarrow> module_info \<Rightarrow> (unit, abstract_error) result" where
  "module_info_validate sv mi =
     and_then (namespace_validate (mi_namespace mi)) (\<lambda>_.
     and_then (module_validate_name (mi_name mi)) (\<lambda>_.
     map_err (\<lambda>e. AbsStd (StdMsg (''Invalid version for module '' @ module_id mi)))
       (module_version_validate sv (mi_version mi))))"

definition assert_version_variant :: "semver_lib \<Rightarrow> module_info \<Rightarrow> (unit, abstract_error) result" where
  "assert_version_variant sv mi =
     (case mi_version mi of
        Latest \<Rightarrow> Err (Assert ''Module version must be set to a specific version'')
      | Version ver \<Rightarrow> and_then (ok_or semver_error (sv_parse sv ver)) (\<lambda>_. Ok ()))"

definition contract_version_of_module_info ::
  "module_info \<Rightarrow> (contract_version, abstract_error) result" where
  "contract_version_of_module_info mi =
     (case mi_version mi of
        Latest \<Rightarrow> Err (MissingVersion ''module'')
      | Version version \<Rightarrow>
          Ok \<lparr>cv_contract = mi_namespace mi @ '':'' @ mi_name mi, cv_version = version\<rparr>)"

definition module_info_of_contract_version ::
  "contract_version \<Rightarrow> (module_info, abstract_error) result" where
  "module_info_of_contract_version cv =
     (let split = split_char CHR '':'' (cv_contract cv)
      in if length split \<noteq> 2
         then Err (FormattingError ''contract id'' ''namespace:contract_name'' (cv_contract cv))
         else and_then (namespace_new (split ! 0)) (\<lambda>ns.
           Ok \<lparr>mi_namespace = ns, mi_name = to_lowercase (split ! 1),
               mi_version = Version (cv_version cv)\<rparr>))"

section \<open>Storage keys of modules\<close>

definition module_info_key :: "module_info \<Rightarrow> string list" where
  "module_info_key mi = [mi_namespace mi, mi_name mi, module_version_display (mi_version mi)]"

fun module_version_from_vec :: "string \<Rightarrow> (module_version, std_error) result" where
  "module_version_from_vec v =
     and_then (from_utf8 v) (\<lambda>val. if val = ''latest'' then Ok Latest else Ok (Version val))"

text \<open>\<open>Vec::split_off\<close> panics beyond the length.\<close>

definition split_off :: "nat \<Rightarrow> string \<Rightarrow> (string \<times> string, 'e) result" where
  "split_off n v = (if n \<le> length v then Ok (take n v, drop n v) else Panic)"

definition parse_length :: "string \<Rightarrow> (nat, std_error) result" where
  "parse_length v = (case v of [a, b] \<Rightarrow> Ok (of_be16 a b)
     | _ \<Rightarrow> Err (StdMsg ''Could not read 2 byte length''))"

definition module_info_from_vec :: "string \<Rightarrow> (module_info, std_error) result" where
  "module_info_from_vec v =
     and_then (split_off 2 v) (\<lambda>(len, prov_name_ver).
     and_then (parse_length len) (\<lambda>prov_len.
     and_then (split_off prov_len prov_name_ver) (\<lambda>(prov, len_name_ver).
     and_then (split_off 2 len_name_ver) (\<lambda>(len, name_ver).
     and_then (parse_length len) (\<lambda>ver_len.
     and_then (split_off ver_len name_ver) (\<lambda>(name, ver).
     and_then (from_utf8 prov) (\<lambda>prov.
     and_then (map_err (\<lambda>e. StdMsg ''Invalid namespace for module'') (namespace_new prov)) (\<lambda>ns.
     and_then (from_utf8 name) (\<lambda>name.
     and_then (module_version_from_vec ver) (\<lambda>version.
     Ok \<lparr>mi_namespace = ns, mi_name = name, mi_version = version\<rparr>))))))))))"

text \<open>The key under which the stores of the registry keep a module.\<close>

type_synonym module_key = "subkey \<times> subkey \<times> string"

definition mod_key :: "module_info \<Rightarrow> module_key" where
  "mod_key mi = (SubKey (mi_namespace mi), SubKey (mi_name mi),
     module_version_display (mi_version mi))"

definition key_version :: "module_key \<Rightarrow> module_version" where
  "key_version k = (let v = snd (snd k) in if v = ''latest'' then Latest else Version v)"

definition key_module_info :: "module_key \<Rightarrow> module_info" where
  "key_module_info k = \<lparr>mi_namespace = sub_bytes (fst k), mi_name = sub_bytes (fst (snd k)),
     mi_version = key_version k\<rparr>"

section \<open>Module references\<close>

definition module_reference_validate ::
  "(string \<Rightarrow> (addr, std_error) result) \<Rightarrow> module_reference \<Rightarrow> (unit, abstract_error) result" where
  "module_reference_validate addr_validate r =
     (case r of
        Native a \<Rightarrow> and_then (map_err AbsStd (addr_validate a)) (\<lambda>_. Ok ())
      | Adapter a \<Rightarrow> and_then (map_err AbsStd (addr_validate a)) (\<lambda>_. Ok ())
      | Service a \<Rightarrow> and_then (map_err AbsStd (addr_validate a)) (\<lambda>_. Ok ())
      | _ \<Rightarrow> Ok ())"

fun unwrap_account :: "module_reference \<Rightarrow> (u64, abstract_error) result" where
  "unwrap_account (Account v) = Ok v"
| "unwrap_account _ = Err (Assert ''module reference not an account module.'')"

fun unwrap_native :: "module_reference \<Rightarrow> (addr, abstract_error) result" where
  "unwrap_native (Native a) = Ok a"
| "unwrap_native _ = Err (Assert ''module reference not a native module.'')"

fun unwrap_adapter :: "module_reference \<Rightarrow> (addr, abstract_error) result" where
  "unwrap_adapter (Adapter a) = Ok a"
| "unwrap_adapter _ = Err (Assert ''module reference not an api module.'')"

fun unwrap_app :: "module_reference \<Rightarrow> (u64, abstract_error) result" where
  "unwrap_app (App v) = Ok v"
| "unwrap_app _ = Err (Assert ''module reference not an app module.'')"

fun unwrap_standalone :: "module_reference \<Rightarrow> (u64, abstract_error) result" where
  "unwrap_standalone (Standalone v) = Ok v"
| "unwrap_standalone _ = Err (Assert ''module reference not a standalone module.'')"

fun unwrap_service :: "module_reference \<Rightarrow> (addr, abstract_error) result" where
  "unwrap_service (Service a) = Ok a"
| "unwrap_service _ = Err (Assert ''module reference not a service module.'')"

fun unwrap_addr :: "module_reference \<Rightarrow> (addr, abstract_error) result" where
  "unwrap_addr (Native a) = Ok a"
| "unwrap_addr (Adapter a) = Ok a"
| "unwrap_addr (Service a) = Ok a"
| "unwrap_addr _ = Err (Assert ''module reference not a native or api module.'')"

fun unwrap_code_id :: "module_reference \<Rightarrow> (u64, abstract_error) result" where
  "unwrap_code_id (Account c) = Ok c"
| "unwrap_code_id (App c) = Ok c"
| "unwrap_code_id (Standalone c) = Ok c"
| "unwrap_code_id _ = Err (Assert ''module reference not account, app or standalone'')"

definition should_be_whitelisted :: "module \<Rightarrow> bool" where
  "should_be_whitelisted m =
     (case m_reference m of
        Adapter _ \<Rightarrow> True
      | App _ \<Rightarrow> True
      | Native _ \<Rightarrow> module_id (m_info m) = IBC_CLIENT
      | _ \<Rightarrow> False)"

section \<open>Module data\<close>

text \<open>\<open>migrate_module_data\<close> on the stored item.\<close>

definition migrate_module_data ::
  "module_data option \<Rightarrow> string \<Rightarrow> string \<Rightarrow> string option \<Rightarrow> module_data" where
  "migrate_module_data old name version metadata =
     (case old of
        None \<Rightarrow> \<lparr>md_module = name, md_version = version, md_dependencies = [], md_metadata = None\<rparr>
      | Some data \<Rightarrow> \<lparr>md_module = name, md_version = version,
          md_dependencies = md_dependencies data,
          md_metadata = (case metadata of Some m \<Rightarrow> Some m | None \<Rightarrow> md_metadata data)\<rparr>)"

text \<open>The rule every contract's \<open>migrate\<close> applies, on the stored \<open>cw2\<close> item.\<close>

definition assert_contract_upgrade ::
  "semver_lib \<Rightarrow> contract_version option \<Rightarrow> string \<Rightarrow> version \<Rightarrow> (unit, abstract_error) result" where
  "assert_contract_upgrade sv stored to_contract to_version =
     and_then (ok_or (AbsStd (StdNotFound ''contract_info'')) stored) (\<lambda>cv.
     and_then (ensure (cv_contract cv = to_contract)
       (ContractNameMismatch (cv_contract cv) to_contract)) (\<lambda>_.
     and_then (unwrap (sv_parse sv (cv_version cv))) (\<lambda>from_version.
     and_then (ensure (sv_less sv from_version to_version)
       (CannotDowngradeContract (cv_contract cv) from_version to_version)) (\<lambda>_.
     let major_diff = checked_sub (major to_version) (major from_version);
         minor_diff = checked_sub (minor to_version) (minor from_version);
         no_skips = (if major_diff = Some 1 then True
           else if major_diff = Some 0 \<and> minor_diff = Some 1 then True
           else if major_diff = Some 0 \<and> minor_diff = Some 0 then True
           else False)
     in ensure no_skips (CannotSkipVersion (cv_contract cv) from_version to_version)))))"

definition assert_module_data_validity ::
  "(addr \<Rightarrow> (contract_version, std_error) result) \<Rightarrow> (addr \<Rightarrow> (module_data, std_error) result)
   \<Rightarrow> module \<Rightarrow> addr option \<Rightarrow> (unit, abstract_error) result" where
  "assert_module_data_validity cw2_query module_query module_claim module_address =
     (case (case unwrap_addr (m_reference module_claim) of
              Ok a \<Rightarrow> Some a | _ \<Rightarrow> module_address) of
        None \<Rightarrow> Ok ()
      | Some module_address \<Rightarrow>
     (case mi_version (m_info module_claim) of
        Latest \<Rightarrow> Panic
      | Version version \<Rightarrow>
     (let cw_2_data_res = cw2_query module_address
      in case m_reference module_claim of
           Standalone _ \<Rightarrow>
             (case cw_2_data_res of
                Ok cw_2_data \<Rightarrow> ensure (version = cv_version cw_2_data)
                  (UnequalModuleData (cv_version cw_2_data) version)
              | _ \<Rightarrow> Ok ())
         | Service _ \<Rightarrow>
             (case cw_2_data_res of
                Ok cw_2_data \<Rightarrow> ensure (version = cv_version cw_2_data)
                  (UnequalModuleData (cv_version cw_2_data) version)
              | _ \<Rightarrow> Ok ())
         | ref \<Rightarrow>
             and_then (map_err AbsStd cw_2_data_res) (\<lambda>cw_2_data.
             and_then (ensure (module_id (m_info module_claim) = cv_contract cw_2_data)
               (UnequalModuleData (cv_contract cw_2_data) (module_id (m_info module_claim)))) (\<lambda>_.
             and_then (ensure (version = cv_version cw_2_data)
               (UnequalModuleData (cv_version cw_2_data) version)) (\<lambda>_.
             (case ref of
                Account _ \<Rightarrow> Ok ()
              | Native _ \<Rightarrow> Ok ()
              | Service _ \<Rightarrow> Ok ()
              | _ \<Rightarrow>
                  and_then (map_err AbsStd (module_query module_address)) (\<lambda>module_data.
                  and_then (ensure (md_module module_data = cv_contract cw_2_data)
                    (UnequalModuleData (cv_contract cw_2_data) (md_module module_data))) (\<lambda>_.
                  ensure (md_version module_data = cv_version cw_2_data)
                    (UnequalModuleData (cv_version cw_2_data) (md_version module_data)))))))))))"

lemmas [code_defs] = semver_error_def MAX_LENGTH_def

section \<open>Valid names\<close>

definition valid_name :: "string \<Rightarrow> bool" where
  "valid_name n \<longleftrightarrow> n \<noteq> [] \<and> length n \<le> 64
     \<and> (\<forall>c \<in> set n. is_ascii_lowercase c \<or> is_ascii_digit c \<or> c = CHR ''-'')"

lemma to_ascii_lower_upper: "is_ascii_uppercase c \<Longrightarrow> to_ascii_lower c \<noteq> c"
proof
  assume upper: "is_ascii_uppercase c" and "to_ascii_lower c = c"
  then have "of_char (char_of (of_char c + 32 :: nat) :: char) = (of_char c :: nat)"
    by (simp add: to_ascii_lower_def)
  moreover have "(of_char c :: nat) \<le> 90"
    using upper by (simp add: is_ascii_uppercase_def less_eq_char_def)
  ultimately show False by simp
qed

lemma to_lowercase_fixed: "to_lowercase n = n \<longleftrightarrow> (\<forall>c \<in> set n. \<not> is_ascii_uppercase c)"
proof (induction n)
  case (Cons c n)
  have "to_ascii_lower c = c \<longleftrightarrow> \<not> is_ascii_uppercase c"
    using to_ascii_lower_upper [of c] by (auto simp: to_ascii_lower_def)
  with Cons show ?case by (simp add: to_lowercase_def)
qed (simp add: to_lowercase_def)

lemma module_validate_name_Ok: "module_validate_name n = Ok () \<longleftrightarrow> valid_name n"
proof -
  have "is_ascii_lowercase c \<Longrightarrow> \<not> is_ascii_uppercase c"
    and "is_ascii_digit c \<Longrightarrow> \<not> is_ascii_uppercase c"
    and "\<not> is_ascii_uppercase CHR ''-''" for c
    by (auto simp: is_ascii_lowercase_def is_ascii_uppercase_def is_ascii_digit_def less_eq_char_def)
  then show ?thesis
    using to_lowercase_fixed [of n]
    by (auto simp: module_validate_name_def valid_name_def MAX_LENGTH_def list_ex_iff
        is_ascii_alphanumeric_def)
qed

lemma valid_name_char:
  assumes "valid_name n" and "c \<in> set n"
  shows "c \<noteq> CHR '':''" and "of_char c < (128 :: nat)" and "\<not> is_ascii_uppercase c"
  using assms
  by (auto simp: valid_name_def is_ascii_lowercase_def is_ascii_uppercase_def is_ascii_digit_def
      less_eq_char_def)

lemma valid_name_utf8: "valid_name n \<Longrightarrow> from_utf8 n = Ok n"
  using valid_name_char(2) by (auto simp: from_utf8_def intro!: valid_utf8_ascii)

lemma valid_name_lowercase: "valid_name n \<Longrightarrow> to_lowercase n = n"
  using valid_name_char(3) by (auto simp: to_lowercase_fixed)

lemma namespace_new_valid: "valid_name ns \<Longrightarrow> namespace_new ns = Ok ns"
  by (simp add: namespace_new_def module_validate_name_Ok [THEN iffD2])

lemma namespace_new_Ok: "namespace_new s = Ok ns \<longleftrightarrow> valid_name s \<and> ns = s"
  by (auto simp: namespace_new_def result_simps module_validate_name_Ok)

lemma split_module_id:
  assumes "valid_name (mi_namespace mi)" and "valid_name (mi_name mi)"
  shows "split_char CHR '':'' (module_id mi) = [mi_namespace mi, mi_name mi]"
proof -
  have "CHR '':'' \<notin> set (mi_namespace mi)" and "CHR '':'' \<notin> set (mi_name mi)"
    using assms valid_name_char(1) by blast+
  then show ?thesis by (simp add: module_id_def split_char_append split_char_no_sep)
qed

section \<open>Encodings of a module come back\<close>

text \<open>
  for a module info that passes validation, \<open>ModuleInfo::from_id\<close> reads the text of
  \<open>module_id\<close> back, and converting to a \<open>cw2\<close> contract version and back is the identity.
\<close>

theorem module_info_id_roundtrip:
  assumes "module_info_validate sv mi = Ok ()"
  shows "module_info_from_id (module_id mi) (mi_version mi) = Ok mi
    \<and> namespace_from_id (module_id mi) = Ok (mi_namespace mi)
    \<and> (mi_version mi \<noteq> Latest \<longrightarrow>
        and_then (contract_version_of_module_info mi) module_info_of_contract_version = Ok mi)"
proof -
  have valid: "valid_name (mi_namespace mi)" "valid_name (mi_name mi)"
    using assms
    by (auto simp: module_info_validate_def namespace_validate_def result_simps
        module_validate_name_Ok)
  note split = split_module_id [OF valid]
  have id: "module_info_from_id (module_id mi) v = Ok (mi\<lparr>mi_version := v\<rparr>)" for v
    using split valid
    by (simp add: module_info_from_id_def namespace_new_valid valid_name_lowercase)
  have cv: "module_info_of_contract_version \<lparr>cv_contract = module_id mi, cv_version = ver\<rparr> =
      Ok (mi\<lparr>mi_version := Version ver\<rparr>)" for ver
    using split valid
    by (simp add: module_info_of_contract_version_def namespace_new_valid valid_name_lowercase)
  have ns: "namespace_from_id (module_id mi) = Ok (mi_namespace mi)"
    using split valid by (simp add: namespace_from_id_def namespace_new_valid)
  have conv: "and_then (contract_version_of_module_info mi) module_info_of_contract_version = Ok mi"
    if "mi_version mi = Version ver" for ver
  proof -
    have "mi\<lparr>mi_version := Version ver\<rparr> = mi" using that by simp
    then show ?thesis
      using cv [of ver] that by (simp add: contract_version_of_module_info_def module_id_def)
  qed
  show ?thesis
    using id [of "mi_version mi"] conv ns by (cases "mi_version mi") simp_all
qed

theorem module_info_id_roundtrip_witness:
  "module_info_from_id ''abstract:dex'' (Version ''1.0.0'') =
     Ok \<lparr>mi_namespace = ''abstract'', mi_name = ''dex'', mi_version = Version ''1.0.0''\<rparr>"
proof -
  define sv where "sv = \<lparr>sv_parse = (\<lambda>_. Some \<lparr>major = 1, minor = 0, patch = 0, pre = [], build = []\<rparr>),
    sv_less = (\<lambda>_ _. False), comp_matches = (\<lambda>_ _. True), sv_show = (\<lambda>_. [])\<rparr>"
  let ?mi = "\<lparr>mi_namespace = ''abstract'', mi_name = ''dex'', mi_version = Version ''1.0.0''\<rparr>"
  have "module_info_validate sv ?mi = Ok ()"
    by (simp add: sv_def module_info_validate_def namespace_validate_def module_validate_name_Ok
        valid_name_def is_ascii_lowercase_def [abs_def] result_simps)
  from module_info_id_roundtrip [OF this] show ?thesis by (simp add: module_id_def)
qed

lemma split_off_append: "length a = n \<Longrightarrow> split_off n (a @ b) = Ok (a, b)"
  by (simp add: split_off_def)

lemma parse_length_be16: "n < 2 ^ 16 \<Longrightarrow> parse_length (be16 n) = Ok n"
  using of_be16_be16 [of n] by (simp add: parse_length_def be16_def)

text \<open>
  the storage key of a module info (namespace, name and version, the first two with their
  length) deserialises to the same module info, for every valid namespace, every name up to the
  16-bit length bound and every version other than the literal text "latest".
\<close>

theorem module_info_key_roundtrip:
  assumes "valid_name (mi_namespace mi)"
    and "from_utf8 (mi_name mi) = Ok (mi_name mi)" and "length (mi_name mi) < 2 ^ 16"
    and "\<And>ver. mi_version mi = Version ver \<Longrightarrow> from_utf8 ver = Ok ver \<and> ver \<noteq> ''latest''"
  shows "module_info_from_vec (joined_key (module_info_key mi)) = Ok mi
    \<and> key_module_info (mod_key mi) = mi"
proof -
  let ?ns = "mi_namespace mi" and ?n = "mi_name mi"
  let ?v = "module_version_display (mi_version mi)"
  have key: "joined_key (module_info_key mi) =
      be16 (length ?ns) @ ?ns @ be16 (length ?n) @ ?n @ ?v"
    by (simp add: module_info_key_def)
  have ns: "length ?ns < 2 ^ 16" using assms(1) by (simp add: valid_name_def)
  have utf8_latest: "from_utf8 ''latest'' = Ok ''latest''"
    by (simp add: from_utf8_def)
  have ver: "module_version_from_vec ?v = Ok (mi_version mi)"
    using assms(4) utf8_latest by (cases "mi_version mi") auto
  have "module_info_from_vec (joined_key (module_info_key mi)) = Ok mi"
    unfolding key module_info_from_vec_def
    using ns assms(1-3) ver
    by (simp add: split_off_append parse_length_be16 valid_name_utf8 namespace_new_valid
        del: module_version_from_vec.simps)
  moreover have "key_module_info (mod_key mi) = mi"
    using assms(4) by (cases "mi_version mi") (auto simp: key_module_info_def mod_key_def key_version_def)
  ultimately show ?thesis ..
qed

theorem module_info_key_roundtrip_witness:
  "module_info_from_vec (joined_key (module_info_key
     \<lparr>mi_namespace = ''abstract'', mi_name = ''dex'', mi_version = Version ''1.0.0''\<rparr>))
   = Ok \<lparr>mi_namespace = ''abstract'', mi_name = ''dex'', mi_version = Version ''1.0.0''\<rparr>"
  by (rule module_info_key_roundtrip [THEN conjunct1])
    (auto simp: valid_name_def is_ascii_lowercase_def from_utf8_def)

section \<open>The upgrade rule\<close>

text \<open>
  \<open>assert_contract_upgrade\<close> accepts exactly an upgrade of the same contract to a greater
  version whose major number is one higher, or whose major number is equal and whose minor number
  is equal or one higher (no wrap-around of the 64-bit numbers); a stored version that does not
  parse is a panic, and every other case is an error.
\<close>

theorem assert_contract_upgrade_iff:
  "assert_contract_upgrade sv stored c v = Ok () \<longleftrightarrow>
    (\<exists>cv from. stored = Some cv \<and> cv_contract cv = c \<and> sv_parse sv (cv_version cv) = Some from
       \<and> sv_less sv from v
       \<and> (unat (major v) = unat (major from) + 1
          \<or> major v = major from
            \<and> (minor v = minor from \<or> unat (minor v) = unat (minor from) + 1)))"
proof -
  have one: "checked_sub a b = Some 1 \<longleftrightarrow> unat a = unat b + 1" for a b :: u64
    by (simp add: checked_sub_Some)
  have zero: "checked_sub a b = Some 0 \<longleftrightarrow> a = b" for a b :: u64
    by (auto simp: checked_sub_Some word_unat_eq_iff)
  show ?thesis
    by (auto simp: assert_contract_upgrade_def result_simps Let_def one zero)
qed

section \<open>Validated modules\<close>

text \<open>
  an adapter that passes \<open>assert_module_data_validity\<close> is what it claims to be: the \<open>cw2\<close>
  item of its contract holds the claimed id and version, and so does its module data. For an app the
  same holds of the address it was instantiated at.
\<close>

theorem assert_module_data_validity_sound:
  assumes "assert_module_data_validity cw2_query module_query m maddr = Ok ()"
    and "(m_reference m = Adapter a) \<or> (\<exists>c. m_reference m = App c) \<and> maddr = Some a"
  shows "\<exists>ver cv md. mi_version (m_info m) = Version ver \<and> cw2_query a = Ok cv
    \<and> cv_contract cv = module_id (m_info m) \<and> cv_version cv = ver
    \<and> module_query a = Ok md \<and> md_module md = module_id (m_info m) \<and> md_version md = ver"
  using assms
  by (auto simp: assert_module_data_validity_def result_simps split: module_version.splits)

theorem assert_module_data_validity_sound_witness:
  "\<exists>ver cv md. mi_version \<lparr>mi_namespace = ''abstract'', mi_name = ''dex'', mi_version = Version ''1''\<rparr>
      = Version ver
    \<and> (Ok \<lparr>cv_contract = ''abstract:dex'', cv_version = ''1''\<rparr> :: (contract_version, std_error) result)
      = Ok cv
    \<and> cv_contract cv = ''abstract:dex'' \<and> cv_version cv = ver
    \<and> (Ok \<lparr>md_module = ''abstract:dex'', md_version = ''1'', md_dependencies = [], md_metadata = None\<rparr>
        :: (module_data, std_error) result) = Ok md
    \<and> md_module md = ''abstract:dex'' \<and> md_version md = ver"
proof -
  let ?mi = "\<lparr>mi_namespace = ''abstract'', mi_name = ''dex'', mi_version = Version ''1''\<rparr>"
  let ?m = "\<lparr>m_info = ?mi, m_reference = Adapter ''addr''\<rparr>"
  have "assert_module_data_validity
      (\<lambda>_. Ok \<lparr>cv_contract = ''abstract:dex'', cv_version = ''1''\<rparr>)
      (\<lambda>_. Ok \<lparr>md_module = ''abstract:dex'', md_version = ''1'', md_dependencies = [], md_metadata = None\<rparr>)
      ?m None = Ok ()"
    by (simp add: assert_module_data_validity_def module_id_def)
  from assert_module_data_validity_sound [OF this, of "''addr''"] show ?thesis
    by (simp add: module_id_def)
qed

end
