(* ===== verification/Ans_Objects.thy ===== *)
theory Ans_Objects
  imports Modules
begin

text \<open>
  Entries of the name service (\<open>objects/entry\<close>, \<open>objects/pool\<close>): assets, contracts, channels, pairs of
  assets on an exchange, liquidity tokens and pools, with their text forms, their storage keys and
  the conversions between them. An asset entry, an exchange name and a pool number are a string and
  a 64-bit integer.

  Theorems: text forms and storage keys come back.
\<close>

type_synonym asset_entry = string
type_synonym dex_name = string
type_synonym unique_pool_id = u64

definition ASSET_DELIMITER :: char where "ASSET_DELIMITER = CHR '',''"
definition TYPE_DELIMITER :: char where "TYPE_DELIMITER = CHR ''/''"
definition ATTRIBUTE_DELIMITER :: char where "ATTRIBUTE_DELIMITER = CHR '':''"

lemmas delimiters = ASSET_DELIMITER_def TYPE_DELIMITER_def ATTRIBUTE_DELIMITER_def CHAIN_DELIMITER_def

section \<open>Assets (entry/asset_entry.rs)\<close>

definition asset_entry_new :: "string \<Rightarrow> asset_entry" where
  "asset_entry_new entry = to_lowercase entry"

definition asset_entry_format :: "asset_entry \<Rightarrow> asset_entry" where
  "asset_entry_format e = to_lowercase e"

definition entry_formatting_error :: "asset_entry \<Rightarrow> (string, abstract_error) result" where
  "entry_formatting_error e = Err (EntryFormattingError e ''src_chain>asset_name'')"

text \<open>\<open>splitn(2, c)\<close> has one part without the delimiter and two with it.\<close>

definition src_chain :: "asset_entry \<Rightarrow> (string, abstract_error) result" where
  "src_chain e =
     (case split_once CHAIN_DELIMITER e of
        None \<Rightarrow> entry_formatting_error e
      | Some (chain, asset_name) \<Rightarrow>
          if chain = [] then entry_formatting_error e
          else if asset_name \<noteq> [] then Ok chain else entry_formatting_error e)"

section \<open>Contracts (entry/contract_entry.rs)\<close>

record contract_entry =
  ce_protocol :: string
  ce_contract :: string

definition contract_entry_check :: "contract_entry \<Rightarrow> contract_entry" where
  "contract_entry_check e = \<lparr>ce_protocol = to_lowercase (ce_protocol e),
     ce_contract = to_lowercase (ce_contract e)\<rparr>"

definition unchecked_contract_entry_try_from :: "string \<Rightarrow> (contract_entry, std_error) result" where
  "unchecked_contract_entry_try_from entry =
     (case split_once ATTRIBUTE_DELIMITER entry of
        None \<Rightarrow> Err (StdMsg ''contract entry should be formatted as protocol:contract_name'')
      | Some (protocol, contract_name) \<Rightarrow> Ok \<lparr>ce_protocol = protocol, ce_contract = contract_name\<rparr>)"

definition contract_entry_from_str :: "string \<Rightarrow> (contract_entry, std_error) result" where
  "contract_entry_from_str s = map_ok contract_entry_check (unchecked_contract_entry_try_from s)"

definition contract_entry_display :: "contract_entry \<Rightarrow> string" where
  "contract_entry_display e = ce_protocol e @ ATTRIBUTE_DELIMITER # ce_contract e"

definition contract_entry_key :: "contract_entry \<Rightarrow> string list" where
  "contract_entry_key e = [ce_protocol e, ce_contract e]"

definition contract_entry_from_vec :: "string \<Rightarrow> (contract_entry, std_error) result" where
  "contract_entry_from_vec v =
     and_then (split_off 2 v) (\<lambda>(len, tu).
     and_then (parse_length len) (\<lambda>t_len.
     and_then (split_off t_len tu) (\<lambda>(t, u).
     and_then (from_utf8 t) (\<lambda>protocol.
     and_then (from_utf8 u) (\<lambda>contract.
     Ok \<lparr>ce_protocol = protocol, ce_contract = contract\<rparr>)))))"

section \<open>Channels (entry/channel_entry.rs)\<close>

record channel_entry =
  connected_chain :: truncated_chain_id
  che_protocol :: string

definition channel_entry_check :: "channel_entry \<Rightarrow> (channel_entry, abstract_error) result" where
  "channel_entry_check e =
     and_then (chain_from_string (connected_chain e)) (\<lambda>chain_name.
     Ok \<lparr>connected_chain = chain_name, che_protocol = to_lowercase (che_protocol e)\<rparr>)"

definition unchecked_channel_entry_try_from :: "string \<Rightarrow> (channel_entry, std_error) result" where
  "unchecked_channel_entry_try_from entry =
     (case split_char CHR ''/'' entry of
        [c, p] \<Rightarrow> Ok \<lparr>connected_chain = c, che_protocol = p\<rparr>
      | _ \<Rightarrow> Err (StdMsg ''connected_chain entry should be formatted as connected_chain_name/protocol''))"

definition channel_entry_display :: "channel_entry \<Rightarrow> string" where
  "channel_entry_display e = connected_chain e @ CHR ''/'' # che_protocol e"

definition channel_entry_key :: "channel_entry \<Rightarrow> string list" where
  "channel_entry_key e = [connected_chain e, che_protocol e]"

definition channel_entry_from_vec :: "string \<Rightarrow> (channel_entry, std_error) result" where
  "channel_entry_from_vec v =
     and_then (split_off 2 v) (\<lambda>(len, tu).
     and_then (parse_length len) (\<lambda>t_len.
     and_then (split_off t_len tu) (\<lambda>(t, u).
     and_then (from_utf8 t) (\<lambda>chain.
     and_then (from_utf8 u) (\<lambda>protocol.
     Ok \<lparr>connected_chain = chain, che_protocol = protocol\<rparr>)))))"

section \<open>Pairs of assets on an exchange (entry/dex_asset_pairing.rs)\<close>

record dex_asset_pairing =
  asset_x :: asset_entry
  asset_y :: asset_entry
  dap_dex :: dex_name

definition dex_asset_pairing_new :: "asset_entry \<Rightarrow> asset_entry \<Rightarrow> dex_name \<Rightarrow> dex_asset_pairing" where
  "dex_asset_pairing_new x y d = \<lparr>asset_x = x, asset_y = y, dap_dex = to_lowercase d\<rparr>"

definition dex_asset_pairing_display :: "dex_asset_pairing \<Rightarrow> string" where
  "dex_asset_pairing_display p =
     dap_dex p @ TYPE_DELIMITER # asset_x p @ ASSET_DELIMITER # asset_y p"

section \<open>Pools (pool)\<close>

datatype pool_type = ConstantProduct | Stable | Weighted | LiquidityBootstrap | ConcentratedLiquidity

definition pool_type_from_str :: "string \<Rightarrow> (pool_type, std_error) result" where
  "pool_type_from_str s =
     (if s = ''constant_product'' then Ok ConstantProduct
      else if s = ''stable'' then Ok Stable
      else if s = ''weighted'' then Ok Weighted
      else if s = ''liquidity_bootstrap'' then Ok LiquidityBootstrap
      else if s = ''concentrated_liquidity'' then Ok ConcentratedLiquidity
      else Err (StdMsg (''invalid pool type '' @ s)))"

fun pool_type_display :: "pool_type \<Rightarrow> string" where
  "pool_type_display ConstantProduct = ''constant_product''"
| "pool_type_display Stable = ''stable''"
| "pool_type_display Weighted = ''weighted''"
| "pool_type_display LiquidityBootstrap = ''liquidity_bootstrap''"
| "pool_type_display ConcentratedLiquidity = ''concentrated_liquidity''"

datatype pool_address = SeparateAddresses addr addr | PoolContract addr | PoolId u64

fun expect_contract :: "pool_address \<Rightarrow> (addr, abstract_error) result" where
  "expect_contract (PoolContract a) = Ok a"
| "expect_contract _ = Err (Assert ''Pool address not a contract address.'')"

fun expect_id :: "pool_address \<Rightarrow> (u64, abstract_error) result" where
  "expect_id (PoolId i) = Ok i"
| "expect_id _ = Err (Assert ''Pool address not an numerical ID.'')"

text \<open>\<open>str::parse::<u64>\<close>\<close>

definition parse_u64 :: "string \<Rightarrow> u64 option" where
  "parse_u64 s =
     (let ds = (case s of c # r \<Rightarrow> (if c = CHR ''+'' then r else s) | [] \<Rightarrow> [])
      in if ds = [] then None
         else Option.bind (parse_digits ds) (\<lambda>n. if n < 2 ^ 64 then Some (of_nat n) else None))"

definition pool_address_from_str :: "string \<Rightarrow> (pool_address, abstract_error) result" where
  "pool_address_from_str s =
     (let words = split_char CHR '':'' s
      in if hd words = ''contract''
         then (if length words \<noteq> 2
           then Err (FormattingError ''unchecked pool address'' ''contract:{{contract_addr}}'' s)
           else Ok (PoolContract (words ! 1)))
         else if hd words = ''id''
         then (if length words \<noteq> 2
           then Err (FormattingError ''unchecked pool address'' ''id:{{pool_id}}'' s)
           else (case parse_u64 (words ! 1) of
               Some i \<Rightarrow> Ok (PoolId i)
             | None \<Rightarrow> Err (AbsStd (StdMsg ''parse''))))
         else Err (FormattingError ''unchecked pool address'' ''contract or id'' s))"

fun pool_address_display :: "pool_address \<Rightarrow> string" where
  "pool_address_display (PoolContract a) = ''contract:'' @ a"
| "pool_address_display (PoolId i) = ''id:'' @ show_nat (unat i)"
| "pool_address_display (SeparateAddresses swap liquidity) = ''swap:'' @ swap @ '', pair: '' @ liquidity"

fun pool_address_check ::
  "(string \<Rightarrow> (addr, std_error) result) \<Rightarrow> pool_address \<Rightarrow> (pool_address, abstract_error) result" where
  "pool_address_check validate (PoolContract a) =
     and_then (map_err AbsStd (validate a)) (\<lambda>a. Ok (PoolContract a))"
| "pool_address_check validate (PoolId i) = Ok (PoolId i)"
| "pool_address_check validate (SeparateAddresses swap liquidity) =
     and_then (map_err AbsStd (validate swap)) (\<lambda>swap.
     and_then (map_err AbsStd (validate liquidity)) (\<lambda>liquidity.
     Ok (SeparateAddresses swap liquidity)))"

record pool_reference =
  unique_id :: unique_pool_id
  pool_address :: pool_address

record pool_metadata =
  pm_dex :: dex_name
  pm_pool_type :: pool_type
  pm_assets :: "asset_entry list"

definition pool_metadata_new :: "string \<Rightarrow> pool_type \<Rightarrow> string list \<Rightarrow> pool_metadata" where
  "pool_metadata_new dex pt assets =
     \<lparr>pm_dex = dex, pm_pool_type = pt, pm_assets = sort (map asset_entry_new assets)\<rparr>"

definition pool_metadata_from_str :: "string \<Rightarrow> (pool_metadata, std_error) result" where
  "pool_metadata_from_str s =
     (case Option.bind (split_once TYPE_DELIMITER s) (\<lambda>(dex, remainder).
        map_option (\<lambda>(assets, pt). (dex, assets, pt)) (split_once ATTRIBUTE_DELIMITER remainder)) of
        None \<Rightarrow> Err (StdMsg (''invalid pool metadata format '' @ s))
      | Some (dex, assets, pt) \<Rightarrow>
          let assets = split_char ASSET_DELIMITER assets
          in and_then (pool_type_from_str pt) (\<lambda>pt. Ok (pool_metadata_new dex pt assets)))"

definition pool_metadata_display :: "pool_metadata \<Rightarrow> string" where
  "pool_metadata_display md = pm_dex md @ TYPE_DELIMITER # join ASSET_DELIMITER (pm_assets md)
     @ ATTRIBUTE_DELIMITER # pool_type_display (pm_pool_type md)"

section \<open>Liquidity tokens and conversions (entry/lp_token.rs, entry/ans_entry_convertor.rs)\<close>

record lp_token =
  lp_dex :: dex_name
  lp_assets :: "asset_entry list"

definition lp_token_new :: "string \<Rightarrow> string list \<Rightarrow> lp_token" where
  "lp_token_new dex assets = \<lparr>lp_dex = dex, lp_assets = sort (map asset_entry_new assets)\<rparr>"

definition lp_token_display :: "lp_token \<Rightarrow> string" where
  "lp_token_display t = lp_dex t @ TYPE_DELIMITER # join ASSET_DELIMITER (lp_assets t)"

definition lp_token_asset_entry :: "lp_token \<Rightarrow> asset_entry" where
  "lp_token_asset_entry t = asset_entry_new (lp_token_display t)"

text \<open>Two \<open>pop().unwrap()\<close> from the reversed list: the two least assets.\<close>

definition lp_token_dex_asset_pairing :: "lp_token \<Rightarrow> (dex_asset_pairing, 'e) result" where
  "lp_token_dex_asset_pairing t =
     (case sort (lp_assets t) of
        x # y # _ \<Rightarrow> Ok (dex_asset_pairing_new x y (lp_dex t))
      | _ \<Rightarrow> Panic)"

definition pool_metadata_lp_token :: "pool_metadata \<Rightarrow> lp_token" where
  "pool_metadata_lp_token md = \<lparr>lp_dex = pm_dex md, lp_assets = pm_assets md\<rparr>"

definition pool_metadata_lp_token_asset :: "pool_metadata \<Rightarrow> asset_entry" where
  "pool_metadata_lp_token_asset md = lp_token_asset_entry (pool_metadata_lp_token md)"

definition asset_entry_lp_token :: "asset_entry \<Rightarrow> (lp_token, abstract_error) result" where
  "asset_entry_lp_token e =
     (let segments = split_char TYPE_DELIMITER e
      in if length segments \<noteq> 2 then Err (FormattingError ''lp token'' ''type/asset1,asset2'' e)
         else
         let assets = sort (map asset_entry_new (split_char ASSET_DELIMITER (segments ! 1)))
         in if length assets < 2
            then Err (FormattingError ''lp token'' ''at least 2 assets in LP token'' e)
            else Ok \<lparr>lp_dex = segments ! 0, lp_assets = assets\<rparr>)"

record ans_asset =
  aa_name :: asset_entry
  aa_amount :: u256

definition ans_asset_new :: "string \<Rightarrow> u256 \<Rightarrow> ans_asset" where
  "ans_asset_new name amt = \<lparr>aa_name = asset_entry_new name, aa_amount = amt\<rparr>"

definition ans_asset_display :: "ans_asset \<Rightarrow> string" where
  "ans_asset_display a = aa_name a @ CHR '':'' # show_nat (unat (aa_amount a))"

section \<open>Text forms come back\<close>

lemma to_lowercase_idem [simp]: "to_lowercase (to_lowercase s) = to_lowercase s"
proof -
  have "to_ascii_lower (to_ascii_lower c) = to_ascii_lower c" for c
  proof (cases "is_ascii_uppercase c")
    case True
    then have "of_char c \<le> (90 :: nat)" "65 \<le> (of_char c :: nat)"
      by (auto simp: is_ascii_uppercase_def less_eq_char_def)
    then show ?thesis
      using True by (simp add: to_ascii_lower_def is_ascii_uppercase_def less_eq_char_def)
  qed (simp add: to_ascii_lower_def)
  then show ?thesis by (simp add: to_lowercase_def)
qed

lemma to_lowercase_Cons: "to_lowercase (c # s) = to_ascii_lower c # to_lowercase s"
  and to_lowercase_append: "to_lowercase (s @ t) = to_lowercase s @ to_lowercase t"
  by (simp_all add: to_lowercase_def)

text \<open>A list of entries in the form the constructors give it: in lower case and sorted.\<close>

definition normal_assets :: "asset_entry list \<Rightarrow> bool" where
  "normal_assets as \<longleftrightarrow> sorted as \<and> list_all (\<lambda>a. to_lowercase a = a) as"

lemma normal_assets_new: "normal_assets (sort (map asset_entry_new as))"
  by (auto simp: normal_assets_def asset_entry_new_def list_all_iff)

lemma normal_assets_fixed: "normal_assets as \<Longrightarrow> sort (map asset_entry_new as) = as"
  by (simp add: normal_assets_def asset_entry_new_def list_all_iff map_idI sorted_sort_id)

lemma pool_type_roundtrip [simp]: "pool_type_from_str (pool_type_display pt) = Ok pt"
  by (cases pt) (simp_all add: pool_type_from_str_def)

lemma set_join: "set (join c ps) \<subseteq> insert c (\<Union> (set ` set ps))"
  by (induction c ps rule: join.induct) auto

lemma to_lowercase_join:
  "to_ascii_lower c = c \<Longrightarrow> \<forall>p \<in> set ps. to_lowercase p = p \<Longrightarrow> to_lowercase (join c ps) = join c ps"
  by (induction c ps rule: join.induct) (simp_all add: to_lowercase_append to_lowercase_Cons to_lowercase_def)

lemma pool_metadata_text:
  assumes "CHR ''/'' \<notin> set (pm_dex md)" and "pm_assets md \<noteq> []" and "normal_assets (pm_assets md)"
    and "\<forall>a \<in> set (pm_assets md). CHR '','' \<notin> set a \<and> CHR '':'' \<notin> set a"
  shows "pool_metadata_from_str (pool_metadata_display md) = Ok md"
proof -
  let ?j = "join CHR '','' (pm_assets md)"
  have "CHR '':'' \<notin> set ?j" using assms(4) set_join [of "CHR '',''" "pm_assets md"] by fastforce
  then show ?thesis
    using assms split_char_join [OF assms(2)] normal_assets_fixed [OF assms(3)]
    by (simp add: pool_metadata_from_str_def pool_metadata_display_def delimiters split_once_append
        pool_metadata_new_def)
qed

lemma asset_entry_lp_token_text:
  assumes "CHR ''/'' \<notin> set (lp_dex t)" and "to_lowercase (lp_dex t) = lp_dex t"
    and "2 \<le> length (lp_assets t)" and "normal_assets (lp_assets t)"
    and "\<forall>a \<in> set (lp_assets t). CHR '','' \<notin> set a \<and> CHR ''/'' \<notin> set a"
  shows "asset_entry_lp_token (lp_token_asset_entry t) = Ok t"
proof -
  let ?j = "join CHR '','' (lp_assets t)"
  have ne: "lp_assets t \<noteq> []" using assms(3) by auto
  have "CHR ''/'' \<notin> set ?j" using assms(5) set_join [of "CHR '',''" "lp_assets t"] by fastforce
  then have "split_char CHR ''/'' (lp_token_display t) = [lp_dex t, ?j]"
    using assms(1) by (simp add: lp_token_display_def delimiters split_char_append split_char_no_sep)
  moreover have "to_lowercase ?j = ?j"
    using assms(4) by (intro to_lowercase_join)
      (simp_all add: to_ascii_lower_def is_ascii_uppercase_def normal_assets_def list_all_iff)
  then have "to_lowercase (lp_token_display t) = lp_token_display t"
    using assms(2) by (simp add: lp_token_display_def to_lowercase_append to_lowercase_Cons delimiters
        to_ascii_lower_def is_ascii_uppercase_def)
  ultimately show ?thesis
    using assms split_char_join [OF ne] normal_assets_fixed [OF assms(4)]
    by (simp add: asset_entry_lp_token_def lp_token_asset_entry_def asset_entry_new_def [of "lp_token_display t"]
        delimiters)
qed



lemma parse_u64_show: "parse_u64 (show_nat (unat (w :: u64))) = Some w"
proof -
  let ?s = "show_nat (unat w)"
  obtain c r where s: "?s = c # r" by (cases ?s) auto
  have "is_ascii_digit c" using show_nat_digits [of "unat w"] s by simp
  then have "c \<noteq> CHR ''+''" by (auto simp: is_ascii_digit_def)
  moreover have "unat w < 2 ^ 64" using unsigned_less [of w] by simp
  ultimately show ?thesis
    using parse_digits_show_nat [of "unat w"] s by (simp add: parse_u64_def)
qed

text \<open>Addresses of pools with one part are read back; a pool with separate addresses has no text
  form that can be parsed.\<close>

lemma pool_address_text_roundtrip:
  "CHR '':'' \<notin> set a \<Longrightarrow> pool_address_from_str (pool_address_display (PoolContract a)) = Ok (PoolContract a)"
  "pool_address_from_str (pool_address_display (PoolId i)) = Ok (PoolId i)"
  "is_ok (pool_address_from_str (pool_address_display (SeparateAddresses s l))) = False"
proof -
  show "pool_address_from_str (pool_address_display (PoolContract a)) = Ok (PoolContract a)"
    if "CHR '':'' \<notin> set a"
    using that by (simp add: pool_address_from_str_def split_char_no_sep Let_def)
  have "CHR '':'' \<notin> set (show_nat (unat i))"
    using show_nat_digits [of "unat i"] by (auto simp: is_ascii_digit_def)
  then show "pool_address_from_str (pool_address_display (PoolId i)) = Ok (PoolId i)"
    by (simp add: pool_address_from_str_def split_char_no_sep Let_def parse_u64_show)
  show "is_ok (pool_address_from_str (pool_address_display (SeparateAddresses s l))) = False"
    by (simp add: pool_address_from_str_def Let_def)
qed

lemma contract_entry_text_roundtrip:
  assumes "CHR '':'' \<notin> set (ce_protocol e)" and "contract_entry_check e = e"
  shows "contract_entry_from_str (contract_entry_display e) = Ok e"
  using assms by (cases e) (simp add: contract_entry_from_str_def unchecked_contract_entry_try_from_def
      contract_entry_display_def delimiters split_once_append)

text \<open>Storage keys of contracts and channels deserialise to the entry.\<close>

lemma entry_key_roundtrip:
  assumes "length a < 2 ^ 16" and "from_utf8 a = Ok a" and "from_utf8 b = Ok b"
  shows "contract_entry_from_vec (joined_key (contract_entry_key \<lparr>ce_protocol = a, ce_contract = b\<rparr>))
      = Ok \<lparr>ce_protocol = a, ce_contract = b\<rparr>"
    and "channel_entry_from_vec (joined_key (channel_entry_key \<lparr>connected_chain = a, che_protocol = b\<rparr>))
      = Ok \<lparr>connected_chain = a, che_protocol = b\<rparr>"
  using assms by (simp_all add: contract_entry_from_vec_def channel_entry_from_vec_def
      contract_entry_key_def channel_entry_key_def split_off_append parse_length_be16)

end
