(* ===== verification/Chain.thy ===== *)
theory Chain
  imports Modules
begin

text \<open>
  The stored state of the registry contract (\<open>native/registry.rs\<close>, module \<open>state\<close>), which the
  other contracts read by raw queries, and the environment of a call: what the chain and the
  third-party crates answer. Every field of \<open>chain\<close> is code outside the repository: address
  validation, contract and code information, instantiate2 addresses, raw and smart queries to
  other contracts, \<open>semver\<close>, \<open>cw_utils::Expiration\<close> and \<open>cw_ownable\<close>.
\<close>

section \<open>State of the registry\<close>

record registry_config =
  security_enabled :: bool
  namespace_registration_fee :: "coin option"

text \<open>The bytes under the key \<open>cfg\<close> hold a \<open>Config\<close>, or the \<open>ConfigV0_24\<close> of the release before.\<close>

datatype stored_config =
    Config registry_config
  | ConfigV0_24 bool "coin option"

text \<open>\<open>cw_ownable::Ownership\<close> and \<open>cw_ownable::Action\<close>.\<close>

record cw_ownership =
  cwo_owner :: "addr option"
  cwo_pending_owner :: "addr option"
  cwo_pending_expiry :: "expiration option"

datatype cw_action =
    CwTransferOwnership string "expiration option"
  | CwAcceptOwnership
  | CwRenounceOwnership

datatype cw_ownership_error = CwoStd std_error | CwoNoOwner | CwoNotOwner | CwoNotPendingOwner
  | CwoTransferNotFound | CwoTransferExpired

type_synonym account_key = "subkey list \<times> u32"

record registry_state =
  r_config :: "stored_config option"
  pending_modules :: "(module_key, module_reference) store"
  registered_modules :: "(module_key, module_reference) store"
  standalone_infos :: "(u64, module_info) store"
  service_infos :: "(addr, module_info) store"
  yanked_modules :: "(module_key, module_reference) store"
  module_config :: "(module_key, module_configuration) store"
  module_default_config :: "(subkey \<times> string, string) store"
  account_addresses :: "(account_key, addr) store"
  local_account_sequence :: "account_sequence option"
  namespaces :: "(namespace, account_id) store"
  rev_namespaces :: "(account_key, namespace) store"
  r_ownership :: "cw_ownership option"
  r_cw2 :: "contract_version option"
  namespaces_info :: "(namespace, account_id) store"

definition empty_registry :: registry_state where
  "empty_registry = \<lparr>r_config = None, pending_modules = [], registered_modules = [],
     standalone_infos = [], service_infos = [], yanked_modules = [], module_config = [],
     module_default_config = [], account_addresses = [], local_account_sequence = None,
     namespaces = [], rev_namespaces = [], r_ownership = None, r_cw2 = None,
     namespaces_info = []\<rparr>"

section \<open>The environment of a call\<close>

record contract_info =
  ci_code_id :: u64
  ci_admin :: "addr option"

record env =
  env_contract :: addr
  env_block :: block_info

record message_info =
  info_sender :: addr
  info_funds :: "coin list"

record chain =
  q_addr_validate :: "string \<Rightarrow> (addr, std_error) result"
  q_canonicalize :: "string \<Rightarrow> (string, std_error) result"
  q_humanize :: "string \<Rightarrow> (addr, std_error) result"
  q_contract_info :: "addr \<Rightarrow> (contract_info, std_error) result"
  q_code_creator :: "u64 \<Rightarrow> (addr, std_error) result"
  q_instantiate2 :: "string \<Rightarrow> string \<Rightarrow> (string, unit) result"
  q_cw2 :: "addr \<Rightarrow> (contract_version, std_error) result"
  q_module_data :: "addr \<Rightarrow> (module_data, std_error) result"
  q_ownership :: "addr \<Rightarrow> (ownership, std_error) result"
  q_calling_to :: "addr \<Rightarrow> (addr, std_error) result"
  q_account_id :: "addr \<Rightarrow> (account_id, std_error) result"
  q_nft_owner :: "addr \<Rightarrow> string \<Rightarrow> (addr, std_error) result"
  q_registry :: "addr \<Rightarrow> (registry_state, std_error) result"
  q_semver :: semver_lib
  q_is_expired :: "expiration \<Rightarrow> block_info \<Rightarrow> bool"
  q_cwo_assert :: "cw_ownership option \<Rightarrow> addr \<Rightarrow> (unit, cw_ownership_error) result"
  q_cwo_is_owner :: "cw_ownership option \<Rightarrow> addr \<Rightarrow> (bool, std_error) result"
  q_cwo_initialize :: "string option \<Rightarrow> (cw_ownership, std_error) result"
  q_cwo_update :: "cw_ownership option \<Rightarrow> block_info \<Rightarrow> addr \<Rightarrow> cw_action
    \<Rightarrow> (cw_ownership, cw_ownership_error) result"

section \<open>Addresses of the native contracts (abstract-std/src/native_addrs.rs)\<close>

definition REGISTRY_SALT :: string where "REGISTRY_SALT = ''reg''"
definition MODULE_FACTORY_SALT :: string where "MODULE_FACTORY_SALT = ''mf''"

definition creator_address :: "chain \<Rightarrow> u64 \<Rightarrow> (addr, std_error) result" where
  "creator_address ch code = q_code_creator ch code"

definition abstract_code_id :: "chain \<Rightarrow> addr \<Rightarrow> (u64, std_error) result" where
  "abstract_code_id ch a = map_ok ci_code_id (q_contract_info ch a)"

definition creator_canon_address :: "chain \<Rightarrow> u64 \<Rightarrow> (string, std_error) result" where
  "creator_canon_address ch code = and_then (creator_address ch code) (q_canonicalize ch)"

definition contract_canon_address ::
  "chain \<Rightarrow> u64 \<Rightarrow> string \<Rightarrow> (string, abstract_error) result" where
  "contract_canon_address ch code salt =
     and_then (map_err AbsStd (creator_canon_address ch code)) (\<lambda>creator_canon.
     map_err (\<lambda>_. Instantiate2AddressError) (q_instantiate2 ch creator_canon salt))"

definition ANS_HOST_SALT :: string where "ANS_HOST_SALT = ''ans''"

definition ans_address :: "chain \<Rightarrow> u64 \<Rightarrow> (string, abstract_error) result" where
  "ans_address ch code = contract_canon_address ch code ANS_HOST_SALT"

definition registry_address :: "chain \<Rightarrow> u64 \<Rightarrow> (string, abstract_error) result" where
  "registry_address ch code = contract_canon_address ch code REGISTRY_SALT"

definition module_factory_address :: "chain \<Rightarrow> u64 \<Rightarrow> (string, abstract_error) result" where
  "module_factory_address ch code = contract_canon_address ch code MODULE_FACTORY_SALT"

lemmas [code_defs] =
  creator_address_def abstract_code_id_def creator_canon_address_def contract_canon_address_def
  registry_address_def module_factory_address_def empty_registry_def REGISTRY_SALT_def
  MODULE_FACTORY_SALT_def ANS_HOST_SALT_def ans_address_def

section \<open>A chain for concrete runs\<close>

text \<open>
  Concrete answers for the environment, used where a theorem is applied to a concrete input:
  every address is valid and its own canonical form, no contract exists, versions are releases
  \<open>x.y.z\<close> in the usual order, an expiration at height \<open>h\<close> is over once the block reaches it, and
  \<open>cw_ownable\<close> compares the owner.
\<close>

definition sample_parse :: "string \<Rightarrow> version option" where
  "sample_parse s = (case split_char CHR ''.'' s of
       [a, b, c] \<Rightarrow> (case (parse_u32 a, parse_u32 b, parse_u32 c) of
           (Some x, Some y, Some z) \<Rightarrow>
             Some \<lparr>major = ucast x, minor = ucast y, patch = ucast z, pre = [], build = []\<rparr>
         | _ \<Rightarrow> None)
     | _ \<Rightarrow> None)"

definition sample_semver :: semver_lib where
  "sample_semver = \<lparr>
     sv_parse = sample_parse,
     sv_less = (\<lambda>v w. (major v, minor v, patch v) < (major w, minor w, patch w)),
     comp_matches = (\<lambda>c v. True),
     sv_show = (\<lambda>v. show_u32 (ucast (major v)) @ ''.'' @ show_u32 (ucast (minor v)) @ ''.''
       @ show_u32 (ucast (patch v)))\<rparr>"

definition sample_chain :: chain where
  "sample_chain = \<lparr>
     q_addr_validate = Ok,
     q_canonicalize = Ok,
     q_humanize = Ok,
     q_contract_info = (\<lambda>a. Err (StdNotFound a)),
     q_code_creator = (\<lambda>_. Ok ''creator''),
     q_instantiate2 = (\<lambda>creator salt. Ok salt),
     q_cw2 = (\<lambda>a. Err (StdNotFound a)),
     q_module_data = (\<lambda>a. Err (StdNotFound a)),
     q_ownership = (\<lambda>a. Err (StdNotFound a)),
     q_calling_to = (\<lambda>a. Err (StdNotFound a)),
     q_account_id = (\<lambda>a. Err (StdNotFound a)),
     q_nft_owner = (\<lambda>a t. Err (StdNotFound a)),
     q_registry = (\<lambda>a. Err (StdNotFound a)),
     q_semver = sample_semver,
     q_is_expired = (\<lambda>e b. case e of AtHeight h \<Rightarrow> h \<le> height b | AtTime t \<Rightarrow> t \<le> time b
       | Never \<Rightarrow> False),
     q_cwo_assert = (\<lambda>ow a. case ow of None \<Rightarrow> Err (CwoStd (StdNotFound ''ownership''))
       | Some ow \<Rightarrow> (case cwo_owner ow of None \<Rightarrow> Err CwoNoOwner
         | Some ad \<Rightarrow> ensure (ad = a) CwoNotOwner)),
     q_cwo_is_owner = (\<lambda>ow a. case ow of None \<Rightarrow> Err (StdNotFound ''ownership'')
       | Some ow \<Rightarrow> Ok (cwo_owner ow = Some a)),
     q_cwo_initialize = (\<lambda>a. Ok \<lparr>cwo_owner = a, cwo_pending_owner = None,
       cwo_pending_expiry = None\<rparr>),
     q_cwo_update = (\<lambda>_ _ _ _. Err CwoNotOwner)\<rparr>"

end
