(* ===== verification/Messages.thy ===== *)
theory Messages
  imports Chain
begin

text \<open>
  Messages the contracts receive and send. The body of a message to another contract is JSON in
  the code; here it is the value that is serialised (\<open>payload\<close>), or the raw bytes where the code
  forwards bytes it received. A sub-message carries the reply id it was sent with, if any.
\<close>

section \<open>Messages of the registry\<close>

text \<open>\<open>cw_clearable::Clearable\<close>\<close>

datatype 'a clearable = Clear | Set 'a

datatype update_module =
    Default string
  | Versioned string "string option" "monetization option" "coin list option"

datatype registry_execute_msg =
    RemoveModule module_info
  | YankModule module_info
  | ProposeModules "(module_info \<times> module_reference) list"
  | UpdateModuleConfiguration string namespace update_module
  | ApproveOrRejectModules "module_info list" "module_info list"
  | ClaimNamespace account_id string
  | ForgoNamespace "string list"
  | AddAccount "string option" string
  | UpdateConfig "bool option" "coin clearable option"
  | RegistryUpdateOwnership cw_action

record registry_instantiate_msg =
  rim_admin :: string
  rim_security_enabled :: "bool option"
  rim_namespace_registration_fee :: "coin option"

section \<open>Messages of the account\<close>

record module_install_config =
  mic_module :: module_info
  mic_init_msg :: "binary option"

datatype update_sub_account_action =
    UnregisterSubAccount u32
  | RegisterSubAccount u32

record account_instantiate_msg =
  aim_code_id :: u64
  aim_owner :: "governance_details option"
  aim_account_id :: "account_id option"
  aim_namespace :: "string option"
  aim_install_modules :: "module_install_config list"
  aim_name :: "string option"
  aim_description :: "string option"
  aim_link :: "string option"

text \<open>\<open>AdapterBaseMsg::UpdateAuthorizedAddresses { to_add, to_remove }\<close>\<close>

datatype adapter_base_msg = UpdateAuthorizedAddresses "string list" "string list"

section \<open>Messages to the chain\<close>

datatype payload =
    Raw binary
  | ToRegistry registry_execute_msg
  | ToAccountSub update_sub_account_action
  | ToFactoryInstall "module_install_config list" binary
  | ToAdapterBase "string option" adapter_base_msg
  | AccountInit account_instantiate_msg
  | AppInit addr binary

text \<open>\<open>cosmwasm_std::StakingMsg\<close> and \<open>DistributionMsg\<close>: the delegation of coins to validators and its rewards.\<close>

datatype staking_msg =
    Delegate string coin
  | Undelegate string coin
  | Redelegate string string coin

datatype distribution_msg =
    SetWithdrawAddress string
  | WithdrawDelegatorReward string

datatype cosmos_msg =
    BankSend addr "coin list"
  | WasmExecute addr payload "coin list"
  | WasmInstantiate2 u64 "coin list" "addr option" string payload binary
  | WasmMigrate addr u64 binary
  | Staking staking_msg
  | Distribution distribution_msg
  | OtherMsg binary

record sub_msg =
  sm_msg :: cosmos_msg
  sm_reply_on_success :: "u64 option"

definition plain_msg :: "cosmos_msg \<Rightarrow> sub_msg" where
  "plain_msg m = \<lparr>sm_msg = m, sm_reply_on_success = None\<rparr>"

definition reply_on_success :: "cosmos_msg \<Rightarrow> u64 \<Rightarrow> sub_msg" where
  "reply_on_success m i = \<lparr>sm_msg = m, sm_reply_on_success = Some i\<rparr>"

section \<open>Fixed fees (objects/fee.rs)\<close>

text \<open>A fee is the coin it wraps. A product that exceeds 256 bits panics.\<close>

definition fee_quantity :: "fixed_fee \<Rightarrow> nat \<Rightarrow> (fixed_fee, abstract_error) result" where
  "fee_quantity fee qty =
     (if unat (amount fee) * qty < 2 ^ 256
      then Ok (fee\<lparr>amount := amount fee * of_nat qty\<rparr>) else Panic)"

definition assert_payment :: "fixed_fee \<Rightarrow> coin list \<Rightarrow> (coin, abstract_error) result" where
  "assert_payment fee fnds =
     (if amount fee = 0 then Ok fee
      else if length fnds \<noteq> 1 \<or> denom (fnds ! 0) \<noteq> denom fee \<or> amount fee \<noteq> amount (fnds ! 0)
      then Err (FeeError [fee] fnds)
      else Ok fee)"

text \<open>\<open>iter_mut().find(..)\<close>: the first coin of the denomination pays.\<close>

fun charge_first :: "fixed_fee \<Rightarrow> coin list \<Rightarrow> (coin list) option" where
  "charge_first fee [] = None"
| "charge_first fee (f # fs) =
     (if denom f = denom fee
      then (if amount f < amount fee then None else Some (f\<lparr>amount := amount f - amount fee\<rparr> # fs))
      else map_option ((#) f) (charge_first fee fs))"

definition charge :: "fixed_fee \<Rightarrow> coin list \<Rightarrow> (coin \<times> coin list, abstract_error) result" where
  "charge fee fnds =
     (if amount fee = 0 then Ok (fee, fnds)
      else (case charge_first fee fnds of
              None \<Rightarrow> Err (FeeError [fee] fnds)
            | Some rest \<Rightarrow> Ok (fee, rest)))"

text \<open>The amount of a denomination in a list of coins, as a natural number.\<close>

definition total_of :: "string \<Rightarrow> coin list \<Rightarrow> nat" where
  "total_of d fs = (\<Sum>f\<leftarrow>fs. if denom f = d then unat (amount f) else 0)"

lemma total_of_Nil [simp]: "total_of d [] = 0"
  by (simp add: total_of_def)

lemma total_of_Cons [simp]:
  "total_of d (f # fs) = (if denom f = d then unat (amount f) else 0) + total_of d fs"
  by (simp add: total_of_def)

lemma charge_first_total:
  "charge_first fee fs = Some fs' \<Longrightarrow>
     total_of d fs = total_of d fs' + (if d = denom fee then unat (amount fee) else 0)
     \<and> map denom fs' = map denom fs"
proof (induction fs arbitrary: fs')
  case (Cons f fs)
  show ?case
  proof (cases "denom f = denom fee")
    case True
    with Cons.prems have le: "amount fee \<le> amount f"
      and fs': "fs' = f\<lparr>amount := amount f - amount fee\<rparr> # fs"
      by (simp_all split: if_splits)
    have "unat (amount f - amount fee) + unat (amount fee) = unat (amount f)"
      using le by (simp add: unat_sub word_le_nat_alt)
    then show ?thesis using True fs' by (cases "d = denom fee") simp_all
  next
    case False
    with Cons.prems obtain gs where gs: "charge_first fee fs = Some gs" "fs' = f # gs" by auto
    from Cons.IH [OF gs(1)] gs(2) show ?thesis by simp
  qed
qed simp

text \<open>
  a fee that is charged from the sent funds lowers the total of its denomination by exactly
  the fee, leaves every other denomination as it was, and never underflows.
\<close>

theorem charge_exact:
  assumes "charge fee fnds = Ok (paid, rest)"
  shows "paid = fee \<and> map denom rest = map denom fnds
    \<and> total_of d fnds = total_of d rest + (if d = denom fee then unat (amount fee) else 0)"
  using assms charge_first_total [of fee fnds rest d]
  by (auto simp: charge_def split: if_splits option.splits)

theorem charge_exact_witness:
  "total_of ''uusd'' [\<lparr>denom = ''uusd'', amount = 7\<rparr>]
     = total_of ''uusd'' [\<lparr>denom = ''uusd'', amount = 2\<rparr>] + 5"
  using charge_exact [of "\<lparr>denom = ''uusd'', amount = 5\<rparr>" "[\<lparr>denom = ''uusd'', amount = 7\<rparr>]"
      "\<lparr>denom = ''uusd'', amount = 5\<rparr>" "[\<lparr>denom = ''uusd'', amount = 2\<rparr>]" "''uusd''"]
  by (simp add: charge_def)

lemma assert_payment_Ok [result_simps]:
  "assert_payment fee fnds = Ok c \<longleftrightarrow> c = fee \<and> (amount fee = 0 \<or> fnds = [fee])"
proof -
  have "length fnds = 1 \<and> denom (fnds ! 0) = denom fee \<and> amount fee = amount (fnds ! 0)
      \<longleftrightarrow> fnds = [fee]"
    by (cases fnds) (auto intro: coin.equality)
  then show ?thesis by (auto simp: assert_payment_def)
qed

lemmas [code_defs] = plain_msg_def reply_on_success_def

end
