(* ===== verification/Ownership.thy ===== *)
theory Ownership
  imports Chain
begin

text \<open>
  Governance and ownership of an account: \<open>objects/gov_type.rs\<close>, \<open>objects/ownership/gov_ownable.rs\<close>
  and \<open>objects/ownership/nested_admin.rs\<close>. The \<open>OWNERSHIP\<close> item of the contract is an argument
  (\<open>None\<close> before it is saved), and an update returns its new value.

  Theorems: the owner changes only when the pending owner accepts in time or the owner renounces,
  an NFT-bound or renounced ownership is final, the search for the top-level owner visits at most
  \<open>MAX_ADMIN_RECURSION\<close> parents, and who passes the nested admin check.
\<close>

section \<open>Governance details\<close>

definition MIN_GOV_TYPE_LENGTH :: nat where "MIN_GOV_TYPE_LENGTH = 4"
definition MAX_GOV_TYPE_LENGTH :: nat where "MAX_GOV_TYPE_LENGTH = 64"

text \<open>\<open>ACCOUNT_ADDRESSES.query(querier, registry, account_id)\<close>\<close>

definition account_addresses_query ::
  "chain \<Rightarrow> addr \<Rightarrow> account_id \<Rightarrow> (addr option, std_error) result" where
  "account_addresses_query ch registry aid =
     map_ok (\<lambda>r. load (account_addresses r) (acc_key aid)) (q_registry ch registry)"

fun gov_verify :: "chain \<Rightarrow> governance_details \<Rightarrow> (governance_details, abstract_error) result" where
  "gov_verify ch (Monarchy monarch) =
     and_then (map_err AbsStd (q_addr_validate ch monarch)) (\<lambda>a. Ok (Monarchy a))"
| "gov_verify ch (SubAccount account) =
     and_then (map_err AbsStd (q_addr_validate ch account)) (\<lambda>account_addr.
     and_then (map_err AbsStd (abstract_code_id ch account)) (\<lambda>code.
     and_then (registry_address ch code) (\<lambda>registry_canon.
     and_then (map_err AbsStd (q_humanize ch registry_canon)) (\<lambda>registry.
     and_then (map_err AbsStd (q_account_id ch account_addr)) (\<lambda>aid.
     and_then (map_err AbsStd (account_addresses_query ch registry aid)) (\<lambda>base.
     (case base of
        None \<Rightarrow> Err (AbsStd (StdMsg
          (''Version control does not have account id of account '' @ account_addr)))
      | Some b \<Rightarrow>
          (if b = account_addr then Ok (SubAccount account_addr)
           else Err (AbsStd (StdMsg
             ''Verification of sub-account failed, account has different account ids''))))))))))"
| "gov_verify ch (External governance_address governance_type) =
     and_then (map_err AbsStd (q_addr_validate ch governance_address)) (\<lambda>a.
     if length governance_type < MIN_GOV_TYPE_LENGTH
     then Err (FormattingError ''governance type'' ''at least 3 characters''
            (show_nat (length governance_type)))
     else if MAX_GOV_TYPE_LENGTH < length governance_type
     then Err (FormattingError ''governance type'' ''at most 64 characters''
            (show_nat (length governance_type)))
     else if list_ex (\<lambda>c. \<not> is_ascii_alphanumeric c \<and> c \<noteq> CHR ''-'') governance_type
     then Err (FormattingError ''governance type'' ''alphanumeric characters and hyphens''
            governance_type)
     else if governance_type \<noteq> to_lowercase governance_type
     then Err (FormattingError ''governance type'' (to_lowercase governance_type) governance_type)
     else Ok (External a governance_type))"
| "gov_verify ch Renounced = Ok Renounced"
| "gov_verify ch (NFT collection_addr token_id) =
     and_then (map_err AbsStd (q_addr_validate ch collection_addr)) (\<lambda>a. Ok (NFT a token_id))"
| "gov_verify ch (AbstractAccount a) = Ok (AbstractAccount a)"

fun owner_address :: "chain \<Rightarrow> governance_details \<Rightarrow> addr option" where
  "owner_address ch (Monarchy monarch) = Some monarch"
| "owner_address ch (SubAccount account) = Some account"
| "owner_address ch (External governance_address _) = Some governance_address"
| "owner_address ch Renounced = None"
| "owner_address ch (NFT collection_addr token_id) =
     (case q_nft_owner ch collection_addr token_id of Ok a \<Rightarrow> Some a | _ \<Rightarrow> None)"
| "owner_address ch (AbstractAccount a) = Some a"

fun gov_display :: "governance_details \<Rightarrow> string" where
  "gov_display (Monarchy _) = ''monarch''"
| "gov_display (SubAccount _) = ''sub-account''"
| "gov_display (External _ governance_type) = governance_type"
| "gov_display Renounced = ''renounced''"
| "gov_display (NFT _ _) = ''nft''"
| "gov_display (AbstractAccount _) = ''abstract-account''"

section \<open>The top-level owner\<close>

definition MAX_ADMIN_RECURSION :: nat where "MAX_ADMIN_RECURSION = 2"

definition query_ownership :: "chain \<Rightarrow> addr \<Rightarrow> (ownership, std_error) result" where
  "query_ownership ch remote_contract = q_ownership ch remote_contract"

text \<open>The loop body runs at most \<open>n\<close> times and stops at the first owner that is no account.\<close>

fun top_level_loop ::
  "chain \<Rightarrow> nat \<Rightarrow> (ownership, std_error) result \<Rightarrow> (ownership, std_error) result" where
  "top_level_loop ch 0 current = current"
| "top_level_loop ch (Suc n) current =
     (case current of
        Ok ow \<Rightarrow> (case own_owner ow of
          SubAccount account \<Rightarrow> top_level_loop ch n (query_ownership ch account)
        | _ \<Rightarrow> current)
      | _ \<Rightarrow> current)"

definition query_top_level_owner :: "chain \<Rightarrow> addr \<Rightarrow> (ownership, std_error) result" where
  "query_top_level_owner ch maybe_account =
     top_level_loop ch MAX_ADMIN_RECURSION (query_ownership ch maybe_account)"

definition query_top_level_owner_addr :: "chain \<Rightarrow> addr \<Rightarrow> (addr, std_error) result" where
  "query_top_level_owner_addr ch maybe_account =
     and_then (query_top_level_owner ch maybe_account) (\<lambda>ow.
     ok_or (StdMsg ''Top level account got renounced'') (owner_address ch (own_owner ow)))"

section \<open>Nested admin\<close>

definition CALLING_TO_AS_ADMIN_WILD_CARD :: string where
  "CALLING_TO_AS_ADMIN_WILD_CARD = ''calling-to-wild-card''"

definition assert_account_calling_to_as_admin_is_self :: "chain \<Rightarrow> env \<Rightarrow> addr \<Rightarrow> bool" where
  "assert_account_calling_to_as_admin_is_self ch ev maybe_account =
     (case q_calling_to ch maybe_account of
        Ok admin_call_to \<Rightarrow> admin_call_to = env_contract ev
          \<or> admin_call_to = CALLING_TO_AS_ADMIN_WILD_CARD
      | _ \<Rightarrow> False)"

definition is_admin_custom :: "chain \<Rightarrow> env \<Rightarrow> addr \<Rightarrow> addr \<Rightarrow> (bool, std_error) result" where
  "is_admin_custom ch ev caller admin =
     (if caller = admin \<and> assert_account_calling_to_as_admin_is_self ch ev caller
      then Ok True
      else Ok (case query_top_level_owner_addr ch admin of Ok a \<Rightarrow> a = caller | _ \<Rightarrow> False))"

datatype admin_error = AdminStd std_error | NotAdmin

definition assert_admin_custom :: "chain \<Rightarrow> env \<Rightarrow> addr \<Rightarrow> addr \<Rightarrow> (unit, admin_error) result" where
  "assert_admin_custom ch ev caller admin =
     and_then (map_err AdminStd (is_admin_custom ch ev caller admin)) (\<lambda>b. ensure b NotAdmin)"

text \<open>The \<open>cw_controllers::Admin\<close> item holds \<open>Option<Addr>\<close>: an argument, absent before it is set.\<close>

definition is_admin :: "chain \<Rightarrow> addr option option \<Rightarrow> env \<Rightarrow> addr \<Rightarrow> (bool, std_error) result" where
  "is_admin ch item ev caller =
     and_then (ok_or (StdNotFound ''admin'') item) (\<lambda>adm.
     case adm of Some admin \<Rightarrow> is_admin_custom ch ev caller admin | None \<Rightarrow> Ok False)"

definition assert_admin ::
  "chain \<Rightarrow> addr option option \<Rightarrow> env \<Rightarrow> addr \<Rightarrow> (unit, admin_error) result" where
  "assert_admin ch item ev caller =
     and_then (map_err AdminStd (is_admin ch item ev caller)) (\<lambda>b. ensure b NotAdmin)"

definition execute_update_admin ::
  "chain \<Rightarrow> addr option option \<Rightarrow> env \<Rightarrow> message_info \<Rightarrow> addr option
   \<Rightarrow> (addr option option, admin_error) result" where
  "execute_update_admin ch item ev minfo new_admin =
     and_then (assert_admin ch item ev (info_sender minfo)) (\<lambda>_. Ok (Some new_admin))"

definition query_nested_account_owner ::
  "chain \<Rightarrow> addr option option \<Rightarrow> (addr option, std_error) result" where
  "query_nested_account_owner ch item =
     and_then (ok_or (StdNotFound ''admin'') item) (\<lambda>adm.
     case adm of
       Some own \<Rightarrow> map_ok Some (map_err (\<lambda>_. StdMsg
         ''Failed to query top level owner. Make sure this module is owned by the account'')
         (query_top_level_owner_addr ch own))
     | None \<Rightarrow> Ok None)"

section \<open>Ownership of a contract\<close>

definition assert_owner_can_change :: "ownership \<Rightarrow> (unit, gov_ownership_error) result" where
  "assert_owner_can_change ow =
     (case own_owner ow of NFT _ _ \<Rightarrow> Err ChangeOfNftOwned | _ \<Rightarrow> Ok ())"

definition assert_owner :: "chain \<Rightarrow> ownership \<Rightarrow> addr \<Rightarrow> (unit, gov_ownership_error) result" where
  "assert_owner ch ow sndr =
     (case owner_address ch (own_owner ow) of
        None \<Rightarrow> Err NoOwner
      | Some current_owner \<Rightarrow> ensure (sndr = current_owner) NotOwner)"

definition assert_nested_sender_can_change_owner ::
  "chain \<Rightarrow> ownership \<Rightarrow> addr \<Rightarrow> (unit, gov_ownership_error) result" where
  "assert_nested_sender_can_change_owner ch ow sndr =
     (case own_owner ow of
        SubAccount account \<Rightarrow>
          and_then (map_err OwnStd (query_top_level_owner ch account)) (\<lambda>top_level_owner.
          and_then (assert_owner_can_change top_level_owner) (\<lambda>_.
          if \<not> is_ok (assert_owner ch ow sndr) then assert_owner ch top_level_owner sndr
          else Ok ()))
      | _ \<Rightarrow>
          and_then (assert_owner_can_change ow) (\<lambda>_.
          and_then (assert_owner ch ow sndr) (\<lambda>_. Ok ())))"

definition initialize_owner ::
  "chain \<Rightarrow> governance_details \<Rightarrow> (ownership, gov_ownership_error) result" where
  "initialize_owner ch own =
     and_then (map_err OwnAbstract (gov_verify ch own)) (\<lambda>verified.
     Ok \<lparr>own_owner = verified, own_pending_owner = None, own_pending_expiry = None\<rparr>)"

definition load_ownership :: "ownership option \<Rightarrow> (ownership, std_error) result" where
  "load_ownership item = ok_or (StdNotFound ''ownership'') item"

definition is_owner :: "chain \<Rightarrow> ownership option \<Rightarrow> addr \<Rightarrow> (bool, std_error) result" where
  "is_owner ch item a =
     and_then (load_ownership item) (\<lambda>ow.
     case owner_address ch (own_owner ow) of
       Some own \<Rightarrow> (if a = own then Ok True else Ok False)
     | None \<Rightarrow> Ok False)"

definition assert_nested_owner ::
  "chain \<Rightarrow> ownership option \<Rightarrow> addr \<Rightarrow> (unit, gov_ownership_error) result" where
  "assert_nested_owner ch item sndr =
     and_then (map_err OwnStd (load_ownership item)) (\<lambda>ow.
     let owner_assertion = assert_owner ch ow sndr
     in if is_ok owner_assertion then Ok ()
        else (case own_owner ow of
            SubAccount account \<Rightarrow>
              and_then (map_err OwnStd (query_top_level_owner ch account)) (\<lambda>top.
              assert_owner ch top sndr)
          | _ \<Rightarrow> owner_assertion))"

definition transfer_ownership ::
  "chain \<Rightarrow> addr \<Rightarrow> governance_details \<Rightarrow> expiration option \<Rightarrow> ownership option
   \<Rightarrow> (ownership, gov_ownership_error) result" where
  "transfer_ownership ch sndr new_owner expiry item =
     and_then (map_err OwnAbstract (gov_verify ch new_owner)) (\<lambda>new_owner.
     and_then (ensure (owner_address ch new_owner \<noteq> None) TransferToRenounced) (\<lambda>_.
     and_then (map_err OwnStd (load_ownership item)) (\<lambda>ow.
     and_then (assert_nested_sender_can_change_owner ch ow sndr) (\<lambda>_.
     Ok (ow\<lparr>own_pending_owner := Some new_owner, own_pending_expiry := expiry\<rparr>)))))"

definition accept_ownership ::
  "chain \<Rightarrow> block_info \<Rightarrow> addr \<Rightarrow> ownership option \<Rightarrow> (ownership, gov_ownership_error) result" where
  "accept_ownership ch block sndr item =
     and_then (map_err OwnStd (load_ownership item)) (\<lambda>ow.
     and_then (ok_or TransferNotFound (own_pending_owner ow)) (\<lambda>maybe_pending_owner.
     and_then (ok_or TransferNotFound (owner_address ch maybe_pending_owner)) (\<lambda>pending_owner.
     and_then
       (if sndr = pending_owner then Ok True
        else (case maybe_pending_owner of
            SubAccount account \<Rightarrow>
              and_then (map_err OwnStd (query_top_level_owner ch account)) (\<lambda>top.
              Ok (case owner_address ch (own_owner top) of
                    Some top_sender \<Rightarrow> top_sender = sndr | None \<Rightarrow> False))
          | _ \<Rightarrow> Ok False)) (\<lambda>is_pending_owner.
     and_then (ensure is_pending_owner NotPendingOwner) (\<lambda>_.
     and_then (ensure (case own_pending_expiry ow of
         Some expiry \<Rightarrow> \<not> q_is_expired ch expiry block | None \<Rightarrow> True) TransferExpired) (\<lambda>_.
     Ok \<lparr>own_owner = maybe_pending_owner, own_pending_owner = None,
         own_pending_expiry = None\<rparr>))))))"

definition renounce_ownership ::
  "chain \<Rightarrow> addr \<Rightarrow> ownership option \<Rightarrow> (ownership, gov_ownership_error) result" where
  "renounce_ownership ch sndr item =
     and_then (map_err OwnStd (load_ownership item)) (\<lambda>ow.
     and_then (assert_nested_sender_can_change_owner ch ow sndr) (\<lambda>_.
     Ok \<lparr>own_owner = Renounced, own_pending_owner = None, own_pending_expiry = None\<rparr>))"

fun update_ownership ::
  "chain \<Rightarrow> block_info \<Rightarrow> addr \<Rightarrow> gov_action \<Rightarrow> ownership option
   \<Rightarrow> (ownership, gov_ownership_error) result" where
  "update_ownership ch block sndr (TransferOwnership new_owner expiry) item =
     transfer_ownership ch sndr new_owner expiry item"
| "update_ownership ch block sndr AcceptOwnership item = accept_ownership ch block sndr item"
| "update_ownership ch block sndr RenounceOwnership item = renounce_ownership ch sndr item"

lemmas [code_defs] =
  account_addresses_query_def query_ownership_def query_top_level_owner_def
  query_top_level_owner_addr_def assert_account_calling_to_as_admin_is_self_def
  is_admin_custom_def assert_admin_custom_def is_admin_def assert_admin_def
  execute_update_admin_def assert_owner_can_change_def assert_owner_def
  assert_nested_sender_can_change_owner_def initialize_owner_def load_ownership_def is_owner_def
  assert_nested_owner_def transfer_ownership_def accept_ownership_def renounce_ownership_def
  MAX_ADMIN_RECURSION_def MIN_GOV_TYPE_LENGTH_def MAX_GOV_TYPE_LENGTH_def
  CALLING_TO_AS_ADMIN_WILD_CARD_def


section \<open>The search for the top-level owner\<close>

text \<open>\<open>ancestor ch n a ow\<close>: \<open>ow\<close> is the ownership found \<open>n\<close> parents above the account \<open>a\<close>.\<close>

inductive ancestor :: "chain \<Rightarrow> nat \<Rightarrow> addr \<Rightarrow> ownership \<Rightarrow> bool" for ch where
  here: "q_ownership ch a = Ok ow \<Longrightarrow> ancestor ch 0 a ow"
| up: "q_ownership ch a = Ok ow \<Longrightarrow> own_owner ow = SubAccount b \<Longrightarrow> ancestor ch n b ow'
    \<Longrightarrow> ancestor ch (Suc n) a ow'"

inductive_cases ancestor_0E: "ancestor ch 0 a ow"
inductive_cases ancestor_SucE: "ancestor ch (Suc n) a ow"

definition is_sub_account :: "ownership \<Rightarrow> bool" where
  "is_sub_account ow = (case own_owner ow of SubAccount _ \<Rightarrow> True | _ \<Rightarrow> False)"

lemma is_sub_account_iff: "is_sub_account ow \<longleftrightarrow> (\<exists>b. own_owner ow = SubAccount b)"
  by (simp add: is_sub_account_def split: governance_details.split)

lemma top_level_loop_root:
  "\<not> is_sub_account ow \<Longrightarrow> top_level_loop ch n (Ok ow) = Ok ow"
  by (cases n) (auto simp: is_sub_account_def split: governance_details.splits)

lemma top_level_loop_ancestor:
  "ancestor ch k a ow \<Longrightarrow> k \<le> n \<Longrightarrow> k = n \<or> \<not> is_sub_account ow
   \<Longrightarrow> top_level_loop ch n (q_ownership ch a) = Ok ow"
proof (induction arbitrary: n rule: ancestor.induct)
  case (here a ow)
  then show ?case
    by (cases n) (auto simp: top_level_loop_root simp del: top_level_loop.simps(2))
next
  case (up a ow b k ow')
  then show ?case by (cases n) (auto simp: query_ownership_def)
qed

lemma top_level_loop_Ok:
  "top_level_loop ch n (q_ownership ch a) = Ok ow
   \<Longrightarrow> \<exists>k \<le> n. ancestor ch k a ow \<and> (k = n \<or> \<not> is_sub_account ow)"
proof (induction n arbitrary: a)
  case 0
  then show ?case by (auto intro: ancestor.here)
next
  case (Suc n)
  then obtain ow0 where q: "q_ownership ch a = Ok ow0" by (cases "q_ownership ch a") auto
  show ?case
  proof (cases "is_sub_account ow0")
    case False
    then show ?thesis using Suc.prems q top_level_loop_root [of ow0 ch "Suc n"]
      by (intro exI [of _ 0]) (auto intro: ancestor.here)
  next
    case True
    then obtain b where b: "own_owner ow0 = SubAccount b" by (auto simp: is_sub_account_iff)
    with Suc.prems q have "top_level_loop ch n (q_ownership ch b) = Ok ow"
      by (simp add: query_ownership_def)
    from Suc.IH [OF this] obtain k where
      "k \<le> n" "ancestor ch k b ow" "k = n \<or> \<not> is_sub_account ow" by blast
    then show ?thesis using q b by (intro exI [of _ "Suc k"]) (auto intro: ancestor.up)
  qed
qed

text \<open>
  \<open>query_top_level_owner\<close> returns the ownership of the first ancestor that is not itself a
  sub-account, provided it is at most \<open>MAX_ADMIN_RECURSION\<close> (two) parents up; above that it
  returns the second ancestor even though that one is a sub-account, and it returns nothing else.
\<close>

theorem query_top_level_owner_iff:
  "query_top_level_owner ch a = Ok ow \<longleftrightarrow>
     (\<exists>k \<le> 2. ancestor ch k a ow \<and> (\<not> is_sub_account ow \<or> k = 2))"
  unfolding query_top_level_owner_def query_ownership_def MAX_ADMIN_RECURSION_def
  using top_level_loop_Ok [of ch 2 a ow] top_level_loop_ancestor [of ch _ a ow 2] by blast

lemma top_level_loop_queries:
  "\<exists>qs. length qs \<le> n + 1 \<and> (\<forall>ch'. (\<forall>x\<in>set qs. q_ownership ch' x = q_ownership ch x)
     \<longrightarrow> top_level_loop ch' n (q_ownership ch' a) = top_level_loop ch n (q_ownership ch a))"
proof (induction n arbitrary: a)
  case 0
  show ?case by (intro exI [of _ "[a]"]) simp
next
  case (Suc n)
  show ?case
  proof (cases "\<exists>ow b. q_ownership ch a = Ok ow \<and> own_owner ow = SubAccount b")
    case True
    then obtain ow b where b: "q_ownership ch a = Ok ow" "own_owner ow = SubAccount b" by blast
    from Suc.IH [of b] obtain qs where "length qs \<le> n + 1" "\<forall>ch'. (\<forall>x\<in>set qs. q_ownership ch' x = q_ownership ch x)
      \<longrightarrow> top_level_loop ch' n (q_ownership ch' b) = top_level_loop ch n (q_ownership ch b)" by blast
    note qs = this
    have "top_level_loop ch' (Suc n) (q_ownership ch' a) = top_level_loop ch (Suc n) (q_ownership ch a)"
      if "\<forall>x\<in>set (a # qs). q_ownership ch' x = q_ownership ch x" for ch'
    proof -
      from that qs(2) have "top_level_loop ch' n (q_ownership ch' b) = top_level_loop ch n (q_ownership ch b)"
        and "q_ownership ch' a = Ok ow" using b(1) by (meson list.set_intros, fastforce)
      then show ?thesis by (simp add: b query_ownership_def)
    qed
    moreover have "length (a # qs) \<le> Suc n + 1" using qs(1) by simp
    ultimately show ?thesis by blast
  next
    case False
    have "top_level_loop ch' (Suc n) (q_ownership ch a) = q_ownership ch a" for ch'
    proof (cases "q_ownership ch a")
      case (Ok ow)
      with False have "\<not> is_sub_account ow" by (simp add: is_sub_account_iff)
      then show ?thesis by (simp add: Ok top_level_loop_root del: top_level_loop.simps)
    qed simp_all
    then show ?thesis by (intro exI [of _ "[a]"]) simp
  qed
qed

text \<open>
  C38: the search for the top-level owner always ends: whatever accounts own each other, also in a circle, it asks at
  most \<open>MAX_ADMIN_RECURSION + 1\<close> contracts for their owner, and its result depends on those answers only.
\<close>

theorem top_level_owner_terminates:
  "\<exists>qs. length qs \<le> MAX_ADMIN_RECURSION + 1 \<and> (\<forall>ch'. (\<forall>x\<in>set qs. q_ownership ch' x = q_ownership ch x)
     \<longrightarrow> query_top_level_owner ch' a = query_top_level_owner ch a)"
  unfolding query_top_level_owner_def query_ownership_def by (rule top_level_loop_queries)

text \<open>Two accounts that own each other.\<close>

definition circle_chain :: chain where
  "circle_chain = sample_chain\<lparr>q_ownership := (\<lambda>a. Ok \<lparr>own_owner = SubAccount (if a = ''a'' then ''b'' else ''a''),
     own_pending_owner = None, own_pending_expiry = None\<rparr>)\<rparr>"

theorem top_level_owner_terminates_witness:
  "(\<exists>qs. length qs \<le> 3 \<and> (\<forall>ch'. (\<forall>x\<in>set qs. q_ownership ch' x = q_ownership circle_chain x)
     \<longrightarrow> query_top_level_owner ch' ''a'' = query_top_level_owner circle_chain ''a''))
   \<and> query_top_level_owner circle_chain ''a''
     = Ok \<lparr>own_owner = SubAccount ''b'', own_pending_owner = None, own_pending_expiry = None\<rparr>"
proof
  have "MAX_ADMIN_RECURSION + 1 = 3" by (simp add: MAX_ADMIN_RECURSION_def)
  from top_level_owner_terminates [of circle_chain "''a''", unfolded this]
  show "\<exists>qs. length qs \<le> 3 \<and> (\<forall>ch'. (\<forall>x\<in>set qs. q_ownership ch' x = q_ownership circle_chain x)
     \<longrightarrow> query_top_level_owner ch' ''a'' = query_top_level_owner circle_chain ''a'')" .
qed (simp add: MAX_ADMIN_RECURSION_def query_top_level_owner_def query_ownership_def circle_chain_def numeral_2_eq_2)

text \<open>A sub-account \<open>sub\<close> of the account \<open>main\<close>, which a monarch owns.\<close>

definition family_chain :: chain where
  "family_chain = sample_chain\<lparr>q_ownership := (\<lambda>a.
     if a = ''sub'' then Ok \<lparr>own_owner = SubAccount ''main'', own_pending_owner = None,
       own_pending_expiry = None\<rparr>
     else if a = ''main'' then Ok \<lparr>own_owner = Monarchy ''king'', own_pending_owner = None,
       own_pending_expiry = None\<rparr>
     else Err (StdNotFound a))\<rparr>"

theorem query_top_level_owner_iff_witness:
  "\<exists>k. ancestor family_chain k ''sub''
     \<lparr>own_owner = Monarchy ''king'', own_pending_owner = None, own_pending_expiry = None\<rparr>"
proof -
  have "query_top_level_owner family_chain ''sub'' = Ok \<lparr>own_owner = Monarchy ''king'',
      own_pending_owner = None, own_pending_expiry = None\<rparr>"
    by (simp add: family_chain_def code_defs numeral_2_eq_2)
  then show ?thesis unfolding query_top_level_owner_iff by blast
qed

section \<open>Who may change the owner\<close>

text \<open>The sender acts for the ownership: directly, or as the top-level owner of the parent
  account of a sub-account.\<close>

definition controls :: "chain \<Rightarrow> governance_details \<Rightarrow> addr \<Rightarrow> bool" where
  "controls ch g s \<longleftrightarrow> owner_address ch g = Some s
     \<or> (\<exists>acc top. g = SubAccount acc \<and> query_top_level_owner ch acc = Ok top
          \<and> owner_address ch (own_owner top) = Some s)"

lemma assert_owner_Ok [result_simps]:
  "assert_owner ch ow s = Ok u \<longleftrightarrow> owner_address ch (own_owner ow) = Some s"
  by (auto simp: assert_owner_def result_simps split: option.splits)

lemma assert_owner_can_change_Ok [result_simps]:
  "assert_owner_can_change ow = Ok u \<longleftrightarrow> (\<forall>c t. own_owner ow \<noteq> NFT c t)"
  by (auto simp: assert_owner_can_change_def split: governance_details.splits)

lemma can_change_controls:
  assumes "assert_nested_sender_can_change_owner ch ow s = Ok ()"
  shows "controls ch (own_owner ow) s" and "\<forall>c t. own_owner ow \<noteq> NFT c t"
  using assms
  by (auto simp: assert_nested_sender_can_change_owner_def controls_def result_simps is_ok_iff
      split: governance_details.splits if_splits)

lemma nested_owner_Ok:
  "assert_nested_owner ch item s = Ok () \<longleftrightarrow> (\<exists>ow. item = Some ow \<and> controls ch (own_owner ow) s)"
proof (cases item)
  case (Some ow)
  then show ?thesis
    by (cases "own_owner ow")
      (auto simp: assert_nested_owner_def load_ownership_def controls_def Let_def is_ok_iff
        result_simps assert_owner_def split: option.splits if_splits)
qed (simp add: assert_nested_owner_def load_ownership_def)

text \<open>
  \<open>assert_nested_owner\<close>, the guard of every owner-only message of an account, passes exactly
  for the address of the owner and, for a sub-account, for the top-level owner of its parent.
\<close>

theorem assert_nested_owner_iff:
  "assert_nested_owner ch item s = Ok () \<longleftrightarrow> (\<exists>ow. item = Some ow \<and> controls ch (own_owner ow) s)"
  by (rule nested_owner_Ok)

text \<open>
  an ownership action changes the owner only in two ways. Either the pending owner (or the
  top-level owner of the account that is pending) accepts, and the deadline, if any, has not
  passed; or someone who controls the present owner renounces, which needs an owner that is not
  an NFT. In both cases no transfer is left pending.
\<close>

theorem update_ownership_owner_change:
  assumes "update_ownership ch block s action (Some ow) = Ok ow'"
    and "own_owner ow' \<noteq> own_owner ow"
  shows "own_pending_owner ow' = None \<and> own_pending_expiry ow' = None
    \<and> (action = AcceptOwnership \<and> own_pending_owner ow = Some (own_owner ow')
          \<and> controls ch (own_owner ow') s
          \<and> (\<forall>e. own_pending_expiry ow = Some e \<longrightarrow> \<not> q_is_expired ch e block)
       \<or> action = RenounceOwnership \<and> own_owner ow' = Renounced
          \<and> controls ch (own_owner ow) s \<and> (\<forall>c t. own_owner ow \<noteq> NFT c t))"
proof (cases action)
  case (TransferOwnership g e)
  then show ?thesis
    using assms by (auto simp: transfer_ownership_def load_ownership_def result_simps)
next
  case AcceptOwnership
  then show ?thesis
    using assms
    by (auto simp: accept_ownership_def load_ownership_def result_simps controls_def
        split: if_splits governance_details.splits option.splits)
next
  case RenounceOwnership
  then show ?thesis
    using assms can_change_controls [of ch ow s]
    by (auto simp: renounce_ownership_def load_ownership_def result_simps)
qed

definition monarch_ownership :: ownership where
  "monarch_ownership = \<lparr>own_owner = Monarchy ''alice'', own_pending_owner = Some (Monarchy ''bob''),
     own_pending_expiry = Some (AtHeight 10)\<rparr>"

definition block_5 :: block_info where
  "block_5 = \<lparr>height = 5, time = 0, chain_id = ''test''\<rparr>"

theorem update_ownership_owner_change_witness:
  "update_ownership sample_chain block_5 ''bob'' AcceptOwnership (Some monarch_ownership)
     = Ok \<lparr>own_owner = Monarchy ''bob'', own_pending_owner = None, own_pending_expiry = None\<rparr>
   \<and> controls sample_chain (Monarchy ''bob'') ''bob''"
proof -
  have run: "update_ownership sample_chain block_5 ''bob'' AcceptOwnership (Some monarch_ownership)
     = Ok \<lparr>own_owner = Monarchy ''bob'', own_pending_owner = None, own_pending_expiry = None\<rparr>"
    by (simp add: accept_ownership_def load_ownership_def monarch_ownership_def sample_chain_def
        block_5_def)
  from update_ownership_owner_change [OF this] run show ?thesis
    by (simp add: monarch_ownership_def)
qed

section \<open>Final ownership\<close>

text \<open>The ownership item over the life of a contract: initialised once, then updated by messages
  of any sender in any block, with any answers of the chain.\<close>

inductive own_reach :: "ownership \<Rightarrow> bool" where
  init: "initialize_owner ch g = Ok ow \<Longrightarrow> own_reach ow"
| update: "own_reach ow \<Longrightarrow> update_ownership ch block s action (Some ow) = Ok ow' \<Longrightarrow> own_reach ow'"

definition final_owner :: "governance_details \<Rightarrow> bool" where
  "final_owner g = (case g of NFT _ _ \<Rightarrow> True | Renounced \<Rightarrow> True | _ \<Rightarrow> False)"

lemma transfer_not_final:
  assumes "transfer_ownership ch s g e (Some ow) = Ok ow'"
  shows "\<not> final_owner (own_owner ow)" and "own_owner ow' = own_owner ow"
  using assms
  by (auto simp: transfer_ownership_def load_ownership_def result_simps final_owner_def
      assert_nested_sender_can_change_owner_def split: governance_details.splits)

lemma own_reach_final: "own_reach ow \<Longrightarrow> final_owner (own_owner ow) \<Longrightarrow> own_pending_owner ow = None"
proof (induction rule: own_reach.induct)
  case (init ch g ow)
  then show ?case by (auto simp: initialize_owner_def result_simps)
next
  case (update ow ch block s action ow')
  then show ?case
  proof (cases action)
    case (TransferOwnership g e)
    then show ?thesis using update transfer_not_final [of ch s g e ow ow'] by auto
  qed (auto simp: accept_ownership_def renounce_ownership_def load_ownership_def result_simps)
qed

text \<open>
  C4: once a contract's ownership is renounced or bound to an NFT, every ownership message fails,
  for every sender, block and answer of the chain: it stays as it is forever.
\<close>

theorem final_ownership_is_final:
  assumes "own_reach ow" and "final_owner (own_owner ow)"
  shows "update_ownership ch block s action (Some ow) \<noteq> Ok ow'"
proof
  assume ok: "update_ownership ch block s action (Some ow) = Ok ow'"
  have pending: "own_pending_owner ow = None" using own_reach_final assms by blast
  show False
  proof (cases action)
    case (TransferOwnership g e)
    then show ?thesis using ok assms(2) transfer_not_final(1) [of ch s g e ow ow'] by simp
  next
    case AcceptOwnership
    then show ?thesis
      using ok pending by (auto simp: accept_ownership_def load_ownership_def)
  next
    case RenounceOwnership
    then show ?thesis
      using ok assms(2)
      by (auto simp: renounce_ownership_def load_ownership_def result_simps final_owner_def
          assert_nested_sender_can_change_owner_def split: governance_details.splits)
  qed
qed

theorem final_ownership_is_final_witness:
  "\<not> is_ok (update_ownership sample_chain block_5 ''alice'' RenounceOwnership
     (Some \<lparr>own_owner = NFT ''nft'' ''1'', own_pending_owner = None, own_pending_expiry = None\<rparr>))"
  unfolding is_ok_iff not_ex
proof (intro allI final_ownership_is_final)
  show "own_reach \<lparr>own_owner = NFT ''nft'' ''1'', own_pending_owner = None,
      own_pending_expiry = None\<rparr>"
    by (rule own_reach.init [of sample_chain "NFT ''nft'' ''1''"])
      (simp add: initialize_owner_def sample_chain_def)
qed (simp add: final_owner_def)

section \<open>The nested admin check\<close>

text \<open>
  a module's admin check passes exactly for the admin account while it calls this module (or
  any module) as admin, and for the address that the top-level owner of the admin account has.
\<close>

theorem assert_admin_iff:
  "assert_admin ch item ev caller = Ok () \<longleftrightarrow>
     (\<exists>admin. item = Some (Some admin) \<and>
        (caller = admin \<and> (\<exists>to. q_calling_to ch caller = Ok to
            \<and> (to = env_contract ev \<or> to = CALLING_TO_AS_ADMIN_WILD_CARD))
         \<or> (\<exists>top. query_top_level_owner ch admin = Ok top
              \<and> owner_address ch (own_owner top) = Some caller)))"
proof (cases item)
  case (Some adm)
  then show ?thesis
    by (cases adm)
      (auto simp: assert_admin_def is_admin_def is_admin_custom_def result_simps
        assert_account_calling_to_as_admin_is_self_def query_top_level_owner_addr_def
        split: result.splits)
qed (simp add: assert_admin_def is_admin_def)

end
