(* ===== verification/Registry.thy ===== *)
theory Registry
  imports Messages Ownership
begin

text \<open>
  The registry contract: \<open>native/registry/src/commands.rs\<close> and \<open>contract.rs\<close>. A handler takes the
  environment, the stored state and the message info, and returns the new state with the messages
  it sends, or the error, in which case the chain drops every write. Attributes of a response are
  not modelled.

  Theorems: the two namespace maps are inverse in every reachable state, the account sequence,
  the life cycle of a module, who may do what.
\<close>

datatype registry_error =
    RegStd std_error
  | RegAbstract abstract_error
  | RegValidation validation_error
  | RegOwnership cw_ownership_error
  | RegSemVer
  | NotAccountCodeId module_info u64 u64
  | NotAccountInfo module_info
  | RegModuleNotFound module_info
  | NotUpdateableModule module_info
  | UnknownAccountId account_id
  | UnknownNamespace namespace
  | AccountOwnerMismatch addr addr
  | NoAccountOwner account_id
  | NamespaceOccupied string account_id
  | ExceedsNamespaceLimit nat nat
  | AdminMustBeNone
  | NoAction
  | AccountAlreadyExists account_id
  | RedundantInitFunds
  | SenderNotIbcHost string string
  | InvalidAccountSequence u32 u32

type_synonym 'a vc_result = "('a, registry_error) result"
type_synonym vc_response = "registry_state \<times> cosmos_msg list"

definition CONTRACT_VERSION :: string where "CONTRACT_VERSION = ''0.26.1''"

text \<open>\<open>Map::load\<close>, and \<open>CONFIG.load\<close>, which cannot read the older format.\<close>

definition load_err :: "('k, 'v) store \<Rightarrow> 'k \<Rightarrow> ('v, std_error) result" where
  "load_err m k = ok_or (StdNotFound ''map'') (load m k)"

definition load_config :: "registry_state \<Rightarrow> (registry_config, std_error) result" where
  "load_config st = (case r_config st of
       Some (Config c) \<Rightarrow> Ok c
     | Some (ConfigV0_24 _ _) \<Rightarrow> Err (StdMsg ''parse'')
     | None \<Rightarrow> Err (StdNotFound ''cfg''))"

text \<open>The key of \<open>MODULE_DEFAULT_CONFIG\<close>, and the entries under the prefix of a module name.\<close>

definition default_key :: "namespace \<Rightarrow> string \<Rightarrow> subkey \<times> string" where
  "default_key ns name = (SubKey ns, name)"

definition module_versions :: "namespace \<Rightarrow> string \<Rightarrow> (module_key, 'v) store \<Rightarrow> (module_key, 'v) store" where
  "module_versions ns name m = entries_where (\<lambda>k. fst k = SubKey ns \<and> fst (snd k) = SubKey name) m"

definition assert_registry_owner :: "chain \<Rightarrow> registry_state \<Rightarrow> addr \<Rightarrow> unit vc_result" where
  "assert_registry_owner ch st sndr = map_err RegOwnership (q_cwo_assert ch (r_ownership st) sndr)"

section \<open>Account owners\<close>

definition query_account_owner :: "chain \<Rightarrow> addr \<Rightarrow> account_id \<Rightarrow> addr vc_result" where
  "query_account_owner ch account_addr account_id =
     and_then (map_err RegStd (query_ownership ch account_addr)) (\<lambda>ow.
     ok_or (NoAccountOwner account_id) (owner_address ch (own_owner ow)))"

definition validate_account_owner ::
  "chain \<Rightarrow> registry_state \<Rightarrow> namespace \<Rightarrow> addr \<Rightarrow> unit vc_result" where
  "validate_account_owner ch st namespace sndr =
     and_then (ok_or (UnknownNamespace namespace) (load (namespaces st) namespace)) (\<lambda>account_id.
     and_then (map_err RegStd (load_err (account_addresses st) (acc_key account_id))) (\<lambda>account.
     if sndr \<noteq> account
     then and_then (query_account_owner ch account account_id) (\<lambda>account_owner.
       if sndr \<noteq> account_owner then Err (AccountOwnerMismatch sndr account_owner) else Ok ())
     else Ok ()))"

section \<open>Namespaces\<close>

definition claim_namespace_internal ::
  "registry_state \<Rightarrow> coin option \<Rightarrow> message_info \<Rightarrow> account_id \<Rightarrow> string
   \<Rightarrow> (registry_state \<times> cosmos_msg option) vc_result" where
  "claim_namespace_internal st fee info account_id namespace_to_claim =
     (if has (rev_namespaces st) (acc_key account_id) then Err (ExceedsNamespaceLimit 1 1)
      else
     and_then
       (case fee of
          Some fee \<Rightarrow>
            and_then (map_err RegAbstract (assert_payment fee (info_funds info))) (\<lambda>_.
            and_then (map_err RegStd (load_err (account_addresses st) (acc_key ABSTRACT_ACCOUNT_ID)))
              (\<lambda>admin_account. Ok (Some (BankSend admin_account (info_funds info)))))
        | None \<Rightarrow> Ok None) (\<lambda>fee_msg.
     and_then (map_err RegAbstract (namespace_new namespace_to_claim)) (\<lambda>namespace.
     case load (namespaces st) namespace of
       Some i \<Rightarrow> Err (NamespaceOccupied namespace i)
     | None \<Rightarrow>
         Ok (st\<lparr>namespaces := save namespace account_id (namespaces st),
                rev_namespaces := save (acc_key account_id) namespace (rev_namespaces st)\<rparr>,
             fee_msg))))"

definition claim_namespace ::
  "chain \<Rightarrow> registry_state \<Rightarrow> message_info \<Rightarrow> account_id \<Rightarrow> string \<Rightarrow> vc_response vc_result" where
  "claim_namespace ch st info account_id namespace_to_claim =
     and_then (map_err RegStd (load_config st)) (\<lambda>config.
     and_then
       (if security_enabled config
        then assert_registry_owner ch st (info_sender info)
        else
          and_then (map_err RegStd (load_err (account_addresses st) (acc_key account_id))) (\<lambda>account.
          and_then (query_account_owner ch account account_id) (\<lambda>account_owner.
          if info_sender info \<noteq> account_owner
          then Err (AccountOwnerMismatch (info_sender info) account_owner) else Ok ()))) (\<lambda>_.
     and_then (claim_namespace_internal st (namespace_registration_fee config) info account_id
       namespace_to_claim) (\<lambda>(st', fee_msg).
     Ok (st', case fee_msg of Some m \<Rightarrow> [m] | None \<Rightarrow> []))))"

text \<open>The inner loop of \<open>forgo_namespace\<close> over the registered modules of the namespace.\<close>

definition yank_entry :: "module_key \<times> module_reference \<Rightarrow> registry_state \<Rightarrow> registry_state" where
  "yank_entry e st = (case e of (k, mod_ref) \<Rightarrow>
     let module = key_module_info k
     in st\<lparr>registered_modules := remove (mod_key module) (registered_modules st),
          yanked_modules := save (mod_key module) mod_ref (yanked_modules st)\<rparr>)"

definition forgo_one ::
  "chain \<Rightarrow> bool \<Rightarrow> addr \<Rightarrow> registry_state \<Rightarrow> string \<Rightarrow> registry_state vc_result" where
  "forgo_one ch is_adm sndr st namespace =
     and_then (map_err RegAbstract (namespace_new namespace)) (\<lambda>namespace.
     if \<not> has (namespaces st) namespace then Err (UnknownNamespace namespace)
     else
     and_then (if \<not> is_adm then validate_account_owner ch st namespace sndr else Ok ()) (\<lambda>_.
     let st = fold yank_entry
           (entries_where (\<lambda>k. fst k = SubKey namespace) (registered_modules st)) st
     in and_then (map_err RegStd (load_err (namespaces st) namespace)) (\<lambda>own.
        Ok (st\<lparr>namespaces := remove namespace (namespaces st),
               rev_namespaces := remove (acc_key own) (rev_namespaces st)\<rparr>))))"

definition forgo_namespace ::
  "chain \<Rightarrow> registry_state \<Rightarrow> message_info \<Rightarrow> string list \<Rightarrow> vc_response vc_result" where
  "forgo_namespace ch st info nss =
     and_then (map_err RegStd (q_cwo_is_owner ch (r_ownership st) (info_sender info))) (\<lambda>is_adm.
     and_then (try_fold (forgo_one ch is_adm (info_sender info)) st nss) (\<lambda>st'.
     Ok (st', [])))"

section \<open>Accounts\<close>

definition PREDICTABLE_SEQ :: u32 where "PREDICTABLE_SEQ = 2147483648"

definition check_local_sequence :: "registry_state \<Rightarrow> account_id \<Rightarrow> registry_state vc_result" where
  "check_local_sequence st account_id =
     (if acc_seq account_id < PREDICTABLE_SEQ
      then
        let next_sequence = (case local_account_sequence st of Some n \<Rightarrow> n | None \<Rightarrow> 0)
        in and_then (ensure (next_sequence = acc_seq account_id)
             (InvalidAccountSequence next_sequence (acc_seq account_id))) (\<lambda>_.
           and_then (unwrap (checked_add next_sequence 1)) (\<lambda>n.
           Ok (st\<lparr>local_account_sequence := Some n\<rparr>)))
      else Ok st)"

definition check_remote_account ::
  "chain \<Rightarrow> registry_state \<Rightarrow> account_id \<Rightarrow> string \<Rightarrow> unit vc_result" where
  "check_remote_account ch st account_id creator =
     and_then (map_err RegStd (q_addr_validate ch creator)) (\<lambda>creator_addr.
     and_then (map_err RegStd (q_cw2 ch creator_addr)) (\<lambda>sender_cw2_info.
     and_then (map_err RegAbstract (module_info_from_id IBC_HOST
       (Version (cv_version sender_cw2_info)))) (\<lambda>host_info.
     and_then (map_err RegStd (load_err (registered_modules st) (mod_key host_info))) (\<lambda>host_ref.
     and_then (map_err RegAbstract (unwrap_native host_ref)) (\<lambda>ibc_host_addr.
     and_then (ensure (creator_addr = ibc_host_addr)
       (SenderNotIbcHost creator_addr ibc_host_addr)) (\<lambda>_.
     map_err RegAbstract (trace_verify_remote (acc_trace account_id))))))))"

definition add_account ::
  "chain \<Rightarrow> registry_state \<Rightarrow> message_info \<Rightarrow> string option \<Rightarrow> string \<Rightarrow> vc_response vc_result" where
  "add_account ch st info namespace creator =
     and_then (map_err RegStd (load_config st)) (\<lambda>config.
     and_then (map_err RegStd (q_cw2 ch (info_sender info))) (\<lambda>contract_info.
     and_then (map_err RegAbstract (module_info_of_contract_version contract_info))
       (\<lambda>acc_module_info.
     and_then (ensure (module_id acc_module_info = ACCOUNT) (NotAccountInfo acc_module_info)) (\<lambda>_.
     and_then (map_err RegStd (q_account_id ch (info_sender info))) (\<lambda>account_id.
     and_then (ensure (\<not> has (account_addresses st) (acc_key account_id))
       (AccountAlreadyExists account_id)) (\<lambda>_.
     and_then (map_err RegStd (q_contract_info ch (info_sender info))) (\<lambda>sender_contract_info.
     and_then (map_err RegStd (load_err (registered_modules st) (mod_key acc_module_info)))
       (\<lambda>acc_ref.
     and_then (map_err RegAbstract (unwrap_account acc_ref)) (\<lambda>account_code_id.
     and_then (ensure (account_code_id = ci_code_id sender_contract_info)
       (NotAccountCodeId acc_module_info account_code_id (ci_code_id sender_contract_info))) (\<lambda>_.
     and_then
       (if is_local account_id then check_local_sequence st account_id
        else and_then (check_remote_account ch st account_id creator) (\<lambda>_. Ok st)) (\<lambda>st.
     let account = info_sender info;
         st = st\<lparr>account_addresses := save (acc_key account_id) account (account_addresses st)\<rparr>
     in and_then
       (case namespace of
          Some ns \<Rightarrow> claim_namespace_internal st (namespace_registration_fee config) info
                      account_id ns
        | None \<Rightarrow> Ok (st, None)) (\<lambda>(st, fee_msg).
     Ok (st, case fee_msg of Some m \<Rightarrow> [m] | None \<Rightarrow> [])))))))))))))"

section \<open>Modules\<close>

text \<open>One round of the loop of \<open>propose_modules\<close>: the checks, then where the module is saved.\<close>

definition propose_checks ::
  "chain \<Rightarrow> registry_config \<Rightarrow> addr \<Rightarrow> registry_state \<Rightarrow> module_info \<Rightarrow> module_reference
   \<Rightarrow> unit vc_result" where
  "propose_checks ch config sndr st module mod_ref =
     (let store_has_module = has (pending_modules st) (mod_key module)
           \<or> has (registered_modules st) (mod_key module)
           \<or> has (yanked_modules st) (mod_key module)
     in if security_enabled config \<and> store_has_module then Err (NotUpdateableModule module)
     else
     and_then (map_err RegAbstract (module_info_validate (q_semver ch) module)) (\<lambda>_.
     and_then (map_err RegAbstract (module_reference_validate (q_addr_validate ch) mod_ref)) (\<lambda>_.
     and_then (map_err RegAbstract (assert_version_variant (q_semver ch) module)) (\<lambda>_.
     and_then (if mi_namespace module = ABSTRACT_NAMESPACE
               then assert_registry_owner ch st sndr
               else validate_account_owner ch st (mi_namespace module) sndr) (\<lambda>_.
     case mod_ref of
         Adapter a \<Rightarrow> and_then (map_err RegStd (q_contract_info ch a)) (\<lambda>ci.
           if ci_admin ci \<noteq> None then Err AdminMustBeNone else Ok ())
       | _ \<Rightarrow> Ok ())))))"

definition save_registered ::
  "registry_state \<Rightarrow> module_info \<Rightarrow> module_reference \<Rightarrow> registry_state" where
  "save_registered st module mod_ref =
     (let st = st\<lparr>registered_modules := save (mod_key module) mod_ref (registered_modules st)\<rparr>
      in case mod_ref of
           Standalone i \<Rightarrow> st\<lparr>standalone_infos := save i module (standalone_infos st)\<rparr>
         | Service a \<Rightarrow> st\<lparr>service_infos := save a module (service_infos st)\<rparr>
         | _ \<Rightarrow> st)"

definition propose_one ::
  "chain \<Rightarrow> registry_config \<Rightarrow> addr \<Rightarrow> registry_state \<Rightarrow> module_info \<times> module_reference
   \<Rightarrow> registry_state vc_result" where
  "propose_one ch config sndr st entry = (case entry of (module, mod_ref) \<Rightarrow>
     and_then (propose_checks ch config sndr st module mod_ref) (\<lambda>_.
     if security_enabled config
     then Ok (st\<lparr>pending_modules := save (mod_key module) mod_ref (pending_modules st)\<rparr>)
     else
       and_then (map_err RegAbstract (assert_module_data_validity (q_cw2 ch) (q_module_data ch)
         \<lparr>m_info = module, m_reference = mod_ref\<rparr> None)) (\<lambda>_.
       Ok (save_registered st module mod_ref))))"

definition propose_modules ::
  "chain \<Rightarrow> registry_state \<Rightarrow> message_info \<Rightarrow> (module_info \<times> module_reference) list
   \<Rightarrow> vc_response vc_result" where
  "propose_modules ch st info modules =
     and_then (map_err RegStd (load_config st)) (\<lambda>config.
     and_then (try_fold (propose_one ch config (info_sender info)) st modules) (\<lambda>st'.
     Ok (st', [])))"

definition approve_one :: "registry_state \<Rightarrow> module_info \<Rightarrow> registry_state vc_result" where
  "approve_one st module =
     and_then (ok_or (RegModuleNotFound module) (load (pending_modules st) (mod_key module)))
       (\<lambda>mod_ref.
     let st = st\<lparr>registered_modules := save (mod_key module) mod_ref (registered_modules st),
                 pending_modules := remove (mod_key module) (pending_modules st)\<rparr>
     in Ok (case mod_ref of
         Standalone i \<Rightarrow> st\<lparr>standalone_infos := save i module (standalone_infos st)\<rparr>
       | _ \<Rightarrow> st))"

definition approve_modules :: "registry_state \<Rightarrow> module_info list \<Rightarrow> registry_state vc_result" where
  "approve_modules st approves = try_fold approve_one st approves"

definition reject_one :: "registry_state \<Rightarrow> module_info \<Rightarrow> registry_state vc_result" where
  "reject_one st module =
     (if \<not> has (pending_modules st) (mod_key module) then Err (RegModuleNotFound module)
      else Ok (st\<lparr>pending_modules := remove (mod_key module) (pending_modules st)\<rparr>))"

definition reject_modules :: "registry_state \<Rightarrow> module_info list \<Rightarrow> registry_state vc_result" where
  "reject_modules st rejects = try_fold reject_one st rejects"

definition approve_or_reject_modules ::
  "chain \<Rightarrow> registry_state \<Rightarrow> message_info \<Rightarrow> module_info list \<Rightarrow> module_info list
   \<Rightarrow> vc_response vc_result" where
  "approve_or_reject_modules ch st info approves rejects =
     and_then (assert_registry_owner ch st (info_sender info)) (\<lambda>_.
     and_then (if approves \<noteq> [] then approve_modules st approves else Ok st) (\<lambda>st.
     and_then (if rejects \<noteq> [] then reject_modules st rejects else Ok st) (\<lambda>st.
     if approves = [] \<and> rejects = [] then Err NoAction else Ok (st, []))))"

text \<open>The writes of \<open>remove_module\<close>: the entries of this version, the reverse entry of a
  standalone, and the default configuration once no version is left.\<close>

definition drop_version :: "module_info \<Rightarrow> registry_state \<Rightarrow> registry_state" where
  "drop_version module st =
     st\<lparr>registered_modules := remove (mod_key module) (registered_modules st),
        yanked_modules := remove (mod_key module) (yanked_modules st),
        module_config := remove (mod_key module) (module_config st)\<rparr>"

definition drop_standalone ::
  "(module_reference, std_error) result \<Rightarrow> registry_state \<Rightarrow> registry_state" where
  "drop_standalone module_ref_res st = (case module_ref_res of
       Ok (Standalone i) \<Rightarrow> st\<lparr>standalone_infos := remove i (standalone_infos st)\<rparr>
     | _ \<Rightarrow> st)"

definition drop_default :: "module_info \<Rightarrow> registry_state \<Rightarrow> registry_state" where
  "drop_default module st =
     (if module_versions (mi_namespace module) (mi_name module) (registered_modules st) = []
      then st\<lparr>module_default_config :=
          remove (default_key (mi_namespace module) (mi_name module)) (module_default_config st)\<rparr>
      else st)"

definition remove_module ::
  "chain \<Rightarrow> registry_state \<Rightarrow> message_info \<Rightarrow> module_info \<Rightarrow> vc_response vc_result" where
  "remove_module ch st info module =
     and_then (assert_registry_owner ch st (info_sender info)) (\<lambda>_.
     and_then (map_err RegAbstract (assert_version_variant (q_semver ch) module)) (\<lambda>_.
     let module_ref_res = load_err (registered_modules st) (mod_key module)
     in and_then (ensure (is_ok module_ref_res \<or> has (yanked_modules st) (mod_key module))
          (RegModuleNotFound module)) (\<lambda>_.
     Ok (drop_default module (drop_standalone module_ref_res (drop_version module st)), []))))"

definition yank_module ::
  "chain \<Rightarrow> registry_state \<Rightarrow> message_info \<Rightarrow> module_info \<Rightarrow> vc_response vc_result" where
  "yank_module ch st info module =
     and_then (validate_account_owner ch st (mi_namespace module) (info_sender info)) (\<lambda>_.
     and_then (map_err RegAbstract (assert_version_variant (q_semver ch) module)) (\<lambda>_.
     and_then (ok_or (RegModuleNotFound module) (load (registered_modules st) (mod_key module)))
       (\<lambda>mod_ref.
     Ok (st\<lparr>yanked_modules := save (mod_key module) mod_ref (yanked_modules st),
            registered_modules := remove (mod_key module) (registered_modules st)\<rparr>, []))))"

definition default_module_configuration :: module_configuration where
  "default_module_configuration =
     \<lparr>mc_monetization = NoMonetization, mc_metadata = None, mc_instantiation_funds = []\<rparr>"

text \<open>The configuration a \<open>Versioned\<close> update leads to.\<close>

definition updated_config ::
  "module_configuration \<Rightarrow> module_reference \<Rightarrow> string option \<Rightarrow> monetization option
   \<Rightarrow> coin list option \<Rightarrow> module_configuration vc_result" where
  "updated_config cfg module_reference metadata monetization instantiation_funds =
     (let cfg = (case metadata of Some m \<Rightarrow> cfg\<lparr>mc_metadata := Some m\<rparr> | None \<Rightarrow> cfg);
          cfg = (case monetization of Some m \<Rightarrow> cfg\<lparr>mc_monetization := m\<rparr> | None \<Rightarrow> cfg)
      in case instantiation_funds of
           Some init_funds \<Rightarrow> (case module_reference of
               App _ \<Rightarrow> Ok (cfg\<lparr>mc_instantiation_funds := init_funds\<rparr>)
             | Standalone _ \<Rightarrow> Ok (cfg\<lparr>mc_instantiation_funds := init_funds\<rparr>)
             | _ \<Rightarrow> Err RedundantInitFunds)
         | None \<Rightarrow> Ok cfg)"

definition update_module_config ::
  "chain \<Rightarrow> registry_state \<Rightarrow> message_info \<Rightarrow> string \<Rightarrow> namespace \<Rightarrow> update_module
   \<Rightarrow> vc_response vc_result" where
  "update_module_config ch st info module_name namespace update_module =
     and_then (if namespace = ABSTRACT_NAMESPACE
               then assert_registry_owner ch st (info_sender info)
               else validate_account_owner ch st namespace (info_sender info)) (\<lambda>_.
     case update_module of
       Default metadata \<Rightarrow>
         (if module_versions namespace module_name (registered_modules st) = []
          then Err (RegModuleNotFound \<lparr>mi_namespace = namespace, mi_name = module_name,
                 mi_version = Latest\<rparr>)
          else
          and_then (map_err RegValidation (validate_link (Some metadata))) (\<lambda>_.
          Ok (st\<lparr>module_default_config := save (default_key namespace module_name) metadata
                  (module_default_config st)\<rparr>, [])))
     | Versioned version metadata monetization instantiation_funds \<Rightarrow>
         (let module = \<lparr>mi_namespace = namespace, mi_name = module_name,
                mi_version = Version version\<rparr>
          in and_then (ok_or (RegModuleNotFound module)
               (load (registered_modules st) (mod_key module))) (\<lambda>module_reference.
             and_then (updated_config
               (case load (module_config st) (mod_key module) of
                  Some c \<Rightarrow> c | None \<Rightarrow> default_module_configuration)
               module_reference metadata monetization instantiation_funds) (\<lambda>cfg.
             Ok (st\<lparr>module_config := save (mod_key module) cfg (module_config st)\<rparr>, [])))))"

section \<open>Configuration and entry points\<close>

definition of_clearable :: "'a clearable \<Rightarrow> 'a option" where
  "of_clearable c = (case c of Clear \<Rightarrow> None | Set a \<Rightarrow> Some a)"

definition update_config ::
  "chain \<Rightarrow> registry_state \<Rightarrow> message_info \<Rightarrow> bool option \<Rightarrow> coin clearable option
   \<Rightarrow> vc_response vc_result" where
  "update_config ch st info sec_enabled fee =
     and_then (assert_registry_owner ch st (info_sender info)) (\<lambda>_.
     and_then (map_err RegStd (load_config st)) (\<lambda>config.
     let config = (case sec_enabled of
           Some b \<Rightarrow> config\<lparr>security_enabled := b\<rparr> | None \<Rightarrow> config);
         config = (case fee of
           Some f \<Rightarrow> config\<lparr>namespace_registration_fee := of_clearable f\<rparr> | None \<Rightarrow> config)
     in Ok (st\<lparr>r_config := Some (Config config)\<rparr>, [])))"

definition registry_instantiate ::
  "chain \<Rightarrow> registry_state \<Rightarrow> registry_instantiate_msg \<Rightarrow> vc_response vc_result" where
  "registry_instantiate ch st msg =
     (let st = st\<lparr>r_cw2 := Some \<lparr>cv_contract = REGISTRY, cv_version = CONTRACT_VERSION\<rparr>,
                r_config := Some (Config \<lparr>
                  security_enabled = (case rim_security_enabled msg of Some b \<Rightarrow> b | None \<Rightarrow> True),
                  namespace_registration_fee = rim_namespace_registration_fee msg\<rparr>)\<rparr>
      in and_then (map_err RegStd (q_cwo_initialize ch (Some (rim_admin msg)))) (\<lambda>ow.
         and_then (map_err RegAbstract (namespace_new ABSTRACT_NAMESPACE)) (\<lambda>namespace.
         Ok (st\<lparr>r_ownership := Some ow,
                namespaces := save namespace ABSTRACT_ACCOUNT_ID (namespaces st),
                rev_namespaces := save (acc_key ABSTRACT_ACCOUNT_ID) namespace (rev_namespaces st),
                local_account_sequence := Some 0\<rparr>, []))))"

fun registry_execute ::
  "chain \<Rightarrow> env \<Rightarrow> registry_state \<Rightarrow> message_info \<Rightarrow> registry_execute_msg
   \<Rightarrow> vc_response vc_result" where
  "registry_execute ch ev st info (ProposeModules modules) = propose_modules ch st info modules"
| "registry_execute ch ev st info (ApproveOrRejectModules approves rejects) =
     approve_or_reject_modules ch st info approves rejects"
| "registry_execute ch ev st info (RemoveModule module) = remove_module ch st info module"
| "registry_execute ch ev st info (YankModule module) = yank_module ch st info module"
| "registry_execute ch ev st info (UpdateModuleConfiguration module_name namespace update_module) =
     update_module_config ch st info module_name namespace update_module"
| "registry_execute ch ev st info (ClaimNamespace account_id namespace) =
     claim_namespace ch st info account_id namespace"
| "registry_execute ch ev st info (ForgoNamespace nss) = forgo_namespace ch st info nss"
| "registry_execute ch ev st info (AddAccount namespace creator) =
     add_account ch st info namespace creator"
| "registry_execute ch ev st info (UpdateConfig sec_enabled fee) =
     update_config ch st info sec_enabled fee"
| "registry_execute ch ev st info (RegistryUpdateOwnership action) =
     and_then (map_err RegOwnership
       (q_cwo_update ch (r_ownership st) (env_block ev) (info_sender info) action)) (\<lambda>ow.
     Ok (st\<lparr>r_ownership := Some ow\<rparr>, []))"

text \<open>\<open>migrate_instantiate\<close> of \<open>abstract-sdk/src/cw_helpers/migrate_instantiate.rs\<close>, for any
  contract: the stored \<open>cw2\<close> item, and the contract's instantiation.\<close>

definition migrate_instantiate ::
  "chain \<Rightarrow> env \<Rightarrow> contract_version option \<Rightarrow> (std_error \<Rightarrow> 'e)
   \<Rightarrow> (message_info \<Rightarrow> ('r, 'e) result) \<Rightarrow> ('r, 'e) result" where
  "migrate_instantiate ch ev cw2 from_std init_fn =
     (if cw2 \<noteq> None then Err (from_std (StdMsg
        ''Second instantiation attempt: cw2 is not clear during instantiation''))
      else
      and_then (map_err from_std (q_contract_info ch (env_contract ev))) (\<lambda>ci.
      and_then (unwrap (ci_admin ci)) (\<lambda>sndr.
      init_fn \<lparr>info_sender = sndr, info_funds = []\<rparr>)))"

datatype registry_migrate_msg = MigrateInstantiate registry_instantiate_msg | Migrate

definition save_namespace :: "namespace \<times> account_id \<Rightarrow> registry_state \<Rightarrow> registry_state" where
  "save_namespace e st = (case e of (namespace, account_id) \<Rightarrow>
     st\<lparr>namespaces := save namespace account_id (namespaces st),
        rev_namespaces := save (acc_key account_id) namespace (rev_namespaces st)\<rparr>)"

fun registry_migrate ::
  "chain \<Rightarrow> env \<Rightarrow> registry_state \<Rightarrow> registry_migrate_msg \<Rightarrow> vc_response vc_result" where
  "registry_migrate ch ev st (MigrateInstantiate instantiate_msg) =
     migrate_instantiate ch ev (r_cw2 st) RegStd (\<lambda>info. registry_instantiate ch st instantiate_msg)"
| "registry_migrate ch ev st Migrate =
     and_then (ok_or RegSemVer (sv_parse (q_semver ch) CONTRACT_VERSION)) (\<lambda>to_version.
     and_then (map_err RegAbstract (namespace_new ABSTRACT_NAMESPACE)) (\<lambda>abstract_ns.
     let st = fold save_namespace (namespaces_info st @ [(abstract_ns, ABSTRACT_ACCOUNT_ID)]) st
     in and_then (unwrap (r_config st)) (\<lambda>cfg.
     let st = (case cfg of
           ConfigV0_24 security_disabled fee \<Rightarrow>
             st\<lparr>r_config := Some (Config \<lparr>security_enabled = \<not> security_disabled,
               namespace_registration_fee = fee\<rparr>)\<rparr>
         | Config _ \<Rightarrow> st)
     in and_then (unwrap (sv_parse (q_semver ch) (sv_show (q_semver ch) to_version))) (\<lambda>to_version.
        and_then (map_err RegAbstract
          (assert_contract_upgrade (q_semver ch) (r_cw2 st) REGISTRY to_version)) (\<lambda>_.
        Ok (st\<lparr>r_cw2 := Some \<lparr>cv_contract = REGISTRY, cv_version = CONTRACT_VERSION\<rparr>\<rparr>,
          []))))))"

lemmas registry_defs =
  load_err_def assert_registry_owner_def query_account_owner_def
  validate_account_owner_def claim_namespace_internal_def claim_namespace_def forgo_namespace_def
  check_local_sequence_def check_remote_account_def add_account_def propose_modules_def
  approve_modules_def reject_modules_def approve_or_reject_modules_def remove_module_def
  yank_module_def update_module_config_def update_config_def registry_instantiate_def

end
