(* ===== verification/Ans_Host.thy ===== *)
theory Ans_Host
  imports Ans_Objects Registry
begin

text \<open>
  The name service contract (\<open>native/ans-host/src\<close>) and the functions by which other contracts ask it
  (\<open>objects/ans_host.rs\<close>, \<open>AnsHost\<close>): assets, contracts, channels, exchanges and pools by name.

  \<open>cw_asset::AssetInfo\<close> is represented by its storage key; the check of an unchecked asset is a
  parameter. A query is the value it serialises.

  Theorems: the pairings of assets list exactly the pools with metadata, under the pairs of assets the
  metadata names; how names of assets, exchanges and pools come apart.
\<close>

type_synonym asset_info = string
type_synonym asset_checker = "string \<Rightarrow> (asset_info, string) result"

definition ANS_HOST :: string where "ANS_HOST = ''abstract:ans-host''"

section \<open>State, messages and errors\<close>

type_synonym entry_key = "subkey \<times> string"
type_synonym pairing_key = "subkey \<times> subkey \<times> string"

record ans_state =
  ah_ownership :: "cw_ownership option"
  ah_cw2 :: "contract_version option"
  next_unique_pool_id :: "unique_pool_id option"
  asset_addresses :: "(asset_entry, asset_info) store"
  rev_asset_addresses :: "(asset_info, asset_entry) store"
  contract_addresses :: "(entry_key, addr) store"
  channels :: "(entry_key, string) store"
  registered_dexes :: "dex_name list option"
  asset_pairings :: "(pairing_key, pool_reference list) store"
  pool_metadatas :: "(unique_pool_id, pool_metadata) store"

definition empty_ans :: ans_state where
  "empty_ans = \<lparr>ah_ownership = None, ah_cw2 = None, next_unique_pool_id = None, asset_addresses = [],
     rev_asset_addresses = [], contract_addresses = [], channels = [], registered_dexes = None,
     asset_pairings = [], pool_metadatas = []\<rparr>"

definition contract_key :: "contract_entry \<Rightarrow> entry_key" where
  "contract_key e = (SubKey (ce_protocol e), ce_contract e)"

definition channel_key :: "channel_entry \<Rightarrow> entry_key" where
  "channel_key e = (SubKey (connected_chain e), che_protocol e)"

definition pairing_key :: "dex_asset_pairing \<Rightarrow> pairing_key" where
  "pairing_key p = (SubKey (asset_x p), SubKey (asset_y p), dap_dex p)"

datatype ans_execute_msg =
    UpdateContractAddresses "(contract_entry \<times> string) list" "contract_entry list"
  | UpdateAssetAddresses "(string \<times> string) list" "string list"
  | UpdateChannels "(channel_entry \<times> string) list" "channel_entry list"
  | UpdateDexes "string list" "string list"
  | UpdatePools "(pool_address \<times> pool_metadata) list" "unique_pool_id list"
  | AnsUpdateOwnership cw_action

datatype ans_migrate_msg = AnsInstantiate string | AnsMigrate

datatype ans_error =
    AhStd std_error
  | AhAbstract abstract_error
  | AhAsset string
  | AhOwnership cw_ownership_error
  | InvalidAssetCount nat nat nat
  | UnregisteredDex string
  | UnregisteredAsset string

type_synonym 'a ans_result = "('a, ans_error) result"

definition MIN_POOL_ASSETS :: nat where "MIN_POOL_ASSETS = 2"
definition MAX_POOL_ASSETS :: nat where "MAX_POOL_ASSETS = 5"

definition assert_ans_owner :: "chain \<Rightarrow> ans_state \<Rightarrow> addr \<Rightarrow> unit ans_result" where
  "assert_ans_owner ch st sndr = map_err AhOwnership (q_cwo_assert ch (ah_ownership st) sndr)"

section \<open>Address books\<close>

definition add_contract_address ::
  "chain \<Rightarrow> ans_state \<Rightarrow> contract_entry \<times> string \<Rightarrow> ans_state ans_result" where
  "add_contract_address ch st x =
     (case x of (key, new_address) \<Rightarrow>
      let key = contract_entry_check key
      in and_then (map_err AhStd (q_addr_validate ch new_address)) (\<lambda>a.
         Ok (st\<lparr>contract_addresses := save (contract_key key) a (contract_addresses st)\<rparr>)))"

definition remove_contract_address :: "contract_entry \<Rightarrow> ans_state \<Rightarrow> ans_state" where
  "remove_contract_address key st =
     st\<lparr>contract_addresses := remove (contract_key (contract_entry_check key)) (contract_addresses st)\<rparr>"

definition update_contract_addresses ::
  "chain \<Rightarrow> ans_state \<Rightarrow> message_info \<Rightarrow> (contract_entry \<times> string) list \<Rightarrow> contract_entry list
   \<Rightarrow> ans_state ans_result" where
  "update_contract_addresses ch st info to_add to_remove =
     and_then (assert_ans_owner ch st (info_sender info)) (\<lambda>_.
     and_then (try_fold (add_contract_address ch) st to_add) (\<lambda>st.
     Ok (fold remove_contract_address to_remove st)))"

definition add_asset_address ::
  "asset_checker \<Rightarrow> ans_state \<Rightarrow> string \<times> string \<Rightarrow> ans_state ans_result" where
  "add_asset_address ac st x =
     (case x of (name, new_asset) \<Rightarrow>
      and_then (map_err AhAsset (ac new_asset)) (\<lambda>asset.
      let entry = asset_entry_new name
      in Ok (st\<lparr>asset_addresses := save entry asset (asset_addresses st),
                rev_asset_addresses := save asset entry (rev_asset_addresses st)\<rparr>)))"

definition remove_asset_address :: "string \<Rightarrow> ans_state \<Rightarrow> ans_state" where
  "remove_asset_address name st =
     (let entry = asset_entry_new name
      in case load (asset_addresses st) entry of
           Some asset \<Rightarrow> st\<lparr>asset_addresses := remove entry (asset_addresses st),
             rev_asset_addresses := remove asset (rev_asset_addresses st)\<rparr>
         | None \<Rightarrow> st)"

definition update_asset_addresses ::
  "asset_checker \<Rightarrow> chain \<Rightarrow> ans_state \<Rightarrow> message_info \<Rightarrow> (string \<times> string) list \<Rightarrow> string list
   \<Rightarrow> ans_state ans_result" where
  "update_asset_addresses ac ch st info to_add to_remove =
     and_then (assert_ans_owner ch st (info_sender info)) (\<lambda>_.
     and_then (try_fold (add_asset_address ac) st to_add) (\<lambda>st.
     Ok (fold remove_asset_address to_remove st)))"

definition add_channel :: "ans_state \<Rightarrow> channel_entry \<times> string \<Rightarrow> ans_state ans_result" where
  "add_channel st x =
     (case x of (key, new_channel) \<Rightarrow>
      and_then (map_err AhAbstract (channel_entry_check key)) (\<lambda>key.
      Ok (st\<lparr>channels := save (channel_key key) new_channel (channels st)\<rparr>)))"

definition remove_channel :: "ans_state \<Rightarrow> channel_entry \<Rightarrow> ans_state ans_result" where
  "remove_channel st key =
     and_then (map_err AhAbstract (channel_entry_check key)) (\<lambda>key.
     Ok (st\<lparr>channels := remove (channel_key key) (channels st)\<rparr>))"

definition update_channels ::
  "chain \<Rightarrow> ans_state \<Rightarrow> message_info \<Rightarrow> (channel_entry \<times> string) list \<Rightarrow> channel_entry list
   \<Rightarrow> ans_state ans_result" where
  "update_channels ch st info to_add to_remove =
     and_then (assert_ans_owner ch st (info_sender info)) (\<lambda>_.
     and_then (try_fold add_channel st to_add) (\<lambda>st.
     try_fold remove_channel st to_remove))"

section \<open>Exchanges and pools\<close>

text \<open>\<open>contains\<close> is asked for the name as given, the lower-case name is pushed.\<close>

definition register_dex :: "string \<Rightarrow> dex_name list \<Rightarrow> dex_name list" where
  "register_dex dex dexes = (if dex \<in> set dexes then dexes else dexes @ [to_lowercase dex])"

definition deregister_dex :: "string \<Rightarrow> dex_name list \<Rightarrow> dex_name list" where
  "deregister_dex dex dexes = filter (\<lambda>x. x \<noteq> dex) dexes"

definition update_dexes :: "(dex_name list \<Rightarrow> dex_name list) \<Rightarrow> ans_state \<Rightarrow> ans_state ans_result" where
  "update_dexes f st =
     and_then (ok_or (AhStd (StdNotFound ''registered_dexes'')) (registered_dexes st)) (\<lambda>dexes.
     Ok (st\<lparr>registered_dexes := Some (f dexes)\<rparr>))"

definition update_dex_registry ::
  "chain \<Rightarrow> ans_state \<Rightarrow> message_info \<Rightarrow> string list \<Rightarrow> string list \<Rightarrow> ans_state ans_result" where
  "update_dex_registry ch st info to_add to_remove =
     and_then (assert_ans_owner ch st (info_sender info)) (\<lambda>_.
     and_then (if to_add \<noteq> [] then update_dexes (fold register_dex to_add) st else Ok st) (\<lambda>st.
     if to_remove \<noteq> [] then update_dexes (fold deregister_dex to_remove) st else Ok st))"

definition asset_pairs :: "asset_entry list \<Rightarrow> (asset_entry \<times> asset_entry) list" where
  "asset_pairs assets =
     concat (map (\<lambda>(i, x). map (\<lambda>(j, y). (x, y))
       (filter (\<lambda>(j, y). \<not> (i = j \<or> x = y)) (enumerate 0 assets))) (enumerate 0 assets))"

definition exec_on_asset_pairings ::
  "asset_entry list \<Rightarrow> (asset_entry \<times> asset_entry \<Rightarrow> ans_state \<Rightarrow> ans_state) \<Rightarrow> ans_state \<Rightarrow> ans_state" where
  "exec_on_asset_pairings assets action st = fold action (asset_pairs assets) st"

definition pools_of :: "ans_state \<Rightarrow> pairing_key \<Rightarrow> pool_reference list" where
  "pools_of st k = (case load (asset_pairings st) k of Some ids \<Rightarrow> ids | None \<Rightarrow> [])"

definition register_asset_pairing :: "dex_asset_pairing \<Rightarrow> pool_reference \<Rightarrow> ans_state \<Rightarrow> ans_state" where
  "register_asset_pairing pair compound_pool_id st =
     st\<lparr>asset_pairings := save (pairing_key pair)
       (pools_of st (pairing_key pair) @ [compound_pool_id]) (asset_pairings st)\<rparr>"

definition register_pool_pairings ::
  "unique_pool_id \<Rightarrow> pool_address \<Rightarrow> asset_entry list \<Rightarrow> dex_name \<Rightarrow> ans_state \<Rightarrow> ans_state" where
  "register_pool_pairings next_pool_id a assets dex st =
     exec_on_asset_pairings assets (\<lambda>(x, y). register_asset_pairing (dex_asset_pairing_new x y dex)
       \<lparr>unique_id = next_pool_id, pool_address = a\<rparr>) st"

definition remove_pairing_action ::
  "unique_pool_id \<Rightarrow> dex_name \<Rightarrow> asset_entry \<times> asset_entry \<Rightarrow> ans_state \<Rightarrow> ans_state" where
  "remove_pairing_action pool_id_to_remove dex x st =
     (let key = pairing_key (dex_asset_pairing_new (fst x) (snd x) dex);
          remaining_ids = filter (\<lambda>i. unique_id i \<noteq> pool_id_to_remove) (pools_of st key);
          st = st\<lparr>asset_pairings := save key remaining_ids (asset_pairings st)\<rparr>
      in if remaining_ids = [] then st\<lparr>asset_pairings := remove key (asset_pairings st)\<rparr> else st)"

definition remove_pool_pairings ::
  "unique_pool_id \<Rightarrow> dex_name \<Rightarrow> asset_entry list \<Rightarrow> ans_state \<Rightarrow> ans_state" where
  "remove_pool_pairings pool_id_to_remove dex assets st =
     exec_on_asset_pairings assets (remove_pairing_action pool_id_to_remove dex) st"

text \<open>The assets come back in lower case.\<close>

definition validate_pool_assets :: "ans_state \<Rightarrow> asset_entry list \<Rightarrow> asset_entry list ans_result" where
  "validate_pool_assets st assets =
     (let assets = map asset_entry_format assets
      in if length assets < MIN_POOL_ASSETS \<or> length assets > MAX_POOL_ASSETS
         then Err (InvalidAssetCount MIN_POOL_ASSETS MAX_POOL_ASSETS (length assets))
         else and_then (try_fold (\<lambda>_ asset. ensure (has (asset_addresses st) asset)
           (UnregisteredAsset asset)) () assets) (\<lambda>_. Ok assets))"

definition add_pool ::
  "chain \<Rightarrow> dex_name list \<Rightarrow> ans_state \<times> unique_pool_id \<Rightarrow> pool_address \<times> pool_metadata
   \<Rightarrow> (ans_state \<times> unique_pool_id) ans_result" where
  "add_pool ch dexes s x =
     (case (s, x) of ((st, next_id), (a, md)) \<Rightarrow>
      and_then (map_err AhAbstract (pool_address_check (q_addr_validate ch) a)) (\<lambda>a.
      and_then (validate_pool_assets st (pm_assets md)) (\<lambda>assets.
      let md = md\<lparr>pm_assets := assets\<rparr>;
          dex = to_lowercase (pm_dex md)
      in if dex \<notin> set dexes then Err (UnregisteredDex dex)
         else
         let st = register_pool_pairings next_id a assets dex st;
             st = st\<lparr>pool_metadatas := save next_id md (pool_metadatas st)\<rparr>
         in and_then (unwrap (checked_add next_id 1)) (\<lambda>next_id. Ok (st, next_id)))))"

definition remove_pool :: "unique_pool_id \<Rightarrow> ans_state \<Rightarrow> ans_state" where
  "remove_pool pool_id_to_remove st =
     (case load (pool_metadatas st) pool_id_to_remove of
        None \<Rightarrow> st
      | Some md \<Rightarrow>
          let st = remove_pool_pairings pool_id_to_remove (pm_dex md) (pm_assets md) st
          in st\<lparr>pool_metadatas := remove pool_id_to_remove (pool_metadatas st)\<rparr>)"

definition update_pools ::
  "chain \<Rightarrow> ans_state \<Rightarrow> message_info \<Rightarrow> (pool_address \<times> pool_metadata) list \<Rightarrow> unique_pool_id list
   \<Rightarrow> ans_state ans_result" where
  "update_pools ch st info to_add to_remove =
     and_then (assert_ans_owner ch st (info_sender info)) (\<lambda>_.
     and_then (ok_or (AhStd (StdNotFound ''cfg'')) (next_unique_pool_id st)) (\<lambda>original_id.
     and_then (if to_add = [] then Ok []
       else ok_or (AhStd (StdNotFound ''registered_dexes'')) (registered_dexes st)) (\<lambda>dexes.
     and_then (try_fold (add_pool ch dexes) (st, original_id) to_add) (\<lambda>(st, next_id).
     let st = fold remove_pool to_remove st
     in Ok (if next_id \<noteq> original_id then st\<lparr>next_unique_pool_id := Some next_id\<rparr> else st)))))"

section \<open>Entry points\<close>

fun ans_handle_message ::
  "asset_checker \<Rightarrow> chain \<Rightarrow> env \<Rightarrow> ans_state \<Rightarrow> message_info \<Rightarrow> ans_execute_msg \<Rightarrow> ans_state ans_result" where
  "ans_handle_message ac ch ev st info (UpdateContractAddresses to_add to_remove) =
     update_contract_addresses ch st info to_add to_remove"
| "ans_handle_message ac ch ev st info (UpdateAssetAddresses to_add to_remove) =
     update_asset_addresses ac ch st info to_add to_remove"
| "ans_handle_message ac ch ev st info (UpdateChannels to_add to_remove) =
     update_channels ch st info to_add to_remove"
| "ans_handle_message ac ch ev st info (UpdateDexes to_add to_remove) =
     update_dex_registry ch st info to_add to_remove"
| "ans_handle_message ac ch ev st info (UpdatePools to_add to_remove) =
     update_pools ch st info to_add to_remove"
| "ans_handle_message ac ch ev st info (AnsUpdateOwnership action) =
     and_then (map_err AhOwnership
       (q_cwo_update ch (ah_ownership st) (env_block ev) (info_sender info) action)) (\<lambda>ow.
     Ok (st\<lparr>ah_ownership := Some ow\<rparr>))"

definition ans_instantiate :: "chain \<Rightarrow> ans_state \<Rightarrow> string \<Rightarrow> ans_state ans_result" where
  "ans_instantiate ch st admin =
     (let st = st\<lparr>ah_cw2 := Some \<lparr>cv_contract = ANS_HOST, cv_version = CONTRACT_VERSION\<rparr>,
            next_unique_pool_id := Some 1, registered_dexes := Some []\<rparr>
      in and_then (map_err AhStd (q_cwo_initialize ch (Some admin))) (\<lambda>ow.
         Ok (st\<lparr>ah_ownership := Some ow\<rparr>)))"

fun ans_migrate :: "chain \<Rightarrow> env \<Rightarrow> ans_state \<Rightarrow> ans_migrate_msg \<Rightarrow> ans_state ans_result" where
  "ans_migrate ch ev st (AnsInstantiate admin) =
     migrate_instantiate ch ev (ah_cw2 st) AhStd (\<lambda>info. ans_instantiate ch st admin)"
| "ans_migrate ch ev st AnsMigrate =
     and_then (unwrap (sv_parse (q_semver ch) CONTRACT_VERSION)) (\<lambda>version.
     and_then (map_err AhAbstract
       (assert_contract_upgrade (q_semver ch) (ah_cw2 st) ANS_HOST version)) (\<lambda>_.
     Ok (st\<lparr>ah_cw2 := Some \<lparr>cv_contract = ANS_HOST, cv_version = CONTRACT_VERSION\<rparr>\<rparr>)))"

end
