(* ===== verification/Ans_Queries.thy ===== *)
theory Ans_Queries
  imports Ans_Host
begin

text \<open>
  Queries of the name service (\<open>ans-host/src/queries.rs\<close>), the client \<open>AnsHost\<close> with its raw queries
  (\<open>objects/ans_host.rs\<close>) and the resolution of entries (\<open>abstract-sdk/src/ans_resolve.rs\<close>). The stored
  state of the contract at an address is the argument \<open>qa\<close>.
\<close>

section \<open>Handlers\<close>

definition ANS_DEFAULT_LIMIT :: u8 where "ANS_DEFAULT_LIMIT = 15"
definition ANS_MAX_LIMIT :: u8 where "ANS_MAX_LIMIT = 25"

definition ans_limit :: "u8 option \<Rightarrow> nat" where
  "ans_limit l = unat (min (case l of Some n \<Rightarrow> n | None \<Rightarrow> ANS_DEFAULT_LIMIT) ANS_MAX_LIMIT)"

definition std_load :: "('k, 'v) store \<Rightarrow> 'k \<Rightarrow> ('v, std_error) result" where
  "std_load m k = ok_or (StdNotFound ''map'') (load m k)"

text \<open>One page of a map in ascending order, after an exclusive bound.\<close>

definition page_after :: "'k::linorder option \<Rightarrow> nat \<Rightarrow> ('k, 'v) store \<Rightarrow> ('k, 'v) store" where
  "page_after start n m =
     take n (entries_where (\<lambda>k. case start of Some s \<Rightarrow> s < k | None \<Rightarrow> True) m)"

definition query_ans_config :: "ans_state \<Rightarrow> (unique_pool_id, std_error) result" where
  "query_ans_config st = ok_or (StdNotFound ''cfg'') (next_unique_pool_id st)"

definition query_assets :: "ans_state \<Rightarrow> string list \<Rightarrow> ((asset_entry \<times> asset_info) list, std_error) result" where
  "query_assets st keys =
     try_map (\<lambda>name. let key = asset_entry_new name
       in and_then (std_load (asset_addresses st) key) (\<lambda>v. Ok (key, v))) keys"

definition query_asset_list ::
  "ans_state \<Rightarrow> string option \<Rightarrow> u8 option \<Rightarrow> (asset_entry \<times> asset_info) list" where
  "query_asset_list st last_asset_name limit =
     page_after (map_option asset_entry_new last_asset_name) (ans_limit limit) (asset_addresses st)"

definition check_std :: "asset_checker \<Rightarrow> string \<Rightarrow> (asset_info, std_error) result" where
  "check_std ac i = map_err StdMsg (ac i)"

definition query_asset_infos ::
  "asset_checker \<Rightarrow> ans_state \<Rightarrow> string list \<Rightarrow> ((asset_info \<times> asset_entry) list, std_error) result" where
  "query_asset_infos ac st keys =
     try_map (\<lambda>i. and_then (check_std ac i) (\<lambda>key.
       and_then (std_load (rev_asset_addresses st) key) (\<lambda>v. Ok (key, v)))) keys"

definition query_asset_info_list ::
  "asset_checker \<Rightarrow> ans_state \<Rightarrow> string option \<Rightarrow> u8 option
   \<Rightarrow> ((asset_info \<times> asset_entry) list, std_error) result" where
  "query_asset_info_list ac st last_asset_info limit =
     and_then (case last_asset_info of None \<Rightarrow> Ok None | Some i \<Rightarrow> map_ok Some (check_std ac i)) (\<lambda>start.
     Ok (page_after start (ans_limit limit) (rev_asset_addresses st)))"

definition query_contracts_by_key ::
  "ans_state \<Rightarrow> contract_entry list \<Rightarrow> ((contract_entry \<times> addr) list, std_error) result" where
  "query_contracts_by_key st keys =
     try_map (\<lambda>key. and_then (std_load (contract_addresses st) (contract_key key)) (\<lambda>v. Ok (key, v))) keys"

definition query_channels_by_key ::
  "ans_state \<Rightarrow> channel_entry list \<Rightarrow> ((channel_entry \<times> string) list, std_error) result" where
  "query_channels_by_key st keys =
     try_map (\<lambda>key. and_then (std_load (channels st) (channel_key key)) (\<lambda>v. Ok (key, v))) keys"

definition query_contract_list ::
  "ans_state \<Rightarrow> contract_entry option \<Rightarrow> u8 option \<Rightarrow> (contract_entry \<times> addr) list" where
  "query_contract_list st last_contract limit =
     map (\<lambda>(k, a). (\<lparr>ce_protocol = sub_bytes (fst k), ce_contract = snd k\<rparr>, a))
       (page_after (map_option contract_key last_contract) (ans_limit limit) (contract_addresses st))"

definition query_channel_list ::
  "ans_state \<Rightarrow> channel_entry option \<Rightarrow> u8 option \<Rightarrow> (channel_entry \<times> string) list" where
  "query_channel_list st last_channel limit =
     map (\<lambda>(k, c). (\<lparr>connected_chain = sub_bytes (fst k), che_protocol = snd k\<rparr>, c))
       (page_after (map_option channel_key last_channel) (ans_limit limit) (channels st))"

definition query_registered_dexes :: "ans_state \<Rightarrow> (dex_name list, std_error) result" where
  "query_registered_dexes st = ok_or (StdNotFound ''registered_dexes'') (registered_dexes st)"

definition key_pairing :: "pairing_key \<Rightarrow> dex_asset_pairing" where
  "key_pairing k = \<lparr>asset_x = sub_bytes (fst k), asset_y = sub_bytes (fst (snd k)), dap_dex = snd (snd k)\<rparr>"

definition load_asset_pairing_entry ::
  "ans_state \<Rightarrow> dex_asset_pairing \<Rightarrow> (dex_asset_pairing \<times> pool_reference list, std_error) result" where
  "load_asset_pairing_entry st key =
     and_then (std_load (asset_pairings st) (pairing_key key)) (\<lambda>v. Ok (key, v))"

text \<open>The limit is not applied when no pair of assets is given.\<close>

definition list_pool_entries ::
  "ans_state \<Rightarrow> ((asset_entry \<times> asset_entry) option \<times> dex_name option) option
   \<Rightarrow> dex_asset_pairing option \<Rightarrow> u8 option
   \<Rightarrow> ((dex_asset_pairing \<times> pool_reference list) list, std_error) result" where
  "list_pool_entries st flt start_after limit =
     (case (case flt of Some f \<Rightarrow> f | None \<Rightarrow> (None, None)) of
        (Some (x, y), Some dex) \<Rightarrow>
          and_then (load_asset_pairing_entry st (dex_asset_pairing_new x y dex)) (\<lambda>e. Ok [e])
      | (Some (x, y), None) \<Rightarrow>
          Ok (map (\<lambda>(k, ids). (dex_asset_pairing_new x y (snd (snd k)), ids))
            (take (ans_limit limit)
              (entries_where (\<lambda>k. fst k = SubKey x \<and> fst (snd k) = SubKey y
                 \<and> (case start_after of Some p \<Rightarrow> dap_dex p < snd (snd k) | None \<Rightarrow> True))
                (asset_pairings st))))
      | (None, dex) \<Rightarrow>
          Ok (map (\<lambda>(k, ids). (key_pairing k, ids))
            (filter (\<lambda>(k, ids). case dex of None \<Rightarrow> True | Some f \<Rightarrow> f = snd (snd k))
              (entries_where (\<lambda>k. case start_after of Some p \<Rightarrow> pairing_key p < k | None \<Rightarrow> True)
                (asset_pairings st)))))"

definition query_pool_entries ::
  "ans_state \<Rightarrow> dex_asset_pairing list
   \<Rightarrow> ((dex_asset_pairing \<times> pool_reference list) list, std_error) result" where
  "query_pool_entries st keys = try_map (load_asset_pairing_entry st) keys"

definition load_pool_metadata_entry ::
  "ans_state \<Rightarrow> unique_pool_id \<Rightarrow> (unique_pool_id \<times> pool_metadata, std_error) result" where
  "load_pool_metadata_entry st key =
     and_then (std_load (pool_metadatas st) key) (\<lambda>v. Ok (key, v))"

definition query_pool_metadatas ::
  "ans_state \<Rightarrow> unique_pool_id list \<Rightarrow> ((unique_pool_id \<times> pool_metadata) list, std_error) result" where
  "query_pool_metadatas st keys = try_map (load_pool_metadata_entry st) keys"

definition list_pool_metadata_entries ::
  "ans_state \<Rightarrow> pool_type option \<Rightarrow> unique_pool_id option \<Rightarrow> u8 option
   \<Rightarrow> (unique_pool_id \<times> pool_metadata) list" where
  "list_pool_metadata_entries st pool_type_filter start_after limit =
     take (ans_limit limit)
       (filter (\<lambda>(k, md). case pool_type_filter of None \<Rightarrow> True | Some f \<Rightarrow> f = pm_pool_type md)
         (entries_where (\<lambda>k. case start_after of Some s \<Rightarrow> s < k | None \<Rightarrow> True) (pool_metadatas st)))"

section \<open>The client\<close>

datatype ans_query_error =
    ContractNotFound contract_entry addr
  | AssetNotFound asset_entry addr
  | CwAssetNotFound asset_info addr
  | ChannelNotFound channel_entry addr
  | DexPairingNotFound dex_asset_pairing addr
  | PoolMetadataNotFound unique_pool_id addr
  | AnsFormattingError string string string
  | AnsQueryFailed string std_error

type_synonym ans_querier = "addr \<Rightarrow> (ans_state, std_error) result"
type_synonym 'a ans_query_result = "('a, ans_query_error) result"

definition ans_host_new :: "chain \<Rightarrow> u64 \<Rightarrow> (addr, abstract_error) result" where
  "ans_host_new ch code = and_then (ans_address ch code) (\<lambda>a. map_err AbsStd (q_humanize ch a))"

definition ans_raw ::
  "ans_querier \<Rightarrow> string \<Rightarrow> addr \<Rightarrow> ans_query_error \<Rightarrow> (ans_state \<Rightarrow> 'v option) \<Rightarrow> 'v ans_query_result" where
  "ans_raw qa method_name ans not_found get =
     and_then (map_err (AnsQueryFailed method_name) (qa ans)) (\<lambda>st. ok_or not_found (get st))"

definition query_contract :: "ans_querier \<Rightarrow> addr \<Rightarrow> contract_entry \<Rightarrow> addr ans_query_result" where
  "query_contract qa ans contract = ans_raw qa ''query_contract'' ans (ContractNotFound contract ans)
     (\<lambda>st. load (contract_addresses st) (contract_key contract))"

definition query_contracts :: "ans_querier \<Rightarrow> addr \<Rightarrow> contract_entry list \<Rightarrow> addr list ans_query_result" where
  "query_contracts qa ans contracts = try_map (query_contract qa ans) contracts"

definition query_asset :: "ans_querier \<Rightarrow> addr \<Rightarrow> asset_entry \<Rightarrow> asset_info ans_query_result" where
  "query_asset qa ans asset = ans_raw qa ''query_asset'' ans (AssetNotFound asset ans)
     (\<lambda>st. load (asset_addresses st) asset)"

definition ans_query_assets :: "ans_querier \<Rightarrow> addr \<Rightarrow> asset_entry list \<Rightarrow> asset_info list ans_query_result" where
  "ans_query_assets qa ans assets = try_map (query_asset qa ans) assets"

definition query_asset_reverse :: "ans_querier \<Rightarrow> addr \<Rightarrow> asset_info \<Rightarrow> asset_entry ans_query_result" where
  "query_asset_reverse qa ans asset = ans_raw qa ''query_asset_reverse'' ans (CwAssetNotFound asset ans)
     (\<lambda>st. load (rev_asset_addresses st) asset)"

definition query_assets_reverse ::
  "ans_querier \<Rightarrow> addr \<Rightarrow> asset_info list \<Rightarrow> asset_entry list ans_query_result" where
  "query_assets_reverse qa ans assets = try_map (query_asset_reverse qa ans) assets"

definition query_channel :: "ans_querier \<Rightarrow> addr \<Rightarrow> channel_entry \<Rightarrow> string ans_query_result" where
  "query_channel qa ans channel = ans_raw qa ''query_channel'' ans (ChannelNotFound channel ans)
     (\<lambda>st. load (channels st) (channel_key channel))"

definition query_asset_pairing ::
  "ans_querier \<Rightarrow> addr \<Rightarrow> dex_asset_pairing \<Rightarrow> pool_reference list ans_query_result" where
  "query_asset_pairing qa ans p = ans_raw qa ''query_asset_pairing'' ans (DexPairingNotFound p ans)
     (\<lambda>st. load (asset_pairings st) (pairing_key p))"

definition query_pool_metadata ::
  "ans_querier \<Rightarrow> addr \<Rightarrow> unique_pool_id \<Rightarrow> pool_metadata ans_query_result" where
  "query_pool_metadata qa ans i = ans_raw qa ''query_pool_metadata'' ans (PoolMetadataNotFound i ans)
     (\<lambda>st. load (pool_metadatas st) i)"

text \<open>\<open>Item::query\<close> of a missing item is itself an error.\<close>

definition ans_query_registered_dexes :: "ans_querier \<Rightarrow> addr \<Rightarrow> dex_name list ans_query_result" where
  "ans_query_registered_dexes qa ans =
     map_err (AnsQueryFailed ''query_registered_dexes'')
       (and_then (qa ans) query_registered_dexes)"

end
