(* ===== verification/Registry_Invariants.thy ===== *)
theory Registry_Invariants
  imports Registry
begin

text \<open>
  The registry as a state machine: the states reachable from instantiation by executed messages,
  with any senders and any answers of the chain, and what holds in all of them.
\<close>

definition registry_start :: "registry_state \<Rightarrow> bool" where
  "registry_start st \<longleftrightarrow> (\<exists>ch msg ms. registry_instantiate ch empty_registry msg = Ok (st, ms))"

inductive registry_step :: "registry_state \<Rightarrow> registry_state \<Rightarrow> bool" where
  exec: "registry_execute ch ev st info msg = Ok (st', ms) \<Longrightarrow> registry_step st st'"

inductive_cases registry_stepE: "registry_step st st'"

section \<open>What each message leaves alone\<close>

text \<open>The messages about modules and configuration do not touch accounts and namespaces.\<close>

definition same_accounts :: "registry_state \<Rightarrow> registry_state \<Rightarrow> bool" where
  "same_accounts st st' \<longleftrightarrow> namespaces st' = namespaces st \<and> rev_namespaces st' = rev_namespaces st
     \<and> account_addresses st' = account_addresses st
     \<and> local_account_sequence st' = local_account_sequence st
     \<and> r_ownership st' = r_ownership st"

lemma same_accounts_refl [simp]: "same_accounts st st"
  by (simp add: same_accounts_def)

lemma same_accounts_trans: "same_accounts a b \<Longrightarrow> same_accounts b c \<Longrightarrow> same_accounts a c"
  by (simp add: same_accounts_def)

lemma try_fold_same_accounts:
  assumes "try_fold f st xs = Ok st'"
    and "\<And>s x s'. f s x = Ok s' \<Longrightarrow> same_accounts s s'"
  shows "same_accounts st st'"
  by (rule try_fold_invariant [OF assms(1), where P = "same_accounts st"])
    (use assms(2) same_accounts_trans in auto)

lemma save_registered_accounts [simp]:
  "namespaces (save_registered st m r) = namespaces st"
  "rev_namespaces (save_registered st m r) = rev_namespaces st"
  "account_addresses (save_registered st m r) = account_addresses st"
  "local_account_sequence (save_registered st m r) = local_account_sequence st"
  "r_ownership (save_registered st m r) = r_ownership st"
  by (cases r; simp add: save_registered_def)+

lemma propose_one_accounts: "propose_one ch cfg s st e = Ok st' \<Longrightarrow> same_accounts st st'"
  by (cases e)
    (auto simp: propose_one_def result_simps same_accounts_def split: if_splits)

lemma approve_one_accounts: "approve_one st m = Ok st' \<Longrightarrow> same_accounts st st'"
  by (auto simp: approve_one_def same_accounts_def result_simps Let_def
      split: module_reference.split)

lemma reject_one_accounts: "reject_one st m = Ok st' \<Longrightarrow> same_accounts st st'"
  by (auto simp: reject_one_def same_accounts_def split: if_splits)

lemma propose_modules_accounts:
  "propose_modules ch st info ms = Ok (st', out) \<Longrightarrow> same_accounts st st'"
  by (auto simp: propose_modules_def result_simps
      intro: try_fold_same_accounts propose_one_accounts)

lemma approve_modules_accounts: "approve_modules st ms = Ok st' \<Longrightarrow> same_accounts st st'"
  unfolding approve_modules_def by (blast intro: try_fold_same_accounts approve_one_accounts)

lemma reject_modules_accounts: "reject_modules st ms = Ok st' \<Longrightarrow> same_accounts st st'"
  unfolding reject_modules_def by (blast intro: try_fold_same_accounts reject_one_accounts)

lemma approve_or_reject_Ok:
  "approve_or_reject_modules ch st info as rs = Ok (st', out) \<longleftrightarrow>
     assert_registry_owner ch st (info_sender info) = Ok () \<and> (as \<noteq> [] \<or> rs \<noteq> []) \<and> out = []
     \<and> (\<exists>st1. approve_modules st as = Ok st1 \<and> reject_modules st1 rs = Ok st')"
  by (auto simp: approve_or_reject_modules_def approve_modules_def reject_modules_def result_simps)

lemma approve_or_reject_accounts:
  assumes "approve_or_reject_modules ch st info as rs = Ok (st', out)"
  shows "same_accounts st st'"
proof -
  from assms obtain st1 where "approve_modules st as = Ok st1" and "reject_modules st1 rs = Ok st'"
    by (auto simp: approve_or_reject_Ok)
  then have "same_accounts st st1" and "same_accounts st1 st'"
    using approve_modules_accounts reject_modules_accounts by blast+
  then show ?thesis by (rule same_accounts_trans)
qed

lemma drop_accounts:
  "same_accounts st (drop_version m st)" "same_accounts st (drop_standalone res st)"
  "same_accounts st (drop_default m st)"
  by (simp_all add: drop_version_def drop_standalone_def drop_default_def same_accounts_def
      split: result.split module_reference.split)

lemma remove_module_accounts:
  "remove_module ch st info m = Ok (st', out) \<Longrightarrow> same_accounts st st'"
  by (auto simp: remove_module_def result_simps Let_def
      intro: same_accounts_trans [OF same_accounts_trans] drop_accounts)

lemma yank_module_accounts:
  "yank_module ch st info m = Ok (st', out) \<Longrightarrow> same_accounts st st'"
  by (auto simp: yank_module_def result_simps same_accounts_def)

lemma update_module_config_accounts:
  "update_module_config ch st info n ns u = Ok (st', out) \<Longrightarrow> same_accounts st st'"
  by (cases u)
    (auto simp: update_module_config_def result_simps Let_def same_accounts_def split: if_splits)

lemma update_config_accounts:
  "update_config ch st info b f = Ok (st', out) \<Longrightarrow> same_accounts st st'"
  by (auto simp: update_config_def result_simps same_accounts_def Let_def)

lemmas module_ops_accounts =
  propose_modules_accounts approve_or_reject_accounts remove_module_accounts yank_module_accounts
  update_module_config_accounts update_config_accounts


section \<open>Claiming and forgoing a namespace\<close>

lemma mod_key_key_module_info [simp]: "mod_key (key_module_info k) = k"
  by (cases k rule: prod_cases3) (auto simp: mod_key_def key_module_info_def key_version_def Let_def)

lemma claim_namespace_internal_Ok:
  "claim_namespace_internal st fee info a n = Ok (st', m) \<longleftrightarrow>
     load (rev_namespaces st) (acc_key a) = None \<and> load (namespaces st) n = None \<and> valid_name n
     \<and> st' = st\<lparr>namespaces := save n a (namespaces st),
               rev_namespaces := save (acc_key a) n (rev_namespaces st)\<rparr>
     \<and> (case fee of None \<Rightarrow> m = None
        | Some f \<Rightarrow> (amount f = 0 \<or> info_funds info = [f])
            \<and> (\<exists>adm. load (account_addresses st) (acc_key ABSTRACT_ACCOUNT_ID) = Some adm
                \<and> m = Some (BankSend adm (info_funds info))))"
  by (cases fee; cases "load (namespaces st) n")
    (auto simp: claim_namespace_internal_def has_def load_err_def result_simps namespace_new_Ok)

lemma yank_entry_fields [simp]:
  "namespaces (yank_entry e st) = namespaces st"
  "rev_namespaces (yank_entry e st) = rev_namespaces st"
  "account_addresses (yank_entry e st) = account_addresses st"
  "local_account_sequence (yank_entry e st) = local_account_sequence st"
  "r_ownership (yank_entry e st) = r_ownership st"
  "pending_modules (yank_entry e st) = pending_modules st"
  "r_config (yank_entry e st) = r_config st"
  "registered_modules (yank_entry e st) = remove (fst e) (registered_modules st)"
  "yanked_modules (yank_entry e st) = save (fst e) (snd e) (yanked_modules st)"
  by (cases e; simp add: yank_entry_def Let_def)+

lemma yank_entries_fields [simp]:
  "namespaces (fold yank_entry es st) = namespaces st"
  "rev_namespaces (fold yank_entry es st) = rev_namespaces st"
  "account_addresses (fold yank_entry es st) = account_addresses st"
  "local_account_sequence (fold yank_entry es st) = local_account_sequence st"
  "r_ownership (fold yank_entry es st) = r_ownership st"
  "pending_modules (fold yank_entry es st) = pending_modules st"
  "r_config (fold yank_entry es st) = r_config st"
  "registered_modules (fold yank_entry es st) = fold remove (map fst es) (registered_modules st)"
  "yanked_modules (fold yank_entry es st) = fold (\<lambda>e. save (fst e) (snd e)) es (yanked_modules st)"
  by (induction es arbitrary: st) simp_all

text \<open>The registered modules of a namespace.\<close>

definition ns_entries :: "namespace \<Rightarrow> registry_state \<Rightarrow> (module_key \<times> module_reference) list" where
  "ns_entries n st = entries_where (\<lambda>k. fst k = SubKey n) (registered_modules st)"

lemma forgo_one_Ok:
  "forgo_one ch adm s st n = Ok st' \<longleftrightarrow> valid_name n \<and> (\<exists>own. load (namespaces st) n = Some own
     \<and> (adm \<or> validate_account_owner ch st n s = Ok ())
     \<and> st' = (fold yank_entry (ns_entries n st) st)\<lparr>namespaces := remove n (namespaces st),
          rev_namespaces := remove (acc_key own) (rev_namespaces st)\<rparr>)"
  by (auto simp: forgo_one_def ns_entries_def has_def load_err_def result_simps Let_def
      namespace_new_Ok split: if_splits)

lemma forgo_namespace_Ok:
  "forgo_namespace ch st info nss = Ok (st', out) \<longleftrightarrow> out = [] \<and>
     (\<exists>adm. q_cwo_is_owner ch (r_ownership st) (info_sender info) = Ok adm
        \<and> try_fold (forgo_one ch adm (info_sender info)) st nss = Ok st')"
  by (auto simp: forgo_namespace_def result_simps)

section \<open>The two namespace maps are inverse\<close>

definition ns_inv :: "registry_state \<Rightarrow> bool" where
  "ns_inv st \<longleftrightarrow> inverse_maps acc_key (load (namespaces st)) (load (rev_namespaces st))"

lemma ns_inv_same: "ns_inv st \<Longrightarrow> same_accounts st st' \<Longrightarrow> ns_inv st'"
  by (simp add: ns_inv_def same_accounts_def)

lemma ns_inv_claim:
  "ns_inv st \<Longrightarrow> claim_namespace_internal st fee info a n = Ok (st', m) \<Longrightarrow> ns_inv st'"
  by (simp add: claim_namespace_internal_Ok ns_inv_def inverse_maps_insert)

lemma ns_inv_forgo_one: "ns_inv st \<Longrightarrow> forgo_one ch adm s st n = Ok st' \<Longrightarrow> ns_inv st'"
  by (auto simp: forgo_one_Ok ns_inv_def inverse_maps_delete)

lemma ns_inv_forgo:
  assumes "ns_inv st" and "forgo_namespace ch st info nss = Ok (st', out)"
  shows "ns_inv st'"
proof -
  from assms(2) obtain adm where "try_fold (forgo_one ch adm (info_sender info)) st nss = Ok st'"
    by (auto simp: forgo_namespace_Ok)
  then show ?thesis
    by (rule try_fold_invariant) (use assms(1) ns_inv_forgo_one in auto)
qed

text \<open>Claiming through \<open>ClaimNamespace\<close> and through \<open>AddAccount\<close> ends in the same function.\<close>

lemma claim_namespace_internalE:
  assumes "claim_namespace ch st info a n = Ok (st', out)"
  obtains cfg m where "load_config st = Ok cfg"
    and "claim_namespace_internal st (namespace_registration_fee cfg) info a n = Ok (st', m)"
    and "out = (case m of Some m \<Rightarrow> [m] | None \<Rightarrow> [])"
  using assms by (auto simp: claim_namespace_def result_simps)

section \<open>Adding an account\<close>

lemma check_local_sequence_Ok:
  "check_local_sequence st a = Ok st' \<longleftrightarrow>
     (if acc_seq a < 2147483648
      then acc_seq a = (case local_account_sequence st of Some n \<Rightarrow> n | None \<Rightarrow> 0)
        \<and> st' = st\<lparr>local_account_sequence := Some (acc_seq a + 1)\<rparr>
      else st' = st)"
proof (cases "acc_seq a < 2147483648")
  case True
  then have "unat (acc_seq a) < 2147483648" by (simp add: word_less_nat_alt)
  then have "checked_add (acc_seq a) 1 = Some (acc_seq a + 1)" by (simp add: checked_add_def)
  with True show ?thesis
    by (auto simp: check_local_sequence_def PREDICTABLE_SEQ_def result_simps Let_def)
qed (auto simp: check_local_sequence_def PREDICTABLE_SEQ_def)

text \<open>The state in which the account is entered, before a namespace is claimed.\<close>

definition entered :: "registry_state \<Rightarrow> account_id \<Rightarrow> addr \<Rightarrow> registry_state \<Rightarrow> bool" where
  "entered st a sndr st1 \<longleftrightarrow> load (account_addresses st) (acc_key a) = None
     \<and> (\<exists>st0. st1 = st0\<lparr>account_addresses := save (acc_key a) sndr (account_addresses st)\<rparr>
          \<and> (if is_local a then check_local_sequence st a = Ok st0
             else st0 = st \<and> trace_verify_remote (acc_trace a) = Ok ()))"

lemma check_local_sequence_fields:
  assumes "check_local_sequence st a = Ok st'"
  shows "namespaces st' = namespaces st" and "rev_namespaces st' = rev_namespaces st"
    and "account_addresses st' = account_addresses st" and "r_ownership st' = r_ownership st"
    and "pending_modules st' = pending_modules st"
    and "registered_modules st' = registered_modules st"
    and "yanked_modules st' = yanked_modules st" and "r_config st' = r_config st"
  using assms by (auto simp: check_local_sequence_Ok split: if_splits)

lemma entered_fields:
  assumes "entered st a sndr st1"
  shows "namespaces st1 = namespaces st" and "rev_namespaces st1 = rev_namespaces st"
    and "account_addresses st1 = save (acc_key a) sndr (account_addresses st)"
    and "r_ownership st1 = r_ownership st" and "pending_modules st1 = pending_modules st"
    and "registered_modules st1 = registered_modules st"
    and "yanked_modules st1 = yanked_modules st" and "r_config st1 = r_config st"
proof -
  from assms obtain st0 where
    st1: "st1 = st0\<lparr>account_addresses := save (acc_key a) sndr (account_addresses st)\<rparr>"
    and st0: "if is_local a then check_local_sequence st a = Ok st0
      else st0 = st \<and> trace_verify_remote (acc_trace a) = Ok ()"
    unfolding entered_def by blast
  then have "st0 = st \<or> check_local_sequence st a = Ok st0" by (simp split: if_splits)
  then show "namespaces st1 = namespaces st" "rev_namespaces st1 = rev_namespaces st"
    "account_addresses st1 = save (acc_key a) sndr (account_addresses st)"
    "r_ownership st1 = r_ownership st" "pending_modules st1 = pending_modules st"
    "registered_modules st1 = registered_modules st"
    "yanked_modules st1 = yanked_modules st" "r_config st1 = r_config st"
    using st1 check_local_sequence_fields [of st a st0] by auto
qed

lemma add_accountE:
  assumes "add_account ch st info ns creator = Ok (st', out)"
  obtains cfg a st1 where "load_config st = Ok cfg" and "q_account_id ch (info_sender info) = Ok a"
    and "entered st a (info_sender info) st1"
    and "ns = None \<Longrightarrow> st' = st1 \<and> out = []"
    and "\<And>n. ns = Some n \<Longrightarrow> \<exists>m.
      claim_namespace_internal st1 (namespace_registration_fee cfg) info a n = Ok (st', m)
      \<and> out = (case m of Some m \<Rightarrow> [m] | None \<Rightarrow> [])"
proof -
  from assms obtain cfg a st0 where cfg: "load_config st = Ok cfg"
    and a: "q_account_id ch (info_sender info) = Ok a"
    and new: "load (account_addresses st) (acc_key a) = None"
    and st0: "(if is_local a then check_local_sequence st a
        else and_then (check_remote_account ch st a creator) (\<lambda>_. Ok st)) = Ok st0"
    and claim: "and_then (case ns of
          Some n \<Rightarrow> claim_namespace_internal
            (st0\<lparr>account_addresses := save (acc_key a) (info_sender info) (account_addresses st0)\<rparr>)
            (namespace_registration_fee cfg) info a n
        | None \<Rightarrow> Ok (st0\<lparr>account_addresses :=
            save (acc_key a) (info_sender info) (account_addresses st0)\<rparr>, None))
        (\<lambda>(st, fee_msg). Ok (st, case fee_msg of Some m \<Rightarrow> [m] | None \<Rightarrow> [])) = Ok (st', out)"
    unfolding add_account_def and_then_Ok map_err_Ok ensure_Ok has_def Let_def
    by blast
  let ?st1 = "st0\<lparr>account_addresses := save (acc_key a) (info_sender info) (account_addresses st0)\<rparr>"
  have same: "account_addresses st0 = account_addresses st"
    using st0 check_local_sequence_fields(3) [of st a st0]
    by (auto simp: result_simps split: if_splits)
  have "entered st a (info_sender info) ?st1"
    unfolding entered_def
    using new st0 same by (auto simp: check_remote_account_def result_simps split: if_splits)
  moreover have "ns = None \<Longrightarrow> st' = ?st1 \<and> out = []" using claim by auto
  moreover have "\<exists>m. claim_namespace_internal ?st1 (namespace_registration_fee cfg) info a n = Ok (st', m)
      \<and> out = (case m of Some m \<Rightarrow> [m] | None \<Rightarrow> [])" if "ns = Some n" for n
    using claim that by (auto simp: result_simps)
  ultimately show thesis using cfg a that by blast
qed

lemma ns_inv_add_account:
  assumes "ns_inv st" and "add_account ch st info ns creator = Ok (st', out)"
  shows "ns_inv st'"
  using assms(2)
proof (rule add_accountE)
  fix cfg a st1
  assume e: "entered st a (info_sender info) st1"
    and none: "ns = None \<Longrightarrow> st' = st1 \<and> out = []"
    and some: "\<And>n. ns = Some n \<Longrightarrow> \<exists>m.
      claim_namespace_internal st1 (namespace_registration_fee cfg) info a n = Ok (st', m)
      \<and> out = (case m of Some m \<Rightarrow> [m] | None \<Rightarrow> [])"
  have inv: "ns_inv st1" using assms(1) entered_fields [OF e] by (simp add: ns_inv_def)
  show ?thesis
  proof (cases ns)
    case None
    then show ?thesis using inv none by simp
  next
    case (Some n)
    from some [OF this] obtain m where
      "claim_namespace_internal st1 (namespace_registration_fee cfg) info a n = Ok (st', m)" by blast
    with inv show ?thesis by (rule ns_inv_claim)
  qed
qed

lemma ns_inv_start: "registry_start st \<Longrightarrow> ns_inv st"
  by (auto simp: registry_start_def registry_instantiate_def result_simps ns_inv_def
      empty_registry_def inverse_maps_single)

lemma ns_inv_step: "ns_inv st \<Longrightarrow> registry_step st st' \<Longrightarrow> ns_inv st'"
proof (erule registry_stepE)
  fix ch ev info msg ms
  assume inv: "ns_inv st" and ok: "registry_execute ch ev st info msg = Ok (st', ms)"
  show "ns_inv st'"
  proof (cases msg)
    case (ClaimNamespace a n)
    with ok have "claim_namespace ch st info a n = Ok (st', ms)" by simp
    then show ?thesis by (rule claim_namespace_internalE) (use inv ns_inv_claim in blast)
  next
    case (RegistryUpdateOwnership act)
    with inv ok show ?thesis by (auto simp: result_simps ns_inv_def)
  qed (use inv ok in \<open>auto dest: module_ops_accounts intro: ns_inv_same ns_inv_forgo
         ns_inv_add_account\<close>)
qed

interpretation ns: invariant registry_start registry_step ns_inv
  by unfold_locales (fact ns_inv_start, fact ns_inv_step)

text \<open>A registry right after its instantiation, for concrete runs.\<close>

definition sample_registry :: registry_state where
  "sample_registry = empty_registry\<lparr>
     r_config := Some (Config \<lparr>security_enabled = True, namespace_registration_fee = None\<rparr>),
     local_account_sequence := Some 0,
     namespaces := [(''abstract'', ABSTRACT_ACCOUNT_ID)],
     rev_namespaces := [(acc_key ABSTRACT_ACCOUNT_ID, ''abstract'')],
     r_ownership := Some \<lparr>cwo_owner = Some ''admin'', cwo_pending_owner = None,
       cwo_pending_expiry = None\<rparr>,
     r_cw2 := Some \<lparr>cv_contract = REGISTRY, cv_version = CONTRACT_VERSION\<rparr>\<rparr>"

lemma valid_abstract: "valid_name ''abstract''"
  by (simp add: valid_name_def is_ascii_lowercase_def)

lemma sample_registry_start: "registry_start sample_registry"
proof -
  have "registry_instantiate sample_chain empty_registry
      \<lparr>rim_admin = ''admin'', rim_security_enabled = None, rim_namespace_registration_fee = None\<rparr>
    = Ok (sample_registry, [])"
    by (simp add: registry_instantiate_def sample_chain_def sample_registry_def empty_registry_def
        namespace_new_valid [OF valid_abstract] ABSTRACT_NAMESPACE_def)
  then show ?thesis unfolding registry_start_def by blast
qed

lemma sample_registry_reachable: "reachable registry_start registry_step sample_registry"
  by (rule reach_start, rule sample_registry_start)



section \<open>Local account sequences\<close>

definition seq_inv :: "registry_state \<Rightarrow> bool" where
  "seq_inv st \<longleftrightarrow> (\<exists>n \<le> 2147483648. local_account_sequence st = Some n
     \<and> (\<forall>s < 2147483648. has (account_addresses st) (acc_key (account_id_local s)) \<longleftrightarrow> s < n))"

lemma seq_inv_same:
  assumes "seq_inv st" and "account_addresses st' = account_addresses st"
    and "local_account_sequence st' = local_account_sequence st"
  shows "seq_inv st'"
  using assms by (simp add: seq_inv_def)

lemma acc_key_local [simp]: "acc_key (account_id_local s) = acc_key (account_id_local t) \<longleftrightarrow> s = t"
  by (simp add: acc_key_def account_id_local_def)

lemma is_local_iff: "is_local a \<longleftrightarrow> a = account_id_local (acc_seq a)"
  by (cases a) (simp add: is_local_def account_id_local_def split: account_trace.split)

lemma acc_key_remote:
  assumes "\<not> is_local a" and "trace_verify_remote (acc_trace a) = Ok ()"
  shows "acc_key a \<noteq> acc_key (account_id_local s)"
proof
  assume eq: "acc_key a = acc_key (account_id_local s)"
  have "trace_verify (acc_trace a) = Ok ()"
    using assms(2) by (simp add: trace_verify_remote_def split: if_splits)
  moreover have "trace_verify (acc_trace (account_id_local s)) = Ok ()"
    by (simp add: account_id_local_def)
  ultimately have "a = account_id_local s" using acc_key_inj eq by blast
  with assms(1) show False by (simp add: is_local_def account_id_local_def)
qed

lemma seq_inv_entered:
  assumes "seq_inv st" and "entered st a sndr st1"
  shows "seq_inv st1"
proof -
  from assms(1) obtain n where n: "n \<le> 2147483648" "local_account_sequence st = Some n"
    and used: "\<And>s. s < 2147483648 \<Longrightarrow>
      has (account_addresses st) (acc_key (account_id_local s)) \<longleftrightarrow> s < n"
    unfolding seq_inv_def by blast
  from assms(2) obtain st0 where
    st1: "st1 = st0\<lparr>account_addresses := save (acc_key a) sndr (account_addresses st)\<rparr>"
    and st0: "if is_local a then check_local_sequence st a = Ok st0
      else st0 = st \<and> trace_verify_remote (acc_trace a) = Ok ()"
    unfolding entered_def by blast
  have has1: "has (account_addresses st1) k \<longleftrightarrow> k = acc_key a \<or> has (account_addresses st) k" for k
    by (simp add: st1 has_def)
  show ?thesis
  proof (cases "is_local a \<and> acc_seq a < 2147483648")
    case True
    then have a: "a = account_id_local (acc_seq a)" and small: "acc_seq a < 2147483648"
      by (simp_all add: is_local_iff [symmetric])
    from True st0 n(2) have seq: "acc_seq a = n"
      and st0': "st0 = st\<lparr>local_account_sequence := Some (n + 1)\<rparr>"
      by (simp_all add: check_local_sequence_Ok)
    have small': "unat n < 2147483648" using small seq by (simp add: word_less_nat_alt)
    then have suc: "unat (n + 1) = unat n + 1" by (simp add: unat_word_ariths)
    have le: "n + 1 \<le> 2147483648" using small' by (simp add: word_le_nat_alt suc)
    have less: "s < n + 1 \<longleftrightarrow> s = n \<or> s < n" for s
      by (auto simp: word_less_nat_alt suc word_unat_eq_iff)
    have "has (account_addresses st1) (acc_key (account_id_local s)) \<longleftrightarrow> s < n + 1"
      if "s < 2147483648" for s
    proof -
      have "acc_key (account_id_local s) = acc_key a \<longleftrightarrow> s = n"
        using a seq acc_key_local [of s n] by metis
      then show ?thesis using has1 used [OF that] less by auto
    qed
    then show ?thesis
      unfolding seq_inv_def using le by (intro exI [of _ "n + 1"]) (simp add: st1 st0')
  next
    case False
    then have seq: "local_account_sequence st1 = Some n"
      using st0 n(2) by (auto simp: st1 check_local_sequence_Ok split: if_splits)
    have "acc_key (account_id_local s) \<noteq> acc_key a" if "s < 2147483648" for s
    proof (cases "is_local a")
      case True
      with False that have "s \<noteq> acc_seq a" by auto
      then show ?thesis using True acc_key_local [of s "acc_seq a"] is_local_iff [of a] by metis
    next
      case False
      then show ?thesis using st0 acc_key_remote [of a s] by auto
    qed
    then show ?thesis
      unfolding seq_inv_def using n(1) seq used has1 by (intro exI [of _ n]) auto
  qed
qed

lemma claim_internal_accounts:
  assumes "claim_namespace_internal st fee info a n = Ok (st', m)"
  shows "account_addresses st' = account_addresses st"
    and "local_account_sequence st' = local_account_sequence st"
    and "pending_modules st' = pending_modules st"
    and "registered_modules st' = registered_modules st"
    and "yanked_modules st' = yanked_modules st" and "r_config st' = r_config st"
  using assms by (simp_all add: claim_namespace_internal_Ok)

lemma seq_inv_add_account:
  assumes "seq_inv st" and "add_account ch st info ns creator = Ok (st', out)"
  shows "seq_inv st'"
  using assms(2)
proof (rule add_accountE)
  fix cfg a st1
  assume e: "entered st a (info_sender info) st1"
    and none: "ns = None \<Longrightarrow> st' = st1 \<and> out = []"
    and some: "\<And>n. ns = Some n \<Longrightarrow> \<exists>m.
      claim_namespace_internal st1 (namespace_registration_fee cfg) info a n = Ok (st', m)
      \<and> out = (case m of Some m \<Rightarrow> [m] | None \<Rightarrow> [])"
  have inv: "seq_inv st1" using seq_inv_entered [OF assms(1) e] .
  show ?thesis
  proof (cases ns)
    case None
    then show ?thesis using inv none by simp
  next
    case (Some n)
    from some [OF this] obtain m where
      "claim_namespace_internal st1 (namespace_registration_fee cfg) info a n = Ok (st', m)" by blast
    then show ?thesis using seq_inv_same [OF inv] claim_internal_accounts by blast
  qed
qed

lemma forgo_one_accounts:
  assumes "forgo_one ch adm s st n = Ok st'"
  shows "account_addresses st' = account_addresses st"
    and "local_account_sequence st' = local_account_sequence st"
    and "pending_modules st' = pending_modules st" and "r_config st' = r_config st"
    and "r_ownership st' = r_ownership st"
  using assms by (auto simp: forgo_one_Ok)

lemma seq_inv_forgo:
  assumes "seq_inv st" and "forgo_namespace ch st info nss = Ok (st', out)"
  shows "seq_inv st'"
proof -
  from assms(2) obtain adm where "try_fold (forgo_one ch adm (info_sender info)) st nss = Ok st'"
    by (auto simp: forgo_namespace_Ok)
  then show ?thesis
    by (rule try_fold_invariant) (use assms(1) seq_inv_same forgo_one_accounts in blast)+
qed

lemma seq_inv_same_accounts: "seq_inv st \<Longrightarrow> same_accounts st st' \<Longrightarrow> seq_inv st'"
  by (simp add: seq_inv_def same_accounts_def)

lemma seq_inv_start: "registry_start st \<Longrightarrow> seq_inv st"
  by (auto simp: registry_start_def registry_instantiate_def result_simps seq_inv_def
      empty_registry_def has_def)

lemma seq_inv_step: "seq_inv st \<Longrightarrow> registry_step st st' \<Longrightarrow> seq_inv st'"
proof (erule registry_stepE)
  fix ch ev info msg ms
  assume inv: "seq_inv st" and ok: "registry_execute ch ev st info msg = Ok (st', ms)"
  show "seq_inv st'"
  proof (cases msg)
    case (ClaimNamespace a n)
    with ok have "claim_namespace ch st info a n = Ok (st', ms)" by simp
    then show ?thesis
      by (rule claim_namespace_internalE)
        (use inv seq_inv_same claim_internal_accounts in blast)
  next
    case (RegistryUpdateOwnership act)
    with inv ok show ?thesis by (auto simp: result_simps seq_inv_def)
  qed (use inv ok in \<open>auto dest: module_ops_accounts intro: seq_inv_same_accounts seq_inv_forgo
         seq_inv_add_account\<close>)
qed

interpretation seq: invariant registry_start registry_step seq_inv
  by unfold_locales (fact seq_inv_start, fact seq_inv_step)

text \<open>
  C2: in every reachable state the local account ids below \<open>2^31\<close> that are in use are exactly
  those below the stored sequence, which never exceeds \<open>2^31\<close>. So ids are handed out without gaps
  or repetition, and the \<open>checked_add(1).unwrap()\<close> of \<open>add_account\<close> never panics.
\<close>

theorem registry_local_sequence:
  assumes "reachable registry_start registry_step st"
  shows "(\<exists>n \<le> 2147483648. local_account_sequence st = Some n
       \<and> (\<forall>s < 2147483648. has (account_addresses st) (acc_key (account_id_local s)) \<longleftrightarrow> s < n))
    \<and> check_local_sequence st a \<noteq> Panic"
proof -
  have "seq_inv st" using seq.holds [OF assms] .
  moreover have "check_local_sequence st a \<noteq> Panic"
  proof (cases "acc_seq a < 2147483648")
    case True
    then have "unat (acc_seq a) < 2147483648" by (simp add: word_less_nat_alt)
    then show ?thesis
      by (auto simp: check_local_sequence_def PREDICTABLE_SEQ_def Let_def checked_add_def ensure_def)
  qed (simp add: check_local_sequence_def PREDICTABLE_SEQ_def)
  ultimately show ?thesis by (simp add: seq_inv_def)
qed

theorem registry_local_sequence_witness:
  "\<not> has (account_addresses sample_registry) (acc_key (account_id_local 0))"
proof -
  from registry_local_sequence [OF sample_registry_reachable] obtain n where
    "local_account_sequence sample_registry = Some n"
    and used: "\<forall>s < 2147483648.
      has (account_addresses sample_registry) (acc_key (account_id_local s)) \<longleftrightarrow> s < n" by blast
  moreover have "local_account_sequence sample_registry = Some 0" by (simp add: sample_registry_def)
  ultimately show ?thesis by simp
qed

end
