(* ===== verification/Registry_Modules.thy ===== *)
theory Registry_Modules
  imports Registry_Invariants
begin

text \<open>
  The life of a module version in the registry: proposed, registered, yanked, removed. While
  security is enabled a version is in at most one of the three maps, every key in them is a valid
  module info with a version that parses, and only those who own the namespace put it there.
\<close>

section \<open>Which messages move modules\<close>

definition same_modules :: "registry_state \<Rightarrow> registry_state \<Rightarrow> bool" where
  "same_modules st st' \<longleftrightarrow> pending_modules st' = pending_modules st
     \<and> registered_modules st' = registered_modules st \<and> yanked_modules st' = yanked_modules st"

lemma same_modules_claim:
  "claim_namespace ch st info a n = Ok (st', out) \<Longrightarrow> same_modules st st'"
  by (erule claim_namespace_internalE) (simp add: same_modules_def claim_internal_accounts)

lemma same_modules_add_account:
  assumes "add_account ch st info ns creator = Ok (st', out)"
  shows "same_modules st st'"
  using assms
proof (rule add_accountE)
  fix cfg a st1
  assume e: "entered st a (info_sender info) st1"
    and none: "ns = None \<Longrightarrow> st' = st1 \<and> out = []"
    and some: "\<And>n. ns = Some n \<Longrightarrow> \<exists>m.
      claim_namespace_internal st1 (namespace_registration_fee cfg) info a n = Ok (st', m)
      \<and> out = (case m of Some m \<Rightarrow> [m] | None \<Rightarrow> [])"
  show ?thesis
  proof (cases ns)
    case None
    then show ?thesis using entered_fields [OF e] none by (simp add: same_modules_def)
  next
    case (Some n)
    from some [OF this] obtain m where
      "claim_namespace_internal st1 (namespace_registration_fee cfg) info a n = Ok (st', m)" by blast
    from claim_internal_accounts [OF this] entered_fields [OF e] show ?thesis
      by (simp add: same_modules_def)
  qed
qed

lemma same_modules_update_module_config:
  "update_module_config ch st info n ns u = Ok (st', out) \<Longrightarrow> same_modules st st'"
  by (cases u)
    (auto simp: update_module_config_def result_simps Let_def same_modules_def split: if_splits)

lemma same_modules_update_config:
  "update_config ch st info b f = Ok (st', out) \<Longrightarrow> same_modules st st'"
  by (auto simp: update_config_def result_simps same_modules_def Let_def)

lemmas config_ops_modules =
  same_modules_claim same_modules_add_account same_modules_update_module_config
  same_modules_update_config

lemma drop_modules:
  "registered_modules (drop_default m (drop_standalone res (drop_version m st)))
     = remove (mod_key m) (registered_modules st)"
  "yanked_modules (drop_default m (drop_standalone res (drop_version m st)))
     = remove (mod_key m) (yanked_modules st)"
  "pending_modules (drop_default m (drop_standalone res (drop_version m st))) = pending_modules st"
  by (simp_all add: drop_version_def drop_standalone_def drop_default_def
      split: result.split module_reference.split)

lemma remove_module_Ok:
  assumes "remove_module ch st info m = Ok (st', out)"
  shows "pending_modules st' = pending_modules st"
    and "registered_modules st' = remove (mod_key m) (registered_modules st)"
    and "yanked_modules st' = remove (mod_key m) (yanked_modules st)"
    and "assert_registry_owner ch st (info_sender info) = Ok ()"
    and "has (registered_modules st) (mod_key m) \<or> has (yanked_modules st) (mod_key m)"
  using assms
  by (auto simp: remove_module_def result_simps Let_def drop_modules load_err_def is_ok_iff has_def)

lemma yank_module_Ok:
  "yank_module ch st info m = Ok (st', out) \<longleftrightarrow> out = []
     \<and> validate_account_owner ch st (mi_namespace m) (info_sender info) = Ok ()
     \<and> assert_version_variant (q_semver ch) m = Ok ()
     \<and> (\<exists>r. load (registered_modules st) (mod_key m) = Some r
          \<and> st' = st\<lparr>yanked_modules := save (mod_key m) r (yanked_modules st),
                registered_modules := remove (mod_key m) (registered_modules st)\<rparr>)"
  by (auto simp: yank_module_def result_simps)

lemma approve_one_modules:
  assumes "approve_one st m = Ok st'"
  shows "\<exists>r. load (pending_modules st) (mod_key m) = Some r
      \<and> registered_modules st' = save (mod_key m) r (registered_modules st)"
    and "pending_modules st' = remove (mod_key m) (pending_modules st)"
    and "yanked_modules st' = yanked_modules st" and "service_infos st' = service_infos st"
    and "r_config st' = r_config st"
  using assms
  by (auto simp: approve_one_def result_simps Let_def split: module_reference.split)

lemma reject_one_modules:
  assumes "reject_one st m = Ok st'"
  shows "pending_modules st' = remove (mod_key m) (pending_modules st)"
    and "registered_modules st' = registered_modules st"
    and "yanked_modules st' = yanked_modules st"
  using assms by (auto simp: reject_one_def split: if_splits)

lemma save_registered_modules [simp]:
  "registered_modules (save_registered st m r) = save (mod_key m) r (registered_modules st)"
  "pending_modules (save_registered st m r) = pending_modules st"
  "yanked_modules (save_registered st m r) = yanked_modules st"
  by (cases r; simp add: save_registered_def)+

lemma propose_one_Ok:
  "propose_one ch cfg s st (m, r) = Ok st' \<longleftrightarrow> propose_checks ch cfg s st m r = Ok ()
     \<and> (if security_enabled cfg
        then st' = st\<lparr>pending_modules := save (mod_key m) r (pending_modules st)\<rparr>
        else assert_module_data_validity (q_cw2 ch) (q_module_data ch)
               \<lparr>m_info = m, m_reference = r\<rparr> None = Ok ()
          \<and> st' = save_registered st m r)"
  by (auto simp: propose_one_def result_simps)

lemma propose_checks_Ok:
  assumes "propose_checks ch cfg s st m r = Ok ()"
  shows "security_enabled cfg \<Longrightarrow> load (pending_modules st) (mod_key m) = None
      \<and> load (registered_modules st) (mod_key m) = None \<and> load (yanked_modules st) (mod_key m) = None"
    and "module_info_validate (q_semver ch) m = Ok ()"
    and "assert_version_variant (q_semver ch) m = Ok ()"
    and "(if mi_namespace m = ABSTRACT_NAMESPACE then assert_registry_owner ch st s
          else validate_account_owner ch st (mi_namespace m) s) = Ok ()"
    and "r = Adapter a \<Longrightarrow> \<exists>ci. q_contract_info ch a = Ok ci \<and> ci_admin ci = None"
  using assms
  by (auto simp: propose_checks_def result_simps Let_def has_def split: if_splits)

section \<open>Invariants of the module maps\<close>

text \<open>A property of the three maps that every elementary change keeps is kept by every message.
  \<open>C\<close> is what a proposal may assume of the chain and of the configuration.\<close>

locale module_invariant =
  fixes P :: "registry_state \<Rightarrow> bool" and C :: "chain \<Rightarrow> registry_config \<Rightarrow> bool"
  assumes P_same: "P st \<Longrightarrow> same_modules st st' \<Longrightarrow> P st'"
    and P_propose: "P st \<Longrightarrow> C ch cfg \<Longrightarrow> propose_one ch cfg s st e = Ok st' \<Longrightarrow> P st'"
    and P_approve: "P st \<Longrightarrow> approve_one st m = Ok st' \<Longrightarrow> P st'"
    and P_reject: "P st \<Longrightarrow> reject_one st m = Ok st' \<Longrightarrow> P st'"
    and P_remove: "P st \<Longrightarrow> remove_module ch st info m = Ok (st', out) \<Longrightarrow> P st'"
    and P_yank: "P st \<Longrightarrow> yank_module ch st info m = Ok (st', out) \<Longrightarrow> P st'"
    and P_forgo: "P st \<Longrightarrow> forgo_one ch adm s st n = Ok st' \<Longrightarrow> P st'"
begin

lemma P_try_fold:
  assumes "P st" and "try_fold f st xs = Ok st'" and "\<And>s x s'. P s \<Longrightarrow> f s x = Ok s' \<Longrightarrow> P s'"
  shows "P st'"
  by (rule try_fold_invariant [OF assms(2), where P = P]) (use assms in blast)+

lemma P_execute:
  assumes "P st" and ok: "registry_execute ch ev st info msg = Ok (st', ms)"
    and C: "\<And>cfg. load_config st = Ok cfg \<Longrightarrow> C ch cfg"
  shows "P st'"
proof (cases msg)
  case (ProposeModules ms')
  with ok obtain cfg where "load_config st = Ok cfg"
    and "try_fold (propose_one ch cfg (info_sender info)) st ms' = Ok st'"
    by (auto simp: propose_modules_def result_simps)
  with assms(1) C show ?thesis using P_propose by (blast intro: P_try_fold)
next
  case (ApproveOrRejectModules as rs)
  with ok obtain st1 where f: "try_fold approve_one st as = Ok st1"
    "try_fold reject_one st1 rs = Ok st'"
    by (auto simp: approve_or_reject_Ok approve_modules_def reject_modules_def)
  have "P st1" using assms(1) f(1) P_approve by (rule P_try_fold)
  then show ?thesis using f(2) P_reject by (rule P_try_fold)
next
  case (ForgoNamespace nss)
  with ok obtain adm where "try_fold (forgo_one ch adm (info_sender info)) st nss = Ok st'"
    by (auto simp: forgo_namespace_Ok)
  with assms(1) show ?thesis using P_forgo by (rule P_try_fold)
next
  case (RegistryUpdateOwnership act)
  with ok have "same_modules st st'" by (auto simp: result_simps same_modules_def)
  with assms(1) show ?thesis by (rule P_same)
next
  case (RemoveModule m)
  with assms(1) ok P_remove show ?thesis by simp
next
  case (YankModule m)
  with assms(1) ok P_yank show ?thesis by simp
qed (use assms(1) ok P_same config_ops_modules in \<open>simp; blast\<close>)+

end

section \<open>A version is in one place\<close>

definition disjoint_modules :: "registry_state \<Rightarrow> bool" where
  "disjoint_modules st \<longleftrightarrow>
     dom (load (pending_modules st)) \<inter> dom (load (registered_modules st)) = {}
     \<and> dom (load (pending_modules st)) \<inter> dom (load (yanked_modules st)) = {}
     \<and> dom (load (registered_modules st)) \<inter> dom (load (yanked_modules st)) = {}"

definition secure :: "registry_state \<Rightarrow> bool" where
  "secure st \<longleftrightarrow> (\<exists>cfg. load_config st = Ok cfg \<and> security_enabled cfg)"

lemma disjoint_same: "disjoint_modules st \<Longrightarrow> same_modules st st' \<Longrightarrow> disjoint_modules st'"
  by (simp add: disjoint_modules_def same_modules_def)

lemma disjoint_approve_one:
  assumes "disjoint_modules st" and "approve_one st m = Ok st'"
  shows "disjoint_modules st'"
proof -
  from approve_one_modules(1) [OF assms(2)] obtain r where
    r: "load (pending_modules st) (mod_key m) = Some r"
    "registered_modules st' = save (mod_key m) r (registered_modules st)" by blast
  have "load (yanked_modules st) (mod_key m) = None"
    using assms(1) r(1) unfolding disjoint_modules_def by blast
  then show ?thesis
    using assms(1) approve_one_modules(2,3) [OF assms(2)] r(2)
      kv.move_disjoint [of "pending_modules st" "registered_modules st" "mod_key m" r]
    unfolding disjoint_modules_def by auto
qed

lemma disjoint_reject_one:
  "disjoint_modules st \<Longrightarrow> reject_one st m = Ok st' \<Longrightarrow> disjoint_modules st'"
  using reject_one_modules [of st m st'] by (auto simp: disjoint_modules_def)

lemma disjoint_propose_one:
  assumes "disjoint_modules st" and "security_enabled cfg"
    and "propose_one ch cfg s st e = Ok st'"
  shows "disjoint_modules st'"
proof -
  obtain m r where e: "e = (m, r)" by (cases e)
  with assms(2,3) have "propose_checks ch cfg s st m r = Ok ()"
    and "st' = st\<lparr>pending_modules := save (mod_key m) r (pending_modules st)\<rparr>"
    by (simp_all add: propose_one_Ok)
  then show ?thesis
    using assms(1) propose_checks_Ok(1) [of ch cfg s st m r] assms(2)
    by (auto simp: disjoint_modules_def)
qed

lemma disjoint_yank_entry:
  assumes "disjoint_modules st" and "load (pending_modules st) (fst e) = None"
  shows "disjoint_modules (yank_entry e st)"
  using assms kv.move_disjoint [of "registered_modules st" "yanked_modules st" "fst e" "snd e"]
  by (auto simp: disjoint_modules_def)

lemma disjoint_yank_entries:
  "disjoint_modules st \<Longrightarrow> \<forall>e \<in> set es. load (pending_modules st) (fst e) = None
   \<Longrightarrow> disjoint_modules (fold yank_entry es st)"
proof (induction es arbitrary: st)
  case (Cons e es)
  have "disjoint_modules (yank_entry e st)"
    using Cons.prems by (intro disjoint_yank_entry) simp_all
  then show ?case using Cons.prems(2) Cons.IH [of "yank_entry e st"] by simp
qed simp

lemma load_member: "e \<in> set m \<Longrightarrow> load m (fst e) \<noteq> None"
  by (simp add: load_def map_of_eq_None_iff)

lemma ns_entries_registered: "e \<in> set (ns_entries n st) \<Longrightarrow> e \<in> set (registered_modules st)"
  by (simp add: ns_entries_def entries_where_def)

lemma forgo_one_modules:
  "forgo_one ch adm s st n = Ok st' \<Longrightarrow> same_modules (fold yank_entry (ns_entries n st) st) st'"
  by (auto simp: forgo_one_Ok same_modules_def)

lemma disjoint_forgo_one:
  assumes "disjoint_modules st" and "forgo_one ch adm s st n = Ok st'"
  shows "disjoint_modules st'"
proof -
  have "load (pending_modules st) (fst e) = None" if "e \<in> set (ns_entries n st)" for e
  proof -
    from that have "load (registered_modules st) (fst e) \<noteq> None"
      by (intro load_member ns_entries_registered)
    then show ?thesis using assms(1) unfolding disjoint_modules_def by blast
  qed
  then have "disjoint_modules (fold yank_entry (ns_entries n st) st)"
    using disjoint_yank_entries assms(1) by blast
  then show ?thesis by (rule disjoint_same) (rule forgo_one_modules [OF assms(2)])
qed

lemma disjoint_remove:
  "disjoint_modules st \<Longrightarrow> remove_module ch st info m = Ok (st', out) \<Longrightarrow> disjoint_modules st'"
  using remove_module_Ok [of ch st info m st' out] by (auto simp: disjoint_modules_def)

lemma disjoint_yank:
  assumes "disjoint_modules st" and "yank_module ch st info m = Ok (st', out)"
  shows "disjoint_modules st'"
proof -
  from assms(2) obtain r where "load (registered_modules st) (mod_key m) = Some r"
    and st': "st' = st\<lparr>yanked_modules := save (mod_key m) r (yanked_modules st),
        registered_modules := remove (mod_key m) (registered_modules st)\<rparr>"
    by (auto simp: yank_module_Ok)
  then show ?thesis using assms(1) unfolding st' disjoint_modules_def by auto
qed

interpretation disjoint: module_invariant disjoint_modules "\<lambda>ch cfg. security_enabled cfg"
  by unfold_locales
    (fact disjoint_same disjoint_propose_one disjoint_approve_one disjoint_reject_one
      disjoint_remove disjoint_yank disjoint_forgo_one)+

text \<open>A step taken while security is enabled.\<close>

definition secure_step :: "registry_state \<Rightarrow> registry_state \<Rightarrow> bool" where
  "secure_step st st' \<longleftrightarrow> secure st \<and> registry_step st st'"

lemma disjoint_secure_step:
  "disjoint_modules st \<Longrightarrow> secure_step st st' \<Longrightarrow> disjoint_modules st'"
  unfolding secure_step_def
  by (auto simp: secure_def elim!: registry_stepE intro: disjoint.P_execute)

lemma disjoint_start: "registry_start st \<Longrightarrow> disjoint_modules st"
  by (auto simp: registry_start_def registry_instantiate_def result_simps disjoint_modules_def
      empty_registry_def)

interpretation disj: invariant registry_start secure_step disjoint_modules
  by unfold_locales (fact disjoint_start, fact disjoint_secure_step)

lemma sample_registry_secure: "reachable registry_start secure_step sample_registry"
  by (rule reach_start, rule sample_registry_start)

text \<open>
  C5: as long as security stays enabled, a module version is at any time in at most one of the
  pending, registered and yanked maps.
\<close>

theorem registry_version_in_one_place:
  assumes "reachable registry_start secure_step st"
  shows "\<not> (has (pending_modules st) k \<and> has (registered_modules st) k)
    \<and> \<not> (has (pending_modules st) k \<and> has (yanked_modules st) k)
    \<and> \<not> (has (registered_modules st) k \<and> has (yanked_modules st) k)"
  using disj.holds [OF assms] unfolding disjoint_modules_def has_def by blast

theorem registry_version_in_one_place_witness:
  "\<not> (has (pending_modules sample_registry) (SubKey ''a'', SubKey ''b'', ''c'')
      \<and> has (registered_modules sample_registry) (SubKey ''a'', SubKey ''b'', ''c''))"
  using registry_version_in_one_place [OF sample_registry_secure] by blast

section \<open>Keys in the maps are valid\<close>

definition all_keys :: "registry_state \<Rightarrow> module_key set" where
  "all_keys st = dom (load (pending_modules st)) \<union> dom (load (registered_modules st))
     \<union> dom (load (yanked_modules st))"

definition key_ok :: "semver_lib \<Rightarrow> module_key \<Rightarrow> bool" where
  "key_ok sv k \<longleftrightarrow> valid_name (sub_bytes (fst k)) \<and> valid_name (sub_bytes (fst (snd k)))
     \<and> sv_parse sv (snd (snd k)) \<noteq> None"

lemma key_ok_mod_key:
  assumes "module_info_validate sv m = Ok ()" and "assert_version_variant sv m = Ok ()"
  shows "key_ok sv (mod_key m)"
  using assms
  by (auto simp: key_ok_def mod_key_def module_info_validate_def namespace_validate_def
      module_validate_name_Ok assert_version_variant_def result_simps split: module_version.splits)

lemma all_keys_same: "same_modules st st' \<Longrightarrow> all_keys st' = all_keys st"
  by (simp add: all_keys_def same_modules_def)

lemmas dom_simps = kv.dom_put kv.dom_del

lemma all_keys_approve_one:
  assumes "approve_one st m = Ok st'"
  shows "all_keys st' \<subseteq> all_keys st"
proof -
  from approve_one_modules(1) [OF assms] obtain r where
    "load (pending_modules st) (mod_key m) = Some r"
    "registered_modules st' = save (mod_key m) r (registered_modules st)" by blast
  then show ?thesis
    using approve_one_modules(2,3) [OF assms] domI [of "load (pending_modules st)" "mod_key m" r]
    unfolding all_keys_def by (simp only: dom_simps) blast
qed

lemma all_keys_reject_one: "reject_one st m = Ok st' \<Longrightarrow> all_keys st' \<subseteq> all_keys st"
  using reject_one_modules [of st m st'] unfolding all_keys_def by (simp only: dom_simps) blast

lemma all_keys_yank_entries:
  "\<forall>e \<in> set es. key_ok sv (fst e) \<Longrightarrow> \<forall>k \<in> all_keys st. key_ok sv k
   \<Longrightarrow> \<forall>k \<in> all_keys (fold yank_entry es st). key_ok sv k"
proof (induction es arbitrary: st)
  case (Cons e es)
  have "all_keys (yank_entry e st) \<subseteq> insert (fst e) (all_keys st)"
    unfolding all_keys_def yank_entry_fields dom_simps by blast
  then show ?case using Cons.prems Cons.IH [of "yank_entry e st"] by auto
qed simp

text \<open>A step of the registry on a chain with a given \<open>semver\<close> library.\<close>

inductive step_with :: "semver_lib \<Rightarrow> registry_state \<Rightarrow> registry_state \<Rightarrow> bool" for sv where
  exec_with: "registry_execute ch ev st info msg = Ok (st', ms) \<Longrightarrow> q_semver ch = sv
    \<Longrightarrow> step_with sv st st'"

inductive_cases step_withE: "step_with sv st st'"

definition keys_ok :: "semver_lib \<Rightarrow> registry_state \<Rightarrow> bool" where
  "keys_ok sv st \<longleftrightarrow> (\<forall>k \<in> all_keys st. key_ok sv k)"

lemma keys_ok_subset: "keys_ok sv st \<Longrightarrow> all_keys st' \<subseteq> all_keys st \<Longrightarrow> keys_ok sv st'"
  by (auto simp: keys_ok_def)

lemma keys_ok_propose_one:
  assumes "keys_ok sv st" and "q_semver ch = sv" and "propose_one ch cfg s st e = Ok st'"
  shows "keys_ok sv st'"
proof -
  obtain m r where e: "e = (m, r)" by (cases e)
  with assms(3) have checks: "propose_checks ch cfg s st m r = Ok ()"
    and st': "st' = st\<lparr>pending_modules := save (mod_key m) r (pending_modules st)\<rparr>
      \<or> st' = save_registered st m r"
    by (auto simp: propose_one_Ok split: if_splits)
  have "key_ok sv (mod_key m)"
    using propose_checks_Ok(2,3) [OF checks] assms(2) by (auto intro: key_ok_mod_key)
  moreover have "(pending_modules st' = save (mod_key m) r (pending_modules st)
      \<and> registered_modules st' = registered_modules st
    \<or> pending_modules st' = pending_modules st
      \<and> registered_modules st' = save (mod_key m) r (registered_modules st))
    \<and> yanked_modules st' = yanked_modules st"
    using st' by auto
  then have "all_keys st' \<subseteq> insert (mod_key m) (all_keys st)"
    unfolding all_keys_def by (elim conjE disjE) (simp_all only: dom_simps, blast+)
  ultimately show ?thesis using assms(1) by (auto simp: keys_ok_def)
qed

lemma keys_ok_forgo_one:
  assumes "keys_ok sv st" and "forgo_one ch adm s st n = Ok st'"
  shows "keys_ok sv st'"
proof -
  have "key_ok sv (fst e)" if "e \<in> set (ns_entries n st)" for e
  proof -
    have "fst e \<in> dom (load (registered_modules st))"
      using load_member [OF ns_entries_registered [OF that]] by blast
    then show ?thesis using assms(1) unfolding keys_ok_def all_keys_def by blast
  qed
  then have "\<forall>k \<in> all_keys (fold yank_entry (ns_entries n st) st). key_ok sv k"
    using assms(1) all_keys_yank_entries unfolding keys_ok_def by blast
  then show ?thesis
    using all_keys_same [OF forgo_one_modules [OF assms(2)]] by (simp add: keys_ok_def)
qed

lemma keys_ok_same: "keys_ok sv st \<Longrightarrow> same_modules st st' \<Longrightarrow> keys_ok sv st'"
  by (simp add: keys_ok_def all_keys_same)

lemma keys_ok_approve_one: "keys_ok sv st \<Longrightarrow> approve_one st m = Ok st' \<Longrightarrow> keys_ok sv st'"
  by (erule keys_ok_subset, erule all_keys_approve_one)

lemma keys_ok_reject_one: "keys_ok sv st \<Longrightarrow> reject_one st m = Ok st' \<Longrightarrow> keys_ok sv st'"
  by (erule keys_ok_subset, erule all_keys_reject_one)

lemma keys_ok_remove:
  assumes "keys_ok sv st" and "remove_module ch st info m = Ok (st', out)"
  shows "keys_ok sv st'"
proof -
  from remove_module_Ok(1-3) [OF assms(2)] have "all_keys st' \<subseteq> all_keys st"
    unfolding all_keys_def by (simp only: dom_simps) blast
  with assms(1) show ?thesis by (rule keys_ok_subset)
qed

lemma keys_ok_yank:
  assumes "keys_ok sv st" and "yank_module ch st info m = Ok (st', out)"
  shows "keys_ok sv st'"
proof -
  from assms(2) obtain r where r: "load (registered_modules st) (mod_key m) = Some r"
    and "pending_modules st' = pending_modules st"
      "yanked_modules st' = save (mod_key m) r (yanked_modules st)"
      "registered_modules st' = remove (mod_key m) (registered_modules st)"
    by (auto simp: yank_module_Ok)
  then have "all_keys st' \<subseteq> all_keys st"
    using domI [of "load (registered_modules st)", OF r]
    unfolding all_keys_def by (simp only: dom_simps) blast
  with assms(1) show ?thesis by (rule keys_ok_subset)
qed

interpretation key: module_invariant "keys_ok sv" "\<lambda>ch cfg. q_semver ch = sv" for sv
  by unfold_locales
    (erule (1) keys_ok_same keys_ok_approve_one keys_ok_reject_one keys_ok_remove keys_ok_yank
       keys_ok_forgo_one | erule (2) keys_ok_propose_one)+

lemma keys_ok_step: "keys_ok sv st \<Longrightarrow> step_with sv st st' \<Longrightarrow> keys_ok sv st'"
  by (auto elim!: step_withE intro: key.P_execute)

lemma keys_ok_start: "registry_start st \<Longrightarrow> keys_ok sv st"
  by (auto simp: registry_start_def registry_instantiate_def result_simps keys_ok_def all_keys_def
      empty_registry_def)

interpretation keys: invariant registry_start "step_with sv" "keys_ok sv" for sv
  by unfold_locales (fact keys_ok_start, fact keys_ok_step)

section \<open>The maps are ordered\<close>

definition ordered_modules :: "registry_state \<Rightarrow> bool" where
  "ordered_modules st \<longleftrightarrow> ordered (pending_modules st) \<and> ordered (registered_modules st)
     \<and> ordered (yanked_modules st)"

lemma ordered_same: "ordered_modules st \<Longrightarrow> same_modules st st' \<Longrightarrow> ordered_modules st'"
  by (simp add: ordered_modules_def same_modules_def)

lemma ordered_yank_entry: "ordered_modules st \<Longrightarrow> ordered_modules (yank_entry e st)"
  by (simp add: ordered_modules_def ordered_save ordered_remove)

lemma ordered_yank_entries: "ordered_modules st \<Longrightarrow> ordered_modules (fold yank_entry es st)"
  by (induction es arbitrary: st) (simp_all add: ordered_yank_entry)

lemma ordered_forgo_one:
  "ordered_modules st \<Longrightarrow> forgo_one ch adm s st n = Ok st' \<Longrightarrow> ordered_modules st'"
  by (blast intro: ordered_same ordered_yank_entries forgo_one_modules)

lemma ordered_propose_one:
  "ordered_modules st \<Longrightarrow> propose_one ch cfg s st e = Ok st' \<Longrightarrow> ordered_modules st'"
  by (cases e) (auto simp: propose_one_Ok ordered_modules_def ordered_save split: if_splits)

lemma ordered_approve_one: "ordered_modules st \<Longrightarrow> approve_one st m = Ok st' \<Longrightarrow> ordered_modules st'"
  using approve_one_modules [of st m st'] by (auto simp: ordered_modules_def ordered_save ordered_remove)

lemma ordered_reject_one: "ordered_modules st \<Longrightarrow> reject_one st m = Ok st' \<Longrightarrow> ordered_modules st'"
  using reject_one_modules [of st m st'] by (auto simp: ordered_modules_def ordered_remove)

lemma ordered_remove_module:
  "ordered_modules st \<Longrightarrow> remove_module ch st info m = Ok (st', out) \<Longrightarrow> ordered_modules st'"
  using remove_module_Ok [of ch st info m st' out]
  by (auto simp: ordered_modules_def ordered_remove)

lemma ordered_yank_module:
  "ordered_modules st \<Longrightarrow> yank_module ch st info m = Ok (st', out) \<Longrightarrow> ordered_modules st'"
  by (auto simp: yank_module_Ok ordered_modules_def ordered_save ordered_remove)

interpretation ordering: module_invariant ordered_modules "\<lambda>ch cfg. True"
  by unfold_locales
    (erule (1) ordered_same ordered_propose_one ordered_approve_one ordered_reject_one
      ordered_remove_module ordered_yank_module ordered_forgo_one)+

lemma ordered_start: "registry_start st \<Longrightarrow> ordered_modules st"
  by (auto simp: registry_start_def registry_instantiate_def result_simps ordered_modules_def
      empty_registry_def)

interpretation ord: invariant registry_start registry_step ordered_modules
  by unfold_locales (fact ordered_start, auto elim!: registry_stepE intro: ordering.P_execute)

end
