(* ===== verification/Registry_Safety.thy ===== *)
theory Registry_Safety
  imports Registry_Modules
begin

text \<open>
  Who may change what in the registry, and what the messages about modules and namespaces do.
\<close>

section \<open>Proposing modules\<close>

definition owns_namespace :: "chain \<Rightarrow> registry_state \<Rightarrow> namespace \<Rightarrow> addr \<Rightarrow> bool" where
  "owns_namespace ch st n s \<longleftrightarrow> (\<exists>a acc. load (namespaces st) n = Some a
     \<and> load (account_addresses st) (acc_key a) = Some acc
     \<and> (s = acc \<or> (\<exists>ow. q_ownership ch acc = Ok ow \<and> owner_address ch (own_owner ow) = Some s)))"

lemma validate_account_owner_Ok:
  "validate_account_owner ch st n s = Ok () \<longleftrightarrow> owns_namespace ch st n s"
  by (auto simp: validate_account_owner_def owns_namespace_def query_account_owner_def
      query_ownership_def load_err_def result_simps)

lemma owns_namespace_same: "same_accounts st st' \<Longrightarrow> owns_namespace ch st' n s = owns_namespace ch st n s"
  by (simp add: owns_namespace_def same_accounts_def)

lemma propose_fold_secure:
  assumes "try_fold (propose_one ch cfg s) st ms = Ok st'" and "security_enabled cfg"
  shows "registered_modules st' = registered_modules st"
    and "load (pending_modules st) k = Some r \<Longrightarrow> load (pending_modules st') k = Some r"
proof -
  have step: "registered_modules t' = registered_modules t
      \<and> (load (pending_modules t) k = Some r \<longrightarrow> load (pending_modules t') k = Some r)"
    if "propose_one ch cfg s t e = Ok t'" for t t' e
  proof -
    obtain m r' where "e = (m, r')" by (cases e)
    with that assms(2) have "propose_checks ch cfg s t m r' = Ok ()"
      and t': "t' = t\<lparr>pending_modules := save (mod_key m) r' (pending_modules t)\<rparr>"
      by (simp_all add: propose_one_Ok)
    from propose_checks_Ok(1) [OF this(1) assms(2)] t' show ?thesis by auto
  qed
  show "registered_modules st' = registered_modules st"
    by (rule try_fold_invariant [OF assms(1), where P = "\<lambda>t. registered_modules t = registered_modules st"])
      (use step in auto)
  show "load (pending_modules st) k = Some r \<Longrightarrow> load (pending_modules st') k = Some r"
    by (rule try_fold_invariant [OF assms(1), where P = "\<lambda>t. load (pending_modules t) k = Some r"])
      (use step in auto)
qed

text \<open>
  C3: a module is proposed only by the owner of its namespace: the registry's admin for the
  \<open>abstract\<close> namespace, and otherwise the account that holds the namespace or the owner of that
  account. Its version is specific, and with security enabled it ends up pending under the
  proposed reference while the registered modules stay as they were.
\<close>

theorem propose_modules_authorised:
  assumes "propose_modules ch st info ms = Ok (st', out)" and "(m, r) \<in> set ms"
  shows "mi_version m \<noteq> Latest
    \<and> (mi_namespace m = ABSTRACT_NAMESPACE \<longrightarrow>
         q_cwo_assert ch (r_ownership st) (info_sender info) = Ok ())
    \<and> (mi_namespace m \<noteq> ABSTRACT_NAMESPACE \<longrightarrow>
         owns_namespace ch st (mi_namespace m) (info_sender info))
    \<and> (secure st \<longrightarrow> registered_modules st' = registered_modules st
         \<and> load (pending_modules st') (mod_key m) = Some r)"
proof -
  from assms(1) obtain cfg where cfg: "load_config st = Ok cfg"
    and f: "try_fold (propose_one ch cfg (info_sender info)) st ms = Ok st'"
    by (auto simp: propose_modules_def result_simps)
  from f assms(2) obtain ys zs t t' where
    before: "try_fold (propose_one ch cfg (info_sender info)) st ys = Ok t"
    and at: "propose_one ch cfg (info_sender info) t (m, r) = Ok t'"
    and after: "try_fold (propose_one ch cfg (info_sender info)) t' zs = Ok st'"
    by (rule try_fold_split)
  have same: "same_accounts st t"
    using before propose_one_accounts by (rule try_fold_same_accounts)
  have checks: "propose_checks ch cfg (info_sender info) t m r = Ok ()"
    using at by (simp add: propose_one_Ok)
  have auth: "(if mi_namespace m = ABSTRACT_NAMESPACE
      then q_cwo_assert ch (r_ownership st) (info_sender info) = Ok ()
      else owns_namespace ch st (mi_namespace m) (info_sender info))"
    using propose_checks_Ok(4) [OF checks] same owns_namespace_same [OF same]
    by (auto simp: assert_registry_owner_def result_simps validate_account_owner_Ok same_accounts_def
        split: if_splits)
  have "mi_version m \<noteq> Latest"
    using propose_checks_Ok(3) [OF checks] by (auto simp: assert_version_variant_def)
  moreover have "registered_modules st' = registered_modules st
      \<and> load (pending_modules st') (mod_key m) = Some r" if "secure st"
  proof -
    have sec: "security_enabled cfg" using that cfg by (auto simp: secure_def)
    then have "load (pending_modules t') (mod_key m) = Some r" using at by (simp add: propose_one_Ok)
    then show ?thesis using propose_fold_secure [OF f sec] propose_fold_secure [OF after sec] by simp
  qed
  ultimately show ?thesis using auth by (simp split: if_splits)
qed

definition sample_module :: module_info where
  "sample_module = \<lparr>mi_namespace = ''abstract'', mi_name = ''dex'', mi_version = Version ''1.0.0''\<rparr>"

definition admin_info :: message_info where
  "admin_info = \<lparr>info_sender = ''admin'', info_funds = []\<rparr>"

lemmas version_simps =
  sample_semver_def sample_parse_def parse_u32_def parse_digits_def char_digit_def
  is_ascii_digit_def

lemma sample_module_valid:
  "module_info_validate sample_semver sample_module = Ok ()"
  "assert_version_variant sample_semver sample_module = Ok ()"
proof -
  have "sv_parse sample_semver ''1.0.0'' = Some \<lparr>major = 1, minor = 0, patch = 0, pre = [], build = []\<rparr>"
    by (simp add: version_simps)
  moreover have "valid_name ''dex''" by (simp add: valid_name_def is_ascii_lowercase_def)
  ultimately show "module_info_validate sample_semver sample_module = Ok ()"
    "assert_version_variant sample_semver sample_module = Ok ()"
    using valid_abstract
    by (simp_all add: module_info_validate_def namespace_validate_def sample_module_def
        module_validate_name_Ok [THEN iffD2] assert_version_variant_def)
qed

lemma sample_propose:
  "propose_modules sample_chain sample_registry admin_info [(sample_module, App 7)]
   = Ok (sample_registry\<lparr>pending_modules := [(mod_key sample_module, App 7)]\<rparr>, [])"
proof -
  have "q_semver sample_chain = sample_semver" by (simp add: sample_chain_def)
  then show ?thesis
    using sample_module_valid
    by (simp add: propose_modules_def load_config_def propose_one_def propose_checks_def
        assert_registry_owner_def sample_registry_def empty_registry_def has_def admin_info_def
        module_reference_validate_def ABSTRACT_NAMESPACE_def)
      (simp add: sample_module_def sample_chain_def)
qed

theorem propose_modules_authorised_witness:
  "q_cwo_assert sample_chain (r_ownership sample_registry) ''admin'' = Ok ()
   \<and> load (pending_modules (sample_registry\<lparr>pending_modules := [(mod_key sample_module, App 7)]\<rparr>))
       (mod_key sample_module) = Some (App 7)"
proof -
  have "secure sample_registry"
    by (simp add: secure_def load_config_def sample_registry_def)
  then show ?thesis
    using propose_modules_authorised [OF sample_propose, of sample_module "App 7"]
    by (simp add: admin_info_def sample_module_def ABSTRACT_NAMESPACE_def)
qed

section \<open>Forgoing a namespace\<close>

lemma ns_entries_key: "e \<in> set (ns_entries n st) \<Longrightarrow> fst (fst e) = SubKey n"
  by (simp add: ns_entries_def entries_where_def)

lemma ns_entries_all:
  "load (registered_modules st) k = Some r \<Longrightarrow> fst k = SubKey n \<Longrightarrow> (k, r) \<in> set (ns_entries n st)"
  using load_in_set [of "registered_modules st" k r] by (simp add: ns_entries_def entries_where_def)

lemma map_upds_distinct:
  "distinct (map fst es) \<Longrightarrow> (k, v) \<in> set es \<Longrightarrow> (m(map fst es [\<mapsto>] map snd es)) k = Some v"
  by (simp add: map_upds_def zip_map_fst_snd map_of_is_SomeI rev_map [symmetric]
      flip: rev_map)

lemma forgo_one_effect:
  assumes "forgo_one ch adm s st n = Ok st'"
  shows "load (namespaces st') n' = (if n' = n then None else load (namespaces st) n')"
    and "load (registered_modules st') k =
      (if fst k = SubKey n then None else load (registered_modules st) k)"
    and "fst k \<noteq> SubKey n \<Longrightarrow> load (yanked_modules st') k = load (yanked_modules st) k"
    and "ordered_modules st \<Longrightarrow> fst k = SubKey n \<Longrightarrow> load (registered_modules st) k = Some r
      \<Longrightarrow> load (yanked_modules st') k = Some r"
    and "valid_name n" and "load (namespaces st) n \<noteq> None"
    and "adm \<or> owns_namespace ch st n s"
proof -
  let ?es = "ns_entries n st"
  from assms obtain own where own: "load (namespaces st) n = Some own"
    and st': "st' = (fold yank_entry ?es st)\<lparr>namespaces := remove n (namespaces st),
        rev_namespaces := remove (acc_key own) (rev_namespaces st)\<rparr>"
    by (auto simp: forgo_one_Ok)
  show "load (namespaces st') n' = (if n' = n then None else load (namespaces st) n')"
    by (simp add: st')
  have reg: "load (registered_modules st') k =
      (if k \<in> set (map fst ?es) then None else load (registered_modules st) k)"
    by (simp add: st' kv.look_del_all)
  show "load (registered_modules st') k =
      (if fst k = SubKey n then None else load (registered_modules st) k)"
  proof (cases "fst k = SubKey n")
    case True
    then show ?thesis
      using reg ns_entries_all [of st k _ n] by (cases "load (registered_modules st) k") force+
  next
    case False
    then show ?thesis using reg ns_entries_key by force
  qed
  have yan: "load (yanked_modules st') = (load (yanked_modules st))(map fst ?es [\<mapsto>] map snd ?es)"
    by (simp add: st' kv.look_put_all)
  show "load (yanked_modules st') k = load (yanked_modules st) k" if "fst k \<noteq> SubKey n"
  proof -
    have "k \<notin> set (map fst ?es)" using that ns_entries_key by auto
    then show ?thesis using yan by (metis map_upds_apply_nontin)
  qed
  show "load (yanked_modules st') k = Some r"
    if "ordered_modules st" "fst k = SubKey n" "load (registered_modules st) k = Some r"
  proof -
    have "distinct (map fst ?es)"
      using that(1) ordered_filter [of "registered_modules st"]
      by (simp add: ns_entries_def entries_where_def ordered_modules_def ordered_def
          strict_sorted_iff)
    then show ?thesis using yan ns_entries_all [OF that(3,2)] map_upds_distinct by metis
  qed
  show "valid_name n" "load (namespaces st) n \<noteq> None" "adm \<or> owns_namespace ch st n s"
    using assms by (auto simp: forgo_one_Ok validate_account_owner_Ok)
qed

text \<open>What the rounds of \<open>forgo_namespace\<close> for other namespaces leave of a forgone one.\<close>

definition forgone :: "namespace \<Rightarrow> registry_state \<Rightarrow> registry_state \<Rightarrow> bool" where
  "forgone n st t \<longleftrightarrow> load (namespaces t) n = None
     \<and> (\<forall>k. fst k = SubKey n \<longrightarrow> load (registered_modules t) k = None
          \<and> (\<forall>r. load (registered_modules st) k = Some r \<longrightarrow> load (yanked_modules t) k = Some r))"

lemma forgo_fold_other:
  assumes "try_fold (forgo_one ch adm s) t nss = Ok t'"
  shows "pending_modules t' = pending_modules t"
    and "n \<notin> set nss \<Longrightarrow> fst k = SubKey n \<Longrightarrow>
      load (registered_modules t') k = load (registered_modules t) k
      \<and> load (yanked_modules t') k = load (yanked_modules t) k"
    and "n \<notin> set nss \<Longrightarrow> load (namespaces t') n = load (namespaces t) n"
    and "ordered_modules t \<Longrightarrow> ordered_modules t'"
proof -
  show "pending_modules t' = pending_modules t"
    by (rule try_fold_invariant [OF assms, where P = "\<lambda>u. pending_modules u = pending_modules t"])
      (auto dest: forgo_one_accounts(3))
  show "load (registered_modules t') k = load (registered_modules t) k
      \<and> load (yanked_modules t') k = load (yanked_modules t) k" if "n \<notin> set nss" "fst k = SubKey n"
    by (rule try_fold_invariant [OF assms, where P = "\<lambda>u.
          load (registered_modules u) k = load (registered_modules t) k
          \<and> load (yanked_modules u) k = load (yanked_modules t) k"])
      (use that forgo_one_effect(2,3) in auto)
  show "load (namespaces t') n = load (namespaces t) n" if "n \<notin> set nss"
    by (rule try_fold_invariant [OF assms, where P = "\<lambda>u. load (namespaces u) n = load (namespaces t) n"])
      (use that forgo_one_effect(1) in auto)
  show "ordered_modules t \<Longrightarrow> ordered_modules t'"
    by (rule try_fold_invariant [OF assms, where P = ordered_modules]) (auto intro: ordered_forgo_one)
qed

lemma forgo_fold_fresh:
  assumes "try_fold (forgo_one ch adm s) t nss = Ok t'" and "n \<in> set nss"
  shows "load (namespaces t) n \<noteq> None"
  using assms
proof (induction nss arbitrary: t)
  case (Cons x nss)
  then obtain u where u: "forgo_one ch adm s t x = Ok u" "try_fold (forgo_one ch adm s) u nss = Ok t'"
    by (auto simp: result_simps)
  show ?case
  proof (cases "n = x")
    case True
    then show ?thesis using forgo_one_effect(6) [OF u(1)] by simp
  next
    case False
    with Cons.prems(2) have "load (namespaces u) n \<noteq> None" using Cons.IH [OF u(2)] by simp
    then show ?thesis using forgo_one_effect(1) [OF u(1), of n] by (simp split: if_splits)
  qed
qed simp

lemma forgo_fold_forgone:
  assumes "try_fold (forgo_one ch adm s) st nss = Ok st'" and "n \<in> set nss"
    and "ordered_modules st"
  shows "forgone n st st'" and "adm \<or> owns_namespace ch st n s"
proof -
  from assms(1,2) obtain ys zs t t' where nss: "nss = ys @ n # zs"
    and before: "try_fold (forgo_one ch adm s) st ys = Ok t"
    and at: "forgo_one ch adm s t n = Ok t'"
    and after: "try_fold (forgo_one ch adm s) t' zs = Ok st'"
    by (rule try_fold_split)
  have ns_t: "load (namespaces t) n \<noteq> None" using forgo_one_effect(6) [OF at] .
  have "load (namespaces t') n = None" using forgo_one_effect(1) [OF at, of n] by simp
  then have zs: "n \<notin> set zs" using forgo_fold_fresh [OF after, of n] by blast
  have ys: "n \<notin> set ys"
  proof
    assume "n \<in> set ys"
    from before this obtain as bs u u' where
      "forgo_one ch adm s u n = Ok u'" "try_fold (forgo_one ch adm s) u' bs = Ok t"
      by (rule try_fold_split)
    then have "load (namespaces u') n = None" and *: "n \<in> set bs \<Longrightarrow> load (namespaces u') n \<noteq> None"
      using forgo_one_effect(1) [of ch adm s u n u' n] forgo_fold_fresh by auto
    then have "load (namespaces t) n = None"
      using forgo_fold_other(3) [of ch adm s u' bs t n] \<open>try_fold (forgo_one ch adm s) u' bs = Ok t\<close>
      by auto
    with ns_t show False by simp
  qed
  have ord: "ordered_modules t" using forgo_fold_other(4) [OF before] assms(3) .
  have "account_addresses t = account_addresses st"
    by (rule try_fold_invariant [OF before,
          where P = "\<lambda>u. account_addresses u = account_addresses st"])
      (auto dest: forgo_one_accounts(1))
  then show "adm \<or> owns_namespace ch st n s"
    using forgo_one_effect(7) [OF at] forgo_fold_other(3) [OF before ys]
    by (simp add: owns_namespace_def)
  show "forgone n st st'"
    unfolding forgone_def
  proof (intro conjI allI impI)
    show "load (namespaces st') n = None"
      using forgo_fold_other(3) [OF after zs] forgo_one_effect(1) [OF at, of n] by simp
    fix k :: module_key assume k: "fst k = SubKey n"
    show "load (registered_modules st') k = None"
      using forgo_fold_other(2) [OF after zs k] forgo_one_effect(2) [OF at, of k] k by simp
    fix r assume "load (registered_modules st) k = Some r"
    then have "load (registered_modules t) k = Some r"
      using forgo_fold_other(2) [OF before ys k] by simp
    then have "load (yanked_modules t') k = Some r"
      using forgo_one_effect(4) [OF at ord k] by simp
    then show "load (yanked_modules st') k = Some r"
      using forgo_fold_other(2) [OF after zs k] by simp
  qed
qed

text \<open>
  after \<open>forgo_namespace\<close>, each of the given namespaces is unclaimed and has no registered
  module: all its registered versions are in the yanked map under the same reference. A sender who
  is not the registry's admin owned every one of them. Namespaces that were not given keep their
  claim and their modules.
\<close>

theorem forgo_namespace_yanks_modules:
  assumes "reachable registry_start registry_step st"
    and "forgo_namespace ch st info nss = Ok (st', out)"
  shows "(n \<in> set nss \<longrightarrow> load (namespaces st') n = None
      \<and> (q_cwo_is_owner ch (r_ownership st) (info_sender info) = Ok True
         \<or> owns_namespace ch st n (info_sender info))
      \<and> (\<forall>k. fst k = SubKey n \<longrightarrow> load (registered_modules st') k = None
          \<and> (\<forall>r. load (registered_modules st) k = Some r \<longrightarrow> load (yanked_modules st') k = Some r)))
    \<and> (n \<notin> set nss \<longrightarrow> load (namespaces st') n = load (namespaces st) n
      \<and> (\<forall>k. fst k = SubKey n \<longrightarrow>
          load (registered_modules st') k = load (registered_modules st) k))"
proof -
  from assms(2) obtain adm where
    f: "try_fold (forgo_one ch adm (info_sender info)) st nss = Ok st'"
    and adm: "q_cwo_is_owner ch (r_ownership st) (info_sender info) = Ok adm"
    by (auto simp: forgo_namespace_Ok)
  have ord: "ordered_modules st" using ord.holds [OF assms(1)] .
  show ?thesis
  proof (cases "n \<in> set nss")
    case True
    then show ?thesis
      using forgo_fold_forgone [OF f True ord] adm unfolding forgone_def
      by (cases adm) simp_all
  next
    case False
    then show ?thesis using forgo_fold_other(2,3) [OF f False] by simp
  qed
qed

theorem forgo_namespace_yanks_modules_witness:
  "\<exists>st'. forgo_namespace sample_chain sample_registry admin_info [''abstract''] = Ok (st', [])
     \<and> load (namespaces st') ''abstract'' = None"
proof -
  have "namespace_new ''abstract'' = Ok ''abstract''"
    using namespace_new_valid [OF valid_abstract] .
  then obtain st' where st': "forgo_namespace sample_chain sample_registry admin_info [''abstract''] = Ok (st', [])"
    by (simp add: forgo_namespace_def sample_chain_def forgo_one_def sample_registry_def
        empty_registry_def admin_info_def has_def entries_where_def load_err_def)
  then show ?thesis
    using forgo_namespace_yanks_modules [OF sample_registry_reachable st', of "''abstract''"] by simp
qed

text \<open>
  forgoing a namespace does not touch its pending modules, so the admin can still approve one
  afterwards: it becomes registered in a namespace nobody holds.
\<close>

theorem approve_into_forgone_namespace:
  assumes "forgo_namespace ch st info nss = Ok (st1, out)" and "mi_namespace m \<in> set nss"
    and "load (pending_modules st) (mod_key m) = Some r"
    and "q_cwo_assert ch' (r_ownership st1) (info_sender info') = Ok ()"
  shows "\<exists>st2. approve_or_reject_modules ch' st1 info' [m] [] = Ok (st2, [])
    \<and> load (registered_modules st2) (mod_key m) = Some r
    \<and> load (namespaces st2) (mi_namespace m) = None"
proof -
  from assms(1) obtain adm where
    f: "try_fold (forgo_one ch adm (info_sender info)) st nss = Ok st1"
    by (auto simp: forgo_namespace_Ok)
  have pend: "load (pending_modules st1) (mod_key m) = Some r"
    using forgo_fold_other(1) [OF f] assms(3) by simp
  then obtain st2 where st2: "approve_one st1 m = Ok st2" by (simp add: approve_one_def Let_def)
  then have ok: "approve_or_reject_modules ch' st1 info' [m] [] = Ok (st2, [])"
    using assms(4)
    by (auto simp: approve_or_reject_Ok approve_modules_def reject_modules_def
        assert_registry_owner_def)
  have "load (registered_modules st2) (mod_key m) = Some r"
    using approve_one_modules(1) [OF st2] pend by auto
  moreover have "load (namespaces st1) (mi_namespace m) = None"
  proof -
    from f assms(2) obtain ys zs t t' where
      at: "forgo_one ch adm (info_sender info) t (mi_namespace m) = Ok t'"
      and after: "try_fold (forgo_one ch adm (info_sender info)) t' zs = Ok st1"
      by (rule try_fold_split)
    have none: "load (namespaces t') (mi_namespace m) = None"
      using forgo_one_effect(1) [OF at, of "mi_namespace m"] by simp
    then have "mi_namespace m \<notin> set zs" using forgo_fold_fresh [OF after] by blast
    then show ?thesis using forgo_fold_other(3) [OF after] none by simp
  qed
  ultimately show ?thesis
    using ok approve_one_accounts [OF st2] by (auto simp: same_accounts_def)
qed

theorem approve_into_forgone_namespace_witness:
  "\<exists>st1 st2. forgo_namespace sample_chain
       (sample_registry\<lparr>pending_modules := [(mod_key sample_module, App 7)]\<rparr>) admin_info
       [''abstract''] = Ok (st1, [])
     \<and> approve_or_reject_modules sample_chain st1 admin_info [sample_module] [] = Ok (st2, [])
     \<and> load (registered_modules st2) (mod_key sample_module) = Some (App 7)
     \<and> load (namespaces st2) ''abstract'' = None"
proof -
  let ?st = "sample_registry\<lparr>pending_modules := [(mod_key sample_module, App 7)]\<rparr>"
  have "namespace_new ''abstract'' = Ok ''abstract''"
    using namespace_new_valid [OF valid_abstract] .
  then obtain st1 where st1: "forgo_namespace sample_chain ?st admin_info [''abstract''] = Ok (st1, [])"
    and own: "r_ownership st1 = r_ownership sample_registry"
    by (simp add: forgo_namespace_def sample_chain_def forgo_one_def sample_registry_def
        empty_registry_def admin_info_def has_def entries_where_def load_err_def)
  have "q_cwo_assert sample_chain (r_ownership st1) (info_sender admin_info) = Ok ()"
    by (simp add: own sample_chain_def sample_registry_def admin_info_def)
  from approve_into_forgone_namespace [OF st1 _ _ this, of sample_module "App 7"] st1 show ?thesis
    by (auto simp: sample_module_def)
qed

section \<open>Claiming a namespace\<close>

text \<open>
  a successful claim is for a valid, so far unclaimed name and an account that holds none.
  With security enabled only the registry's admin can make it, otherwise only the owner of the
  account; a fee, if one is set and not zero, was sent exactly and goes on to the account with id
  zero. Nothing but the two namespace maps changes, and they gain exactly the claim.
\<close>

theorem claim_namespace_effect:
  assumes "claim_namespace ch st info a n = Ok (st', out)"
  shows "valid_name n \<and> load (namespaces st) n = None \<and> load (rev_namespaces st) (acc_key a) = None
    \<and> st' = st\<lparr>namespaces := save n a (namespaces st),
              rev_namespaces := save (acc_key a) n (rev_namespaces st)\<rparr>
    \<and> (\<exists>cfg. load_config st = Ok cfg
        \<and> (if security_enabled cfg
           then q_cwo_assert ch (r_ownership st) (info_sender info) = Ok ()
           else \<exists>acc ow. load (account_addresses st) (acc_key a) = Some acc
             \<and> q_ownership ch acc = Ok ow \<and> owner_address ch (own_owner ow) = Some (info_sender info))
        \<and> (case namespace_registration_fee cfg of
             None \<Rightarrow> out = []
           | Some fee \<Rightarrow> (amount fee = 0 \<or> info_funds info = [fee])
               \<and> (\<exists>adm. load (account_addresses st) (acc_key ABSTRACT_ACCOUNT_ID) = Some adm
                   \<and> out = [BankSend adm (info_funds info)])))"
proof -
  from assms obtain cfg where cfg: "load_config st = Ok cfg"
    and auth: "(if security_enabled cfg then assert_registry_owner ch st (info_sender info)
        else and_then (map_err RegStd (load_err (account_addresses st) (acc_key a))) (\<lambda>account.
          and_then (query_account_owner ch account a) (\<lambda>account_owner.
          if info_sender info \<noteq> account_owner
          then Err (AccountOwnerMismatch (info_sender info) account_owner) else Ok ()))) = Ok ()"
    unfolding claim_namespace_def and_then_Ok map_err_Ok by auto
  from assms obtain m where
    m: "claim_namespace_internal st (namespace_registration_fee cfg) info a n = Ok (st', m)"
      "out = (case m of Some m \<Rightarrow> [m] | None \<Rightarrow> [])"
    by (rule claim_namespace_internalE) (use cfg in auto)
  have auth': "if security_enabled cfg
      then q_cwo_assert ch (r_ownership st) (info_sender info) = Ok ()
      else \<exists>acc ow. load (account_addresses st) (acc_key a) = Some acc
        \<and> q_ownership ch acc = Ok ow \<and> owner_address ch (own_owner ow) = Some (info_sender info)"
    using auth
    by (auto simp: assert_registry_owner_def load_err_def query_account_owner_def
        query_ownership_def result_simps split: if_splits)
  have "case namespace_registration_fee cfg of None \<Rightarrow> out = []
      | Some fee \<Rightarrow> (amount fee = 0 \<or> info_funds info = [fee])
          \<and> (\<exists>adm. load (account_addresses st) (acc_key ABSTRACT_ACCOUNT_ID) = Some adm
              \<and> out = [BankSend adm (info_funds info)])"
    using m by (auto simp: claim_namespace_internal_Ok split: option.splits)
  then show ?thesis
    using m(1) cfg auth' unfolding claim_namespace_internal_Ok by blast
qed

theorem claim_namespace_effect_witness:
  "\<exists>st'. claim_namespace sample_chain sample_registry admin_info (account_id_local 1) ''my-ns''
       = Ok (st', [])
     \<and> st' = sample_registry\<lparr>
         namespaces := save ''my-ns'' (account_id_local 1) (namespaces sample_registry),
         rev_namespaces := save (acc_key (account_id_local 1)) ''my-ns''
           (rev_namespaces sample_registry)\<rparr>"
proof -
  have "valid_name ''my-ns''" by (simp add: valid_name_def is_ascii_lowercase_def)
  then have new: "namespace_new ''my-ns'' = Ok ''my-ns''" by (rule namespace_new_valid)
  obtain st' where
    st': "claim_namespace sample_chain sample_registry admin_info (account_id_local 1) ''my-ns''
      = Ok (st', [])"
    using new
    by (simp add: claim_namespace_def claim_namespace_internal_def load_config_def has_def
        sample_chain_def sample_registry_def empty_registry_def assert_registry_owner_def
        admin_info_def account_id_local_def ABSTRACT_ACCOUNT_ID_def acc_key_def)
  then show ?thesis using claim_namespace_effect [OF st'] by blast
qed

section \<open>Migrating twice\<close>

lemma save_namespaces_fields [simp]:
  "namespaces (fold save_namespace es t) = fold (\<lambda>e. save (fst e) (snd e)) es (namespaces t)"
  "namespaces_info (fold save_namespace es t) = namespaces_info t"
  "r_config (fold save_namespace es t) = r_config t" "r_cw2 (fold save_namespace es t) = r_cw2 t"
  by (induction es arbitrary: t) (auto simp: save_namespace_def)

text \<open>
  \<open>migrate\<close> writes the claims of the previous release (\<open>NAMESPACES_INFO\<close>, which it never
  clears) into the namespace maps again. Whatever has been forgone or claimed by someone else in
  the meantime, after any later migration the namespace belongs to the old holder again.
\<close>

theorem registry_migrate_restores_old_claims:
  assumes "registry_migrate ch ev st Migrate = Ok (st', out)"
    and "ordered (namespaces_info st)" and "load (namespaces_info st) n = Some a"
    and "n \<noteq> ABSTRACT_NAMESPACE"
  shows "load (namespaces st') n = Some a \<and> namespaces_info st' = namespaces_info st"
proof -
  let ?es = "namespaces_info st @ [(ABSTRACT_NAMESPACE, ABSTRACT_ACCOUNT_ID)]"
  have "namespaces st' = fold (\<lambda>e. save (fst e) (snd e)) ?es (namespaces st)
      \<and> namespaces_info st' = namespaces_info st"
    using assms(1)
    by (auto simp: result_simps Let_def namespace_new_Ok simp del: fold_append
        split: stored_config.split)
  moreover have "distinct (map fst (namespaces_info st))"
    using assms(2) by (simp add: ordered_def strict_sorted_iff)
  then have "load (fold (\<lambda>e. save (fst e) (snd e)) (namespaces_info st) (namespaces st)) n = Some a"
    using map_upds_distinct [of "namespaces_info st" n a "load (namespaces st)"]
      load_in_set [OF assms(3)]
    by (simp add: kv.look_put_all)
  then have "load (fold (\<lambda>e. save (fst e) (snd e)) ?es (namespaces st)) n = Some a"
    using assms(4) by simp
  ultimately show ?thesis by simp
qed

definition sample_old_registry :: registry_state where
  "sample_old_registry = sample_registry\<lparr>
     r_cw2 := Some \<lparr>cv_contract = REGISTRY, cv_version = ''0.25.0''\<rparr>,
     namespaces_info := [(''my-ns'', account_id_local 3)]\<rparr>"

theorem registry_migrate_restores_old_claims_witness:
  "\<exists>st'. load (namespaces sample_old_registry) ''my-ns'' = None
     \<and> registry_migrate sample_chain \<lparr>env_contract = ''registry'', env_block = block_5\<rparr>
         sample_old_registry Migrate = Ok (st', [])
     \<and> load (namespaces st') ''my-ns'' = Some (account_id_local 3)"
proof -
  let ?v = "\<lparr>major = 0, minor = 26, patch = 1, pre = [], build = []\<rparr>"
  have shown: "sv_show sample_semver ?v = CONTRACT_VERSION"
    by (simp add: sample_semver_def show_u32_def show_nat.simps digit_char_def CONTRACT_VERSION_def,
        code_simp)
  have parse: "sv_parse sample_semver CONTRACT_VERSION = Some ?v"
    by (simp add: version_simps CONTRACT_VERSION_def)
  have upgrade:
    "assert_contract_upgrade sample_semver (r_cw2 sample_old_registry) REGISTRY ?v = Ok ()"
    by (simp add: version_simps assert_contract_upgrade_def checked_sub_def sample_old_registry_def)
  have "namespace_new ABSTRACT_NAMESPACE = Ok ''abstract''"
    using namespace_new_valid [OF valid_abstract] by (simp add: ABSTRACT_NAMESPACE_def)
  moreover have "q_semver sample_chain = sample_semver" by (simp add: sample_chain_def)
  moreover have "r_config sample_old_registry
      = Some (Config \<lparr>security_enabled = True, namespace_registration_fee = None\<rparr>)"
    by (simp add: sample_old_registry_def sample_registry_def)
  ultimately obtain st' where
    st': "registry_migrate sample_chain \<lparr>env_contract = ''registry'', env_block = block_5\<rparr>
       sample_old_registry Migrate = Ok (st', [])"
    using parse shown upgrade by (simp add: Let_def del: fold_append)
  have "ordered (namespaces_info sample_old_registry)"
    "load (namespaces_info sample_old_registry) ''my-ns'' = Some (account_id_local 3)"
    "load (namespaces sample_old_registry) ''my-ns'' = None" "''my-ns'' \<noteq> ABSTRACT_NAMESPACE"
    by (simp_all add: sample_old_registry_def sample_registry_def ordered_def ABSTRACT_NAMESPACE_def)
  then show ?thesis
    using registry_migrate_restores_old_claims [OF st'] st' by blast
qed

end
