(* ===== verification/Registry_Queries.thy ===== *)
theory Registry_Queries
  imports Registry_Safety
begin

text \<open>
  Queries of the registry (\<open>native/registry/src/queries.rs\<close>) and the functions by which other
  contracts ask it (\<open>objects/registry.rs\<close>, \<open>RegistryContract\<close>). A raw query reads the stored state
  of the contract at the registry's address; a smart query runs the handler on that state, and an
  abort of the queried contract comes back as an error.

  Theorems: what "latest" returns, that the query does not panic on a reachable registry, and that
  pages add up to the whole list.
\<close>

section \<open>Handlers\<close>

definition DEFAULT_LIMIT :: nat where "DEFAULT_LIMIT = 10"
definition MAX_LIMIT :: nat where "MAX_LIMIT = 20"

definition page_limit :: "u8 option \<Rightarrow> nat" where
  "page_limit l = min (case l of Some n \<Rightarrow> unat n | None \<Rightarrow> DEFAULT_LIMIT) MAX_LIMIT"

record module_response =
  mr_module :: module
  mr_config :: module_configuration

definition handle_accounts_address_query ::
  "registry_state \<Rightarrow> account_id list \<Rightarrow> (addr list, std_error) result" where
  "handle_accounts_address_query st account_ids =
     try_map (\<lambda>a. map_err (\<lambda>_. StdMsg ''UnknownAccountId'')
       (load_err (account_addresses st) (acc_key a))) account_ids"

definition module_configuration_from_storage ::
  "registry_state \<Rightarrow> module_info \<Rightarrow> module_configuration" where
  "module_configuration_from_storage st module =
     (let mod_cfg = (case load (module_config st) (mod_key module) of
            Some c \<Rightarrow> c | None \<Rightarrow> default_module_configuration)
      in if mc_metadata mod_cfg = None
         then (case load (module_default_config st)
                 (default_key (mi_namespace module) (mi_name module)) of
             Some metadata \<Rightarrow> mod_cfg\<lparr>mc_metadata := Some metadata\<rparr>
           | None \<Rightarrow> mod_cfg)
         else mod_cfg)"

text \<open>\<open>skip_while\<close> over the versions in descending order: stop at the first release. A version that
  does not parse is a panic.\<close>

fun skip_prereleases ::
  "semver_lib \<Rightarrow> (module_key \<times> module_reference) list
   \<Rightarrow> ((module_key \<times> module_reference) list, std_error) result" where
  "skip_prereleases sv [] = Ok []"
| "skip_prereleases sv (e # es) =
     and_then (unwrap (sv_parse sv (module_version_display (key_version (fst e))))) (\<lambda>v.
     if pre v = [] then Ok (e # es) else skip_prereleases sv es)"

definition latest_version ::
  "semver_lib \<Rightarrow> registry_state \<Rightarrow> module_info
   \<Rightarrow> (module_version \<times> module_reference, std_error) result" where
  "latest_version sv st module =
     and_then (skip_prereleases sv
       (rev (module_versions (mi_namespace module) (mi_name module) (registered_modules st))))
       (\<lambda>versions.
     case versions of
       [] \<Rightarrow> Err (StdMsg ''ModuleNotFound'')
     | (k, mod_ref) # _ \<Rightarrow> Ok (key_version k, mod_ref))"

definition module_query_one ::
  "semver_lib \<Rightarrow> registry_state \<Rightarrow> module_info \<Rightarrow> (module_response, std_error) result" where
  "module_query_one sv st module =
     and_then (case mi_version module of
         Version _ \<Rightarrow> and_then (map_err (\<lambda>_. StdMsg ''ModuleNotFound'')
             (load_err (registered_modules st) (mod_key module))) (\<lambda>r. Ok (module, r))
       | Latest \<Rightarrow> and_then (latest_version sv st module) (\<lambda>(v, r).
             Ok (module\<lparr>mi_version := v\<rparr>, r))) (\<lambda>(module, mod_ref).
     Ok \<lparr>mr_module = \<lparr>m_info = module, m_reference = mod_ref\<rparr>,
         mr_config = module_configuration_from_storage st module\<rparr>)"

definition handle_modules_query ::
  "semver_lib \<Rightarrow> registry_state \<Rightarrow> module_info list \<Rightarrow> (module_response list, std_error) result" where
  "handle_modules_query sv st modules = try_map (module_query_one sv st) modules"

text \<open>Keys of \<open>ACCOUNT_ADDRESSES\<close> are read back from their bytes.\<close>

definition acc_key_bytes :: "account_key \<Rightarrow> string" where
  "acc_key_bytes k = joined_key (map sub_bytes (fst k) @ [be32 (snd k)])"

definition handle_account_list_query ::
  "registry_state \<Rightarrow> account_id option \<Rightarrow> u8 option
   \<Rightarrow> ((account_id \<times> addr) list, std_error) result" where
  "handle_account_list_query st start_after limit =
     try_map (\<lambda>(k, a). and_then (account_id_from_vec (acc_key_bytes k)) (\<lambda>i. Ok (i, a)))
       (take (page_limit limit)
         (entries_after (map_option acc_key start_after) (account_addresses st)))"

record module_filter =
  mf_namespace :: "string option"
  mf_name :: "string option"
  mf_version :: "string option"
  mf_status :: "module_status option"

definition filter_modules_by_namespace ::
  "module_info option \<Rightarrow> nat \<Rightarrow> namespace \<Rightarrow> string option \<Rightarrow> (module_key, module_reference) store
   \<Rightarrow> (module_info \<times> module_reference) list" where
  "filter_modules_by_namespace start_after limit namespace name mod_lib =
     (case name of
        Some name \<Rightarrow>
          map (\<lambda>(k, r). (key_module_info k, r)) (take limit
            (filter (\<lambda>(k, r). case start_after of None \<Rightarrow> True
                | Some i \<Rightarrow> module_version_display (mi_version i) < snd (snd k))
              (module_versions namespace name mod_lib)))
      | None \<Rightarrow>
          map (\<lambda>(k, r). (key_module_info k, r)) (take limit
            (filter (\<lambda>(k, r). case start_after of None \<Rightarrow> True
                | Some i \<Rightarrow> (SubKey (mi_name i), module_version_display (mi_version i)) < snd k)
              (entries_where (\<lambda>k. fst k = SubKey namespace) mod_lib))))"

definition handle_module_list_query ::
  "registry_state \<Rightarrow> module_info option \<Rightarrow> u8 option \<Rightarrow> module_filter option
   \<Rightarrow> (module_response list, registry_error) result" where
  "handle_module_list_query st start_after limit flt =
     (let limit = page_limit limit;
          flt = (case flt of Some f \<Rightarrow> f
            | None \<Rightarrow> \<lparr>mf_namespace = None, mf_name = None, mf_version = None, mf_status = None\<rparr>);
          mod_lib = (case mf_status flt of
              Some Registered \<Rightarrow> registered_modules st
            | Some Pending \<Rightarrow> pending_modules st
            | Some Yanked \<Rightarrow> yanked_modules st
            | None \<Rightarrow> registered_modules st)
      in and_then (case mf_namespace flt of
           Some ns \<Rightarrow>
             and_then (map_err RegAbstract (namespace_new ns)) (\<lambda>ns.
             Ok (filter_modules_by_namespace start_after limit ns (mf_name flt) mod_lib))
         | None \<Rightarrow>
             Ok (map (\<lambda>(k, r). (key_module_info k, r))
               (take limit (entries_after (map_option mod_key start_after) mod_lib)))) (\<lambda>modules.
         let modules = (case (mf_namespace flt, mf_name flt) of
               (None, Some name) \<Rightarrow> filter (\<lambda>(i, r). mi_name i = name) modules
             | _ \<Rightarrow> modules);
             modules = (case mf_version flt of
               Some v \<Rightarrow> filter (\<lambda>(i, r). mi_version i = Version v) modules
             | None \<Rightarrow> modules)
         in Ok (map (\<lambda>(i, r). \<lparr>mr_module = \<lparr>m_info = i, m_reference = r\<rparr>,
                  mr_config = module_configuration_from_storage st i\<rparr>) modules)))"

definition handle_namespaces_query ::
  "registry_state \<Rightarrow> account_id list \<Rightarrow> (namespace \<times> account_id) list" where
  "handle_namespaces_query st accounts =
     List.map_filter (\<lambda>a. map_option (\<lambda>n. (n, a)) (load (rev_namespaces st) (acc_key a))) accounts"

datatype namespace_response = Claimed account_id addr | Unclaimed

definition handle_namespace_query ::
  "registry_state \<Rightarrow> namespace \<Rightarrow> (namespace_response, std_error) result" where
  "handle_namespace_query st namespace =
     (case load (namespaces st) namespace of
        None \<Rightarrow> Ok Unclaimed
      | Some account_id \<Rightarrow>
          and_then (load_err (account_addresses st) (acc_key account_id)) (\<lambda>account.
          Ok (Claimed account_id account)))"

definition handle_namespace_list_query ::
  "registry_state \<Rightarrow> namespace option \<Rightarrow> u8 option \<Rightarrow> (namespace \<times> account_id) list" where
  "handle_namespace_list_query st start_after limit =
     take (page_limit limit) (entries_after start_after (namespaces st))"

text \<open>\<open>NamespaceResponse::unwrap\<close>\<close>

definition unwrap_namespace :: "namespace_response \<Rightarrow> (account_id \<times> addr, 'e) result" where
  "unwrap_namespace r = (case r of Claimed i a \<Rightarrow> Ok (i, a) | Unclaimed \<Rightarrow> Panic)"

section \<open>The registry seen by other contracts\<close>

definition registry_contract_new :: "chain \<Rightarrow> u64 \<Rightarrow> (addr, abstract_error) result" where
  "registry_contract_new ch code =
     and_then (registry_address ch code) (\<lambda>a. map_err AbsStd (q_humanize ch a))"

definition raw_query ::
  "chain \<Rightarrow> addr \<Rightarrow> string \<Rightarrow> (registry_state \<Rightarrow> 'a) \<Rightarrow> ('a, registry_query_error) result" where
  "raw_query ch reg method f =
     and_then (map_err (RqQueryFailed method) (q_registry ch reg)) (\<lambda>st. Ok (f st))"

definition smart_query ::
  "chain \<Rightarrow> addr \<Rightarrow> string \<Rightarrow> (registry_state \<Rightarrow> ('a, std_error) result)
   \<Rightarrow> ('a, registry_query_error) result" where
  "smart_query ch reg method f =
     and_then (map_err (RqQueryFailed method) (q_registry ch reg)) (\<lambda>st.
     case f st of
       Ok a \<Rightarrow> Ok a
     | Err e \<Rightarrow> Err (RqQueryFailed method e)
     | Panic \<Rightarrow> Err (RqQueryFailed method (StdMsg ''aborted'')))"

definition query_module_reference_raw ::
  "chain \<Rightarrow> addr \<Rightarrow> module_info \<Rightarrow> (module_reference, registry_query_error) result" where
  "query_module_reference_raw ch reg module_info =
     and_then (raw_query ch reg ''query_module_reference_raw''
       (\<lambda>st. load (registered_modules st) (mod_key module_info))) (\<lambda>r.
     ok_or (RqModuleNotFound (module_info_display module_info) reg) r)"

definition query_modules_configs ::
  "chain \<Rightarrow> addr \<Rightarrow> module_info list \<Rightarrow> (module_response list, registry_query_error) result" where
  "query_modules_configs ch reg infos =
     smart_query ch reg ''query_modules_configs''
       (\<lambda>st. handle_modules_query (q_semver ch) st infos)"

text \<open>\<open>swap_remove(0)\<close> panics on an empty vector.\<close>

definition first_of :: "'a list \<Rightarrow> ('a, 'e) result" where
  "first_of xs = (case xs of [] \<Rightarrow> Panic | x # _ \<Rightarrow> Ok x)"

definition registry_query_module ::
  "chain \<Rightarrow> addr \<Rightarrow> module_info \<Rightarrow> (module, registry_query_error) result" where
  "registry_query_module ch reg module_info =
     and_then (query_modules_configs ch reg [module_info]) (\<lambda>rs. map_ok mr_module (first_of rs))"

definition registry_query_config ::
  "chain \<Rightarrow> addr \<Rightarrow> module_info \<Rightarrow> (module_configuration, registry_query_error) result" where
  "registry_query_config ch reg module_info =
     and_then (query_modules_configs ch reg [module_info]) (\<lambda>rs. map_ok mr_config (first_of rs))"

definition query_namespace ::
  "chain \<Rightarrow> addr \<Rightarrow> namespace \<Rightarrow> (namespace_response, registry_query_error) result" where
  "query_namespace ch reg namespace =
     smart_query ch reg ''query_namespace'' (\<lambda>st. handle_namespace_query st namespace)"

definition query_namespace_raw ::
  "chain \<Rightarrow> addr \<Rightarrow> namespace \<Rightarrow> (account_id option, registry_query_error) result" where
  "query_namespace_raw ch reg namespace =
     raw_query ch reg ''query_namespace_raw'' (\<lambda>st. load (namespaces st) namespace)"

definition query_namespaces ::
  "chain \<Rightarrow> addr \<Rightarrow> account_id list \<Rightarrow> ((namespace \<times> account_id) list, registry_query_error) result" where
  "query_namespaces ch reg accounts =
     smart_query ch reg ''query_namespaces'' (\<lambda>st. Ok (handle_namespaces_query st accounts))"

definition query_standalone_info_raw ::
  "chain \<Rightarrow> addr \<Rightarrow> u64 \<Rightarrow> (module_info, registry_query_error) result" where
  "query_standalone_info_raw ch reg code =
     and_then (raw_query ch reg ''query_standalone_info_raw''
       (\<lambda>st. load (standalone_infos st) code)) (\<lambda>r. ok_or (RqStandaloneNotFound code reg) r)"

definition query_service_info_raw ::
  "chain \<Rightarrow> addr \<Rightarrow> addr \<Rightarrow> (module_info, registry_query_error) result" where
  "query_service_info_raw ch reg service_addr =
     and_then (raw_query ch reg ''query_service_info_raw''
       (\<lambda>st. load (service_infos st) service_addr)) (\<lambda>r. ok_or (RqServiceNotFound service_addr reg) r)"

definition unchecked_account_id :: "chain \<Rightarrow> addr \<Rightarrow> (account_id, registry_query_error) result" where
  "unchecked_account_id ch a =
     map_err (\<lambda>_. RqFailedToQueryAccountId a) (q_account_id ch a)"

definition registry_account ::
  "chain \<Rightarrow> addr \<Rightarrow> account_id \<Rightarrow> (addr, registry_query_error) result" where
  "registry_account ch reg aid =
     and_then (raw_query ch reg ''account'' (\<lambda>st. load (account_addresses st) (acc_key aid))) (\<lambda>r.
     ok_or (RqUnknownAccountId aid reg) r)"

definition registry_account_id ::
  "chain \<Rightarrow> addr \<Rightarrow> addr \<Rightarrow> (account_id, registry_query_error) result" where
  "registry_account_id ch reg a =
     and_then (unchecked_account_id ch a) (\<lambda>i.
     and_then (registry_account ch reg i) (\<lambda>account.
     if account \<noteq> a then Err (RqFailedToQueryAccountId a) else Ok i))"

definition namespace_registration_fee_query ::
  "chain \<Rightarrow> addr \<Rightarrow> (coin option, registry_query_error) result" where
  "namespace_registration_fee_query ch reg =
     and_then (map_err (RqQueryFailed ''namespace_registration_fee'') (q_registry ch reg)) (\<lambda>st.
     and_then (map_err (RqQueryFailed ''namespace_registration_fee'') (load_config st)) (\<lambda>config.
     Ok (namespace_registration_fee config)))"

definition assert_account :: "chain \<Rightarrow> addr \<Rightarrow> addr \<Rightarrow> (addr, registry_query_error) result" where
  "assert_account ch reg maybe_account =
     and_then (unchecked_account_id ch maybe_account) (\<lambda>i.
     and_then (registry_account ch reg i) (\<lambda>account.
     if account \<noteq> maybe_account then Err (RqNotAccount maybe_account i) else Ok account))"

section \<open>The latest version\<close>

definition is_release :: "semver_lib \<Rightarrow> module_key \<Rightarrow> bool" where
  "is_release sv k \<longleftrightarrow> (\<exists>v. sv_parse sv (snd (snd k)) = Some v \<and> pre v = [])"

lemma key_version_display [simp]: "module_version_display (key_version k) = snd (snd k)"
  by (simp add: key_version_def Let_def)

lemma skip_prereleases_filter:
  "skip_prereleases sv es = Ok fs \<Longrightarrow>
     (fs = [] \<longrightarrow> filter (\<lambda>e. is_release sv (fst e)) es = [])
     \<and> (\<forall>f gs. fs = f # gs \<longrightarrow> (\<exists>hs. filter (\<lambda>e. is_release sv (fst e)) es = f # hs))"
proof (induction es)
  case (Cons e es)
  then obtain v where v: "sv_parse sv (snd (snd (fst e))) = Some v" by (auto simp: result_simps)
  show ?case
  proof (cases "pre v = []")
    case True
    with v have "is_release sv (fst e)" by (simp add: is_release_def)
    with Cons.prems v True show ?thesis by auto
  next
    case False
    with v have "\<not> is_release sv (fst e)" by (simp add: is_release_def)
    with Cons.prems Cons.IH v False show ?thesis by simp
  qed
qed simp

lemma skip_prereleases_no_panic:
  "\<forall>e \<in> set es. sv_parse sv (snd (snd (fst e))) \<noteq> None \<Longrightarrow> \<exists>fs. skip_prereleases sv es = Ok fs"
proof (induction es)
  case (Cons e es)
  then obtain v fs where "sv_parse sv (snd (snd (fst e))) = Some v" "skip_prereleases sv es = Ok fs"
    by auto
  then show ?case by (cases "pre v = []") simp_all
qed simp

definition same_module :: "namespace \<Rightarrow> string \<Rightarrow> module_key \<Rightarrow> bool" where
  "same_module ns n k \<longleftrightarrow> fst k = SubKey ns \<and> fst (snd k) = SubKey n"

lemma module_versions_filter: "module_versions ns n m = filter (\<lambda>e. same_module ns n (fst e)) m"
  by (simp add: module_versions_def entries_where_def same_module_def)

lemma latest_version_last:
  assumes "latest_version sv st m = Ok (v, r)"
  shows "\<exists>k. v = key_version k \<and>
    last (filter (\<lambda>e. same_module (mi_namespace m) (mi_name m) (fst e) \<and> is_release sv (fst e))
      (registered_modules st)) = (k, r) \<and>
    filter (\<lambda>e. same_module (mi_namespace m) (mi_name m) (fst e) \<and> is_release sv (fst e))
      (registered_modules st) \<noteq> []"
proof -
  let ?vs = "module_versions (mi_namespace m) (mi_name m) (registered_modules st)"
  from assms obtain fs where fs: "skip_prereleases sv (rev ?vs) = Ok fs"
    and "(case fs of [] \<Rightarrow> Err (StdMsg ''ModuleNotFound'')
      | (k, mod_ref) # _ \<Rightarrow> Ok (key_version k, mod_ref)) = Ok (v, r)"
    by (auto simp: latest_version_def and_then_Ok)
  then obtain k gs where "fs = (k, r) # gs" and v: "v = key_version k"
    by (cases fs) (auto split: prod.splits)
  with fs have skip: "skip_prereleases sv (rev ?vs) = Ok ((k, r) # gs)" by simp
  from skip_prereleases_filter [OF skip] obtain hs where
    "filter (\<lambda>e. is_release sv (fst e)) (rev ?vs) = (k, r) # hs" by blast
  then have "rev (filter (\<lambda>e. is_release sv (fst e)) ?vs) = (k, r) # hs" by (simp add: rev_filter)
  then have "filter (\<lambda>e. is_release sv (fst e)) ?vs = rev hs @ [(k, r)]"
    by (metis rev.simps(2) rev_rev_ident)
  then have "filter (\<lambda>e. same_module (mi_namespace m) (mi_name m) (fst e) \<and> is_release sv (fst e))
      (registered_modules st) = rev hs @ [(k, r)]"
    by (simp add: module_versions_filter conj_commute)
  then show ?thesis using v by (intro exI [of _ k]) simp
qed

text \<open>The registry returns an entry of the store under the key of the resolved version.\<close>

lemma latest_version_stored:
  assumes "ordered (registered_modules st)" and "latest_version sv st m = Ok (v, r)"
  shows "load (registered_modules st) (mod_key (m\<lparr>mi_version := v\<rparr>)) = Some r"
    and "is_release sv (mod_key (m\<lparr>mi_version := v\<rparr>))"
    and "key_version (mod_key (m\<lparr>mi_version := v\<rparr>)) = v"
proof -
  let ?P = "\<lambda>e :: module_key \<times> module_reference.
    same_module (mi_namespace m) (mi_name m) (fst e) \<and> is_release sv (fst e)"
  from latest_version_last [OF assms(2)] obtain k where v: "v = key_version k"
    and last: "last (filter ?P (registered_modules st)) = (k, r)"
      "filter ?P (registered_modules st) \<noteq> []" by blast
  note great = okv.last_filter_greatest [OF assms(1) last(2,1)]
  have k: "mod_key (m\<lparr>mi_version := v\<rparr>) = k"
    using great(2) v
    by (cases k rule: prod_cases3) (simp add: mod_key_def same_module_def)
  with great(1,2) v show "load (registered_modules st) (mod_key (m\<lparr>mi_version := v\<rparr>)) = Some r"
    and "is_release sv (mod_key (m\<lparr>mi_version := v\<rparr>))"
    and "key_version (mod_key (m\<lparr>mi_version := v\<rparr>)) = v" by simp_all
qed

text \<open>Asking again for what was found finds the same.\<close>

lemma module_query_one_again:
  assumes "ordered (registered_modules st)" and "sv_parse sv ''latest'' = None"
    and "module_query_one sv st mi = Ok r"
  shows "module_query_one sv st (m_info (mr_module r)) = Ok r"
proof (cases "mi_version mi")
  case (Version v)
  with assms(3) show ?thesis by (auto simp: module_query_one_def result_simps)
next
  case Latest
  with assms(3) obtain v ref where lv: "latest_version sv st mi = Ok (v, ref)"
    and r: "r = \<lparr>mr_module = \<lparr>m_info = mi\<lparr>mi_version := v\<rparr>, m_reference = ref\<rparr>,
         mr_config = module_configuration_from_storage st (mi\<lparr>mi_version := v\<rparr>)\<rparr>"
    by (auto simp: module_query_one_def result_simps)
  note st = latest_version_stored [OF assms(1) lv]
  have "v \<noteq> Latest" using st(2) assms(2) by (auto simp: is_release_def mod_key_def)
  then obtain w where "v = Version w" by (cases v) auto
  with st(1) r show ?thesis by (simp add: module_query_one_def load_err_def)
qed

lemma query_modules_configs_again:
  assumes "q_registry ch reg = Ok st" and "ordered (registered_modules st)"
    and "sv_parse (q_semver ch) ''latest'' = None" and "query_modules_configs ch reg infos = Ok rs"
  shows "query_modules_configs ch reg (map (m_info \<circ> mr_module) rs) = Ok rs"
proof -
  have "try_map (module_query_one (q_semver ch) st) infos = Ok rs"
    using assms(1,4)
    by (cases "handle_modules_query (q_semver ch) st infos")
      (simp_all add: query_modules_configs_def smart_query_def handle_modules_query_def)
  then have "list_all2 (\<lambda>x y. module_query_one (q_semver ch) st x = Ok y) infos rs"
    by (simp add: try_map_Ok_iff)
  then have "list_all2 (\<lambda>x y. module_query_one (q_semver ch) st x = Ok y) (map (m_info \<circ> mr_module) rs) rs"
    by (induction rule: list_all2_induct) (use module_query_one_again [OF assms(2,3)] in auto)
  then show ?thesis using assms(1)
    by (simp add: query_modules_configs_def smart_query_def handle_modules_query_def
        try_map_Ok_iff [symmetric])
qed

text \<open>
  asked for the latest version of a module, the registry returns a registered release of it,
  and no registered release has a greater version text: "greatest" is in the order of the text, so
  \<open>1.9.0\<close> comes before \<open>1.10.0\<close> as latest.
\<close>

theorem latest_version_greatest_text:
  assumes "reachable registry_start registry_step st" and "latest_version sv st m = Ok (v, r)"
  shows "is_release sv (mod_key (m\<lparr>mi_version := v\<rparr>))
    \<and> load (registered_modules st) (mod_key (m\<lparr>mi_version := v\<rparr>)) = Some r
    \<and> (load (registered_modules st) (mod_key (m\<lparr>mi_version := w\<rparr>)) \<noteq> None
       \<and> is_release sv (mod_key (m\<lparr>mi_version := w\<rparr>))
       \<longrightarrow> module_version_display w \<le> module_version_display v)"
proof -
  let ?P = "\<lambda>e :: module_key \<times> module_reference.
    same_module (mi_namespace m) (mi_name m) (fst e) \<and> is_release sv (fst e)"
  have ord: "ordered (registered_modules st)"
    using ord.holds [OF assms(1)] by (simp add: ordered_modules_def)
  from latest_version_last [OF assms(2)] obtain k where v: "v = key_version k"
    and last: "last (filter ?P (registered_modules st)) = (k, r)"
      "filter ?P (registered_modules st) \<noteq> []" by blast
  note great = okv.last_filter_greatest [OF ord last(2,1)]
  have k: "mod_key (m\<lparr>mi_version := v\<rparr>) = k"
    using great(2) v
    by (cases k rule: prod_cases3) (simp add: mod_key_def same_module_def)
  have "module_version_display w \<le> module_version_display v"
    if "load (registered_modules st) (mod_key (m\<lparr>mi_version := w\<rparr>)) = Some r'"
      and "is_release sv (mod_key (m\<lparr>mi_version := w\<rparr>))" for r'
  proof -
    have "?P (mod_key (m\<lparr>mi_version := w\<rparr>), r')"
      using that(2) by (simp add: mod_key_def same_module_def)
    then have "mod_key (m\<lparr>mi_version := w\<rparr>) \<le> mod_key (m\<lparr>mi_version := v\<rparr>)"
      using great(3) [OF that(1)] k by simp
    then show ?thesis by (simp add: mod_key_def less_eq_prod_def)
  qed
  then show ?thesis using great(1,2) k by auto
qed

definition dex :: "string \<Rightarrow> module_info" where
  "dex v = \<lparr>mi_namespace = ''abstract'', mi_name = ''dex'', mi_version = Version v\<rparr>"

definition two_versions :: "(module_key, module_reference) store" where
  "two_versions = [(mod_key (dex ''1.10.0''), App 8), (mod_key (dex ''1.9.0''), App 7)]"

lemma dex_valid:
  assumes "v = ''1.9.0'' \<or> v = ''1.10.0''"
  shows "module_info_validate sample_semver (dex v) = Ok ()"
    and "assert_version_variant sample_semver (dex v) = Ok ()"
    and "\<exists>w. sv_parse sample_semver v = Some w \<and> pre w = []"
proof -
  show parse: "\<exists>w. sv_parse sample_semver v = Some w \<and> pre w = []"
    using assms by (auto simp: version_simps)
  have "valid_name ''dex''" by (simp add: valid_name_def is_ascii_lowercase_def)
  then show "module_info_validate sample_semver (dex v) = Ok ()"
    "assert_version_variant sample_semver (dex v) = Ok ()"
    using parse valid_abstract
    by (auto simp: module_info_validate_def namespace_validate_def dex_def
        module_validate_name_Ok [THEN iffD2] assert_version_variant_def)
qed

lemma dex_keys:
  "mod_key (dex ''1.10.0'') < mod_key (dex ''1.9.0'')"
  by (simp add: mod_key_def dex_def less_prod_def)

lemma dex_checks:
  assumes "v = ''1.9.0'' \<or> v = ''1.10.0''" and "\<not> has (pending_modules st) (mod_key (dex v))"
    and "registered_modules st = []" "yanked_modules st = []"
    and "r_ownership st = r_ownership sample_registry"
  shows "propose_checks sample_chain cfg ''admin'' st (dex v) (App c) = Ok ()"
proof -
  have "q_semver sample_chain = sample_semver" by (simp add: sample_chain_def)
  moreover have "assert_registry_owner sample_chain st ''admin'' = Ok ()"
    by (simp add: assert_registry_owner_def assms(5) sample_registry_def sample_chain_def)
  moreover have "mi_namespace (dex v) = ABSTRACT_NAMESPACE"
    by (simp add: dex_def ABSTRACT_NAMESPACE_def)
  ultimately show ?thesis
    using assms(2-4) dex_valid [OF assms(1)]
    by (simp add: propose_checks_def has_def module_reference_validate_def)
qed

lemma two_versions_reachable:
  "reachable registry_start registry_step (sample_registry\<lparr>registered_modules := two_versions\<rparr>)"
proof -
  let ?st1 = "sample_registry\<lparr>pending_modules := two_versions\<rparr>"
  let ?st2 = "sample_registry\<lparr>registered_modules := two_versions\<rparr>"
  let ?env = "\<lparr>env_contract = ''registry'', env_block = block_5\<rparr>"
  have empty: "pending_modules sample_registry = []" "registered_modules sample_registry = []"
    "yanked_modules sample_registry = []"
    by (simp_all add: sample_registry_def empty_registry_def)
  have neq: "mod_key (dex ''1.9.0'') \<noteq> mod_key (dex ''1.10.0'')"
    "\<not> mod_key (dex ''1.9.0'') < mod_key (dex ''1.10.0'')"
    using dex_keys by auto
  have cfg: "load_config sample_registry
      = Ok \<lparr>security_enabled = True, namespace_registration_fee = None\<rparr>"
    by (simp add: load_config_def sample_registry_def)
  have "registry_execute sample_chain ?env sample_registry admin_info
      (ProposeModules [(dex ''1.9.0'', App 7), (dex ''1.10.0'', App 8)]) = Ok (?st1, [])"
    using dex_checks neq dex_keys empty cfg
    by (simp add: propose_modules_def propose_one_def admin_info_def has_def two_versions_def)
  then have "registry_step sample_registry ?st1" by (rule registry_step.exec)
  moreover have "registry_execute sample_chain ?env ?st1 admin_info
      (ApproveOrRejectModules [dex ''1.9.0'', dex ''1.10.0''] []) = Ok (?st2, [])"
    using neq dex_keys empty
    by (simp add: approve_or_reject_modules_def approve_modules_def approve_one_def two_versions_def
        admin_info_def assert_registry_owner_def Let_def remove_def load_def)
      (simp add: sample_chain_def sample_registry_def empty_registry_def)
  then have "registry_step ?st1 ?st2" by (rule registry_step.exec)
  ultimately show ?thesis
    using sample_registry_reachable by (blast intro: reach_step)
qed

theorem latest_version_greatest_text_witness:
  "latest_version sample_semver (sample_registry\<lparr>registered_modules := two_versions\<rparr>)
     ((dex ''1.9.0'')\<lparr>mi_version := Latest\<rparr>) = Ok (Version ''1.9.0'', App 7)
   \<and> ''1.10.0'' \<le> ''1.9.0''"
proof -
  let ?st = "sample_registry\<lparr>registered_modules := two_versions\<rparr>"
  let ?m = "(dex ''1.9.0'')\<lparr>mi_version := Latest\<rparr>"
  have versions: "module_versions (mi_namespace ?m) (mi_name ?m) two_versions = two_versions"
    by (simp add: module_versions_def entries_where_def two_versions_def mod_key_def dex_def)
  have key: "snd (snd (mod_key (dex v))) = v" "key_version (mod_key (dex ''1.9.0'')) = Version ''1.9.0''"
    for v by (simp_all add: mod_key_def dex_def key_version_def)
  have run: "latest_version sample_semver ?st ?m = Ok (Version ''1.9.0'', App 7)"
    using dex_valid(3) [of "''1.9.0''"] versions key
    by (auto simp: latest_version_def two_versions_def)
  have "is_release sample_semver (mod_key (?m\<lparr>mi_version := Version ''1.10.0''\<rparr>))"
    using dex_valid(3) [of "''1.10.0''"] by (simp add: is_release_def mod_key_def)
  moreover have "load two_versions (mod_key (?m\<lparr>mi_version := Version ''1.10.0''\<rparr>)) \<noteq> None"
    by (simp add: two_versions_def load_def dex_def)
  ultimately show ?thesis
    using latest_version_greatest_text [OF two_versions_reachable run, of "Version ''1.10.0''"] run
    by simp
qed

text \<open>
  on a registry whose modules were all proposed under the same version rules, a modules query
  never aborts: every stored version parses, so the \<open>unwrap\<close> in the search for the latest release
  is safe.
\<close>

theorem handle_modules_query_no_panic:
  assumes "reachable registry_start (step_with sv) st"
  shows "handle_modules_query sv st infos \<noteq> Panic"
proof -
  have ok: "keys_ok sv st" using keys.holds [OF assms] .
  have "latest_version sv st m \<noteq> Panic" for m
  proof -
    let ?vs = "rev (module_versions (mi_namespace m) (mi_name m) (registered_modules st))"
    have "sv_parse sv (snd (snd (fst e))) \<noteq> None" if "e \<in> set ?vs" for e
    proof -
      have "e \<in> set (registered_modules st)" using that by (simp add: module_versions_filter)
      then have "fst e \<in> all_keys st" using load_member unfolding all_keys_def by blast
      then show ?thesis using ok unfolding keys_ok_def key_ok_def by blast
    qed
    then obtain fs where "skip_prereleases sv ?vs = Ok fs"
      using skip_prereleases_no_panic [of ?vs sv] by blast
    then show ?thesis by (simp add: latest_version_def split: list.split prod.split)
  qed
  then have one: "module_query_one sv st m \<noteq> Panic" for m
    by (cases "mi_version m"; cases "latest_version sv st m";
        cases "load_err (registered_modules st) (mod_key m)")
      (auto simp: module_query_one_def load_err_def ok_or_def split: option.splits)
  show ?thesis
    unfolding handle_modules_query_def
  proof (induction infos)
    case (Cons m ms)
    then show ?case
      using one [of m]
      by (cases "module_query_one sv st m"; cases "try_map (module_query_one sv st) ms") simp_all
  qed simp
qed

theorem handle_modules_query_no_panic_witness:
  "handle_modules_query sample_semver sample_registry [sample_module] \<noteq> Panic"
  by (rule handle_modules_query_no_panic, rule reach_start, rule sample_registry_start)

section \<open>Pages\<close>

lemma entries_after_last:
  assumes "ordered m" and "es = entries_after b m" and "0 < n" and "es \<noteq> []"
  shows "entries_after (Some (fst (last (take n es)))) m = drop n es"
proof -
  define k where "k = fst (last (take n es))"
  have ord: "sorted_wrt (<) (map fst es)"
    using assms(1,2) ordered_filter [of m]
    by (simp add: entries_after_def ordered_def split: option.splits)
  have nonempty: "take n es \<noteq> []" using assms(3,4) by simp
  have "last (take n es) \<in> set es" using nonempty last_in_set in_set_takeD by metis
  then have "case b of None \<Rightarrow> True | Some x \<Rightarrow> x < k"
    using assms(2) by (auto simp: entries_after_def k_def split: option.splits)
  then have "entries_after (Some k) m = filter (\<lambda>e. k < fst e) es"
    unfolding assms(2) entries_after_def
    by (auto split: option.splits intro!: filter_cong dest: order.strict_trans)
  also have "es = take n es @ drop n es" by simp
  also have "filter (\<lambda>e. k < fst e) (take n es @ drop n es) = drop n es"
  proof -
    have sw: "sorted_wrt (<) (map fst (take n es @ drop n es))" using ord by simp
    have "\<not> k < fst e" if "e \<in> set (take n es)" for e
    proof -
      have "take n es = butlast (take n es) @ [last (take n es)]" using nonempty by simp
      then have "e = last (take n es) \<or> e \<in> set (butlast (take n es))"
        using that by (metis Un_iff empty_iff insertE list.set(1) list.simps(15) set_append)
      moreover have "fst e' < k" if "e' \<in> set (butlast (take n es))" for e'
      proof -
        have "sorted_wrt (<) (map fst (butlast (take n es) @ [last (take n es)]))"
          using sorted_wrt_take [OF ord, of n] nonempty by (simp add: take_map)
        then show ?thesis using that by (simp add: sorted_wrt_append k_def)
      qed
      ultimately show ?thesis unfolding k_def by (metis less_asym less_irrefl)
    qed
    moreover have "k < fst e" if "e \<in> set (drop n es)" for e
    proof -
      have "k \<in> fst ` set (take n es)" using nonempty unfolding k_def by simp
      then show ?thesis using sw that unfolding map_append sorted_wrt_append by force
    qed
    ultimately have "filter (\<lambda>e. k < fst e) (take n es) = []"
      and "filter (\<lambda>e. k < fst e) (drop n es) = drop n es"
      by (simp_all add: filter_empty_conv filter_id_conv)
    then show ?thesis unfolding filter_append by simp
  qed
  finally show ?thesis by (simp add: k_def)
qed

text \<open>
  listing namespaces page by page reaches every claim: the page that starts after the last
  entry of a page continues exactly where that page stopped, so nothing is skipped or repeated.
\<close>

theorem namespace_list_pages:
  assumes "ordered (namespaces st)"
    and "handle_namespace_list_query st start_after limit = page" and "page \<noteq> []"
  shows "page @ entries_after (Some (fst (last page))) (namespaces st)
    = entries_after start_after (namespaces st)"
proof -
  let ?es = "entries_after start_after (namespaces st)"
  have page: "page = take (page_limit limit) ?es"
    using assms(2) by (simp add: handle_namespace_list_query_def)
  with assms(3) have "0 < page_limit limit" and "?es \<noteq> []" by auto
  from entries_after_last [OF assms(1) refl this] show ?thesis by (simp add: page)
qed

theorem namespace_list_pages_witness:
  "handle_namespace_list_query sample_registry None (Some 1)
     @ entries_after (Some ''abstract'') (namespaces sample_registry)
   = entries_after None (namespaces sample_registry)"
proof -
  have page: "handle_namespace_list_query sample_registry None (Some 1)
      = [(''abstract'', ABSTRACT_ACCOUNT_ID)]"
    by (simp add: handle_namespace_list_query_def page_limit_def MAX_LIMIT_def entries_after_def
        sample_registry_def)
  have "ordered (namespaces sample_registry)" by (simp add: sample_registry_def ordered_def)
  from namespace_list_pages [OF this page] show ?thesis by (simp add: page)
qed

end
