(* ===== verification/Module_Factory.thy ===== *)
theory Module_Factory
  imports Registry_Queries
begin

text \<open>
  The module factory (\<open>native/module-factory/src\<close>): it instantiates the modules an account installs
  and forwards the fees. Its stored state is the account modules are being installed for, the owner
  and the \<open>cw2\<close> item.

  What the factory and the account use of third-party crates is the record \<open>platform\<close>:
  \<open>cosmwasm_std::Coins\<close>, the checksum of a code, \<open>instantiate2_address\<close>, the parser of JSON values,
  SHA-256, and two smart queries to contracts outside this model (authorized addresses of an
  adapter, actions of the ICA client).

  Theorems: what must be paid is what the simulation says, who gets the fees and who is the admin
  of the new modules, and the panic on a fee for an unclaimed namespace.
\<close>

section \<open>Code outside the repository\<close>

record 'c coins_lib =
  coins_default :: 'c
  coins_add :: "'c \<Rightarrow> coin \<Rightarrow> ('c, std_error) result"
  coins_sub :: "'c \<Rightarrow> coin \<Rightarrow> ('c, std_error) result"
  coins_try_from :: "coin list \<Rightarrow> ('c, std_error) result"
  coins_into_vec :: "'c \<Rightarrow> coin list"

record 'c platform =
  p_coins :: "'c coins_lib"
  p_checksum :: "u64 \<Rightarrow> (binary, std_error) result"
  p_instantiate2 :: "binary \<Rightarrow> string \<Rightarrow> binary \<Rightarrow> (string, unit) result"
  p_from_json :: "binary \<Rightarrow> (binary, std_error) result"
  p_sha256 :: "string \<Rightarrow> binary"
  p_authorized_addresses :: "addr \<Rightarrow> addr \<Rightarrow> (addr list, std_error) result"
  p_ica_action :: "addr \<Rightarrow> binary \<Rightarrow> (cosmos_msg list, std_error) result"

section \<open>State and errors\<close>

record module_factory_state =
  current_base :: "addr option"
  mf_ownership :: "cw_ownership option"
  mf_cw2 :: "contract_version option"

datatype module_factory_error =
    MfStd std_error
  | MfAbstract abstract_error
  | MfOwnership cw_ownership_error
  | MfInstantiate2AddressError
  | MfRegistryError registry_query_error
  | MfModuleNotInstallable

type_synonym 'a mf_result = "('a, module_factory_error) result"

datatype module_factory_execute_msg =
    MfInstallModules "module_install_config list" binary
  | MfUpdateOwnership cw_action

datatype module_factory_migrate_msg = MfMigrateInstantiate string | MfMigrate

definition module_factory_contract_new :: "chain \<Rightarrow> u64 \<Rightarrow> (addr, abstract_error) result" where
  "module_factory_contract_new ch code =
     and_then (module_factory_address ch code) (\<lambda>a. map_err AbsStd (q_humanize ch a))"

section \<open>Installing modules\<close>

definition instantiate2_contract ::
  "'c platform \<Rightarrow> string \<Rightarrow> u64 \<Rightarrow> u64 \<Rightarrow> payload \<Rightarrow> binary \<Rightarrow> addr option \<Rightarrow> coin list \<Rightarrow> module_info
   \<Rightarrow> (string \<times> cosmos_msg) mf_result" where
  "instantiate2_contract pf creator_addr block_height code_id init_msg salt admin fnds module_info =
     and_then (map_err MfStd (p_checksum pf code_id)) (\<lambda>checksum.
     and_then (map_err (\<lambda>_. MfInstantiate2AddressError)
       (p_instantiate2 pf checksum creator_addr salt)) (\<lambda>a.
     Ok (a, WasmInstantiate2 code_id fnds admin
       (''Module: '' @ module_info_display module_info @ '', Height ''
         @ show_nat (unat block_height)) init_msg salt)))"

text \<open>What the loop over the modules has collected so far.\<close>

record 'c creation =
  cr_fee_msgs :: "cosmos_msg list"
  cr_sum_of_monetization :: 'c
  cr_instantiate_msgs :: "cosmos_msg list"
  cr_modules_to_register :: "addr list"
  cr_at_least_one_standalone :: bool

definition charge_install ::
  "'c platform \<Rightarrow> chain \<Rightarrow> addr \<Rightarrow> module_response \<Rightarrow> 'c creation \<Rightarrow> 'c creation mf_result" where
  "charge_install pf ch reg response cr =
     and_then (case mc_monetization (mr_config response) of
         InstallFee fee \<Rightarrow>
           and_then (map_err MfStd (coins_add (p_coins pf) (cr_sum_of_monetization cr) fee)) (\<lambda>total.
           and_then (map_err MfRegistryError
             (query_namespace ch reg (mi_namespace (m_info (mr_module response))))) (\<lambda>ns.
           and_then (unwrap_namespace ns) (\<lambda>(_, namespace_account).
           Ok (cr\<lparr>cr_sum_of_monetization := total,
                  cr_fee_msgs := cr_fee_msgs cr @ [BankSend namespace_account [fee]]\<rparr>))))
       | NoMonetization \<Rightarrow> Ok cr) (\<lambda>cr.
     and_then (map_err MfStd (try_fold (coins_add (p_coins pf)) (cr_sum_of_monetization cr)
       (mc_instantiation_funds (mr_config response)))) (\<lambda>total.
     Ok (cr\<lparr>cr_sum_of_monetization := total\<rparr>)))"

definition create_contract ::
  "'c platform \<Rightarrow> chain \<Rightarrow> addr \<Rightarrow> string \<Rightarrow> u64 \<Rightarrow> binary \<Rightarrow> u64 \<Rightarrow> payload \<Rightarrow> module_response
   \<Rightarrow> 'c creation \<Rightarrow> 'c creation mf_result" where
  "create_contract pf ch account canonical block_height salt code_id init_msg response cr =
     and_then (instantiate2_contract pf canonical block_height code_id init_msg salt (Some account)
       (mc_instantiation_funds (mr_config response)) (m_info (mr_module response))) (\<lambda>(a, init_msg).
     and_then (map_err MfStd (q_humanize ch a)) (\<lambda>module_address.
     Ok (cr\<lparr>cr_modules_to_register := cr_modules_to_register cr @ [module_address],
            cr_instantiate_msgs := cr_instantiate_msgs cr @ [init_msg]\<rparr>)))"

definition create_one ::
  "'c platform \<Rightarrow> chain \<Rightarrow> addr \<Rightarrow> addr \<Rightarrow> string \<Rightarrow> u64 \<Rightarrow> binary \<Rightarrow> 'c creation
   \<Rightarrow> binary option \<times> module_response \<Rightarrow> 'c creation mf_result" where
  "create_one pf ch reg account canonical block_height salt cr x =
     (case x of (owner_init_msg, response) \<Rightarrow>
     and_then (charge_install pf ch reg response cr) (\<lambda>cr.
     case m_reference (mr_module response) of
       App code_id \<Rightarrow>
         and_then (unwrap owner_init_msg) (\<lambda>init_msg.
         and_then (map_err MfStd (p_from_json pf init_msg)) (\<lambda>init_msg_as_value.
         create_contract pf ch account canonical block_height salt code_id
           (AppInit account init_msg_as_value) response cr))
     | Adapter a \<Rightarrow> Ok (cr\<lparr>cr_modules_to_register := cr_modules_to_register cr @ [a]\<rparr>)
     | Service a \<Rightarrow> Ok (cr\<lparr>cr_modules_to_register := cr_modules_to_register cr @ [a]\<rparr>)
     | Standalone code_id \<Rightarrow>
         and_then (unwrap owner_init_msg) (\<lambda>init_msg.
         create_contract pf ch account canonical block_height salt code_id (Raw init_msg) response
           (cr\<lparr>cr_at_least_one_standalone := True\<rparr>))
     | Native native_address \<Rightarrow>
         (if module_id (m_info (mr_module response)) = IBC_CLIENT
          then Ok (cr\<lparr>cr_modules_to_register := cr_modules_to_register cr @ [native_address]\<rparr>)
          else Err MfModuleNotInstallable)
     | _ \<Rightarrow> Err MfModuleNotInstallable))"

definition execute_create_modules ::
  "'c platform \<Rightarrow> chain \<Rightarrow> env \<Rightarrow> module_factory_state \<Rightarrow> message_info \<Rightarrow> module_install_config list
   \<Rightarrow> binary \<Rightarrow> (module_factory_state \<times> cosmos_msg list) mf_result" where
  "execute_create_modules pf ch ev st info modules salt =
     and_then (map_err MfStd (abstract_code_id ch (env_contract ev))) (\<lambda>abstract_code_id.
     and_then (map_err MfAbstract (registry_contract_new ch abstract_code_id)) (\<lambda>registry.
     and_then (map_err MfRegistryError (assert_account ch registry (info_sender info))) (\<lambda>account.
     and_then (map_err MfRegistryError
       (query_modules_configs ch registry (map mic_module modules))) (\<lambda>modules_responses.
     and_then (map_err MfStd (q_canonicalize ch (env_contract ev))) (\<lambda>canonical_contract_addr.
     and_then (try_fold
       (create_one pf ch registry account canonical_contract_addr (height (env_block ev)) salt)
       \<lparr>cr_fee_msgs = [], cr_sum_of_monetization = coins_default (p_coins pf),
        cr_instantiate_msgs = [], cr_modules_to_register = [], cr_at_least_one_standalone = False\<rparr>
       (zip (map mic_init_msg modules) modules_responses)) (\<lambda>cr.
     let st = (if cr_at_least_one_standalone cr then st\<lparr>current_base := Some account\<rparr> else st);
         sum_of_monetization = coins_into_vec (p_coins pf) (cr_sum_of_monetization cr)
     in if sum_of_monetization \<noteq> info_funds info
        then Err (MfAbstract (FeeError sum_of_monetization (info_funds info)))
        else Ok (st, cr_fee_msgs cr @ cr_instantiate_msgs cr)))))))"

section \<open>Entry points\<close>

definition module_factory_instantiate ::
  "chain \<Rightarrow> module_factory_state \<Rightarrow> string \<Rightarrow> (module_factory_state \<times> cosmos_msg list) mf_result" where
  "module_factory_instantiate ch st admin =
     (let st = st\<lparr>mf_cw2 := Some \<lparr>cv_contract = MODULE_FACTORY, cv_version = CONTRACT_VERSION\<rparr>\<rparr>
      in and_then (map_err MfStd (q_cwo_initialize ch (Some admin))) (\<lambda>ow.
         Ok (st\<lparr>mf_ownership := Some ow\<rparr>, [])))"

fun module_factory_execute ::
  "'c platform \<Rightarrow> chain \<Rightarrow> env \<Rightarrow> module_factory_state \<Rightarrow> message_info \<Rightarrow> module_factory_execute_msg
   \<Rightarrow> (module_factory_state \<times> cosmos_msg list) mf_result" where
  "module_factory_execute pf ch ev st info (MfInstallModules modules salt) =
     execute_create_modules pf ch ev st info modules salt"
| "module_factory_execute pf ch ev st info (MfUpdateOwnership action) =
     and_then (map_err MfOwnership
       (q_cwo_update ch (mf_ownership st) (env_block ev) (info_sender info) action)) (\<lambda>ow.
     Ok (st\<lparr>mf_ownership := Some ow\<rparr>, []))"

fun module_factory_migrate ::
  "chain \<Rightarrow> env \<Rightarrow> module_factory_state \<Rightarrow> module_factory_migrate_msg
   \<Rightarrow> (module_factory_state \<times> cosmos_msg list) mf_result" where
  "module_factory_migrate ch ev st (MfMigrateInstantiate admin) =
     migrate_instantiate ch ev (mf_cw2 st) MfStd (\<lambda>info. module_factory_instantiate ch st admin)"
| "module_factory_migrate ch ev st MfMigrate =
     and_then (unwrap (sv_parse (q_semver ch) CONTRACT_VERSION)) (\<lambda>version.
     and_then (map_err MfAbstract
       (assert_contract_upgrade (q_semver ch) (mf_cw2 st) MODULE_FACTORY version)) (\<lambda>_.
     Ok (st\<lparr>mf_cw2 := Some \<lparr>cv_contract = MODULE_FACTORY, cv_version = CONTRACT_VERSION\<rparr>\<rparr>, [])))"

section \<open>Queries\<close>

record module_factory_config =
  mfc_ans_host_address :: addr
  mfc_registry_address :: addr

text \<open>\<open>StdError::msg(e.to_string())\<close>: only the kind of the error is kept here.\<close>

definition module_factory_query_config ::
  "chain \<Rightarrow> env \<Rightarrow> (module_factory_config, std_error) result" where
  "module_factory_query_config ch ev =
     and_then (abstract_code_id ch (env_contract ev)) (\<lambda>code.
     and_then (map_err (\<lambda>_. StdMsg ''registry'') (registry_contract_new ch code)) (\<lambda>registry.
     and_then (map_err (\<lambda>_. StdMsg ''ans_host'')
       (and_then (ans_address ch code) (\<lambda>a. map_err AbsStd (q_humanize ch a)))) (\<lambda>ans_host.
     Ok \<lparr>mfc_ans_host_address = ans_host, mfc_registry_address = registry\<rparr>)))"

record simulate_response =
  total_required_funds :: "coin list"
  monetization_funds :: "(string \<times> coin) list"
  initialization_funds :: "(string \<times> coin list) list"

record 'c simulation =
  sim_coins :: 'c
  sim_install_funds :: "(string \<times> coin) list"
  sim_init_funds :: "(string \<times> coin list) list"

definition simulate_one ::
  "'c platform \<Rightarrow> 'c simulation \<Rightarrow> module_response \<Rightarrow> ('c simulation, std_error) result" where
  "simulate_one pf sim response =
     (let mid = module_id (m_info (mr_module response));
          init_fnds = mc_instantiation_funds (mr_config response)
      in and_then (case mc_monetization (mr_config response) of
          InstallFee fee \<Rightarrow>
            and_then (coins_add (p_coins pf) (sim_coins sim) fee) (\<lambda>cs.
            Ok (sim\<lparr>sim_coins := cs, sim_install_funds := sim_install_funds sim @ [(mid, fee)]\<rparr>))
        | NoMonetization \<Rightarrow> Ok sim) (\<lambda>sim.
      if init_fnds \<noteq> []
      then and_then (try_fold (coins_add (p_coins pf)) (sim_coins sim) init_fnds) (\<lambda>cs.
        Ok (sim\<lparr>sim_coins := cs, sim_init_funds := sim_init_funds sim @ [(mid, init_fnds)]\<rparr>))
      else Ok sim))"

definition query_simulate_install_modules ::
  "'c platform \<Rightarrow> chain \<Rightarrow> addr \<Rightarrow> module_info list \<Rightarrow> (simulate_response, std_error) result" where
  "query_simulate_install_modules pf ch self modules =
     and_then (abstract_code_id ch self) (\<lambda>code.
     and_then (map_err (\<lambda>_. StdMsg ''registry'') (registry_contract_new ch code)) (\<lambda>registry.
     and_then (map_err (\<lambda>_. StdMsg ''modules'')
       (query_modules_configs ch registry modules)) (\<lambda>module_responses.
     and_then (try_fold (simulate_one pf)
       \<lparr>sim_coins = coins_default (p_coins pf), sim_install_funds = [], sim_init_funds = []\<rparr>
       module_responses) (\<lambda>sim.
     Ok \<lparr>total_required_funds = coins_into_vec (p_coins pf) (sim_coins sim),
         monetization_funds = sim_install_funds sim,
         initialization_funds = sim_init_funds sim\<rparr>))))"

lemmas module_factory_defs =
  module_factory_contract_new_def instantiate2_contract_def charge_install_def create_contract_def
  create_one_def execute_create_modules_def simulate_one_def query_simulate_install_modules_def

section \<open>What an installation costs\<close>

lemma smart_query_Ok [result_simps]:
  "smart_query ch reg mtd f = Ok a \<longleftrightarrow> (\<exists>st. q_registry ch reg = Ok st \<and> f st = Ok a)"
proof (cases "q_registry ch reg")
  case (Ok st)
  then show ?thesis by (cases "f st") (simp_all add: smart_query_def)
qed (simp_all add: smart_query_def)

lemma query_modules_configs_length:
  "query_modules_configs ch reg infos = Ok rs \<Longrightarrow> length rs = length infos"
  by (auto simp: query_modules_configs_def smart_query_Ok handle_modules_query_def
      dest: try_map_Ok_length)

lemma create_contract_keeps:
  assumes "create_contract pf ch account canonical h salt code msg response cr = Ok cr'"
  shows "cr_sum_of_monetization cr' = cr_sum_of_monetization cr" "cr_fee_msgs cr' = cr_fee_msgs cr"
  using assms by (auto simp: create_contract_def result_simps)

text \<open>One module costs the same in the simulation and in the installation.\<close>

lemma charge_install_simulates:
  assumes "charge_install pf ch reg response cr = Ok cr'"
    and "sim_coins sim = cr_sum_of_monetization cr"
  shows "\<exists>sim'. simulate_one pf sim response = Ok sim' \<and> sim_coins sim' = cr_sum_of_monetization cr'"
proof -
  let ?fnds = "mc_instantiation_funds (mr_config response)"
  obtain c where c: "try_fold (coins_add (p_coins pf)) c ?fnds
      = Ok (cr_sum_of_monetization cr')"
    and step: "case mc_monetization (mr_config response) of
        InstallFee fee \<Rightarrow> coins_add (p_coins pf) (sim_coins sim) fee = Ok c
      | NoMonetization \<Rightarrow> sim_coins sim = c"
    using assms
    by (cases "mc_monetization (mr_config response)") (auto simp: charge_install_def result_simps)
  from c step show ?thesis
    by (cases "mc_monetization (mr_config response)"; cases "?fnds = []")
      (simp_all add: simulate_one_def Let_def)
qed

lemma create_one_charges:
  assumes "create_one pf ch reg account canonical h salt cr (m, response) = Ok cr'"
  shows "\<exists>cr1. charge_install pf ch reg response cr = Ok cr1
    \<and> cr_sum_of_monetization cr' = cr_sum_of_monetization cr1 \<and> cr_fee_msgs cr' = cr_fee_msgs cr1"
proof -
  from assms obtain cr1 where cr1: "charge_install pf ch reg response cr = Ok cr1"
    by (auto simp: create_one_def result_simps)
  with assms show ?thesis
    by (cases "m_reference (mr_module response)")
      (auto simp: create_one_def result_simps dest: create_contract_keeps split: if_splits)
qed

lemma create_all_simulates:
  assumes "try_fold (create_one pf ch reg account canonical h salt) cr (zip ms rs) = Ok cr'"
    and "length ms = length rs" and "sim_coins sim = cr_sum_of_monetization cr"
  shows "\<exists>sim'. try_fold (simulate_one pf) sim rs = Ok sim'
    \<and> sim_coins sim' = cr_sum_of_monetization cr'"
  using assms(2,1,3)
proof (induction ms rs arbitrary: cr sim rule: list_induct2)
  case (Cons m ms r rs)
  then obtain cr1 where cr1: "create_one pf ch reg account canonical h salt cr (m, r) = Ok cr1"
    and rest: "try_fold (create_one pf ch reg account canonical h salt) cr1 (zip ms rs) = Ok cr'"
    by (auto simp: result_simps)
  obtain sim1 where sim1: "simulate_one pf sim r = Ok sim1"
    and eq: "sim_coins sim1 = cr_sum_of_monetization cr1"
    using create_one_charges [OF cr1] charge_install_simulates Cons.prems(2) by metis
  show ?case using Cons.IH [OF rest eq] sim1 by simp
qed simp

text \<open>
  C13: an installation that the factory accepts was paid with exactly the coins that
  \<open>SimulateInstallModules\<close> answers for the same modules, so the account that forwards the
  simulated funds pays neither too much nor too little.
\<close>

theorem create_modules_paid_as_simulated:
  assumes "execute_create_modules pf ch ev st info modules salt = Ok (st', out)"
  shows "\<exists>resp. query_simulate_install_modules pf ch (env_contract ev) (map mic_module modules)
      = Ok resp \<and> info_funds info = total_required_funds resp"
proof -
  from assms obtain code reg account rs canonical cr where
    code: "abstract_code_id ch (env_contract ev) = Ok code"
    and reg: "registry_contract_new ch code = Ok reg"
    and rs: "query_modules_configs ch reg (map mic_module modules) = Ok rs"
    and cr: "try_fold (create_one pf ch reg account canonical (height (env_block ev)) salt)
       \<lparr>cr_fee_msgs = [], cr_sum_of_monetization = coins_default (p_coins pf),
        cr_instantiate_msgs = [], cr_modules_to_register = [], cr_at_least_one_standalone = False\<rparr>
       (zip (map mic_init_msg modules) rs) = Ok cr"
    and paid: "coins_into_vec (p_coins pf) (cr_sum_of_monetization cr) = info_funds info"
    by (auto simp: execute_create_modules_def result_simps Let_def split: if_splits)
  have "length (map mic_init_msg modules) = length rs"
    using query_modules_configs_length [OF rs] by simp
  from create_all_simulates [OF cr this, of
      "\<lparr>sim_coins = coins_default (p_coins pf), sim_install_funds = [], sim_init_funds = []\<rparr>"]
  obtain sim where "try_fold (simulate_one pf)
      \<lparr>sim_coins = coins_default (p_coins pf), sim_install_funds = [], sim_init_funds = []\<rparr> rs = Ok sim"
    and "sim_coins sim = cr_sum_of_monetization cr" by auto
  with code reg rs paid show ?thesis by (simp add: query_simulate_install_modules_def)
qed

section \<open>Where fees and funds go\<close>

text \<open>A message of the factory is a fee for the account that holds the namespace of a module, or
  the instantiation of an app or standalone with its funds and the account as admin.\<close>

definition fee_for :: "registry_state \<Rightarrow> module_response \<Rightarrow> addr \<Rightarrow> coin list \<Rightarrow> bool" where
  "fee_for rst r to fnds \<longleftrightarrow> (\<exists>fee i. mc_monetization (mr_config r) = InstallFee fee \<and> fnds = [fee]
     \<and> load (namespaces rst) (mi_namespace (m_info (mr_module r))) = Some i
     \<and> load (account_addresses rst) (acc_key i) = Some to)"

fun factory_message ::
  "registry_state \<Rightarrow> module_response list \<Rightarrow> addr \<Rightarrow> binary \<Rightarrow> cosmos_msg \<Rightarrow> bool" where
  "factory_message rst rs account salt (BankSend to fnds) = (\<exists>r. r \<in> set rs \<and> fee_for rst r to fnds)"
| "factory_message rst rs account salt (WasmInstantiate2 code fnds admin label msg s) =
     (admin = Some account \<and> s = salt \<and> (\<exists>r. r \<in> set rs \<and> fnds = mc_instantiation_funds (mr_config r)
        \<and> (m_reference (mr_module r) = App code \<or> m_reference (mr_module r) = Standalone code)))"
| "factory_message rst rs account salt _ = False"

lemma query_namespace_claimed:
  assumes "query_namespace ch reg n = Ok resp" and "unwrap_namespace resp = Ok (i, a)"
    and "q_registry ch reg = Ok rst"
  shows "load (namespaces rst) n = Some i \<and> load (account_addresses rst) (acc_key i) = Some a"
  using assms
  by (auto simp: query_namespace_def handle_namespace_query_def unwrap_namespace_def load_err_def
      result_simps split: option.splits namespace_response.splits)

lemma charge_install_msgs:
  assumes "charge_install pf ch reg r cr = Ok cr'" and "q_registry ch reg = Ok rst"
  shows "cr_instantiate_msgs cr' = cr_instantiate_msgs cr"
    and "m \<in> set (cr_fee_msgs cr') \<Longrightarrow> m \<in> set (cr_fee_msgs cr)
      \<or> (\<exists>to fnds. m = BankSend to fnds \<and> fee_for rst r to fnds)"
    and "set (cr_fee_msgs cr) \<subseteq> set (cr_fee_msgs cr')"
    and "mc_monetization (mr_config r) = InstallFee fee \<Longrightarrow> \<exists>to. BankSend to [fee] \<in> set (cr_fee_msgs cr')"
proof -
  note * = assms(1) [unfolded charge_install_def]
  have fee: "fee_for rst r a [f]" if "mc_monetization (mr_config r) = InstallFee f"
      "query_namespace ch reg (mi_namespace (m_info (mr_module r))) = Ok ns"
      "(unwrap_namespace ns :: (_, module_factory_error) result) = Ok (i, a)" for f ns i a
    using query_namespace_claimed [OF that(2,3) assms(2)] that(1) by (auto simp: fee_for_def)
  show "cr_instantiate_msgs cr' = cr_instantiate_msgs cr"
    using * by (cases "mc_monetization (mr_config r)") (auto simp: result_simps)
  show "m \<in> set (cr_fee_msgs cr) \<or> (\<exists>to fnds. m = BankSend to fnds \<and> fee_for rst r to fnds)"
    if "m \<in> set (cr_fee_msgs cr')"
    using * that fee by (cases "mc_monetization (mr_config r)") (auto simp: result_simps)
  show "set (cr_fee_msgs cr) \<subseteq> set (cr_fee_msgs cr')"
    using * by (cases "mc_monetization (mr_config r)") (auto simp: result_simps)
  show "\<exists>to. BankSend to [fee] \<in> set (cr_fee_msgs cr')"
    if "mc_monetization (mr_config r) = InstallFee fee"
    using * that by (auto simp: result_simps)
qed

lemma create_one_msgs:
  assumes "create_one pf ch reg account canonical h salt cr (im, r) = Ok cr'"
    and "m \<in> set (cr_instantiate_msgs cr')" and "q_registry ch reg = Ok rst" and "r \<in> set rs"
  shows "m \<in> set (cr_instantiate_msgs cr) \<or> factory_message rst rs account salt m"
proof -
  from assms(1) obtain cr1 where cr1: "charge_install pf ch reg r cr = Ok cr1"
    by (auto simp: create_one_def result_simps)
  note keep = charge_install_msgs(1) [OF cr1 assms(3)]
  show ?thesis
    using assms cr1 keep
    by (cases "m_reference (mr_module r)")
      (auto simp: create_one_def create_contract_def instantiate2_contract_def result_simps
        split: if_splits)
qed

lemma create_all_fees:
  assumes "try_fold (create_one pf ch reg account canonical h salt) cr (zip ims rs) = Ok cr'"
    and "length ims = length rs" and "q_registry ch reg = Ok rst"
  shows "set (cr_fee_msgs cr) \<subseteq> set (cr_fee_msgs cr')
    \<and> (\<forall>r \<in> set rs. \<forall>fee. mc_monetization (mr_config r) = InstallFee fee
        \<longrightarrow> (\<exists>to. BankSend to [fee] \<in> set (cr_fee_msgs cr')))"
  using assms(2,1)
proof (induction ims rs arbitrary: cr rule: list_induct2)
  case (Cons im ims r rs)
  then obtain cr1 where cr1: "create_one pf ch reg account canonical h salt cr (im, r) = Ok cr1"
    and rest: "try_fold (create_one pf ch reg account canonical h salt) cr1 (zip ims rs) = Ok cr'"
    by (auto simp: result_simps)
  from create_one_charges [OF cr1] obtain cr0 where cr0: "charge_install pf ch reg r cr = Ok cr0"
    and eq: "cr_fee_msgs cr1 = cr_fee_msgs cr0" by blast
  from charge_install_msgs(3,4) [OF cr0 assms(3)] Cons.IH [OF rest] eq
  show ?case by (auto 4 4)
qed simp

lemma create_modules_sends:
  assumes "execute_create_modules pf ch ev st info modules salt = Ok (st', out)"
    and "abstract_code_id ch (env_contract ev) = Ok code" and "registry_contract_new ch code = Ok reg"
    and "q_registry ch reg = Ok rst"
    and "query_modules_configs ch reg (map mic_module modules) = Ok rs"
  shows "(\<exists>i. q_account_id ch (info_sender info) = Ok i
      \<and> load (account_addresses rst) (acc_key i) = Some (info_sender info))
    \<and> (\<forall>m \<in> set out. factory_message rst rs (info_sender info) salt m)
    \<and> (\<forall>r \<in> set rs. \<forall>fee. mc_monetization (mr_config r) = InstallFee fee
        \<longrightarrow> (\<exists>to. BankSend to [fee] \<in> set out))"
proof -
  let ?start = "\<lparr>cr_fee_msgs = [], cr_sum_of_monetization = coins_default (p_coins pf),
    cr_instantiate_msgs = [], cr_modules_to_register = [], cr_at_least_one_standalone = False\<rparr>"
  let ?xs = "zip (map mic_init_msg modules) rs"
  from assms obtain account canonical cr where
    account: "assert_account ch reg (info_sender info) = Ok account"
    and cr: "try_fold (create_one pf ch reg account canonical (height (env_block ev)) salt)
       ?start ?xs = Ok cr"
    and out: "out = cr_fee_msgs cr @ cr_instantiate_msgs cr"
    by (auto simp: execute_create_modules_def result_simps Let_def split: if_splits)
  have listed: "\<exists>i. q_account_id ch (info_sender info) = Ok i
      \<and> load (account_addresses rst) (acc_key i) = Some (info_sender info)"
    and same: "account = info_sender info"
    using account assms(4)
    by (auto simp: assert_account_def unchecked_account_id_def registry_account_def raw_query_def
        result_simps split: if_splits)
  have len: "length (map mic_init_msg modules) = length rs"
    using query_modules_configs_length [OF assms(5)] by simp
  let ?good = "\<lambda>cr. \<forall>m \<in> set (cr_fee_msgs cr @ cr_instantiate_msgs cr). factory_message rst rs account salt m"
  have "?good cr" using cr
  proof (rule try_fold_invariant)
    fix cr x cr' assume x: "x \<in> set ?xs" and good: "?good cr"
      and step: "create_one pf ch reg account canonical (height (env_block ev)) salt cr x = Ok cr'"
    obtain im r where xr: "x = (im, r)" by (cases x)
    with x have r: "r \<in> set rs" by (auto dest: set_zip_rightD)
    note step' = step [unfolded xr]
    from create_one_charges [OF step'] obtain cr0 where
      cr0: "charge_install pf ch reg r cr = Ok cr0" "cr_fee_msgs cr' = cr_fee_msgs cr0" by blast
    have "factory_message rst rs account salt m" if "m \<in> set (cr_fee_msgs cr')" for m
      using charge_install_msgs(2) [OF cr0(1) assms(4), of m] that cr0(2) good r by fastforce
    moreover have "factory_message rst rs account salt m" if "m \<in> set (cr_instantiate_msgs cr')" for m
      using create_one_msgs [OF step' that assms(4) r] good by auto
    ultimately show "?good cr'" by auto
  qed simp
  with listed same out show ?thesis using create_all_fees [OF cr len assms(4)] by fastforce
qed

text \<open>
  modules are installed only for an account that the registry lists under the id it claims.
  Every message of the factory is either a fee that goes to the account holding the namespace of one
  of the modules, or the instantiation of one of the apps or standalones with the calling account as
  admin, the given salt and the funds configured for it; and every install fee is forwarded.
\<close>

theorem create_modules_messages:
  assumes "execute_create_modules pf ch ev st info modules salt = Ok (st', out)"
    and "abstract_code_id ch (env_contract ev) = Ok code" and "registry_contract_new ch code = Ok reg"
    and "q_registry ch reg = Ok rst"
    and "query_modules_configs ch reg (map mic_module modules) = Ok rs"
  shows "(\<exists>i. q_account_id ch (info_sender info) = Ok i
      \<and> load (account_addresses rst) (acc_key i) = Some (info_sender info))
    \<and> (\<forall>m \<in> set out. factory_message rst rs (info_sender info) salt m)
    \<and> (\<forall>r \<in> set rs. \<forall>fee. mc_monetization (mr_config r) = InstallFee fee
        \<longrightarrow> (\<exists>to. BankSend to [fee] \<in> set out))"
  using assms by (rule create_modules_sends)

text \<open>
  C14: the factory aborts when a module with an install fee is in a namespace nobody holds. The code
  says it is safe to assume the namespace is claimed; a module approved after its namespace was
  forgone is the case where it is not, and such a module cannot be installed.
\<close>

theorem create_modules_unclaimed_panics:
  assumes "abstract_code_id ch (env_contract ev) = Ok code" and "registry_contract_new ch code = Ok reg"
    and "assert_account ch reg (info_sender info) = Ok account" and "q_registry ch reg = Ok rst"
    and "query_modules_configs ch reg [mic_module m] = Ok [r]"
    and "q_canonicalize ch (env_contract ev) = Ok canonical"
    and "mc_monetization (mr_config r) = InstallFee fee"
    and "coins_add (p_coins pf) (coins_default (p_coins pf)) fee = Ok cs"
    and "load (namespaces rst) (mi_namespace (m_info (mr_module r))) = None"
  shows "execute_create_modules pf ch ev st info [m] salt = Panic"
proof -
  have "query_namespace ch reg (mi_namespace (m_info (mr_module r))) = Ok Unclaimed"
    using assms(4,9) by (simp add: query_namespace_def handle_namespace_query_def smart_query_Ok)
  with assms show ?thesis
    by (simp add: execute_create_modules_def create_one_def charge_install_def unwrap_namespace_def)
qed

section \<open>A concrete installation\<close>

text \<open>\<open>Coins\<close> as a list of coins sorted by denomination.\<close>

fun add_coin :: "coin list \<Rightarrow> coin \<Rightarrow> (coin list, std_error) result" where
  "add_coin [] c = Ok (if amount c = 0 then [] else [c])"
| "add_coin (d # ds) c =
     (if denom d = denom c
      then (case checked_add (amount d) (amount c) of
          Some s \<Rightarrow> Ok (d\<lparr>amount := s\<rparr> # ds) | None \<Rightarrow> Err (StdMsg ''overflow''))
      else if denom c < denom d then Ok (if amount c = 0 then d # ds else c # d # ds)
      else and_then (add_coin ds c) (\<lambda>ds'. Ok (d # ds')))"

definition sample_platform :: "(coin list) platform" where
  "sample_platform = \<lparr>
     p_coins = \<lparr>coins_default = [], coins_add = add_coin,
       coins_sub = (\<lambda>cs c. case charge_first c cs of Some r \<Rightarrow> Ok r | None \<Rightarrow> Err (StdMsg ''sub'')),
       coins_try_from = try_fold add_coin [], coins_into_vec = (\<lambda>cs. cs)\<rparr>,
     p_checksum = (\<lambda>_. Ok ''sum''),
     p_instantiate2 = (\<lambda>sum creator salt. Ok (creator @ salt)),
     p_from_json = Ok,
     p_sha256 = (\<lambda>s. s),
     p_authorized_addresses = (\<lambda>_ _. Ok []),
     p_ica_action = (\<lambda>_ _. Ok [])\<rparr>"

definition paid_module :: module_info where
  "paid_module = \<lparr>mi_namespace = ''dev'', mi_name = ''dex'', mi_version = Version ''1.0.0''\<rparr>"

definition paid_fee :: coin where "paid_fee = \<lparr>denom = ''uusd'', amount = 5\<rparr>"

text \<open>The account \<open>acct\<close>, and \<open>dev\<close> with a namespace and an adapter that costs a fee.\<close>

definition paid_registry :: registry_state where
  "paid_registry = empty_registry\<lparr>
     account_addresses := [(acc_key (account_id_local 1), ''acct''), (acc_key (account_id_local 2), ''dev'')],
     namespaces := [(''dev'', account_id_local 2)],
     registered_modules := [(mod_key paid_module, Adapter ''dex-addr'')],
     module_config := [(mod_key paid_module, \<lparr>mc_monetization = InstallFee paid_fee,
       mc_metadata = None, mc_instantiation_funds = []\<rparr>)]\<rparr>"

definition paid_chain :: "registry_state \<Rightarrow> chain" where
  "paid_chain rst = sample_chain\<lparr>
     q_contract_info := (\<lambda>a. if a = ''mf'' \<or> a = ''acct''
       then Ok \<lparr>ci_code_id = 7, ci_admin = None\<rparr> else Err (StdNotFound a)),
     q_account_id := (\<lambda>a. if a = ''acct'' then Ok (account_id_local 1) else Err (StdNotFound a)),
     q_registry := (\<lambda>a. if a = ''reg'' then Ok rst else Err (StdNotFound a))\<rparr>"

definition paid_env :: env where
  "paid_env = \<lparr>env_contract = ''mf'', env_block = \<lparr>height = 1, time = 1, chain_id = ''c-1''\<rparr>\<rparr>"

definition paid_info :: message_info where
  "paid_info = \<lparr>info_sender = ''acct'', info_funds = [paid_fee]\<rparr>"

definition paid_install :: module_install_config where
  "paid_install = \<lparr>mic_module = paid_module, mic_init_msg = None\<rparr>"

definition paid_response :: module_response where
  "paid_response = \<lparr>mr_module = \<lparr>m_info = paid_module, m_reference = Adapter ''dex-addr''\<rparr>,
     mr_config = \<lparr>mc_monetization = InstallFee paid_fee, mc_metadata = None,
       mc_instantiation_funds = []\<rparr>\<rparr>"

definition empty_factory :: module_factory_state where
  "empty_factory = \<lparr>current_base = None, mf_ownership = None, mf_cw2 = None\<rparr>"

lemmas paid_defs =
  sample_platform_def paid_fee_def paid_env_def paid_info_def paid_install_def paid_response_def
  empty_factory_def

lemma paid_chain_facts:
  "abstract_code_id (paid_chain rst) ''mf'' = Ok 7"
  "registry_contract_new (paid_chain rst) 7 = Ok ''reg''"
  "q_registry (paid_chain rst) ''reg'' = Ok rst"
  "q_canonicalize (paid_chain rst) a = Ok a"
  "account_addresses rst = account_addresses paid_registry \<Longrightarrow>
     assert_account (paid_chain rst) ''reg'' ''acct'' = Ok ''acct''"
  by (simp_all add: paid_chain_def sample_chain_def code_defs registry_contract_new_def
      assert_account_def unchecked_account_id_def registry_account_def raw_query_def
      paid_registry_def load_def acc_key_def)

lemma paid_query:
  assumes "registered_modules rst = registered_modules paid_registry"
    and "module_config rst = module_config paid_registry" and "module_default_config rst = []"
  shows "query_modules_configs (paid_chain rst) ''reg'' [paid_module] = Ok [paid_response]"
proof -
  have "module_query_one sv rst paid_module = Ok paid_response" for sv
    using assms by (simp add: module_query_one_def paid_module_def paid_registry_def load_err_def
        load_def module_configuration_from_storage_def paid_response_def mod_key_def
        empty_registry_def Let_def)
  then show ?thesis
    by (simp add: query_modules_configs_def handle_modules_query_def smart_query_Ok paid_chain_facts)
qed

lemma paid_default_config [simp]: "module_default_config paid_registry = []"
  by (simp add: paid_registry_def empty_registry_def)

lemma paid_execute:
  "execute_create_modules sample_platform (paid_chain paid_registry) paid_env empty_factory paid_info
     [paid_install] ''salt'' = Ok (empty_factory, [BankSend ''dev'' [paid_fee]])"
proof -
  have "query_namespace (paid_chain paid_registry) ''reg'' ''dev''
      = Ok (Claimed (account_id_local 2) ''dev'')"
    by (simp add: query_namespace_def smart_query_Ok paid_chain_facts handle_namespace_query_def
        load_err_def) (simp add: paid_registry_def load_def load_err_def acc_key_def account_id_local_def)
  then show ?thesis
    by (simp add: execute_create_modules_def paid_env_def paid_install_def paid_info_def
        paid_chain_facts paid_query create_one_def charge_install_def unwrap_namespace_def
        paid_response_def sample_platform_def paid_fee_def)
      (simp add: paid_module_def)
qed

theorem create_modules_paid_as_simulated_witness:
  "\<exists>resp. query_simulate_install_modules sample_platform (paid_chain paid_registry) ''mf'' [paid_module]
     = Ok resp \<and> [paid_fee] = total_required_funds resp"
  using create_modules_paid_as_simulated [OF paid_execute]
  by (simp add: paid_env_def paid_install_def paid_info_def)

theorem create_modules_messages_witness:
  "factory_message paid_registry [paid_response] ''acct'' ''salt'' (BankSend ''dev'' [paid_fee])"
  using create_modules_messages [OF paid_execute, of 7 "''reg''" paid_registry "[paid_response]"]
  by (simp add: paid_env_def paid_install_def paid_info_def paid_chain_facts paid_query
      paid_registry_def empty_registry_def)

theorem create_modules_unclaimed_panics_witness:
  "execute_create_modules sample_platform (paid_chain (paid_registry\<lparr>namespaces := []\<rparr>)) paid_env
     empty_factory paid_info [paid_install] ''salt'' = Panic"
  by (rule create_modules_unclaimed_panics [of _ _ 7 "''reg''" _ "''acct''"
        "paid_registry\<lparr>namespaces := []\<rparr>" _ paid_response "''mf''" paid_fee sample_platform "[paid_fee]"])
    (simp_all add: paid_env_def paid_install_def paid_info_def paid_chain_facts paid_query
      paid_registry_def empty_registry_def paid_response_def sample_platform_def paid_fee_def)

end
