(* ===== verification/Account.thy ===== *)
theory Account
  imports Module_Factory
begin

text \<open>
  The account contract (\<open>contracts/account/src\<close>): its stored state, messages and errors
  (\<open>abstract-std/src/account.rs\<close>, \<open>error.rs\<close>), and every handler: execution on behalf of the account
  (\<open>execution.rs\<close>), configuration (\<open>config.rs\<close>), installing, removing and upgrading modules
  (\<open>modules.rs\<close>, \<open>modules/migration.rs\<close>, \<open>versioning.rs\<close>), sub-accounts (\<open>sub_account.rs\<close>), replies
  (\<open>reply.rs\<close>) and the entry points (\<open>contract.rs\<close>, \<open>migrate.rs\<close>). The build is the one without the
  \<open>xion\<close> feature. A handler returns the new state and the sub-messages it sends; response
  attributes are not modelled.

  The \<open>HashSet\<close> of dependents is a list without repetition; the order in which a hash set is walked
  is not specified, here it is the order of insertion.
\<close>

section \<open>State, messages and errors\<close>

record account_info =
  ai_name :: "string option"
  ai_description :: "string option"
  ai_link :: "string option"

record account_state =
  a_ownership :: "ownership option"
  suspension_status :: "bool option"
  a_info :: "account_info option"
  account_modules :: "(string, addr) store"
  dependents :: "(string, string list) store"
  sub_accounts :: "(u32, unit) store"
  whitelisted_modules :: "addr list option"
  a_account_id :: "account_id option"
  install_modules_context :: "(module \<times> addr option) list option"
  migrate_context :: "(string \<times> dependency list) list option"
  calling_to_as_admin :: "addr option"
  a_cw2 :: "contract_version option"

definition empty_account :: account_state where
  "empty_account = \<lparr>a_ownership = None, suspension_status = None, a_info = None,
     account_modules = [], dependents = [], sub_accounts = [], whitelisted_modules = None,
     a_account_id = None, install_modules_context = None, migrate_context = None,
     calling_to_as_admin = None, a_cw2 = None\<rparr>"

definition has_info :: "account_info \<Rightarrow> bool" where
  "has_info i \<longleftrightarrow> ai_name i \<noteq> None \<or> ai_description i \<noteq> None \<or> ai_link i \<noteq> None"

datatype internal_config_action =
    UpdateModuleAddresses "(string \<times> string) list" "string list"
  | UpdateWhitelist "string list" "string list"

datatype account_execute_msg =
    Execute "cosmos_msg list"
  | ExecuteWithData cosmos_msg
  | ExecuteOnModule string binary "coin list"
  | AdminExecute string binary
  | AdminExecuteOnModule string binary
  | IcaAction binary
  | UpdateInternalConfig internal_config_action
  | InstallModules "module_install_config list"
  | UninstallModule string
  | Upgrade "(module_info \<times> binary option) list"
  | CreateSubAccount "string option" "string option" "string option" "string option"
      "module_install_config list" "u32 option"
  | UpdateInfo "string option" "string option" "string option"
  | UpdateStatus "bool option"
  | UpdateSubAccount update_sub_account_action
  | UpdateOwnership gov_action
  | AddAuthMethod
  | RemoveAuthMethod u8

datatype account_error =
    AccStd std_error
  | AccAbstract abstract_error
  | AccValidation validation_error
  | AccOwnership gov_ownership_error
  | AccInstantiate2AddressError
  | AccRegistryError registry_query_error
  | AccountSuspended
  | QueryModulesFailed registry_query_error
  | ModuleAlreadyInstalled string
  | ProhibitedReinstall
  | ModuleNotInstallable string
  | InitMsgMissing string
  | InvalidModuleName
  | AccModuleNotFound string
  | DuplicateModuleMigration string
  | NotUpgradeable module_info
  | ModuleHasDependents "string list"
  | VersionRequirementNotMet string version comparator bool
  | DependencyNotMet string string
  | ModuleLimitReached
  | AlreadyWhitelisted string
  | NotWhitelisted
  | SubAccountDoesntExist
  | SubAccountIsNotCaller
  | SubAccountRegisterFailed
  | RenounceWithSubAccount
  | NoUpdates
  | InvalidConfigAction std_error
  | OlderVersion string string
  | SenderNotWhitelistedOrOwner
  | UnexpectedReply
  | SubAccountCreatorNotAccount addr addr
  | CantChainAdminCalls
  | AbstractAccountInvalidAddress addr addr
  | NoAuthFeature
  | AbstractAccountNoAuth
  | MissingCodeIdToMigrate

type_synonym 'a acc_result = "('a, account_error) result"
type_synonym acc_response = "account_state \<times> sub_msg list"

definition FORWARD_RESPONSE_REPLY_ID :: u64 where "FORWARD_RESPONSE_REPLY_ID = 1"
definition ADMIN_ACTION_REPLY_ID :: u64 where "ADMIN_ACTION_REPLY_ID = 2"
definition REGISTER_MODULES_DEPENDENCIES_REPLY_ID :: u64 where
  "REGISTER_MODULES_DEPENDENCIES_REPLY_ID = 3"
definition ASSERT_MODULE_DEPENDENCIES_REQUIREMENTS_REPLY_ID :: u64 where
  "ASSERT_MODULE_DEPENDENCIES_REQUIREMENTS_REPLY_ID = 4"

lemmas reply_ids =
  FORWARD_RESPONSE_REPLY_ID_def ADMIN_ACTION_REPLY_ID_def
  REGISTER_MODULES_DEPENDENCIES_REPLY_ID_def ASSERT_MODULE_DEPENDENCIES_REQUIREMENTS_REPLY_ID_def

text \<open>\<open>Item::load\<close>\<close>

definition load_item :: "'v option \<Rightarrow> 'v acc_result" where
  "load_item i = ok_or (AccStd (StdNotFound ''item'')) i"

text \<open>The guard of the owner-only handlers.\<close>

definition assert_account_owner :: "chain \<Rightarrow> account_state \<Rightarrow> addr \<Rightarrow> unit acc_result" where
  "assert_account_owner ch st sndr = map_err AccOwnership (assert_nested_owner ch (a_ownership st) sndr)"

definition generate_instantiate_salt :: "'c platform \<Rightarrow> account_id \<Rightarrow> binary" where
  "generate_instantiate_salt pf aid = p_sha256 pf (account_id_display aid) @ ''abstract''"

section \<open>Dependencies (versioning.rs)\<close>

definition load_module_addr :: "account_state \<Rightarrow> string \<Rightarrow> addr acc_result" where
  "load_module_addr st mid = ok_or (AccModuleNotFound mid) (load (account_modules st) mid)"

definition load_module_data :: "chain \<Rightarrow> account_state \<Rightarrow> string \<Rightarrow> module_data acc_result" where
  "load_module_data ch st mid =
     and_then (load_module_addr st mid) (\<lambda>module_addr. map_err AccStd (q_module_data ch module_addr))"

definition load_module_dependencies ::
  "chain \<Rightarrow> account_state \<Rightarrow> string \<Rightarrow> dependency list acc_result" where
  "load_module_dependencies ch st mid = map_ok md_dependencies (load_module_data ch st mid)"

definition assert_comparators ::
  "semver_lib \<Rightarrow> comparator list \<Rightarrow> version \<Rightarrow> string \<Rightarrow> bool \<Rightarrow> unit acc_result" where
  "assert_comparators sv bounds version mid post_migration =
     try_fold (\<lambda>_ comp. ensure (comp_matches sv comp version)
       (VersionRequirementNotMet mid version comp post_migration)) () bounds"

definition assert_dependency_requirement ::
  "chain \<Rightarrow> account_state \<Rightarrow> string \<Rightarrow> unit \<Rightarrow> dependency \<Rightarrow> unit acc_result" where
  "assert_dependency_requirement ch st dependent u dep =
     and_then (ok_or (DependencyNotMet (dep_id dep) dependent)
       (load (account_modules st) (dep_id dep))) (\<lambda>dep_addr.
     and_then (map_err AccStd (q_cw2 ch dep_addr)) (\<lambda>dep_version.
     and_then (unwrap (sv_parse (q_semver ch) (cv_version dep_version))) (\<lambda>version.
     assert_comparators (q_semver ch) (version_req dep) version (dep_id dep) True)))"

definition assert_dependency_requirements ::
  "chain \<Rightarrow> account_state \<Rightarrow> dependency list \<Rightarrow> string \<Rightarrow> unit acc_result" where
  "assert_dependency_requirements ch st dependencies dependent =
     try_fold (assert_dependency_requirement ch st dependent) () dependencies"

definition assert_install_requirements ::
  "chain \<Rightarrow> account_state \<Rightarrow> string \<Rightarrow> dependency list acc_result" where
  "assert_install_requirements ch st mid =
     and_then (load_module_dependencies ch st mid) (\<lambda>module_dependencies.
     and_then (assert_dependency_requirements ch st module_dependencies mid) (\<lambda>_.
     Ok module_dependencies))"

text \<open>\<open>unwrap_or_default\<close>: a standalone need not store module data.\<close>

definition assert_install_requirements_standalone ::
  "chain \<Rightarrow> account_state \<Rightarrow> string \<Rightarrow> dependency list acc_result" where
  "assert_install_requirements_standalone ch st mid =
     (let module_dependencies = (case load_module_dependencies ch st mid of Ok ds \<Rightarrow> ds | _ \<Rightarrow> [])
      in and_then (assert_dependency_requirements ch st module_dependencies mid) (\<lambda>_.
         Ok module_dependencies))"

definition assert_dependent_supports ::
  "chain \<Rightarrow> account_state \<Rightarrow> (string \<times> dependency list) list \<Rightarrow> string \<Rightarrow> version \<Rightarrow> unit \<Rightarrow> string
   \<Rightarrow> unit acc_result" where
  "assert_dependent_supports ch st migrating mid new_version u dependent_module =
     (if dependent_module \<in> fst ` set migrating then Ok ()
      else
      and_then (map_err AccStd (load_err (account_modules st) dependent_module)) (\<lambda>dependent_address.
      and_then (map_err AccStd (q_module_data ch dependent_address)) (\<lambda>module_data.
      try_fold (\<lambda>_ dep. assert_comparators (q_semver ch) (version_req dep) new_version mid False) ()
        (filter (\<lambda>dep. dep_id dep = mid) (md_dependencies module_data)))))"

definition dependents_of :: "account_state \<Rightarrow> string \<Rightarrow> string list" where
  "dependents_of st mid = (case load (dependents st) mid of Some ds \<Rightarrow> ds | None \<Rightarrow> [])"

definition assert_migrate_requirements ::
  "chain \<Rightarrow> account_state \<Rightarrow> string \<Rightarrow> version \<Rightarrow> unit acc_result" where
  "assert_migrate_requirements ch st mid new_version =
     and_then (load_item (migrate_context st)) (\<lambda>migrating.
     try_fold (assert_dependent_supports ch st migrating mid new_version) () (dependents_of st mid))"

text \<open>\<open>DEPENDENTS.update\<close> with the default of an empty set.\<close>

definition add_dependent :: "string \<Rightarrow> dependency \<Rightarrow> account_state \<Rightarrow> account_state" where
  "add_dependent mid dep st =
     st\<lparr>dependents := save (dep_id dep) (List.insert mid (dependents_of st (dep_id dep))) (dependents st)\<rparr>"

definition drop_dependent :: "string \<Rightarrow> dependency \<Rightarrow> account_state \<Rightarrow> account_state" where
  "drop_dependent mid dep st =
     st\<lparr>dependents := save (dep_id dep) (removeAll mid (dependents_of st (dep_id dep))) (dependents st)\<rparr>"

definition set_as_dependent :: "account_state \<Rightarrow> string \<Rightarrow> dependency list \<Rightarrow> account_state" where
  "set_as_dependent st mid deps = fold (add_dependent mid) deps st"

definition remove_as_dependent :: "account_state \<Rightarrow> string \<Rightarrow> dependency list \<Rightarrow> account_state" where
  "remove_as_dependent st mid deps = fold (drop_dependent mid) deps st"

text \<open>An entry of \<open>DEPENDENTS\<close> that is missing is a panic here.\<close>

definition remove_old_dep ::
  "string \<Rightarrow> account_state \<Rightarrow> dependency \<Rightarrow> account_state acc_result" where
  "remove_old_dep mid st dep =
     and_then (unwrap (load (dependents st) (dep_id dep))) (\<lambda>_. Ok (drop_dependent mid dep st))"

definition maybe_remove_old_deps ::
  "chain \<Rightarrow> account_state \<Rightarrow> string \<Rightarrow> dependency list \<Rightarrow> account_state acc_result" where
  "maybe_remove_old_deps ch st mid old_deps =
     and_then (load_module_dependencies ch st mid) (\<lambda>new_deps.
     try_fold (remove_old_dep mid) st (filter (\<lambda>d. d \<notin> set new_deps) old_deps))"

definition maybe_add_new_deps ::
  "chain \<Rightarrow> account_state \<Rightarrow> string \<Rightarrow> dependency list
   \<Rightarrow> (account_state \<times> dependency list) acc_result" where
  "maybe_add_new_deps ch st mid old_deps =
     and_then (load_module_dependencies ch st mid) (\<lambda>new_deps.
     Ok (fold (add_dependent mid) (filter (\<lambda>d. d \<notin> set old_deps) new_deps) st, new_deps))"

section \<open>Modules of the account (modules.rs)\<close>

definition WHITELIST_SIZE_LIMIT :: nat where "WHITELIST_SIZE_LIMIT = 15"

definition add_whitelisted :: "addr list \<Rightarrow> addr \<Rightarrow> addr list acc_result" where
  "add_whitelisted wl module_addr =
     (if module_addr \<in> set wl then Err (AlreadyWhitelisted module_addr) else Ok (wl @ [module_addr]))"

definition update_whitelisted_modules ::
  "account_state \<Rightarrow> addr list \<Rightarrow> addr list \<Rightarrow> account_state acc_result" where
  "update_whitelisted_modules st to_add to_remove =
     and_then (load_item (whitelisted_modules st)) (\<lambda>wl.
     if length wl + length to_add < length to_remove then Err NotWhitelisted
     else
     let new_len = length wl + length to_add - length to_remove
     in if new_len > WHITELIST_SIZE_LIMIT then Err ModuleLimitReached
     else
     and_then (try_fold add_whitelisted wl to_add) (\<lambda>wl.
     let wl = filter (\<lambda>a. a \<notin> set to_remove) wl
     in if length wl \<noteq> new_len then Err NotWhitelisted
        else Ok (st\<lparr>whitelisted_modules := Some wl\<rparr>)))"

definition add_module_address :: "account_state \<Rightarrow> string \<times> addr \<Rightarrow> account_state acc_result" where
  "add_module_address st x =
     (case x of (mid, new_address) \<Rightarrow>
        if mid = [] then Err InvalidModuleName
        else Ok (st\<lparr>account_modules := save mid new_address (account_modules st)\<rparr>))"

definition update_module_addresses ::
  "account_state \<Rightarrow> (string \<times> addr) list \<Rightarrow> string list \<Rightarrow> account_state acc_result" where
  "update_module_addresses st to_add to_remove =
     and_then (try_fold add_module_address st to_add) (\<lambda>st.
     Ok (st\<lparr>account_modules := fold remove to_remove (account_modules st)\<rparr>))"

text \<open>What the installation loop has collected so far.\<close>

record installation =
  in_whitelist :: "addr list"
  in_account :: "(string \<times> addr) list"
  in_context :: "(module \<times> addr option) list"
  in_factory :: "module_install_config list"

definition record_install ::
  "module \<Rightarrow> addr \<Rightarrow> addr option \<Rightarrow> binary option \<Rightarrow> installation \<Rightarrow> installation" where
  "record_install m a ctx init_msg ins = \<lparr>
     in_whitelist = in_whitelist ins @ (if should_be_whitelisted m then [a] else []),
     in_account = in_account ins @ [(module_id (m_info m), a)],
     in_context = in_context ins @ [(m, ctx)],
     in_factory = in_factory ins @ [\<lparr>mic_module = m_info m, mic_init_msg = init_msg\<rparr>]\<rparr>"

definition install_contract ::
  "'c platform \<Rightarrow> chain \<Rightarrow> string \<Rightarrow> binary \<Rightarrow> module \<Rightarrow> u64 \<Rightarrow> binary option \<Rightarrow> installation
   \<Rightarrow> installation acc_result" where
  "install_contract pf ch canonical salt m code_id init_msg ins =
     and_then (map_err AccStd (p_checksum pf code_id)) (\<lambda>checksum.
     and_then (map_err (\<lambda>_. AccInstantiate2AddressError)
       (p_instantiate2 pf checksum canonical salt)) (\<lambda>module_address.
     and_then (map_err AccStd (q_humanize ch module_address)) (\<lambda>module_address.
     and_then (ensure (\<not> is_ok (q_contract_info ch module_address)) ProhibitedReinstall) (\<lambda>_.
     and_then (ok_or (InitMsgMissing (module_id (m_info m))) init_msg) (\<lambda>init_msg.
     Ok (record_install m module_address (Some module_address) (Some init_msg) ins))))))"

definition install_one ::
  "'c platform \<Rightarrow> chain \<Rightarrow> account_state \<Rightarrow> string \<Rightarrow> binary \<Rightarrow> installation
   \<Rightarrow> module_response \<times> binary option \<Rightarrow> installation acc_result" where
  "install_one pf ch st canonical salt ins x =
     (case x of (response, init_msg) \<Rightarrow>
      let m = mr_module response
      in if has (account_modules st) (module_id (m_info m))
         then Err (ModuleAlreadyInstalled (module_id (m_info m)))
         else (case m_reference m of
             Adapter module_address \<Rightarrow> Ok (record_install m module_address None None ins)
           | Native module_address \<Rightarrow> Ok (record_install m module_address None None ins)
           | Service module_address \<Rightarrow> Ok (record_install m module_address None None ins)
           | App code_id \<Rightarrow> install_contract pf ch canonical salt m code_id init_msg ins
           | Standalone code_id \<Rightarrow> install_contract pf ch canonical salt m code_id init_msg ins
           | _ \<Rightarrow> Err (ModuleNotInstallable (module_info_display (m_info m)))))"

definition install_modules_internal ::
  "'c platform \<Rightarrow> chain \<Rightarrow> account_state \<Rightarrow> module_install_config list \<Rightarrow> coin list \<Rightarrow> u64
   \<Rightarrow> acc_response acc_result" where
  "install_modules_internal pf ch st modules fnds code_id =
     and_then (load_item (a_account_id st)) (\<lambda>account_id.
     and_then (map_err AccAbstract (registry_contract_new ch code_id)) (\<lambda>registry.
     and_then (map_err AccAbstract (module_factory_contract_new ch code_id)) (\<lambda>module_factory.
     and_then (map_err AccStd (q_canonicalize ch module_factory)) (\<lambda>canonical_module_factory.
     and_then (map_err QueryModulesFailed
       (query_modules_configs ch registry (map mic_module modules))) (\<lambda>responses.
     let salt = generate_instantiate_salt pf account_id
     in and_then (try_fold (install_one pf ch st canonical_module_factory salt)
       \<lparr>in_whitelist = [], in_account = [], in_context = [], in_factory = []\<rparr>
       (zip responses (map mic_init_msg modules))) (\<lambda>ins.
     and_then (update_whitelisted_modules st (in_whitelist ins) []) (\<lambda>st.
     let st = st\<lparr>install_modules_context := Some (in_context ins)\<rparr>
     in and_then (update_module_addresses st (in_account ins) []) (\<lambda>st.
     Ok (st, [reply_on_success
       (WasmExecute module_factory (ToFactoryInstall (in_factory ins) salt) fnds)
       REGISTER_MODULES_DEPENDENCIES_REPLY_ID])))))))))"

definition install_modules ::
  "'c platform \<Rightarrow> chain \<Rightarrow> env \<Rightarrow> account_state \<Rightarrow> message_info \<Rightarrow> module_install_config list
   \<Rightarrow> acc_response acc_result" where
  "install_modules pf ch ev st info modules =
     and_then (assert_account_owner ch st (info_sender info)) (\<lambda>_.
     and_then (map_err AccStd (abstract_code_id ch (env_contract ev))) (\<lambda>code.
     install_modules_internal pf ch st modules (info_funds info) code))"

definition uninstall_module ::
  "chain \<Rightarrow> env \<Rightarrow> account_state \<Rightarrow> message_info \<Rightarrow> string \<Rightarrow> acc_response acc_result" where
  "uninstall_module ch ev st info mid =
     and_then (assert_account_owner ch st (info_sender info)) (\<lambda>_.
     and_then (case load (dependents st) mid of
         Some ds \<Rightarrow> if ds \<noteq> [] then Err (ModuleHasDependents ds)
           else Ok (st\<lparr>dependents := remove mid (dependents st)\<rparr>)
       | None \<Rightarrow> Ok st) (\<lambda>st.
     and_then (load_module_data ch st mid) (\<lambda>module_data.
     let st = remove_as_dependent st mid (md_dependencies module_data)
     in and_then (map_err AccStd (abstract_code_id ch (env_contract ev))) (\<lambda>code.
     and_then (map_err AccAbstract (registry_contract_new ch code)) (\<lambda>registry.
     and_then (map_err AccAbstract
       (module_info_from_id (md_module module_data) (Version (md_version module_data)))) (\<lambda>mi.
     and_then (map_err AccRegistryError (registry_query_module ch registry mi)) (\<lambda>module.
     and_then (if should_be_whitelisted module
         then and_then (load_module_addr st mid) (\<lambda>module_addr.
           update_whitelisted_modules st [] [module_addr])
         else Ok st) (\<lambda>st.
     Ok (st\<lparr>account_modules := remove mid (account_modules st)\<rparr>, [])))))))))"

definition account_query_module ::
  "chain \<Rightarrow> env \<Rightarrow> module_info \<Rightarrow> contract_version option \<Rightarrow> module_response acc_result" where
  "account_query_module ch ev mi old_contract_version =
     and_then (map_err AccStd (abstract_code_id ch (env_contract ev))) (\<lambda>code.
     and_then (map_err AccAbstract (registry_contract_new ch code)) (\<lambda>registry.
     and_then (case mi_version mi of
         Version new_version \<Rightarrow>
           and_then (unwrap old_contract_version) (\<lambda>old_contract.
           and_then (unwrap (sv_parse (q_semver ch) new_version)) (\<lambda>new_version.
           and_then (unwrap (sv_parse (q_semver ch) (cv_version old_contract))) (\<lambda>old_version.
           if sv_less (q_semver ch) new_version old_version
           then Err (OlderVersion (sv_show (q_semver ch) new_version) (sv_show (q_semver ch) old_version))
           else and_then (map_err AccRegistryError (query_module_reference_raw ch registry mi))
             (\<lambda>r. Ok \<lparr>m_info = mi, m_reference = r\<rparr>))))
       | Latest \<Rightarrow> map_err AccRegistryError (registry_query_module ch registry mi)) (\<lambda>module.
     and_then (map_err AccRegistryError (registry_query_config ch registry mi)) (\<lambda>config.
     Ok \<lparr>mr_module = module, mr_config = config\<rparr>))))"

definition configure_adapter :: "addr \<Rightarrow> adapter_base_msg \<Rightarrow> cosmos_msg" where
  "configure_adapter adapter_address message = WasmExecute adapter_address (ToAdapterBase None message) []"

section \<open>Versions of installed modules (queries.rs)\<close>

text \<open>The stored \<open>cw2\<close> item when it names an Abstract module; otherwise what the registry knows of
  the address as a service or of its code as a standalone.\<close>

definition query_module_version ::
  "chain \<Rightarrow> addr \<Rightarrow> addr \<Rightarrow> (contract_version, std_error) result" where
  "query_module_version ch module_addr registry =
     (let from_registry =
        and_then (case query_service_info_raw ch registry module_addr of
            Ok module_info \<Rightarrow> Ok module_info
          | _ \<Rightarrow>
            and_then (q_contract_info ch module_addr) (\<lambda>ci.
            map_err (\<lambda>_. StdMsg ''StandaloneNotFound'')
              (query_standalone_info_raw ch registry (ci_code_id ci)))) (\<lambda>module_info.
        map_err (\<lambda>_. StdMsg ''MissingVersion'') (contract_version_of_module_info module_info))
      in case q_cw2 ch module_addr of
           Ok info \<Rightarrow>
             if is_ok (module_info_from_id (cv_contract info) (Version (cv_version info)))
             then Ok info else from_registry
         | _ \<Rightarrow> from_registry)"

section \<open>Upgrading modules (modules/migration.rs)\<close>

definition add_module_upgrade_to_context ::
  "account_state \<Rightarrow> string \<Rightarrow> dependency list \<Rightarrow> account_state acc_result" where
  "add_module_upgrade_to_context st mid module_deps =
     and_then (load_item (migrate_context st)) (\<lambda>upgraded_modules.
     Ok (st\<lparr>migrate_context := Some (upgraded_modules @ [(mid, module_deps)])\<rparr>))"

definition build_module_migrate_msg :: "addr \<Rightarrow> u64 \<Rightarrow> binary \<Rightarrow> cosmos_msg" where
  "build_module_migrate_msg module_addr new_code_id migrate_msg =
     WasmMigrate module_addr new_code_id migrate_msg"

definition replace_adapter ::
  "'c platform \<Rightarrow> env \<Rightarrow> account_state \<Rightarrow> addr \<Rightarrow> addr
   \<Rightarrow> (account_state \<times> cosmos_msg list) acc_result" where
  "replace_adapter pf ev st new_adapter_addr old_adapter_addr =
     and_then (map_err AccStd
       (p_authorized_addresses pf old_adapter_addr (env_contract ev))) (\<lambda>authorized_to_migrate.
     let msgs = [configure_adapter old_adapter_addr (UpdateAuthorizedAddresses [] authorized_to_migrate),
                 configure_adapter new_adapter_addr (UpdateAuthorizedAddresses authorized_to_migrate [])]
     in and_then (update_whitelisted_modules st [new_adapter_addr] [old_adapter_addr]) (\<lambda>st.
        Ok (st, msgs)))"

definition handle_adapter_migration ::
  "'c platform \<Rightarrow> chain \<Rightarrow> env \<Rightarrow> account_state \<Rightarrow> module_info \<Rightarrow> addr \<Rightarrow> addr
   \<Rightarrow> (account_state \<times> cosmos_msg list) acc_result" where
  "handle_adapter_migration pf ch ev st module_info old_adapter_addr new_adapter_addr =
     (let mid = module_id module_info
      in and_then (map_err AccAbstract
           (module_version_try_into (q_semver ch) (mi_version module_info))) (\<lambda>version.
         and_then (assert_migrate_requirements ch st mid version) (\<lambda>_.
         and_then (load_module_dependencies ch st mid) (\<lambda>old_deps.
         and_then (update_module_addresses st [(mid, new_adapter_addr)] []) (\<lambda>st.
         and_then (add_module_upgrade_to_context st mid old_deps) (\<lambda>st.
         replace_adapter pf ev st new_adapter_addr old_adapter_addr))))))"

definition handle_app_migration ::
  "chain \<Rightarrow> account_state \<Rightarrow> binary option \<Rightarrow> addr \<Rightarrow> module_info \<Rightarrow> u64
   \<Rightarrow> (account_state \<times> cosmos_msg list) acc_result" where
  "handle_app_migration ch st migrate_msg old_module_addr module_info code_id =
     (let mid = module_id module_info
      in and_then (map_err AccAbstract
           (module_version_try_into (q_semver ch) (mi_version module_info))) (\<lambda>version.
         and_then (assert_migrate_requirements ch st mid version) (\<lambda>_.
         and_then (load_module_dependencies ch st mid) (\<lambda>old_deps.
         and_then (add_module_upgrade_to_context st mid old_deps) (\<lambda>st.
         Ok (st, [build_module_migrate_msg old_module_addr code_id
           (case migrate_msg of Some m \<Rightarrow> m | None \<Rightarrow> ''{}'')]))))))"

definition set_migrate_msgs_and_context ::
  "'c platform \<Rightarrow> chain \<Rightarrow> env \<Rightarrow> account_state \<Rightarrow> module_info \<Rightarrow> binary option \<Rightarrow> cosmos_msg list
   \<Rightarrow> (account_state \<times> cosmos_msg list) acc_result" where
  "set_migrate_msgs_and_context pf ch ev st module_info migrate_msg msgs =
     and_then (map_err AccStd (abstract_code_id ch (env_contract ev))) (\<lambda>code.
     and_then (map_err AccAbstract (registry_contract_new ch code)) (\<lambda>registry.
     and_then (load_module_addr st (module_id module_info)) (\<lambda>old_module_addr.
     and_then (map_err AccStd (query_module_version ch old_module_addr registry)) (\<lambda>old_module_cw2.
     and_then (account_query_module ch ev module_info (Some old_module_cw2)) (\<lambda>requested_module.
     and_then (case m_reference (mr_module requested_module) of
         Adapter new_adapter_addr \<Rightarrow>
           handle_adapter_migration pf ch ev st (m_info (mr_module requested_module))
             old_module_addr new_adapter_addr
       | App code_id \<Rightarrow>
           handle_app_migration ch st migrate_msg old_module_addr
             (m_info (mr_module requested_module)) code_id
       | Standalone code_id \<Rightarrow>
           and_then (unwrap migrate_msg) (\<lambda>migrate_msg.
           Ok (st, [build_module_migrate_msg old_module_addr code_id migrate_msg]))
       | _ \<Rightarrow> Err (NotUpgradeable module_info)) (\<lambda>(st, migrate_msgs).
     Ok (st, msgs @ migrate_msgs)))))))"

definition self_upgrade_msg ::
  "chain \<Rightarrow> env \<Rightarrow> account_state \<Rightarrow> module_info \<Rightarrow> binary \<Rightarrow> cosmos_msg acc_result" where
  "self_upgrade_msg ch ev st module_info migrate_msg =
     and_then (load_item (a_cw2 st)) (\<lambda>contract.
     and_then (account_query_module ch ev module_info (Some contract)) (\<lambda>module.
     case m_reference (mr_module module) of
       Account account_code_id \<Rightarrow> Ok (WasmMigrate (env_contract ev) account_code_id migrate_msg)
     | _ \<Rightarrow> Err (AccRegistryError (RqInvalidReference module_info))))"

text \<open>The loop state: the account, the messages, the account's own upgrade and the ids so far.\<close>

record upgrading =
  up_state :: account_state
  up_msgs :: "cosmos_msg list"
  up_account :: "(module_info \<times> binary option) option"
  up_ids :: "string list"

definition upgrade_one ::
  "'c platform \<Rightarrow> chain \<Rightarrow> env \<Rightarrow> upgrading \<Rightarrow> module_info \<times> binary option \<Rightarrow> upgrading acc_result" where
  "upgrade_one pf ch ev up x =
     (case x of (module_info, migrate_msg) \<Rightarrow>
      let mid = module_id module_info
      in if mid \<in> set (up_ids up) then Err (DuplicateModuleMigration mid)
         else
         let up = up\<lparr>up_ids := up_ids up @ [mid]\<rparr>
         in if mid = ACCOUNT then Ok (up\<lparr>up_account := Some (module_info, migrate_msg)\<rparr>)
            else and_then (set_migrate_msgs_and_context pf ch ev (up_state up) module_info migrate_msg
              (up_msgs up)) (\<lambda>(st, msgs). Ok (up\<lparr>up_state := st, up_msgs := msgs\<rparr>)))"

text \<open>All messages but the last are sent without a reply.\<close>

definition with_last_reply :: "u64 \<Rightarrow> cosmos_msg list \<Rightarrow> sub_msg list" where
  "with_last_reply i ms = (if ms = [] then []
     else map plain_msg (butlast ms) @ [reply_on_success (last ms) i])"

definition upgrade_modules ::
  "'c platform \<Rightarrow> chain \<Rightarrow> env \<Rightarrow> account_state \<Rightarrow> message_info \<Rightarrow> (module_info \<times> binary option) list
   \<Rightarrow> acc_response acc_result" where
  "upgrade_modules pf ch ev st info modules =
     and_then (assert_account_owner ch st (info_sender info)) (\<lambda>_.
     and_then (ensure (modules \<noteq> []) NoUpdates) (\<lambda>_.
     let st = st\<lparr>calling_to_as_admin := Some CALLING_TO_AS_ADMIN_WILD_CARD\<rparr>
     in and_then (try_fold (upgrade_one pf ch ev)
       \<lparr>up_state = st, up_msgs = [], up_account = None, up_ids = []\<rparr> modules) (\<lambda>up.
     and_then (case up_account up of
         Some (account_info, account_migrate_msg) \<Rightarrow>
           and_then (self_upgrade_msg ch ev (up_state up) account_info
             (case account_migrate_msg of Some m \<Rightarrow> m | None \<Rightarrow> [])) (\<lambda>msg.
           Ok (up_msgs up @ [msg]))
       | None \<Rightarrow> Ok (up_msgs up)) (\<lambda>upgrade_msgs.
     Ok (up_state up,
       with_last_reply ASSERT_MODULE_DEPENDENCIES_REQUIREMENTS_REPLY_ID upgrade_msgs)))))"

definition check_migrated ::
  "chain \<Rightarrow> account_state \<Rightarrow> string \<times> dependency list \<Rightarrow> account_state acc_result" where
  "check_migrated ch st x =
     (case x of (migrated_module_id, old_deps) \<Rightarrow>
     and_then (maybe_remove_old_deps ch st migrated_module_id old_deps) (\<lambda>st.
     and_then (maybe_add_new_deps ch st migrated_module_id old_deps) (\<lambda>(st, new_deps).
     and_then (assert_dependency_requirements ch st new_deps migrated_module_id) (\<lambda>_.
     Ok st))))"

definition assert_modules_dependency_requirements ::
  "chain \<Rightarrow> account_state \<Rightarrow> account_state acc_result" where
  "assert_modules_dependency_requirements ch st =
     and_then (load_item (migrate_context st)) (\<lambda>migrated_modules.
     and_then (try_fold (check_migrated ch) st migrated_modules) (\<lambda>st.
     Ok (st\<lparr>calling_to_as_admin := None, migrate_context := Some []\<rparr>)))"

end
