(* ===== verification/Account_Contract.thy ===== *)
theory Account_Contract
  imports Account
begin

text \<open>
  The account contract, second part: execution on behalf of the account (\<open>execution.rs\<close>),
  configuration (\<open>config.rs\<close>), sub-accounts (\<open>sub_account.rs\<close>), replies (\<open>reply.rs\<close>), queries
  (\<open>queries.rs\<close>) and the entry points that dispatch to the handlers (\<open>contract.rs\<close>, \<open>migrate.rs\<close>).
\<close>

section \<open>Execution\<close>

definition assert_whitelisted_owner_or_self ::
  "chain \<Rightarrow> env \<Rightarrow> account_state \<Rightarrow> addr \<Rightarrow> unit acc_result" where
  "assert_whitelisted_owner_or_self ch ev st sndr =
     and_then (load_item (whitelisted_modules st)) (\<lambda>wl.
     if sndr \<in> set wl \<or> is_ok (assert_nested_owner ch (a_ownership st) sndr) \<or> sndr = env_contract ev
     then Ok () else Err SenderNotWhitelistedOrOwner)"

definition execute_msgs ::
  "chain \<Rightarrow> env \<Rightarrow> account_state \<Rightarrow> addr \<Rightarrow> cosmos_msg list \<Rightarrow> acc_response acc_result" where
  "execute_msgs ch ev st msg_sender msgs =
     and_then (assert_whitelisted_owner_or_self ch ev st msg_sender) (\<lambda>_. Ok (st, map plain_msg msgs))"

definition execute_msgs_with_data ::
  "chain \<Rightarrow> env \<Rightarrow> account_state \<Rightarrow> addr \<Rightarrow> cosmos_msg \<Rightarrow> acc_response acc_result" where
  "execute_msgs_with_data ch ev st msg_sender msg =
     and_then (assert_whitelisted_owner_or_self ch ev st msg_sender) (\<lambda>_.
     Ok (st, [reply_on_success msg FORWARD_RESPONSE_REPLY_ID]))"

definition execute_on_module ::
  "chain \<Rightarrow> env \<Rightarrow> account_state \<Rightarrow> message_info \<Rightarrow> string \<Rightarrow> binary \<Rightarrow> coin list
   \<Rightarrow> acc_response acc_result" where
  "execute_on_module ch ev st info mid exec_msg fnds =
     and_then (load_module_addr st mid) (\<lambda>module_addr.
     execute_msgs ch ev st (info_sender info) [WasmExecute module_addr (Raw exec_msg) fnds])"

definition admin_execute ::
  "chain \<Rightarrow> account_state \<Rightarrow> message_info \<Rightarrow> addr \<Rightarrow> binary \<Rightarrow> acc_response acc_result" where
  "admin_execute ch st info a exec_msg =
     and_then (assert_account_owner ch st (info_sender info)) (\<lambda>_.
     if calling_to_as_admin st \<noteq> None then Err CantChainAdminCalls
     else Ok (st\<lparr>calling_to_as_admin := Some a\<rparr>,
       [reply_on_success (WasmExecute a (Raw exec_msg) (info_funds info)) ADMIN_ACTION_REPLY_ID]))"

definition admin_execute_on_module ::
  "chain \<Rightarrow> account_state \<Rightarrow> message_info \<Rightarrow> string \<Rightarrow> binary \<Rightarrow> acc_response acc_result" where
  "admin_execute_on_module ch st info mid exec_msg =
     and_then (load_module_addr st mid) (\<lambda>module_addr. admin_execute ch st info module_addr exec_msg)"

definition ica_action ::
  "'c platform \<Rightarrow> chain \<Rightarrow> env \<Rightarrow> account_state \<Rightarrow> message_info \<Rightarrow> binary \<Rightarrow> acc_response acc_result" where
  "ica_action pf ch ev st info action_query =
     and_then (assert_whitelisted_owner_or_self ch ev st (info_sender info)) (\<lambda>_.
     and_then (ok_or (AccStd (StdMsg ''ica_client not found on account''))
       (load (account_modules st) ICA_CLIENT)) (\<lambda>ica_client_address.
     and_then (map_err AccStd (p_ica_action pf ica_client_address action_query)) (\<lambda>msgs.
     Ok (st, map plain_msg msgs))))"

section \<open>Configuration\<close>

definition update_suspension_status ::
  "chain \<Rightarrow> account_state \<Rightarrow> message_info \<Rightarrow> bool \<Rightarrow> acc_response acc_result" where
  "update_suspension_status ch st info is_suspended =
     and_then (assert_account_owner ch st (info_sender info)) (\<lambda>_.
     Ok (st\<lparr>suspension_status := Some is_suspended\<rparr>, []))"

definition update_account_status ::
  "chain \<Rightarrow> account_state \<Rightarrow> message_info \<Rightarrow> bool option \<Rightarrow> acc_response acc_result" where
  "update_account_status ch st info status =
     (case status of
        Some is_suspended \<Rightarrow> update_suspension_status ch st info is_suspended
      | None \<Rightarrow> Err NoUpdates)"

fun internal_config ::
  "chain \<Rightarrow> account_state \<Rightarrow> internal_config_action \<Rightarrow> acc_response acc_result" where
  "internal_config ch st (UpdateModuleAddresses to_add to_remove) =
     and_then (map_err AccStd (try_map (\<lambda>(a, b).
       and_then (q_addr_validate ch b) (\<lambda>ad. Ok (a, ad))) to_add)) (\<lambda>add.
     and_then (update_module_addresses st add to_remove) (\<lambda>st. Ok (st, [])))"
| "internal_config ch st (UpdateWhitelist to_add to_remove) =
     and_then (map_err AccStd (try_map (q_addr_validate ch) to_add)) (\<lambda>to_add.
     and_then (map_err AccStd (try_map (q_addr_validate ch) to_remove)) (\<lambda>to_remove.
     and_then (update_whitelisted_modules st to_add to_remove) (\<lambda>st. Ok (st, []))))"

definition update_internal_config ::
  "chain \<Rightarrow> account_state \<Rightarrow> message_info \<Rightarrow> internal_config_action \<Rightarrow> acc_response acc_result" where
  "update_internal_config ch st info action =
     and_then (assert_account_owner ch st (info_sender info)) (\<lambda>_. internal_config ch st action)"

definition update_info ::
  "chain \<Rightarrow> account_state \<Rightarrow> message_info \<Rightarrow> string option \<Rightarrow> string option \<Rightarrow> string option
   \<Rightarrow> acc_response acc_result" where
  "update_info ch st info name description link =
     and_then (assert_account_owner ch st (info_sender info)) (\<lambda>_.
     let ai = (case a_info st of Some i \<Rightarrow> i
           | None \<Rightarrow> \<lparr>ai_name = None, ai_description = None, ai_link = None\<rparr>)
     in and_then (case name of
         Some n \<Rightarrow> and_then (map_err AccValidation (validate_name n)) (\<lambda>_. Ok (ai\<lparr>ai_name := Some n\<rparr>))
       | None \<Rightarrow> Ok ai) (\<lambda>ai.
     and_then (map_err AccValidation (validate_description description)) (\<lambda>_.
     and_then (map_err AccValidation (validate_link link)) (\<lambda>_.
     Ok (st\<lparr>a_info := Some (ai\<lparr>ai_description := description, ai_link := link\<rparr>)\<rparr>, [])))))"

section \<open>Sub-accounts\<close>

text \<open>\<open>LOCAL_ACCOUNT_SEQUENCE.query\<close> and \<open>ACCOUNT_ADDRESSES.query\<close> at the registry.\<close>

definition query_local_sequence :: "chain \<Rightarrow> addr \<Rightarrow> account_sequence acc_result" where
  "query_local_sequence ch registry =
     and_then (map_err AccStd (q_registry ch registry)) (\<lambda>rst.
     ok_or (AccStd (StdNotFound ''sequence'')) (local_account_sequence rst))"

definition query_account_address :: "chain \<Rightarrow> addr \<Rightarrow> account_id \<Rightarrow> addr option acc_result" where
  "query_account_address ch registry aid =
     map_ok (\<lambda>rst. load (account_addresses rst) (acc_key aid)) (map_err AccStd (q_registry ch registry))"

text \<open>The sequence is queried even when an id is given: \<open>unwrap_or\<close> is strict.\<close>

definition create_sub_account ::
  "'c platform \<Rightarrow> chain \<Rightarrow> env \<Rightarrow> account_state \<Rightarrow> message_info \<Rightarrow> string option \<Rightarrow> string option
   \<Rightarrow> string option \<Rightarrow> string option \<Rightarrow> module_install_config list \<Rightarrow> u32 option
   \<Rightarrow> acc_response acc_result" where
  "create_sub_account pf ch ev st info name description link namespace install_mods account_id =
     and_then (assert_account_owner ch st (info_sender info)) (\<lambda>_.
     and_then (map_err AccStd (q_contract_info ch (env_contract ev))) (\<lambda>ci.
     let self_code_id = ci_code_id ci
     in and_then (map_err AccAbstract (registry_contract_new ch self_code_id)) (\<lambda>registry.
     and_then (query_local_sequence ch registry) (\<lambda>next_seq.
     let aid = account_id_local (case account_id of Some s \<Rightarrow> s | None \<Rightarrow> next_seq);
         salt = generate_instantiate_salt pf aid
     in and_then (map_err AccStd (p_checksum pf self_code_id)) (\<lambda>checksum.
     and_then (map_err AccStd (q_canonicalize ch (env_contract ev))) (\<lambda>self_canon_addr.
     and_then (map_err (\<lambda>_. AccInstantiate2AddressError)
       (p_instantiate2 pf checksum self_canon_addr salt)) (\<lambda>account_canon_addr.
     and_then (map_err AccStd (q_humanize ch account_canon_addr)) (\<lambda>account_addr.
     Ok (st, [plain_msg (WasmInstantiate2 self_code_id (info_funds info) (Some account_addr)
       (account_id_display aid)
       (AccountInit \<lparr>aim_code_id = self_code_id, aim_owner = Some (SubAccount (env_contract ev)),
          aim_account_id = Some aid, aim_namespace = namespace, aim_install_modules = install_mods,
          aim_name = name, aim_description = description, aim_link = link\<rparr>) salt)])))))))))"

definition account_of_seq :: "chain \<Rightarrow> env \<Rightarrow> u32 \<Rightarrow> addr option acc_result" where
  "account_of_seq ch ev i =
     and_then (map_err AccStd (abstract_code_id ch (env_contract ev))) (\<lambda>code.
     and_then (map_err AccAbstract (registry_contract_new ch code)) (\<lambda>registry.
     query_account_address ch registry (account_id_local i)))"

definition unregister_sub_account ::
  "chain \<Rightarrow> env \<Rightarrow> account_state \<Rightarrow> message_info \<Rightarrow> u32 \<Rightarrow> acc_response acc_result" where
  "unregister_sub_account ch ev st info i =
     and_then (account_of_seq ch ev i) (\<lambda>account.
     case account of
       Some a \<Rightarrow> (if a = info_sender info
         then Ok (st\<lparr>sub_accounts := remove i (sub_accounts st)\<rparr>, [])
         else Err SubAccountIsNotCaller)
     | None \<Rightarrow> Err SubAccountDoesntExist)"

definition register_sub_account ::
  "chain \<Rightarrow> env \<Rightarrow> account_state \<Rightarrow> message_info \<Rightarrow> u32 \<Rightarrow> acc_response acc_result" where
  "register_sub_account ch ev st info i =
     and_then (account_of_seq ch ev i) (\<lambda>account.
     if account = Some (info_sender info)
     then Ok (st\<lparr>sub_accounts := save i () (sub_accounts st)\<rparr>, [])
     else Err SubAccountRegisterFailed)"

fun handle_sub_account_action ::
  "chain \<Rightarrow> env \<Rightarrow> account_state \<Rightarrow> message_info \<Rightarrow> update_sub_account_action
   \<Rightarrow> acc_response acc_result" where
  "handle_sub_account_action ch ev st info (UnregisterSubAccount i) =
     unregister_sub_account ch ev st info i"
| "handle_sub_account_action ch ev st info (RegisterSubAccount i) =
     register_sub_account ch ev st info i"

definition maybe_update_sub_account_governance :: "account_state \<Rightarrow> cosmos_msg list acc_result" where
  "maybe_update_sub_account_governance st =
     and_then (map_err AccStd (load_ownership (a_ownership st))) (\<lambda>ow.
     and_then (ok_or (AccOwnership TransferNotFound) (own_pending_owner ow)) (\<lambda>pending_governance.
     and_then (case own_owner ow of
         SubAccount account \<Rightarrow>
           and_then (load_item (a_account_id st)) (\<lambda>i.
           Ok [WasmExecute account (ToAccountSub (UnregisterSubAccount (acc_seq i))) []])
       | _ \<Rightarrow> Ok []) (\<lambda>msgs.
     case pending_governance of
       SubAccount account \<Rightarrow>
         and_then (load_item (a_account_id st)) (\<lambda>i.
         Ok (msgs @ [WasmExecute account (ToAccountSub (RegisterSubAccount (acc_seq i))) []]))
     | _ \<Rightarrow> Ok msgs)))"

definition remove_account_from_contracts ::
  "chain \<Rightarrow> env \<Rightarrow> account_state \<Rightarrow> cosmos_msg list acc_result" where
  "remove_account_from_contracts ch ev st =
     and_then (load_item (a_account_id st)) (\<lambda>account_id.
     and_then (ensure (sub_accounts st = []) RenounceWithSubAccount) (\<lambda>_.
     and_then (map_err AccStd (load_ownership (a_ownership st))) (\<lambda>ow.
     let msgs = (case own_owner ow of
         SubAccount account \<Rightarrow>
           [WasmExecute account (ToAccountSub (UnregisterSubAccount (acc_seq account_id))) []]
       | _ \<Rightarrow> [])
     in and_then (map_err AccStd (abstract_code_id ch (env_contract ev))) (\<lambda>code.
     and_then (map_err AccAbstract (registry_contract_new ch code)) (\<lambda>registry.
     and_then (map_err AccRegistryError (query_namespaces ch registry [account_id])) (\<lambda>nss.
     Ok (msgs @ (if nss = [] then []
       else [WasmExecute registry (ToRegistry (ForgoNamespace [fst (last nss)])) []]))))))))"

section \<open>Replies\<close>

record reply_msg =
  rp_id :: u64
  rp_result :: "(binary option, string) result"

definition forward_response_reply :: "reply_msg \<Rightarrow> binary option acc_result" where
  "forward_response_reply rp = map_err (\<lambda>e. AccStd (StdMsg e)) (rp_result rp)"

definition admin_action_reply :: "account_state \<Rightarrow> account_state acc_result" where
  "admin_action_reply st = Ok (st\<lparr>calling_to_as_admin := None\<rparr>)"

definition register_one ::
  "chain \<Rightarrow> account_state \<Rightarrow> module \<times> addr option \<Rightarrow> account_state acc_result" where
  "register_one ch st x =
     (case x of (module, module_addr) \<Rightarrow>
     and_then (map_err AccAbstract
       (assert_module_data_validity (q_cw2 ch) (q_module_data ch) module module_addr)) (\<lambda>_.
     let mid = module_id (m_info module)
     in case m_reference module of
         App _ \<Rightarrow> map_ok (set_as_dependent st mid) (assert_install_requirements ch st mid)
       | Adapter _ \<Rightarrow> map_ok (set_as_dependent st mid) (assert_install_requirements ch st mid)
       | Standalone _ \<Rightarrow>
           map_ok (set_as_dependent st mid) (assert_install_requirements_standalone ch st mid)
       | _ \<Rightarrow> Ok st))"

definition register_dependencies :: "chain \<Rightarrow> account_state \<Rightarrow> account_state acc_result" where
  "register_dependencies ch st =
     and_then (load_item (install_modules_context st)) (\<lambda>modules.
     try_fold (register_one ch) st modules)"

definition account_reply ::
  "chain \<Rightarrow> account_state \<Rightarrow> reply_msg \<Rightarrow> (account_state \<times> binary option) acc_result" where
  "account_reply ch st msg =
     (if rp_id msg = FORWARD_RESPONSE_REPLY_ID then map_ok (Pair st) (forward_response_reply msg)
      else if rp_id msg = ADMIN_ACTION_REPLY_ID then map_ok (\<lambda>st. (st, None)) (admin_action_reply st)
      else if rp_id msg = REGISTER_MODULES_DEPENDENCIES_REPLY_ID
      then map_ok (\<lambda>st. (st, None)) (register_dependencies ch st)
      else if rp_id msg = ASSERT_MODULE_DEPENDENCIES_REQUIREMENTS_REPLY_ID
      then map_ok (\<lambda>st. (st, None)) (assert_modules_dependency_requirements ch st)
      else Err UnexpectedReply)"

section \<open>Entry points\<close>

definition verify_nft_ownership :: "chain \<Rightarrow> addr \<Rightarrow> addr \<Rightarrow> string \<Rightarrow> unit acc_result" where
  "verify_nft_ownership ch sndr nft_addr nft_id =
     and_then (map_err AccStd (q_nft_owner ch nft_addr nft_id)) (\<lambda>own.
     and_then (map_err AccStd (q_addr_validate ch own)) (\<lambda>own.
     ensure (sndr = own) (AccOwnership NotOwner)))"

definition verify_new_owner ::
  "chain \<Rightarrow> env \<Rightarrow> message_info \<Rightarrow> governance_details \<Rightarrow> unit acc_result" where
  "verify_new_owner ch ev info governance =
     (case governance of
        SubAccount account \<Rightarrow>
          ensure (info_sender info = account) (SubAccountCreatorNotAccount (info_sender info) account)
      | NFT collection_addr token_id \<Rightarrow>
          verify_nft_ownership ch (info_sender info) collection_addr token_id
      | AbstractAccount a \<Rightarrow>
          and_then (ensure (a = env_contract ev) (AbstractAccountInvalidAddress a (env_contract ev)))
            (\<lambda>_. Err AbstractAccountNoAuth)
      | _ \<Rightarrow> Ok ())"

text \<open>\<open>SimulateInstallModules\<close> at the module factory; an abort of the query comes back as an error.\<close>

definition simulate_install ::
  "'c platform \<Rightarrow> chain \<Rightarrow> addr \<Rightarrow> module_info list \<Rightarrow> coin list acc_result" where
  "simulate_install pf ch module_factory infos =
     (case query_simulate_install_modules pf ch module_factory infos of
        Ok resp \<Rightarrow> Ok (total_required_funds resp)
      | Err e \<Rightarrow> Err (AccStd e)
      | Panic \<Rightarrow> Err (AccStd (StdMsg ''aborted'')))"

definition check_funds ::
  "'c coins_lib \<Rightarrow> 'c \<Rightarrow> coin list \<Rightarrow> unit acc_result" where
  "check_funds cl total_fee fnds =
     and_then (unwrap_res (coins_try_from cl fnds)) (\<lambda>total_received.
     map_ok (\<lambda>_. ()) (try_fold (\<lambda>rest fee.
       map_err (\<lambda>_. AccAbstract (FeeError (coins_into_vec cl total_fee) fnds)) (coins_sub cl rest fee))
       total_received (coins_into_vec cl total_fee)))"

definition instantiate_modules ::
  "'c platform \<Rightarrow> chain \<Rightarrow> addr \<Rightarrow> account_state \<Rightarrow> account_instantiate_msg \<Rightarrow> 'c
   \<Rightarrow> (account_state \<times> sub_msg list \<times> 'c) acc_result" where
  "instantiate_modules pf ch module_factory st msg total_fee =
     (if aim_install_modules msg = [] then Ok (st, [], total_fee)
      else
      and_then (simulate_install pf ch module_factory (map mic_module (aim_install_modules msg))) (\<lambda>fnds.
      and_then (unwrap_res (try_fold (coins_add (p_coins pf)) total_fee fnds)) (\<lambda>total_fee.
      and_then (install_modules_internal pf ch st (aim_install_modules msg) fnds (aim_code_id msg))
        (\<lambda>(st, install_msgs). Ok (st, install_msgs, total_fee)))))"

definition account_instantiate ::
  "'c platform \<Rightarrow> chain \<Rightarrow> env \<Rightarrow> account_state \<Rightarrow> message_info \<Rightarrow> account_instantiate_msg
   \<Rightarrow> acc_response acc_result" where
  "account_instantiate pf ch ev st info msg =
     (let st = st\<lparr>a_cw2 := Some \<lparr>cv_contract = ACCOUNT, cv_version = CONTRACT_VERSION\<rparr>\<rparr>
     in and_then (map_err AccAbstract (registry_contract_new ch (aim_code_id msg))) (\<lambda>registry.
     and_then (map_err AccAbstract (module_factory_contract_new ch (aim_code_id msg))) (\<lambda>module_factory.
     and_then (case aim_account_id msg of
         Some i \<Rightarrow> Ok i
       | None \<Rightarrow> map_ok account_id_local (query_local_sequence ch registry)) (\<lambda>account_id.
     let st = st\<lparr>a_account_id := Some account_id, whitelisted_modules := Some []\<rparr>
     in and_then (map_err AccValidation (validate_description (aim_description msg))) (\<lambda>_.
     and_then (map_err AccValidation (validate_link (aim_link msg))) (\<lambda>_.
     and_then (case aim_name msg of
         Some n \<Rightarrow> map_err AccValidation (validate_name n) | None \<Rightarrow> Ok ()) (\<lambda>_.
     let ai = \<lparr>ai_name = aim_name msg, ai_description = aim_description msg, ai_link = aim_link msg\<rparr>;
         st = (if has_info ai then st\<lparr>a_info := Some ai\<rparr> else st)\<lparr>migrate_context := Some []\<rparr>;
         gov = (case aim_owner msg of Some g \<Rightarrow> g | None \<Rightarrow> AbstractAccount (env_contract ev))
     in and_then (map_err AccAbstract (gov_verify ch gov)) (\<lambda>governance.
     and_then (verify_new_owner ch ev info governance) (\<lambda>_.
     and_then (map_err AccOwnership (initialize_owner ch gov)) (\<lambda>ow.
     let st = st\<lparr>a_ownership := Some ow, suspension_status := Some False\<rparr>
     in and_then (if aim_namespace msg \<noteq> None
         then map_ok (\<lambda>fee. case fee of Some c \<Rightarrow> [c] | None \<Rightarrow> [])
           (map_err AccRegistryError (namespace_registration_fee_query ch registry))
         else Ok []) (\<lambda>namespace_fee.
     and_then (unwrap_res (coins_try_from (p_coins pf) namespace_fee)) (\<lambda>total_fee.
     let add_msg = plain_msg (WasmExecute registry
           (ToRegistry (AddAccount (aim_namespace msg) (info_sender info))) namespace_fee);
         register_msgs = (case own_owner ow of
             SubAccount account \<Rightarrow> [plain_msg (WasmExecute account
               (ToAccountSub (RegisterSubAccount (acc_seq account_id))) [])]
           | _ \<Rightarrow> [])
     in and_then (instantiate_modules pf ch module_factory st msg total_fee)
       (\<lambda>(st, install_msgs, total_fee).
     and_then (check_funds (p_coins pf) total_fee (info_funds info)) (\<lambda>_.
     Ok (st, add_msg # register_msgs @ install_msgs)))))))))))))))"

fun account_handle ::
  "'c platform \<Rightarrow> chain \<Rightarrow> env \<Rightarrow> account_state \<Rightarrow> message_info \<Rightarrow> account_execute_msg
   \<Rightarrow> acc_response acc_result" where
  "account_handle pf ch ev st info (Execute msgs) = execute_msgs ch ev st (info_sender info) msgs"
| "account_handle pf ch ev st info (AdminExecute a msg) =
     and_then (map_err AccStd (q_addr_validate ch a)) (\<lambda>a. admin_execute ch st info a msg)"
| "account_handle pf ch ev st info (ExecuteWithData msg) =
     execute_msgs_with_data ch ev st (info_sender info) msg"
| "account_handle pf ch ev st info (ExecuteOnModule mid exec_msg fnds) =
     execute_on_module ch ev st info mid exec_msg fnds"
| "account_handle pf ch ev st info (AdminExecuteOnModule mid msg) =
     admin_execute_on_module ch st info mid msg"
| "account_handle pf ch ev st info (IcaAction action_query) = ica_action pf ch ev st info action_query"
| "account_handle pf ch ev st info (UpdateInternalConfig config) =
     update_internal_config ch st info config"
| "account_handle pf ch ev st info (InstallModules modules) = install_modules pf ch ev st info modules"
| "account_handle pf ch ev st info (UninstallModule mid) = uninstall_module ch ev st info mid"
| "account_handle pf ch ev st info (Upgrade modules) = upgrade_modules pf ch ev st info modules"
| "account_handle pf ch ev st info (UpdateInfo name description link) =
     update_info ch st info name description link"
| "account_handle pf ch ev st info (UpdateOwnership action) =
     and_then (case action of
         TransferOwnership _ _ \<Rightarrow> Ok []
       | AcceptOwnership \<Rightarrow> maybe_update_sub_account_governance st
       | RenounceOwnership \<Rightarrow> remove_account_from_contracts ch ev st) (\<lambda>msgs.
     and_then (map_err AccOwnership
       (update_ownership ch (env_block ev) (info_sender info) action (a_ownership st))) (\<lambda>ow.
     Ok (st\<lparr>a_ownership := Some ow\<rparr>, map plain_msg msgs)))"
| "account_handle pf ch ev st info (CreateSubAccount name description link namespace mods account_id) =
     create_sub_account pf ch ev st info name description link namespace mods account_id"
| "account_handle pf ch ev st info (UpdateSubAccount action) =
     handle_sub_account_action ch ev st info action"
| "account_handle pf ch ev st info (UpdateStatus _) = Panic"
| "account_handle pf ch ev st info AddAuthMethod = Err NoAuthFeature"
| "account_handle pf ch ev st info (RemoveAuthMethod _) = Err NoAuthFeature"

definition account_execute ::
  "'c platform \<Rightarrow> chain \<Rightarrow> env \<Rightarrow> account_state \<Rightarrow> message_info \<Rightarrow> account_execute_msg
   \<Rightarrow> acc_response acc_result" where
  "account_execute pf ch ev st info msg =
     (case msg of
        UpdateStatus status \<Rightarrow> update_account_status ch st info status
      | _ \<Rightarrow>
          and_then (load_item (suspension_status st)) (\<lambda>is_suspended.
          if is_suspended then Err AccountSuspended
          else account_handle pf ch ev st info msg))"

definition account_migrate :: "chain \<Rightarrow> account_state \<Rightarrow> acc_response acc_result" where
  "account_migrate ch st =
     and_then (unwrap (sv_parse (q_semver ch) CONTRACT_VERSION)) (\<lambda>version.
     and_then (load_item (a_cw2 st)) (\<lambda>current.
     if cv_contract current = ACCOUNT
     then and_then (map_err AccAbstract
         (assert_contract_upgrade (q_semver ch) (a_cw2 st) ACCOUNT version)) (\<lambda>_.
       Ok (st\<lparr>a_cw2 := Some \<lparr>cv_contract = ACCOUNT, cv_version = CONTRACT_VERSION\<rparr>\<rparr>, []))
     else Err (AccAbstract (ContractNameMismatch (cv_contract current) ACCOUNT))))"

end
