(* ===== verification/Account_Queries.thy ===== *)
theory Account_Queries
  imports Account_Contract
begin

text \<open>
  The queries of an account (\<open>account/src/queries.rs\<close>). A query is the value it serialises. A
  \<open>BTreeMap\<close> is an ordered store.
\<close>

definition ACCOUNT_DEFAULT_LIMIT :: u8 where "ACCOUNT_DEFAULT_LIMIT = 5"
definition ACCOUNT_MAX_LIMIT :: u8 where "ACCOUNT_MAX_LIMIT = 10"

definition account_limit :: "u8 option \<Rightarrow> nat" where
  "account_limit l = unat (min (case l of Some n \<Rightarrow> n | None \<Rightarrow> ACCOUNT_DEFAULT_LIMIT) ACCOUNT_MAX_LIMIT)"

record account_config_response =
  acr_whitelisted_addresses :: "addr list"
  acr_account_id :: account_id
  acr_is_suspended :: bool
  acr_registry_address :: addr
  acr_module_factory_address :: addr

record account_module_info =
  ami_id :: string
  ami_version :: contract_version
  ami_address :: addr

definition query_module_addresses :: "account_state \<Rightarrow> string list \<Rightarrow> (string, addr) store" where
  "query_module_addresses st module_names =
     fold (\<lambda>mid modules. case load (account_modules st) mid of
         Some a \<Rightarrow> save mid a modules | None \<Rightarrow> modules) module_names []"

definition account_registry :: "chain \<Rightarrow> env \<Rightarrow> (addr, std_error) result" where
  "account_registry ch ev =
     and_then (abstract_code_id ch (env_contract ev)) (\<lambda>code.
     map_err (\<lambda>_. StdMsg ''registry'') (registry_contract_new ch code))"

definition insert_module_version ::
  "chain \<Rightarrow> addr \<Rightarrow> (string, contract_version) store \<Rightarrow> string \<times> addr
   \<Rightarrow> ((string, contract_version) store, std_error) result" where
  "insert_module_version ch registry vs x =
     (case x of (name, address) \<Rightarrow>
      and_then (query_module_version ch address registry) (\<lambda>v. Ok (save name v vs)))"

definition query_module_versions ::
  "chain \<Rightarrow> env \<Rightarrow> account_state \<Rightarrow> string list \<Rightarrow> ((string, contract_version) store, std_error) result" where
  "query_module_versions ch ev st module_names =
     (let addresses = query_module_addresses st module_names
      in and_then (account_registry ch ev) (\<lambda>registry.
         try_fold (insert_module_version ch registry) [] addresses))"

definition handle_module_address_query :: "account_state \<Rightarrow> string list \<Rightarrow> (string \<times> addr) list" where
  "handle_module_address_query st ids = query_module_addresses st ids"

definition handle_module_versions_query ::
  "chain \<Rightarrow> env \<Rightarrow> account_state \<Rightarrow> string list \<Rightarrow> (contract_version list, std_error) result" where
  "handle_module_versions_query ch ev st ids = map_ok (map snd) (query_module_versions ch ev st ids)"

definition handle_account_info_query :: "account_state \<Rightarrow> account_info" where
  "handle_account_info_query st = (case a_info st of Some i \<Rightarrow> i
     | None \<Rightarrow> \<lparr>ai_name = None, ai_description = None, ai_link = None\<rparr>)"

definition handle_config_query ::
  "chain \<Rightarrow> env \<Rightarrow> account_state \<Rightarrow> (account_config_response, std_error) result" where
  "handle_config_query ch ev st =
     and_then (ok_or (StdNotFound ''account_id'') (a_account_id st)) (\<lambda>account_id.
     and_then (abstract_code_id ch (env_contract ev)) (\<lambda>code.
     and_then (map_err (\<lambda>_. StdMsg ''registry'') (registry_contract_new ch code)) (\<lambda>registry.
     and_then (map_err (\<lambda>_. StdMsg ''module_factory'') (module_factory_contract_new ch code)) (\<lambda>module_factory.
     and_then (ok_or (StdNotFound ''is_suspended'') (suspension_status st)) (\<lambda>is_suspended.
     and_then (ok_or (StdNotFound ''whitelisted_modules'') (whitelisted_modules st)) (\<lambda>wl.
     Ok \<lparr>acr_whitelisted_addresses = wl, acr_account_id = account_id, acr_is_suspended = is_suspended,
         acr_registry_address = registry, acr_module_factory_address = module_factory\<rparr>))))))"

definition handle_module_info_query ::
  "chain \<Rightarrow> env \<Rightarrow> account_state \<Rightarrow> string option \<Rightarrow> u8 option
   \<Rightarrow> (account_module_info list, std_error) result" where
  "handle_module_info_query ch ev st last_module_id limit =
     (let ids_and_addr = take (account_limit limit)
        (entries_where (\<lambda>k. case last_module_id of Some l \<Rightarrow> l < k | None \<Rightarrow> True) (account_modules st))
      in and_then (account_registry ch ev) (\<lambda>registry.
         try_map (\<lambda>(i, address). and_then (query_module_version ch address registry) (\<lambda>v.
           Ok \<lparr>ami_id = i, ami_version = v, ami_address = address\<rparr>)) ids_and_addr))"

definition handle_sub_accounts_query :: "account_state \<Rightarrow> u32 option \<Rightarrow> u8 option \<Rightarrow> u32 list" where
  "handle_sub_accounts_query st last_account_id limit =
     take (account_limit limit) (map fst
       (entries_where (\<lambda>k. case last_account_id of Some l \<Rightarrow> l < k | None \<Rightarrow> True) (sub_accounts st)))"

definition handle_top_level_owner_query :: "chain \<Rightarrow> env \<Rightarrow> (addr, std_error) result" where
  "handle_top_level_owner_query ch ev = query_top_level_owner_addr ch (env_contract ev)"

section \<open>What the address query answers\<close>

lemma load_query_module_addresses:
  "load (query_module_addresses st ids) mid = (if mid \<in> set ids then load (account_modules st) mid else None)"
proof -
  have "load (fold (\<lambda>mid modules. case load (account_modules st) mid of
      Some a \<Rightarrow> save mid a modules | None \<Rightarrow> modules) ids m) mid
    = (if mid \<in> set ids \<and> load (account_modules st) mid \<noteq> None then load (account_modules st) mid
       else load m mid)" for m
    by (induction ids arbitrary: m) (auto split: option.splits)
  then show ?thesis by (auto simp: query_module_addresses_def)
qed

lemma ordered_query_module_addresses: "ordered (query_module_addresses st ids)"
proof -
  have "ordered m \<Longrightarrow> ordered (fold (\<lambda>mid modules. case load (account_modules st) mid of
      Some a \<Rightarrow> save mid a modules | None \<Rightarrow> modules) ids m)" for m
    by (induction ids arbitrary: m) (auto intro: ordered_save split: option.split)
  then show ?thesis by (simp add: query_module_addresses_def)
qed

lemma first_module_address:
  "handle_module_address_query st [mid] = (case load (account_modules st) mid of
     Some a \<Rightarrow> [(mid, a)] | None \<Rightarrow> [])"
  by (simp add: handle_module_address_query_def query_module_addresses_def split: option.split)

end
