(* ===== verification/Ibc_Host.thy ===== *)
theory Ibc_Host
  imports Ans_Queries Account_Queries
begin

text \<open>
  The IBC host (\<open>native/ibc-host/src\<close>): it receives what remote accounts and modules send through the
  proxy registered for their chain, creates their local accounts and passes their messages on. Its
  stored state is the owner, the proxies of the connected chains in both directions and the action to
  run after an account was created.

  The record \<open>ibc_lib\<close> holds what is outside: the JSON form of an account id, the stored states of the
  name service and of accounts, raw smart queries, and the parser of execute responses.

  Theorems: the proxy maps are inverse, a chain reaches only accounts that came from it, and an action
  for a missing account is carried out after its creation.
\<close>

section \<open>Messages, state and errors\<close>

record installed_module =
  im_module_info :: module_info
  im_account_id :: "account_id option"

datatype internal_action =
  HostRegister (hr_name: "string option") (hr_description: "string option") (hr_link: "string option")
    (hr_namespace: "string option") (hr_install_modules: "module_install_config list")

datatype helper_action = SendAllBack

datatype host_action =
    Dispatch "account_execute_msg list"
  | Internal internal_action
  | Helpers helper_action

datatype host_execute_msg =
    HostUpdateOwnership cw_action
  | RegisterChainProxy truncated_chain_id string
  | RemoveChainProxy truncated_chain_id
  | HostExecute account_id string host_action
  | ModuleExecute installed_module module_info binary
  | Fund account_id truncated_chain_id

text \<open>What the host sends: a message it builds for the chain, a message for an account, and the
  message of a module on another chain for a module here.\<close>

datatype ibc_msg =
    Plain cosmos_msg
  | ToAccount addr account_execute_msg
  | ToModuleIbc addr truncated_chain_id module_info binary

type_synonym ibc_sub_msg = "ibc_msg \<times> u64 option"

record action_after_creation =
  ac_client_account_address :: string
  ac_account_id :: account_id
  ac_action :: host_action
  ac_chain_name :: truncated_chain_id

record host_state =
  h_ownership :: "cw_ownership option"
  h_cw2 :: "contract_version option"
  h_module_data :: "module_data option"
  chain_proxies :: "(truncated_chain_id, addr) store"
  reverse_chain_proxies :: "(addr, truncated_chain_id) store"
  temp_action_after_creation :: "action_after_creation option"

definition empty_host :: host_state where
  "empty_host = \<lparr>h_ownership = None, h_cw2 = None, h_module_data = None, chain_proxies = [],
     reverse_chain_proxies = [], temp_action_after_creation = None\<rparr>"

datatype host_error =
    HostStd std_error
  | HostAbstract abstract_error
  | HostOwnership cw_ownership_error
  | HostRegistry registry_query_error
  | HostAns ans_query_error
  | HostInstantiate2
  | HostSemVer
  | ProxyAddressExists
  | WrongModuleAction string

type_synonym 'a host_result = "('a, host_error) result"
type_synonym host_response = "host_state \<times> ibc_sub_msg list"

record ibc_lib =
  il_json_account_id :: "account_id \<Rightarrow> binary"
  il_ans :: ans_querier
  il_account :: "addr \<Rightarrow> (account_state, std_error) result"
  il_smart_query :: "addr \<Rightarrow> binary \<Rightarrow> (binary, std_error) result"
  il_parse_execute_response :: "binary \<Rightarrow> (binary option, string) result"

definition INIT_BEFORE_ACTION_REPLY_ID :: u64 where "INIT_BEFORE_ACTION_REPLY_ID = 28379"
definition RESPONSE_REPLY_ID :: u64 where "RESPONSE_REPLY_ID = 362738"
definition ICS20 :: string where "ICS20 = ''ics-20''"

section \<open>Accounts of remote owners (account_commands.rs)\<close>

definition host_registry :: "chain \<Rightarrow> env \<Rightarrow> addr host_result" where
  "host_registry ch ev =
     and_then (map_err HostStd (abstract_code_id ch (env_contract ev))) (\<lambda>code.
     map_err HostAbstract (registry_contract_new ch code))"

definition get_account :: "chain \<Rightarrow> env \<Rightarrow> account_id \<Rightarrow> addr host_result" where
  "get_account ch ev account_id =
     and_then (host_registry ch ev) (\<lambda>registry.
     map_err HostRegistry (registry_account ch registry account_id))"

definition receive_register ::
  "'c platform \<Rightarrow> ibc_lib \<Rightarrow> chain \<Rightarrow> env \<Rightarrow> account_id \<Rightarrow> internal_action \<Rightarrow> bool \<Rightarrow> coin list
   \<Rightarrow> ibc_sub_msg list host_result" where
  "receive_register pf il ch ev account_id r with_reply fnds =
     and_then (host_registry ch ev) (\<lambda>registry.
     and_then (map_err HostAbstract (trace_verify_remote (acc_trace account_id))) (\<lambda>_.
     let salt = il_json_account_id il account_id
     in and_then (map_err HostAbstract (module_info_from_id_latest ACCOUNT)) (\<lambda>account_module_info.
     and_then (map_err HostRegistry (registry_query_module ch registry account_module_info)) (\<lambda>module.
     case m_reference module of
       Account code_id \<Rightarrow>
         and_then (map_err HostStd (p_checksum pf code_id)) (\<lambda>checksum.
         and_then (map_err HostStd (q_canonicalize ch (env_contract ev))) (\<lambda>self_canon_addr.
         and_then (map_err (\<lambda>_. HostInstantiate2)
           (p_instantiate2 pf checksum self_canon_addr salt)) (\<lambda>account_canon_addr.
         and_then (map_err HostStd (q_humanize ch account_canon_addr)) (\<lambda>account_addr.
         Ok [(Plain (WasmInstantiate2 code_id fnds (Some account_addr) (account_id_display account_id)
             (AccountInit \<lparr>aim_code_id = code_id,
                aim_owner = Some (External (env_contract ev) ''abstract-ibc''),
                aim_account_id = Some account_id, aim_namespace = hr_namespace r,
                aim_install_modules = hr_install_modules r, aim_name = hr_name r,
                aim_description = hr_description r, aim_link = hr_link r\<rparr>) salt),
           if with_reply then Some INIT_BEFORE_ACTION_REPLY_ID else None)]))))
     | _ \<Rightarrow> Err (HostRegistry (RqInvalidReference account_module_info))))))"

definition receive_dispatch :: "addr \<Rightarrow> account_execute_msg list \<Rightarrow> ibc_sub_msg list" where
  "receive_dispatch account account_msgs =
     map (\<lambda>m. (ToAccount account m, Some RESPONSE_REPLY_ID)) account_msgs"

text \<open>The transfer of the coins is commented out in the code: the account executes no message.\<close>

definition send_all_back ::
  "ibc_lib \<Rightarrow> chain \<Rightarrow> env \<Rightarrow> addr \<Rightarrow> string \<Rightarrow> truncated_chain_id \<Rightarrow> ibc_msg host_result" where
  "send_all_back il ch ev account client_account_address src =
     and_then (map_err HostStd (abstract_code_id ch (env_contract ev))) (\<lambda>code.
     and_then (map_err HostAbstract (ans_host_new ch code)) (\<lambda>ans.
     and_then (map_err HostAns (query_channel (il_ans il) ans
       \<lparr>connected_chain = src, che_protocol = ICS20\<rparr>)) (\<lambda>ics20_channel_id.
     Ok (ToAccount account (Execute [])))))"

definition receive_send_all_back ::
  "ibc_lib \<Rightarrow> chain \<Rightarrow> env \<Rightarrow> addr \<Rightarrow> string \<Rightarrow> truncated_chain_id \<Rightarrow> ibc_sub_msg list host_result" where
  "receive_send_all_back il ch ev account client_account_address src =
     and_then (send_all_back il ch ev account client_account_address src) (\<lambda>m. Ok [(m, None)])"

section \<open>Packets (endpoints/packet.rs)\<close>

definition remote_account_name :: "truncated_chain_id \<Rightarrow> account_id \<Rightarrow> string" where
  "remote_account_name src account_id =
     ''Remote Abstract Account for '' @ src @ ''/'' @ account_id_display account_id"

fun run_on_account ::
  "ibc_lib \<Rightarrow> chain \<Rightarrow> env \<Rightarrow> addr \<Rightarrow> string \<Rightarrow> truncated_chain_id \<Rightarrow> host_action \<Rightarrow> ibc_sub_msg list host_result" where
  "run_on_account il ch ev account account_address src (Dispatch account_msgs) =
     Ok (receive_dispatch account account_msgs)"
| "run_on_account il ch ev account account_address src (Helpers SendAllBack) =
     receive_send_all_back il ch ev account account_address src"
| "run_on_account il ch ev account account_address src (Internal _) = Panic"

definition handle_host_action ::
  "'c platform \<Rightarrow> ibc_lib \<Rightarrow> chain \<Rightarrow> env \<Rightarrow> host_state \<Rightarrow> truncated_chain_id \<Rightarrow> string \<Rightarrow> account_id
   \<Rightarrow> host_action \<Rightarrow> host_response host_result" where
  "handle_host_action pf il ch ev st src account_address received_account_id action =
     (let account_id = account_id_push_chain received_account_id src
      in case action of
           Internal r \<Rightarrow>
             and_then (receive_register pf il ch ev account_id r False []) (\<lambda>out. Ok (st, out))
         | _ \<Rightarrow>
             (case get_account ch ev account_id of
                Ok account \<Rightarrow>
                  and_then (run_on_account il ch ev account account_address src action) (\<lambda>out. Ok (st, out))
              | Err _ \<Rightarrow>
                  and_then (receive_register pf il ch ev account_id
                    (HostRegister (Some (remote_account_name src account_id)) None None None []) True [])
                    (\<lambda>out. Ok (st\<lparr>temp_action_after_creation := Some \<lparr>
                       ac_client_account_address = account_address, ac_account_id = received_account_id,
                       ac_action = action, ac_chain_name = src\<rparr>\<rparr>, out))
              | Panic \<Rightarrow> Panic))"

text \<open>The account a module of a remote account acts for: an account of this chain that the remote
  account came from, or the account here that came from the remote chain.\<close>

definition client_to_host_module_account_id ::
  "env \<Rightarrow> truncated_chain_id \<Rightarrow> account_id \<Rightarrow> account_id host_result" where
  "client_to_host_module_account_id ev remote_chain account_id =
     (case acc_trace account_id of
        Local \<Rightarrow> Ok (account_id\<lparr>acc_trace := trace_push_chain Local remote_chain\<rparr>)
      | Remote trace \<Rightarrow>
          if trace = [] then Panic
          else if from_chain_id (chain_id (env_block ev)) = last trace
          then Ok (account_id\<lparr>acc_trace :=
            (if butlast trace = [] then Local else Remote (butlast trace))\<rparr>)
          else Ok (account_id\<lparr>acc_trace := Remote (trace @ [remote_chain])\<rparr>))"

text \<open>\<open>InstalledModuleIdentification::addr\<close> (\<open>native/ibc/ibc_client.rs\<close>)\<close>

definition no_account_id_error :: abstract_error where
  "no_account_id_error = AbsStd (StdMsg ''Account id not specified in installed module definition'')"

definition installed_module_account ::
  "chain \<Rightarrow> addr \<Rightarrow> installed_module \<Rightarrow> (addr, abstract_error) result" where
  "installed_module_account ch registry im =
     and_then (ok_or no_account_id_error (im_account_id im)) (\<lambda>target_account_id.
     map_err AbsRegistryError (registry_account ch registry target_account_id))"

definition app_address ::
  "ibc_lib \<Rightarrow> installed_module \<Rightarrow> addr \<Rightarrow> (addr, abstract_error) result" where
  "app_address il im account =
     and_then (map_err AbsStd (il_account il account)) (\<lambda>acc.
     case handle_module_address_query acc [module_id (im_module_info im)] of
       x # _ \<Rightarrow> Ok (snd x)
     | [] \<Rightarrow> Err (AppNotInstalled (module_info_display (im_module_info im))))"

definition installed_module_addr ::
  "ibc_lib \<Rightarrow> chain \<Rightarrow> addr \<Rightarrow> installed_module \<Rightarrow> (module_reference \<times> addr, abstract_error) result" where
  "installed_module_addr il ch registry im =
     and_then (map_err AbsRegistryError (registry_query_module ch registry (im_module_info im))) (\<lambda>module.
     and_then (case m_reference module of
         Account code_id \<Rightarrow>
           and_then (installed_module_account ch registry im) (\<lambda>account.
           and_then (map_err AbsStd (q_contract_info ch account)) (\<lambda>ci.
           if ci_code_id ci = code_id then Ok account
           else Err (AbsStd (StdMsg ''Account contract doesn't correspond to code id of the account''))))
       | Native a \<Rightarrow> Ok a
       | Adapter a \<Rightarrow> Ok a
       | Service a \<Rightarrow> Ok a
       | App _ \<Rightarrow> and_then (installed_module_account ch registry im) (app_address il im)
       | Standalone _ \<Rightarrow> and_then (installed_module_account ch registry im) (app_address il im))
       (\<lambda>target_addr. Ok (m_reference module, target_addr)))"

definition wrong_module_action :: host_error where
  "wrong_module_action = WrongModuleAction
     ''Can't send module-to-module message to an account, service or a native module''"

definition handle_module_execute ::
  "ibc_lib \<Rightarrow> chain \<Rightarrow> env \<Rightarrow> host_state \<Rightarrow> truncated_chain_id \<Rightarrow> installed_module \<Rightarrow> module_info \<Rightarrow> binary
   \<Rightarrow> host_response host_result" where
  "handle_module_execute il ch ev st src source_module target_module msg =
     and_then (host_registry ch ev) (\<lambda>registry.
     and_then (case im_account_id source_module of
         None \<Rightarrow> Ok None
       | Some a \<Rightarrow> map_ok Some (client_to_host_module_account_id ev src a)) (\<lambda>account_id.
     and_then (map_err HostAbstract (installed_module_addr il ch registry
       \<lparr>im_module_info = target_module, im_account_id = account_id\<rparr>)) (\<lambda>(reference, address).
     case reference of
       Account _ \<Rightarrow> Err wrong_module_action
     | Native _ \<Rightarrow> Err wrong_module_action
     | Service _ \<Rightarrow> Err wrong_module_action
     | _ \<Rightarrow> Ok (st, [(ToModuleIbc address src (im_module_info source_module) msg, None)]))))"

definition handle_host_module_query ::
  "ibc_lib \<Rightarrow> chain \<Rightarrow> env \<Rightarrow> installed_module \<Rightarrow> binary \<Rightarrow> binary host_result" where
  "handle_host_module_query il ch ev target_module msg =
     and_then (host_registry ch ev) (\<lambda>registry.
     and_then (map_err HostAbstract (installed_module_addr il ch registry target_module)) (\<lambda>(reference, address).
     map_err HostStd (il_smart_query il address msg)))"

section \<open>Entry points\<close>

definition assert_host_owner :: "chain \<Rightarrow> host_state \<Rightarrow> addr \<Rightarrow> unit host_result" where
  "assert_host_owner ch st sndr = map_err HostOwnership (q_cwo_assert ch (h_ownership st) sndr)"

definition register_chain_proxy ::
  "chain \<Rightarrow> host_state \<Rightarrow> message_info \<Rightarrow> truncated_chain_id \<Rightarrow> string \<Rightarrow> host_response host_result" where
  "register_chain_proxy ch st info chain proxy =
     and_then (assert_host_owner ch st (info_sender info)) (\<lambda>_.
     and_then (map_err HostAbstract (chain_verify chain)) (\<lambda>_.
     and_then (map_err HostStd (q_addr_validate ch proxy)) (\<lambda>proxy.
     if has (chain_proxies st) chain \<or> has (reverse_chain_proxies st) proxy then Err ProxyAddressExists
     else Ok (st\<lparr>chain_proxies := save chain proxy (chain_proxies st),
                 reverse_chain_proxies := save proxy chain (reverse_chain_proxies st)\<rparr>, []))))"

definition remove_chain_proxy ::
  "chain \<Rightarrow> host_state \<Rightarrow> message_info \<Rightarrow> truncated_chain_id \<Rightarrow> host_response host_result" where
  "remove_chain_proxy ch st info chain =
     and_then (assert_host_owner ch st (info_sender info)) (\<lambda>_.
     and_then (map_err HostAbstract (chain_verify chain)) (\<lambda>_.
     let st = (case load (chain_proxies st) chain of
         Some proxy \<Rightarrow> st\<lparr>reverse_chain_proxies := remove proxy (reverse_chain_proxies st)\<rparr>
       | None \<Rightarrow> st)
     in Ok (st\<lparr>chain_proxies := remove chain (chain_proxies st)\<rparr>, [])))"

definition load_src_chain :: "host_state \<Rightarrow> addr \<Rightarrow> truncated_chain_id host_result" where
  "load_src_chain st sndr = map_err HostStd (load_err (reverse_chain_proxies st) sndr)"

definition handle_fund ::
  "'c platform \<Rightarrow> ibc_lib \<Rightarrow> chain \<Rightarrow> env \<Rightarrow> host_state \<Rightarrow> message_info \<Rightarrow> account_id \<Rightarrow> truncated_chain_id
   \<Rightarrow> host_response host_result" where
  "handle_fund pf il ch ev st info src_account src =
     (let account_id = account_id_push_chain src_account src
      in case get_account ch ev account_id of
           Ok account \<Rightarrow> Ok (st, [(Plain (BankSend account (info_funds info)), None)])
         | Err _ \<Rightarrow>
             and_then (receive_register pf il ch ev account_id
               (HostRegister (Some (remote_account_name src account_id)) None None None []) False
               (info_funds info)) (\<lambda>out. Ok (st, out))
         | Panic \<Rightarrow> Panic)"

fun host_execute ::
  "'c platform \<Rightarrow> ibc_lib \<Rightarrow> chain \<Rightarrow> env \<Rightarrow> host_state \<Rightarrow> message_info \<Rightarrow> host_execute_msg
   \<Rightarrow> host_response host_result" where
  "host_execute pf il ch ev st info (RegisterChainProxy chain proxy) =
     register_chain_proxy ch st info chain proxy"
| "host_execute pf il ch ev st info (RemoveChainProxy chain) = remove_chain_proxy ch st info chain"
| "host_execute pf il ch ev st info (HostExecute account_id account_address action) =
     and_then (load_src_chain st (info_sender info)) (\<lambda>src.
     handle_host_action pf il ch ev st src account_address account_id action)"
| "host_execute pf il ch ev st info (HostUpdateOwnership action) =
     and_then (map_err HostOwnership
       (q_cwo_update ch (h_ownership st) (env_block ev) (info_sender info) action)) (\<lambda>ow.
     Ok (st\<lparr>h_ownership := Some ow\<rparr>, []))"
| "host_execute pf il ch ev st info (ModuleExecute source_module target_module msg) =
     and_then (load_src_chain st (info_sender info)) (\<lambda>src.
     handle_module_execute il ch ev st src source_module target_module msg)"
| "host_execute pf il ch ev st info (Fund src_account src) =
     handle_fund pf il ch ev st info src_account src"

definition host_instantiate :: "chain \<Rightarrow> host_state \<Rightarrow> message_info \<Rightarrow> host_response host_result" where
  "host_instantiate ch st info =
     (let st = st\<lparr>h_cw2 := Some \<lparr>cv_contract = IBC_HOST, cv_version = CONTRACT_VERSION\<rparr>\<rparr>
      in and_then (map_err HostStd (q_cwo_initialize ch (Some (info_sender info)))) (\<lambda>ow.
         Ok (st\<lparr>h_ownership := Some ow\<rparr>, [])))"

definition reply_execute_action ::
  "'c platform \<Rightarrow> ibc_lib \<Rightarrow> chain \<Rightarrow> env \<Rightarrow> host_state \<Rightarrow> host_response host_result" where
  "reply_execute_action pf il ch ev st =
     and_then (ok_or (HostStd (StdNotFound ''temp_action'')) (temp_action_after_creation st)) (\<lambda>cache.
     handle_host_action pf il ch ev (st\<lparr>temp_action_after_creation := None\<rparr>) (ac_chain_name cache)
       (ac_client_account_address cache) (ac_account_id cache) (ac_action cache))"

definition reply_forward_response_data :: "ibc_lib \<Rightarrow> reply_msg \<Rightarrow> binary option" where
  "reply_forward_response_data il rp =
     (case rp_result rp of
        Ok d \<Rightarrow>
          (case il_parse_execute_response il (case d of Some b \<Rightarrow> b | None \<Rightarrow> []) of
             Ok (Some data) \<Rightarrow> Some data
           | _ \<Rightarrow> None)
      | _ \<Rightarrow> None)"

text \<open>A reply answers with the messages it sends and the data it sets.\<close>

definition host_reply ::
  "'c platform \<Rightarrow> ibc_lib \<Rightarrow> chain \<Rightarrow> env \<Rightarrow> host_state \<Rightarrow> reply_msg
   \<Rightarrow> (host_response \<times> binary option) host_result" where
  "host_reply pf il ch ev st rp =
     (if rp_id rp = INIT_BEFORE_ACTION_REPLY_ID
      then map_ok (\<lambda>r. (r, None)) (reply_execute_action pf il ch ev st)
      else if rp_id rp = RESPONSE_REPLY_ID then Ok ((st, []), reply_forward_response_data il rp)
      else Err (HostStd (StdMsg ''Not implemented'')))"

definition assert_cw_contract_upgrade ::
  "semver_lib \<Rightarrow> contract_version option \<Rightarrow> string \<Rightarrow> version \<Rightarrow> (unit, abstract_error) result" where
  "assert_cw_contract_upgrade sv cw2 to_contract to_version =
     and_then (unwrap (sv_parse sv (sv_show sv to_version))) (assert_contract_upgrade sv cw2 to_contract)"

definition host_migrate :: "chain \<Rightarrow> host_state \<Rightarrow> host_response host_result" where
  "host_migrate ch st =
     and_then (unwrap (sv_parse (q_semver ch) CONTRACT_VERSION)) (\<lambda>to_version.
     and_then (map_err HostAbstract
       (assert_cw_contract_upgrade (q_semver ch) (h_cw2 st) IBC_HOST to_version)) (\<lambda>_.
     Ok (st\<lparr>h_cw2 := Some \<lparr>cv_contract = IBC_HOST, cv_version = CONTRACT_VERSION\<rparr>,
            h_module_data := Some (migrate_module_data (h_module_data st) IBC_HOST CONTRACT_VERSION None)\<rparr>, [])))"

section \<open>Queries (endpoints/query.rs)\<close>

record host_config =
  hc_ans_host_address :: addr
  hc_module_factory_address :: addr
  hc_registry_address :: addr

definition host_config_query :: "chain \<Rightarrow> env \<Rightarrow> host_config host_result" where
  "host_config_query ch ev =
     and_then (map_err HostStd (abstract_code_id ch (env_contract ev))) (\<lambda>code.
     and_then (map_err HostAbstract (ans_host_new ch code)) (\<lambda>ans.
     and_then (map_err HostAbstract (module_factory_contract_new ch code)) (\<lambda>mf.
     and_then (map_err HostAbstract (registry_contract_new ch code)) (\<lambda>registry.
     Ok \<lparr>hc_ans_host_address = ans, hc_module_factory_address = mf, hc_registry_address = registry\<rparr>))))"

definition associated_client :: "host_state \<Rightarrow> string \<Rightarrow> addr host_result" where
  "associated_client st chain =
     and_then (map_err HostAbstract (chain_from_string chain)) (\<lambda>chain.
     map_err HostStd (load_err (chain_proxies st) chain))"

end
