(* ===== verification/Ibc_Client.thy ===== *)
theory Ibc_Client
  imports Ibc_Host
begin

text \<open>
  The IBC client (\<open>native/ibc-client/src\<close>): accounts and modules of this chain send actions, module
  calls, queries and funds to other chains through it, by way of the polytone note registered for the
  chain, and it receives the callbacks of the notes and of the ICS-20 transfer module.

  The record \<open>client_lib\<close> holds what is outside, besides what the host already uses (\<open>ibc_lib\<close>): JSON
  of the callbacks and of the memo, the protobuf form of the transfer response, \<open>cw_utils::one_coin\<close>
  and the stored account of an app. The paginated listings rest on \<open>cw_paginate\<close> and are left out.
\<close>

section \<open>Messages of polytone (polytone_callbacks.rs, ibc_client.rs, ibc.rs)\<close>

record callback_request =
  cr_receiver :: string
  cr_msg :: binary

datatype query_callback_result =
    QcrSuccess "binary list"
  | QcrError u64 string

record sub_event =
  ev_ty :: string
  ev_attributes :: "(string \<times> string) list"

record sub_msg_response =
  smr_events :: "sub_event list"
  smr_data :: "binary option"

record execution_response =
  executed_by :: string
  er_result :: "sub_msg_response list"

datatype execution_callback_result =
    EcrSuccess execution_response
  | EcrError string

datatype polytone_callback =
    PcQuery query_callback_result
  | PcExecute execution_callback_result
  | PcFatalError string

record callback_message =
  cbm_initiator :: addr
  cbm_initiator_msg :: binary
  cbm_result :: polytone_callback

text \<open>\<open>QueryRequest\<close> with a custom query, and what a smart query carries.\<close>

datatype wasm_query =
    WasmSmart string binary
  | HostModuleQuery string installed_module binary
  | WasmOther binary

datatype 'c query_request =
    QCustom 'c
  | QBank binary
  | QStaking binary
  | QStargate string binary
  | QIbc binary
  | QWasm wasm_query
  | QOther binary

type_synonym module_query = "installed_module \<times> binary"

datatype ibc_client_callback =
    ModuleRemoteAction string binary binary
  | ModuleRemoteQuery string binary "module_query query_request list"
  | CreateAccount account_id
  | WhoAmI

datatype ibc_result =
    IrQuery "module_query query_request list" query_callback_result
  | IrExecute binary execution_callback_result
  | IrFatalError string

fun from_query :: "polytone_callback \<Rightarrow> module_query query_request list \<Rightarrow> (ibc_result, std_error) result" where
  "from_query (PcQuery q) queries = Ok (IrQuery queries q)"
| "from_query (PcExecute _) queries = Err (StdMsg ''Expected a query result, got an execute result'')"
| "from_query (PcFatalError e) queries = Ok (IrFatalError e)"

fun from_execute :: "polytone_callback \<Rightarrow> binary \<Rightarrow> (ibc_result, std_error) result" where
  "from_execute (PcQuery _) initiator_msg = Err (StdMsg ''Expected an execution result, got a query result'')"
| "from_execute (PcExecute e) initiator_msg = Ok (IrExecute initiator_msg e)"
| "from_execute (PcFatalError e) initiator_msg = Ok (IrFatalError e)"

text \<open>Indexing a vector panics beyond its end.\<close>

definition index :: "'a list \<Rightarrow> nat \<Rightarrow> ('a, 'e) result" where
  "index xs i = (if i < length xs then Ok (xs ! i) else Panic)"

fun get_query_result ::
  "ibc_result \<Rightarrow> nat \<Rightarrow> (module_query query_request \<times> binary, std_error) result" where
  "get_query_result (IrQuery queries (QcrSuccess results)) i =
     and_then (index queries i) (\<lambda>q. and_then (index results i) (\<lambda>r. Ok (q, r)))"
| "get_query_result (IrQuery queries (QcrError _ e)) i = Err (StdMsg e)"
| "get_query_result (IrExecute _ _) i = Err (StdMsg ''expected query, got execute ibc result'')"
| "get_query_result (IrFatalError e) i = Err (StdMsg e)"

fun get_execute_events :: "ibc_result \<Rightarrow> (sub_event list, std_error) result" where
  "get_execute_events (IrExecute _ (EcrSuccess items)) =
     and_then (index (er_result items) 0) (\<lambda>res. Ok (smr_events res))"
| "get_execute_events (IrExecute _ (EcrError e)) = Err (StdMsg e)"
| "get_execute_events (IrQuery _ _) = Err (StdMsg ''expected execute, got query ibc result'')"
| "get_execute_events (IrFatalError e) = Err (StdMsg e)"

section \<open>State, messages and errors\<close>

record ibc_infrastructure =
  polytone_note :: addr
  remote_abstract_host :: string
  remote_proxy :: "string option"

record account_callback_payload =
  acp_channel_id :: string
  acp_account_address :: addr
  acp_funds :: coin
  acp_msgs :: "binary list"

type_synonym packet_key = "subkey \<times> u64"

record client_state =
  c_ownership :: "cw_ownership option"
  c_cw2 :: "contract_version option"
  c_module_data :: "module_data option"
  ibc_infra :: "(truncated_chain_id, ibc_infrastructure) store"
  reverse_polytone_note :: "(addr, truncated_chain_id) store"
  remote_accounts :: "(account_key \<times> truncated_chain_id, string) store"
  ics20_account_callbacks :: "(packet_key, addr \<times> coin \<times> binary list) store"
  ics20_account_callback_payload :: "account_callback_payload option"

definition empty_client :: client_state where
  "empty_client = \<lparr>c_ownership = None, c_cw2 = None, c_module_data = None, ibc_infra = [],
     reverse_polytone_note = [], remote_accounts = [], ics20_account_callbacks = [],
     ics20_account_callback_payload = None\<rparr>"

datatype client_execute_msg =
    ClientUpdateOwnership cw_action
  | RegisterInfrastructure truncated_chain_id string string
  | SendFunds truncated_chain_id "string option" "string option"
  | SendFundsWithActions truncated_chain_id "binary list"
  | ClientRegister truncated_chain_id "string option" "module_install_config list"
  | ModuleIbcAction truncated_chain_id module_info binary "binary option"
  | IbcQuery truncated_chain_id "module_query query_request list" binary
  | RemoteAction truncated_chain_id host_action
  | RemoveHost truncated_chain_id
  | Callback callback_message

text \<open>What the note of a chain is asked to run there: calls of the remote host.\<close>

datatype remote_call = RemoteCall string host_execute_msg

record hook_memo =
  hm_contract :: string
  hm_msg :: host_execute_msg
  hm_ibc_callback :: "addr option"

record msg_transfer =
  mt_source_port :: string
  mt_source_channel :: string
  mt_token :: "coin option"
  mt_sender :: string
  mt_receiver :: string
  mt_timeout_timestamp :: u64
  mt_memo :: string

datatype client_msg =
    NoteExecute addr "remote_call list" "callback_request option" u64
  | NoteQuery addr "unit query_request list" callback_request u64
  | IbcTransfer string string coin u64
  | StargateTransfer msg_transfer
  | IbcCallback addr binary ibc_result
  | ClientPlain cosmos_msg

type_synonym client_sub_msg = "client_msg \<times> u64 option"

datatype sdk_error =
    NotAModule addr
  | WrongModuleInfo addr module_info
  | SdkAbstract abstract_error
  | SdkStd std_error
  | SdkRegistry registry_query_error
  | SdkOnlyAdmin
  | MissingHandler string
  | MissingModule string
  | MissingDependency string
  | CallbackNotCalledByIbcClient addr addr string
  | ModuleIbcNotCalledByHost addr addr string
  | NoModuleIbcHandler string
  | SdkAnsHost ans_query_error
  | SdkAsset string

datatype client_error =
    ClientStd std_error
  | ClientAbstract abstract_error
  | ClientSdk sdk_error
  | ClientOwnership cw_ownership_error
  | ClientRegistry registry_query_error
  | ClientAns ans_query_error
  | ClientPayment string
  | UnregisteredChain string
  | ForbiddenInternalCall
  | ClientUnauthorized
  | IbcFailed callback_message
  | HostAddressExists
  | IbcClientNotInstalled account_id
  | UnexpectedReply

type_synonym 'a client_result = "('a, client_error) result"
type_synonym client_response = "client_state \<times> client_sub_msg list"

record client_lib =
  cl_json_callback :: "ibc_client_callback \<Rightarrow> binary"
  cl_from_json_callback :: "binary \<Rightarrow> (ibc_client_callback, std_error) result"
  cl_json_memo :: "hook_memo \<Rightarrow> (string, std_error) result"
  cl_decode_transfer :: "binary \<Rightarrow> (u64, string) result"
  cl_one_coin :: "coin list \<Rightarrow> (coin, string) result"
  cl_app_account :: "addr \<Rightarrow> (addr, std_error) result"

text \<open>\<open>PACKET_LIFETIME\<close> in seconds; a timestamp counts nanoseconds.\<close>

definition PACKET_LIFETIME :: u64 where "PACKET_LIFETIME = 60 * 60"
definition SEND_FUNDS_WITH_ACTIONS_REPLY_ID :: u64 where "SEND_FUNDS_WITH_ACTIONS_REPLY_ID = 1"
definition ABSTRACT_EVENT_TYPE :: string where "ABSTRACT_EVENT_TYPE = ''wasm-abstract''"

definition packet_timeout :: "env \<Rightarrow> u64 client_result" where
  "packet_timeout ev = unwrap (checked_add (time (env_block ev)) (PACKET_LIFETIME * 1000000000))"

definition client_code :: "chain \<Rightarrow> env \<Rightarrow> u64 client_result" where
  "client_code ch ev = map_err ClientStd (abstract_code_id ch (env_contract ev))"

definition client_registry :: "chain \<Rightarrow> u64 \<Rightarrow> addr client_result" where
  "client_registry ch code = map_err ClientAbstract (registry_contract_new ch code)"

definition client_ans :: "chain \<Rightarrow> u64 \<Rightarrow> addr client_result" where
  "client_ans ch code = map_err ClientAbstract (ans_host_new ch code)"

definition assert_client_owner :: "chain \<Rightarrow> client_state \<Rightarrow> addr \<Rightarrow> unit client_result" where
  "assert_client_owner ch st sndr = map_err ClientOwnership (q_cwo_assert ch (c_ownership st) sndr)"

definition client_assert_account :: "chain \<Rightarrow> addr \<Rightarrow> addr \<Rightarrow> addr client_result" where
  "client_assert_account ch registry sndr = map_err ClientRegistry (assert_account ch registry sndr)"

definition client_account_id :: "chain \<Rightarrow> addr \<Rightarrow> account_id client_result" where
  "client_account_id ch account = map_err (\<lambda>e. ClientSdk (SdkStd e)) (q_account_id ch account)"

definition load_infra :: "client_state \<Rightarrow> truncated_chain_id \<Rightarrow> ibc_infrastructure client_result" where
  "load_infra st host_chain = map_err ClientStd (load_err (ibc_infra st) host_chain)"

definition verify_host_chain :: "truncated_chain_id \<Rightarrow> unit client_result" where
  "verify_host_chain host_chain = map_err ClientAbstract (chain_verify host_chain)"

section \<open>Infrastructure\<close>

definition execute_register_infrastructure ::
  "client_lib \<Rightarrow> chain \<Rightarrow> env \<Rightarrow> client_state \<Rightarrow> message_info \<Rightarrow> truncated_chain_id \<Rightarrow> string \<Rightarrow> string
   \<Rightarrow> client_response client_result" where
  "execute_register_infrastructure cl ch ev st info host_chain host note =
     and_then (verify_host_chain host_chain) (\<lambda>_.
     and_then (assert_client_owner ch st (info_sender info)) (\<lambda>_.
     and_then (map_err ClientStd (q_addr_validate ch note)) (\<lambda>note.
     if has (ibc_infra st) host_chain \<or> has (reverse_polytone_note st) note then Err HostAddressExists
     else Ok (st\<lparr>ibc_infra := save host_chain \<lparr>polytone_note = note, remote_abstract_host = host,
                   remote_proxy = None\<rparr> (ibc_infra st),
                 reverse_polytone_note := save note host_chain (reverse_polytone_note st)\<rparr>,
       [(NoteExecute note [] (Some \<lparr>cr_receiver = env_contract ev, cr_msg = cl_json_callback cl WhoAmI\<rparr>)
           PACKET_LIFETIME, None)]))))"

definition execute_remove_host ::
  "chain \<Rightarrow> client_state \<Rightarrow> message_info \<Rightarrow> truncated_chain_id \<Rightarrow> client_response client_result" where
  "execute_remove_host ch st info host_chain =
     and_then (verify_host_chain host_chain) (\<lambda>_.
     and_then (assert_client_owner ch st (info_sender info)) (\<lambda>_.
     let st = (case load (ibc_infra st) host_chain of
         Some infra \<Rightarrow> st\<lparr>reverse_polytone_note := remove (polytone_note infra) (reverse_polytone_note st)\<rparr>
       | None \<Rightarrow> st)
     in Ok (st\<lparr>ibc_infra := remove host_chain (ibc_infra st)\<rparr>, [])))"

section \<open>Actions of accounts\<close>

definition send_remote_host_action ::
  "client_state \<Rightarrow> account_id \<Rightarrow> addr \<Rightarrow> truncated_chain_id \<Rightarrow> host_action \<Rightarrow> callback_request option
   \<Rightarrow> client_msg client_result" where
  "send_remote_host_action st account_id account host_chain action callback_request =
     and_then (load_infra st host_chain) (\<lambda>infra.
     Ok (NoteExecute (polytone_note infra)
       [RemoteCall (remote_abstract_host infra) (HostExecute account_id account action)]
       callback_request PACKET_LIFETIME))"

definition execute_send_packet ::
  "chain \<Rightarrow> env \<Rightarrow> client_state \<Rightarrow> message_info \<Rightarrow> truncated_chain_id \<Rightarrow> host_action
   \<Rightarrow> client_response client_result" where
  "execute_send_packet ch ev st info host_chain action =
     and_then (verify_host_chain host_chain) (\<lambda>_.
     and_then (client_code ch ev) (\<lambda>code.
     and_then (client_registry ch code) (\<lambda>registry.
     and_then (case action of
         Internal _ \<Rightarrow> Err ForbiddenInternalCall
       | _ \<Rightarrow>
           and_then (client_assert_account ch registry (info_sender info)) (\<lambda>account.
           and_then (client_account_id ch account) (\<lambda>account_id.
           send_remote_host_action st account_id account host_chain action None))) (\<lambda>m.
     Ok (st, [(m, None)])))))"

definition execute_register_account ::
  "ibc_lib \<Rightarrow> client_lib \<Rightarrow> chain \<Rightarrow> env \<Rightarrow> client_state \<Rightarrow> message_info \<Rightarrow> truncated_chain_id
   \<Rightarrow> string option \<Rightarrow> module_install_config list \<Rightarrow> client_response client_result" where
  "execute_register_account il cl ch ev st info host_chain namespace to_install =
     and_then (verify_host_chain host_chain) (\<lambda>_.
     and_then (client_code ch ev) (\<lambda>code.
     and_then (client_registry ch code) (\<lambda>registry.
     and_then (client_assert_account ch registry (info_sender info)) (\<lambda>account.
     and_then (client_account_id ch account) (\<lambda>account_id.
     and_then (map_err ClientStd (map_ok handle_account_info_query (il_account il account))) (\<lambda>account_info.
     and_then (send_remote_host_action st account_id account host_chain
       (Internal (HostRegister (ai_name account_info) (ai_description account_info) (ai_link account_info)
         namespace to_install))
       (Some \<lparr>cr_receiver = env_contract ev, cr_msg = cl_json_callback cl (CreateAccount account_id)\<rparr>)) (\<lambda>m.
     Ok (st, [(m, None)]))))))))"

section \<open>Calls and queries of modules\<close>

text \<open>\<open>ModuleRegistry::module_info\<close> (\<open>abstract-sdk/src/apis/version_registry.rs\<close>): the registered
  module behind an address.\<close>

definition sdk_module_info :: "chain \<Rightarrow> addr \<Rightarrow> addr \<Rightarrow> (module, sdk_error) result" where
  "sdk_module_info ch registry address =
     and_then (map_err (\<lambda>_. NotAModule address) (q_module_data ch address)) (\<lambda>data.
     and_then (map_err SdkAbstract (module_info_from_id (md_module data) (Version (md_version data)))) (\<lambda>mi.
     and_then (map_err SdkRegistry (registry_query_module ch registry mi)) (\<lambda>module.
     let by_address = (\<lambda>a. if a = address then Ok module else Err (WrongModuleInfo address (m_info module)));
         by_code = (\<lambda>code. and_then (map_err SdkStd (q_contract_info ch address)) (\<lambda>ci.
           if code = ci_code_id ci then Ok module else Err (WrongModuleInfo address (m_info module))))
     in case m_reference module of
          Adapter a \<Rightarrow> by_address a
        | Native a \<Rightarrow> by_address a
        | Service a \<Rightarrow> by_address a
        | App code \<Rightarrow> by_code code
        | Standalone code \<Rightarrow> by_code code
        | Account code \<Rightarrow> by_code code)))"

definition app_source ::
  "ibc_lib \<Rightarrow> client_lib \<Rightarrow> chain \<Rightarrow> addr \<Rightarrow> addr \<Rightarrow> module_info \<Rightarrow> installed_module client_result" where
  "app_source il cl ch registry sndr mi =
     and_then (map_err ClientStd (cl_app_account cl sndr)) (\<lambda>account.
     and_then (map_err ClientRegistry (registry_account_id ch registry account)) (\<lambda>account_id.
     and_then (map_err ClientRegistry (registry_account ch registry account_id)) (\<lambda>account.
     and_then (map_err ClientStd (il_account il account)) (\<lambda>acc.
     and_then (ensure (load (account_modules acc) IBC_CLIENT \<noteq> None) (IbcClientNotInstalled account_id)) (\<lambda>_.
     Ok \<lparr>im_module_info = mi, im_account_id = Some account_id\<rparr>)))))"

definition execute_send_module_to_module_packet ::
  "ibc_lib \<Rightarrow> client_lib \<Rightarrow> chain \<Rightarrow> env \<Rightarrow> client_state \<Rightarrow> message_info \<Rightarrow> truncated_chain_id
   \<Rightarrow> module_info \<Rightarrow> binary \<Rightarrow> binary option \<Rightarrow> client_response client_result" where
  "execute_send_module_to_module_packet il cl ch ev st info host_chain target_module msg callback =
     and_then (verify_host_chain host_chain) (\<lambda>_.
     and_then (client_code ch ev) (\<lambda>code.
     and_then (client_registry ch code) (\<lambda>registry.
     and_then (map_err ClientSdk (sdk_module_info ch registry (info_sender info))) (\<lambda>module.
     and_then (case m_reference module of
         Adapter _ \<Rightarrow> Ok \<lparr>im_module_info = m_info module, im_account_id = None\<rparr>
       | App _ \<Rightarrow> app_source il cl ch registry (info_sender info) (m_info module)
       | _ \<Rightarrow> Err ClientUnauthorized) (\<lambda>source_module.
     let callback_request = map_option (\<lambda>c. \<lparr>cr_receiver = env_contract ev,
           cr_msg = cl_json_callback cl (ModuleRemoteAction (info_sender info) c msg)\<rparr>) callback
     in and_then (load_infra st host_chain) (\<lambda>infra.
        Ok (st, [(NoteExecute (polytone_note infra)
          [RemoteCall (remote_abstract_host infra) (ModuleExecute source_module target_module msg)]
          callback_request PACKET_LIFETIME, None)])))))))"

fun map_query :: "string \<Rightarrow> module_query query_request \<Rightarrow> unit query_request client_result" where
  "map_query ibc_host (QCustom (target_module, msg)) = Ok (QWasm (HostModuleQuery ibc_host target_module msg))"
| "map_query ibc_host (QBank q) = Ok (QBank q)"
| "map_query ibc_host (QStaking q) = Ok (QStaking q)"
| "map_query ibc_host (QStargate path data) = Ok (QStargate path data)"
| "map_query ibc_host (QIbc q) = Ok (QIbc q)"
| "map_query ibc_host (QWasm q) = Ok (QWasm q)"
| "map_query ibc_host (QOther _) = Panic"

definition execute_send_query ::
  "client_lib \<Rightarrow> env \<Rightarrow> client_state \<Rightarrow> message_info \<Rightarrow> truncated_chain_id
   \<Rightarrow> module_query query_request list \<Rightarrow> binary \<Rightarrow> client_response client_result" where
  "execute_send_query cl ev st info host_chain queries callback =
     and_then (verify_host_chain host_chain) (\<lambda>_.
     and_then (load_infra st host_chain) (\<lambda>infra.
     let callback_request = \<lparr>cr_receiver = env_contract ev,
           cr_msg = cl_json_callback cl (ModuleRemoteQuery (info_sender info) callback queries)\<rparr>
     in and_then (try_map (map_query (remote_abstract_host infra)) queries) (\<lambda>queries.
        Ok (st, [(NoteQuery (polytone_note infra) queries callback_request PACKET_LIFETIME, None)]))))"

section \<open>Funds\<close>

text \<open>The transfer message of the deployed contract: with a memo the protobuf message, without one
  \<open>IbcMsg::Transfer\<close>.\<close>

definition ics_20_send_msg ::
  "env \<Rightarrow> string \<Rightarrow> coin \<Rightarrow> string \<Rightarrow> string option \<Rightarrow> client_msg client_result" where
  "ics_20_send_msg ev ics20_channel_id coin receiver memo =
     and_then (packet_timeout ev) (\<lambda>timeout.
     case memo of
       Some memo \<Rightarrow> Ok (StargateTransfer \<lparr>mt_source_port = ''transfer'', mt_source_channel = ics20_channel_id,
         mt_token = Some coin, mt_sender = env_contract ev, mt_receiver = receiver,
         mt_timeout_timestamp = timeout, mt_memo = memo\<rparr>)
     | None \<Rightarrow> Ok (IbcTransfer ics20_channel_id receiver coin timeout))"

definition resolve_ics20_channel ::
  "ibc_lib \<Rightarrow> addr \<Rightarrow> truncated_chain_id \<Rightarrow> string client_result" where
  "resolve_ics20_channel il ans host_chain =
     map_err ClientAns (query_channel (il_ans il) ans \<lparr>connected_chain = host_chain, che_protocol = ICS20\<rparr>)"

definition execute_send_funds ::
  "ibc_lib \<Rightarrow> chain \<Rightarrow> env \<Rightarrow> client_state \<Rightarrow> message_info \<Rightarrow> truncated_chain_id \<Rightarrow> string option
   \<Rightarrow> string option \<Rightarrow> client_response client_result" where
  "execute_send_funds il ch ev st info host_chain memo receiver =
     and_then (verify_host_chain host_chain) (\<lambda>_.
     and_then (client_code ch ev) (\<lambda>code.
     and_then (client_registry ch code) (\<lambda>registry.
     and_then (client_ans ch code) (\<lambda>ans.
     and_then (client_assert_account ch registry (info_sender info)) (\<lambda>account.
     and_then (case receiver of
         Some a \<Rightarrow> Ok a
       | None \<Rightarrow>
           and_then (client_account_id ch account) (\<lambda>account_id.
           map_err ClientStd (load_err (remote_accounts st) (acc_key account_id, host_chain)))) (\<lambda>remote_addr.
     and_then (resolve_ics20_channel il ans host_chain) (\<lambda>ics20_channel_id.
     and_then (try_map (\<lambda>coin. ics_20_send_msg ev ics20_channel_id coin remote_addr memo)
       (info_funds info)) (\<lambda>transfers.
     Ok (st, map (\<lambda>m. (m, None)) transfers)))))))))"

definition execute_send_funds_with_actions ::
  "ibc_lib \<Rightarrow> client_lib \<Rightarrow> chain \<Rightarrow> env \<Rightarrow> client_state \<Rightarrow> message_info \<Rightarrow> truncated_chain_id
   \<Rightarrow> binary list \<Rightarrow> client_response client_result" where
  "execute_send_funds_with_actions il cl ch ev st info host_chain actions =
     and_then (verify_host_chain host_chain) (\<lambda>_.
     and_then (map_err ClientPayment (cl_one_coin cl (info_funds info))) (\<lambda>coin.
     and_then (load_infra st host_chain) (\<lambda>infra.
     and_then (client_code ch ev) (\<lambda>code.
     and_then (client_registry ch code) (\<lambda>registry.
     and_then (client_assert_account ch registry (info_sender info)) (\<lambda>account.
     and_then (client_account_id ch account) (\<lambda>account_id.
     and_then (client_ans ch code) (\<lambda>ans.
     and_then (resolve_ics20_channel il ans host_chain) (\<lambda>ics20_channel_id.
     and_then (map_err ClientStd (cl_json_memo cl \<lparr>hm_contract = remote_abstract_host infra,
       hm_msg = Fund account_id (from_chain_id (chain_id (env_block ev))),
       hm_ibc_callback = Some (env_contract ev)\<rparr>)) (\<lambda>memo.
     and_then (ics_20_send_msg ev ics20_channel_id coin (remote_abstract_host infra) (Some memo)) (\<lambda>m.
     Ok (st\<lparr>ics20_account_callback_payload := Some \<lparr>acp_channel_id = ics20_channel_id,
              acp_account_address = account, acp_funds = coin, acp_msgs = actions\<rparr>\<rparr>,
         [(m, Some SEND_FUNDS_WITH_ACTIONS_REPLY_ID)]))))))))))))"

text \<open>The reply of the transfer tells the sequence of its packet.\<close>

definition save_callback_actions ::
  "client_lib \<Rightarrow> client_state \<Rightarrow> reply_msg \<Rightarrow> client_response client_result" where
  "save_callback_actions cl st rp =
     and_then (map_err (\<lambda>e. ClientStd (StdMsg e)) (rp_result rp)) (\<lambda>d.
     and_then (unwrap d) (\<lambda>data.
     and_then (map_err (\<lambda>e. ClientStd (StdMsg e)) (cl_decode_transfer cl data)) (\<lambda>seq.
     and_then (ok_or (ClientStd (StdNotFound ''payload'')) (ics20_account_callback_payload st)) (\<lambda>payload.
     Ok (st\<lparr>ics20_account_callbacks := save (SubKey (acp_channel_id payload), seq)
         (acp_account_address payload, acp_funds payload, acp_msgs payload)
         (ics20_account_callbacks st)\<rparr>, [])))))"

section \<open>Callbacks\<close>

datatype ibc_lifecycle =
    IBCAck string u64 string bool
  | IBCTimeout string u64

fun ics20_hook_callback :: "client_state \<Rightarrow> ibc_lifecycle \<Rightarrow> client_response client_result" where
  "ics20_hook_callback st (IBCAck channel seq ack success) =
     and_then (map_err ClientStd (load_err (ics20_account_callbacks st) (SubKey channel, seq)))
       (\<lambda>(account_addr, coin, actions).
     let stored_msgs = (if success then map (\<lambda>msg. WasmExecute account_addr (Raw msg) []) actions
           else [BankSend account_addr [coin]])
     in Ok (st\<lparr>ics20_account_callbacks := remove (SubKey channel, seq) (ics20_account_callbacks st)\<rparr>,
          map (\<lambda>m. (ClientPlain m, None)) stored_msgs))"
| "ics20_hook_callback st (IBCTimeout channel seq) =
     and_then (map_err ClientStd (load_err (ics20_account_callbacks st) (SubKey channel, seq)))
       (\<lambda>(account_addr, coin, _).
     Ok (st\<lparr>ics20_account_callbacks := remove (SubKey channel, seq) (ics20_account_callbacks st)\<rparr>,
       [(ClientPlain (BankSend account_addr [coin]), None)]))"

definition account_address_attribute :: "sub_msg_response \<Rightarrow> string option" where
  "account_address_attribute res =
     map_option snd (List.find (\<lambda>a. fst a = ''account_address'')
       (concat (map ev_attributes (filter (\<lambda>e. ev_ty e = ABSTRACT_EVENT_TYPE) (smr_events res)))))"

fun receive_who_am_i ::
  "client_state \<Rightarrow> truncated_chain_id \<Rightarrow> callback_message \<Rightarrow> polytone_callback \<Rightarrow> client_state client_result" where
  "receive_who_am_i st host_chain cb (PcExecute (EcrSuccess er)) =
     (case load (ibc_infra st) host_chain of
        None \<Rightarrow> Err (UnregisteredChain host_chain)
      | Some counterpart \<Rightarrow> Ok (st\<lparr>ibc_infra := save host_chain
          (counterpart\<lparr>remote_proxy := Some (executed_by er)\<rparr>) (ibc_infra st)\<rparr>))"
| "receive_who_am_i st host_chain cb (PcExecute (EcrError e)) = Err (ClientStd (StdMsg e))"
| "receive_who_am_i st host_chain cb _ = Err (IbcFailed cb)"

fun receive_create_account ::
  "client_state \<Rightarrow> truncated_chain_id \<Rightarrow> account_id \<Rightarrow> callback_message \<Rightarrow> polytone_callback
   \<Rightarrow> client_state client_result" where
  "receive_create_account st host_chain account_id cb (PcExecute (EcrSuccess er)) =
     and_then (index (er_result er) 0) (\<lambda>account_creation_result.
     and_then (ok_or (IbcFailed cb) (account_address_attribute account_creation_result)) (\<lambda>a.
     Ok (st\<lparr>remote_accounts := save (acc_key account_id, host_chain) a (remote_accounts st)\<rparr>)))"
| "receive_create_account st host_chain account_id cb _ = Err (IbcFailed cb)"

definition receive_action_callback ::
  "client_lib \<Rightarrow> env \<Rightarrow> client_state \<Rightarrow> message_info \<Rightarrow> callback_message \<Rightarrow> client_response client_result" where
  "receive_action_callback cl ev st info cb =
     and_then (ok_or ClientUnauthorized (load (reverse_polytone_note st) (info_sender info))) (\<lambda>host_chain.
     and_then (ensure (cbm_initiator cb = env_contract ev) ClientUnauthorized) (\<lambda>_.
     and_then (map_err ClientStd (cl_from_json_callback cl (cbm_initiator_msg cb))) (\<lambda>callback_msg.
     case callback_msg of
       WhoAmI \<Rightarrow>
         and_then (receive_who_am_i st host_chain cb (cbm_result cb)) (\<lambda>st. Ok (st, []))
     | CreateAccount account_id \<Rightarrow>
         and_then (receive_create_account st host_chain account_id cb (cbm_result cb)) (\<lambda>st. Ok (st, []))
     | ModuleRemoteAction sender_address callback initiator_msg \<Rightarrow>
         and_then (map_err ClientStd (from_execute (cbm_result cb) initiator_msg)) (\<lambda>r.
         Ok (st, [(IbcCallback sender_address callback r, None)]))
     | ModuleRemoteQuery sender_address callback queries \<Rightarrow>
         and_then (map_err ClientStd (from_query (cbm_result cb) queries)) (\<lambda>r.
         Ok (st, [(IbcCallback sender_address callback r, None)])))))"

section \<open>Entry points\<close>

fun client_execute ::
  "ibc_lib \<Rightarrow> client_lib \<Rightarrow> chain \<Rightarrow> env \<Rightarrow> client_state \<Rightarrow> message_info \<Rightarrow> client_execute_msg
   \<Rightarrow> client_response client_result" where
  "client_execute il cl ch ev st info (ClientUpdateOwnership action) =
     and_then (map_err ClientOwnership
       (q_cwo_update ch (c_ownership st) (env_block ev) (info_sender info) action)) (\<lambda>ow.
     Ok (st\<lparr>c_ownership := Some ow\<rparr>, []))"
| "client_execute il cl ch ev st info (RemoteAction host_chain action) =
     execute_send_packet ch ev st info host_chain action"
| "client_execute il cl ch ev st info (RegisterInfrastructure chain note host) =
     execute_register_infrastructure cl ch ev st info chain host note"
| "client_execute il cl ch ev st info (SendFunds host_chain receiver memo) =
     execute_send_funds il ch ev st info host_chain memo receiver"
| "client_execute il cl ch ev st info (SendFundsWithActions host_chain actions) =
     execute_send_funds_with_actions il cl ch ev st info host_chain actions"
| "client_execute il cl ch ev st info (ClientRegister host_chain namespace to_install) =
     execute_register_account il cl ch ev st info host_chain namespace to_install"
| "client_execute il cl ch ev st info (RemoveHost host_chain) = execute_remove_host ch st info host_chain"
| "client_execute il cl ch ev st info (Callback c) = receive_action_callback cl ev st info c"
| "client_execute il cl ch ev st info (ModuleIbcAction host_chain target_module msg callback) =
     execute_send_module_to_module_packet il cl ch ev st info host_chain target_module msg callback"
| "client_execute il cl ch ev st info (IbcQuery host_chain queries callback) =
     execute_send_query cl ev st info host_chain queries callback"

definition client_instantiate :: "chain \<Rightarrow> client_state \<Rightarrow> message_info \<Rightarrow> client_response client_result" where
  "client_instantiate ch st info =
     (let st = st\<lparr>c_cw2 := Some \<lparr>cv_contract = IBC_CLIENT, cv_version = CONTRACT_VERSION\<rparr>,
        c_module_data := Some \<lparr>md_module = IBC_CLIENT, md_version = CONTRACT_VERSION,
          md_dependencies = [], md_metadata = None\<rparr>\<rparr>
      in and_then (map_err ClientStd (q_cwo_initialize ch (Some (info_sender info)))) (\<lambda>ow.
         Ok (st\<lparr>c_ownership := Some ow\<rparr>, [])))"

definition client_migrate :: "chain \<Rightarrow> client_state \<Rightarrow> client_response client_result" where
  "client_migrate ch st =
     and_then (unwrap (sv_parse (q_semver ch) CONTRACT_VERSION)) (\<lambda>to_version.
     and_then (map_err ClientAbstract
       (assert_cw_contract_upgrade (q_semver ch) (c_cw2 st) IBC_CLIENT to_version)) (\<lambda>_.
     Ok (st\<lparr>c_cw2 := Some \<lparr>cv_contract = IBC_CLIENT, cv_version = CONTRACT_VERSION\<rparr>,
            c_module_data := Some (migrate_module_data (c_module_data st) IBC_CLIENT CONTRACT_VERSION None)\<rparr>, [])))"

definition client_reply :: "client_lib \<Rightarrow> client_state \<Rightarrow> reply_msg \<Rightarrow> client_response client_result" where
  "client_reply cl st rp =
     (if rp_id rp = SEND_FUNDS_WITH_ACTIONS_REPLY_ID then save_callback_actions cl st rp
      else Err UnexpectedReply)"

definition client_sudo :: "client_state \<Rightarrow> ibc_lifecycle \<Rightarrow> client_response client_result" where
  "client_sudo st msg = ics20_hook_callback st msg"

section \<open>Queries (queries.rs)\<close>

definition list_remote_hosts :: "client_state \<Rightarrow> (truncated_chain_id \<times> string) list" where
  "list_remote_hosts st = map (\<lambda>(chain, c). (chain, remote_abstract_host c)) (ibc_infra st)"

definition list_remote_proxies :: "client_state \<Rightarrow> (truncated_chain_id \<times> string option) list" where
  "list_remote_proxies st = map (\<lambda>(chain, c). (chain, remote_proxy c)) (ibc_infra st)"

definition list_ibc_counterparts :: "client_state \<Rightarrow> (truncated_chain_id \<times> ibc_infrastructure) list" where
  "list_ibc_counterparts st = ibc_infra st"

definition client_config :: "chain \<Rightarrow> env \<Rightarrow> (addr \<times> addr) client_result" where
  "client_config ch ev =
     and_then (client_code ch ev) (\<lambda>code.
     and_then (client_ans ch code) (\<lambda>ans_host.
     and_then (client_registry ch code) (\<lambda>registry. Ok (ans_host, registry))))"

definition client_host :: "client_state \<Rightarrow> truncated_chain_id \<Rightarrow> (string \<times> string option) client_result" where
  "client_host st host_chain =
     and_then (verify_host_chain host_chain) (\<lambda>_.
     and_then (load_infra st host_chain) (\<lambda>c.
     Ok (remote_abstract_host c, remote_proxy c)))"

definition client_account :: "client_state \<Rightarrow> truncated_chain_id \<Rightarrow> account_id \<Rightarrow> string option client_result" where
  "client_account st host_chain account_id =
     and_then (verify_host_chain host_chain) (\<lambda>_.
     Ok (load (remote_accounts st) (acc_key account_id, host_chain)))"

end
