(* ===== verification/Module_Base.thy ===== *)
theory Module_Base
  imports Ibc_Client
begin

text \<open>
  The base of modules: the endpoints every adapter (\<open>packages/abstract-adapter/src/endpoints\<close>) and every
  app (\<open>packages/abstract-app/src/endpoints\<close>) has, with the dispatch of the sdk
  (\<open>packages/abstract-sdk/src/base\<close>) to the handlers of the module. The handlers are what a module
  author writes, so they are the fields of a record, \<open>abstract_contract\<close>, as in the code. The storage
  of a module is the record of the base, extended by what the module keeps itself.

  The stored states of accounts, which the adapter reads, are the parameter \<open>qa\<close>.
\<close>

section \<open>Handlers (base/contract_base.rs, base/handler.rs)\<close>

datatype adapter_error =
    UnauthorizedAdapterRequest string string
  | UnauthorizedAddressAdapterRequest string string
  | AuthorizedAddressOrModuleIdNotPresent string
  | AuthorizedAddressOrModuleIdNotValid string
  | AuthorizedAddressOrModuleIdAlreadyPresent string
  | TooManyAuthorizedAddresses u32

datatype 'e module_error =
    ModStd std_error
  | ModSdk sdk_error
  | ModAbstract abstract_error
  | ModAdapter adapter_error
  | ModCustom 'e

type_synonym ('a, 'e) module_result = "('a, 'e module_error) result"
text \<open>A module sends messages itself, or asks an account to execute a message of the account.\<close>

datatype module_msg =
    Direct cosmos_msg
  | OnAccount addr account_execute_msg "coin list"

type_synonym 'm module_out = "'m \<times> module_msg list"

record ('m, 'i, 'x, 'g, 'u, 'e) abstract_contract =
  ac_name :: string
  ac_version :: string
  ac_metadata :: "string option"
  ac_dependencies :: "dependency list"
  ac_instantiate :: "(chain \<Rightarrow> env \<Rightarrow> message_info \<Rightarrow> 'm \<Rightarrow> 'i \<Rightarrow> ('m module_out, 'e) module_result) option"
  ac_execute ::
    "(chain \<Rightarrow> env \<Rightarrow> message_info \<Rightarrow> addr option \<Rightarrow> 'm \<Rightarrow> 'x \<Rightarrow> ('m module_out, 'e) module_result) option"
  ac_migrate :: "(chain \<Rightarrow> env \<Rightarrow> 'm \<Rightarrow> 'g \<Rightarrow> ('m module_out, 'e) module_result) option"
  ac_sudo :: "(chain \<Rightarrow> env \<Rightarrow> 'm \<Rightarrow> 'u \<Rightarrow> ('m module_out, 'e) module_result) option"
  ac_replies :: "(u64 \<times> (chain \<Rightarrow> env \<Rightarrow> 'm \<Rightarrow> reply_msg \<Rightarrow> ('m module_out, 'e) module_result)) list list"
  ac_ibc_callback :: "(chain \<Rightarrow> env \<Rightarrow> 'm \<Rightarrow> binary \<Rightarrow> ibc_result \<Rightarrow> ('m module_out, 'e) module_result) option"
  ac_module_ibc ::
    "(chain \<Rightarrow> env \<Rightarrow> 'm \<Rightarrow> truncated_chain_id \<Rightarrow> module_info \<Rightarrow> binary \<Rightarrow> ('m module_out, 'e) module_result) option"

definition maybe_reply_handler ::
  "('m, 'i, 'x, 'g, 'u, 'e) abstract_contract \<Rightarrow> u64
   \<Rightarrow> (chain \<Rightarrow> env \<Rightarrow> 'm \<Rightarrow> reply_msg \<Rightarrow> ('m module_out, 'e) module_result) option" where
  "maybe_reply_handler mc i = map_option snd (List.find (\<lambda>h. fst h = i) (concat (ac_replies mc)))"

definition module_reply ::
  "('m, 'i, 'x, 'g, 'u, 'e) abstract_contract \<Rightarrow> chain \<Rightarrow> env \<Rightarrow> 'm \<Rightarrow> reply_msg
   \<Rightarrow> ('m module_out, 'e) module_result" where
  "module_reply mc ch ev st rp =
     and_then (ok_or (ModSdk (MissingHandler ''reply'')) (maybe_reply_handler mc (rp_id rp))) (\<lambda>h. h ch ev st rp)"

definition module_sudo ::
  "('m, 'i, 'x, 'g, 'u, 'e) abstract_contract \<Rightarrow> chain \<Rightarrow> env \<Rightarrow> 'm \<Rightarrow> 'u \<Rightarrow> ('m module_out, 'e) module_result" where
  "module_sudo mc ch ev st msg =
     and_then (ok_or (ModSdk (MissingHandler ''sudo'')) (ac_sudo mc)) (\<lambda>h. h ch ev st msg)"

text \<open>The registry answers where the IBC client and the IBC host of the own release are.\<close>

definition native_addr :: "chain \<Rightarrow> addr \<Rightarrow> string \<Rightarrow> (addr, 'e) module_result" where
  "native_addr ch registry mid =
     and_then (map_err ModAbstract (module_info_from_id mid (Version CONTRACT_VERSION))) (\<lambda>mi.
     and_then (map_err (\<lambda>e. ModAbstract (AbsRegistryError e)) (registry_query_module ch registry mi)) (\<lambda>m.
     map_err ModAbstract (unwrap_native (m_reference m))))"

definition ibc_callback ::
  "('m, 'i, 'x, 'g, 'u, 'e) abstract_contract \<Rightarrow> (addr, 'e) module_result \<Rightarrow> chain \<Rightarrow> env \<Rightarrow> 'm
   \<Rightarrow> message_info \<Rightarrow> binary \<Rightarrow> ibc_result \<Rightarrow> ('m module_out, 'e) module_result" where
  "ibc_callback mc ibc_client_addr ch ev st info callback r =
     (if \<not> list_ex (\<lambda>d. dep_id d = IBC_CLIENT) (ac_dependencies mc)
      then Err (ModSdk (SdkStd (StdMsg (''Ibc Client is not dependency of '' @ ac_name mc))))
      else and_then ibc_client_addr (\<lambda>ibc_client.
        if info_sender info \<noteq> ibc_client
        then Err (ModSdk (CallbackNotCalledByIbcClient (info_sender info) ibc_client (ac_name mc)))
        else and_then (ok_or (ModSdk (NoModuleIbcHandler (ac_name mc))) (ac_ibc_callback mc)) (\<lambda>h.
          h ch ev st callback r)))"

definition module_ibc ::
  "('m, 'i, 'x, 'g, 'u, 'e) abstract_contract \<Rightarrow> (addr, 'e) module_result \<Rightarrow> chain \<Rightarrow> env \<Rightarrow> 'm
   \<Rightarrow> message_info \<Rightarrow> truncated_chain_id \<Rightarrow> module_info \<Rightarrow> binary \<Rightarrow> ('m module_out, 'e) module_result" where
  "module_ibc mc ibc_host_addr ch ev st info src src_mod msg =
     and_then ibc_host_addr (\<lambda>ibc_host.
     if info_sender info \<noteq> ibc_host
     then Err (ModSdk (ModuleIbcNotCalledByHost (info_sender info) ibc_host (ac_name mc)))
     else and_then (ok_or (ModSdk (NoModuleIbcHandler (ac_name mc))) (ac_module_ibc mc)) (\<lambda>h.
       h ch ev st src src_mod msg))"

definition module_version_data :: "('m, 'i, 'x, 'g, 'u, 'e) abstract_contract \<Rightarrow> module_data" where
  "module_version_data mc = \<lparr>md_module = ac_name mc, md_version = ac_version mc,
     md_dependencies = ac_dependencies mc, md_metadata = ac_metadata mc\<rparr>"

section \<open>Verification of accounts (apis/verify.rs)\<close>

definition assert_is_account :: "chain \<Rightarrow> addr \<Rightarrow> addr \<Rightarrow> (addr, sdk_error) result" where
  "assert_is_account ch registry maybe_account = map_err SdkRegistry (assert_account ch registry maybe_account)"

definition assert_is_account_admin :: "chain \<Rightarrow> env \<Rightarrow> addr \<Rightarrow> addr \<Rightarrow> (addr, sdk_error) result" where
  "assert_is_account_admin ch ev registry maybe_account =
     and_then (assert_is_account ch registry maybe_account) (\<lambda>account.
     if \<not> assert_account_calling_to_as_admin_is_self ch ev maybe_account then Err SdkOnlyAdmin
     else Ok account)"

section \<open>Adapters\<close>

record adapter_state =
  ad_cw2 :: "contract_version option"
  ad_module_data :: "module_data option"
  ad_code_id :: "u64 option"
  authorized_addresses :: "(addr, addr list) store"

datatype 'x adapter_execute_msg =
    AdapterModule "string option" 'x
  | AdapterBase "string option" adapter_base_msg
  | AdapterIbcCallback binary ibc_result
  | AdapterModuleIbc truncated_chain_id module_info binary

type_synonym account_querier = "addr \<Rightarrow> (account_state, std_error) result"

definition MAXIMUM_AUTHORIZED_ADDRESSES :: u32 where "MAXIMUM_AUTHORIZED_ADDRESSES = 15"

definition adapter_registry :: "chain \<Rightarrow> 'c adapter_state_scheme \<Rightarrow> (addr, sdk_error) result" where
  "adapter_registry ch st =
     and_then (ok_or (SdkStd (StdNotFound ''base_state'')) (ad_code_id st)) (\<lambda>code.
     map_err SdkAbstract (registry_contract_new ch code))"

definition is_top_level_owner :: "chain \<Rightarrow> addr \<Rightarrow> addr \<Rightarrow> (bool, std_error) result" where
  "is_top_level_owner ch account sndr = map_ok (\<lambda>a. a = sndr) (query_top_level_owner_addr ch account)"

text \<open>\<open>Result::unwrap_or\<close>\<close>

definition unwrap_or :: "'a \<Rightarrow> ('a, 'f) result \<Rightarrow> ('a, 'e) result" where
  "unwrap_or d r = (case r of Ok a \<Rightarrow> Ok a | Err _ \<Rightarrow> Ok d | Panic \<Rightarrow> Panic)"

text \<open>Module ids are looked up in the modules of \<open>account\<close>, which the caller passes.\<close>

definition get_addr_from_module_id_or_addr ::
  "account_querier \<Rightarrow> chain \<Rightarrow> addr \<Rightarrow> string \<Rightarrow> (addr, adapter_error) result" where
  "get_addr_from_module_id_or_addr qa ch account addr_or_module_id =
     (case map_ok (\<lambda>acc. load (account_modules acc) addr_or_module_id) (qa account) of
        Ok (Some a) \<Rightarrow> Ok a
      | Panic \<Rightarrow> Panic
      | _ \<Rightarrow> (case q_addr_validate ch addr_or_module_id of
            Ok a \<Rightarrow> Ok a
          | Err _ \<Rightarrow> Err (AuthorizedAddressOrModuleIdNotValid addr_or_module_id)
          | Panic \<Rightarrow> Panic))"

definition authorize_one ::
  "account_querier \<Rightarrow> chain \<Rightarrow> addr \<Rightarrow> addr list \<Rightarrow> string \<Rightarrow> (addr list, adapter_error) result" where
  "authorize_one qa ch sndr authorized_addrs authorized =
     and_then (get_addr_from_module_id_or_addr qa ch sndr authorized) (\<lambda>a.
     if a \<in> set authorized_addrs then Err (AuthorizedAddressOrModuleIdAlreadyPresent authorized)
     else Ok (authorized_addrs @ [a]))"

definition deauthorize_one ::
  "account_querier \<Rightarrow> chain \<Rightarrow> addr \<Rightarrow> addr list \<Rightarrow> string \<Rightarrow> (addr list, adapter_error) result" where
  "deauthorize_one qa ch sndr authorized_addrs deauthorized =
     and_then (get_addr_from_module_id_or_addr qa ch sndr deauthorized) (\<lambda>a.
     if a \<notin> set authorized_addrs then Err (AuthorizedAddressOrModuleIdNotPresent deauthorized)
     else Ok (filter (\<lambda>x. x \<noteq> a) authorized_addrs))"

definition authorized_of :: "'c adapter_state_scheme \<Rightarrow> addr \<Rightarrow> addr list" where
  "authorized_of st account = (case load (authorized_addresses st) account of Some l \<Rightarrow> l | None \<Rightarrow> [])"

definition update_authorized_addresses ::
  "account_querier \<Rightarrow> chain \<Rightarrow> 'c adapter_state_scheme \<Rightarrow> message_info \<Rightarrow> addr \<Rightarrow> string list \<Rightarrow> string list
   \<Rightarrow> ('c adapter_state_scheme, adapter_error) result" where
  "update_authorized_addresses qa ch st info account to_add to_remove =
     and_then (try_fold (authorize_one qa ch (info_sender info)) (authorized_of st account) to_add) (\<lambda>l.
     and_then (try_fold (deauthorize_one qa ch (info_sender info)) l to_remove) (\<lambda>l.
     if unat MAXIMUM_AUTHORIZED_ADDRESSES < length l
     then Err (TooManyAuthorizedAddresses MAXIMUM_AUTHORIZED_ADDRESSES)
     else Ok (st\<lparr>authorized_addresses := save account l (authorized_addresses st)\<rparr>)))"

definition adapter_base_execute ::
  "account_querier \<Rightarrow> ('c adapter_state_scheme, 'i, 'x, 'g, 'u, 'e) abstract_contract \<Rightarrow> chain \<Rightarrow> env
   \<Rightarrow> 'c adapter_state_scheme \<Rightarrow> message_info \<Rightarrow> string option \<Rightarrow> adapter_base_msg
   \<Rightarrow> ('c adapter_state_scheme, 'e) module_result" where
  "adapter_base_execute qa mc ch ev st info account_address msg =
     and_then (map_err ModSdk (adapter_registry ch st)) (\<lambda>registry.
     and_then (case assert_is_account_admin ch ev registry (info_sender info) of
         Ok account \<Rightarrow> Ok account
       | Panic \<Rightarrow> Panic
       | Err _ \<Rightarrow>
           (case account_address of
              Some requested_account \<Rightarrow>
                and_then (map_err ModStd (q_addr_validate ch requested_account)) (\<lambda>account_address.
                and_then (map_err ModSdk (assert_is_account ch registry account_address)) (\<lambda>account.
                and_then (unwrap_or False (is_top_level_owner ch account (info_sender info))) (\<lambda>b.
                if b then Ok account
                else Err (ModAdapter (UnauthorizedAdapterRequest (ac_name mc) (info_sender info))))))
            | None \<Rightarrow> Err (ModAdapter (UnauthorizedAdapterRequest (ac_name mc) (info_sender info))))) (\<lambda>account.
     case msg of UpdateAuthorizedAddresses to_add to_remove \<Rightarrow>
       map_err ModAdapter (update_authorized_addresses qa ch st info account to_add to_remove)))"

definition handle_app_msg ::
  "('c adapter_state_scheme, 'i, 'x, 'g, 'u, 'e) abstract_contract \<Rightarrow> chain \<Rightarrow> env \<Rightarrow> 'c adapter_state_scheme
   \<Rightarrow> message_info \<Rightarrow> string option \<Rightarrow> 'x \<Rightarrow> ('c adapter_state_scheme module_out, 'e) module_result" where
  "handle_app_msg mc ch ev st info account_address request =
     (let unauthorized_sender = ModAdapter (UnauthorizedAddressAdapterRequest (ac_name mc) (info_sender info))
      in and_then (map_err ModSdk (adapter_registry ch st)) (\<lambda>registry.
         and_then (case account_address of
             Some requested_account \<Rightarrow>
               and_then (map_err ModStd (q_addr_validate ch requested_account)) (\<lambda>account_address.
               and_then (map_err ModSdk (assert_is_account ch registry account_address)) (\<lambda>requested_core.
               if requested_core = info_sender info then Ok requested_core
               else if info_sender info \<in> set (authorized_of st account_address) then Ok requested_core
               else and_then (unwrap_or False (is_top_level_owner ch requested_core (info_sender info))) (\<lambda>b.
                 if b then Ok requested_core else Err unauthorized_sender)))
           | None \<Rightarrow> map_err (\<lambda>_. unauthorized_sender) (assert_is_account ch registry (info_sender info))) (\<lambda>account.
         and_then (ok_or (ModSdk (MissingHandler ''execution handler'')) (ac_execute mc)) (\<lambda>h.
         h ch ev info (Some account) st request))))"

fun adapter_execute ::
  "account_querier \<Rightarrow> ('c adapter_state_scheme, 'i, 'x, 'g, 'u, 'e) abstract_contract \<Rightarrow> chain \<Rightarrow> env
   \<Rightarrow> 'c adapter_state_scheme \<Rightarrow> message_info \<Rightarrow> 'x adapter_execute_msg
   \<Rightarrow> ('c adapter_state_scheme module_out, 'e) module_result" where
  "adapter_execute qa mc ch ev st info (AdapterModule account_address request) =
     handle_app_msg mc ch ev st info account_address request"
| "adapter_execute qa mc ch ev st info (AdapterBase account_address msg) =
     and_then (adapter_base_execute qa mc ch ev st info account_address msg) (\<lambda>st. Ok (st, []))"
| "adapter_execute qa mc ch ev st info (AdapterIbcCallback callback r) =
     ibc_callback mc (and_then (map_err ModSdk (adapter_registry ch st)) (\<lambda>registry. native_addr ch registry IBC_CLIENT))
       ch ev st info callback r"
| "adapter_execute qa mc ch ev st info (AdapterModuleIbc src src_mod msg) =
     module_ibc mc (and_then (map_err ModSdk (adapter_registry ch st)) (\<lambda>registry. native_addr ch registry IBC_HOST))
       ch ev st info src src_mod msg"

definition adapter_instantiate ::
  "('c adapter_state_scheme, 'i, 'x, 'g, 'u, 'e) abstract_contract \<Rightarrow> chain \<Rightarrow> env \<Rightarrow> 'c adapter_state_scheme
   \<Rightarrow> message_info \<Rightarrow> string \<Rightarrow> 'i \<Rightarrow> ('c adapter_state_scheme module_out, 'e) module_result" where
  "adapter_instantiate mc ch ev st info registry_addr msg =
     and_then (map_err ModStd (q_contract_info ch registry_addr)) (\<lambda>ci.
     let st = st\<lparr>ad_module_data := Some (module_version_data mc),
          ad_cw2 := Some \<lparr>cv_contract = ac_name mc, cv_version = ac_version mc\<rparr>,
          ad_code_id := Some (ci_code_id ci)\<rparr>
     in case ac_instantiate mc of None \<Rightarrow> Ok (st, []) | Some h \<Rightarrow> h ch ev info st msg)"

definition authorized_addresses_query ::
  "chain \<Rightarrow> 'c adapter_state_scheme \<Rightarrow> string \<Rightarrow> (addr list, std_error) result" where
  "authorized_addresses_query ch st account_address =
     and_then (q_addr_validate ch account_address) (\<lambda>account_address. Ok (authorized_of st account_address))"

definition adapter_config ::
  "('c adapter_state_scheme, 'i, 'x, 'g, 'u, 'e) abstract_contract \<Rightarrow> chain \<Rightarrow> 'c adapter_state_scheme
   \<Rightarrow> (addr \<times> addr \<times> string list, std_error) result" where
  "adapter_config mc ch st =
     and_then (ok_or (StdNotFound ''base_state'') (ad_code_id st)) (\<lambda>code.
     and_then (map_err (\<lambda>_. StdMsg ''registry'') (registry_contract_new ch code)) (\<lambda>registry.
     and_then (map_err (\<lambda>_. StdMsg ''ans_host'') (ans_host_new ch code)) (\<lambda>ans.
     Ok (registry, ans, map dep_id (ac_dependencies mc)))))"

section \<open>Apps\<close>

record app_state =
  ap_cw2 :: "contract_version option"
  ap_module_data :: "module_data option"
  ap_account :: "addr option"
  ap_admin :: "addr option option"

datatype 'x app_execute_msg =
    AppModule 'x
  | AppIbcCallback binary ibc_result
  | AppModuleIbc truncated_chain_id module_info binary

definition app_code :: "chain \<Rightarrow> 'c app_state_scheme \<Rightarrow> (u64, std_error) result" where
  "app_code ch st =
     and_then (ok_or (StdNotFound ''base_state'') (ap_account st)) (\<lambda>account. abstract_code_id ch account)"

definition app_abstract_registry :: "chain \<Rightarrow> 'c app_state_scheme \<Rightarrow> (addr, sdk_error) result" where
  "app_abstract_registry ch st =
     and_then (map_err SdkStd (app_code ch st)) (\<lambda>code. map_err SdkAbstract (registry_contract_new ch code))"

definition app_ans_host :: "chain \<Rightarrow> 'c app_state_scheme \<Rightarrow> (addr, sdk_error) result" where
  "app_ans_host ch st =
     and_then (map_err SdkStd (app_code ch st)) (\<lambda>code. map_err SdkAbstract (ans_host_new ch code))"

fun app_execute ::
  "('c app_state_scheme, 'i, 'x, 'g, 'u, 'e) abstract_contract \<Rightarrow> chain \<Rightarrow> env \<Rightarrow> 'c app_state_scheme
   \<Rightarrow> message_info \<Rightarrow> 'x app_execute_msg \<Rightarrow> ('c app_state_scheme module_out, 'e) module_result" where
  "app_execute mc ch ev st info (AppModule request) =
     and_then (ok_or (ModSdk (MissingHandler ''execution handler'')) (ac_execute mc)) (\<lambda>h.
     h ch ev info (ap_account st) st request)"
| "app_execute mc ch ev st info (AppIbcCallback callback r) =
     ibc_callback mc (and_then (map_err ModSdk (app_abstract_registry ch st)) (\<lambda>registry. native_addr ch registry IBC_CLIENT))
       ch ev st info callback r"
| "app_execute mc ch ev st info (AppModuleIbc src src_mod msg) =
     module_ibc mc (and_then (map_err ModSdk (app_abstract_registry ch st)) (\<lambda>registry. native_addr ch registry IBC_HOST))
       ch ev st info src src_mod msg"

definition app_instantiate ::
  "('c app_state_scheme, 'i, 'x, 'g, 'u, 'e) abstract_contract \<Rightarrow> chain \<Rightarrow> env \<Rightarrow> 'c app_state_scheme
   \<Rightarrow> message_info \<Rightarrow> addr \<Rightarrow> 'i \<Rightarrow> ('c app_state_scheme module_out, 'e) module_result" where
  "app_instantiate mc ch ev st info account module_msg =
     (let st = st\<lparr>ap_module_data := Some (module_version_data mc),
          ap_cw2 := Some \<lparr>cv_contract = ac_name mc, cv_version = ac_version mc\<rparr>,
          ap_account := Some account, ap_admin := Some (Some account)\<rparr>
      in case ac_instantiate mc of None \<Rightarrow> Ok (st, []) | Some h \<Rightarrow> h ch ev info st module_msg)"

definition app_migrate ::
  "('c app_state_scheme, 'i, 'x, 'g, 'u, 'e) abstract_contract \<Rightarrow> chain \<Rightarrow> env \<Rightarrow> 'c app_state_scheme \<Rightarrow> 'g
   \<Rightarrow> ('c app_state_scheme module_out, 'e) module_result" where
  "app_migrate mc ch ev st msg =
     and_then (unwrap (sv_parse (q_semver ch) (ac_version mc))) (\<lambda>to_version.
     and_then (map_err ModAbstract
       (assert_contract_upgrade (q_semver ch) (ap_cw2 st) (ac_name mc) to_version)) (\<lambda>_.
     let st = st\<lparr>ap_module_data := Some (module_version_data mc),
          ap_cw2 := Some \<lparr>cv_contract = ac_name mc, cv_version = ac_version mc\<rparr>\<rparr>
     in case ac_migrate mc of Some h \<Rightarrow> h ch ev st msg | None \<Rightarrow> Ok (st, [])))"

definition app_config :: "chain \<Rightarrow> 'c app_state_scheme \<Rightarrow> (addr \<times> addr \<times> addr, std_error) result" where
  "app_config ch st =
     and_then (ok_or (StdNotFound ''base_state'') (ap_account st)) (\<lambda>account.
     and_then (abstract_code_id ch account) (\<lambda>code.
     and_then (map_err (\<lambda>_. StdMsg ''ans_host'') (ans_host_new ch code)) (\<lambda>ans.
     and_then (map_err (\<lambda>_. StdMsg ''registry'') (registry_contract_new ch code)) (\<lambda>registry.
     Ok (account, ans, registry)))))"

definition app_top_level_owner :: "chain \<Rightarrow> 'c app_state_scheme \<Rightarrow> (addr, std_error) result" where
  "app_top_level_owner ch st =
     and_then (ok_or (StdNotFound ''admin'') (ap_admin st)) (\<lambda>adm.
     and_then (unwrap adm) (query_top_level_owner_addr ch))"

end
