(* ===== verification/Account_Invariants.thy ===== *)
theory Account_Invariants
  imports Account_Contract
begin

text \<open>
  The account as a state machine: it starts with a successful \<open>instantiate\<close> and moves by
  \<open>execute\<close>, \<open>reply\<close> and \<open>migrate\<close>, with any sender, message and answers of the chain. The
  well-formedness of its state is an invariant: every item the handlers load is there, the whitelist
  has no repetition and at most \<open>WHITELIST_SIZE_LIMIT\<close> entries, the stores are ordered and no module
  has an empty id.
\<close>

section \<open>Well-formed accounts\<close>

definition whitelist_ok :: "addr list option \<Rightarrow> bool" where
  "whitelist_ok w \<longleftrightarrow> (\<exists>wl. w = Some wl \<and> distinct wl \<and> length wl \<le> WHITELIST_SIZE_LIMIT)"

definition items_ok :: "account_state \<Rightarrow> bool" where
  "items_ok st \<longleftrightarrow> suspension_status st \<noteq> None \<and> a_ownership st \<noteq> None \<and> a_account_id st \<noteq> None
     \<and> migrate_context st \<noteq> None \<and> (\<exists>cv. a_cw2 st = Some cv \<and> cv_contract cv = ACCOUNT)"

definition modules_ok :: "(string, addr) store \<Rightarrow> bool" where
  "modules_ok m \<longleftrightarrow> ordered m \<and> load m [] = None"

definition dependents_ok :: "(string, string list) store \<Rightarrow> bool" where
  "dependents_ok m \<longleftrightarrow> ordered m \<and> (\<forall>mid ds. load m mid = Some ds \<longrightarrow> distinct ds)"

definition account_wf :: "account_state \<Rightarrow> bool" where
  "account_wf st \<longleftrightarrow> whitelist_ok (whitelisted_modules st) \<and> items_ok st
     \<and> modules_ok (account_modules st) \<and> dependents_ok (dependents st) \<and> ordered (sub_accounts st)"

lemma account_wfI:
  assumes "whitelist_ok (whitelisted_modules st)" "items_ok st" "modules_ok (account_modules st)"
    "dependents_ok (dependents st)" "ordered (sub_accounts st)"
  shows "account_wf st"
  using assms by (simp add: account_wf_def)

lemma account_wfD:
  assumes "account_wf st"
  shows "whitelist_ok (whitelisted_modules st)" "items_ok st" "modules_ok (account_modules st)"
    "dependents_ok (dependents st)" "ordered (sub_accounts st)"
  using assms by (simp_all add: account_wf_def)

lemma load_item_Ok [result_simps]: "load_item i = Ok v \<longleftrightarrow> i = Some v"
  by (simp add: load_item_def ok_or_Ok)

section \<open>The whitelist\<close>

lemma add_whitelisted_all:
  "try_fold add_whitelisted wl xs = Ok wl' \<longleftrightarrow> wl' = wl @ xs \<and> distinct xs \<and> set xs \<inter> set wl = {}"
proof (induction xs arbitrary: wl)
  case (Cons x xs)
  have "add_whitelisted wl x = (if x \<in> set wl then Err (AlreadyWhitelisted x) else Ok (wl @ [x]))"
    by (simp add: add_whitelisted_def)
  then show ?case using Cons.IH [of "wl @ [x]"] by auto
qed auto

text \<open>What the three counts of \<open>_update_whitelisted_modules\<close> come down to.\<close>

lemma update_whitelisted_Ok:
  "update_whitelisted_modules st xs ys = Ok st' \<longleftrightarrow>
     (\<exists>wl. whitelisted_modules st = Some wl \<and> distinct xs \<and> set xs \<inter> set wl = {}
        \<and> length ys + length (filter (\<lambda>a. a \<notin> set ys) (wl @ xs)) = length wl + length xs
        \<and> length (filter (\<lambda>a. a \<notin> set ys) (wl @ xs)) \<le> WHITELIST_SIZE_LIMIT
        \<and> st' = st\<lparr>whitelisted_modules := Some (filter (\<lambda>a. a \<notin> set ys) (wl @ xs))\<rparr>)"
  by (cases "whitelisted_modules st")
    (auto simp: update_whitelisted_modules_def result_simps Let_def add_whitelisted_all
      simp del: filter_append split: if_splits)

lemma update_whitelisted_wf:
  assumes "update_whitelisted_modules st xs ys = Ok st'" and "account_wf st"
  shows "account_wf st'"
  using assms unfolding update_whitelisted_Ok
  by (auto simp: account_wf_def whitelist_ok_def items_ok_def)

section \<open>Modules and dependents\<close>

lemma modules_ok_save: "modules_ok m \<Longrightarrow> mid \<noteq> [] \<Longrightarrow> modules_ok (save mid a m)"
  by (simp add: modules_ok_def ordered_save)

lemma modules_ok_remove: "modules_ok m \<Longrightarrow> modules_ok (remove mid m)"
  by (simp add: modules_ok_def ordered_remove)

lemma modules_ok_remove_all: "modules_ok m \<Longrightarrow> modules_ok (fold remove mids m)"
  by (induction mids arbitrary: m) (simp_all add: modules_ok_remove)

lemma dependents_ok_save: "dependents_ok m \<Longrightarrow> distinct ds \<Longrightarrow> dependents_ok (save mid ds m)"
  by (auto simp: dependents_ok_def ordered_save split: if_splits)

lemma dependents_ok_remove: "dependents_ok m \<Longrightarrow> dependents_ok (remove mid m)"
  by (auto simp: dependents_ok_def ordered_remove split: if_splits)

lemma dependents_of_distinct: "dependents_ok (dependents st) \<Longrightarrow> distinct (dependents_of st mid)"
  by (auto simp: dependents_ok_def dependents_of_def split: option.split)

lemma add_dependent_wf: "account_wf st \<Longrightarrow> account_wf (add_dependent mid dep st)"
  by (simp add: account_wf_def add_dependent_def items_ok_def dependents_ok_save
      dependents_of_distinct)

lemma drop_dependent_wf: "account_wf st \<Longrightarrow> account_wf (drop_dependent mid dep st)"
  by (simp add: account_wf_def drop_dependent_def items_ok_def dependents_ok_save
      dependents_of_distinct distinct_removeAll)

lemma fold_keeps: "(\<And>x s. P s \<Longrightarrow> P (f x s)) \<Longrightarrow> P s \<Longrightarrow> P (fold f xs s)"
  by (induction xs arbitrary: s) simp_all

lemma update_module_addresses_wf:
  assumes "update_module_addresses st add rem = Ok st'" and "account_wf st"
  shows "account_wf st'"
proof -
  from assms(1) obtain st1 where st1: "try_fold add_module_address st add = Ok st1"
    and st': "st' = st1\<lparr>account_modules := fold remove rem (account_modules st1)\<rparr>"
    by (auto simp: update_module_addresses_def result_simps)
  have "account_wf st1" using st1 assms(2)
    by (rule try_fold_invariant)
      (auto simp: add_module_address_def account_wf_def items_ok_def modules_ok_save split: if_splits)
  with st' show ?thesis by (simp add: account_wf_def items_ok_def modules_ok_remove_all)
qed

lemma set_as_dependent_wf: "account_wf st \<Longrightarrow> account_wf (set_as_dependent st mid deps)"
  unfolding set_as_dependent_def by (rule fold_keeps) (simp_all add: add_dependent_wf)

lemma remove_as_dependent_wf: "account_wf st \<Longrightarrow> account_wf (remove_as_dependent st mid deps)"
  unfolding remove_as_dependent_def by (rule fold_keeps) (simp_all add: drop_dependent_wf)

section \<open>The handlers keep the state well-formed\<close>

lemma install_modules_internal_wf:
  assumes "install_modules_internal pf ch st ms fnds code = Ok (st', out)" and "account_wf st"
  shows "account_wf st'"
proof -
  from assms(1) obtain ins :: installation and st1
    where w: "update_whitelisted_modules st (in_whitelist ins) [] = Ok st1"
    and a: "update_module_addresses (st1\<lparr>install_modules_context := Some (in_context ins)\<rparr>)
      (in_account ins) [] = Ok st'"
    by (auto simp: install_modules_internal_def result_simps Let_def)
  from update_whitelisted_wf [OF w assms(2)]
  have "account_wf (st1\<lparr>install_modules_context := Some (in_context ins)\<rparr>)"
    by (simp add: account_wf_def items_ok_def)
  with a show ?thesis by (rule update_module_addresses_wf)
qed

lemma remove_absent: "load m k = None \<Longrightarrow> remove k m = m"
  by (auto simp: remove_def load_def map_of_eq_None_iff filter_id_conv)

lemma assert_account_owner_Ok [result_simps]:
  "assert_account_owner ch st s = Ok u \<longleftrightarrow>
     (\<exists>ow. a_ownership st = Some ow \<and> controls ch (own_owner ow) s)"
  by (simp add: assert_account_owner_def map_err_Ok nested_owner_Ok)

lemma uninstall_module_elim:
  assumes "uninstall_module ch ev st info mid = Ok (st', out)"
  obtains md m code reg mi st2 st1 where
    "assert_account_owner ch st (info_sender info) = Ok ()" and "dependents_of st mid = []"
    and "st1 = remove_as_dependent (st\<lparr>dependents := remove mid (dependents st)\<rparr>) mid (md_dependencies md)"
    and "load_module_data ch st mid = Ok md"
    and "abstract_code_id ch (env_contract ev) = Ok code" and "registry_contract_new ch code = Ok reg"
    and "module_info_from_id (md_module md) (Version (md_version md)) = Ok mi"
    and "registry_query_module ch reg mi = Ok m"
    and "if should_be_whitelisted m
      then (\<exists>a. load_module_addr st1 mid = Ok a \<and> update_whitelisted_modules st1 [] [a] = Ok st2)
      else st2 = st1"
    and "st' = st2\<lparr>account_modules := remove mid (account_modules st2)\<rparr>" and "out = []"
proof -
  have same: "load_module_data ch (st\<lparr>dependents := ds\<rparr>) mid = load_module_data ch st mid" for ds
    by (simp add: load_module_data_def load_module_addr_def)
  have first: "dependents_of st mid = [] \<and> st1 = st\<lparr>dependents := remove mid (dependents st)\<rparr>"
    if "(case load (dependents st) mid of
         Some ds \<Rightarrow> if ds \<noteq> [] then Err (ModuleHasDependents ds)
           else Ok (st\<lparr>dependents := remove mid (dependents st)\<rparr>)
       | None \<Rightarrow> Ok st) = Ok st1" for st1
    using that by (auto simp: dependents_of_def remove_absent split: option.splits if_splits)
  have last: "if b then (\<exists>a. load_module_addr t mid = Ok a \<and> update_whitelisted_modules t [] [a] = Ok t')
      else t' = t"
    if "(if b then and_then (load_module_addr t mid) (\<lambda>module_addr.
           update_whitelisted_modules t [] [module_addr]) else Ok t) = Ok t'" for b t t'
    using that by (auto simp: and_then_Ok split: if_splits)
  from assms show thesis
    unfolding uninstall_module_def and_then_Ok map_err_Ok Let_def
    by (elim exE conjE) (drule first, drule last, rule that, auto simp: same)
qed

lemma uninstall_module_wf:
  assumes "uninstall_module ch ev st info mid = Ok (st', out)" and "account_wf st"
  shows "account_wf st'"
  using assms(1)
proof (rule uninstall_module_elim)
  fix md m st2 st1
  assume st1: "st1 = remove_as_dependent (st\<lparr>dependents := remove mid (dependents st)\<rparr>) mid
      (md_dependencies md)"
    and st2: "if should_be_whitelisted m
      then (\<exists>a. load_module_addr st1 mid = Ok a \<and> update_whitelisted_modules st1 [] [a] = Ok st2)
      else st2 = st1"
    and st': "st' = st2\<lparr>account_modules := remove mid (account_modules st2)\<rparr>"
  have "account_wf st1" unfolding st1 using assms(2)
    by (intro remove_as_dependent_wf) (simp add: account_wf_def items_ok_def dependents_ok_remove)
  with st2 have "account_wf st2" using update_whitelisted_wf by (cases "should_be_whitelisted m") auto
  with st' show ?thesis by (simp add: account_wf_def items_ok_def modules_ok_remove)
qed

text \<open>The parts of the state a handler may write beside the checked ones.\<close>

lemma account_wf_frame:
  "account_wf (st\<lparr>calling_to_as_admin := c\<rparr>) = account_wf st"
  "account_wf (st\<lparr>install_modules_context := ctx\<rparr>) = account_wf st"
  "account_wf (st\<lparr>a_info := j\<rparr>) = account_wf st"
  "account_wf st \<Longrightarrow> account_wf (st\<lparr>migrate_context := Some mc\<rparr>)"
  "account_wf st \<Longrightarrow> account_wf (st\<lparr>suspension_status := Some b\<rparr>)"
  "account_wf st \<Longrightarrow> account_wf (st\<lparr>a_ownership := Some ow\<rparr>)"
  "account_wf st \<Longrightarrow> cv_contract cv = ACCOUNT \<Longrightarrow> account_wf (st\<lparr>a_cw2 := Some cv\<rparr>)"
  "account_wf st \<Longrightarrow> account_wf (st\<lparr>sub_accounts := save i () (sub_accounts st)\<rparr>)"
  "account_wf st \<Longrightarrow> account_wf (st\<lparr>sub_accounts := remove i (sub_accounts st)\<rparr>)"
  by (auto simp: account_wf_def items_ok_def ordered_save ordered_remove)

lemma add_module_upgrade_to_context_wf:
  "add_module_upgrade_to_context st mid deps = Ok st' \<Longrightarrow> account_wf st \<Longrightarrow> account_wf st'"
  by (auto simp: add_module_upgrade_to_context_def result_simps account_wf_frame)

lemma replace_adapter_wf:
  "replace_adapter pf ev st new old = Ok (st', ms) \<Longrightarrow> account_wf st \<Longrightarrow> account_wf st'"
  by (auto simp: replace_adapter_def result_simps Let_def dest: update_whitelisted_wf)

lemma handle_adapter_migration_wf:
  "handle_adapter_migration pf ch ev st mi old new = Ok (st', ms) \<Longrightarrow> account_wf st \<Longrightarrow> account_wf st'"
  by (auto simp: handle_adapter_migration_def result_simps Let_def
      dest!: replace_adapter_wf add_module_upgrade_to_context_wf update_module_addresses_wf)

lemma handle_app_migration_wf:
  "handle_app_migration ch st mm old mi code = Ok (st', ms) \<Longrightarrow> account_wf st \<Longrightarrow> account_wf st'"
  by (auto simp: handle_app_migration_def result_simps Let_def
      dest: add_module_upgrade_to_context_wf)

text \<open>Every module that is upgraded adds at least one message.\<close>

lemma set_migrate_msgs_and_context_Ok:
  assumes "set_migrate_msgs_and_context pf ch ev st mi mm ms = Ok (st', ms')"
  shows "account_wf st \<Longrightarrow> account_wf st'" and "ms' \<noteq> []"
proof -
  from assms obtain response :: module_response and old new_msgs where
    step: "(case m_reference (mr_module response) of
         Adapter new \<Rightarrow> handle_adapter_migration pf ch ev st (m_info (mr_module response)) old new
       | App code_id \<Rightarrow> handle_app_migration ch st mm old (m_info (mr_module response)) code_id
       | Standalone code_id \<Rightarrow> and_then (unwrap mm) (\<lambda>mm.
           Ok (st, [build_module_migrate_msg old code_id mm]))
       | _ \<Rightarrow> Err (NotUpgradeable mi)) = Ok (st', new_msgs)"
    and ms': "ms' = ms @ new_msgs"
    unfolding set_migrate_msgs_and_context_def and_then_Ok by (auto split: prod.splits)
  show "account_wf st'" if "account_wf st"
    using step that
    by (cases "m_reference (mr_module response)")
      (auto simp: result_simps dest: handle_adapter_migration_wf handle_app_migration_wf)
  have "new_msgs \<noteq> []"
    using step
    by (cases "m_reference (mr_module response)")
      (auto simp: result_simps handle_adapter_migration_def replace_adapter_def handle_app_migration_def Let_def)
  with ms' show "ms' \<noteq> []" by simp
qed

lemma upgrade_one_Ok:
  assumes "upgrade_one pf ch ev up x = Ok up'"
  shows "account_wf (up_state up) \<Longrightarrow> account_wf (up_state up')"
    and "up_msgs up' \<noteq> [] \<or> up_account up' \<noteq> None"
proof -
  obtain mi mm where x: "x = (mi, mm)" by (cases x)
  have "(account_wf (up_state up) \<longrightarrow> account_wf (up_state up'))
    \<and> (up_msgs up' \<noteq> [] \<or> up_account up' \<noteq> None)"
  proof (cases "module_id mi = ACCOUNT")
    case True
    with assms x show ?thesis by (auto simp: upgrade_one_def Let_def split: if_splits)
  next
    case False
    with assms x obtain st' ms' where
      "set_migrate_msgs_and_context pf ch ev (up_state up) mi mm (up_msgs up) = Ok (st', ms')"
      and "up_state up' = st'" "up_msgs up' = ms'"
      by (auto simp: upgrade_one_def Let_def and_then_Ok split: if_splits)
    with set_migrate_msgs_and_context_Ok show ?thesis by metis
  qed
  then show "account_wf (up_state up) \<Longrightarrow> account_wf (up_state up')"
    and "up_msgs up' \<noteq> [] \<or> up_account up' \<noteq> None" by blast+
qed

lemma upgrade_fold_wf:
  assumes "try_fold (upgrade_one pf ch ev) up xs = Ok up'" and "account_wf (up_state up)"
  shows "account_wf (up_state up')"
  using assms by (rule try_fold_invariant [where P = "\<lambda>up. account_wf (up_state up)"])
    (auto dest: upgrade_one_Ok)

lemma upgrade_fold_msgs:
  assumes "try_fold (upgrade_one pf ch ev) up xs = Ok up'" and "xs \<noteq> []"
  shows "up_msgs up' \<noteq> [] \<or> up_account up' \<noteq> None"
proof -
  obtain ys x where xs: "xs = ys @ [x]" using assms(2) by (cases xs rule: rev_cases) auto
  with assms(1) show ?thesis by (auto simp: try_fold_append result_simps dest: upgrade_one_Ok(2))
qed

text \<open>An upgrade takes the wild card and always ends in the reply that gives it back.\<close>

lemma upgrade_modules_Ok:
  assumes "upgrade_modules pf ch ev st info ms = Ok (st', out)"
  shows "account_wf st \<Longrightarrow> account_wf st'"
    and "out \<noteq> [] \<and> sm_reply_on_success (last out)
      = Some ASSERT_MODULE_DEPENDENCIES_REQUIREMENTS_REPLY_ID"
proof -
  let ?st = "st\<lparr>calling_to_as_admin := Some CALLING_TO_AS_ADMIN_WILD_CARD\<rparr>"
  from assms obtain up upgrade_msgs where ne: "ms \<noteq> []"
    and up: "try_fold (upgrade_one pf ch ev)
       \<lparr>up_state = ?st, up_msgs = [], up_account = None, up_ids = []\<rparr> ms = Ok up"
    and msgs: "(case up_account up of
         Some (account_info, account_migrate_msg) \<Rightarrow>
           and_then (self_upgrade_msg ch ev (up_state up) account_info
             (case account_migrate_msg of Some m \<Rightarrow> m | None \<Rightarrow> [])) (\<lambda>msg. Ok (up_msgs up @ [msg]))
       | None \<Rightarrow> Ok (up_msgs up)) = Ok upgrade_msgs"
    and st': "st' = up_state up"
    and out: "out = with_last_reply ASSERT_MODULE_DEPENDENCIES_REQUIREMENTS_REPLY_ID upgrade_msgs"
    unfolding upgrade_modules_def and_then_Ok Let_def by (auto simp: ensure_Ok)
  show "account_wf st'" if "account_wf st"
    using upgrade_fold_wf [OF up] that st' by (simp add: account_wf_frame)
  from upgrade_fold_msgs [OF up ne] msgs have "upgrade_msgs \<noteq> []"
    by (auto simp: result_simps split: option.splits prod.splits)
  with out show "out \<noteq> [] \<and> sm_reply_on_success (last out)
      = Some ASSERT_MODULE_DEPENDENCIES_REQUIREMENTS_REPLY_ID"
    by (simp add: with_last_reply_def reply_on_success_def)
qed

section \<open>Replies and entry points\<close>

lemma check_migrated_wf:
  assumes "check_migrated ch st x = Ok st'" and "account_wf st"
  shows "account_wf st'"
proof -
  obtain mid old where x: "x = (mid, old)" by (cases x)
  from assms(1) x obtain st1 new_deps where
    st1: "maybe_remove_old_deps ch st mid old = Ok st1"
    and st2: "maybe_add_new_deps ch st1 mid old = Ok (st', new_deps)"
    by (auto simp: check_migrated_def and_then_Ok)
  from st1 obtain xs where "try_fold (remove_old_dep mid) st xs = Ok st1"
    by (auto simp: maybe_remove_old_deps_def result_simps)
  then have "account_wf st1" using assms(2)
    by (rule try_fold_invariant) (auto simp: remove_old_dep_def result_simps drop_dependent_wf)
  then have "account_wf (fold (add_dependent mid) ds st1)" for ds
    by (rule set_as_dependent_wf [unfolded set_as_dependent_def])
  with st2 show ?thesis by (auto simp: maybe_add_new_deps_def result_simps)
qed

lemma register_one_wf:
  assumes "register_one ch st x = Ok st'" and "account_wf st"
  shows "account_wf st'"
proof -
  obtain m a where "x = (m, a)" by (cases x)
  with assms show ?thesis
    by (cases "m_reference m") (auto simp: register_one_def result_simps Let_def set_as_dependent_wf)
qed

lemma account_reply_wf:
  assumes "account_reply ch st rp = Ok (st', d)" and "account_wf st"
  shows "account_wf st'"
proof -
  have "account_wf t" if "register_dependencies ch st = Ok t" for t
    using that assms(2) register_one_wf
    by (auto simp: register_dependencies_def result_simps intro: try_fold_invariant [where P = account_wf])
  moreover have "account_wf t" if "assert_modules_dependency_requirements ch st = Ok t" for t
  proof -
    from that obtain xs t1 where "try_fold (check_migrated ch) st xs = Ok t1"
      and t: "t = t1\<lparr>calling_to_as_admin := None, migrate_context := Some []\<rparr>"
      by (auto simp: assert_modules_dependency_requirements_def result_simps)
    then have "account_wf t1" using assms(2) check_migrated_wf
      by (auto intro: try_fold_invariant [where P = account_wf])
    with t show ?thesis by (simp add: account_wf_frame)
  qed
  ultimately show ?thesis using assms
    by (auto simp: account_reply_def map_ok_Ok admin_action_reply_def account_wf_frame split: if_splits)
qed

lemma admin_execute_wf:
  "admin_execute ch st info a m = Ok (st', out) \<Longrightarrow> account_wf st \<Longrightarrow> account_wf st'"
  by (auto simp: admin_execute_def result_simps account_wf_frame split: if_splits)

lemma internal_config_wf:
  "internal_config ch st action = Ok (st', out) \<Longrightarrow> account_wf st \<Longrightarrow> account_wf st'"
  by (cases action)
    (auto simp: and_then_Ok simp del: split_paired_Ex dest!: update_module_addresses_wf update_whitelisted_wf)

lemma execute_msgs_keeps: "execute_msgs ch ev st s ms = Ok (st', out) \<Longrightarrow> st' = st"
  by (auto simp: execute_msgs_def result_simps)

text \<open>Both sub-account messages need the account that the registry lists under the local id.\<close>

lemma sub_account_action_Ok:
  "handle_sub_account_action ch ev st info (UnregisterSubAccount i) = Ok (st', out) \<longleftrightarrow>
     account_of_seq ch ev i = Ok (Some (info_sender info))
     \<and> st' = st\<lparr>sub_accounts := remove i (sub_accounts st)\<rparr> \<and> out = []"
  "handle_sub_account_action ch ev st info (RegisterSubAccount i) = Ok (st', out) \<longleftrightarrow>
     account_of_seq ch ev i = Ok (Some (info_sender info))
     \<and> st' = st\<lparr>sub_accounts := save i () (sub_accounts st)\<rparr> \<and> out = []"
proof -
  show "handle_sub_account_action ch ev st info (UnregisterSubAccount i) = Ok (st', out) \<longleftrightarrow>
     account_of_seq ch ev i = Ok (Some (info_sender info))
     \<and> st' = st\<lparr>sub_accounts := remove i (sub_accounts st)\<rparr> \<and> out = []"
  proof (cases "account_of_seq ch ev i")
    case (Ok r)
    then show ?thesis by (cases r) (auto simp: unregister_sub_account_def)
  qed (simp_all add: unregister_sub_account_def)
  show "handle_sub_account_action ch ev st info (RegisterSubAccount i) = Ok (st', out) \<longleftrightarrow>
     account_of_seq ch ev i = Ok (Some (info_sender info))
     \<and> st' = st\<lparr>sub_accounts := save i () (sub_accounts st)\<rparr> \<and> out = []"
    by (cases "account_of_seq ch ev i") (auto simp: register_sub_account_def)
qed

lemma account_handle_wf:
  assumes "account_handle pf ch ev st info msg = Ok (st', out)" and "account_wf st"
  shows "account_wf st'"
proof (cases msg)
  case (UpdateInfo n d l)
  with assms show ?thesis
    by (auto simp: update_info_def and_then_Ok Let_def account_wf_frame)
next
  case (UpdateSubAccount a)
  with assms show ?thesis
    by (cases a) (auto simp: sub_account_action_Ok account_wf_frame simp del: handle_sub_account_action.simps)
next
  case (UpdateOwnership a)
  with assms show ?thesis by (auto simp: and_then_Ok account_wf_frame)
next
  case (CreateSubAccount n d l ns ms i)
  with assms show ?thesis by (auto simp: create_sub_account_def and_then_Ok Let_def)
next
  case (InstallModules ms)
  with assms show ?thesis by (auto simp: install_modules_def and_then_Ok dest: install_modules_internal_wf)
next
  case (UpdateInternalConfig c)
  with assms show ?thesis by (auto simp: update_internal_config_def and_then_Ok dest: internal_config_wf)
qed (use assms in \<open>auto simp: and_then_Ok execute_msgs_with_data_def execute_on_module_def
      admin_execute_on_module_def ica_action_def
      dest: execute_msgs_keeps admin_execute_wf uninstall_module_wf upgrade_modules_Ok(1)\<close>)

lemma account_execute_wf:
  assumes "account_execute pf ch ev st info msg = Ok (st', out)" and "account_wf st"
  shows "account_wf st'"
proof (cases "\<exists>s. msg = UpdateStatus s")
  case True
  with assms show ?thesis
    by (auto simp: account_execute_def update_account_status_def update_suspension_status_def
        result_simps account_wf_frame split: option.splits)
next
  case False
  with assms(1) have "account_handle pf ch ev st info msg = Ok (st', out)"
    by (cases msg) (auto simp: account_execute_def result_simps split: if_splits)
  then show ?thesis using assms(2) by (rule account_handle_wf)
qed

lemma account_migrate_wf:
  "account_migrate ch st = Ok (st', out) \<Longrightarrow> account_wf st \<Longrightarrow> account_wf st'"
  by (auto simp: account_migrate_def result_simps account_wf_frame split: if_splits)

text \<open>The state an account has before its first modules are installed.\<close>

definition fresh_account :: "account_id \<Rightarrow> account_info \<Rightarrow> ownership \<Rightarrow> account_state" where
  "fresh_account aid ai ow = empty_account\<lparr>
     a_cw2 := Some \<lparr>cv_contract = ACCOUNT, cv_version = CONTRACT_VERSION\<rparr>, a_account_id := Some aid,
     whitelisted_modules := Some [], a_info := if has_info ai then Some ai else None,
     migrate_context := Some [], a_ownership := Some ow, suspension_status := Some False\<rparr>"

lemma fresh_account_wf: "account_wf (fresh_account aid ai ow)"
  by (simp add: fresh_account_def empty_account_def account_wf_def whitelist_ok_def items_ok_def
      modules_ok_def dependents_ok_def)

text \<open>What a successful instantiation has passed.\<close>

lemma account_instantiate_elim:
  assumes "account_instantiate pf ch ev empty_account info msg = Ok (st', out)"
  obtains registry module_factory aid governance ow fee cs ims cs' where
    "registry_contract_new ch (aim_code_id msg) = Ok registry"
    and "module_factory_contract_new ch (aim_code_id msg) = Ok module_factory"
    and "(case aim_account_id msg of Some i \<Rightarrow> Ok i
       | None \<Rightarrow> map_ok account_id_local (query_local_sequence ch registry)) = Ok aid"
    and "gov_verify ch (case aim_owner msg of Some g \<Rightarrow> g
       | None \<Rightarrow> AbstractAccount (env_contract ev)) = Ok governance"
    and "verify_new_owner ch ev info governance = Ok ()"
    and "initialize_owner ch (case aim_owner msg of Some g \<Rightarrow> g
       | None \<Rightarrow> AbstractAccount (env_contract ev)) = Ok ow"
    and "instantiate_modules pf ch module_factory (fresh_account aid
       \<lparr>ai_name = aim_name msg, ai_description = aim_description msg, ai_link = aim_link msg\<rparr> ow)
       msg cs = Ok (st', ims, cs')"
    and "check_funds (p_coins pf) cs' (info_funds info) = Ok ()"
    and "out = plain_msg (WasmExecute registry
           (ToRegistry (AddAccount (aim_namespace msg) (info_sender info))) fee)
         # (case own_owner ow of
             SubAccount account \<Rightarrow> [plain_msg (WasmExecute account
               (ToAccountSub (RegisterSubAccount (acc_seq aid))) [])]
           | _ \<Rightarrow> []) @ ims"
proof -
  let ?ai = "\<lparr>ai_name = aim_name msg, ai_description = aim_description msg, ai_link = aim_link msg\<rparr>"
  have fresh: "(if has_info ?ai
      then empty_account\<lparr>a_cw2 := Some \<lparr>cv_contract = ACCOUNT, cv_version = CONTRACT_VERSION\<rparr>,
        a_account_id := Some aid, whitelisted_modules := Some []\<rparr>\<lparr>a_info := Some ?ai\<rparr>
      else empty_account\<lparr>a_cw2 := Some \<lparr>cv_contract = ACCOUNT, cv_version = CONTRACT_VERSION\<rparr>,
        a_account_id := Some aid, whitelisted_modules := Some []\<rparr>)
      \<lparr>migrate_context := Some [], a_ownership := Some ow, suspension_status := Some False\<rparr>
    = fresh_account aid ?ai ow" for aid ow
    by (simp add: fresh_account_def empty_account_def)
  from assms show thesis
    unfolding account_instantiate_def and_then_Ok map_err_Ok Let_def
    by (elim exE conjE) (clarsimp simp only: fresh prod.case split_paired_all result.inject prod.inject and_then_Ok,
      rule that, assumption+, simp_all)
qed

lemma account_instantiate_wf:
  assumes "account_instantiate pf ch ev empty_account info msg = Ok (st', out)"
  shows "account_wf st'"
  using assms
proof (rule account_instantiate_elim)
  fix module_factory aid ow cs ims cs'
  assume "instantiate_modules pf ch module_factory (fresh_account aid
       \<lparr>ai_name = aim_name msg, ai_description = aim_description msg, ai_link = aim_link msg\<rparr> ow)
       msg cs = Ok (st', ims, cs')"
  then show ?thesis
    by (auto simp: instantiate_modules_def and_then_Ok fresh_account_wf
        dest: install_modules_internal_wf split: if_splits)
qed

section \<open>Reachable accounts\<close>

inductive account_start :: "'c platform \<Rightarrow> account_state \<Rightarrow> bool" for pf where
  "account_instantiate pf ch ev empty_account info msg = Ok (st, out) \<Longrightarrow> account_start pf st"

inductive account_step :: "'c platform \<Rightarrow> account_state \<Rightarrow> account_state \<Rightarrow> bool" for pf where
  step_execute: "account_execute pf ch ev st info msg = Ok (st', out) \<Longrightarrow> account_step pf st st'"
| step_reply: "account_reply ch st rp = Ok (st', data) \<Longrightarrow> account_step pf st st'"
| step_migrate: "account_migrate ch st = Ok (st', out) \<Longrightarrow> account_step pf st st'"

inductive_cases account_stepE: "account_step pf st st'"
inductive_cases account_startE: "account_start pf st"

interpretation wf: invariant "account_start pf" "account_step pf" account_wf for pf :: "'c platform"
  by unfold_locales
    (auto elim!: account_startE account_stepE
      intro: account_instantiate_wf account_execute_wf account_reply_wf account_migrate_wf)

text \<open>An account of a monarch, on the sample chain.\<close>

definition sample_env :: env where
  "sample_env = \<lparr>env_contract = ''acct'', env_block = \<lparr>height = 1, time = 1, chain_id = ''c-1''\<rparr>\<rparr>"

definition monarch_owner :: ownership where
  "monarch_owner = \<lparr>own_owner = Monarchy ''king'', own_pending_owner = None, own_pending_expiry = None\<rparr>"

definition king_info :: message_info where
  "king_info = \<lparr>info_sender = ''king'', info_funds = []\<rparr>"

definition sample_account :: account_state where
  "sample_account = fresh_account (account_id_local 1)
     \<lparr>ai_name = None, ai_description = None, ai_link = None\<rparr> monarch_owner"

lemma sample_account_start: "account_start sample_platform sample_account"
proof -
  have "account_instantiate sample_platform sample_chain sample_env empty_account king_info
      \<lparr>aim_code_id = 7, aim_owner = Some (Monarchy ''king''), aim_account_id = Some (account_id_local 1),
       aim_namespace = None, aim_install_modules = [], aim_name = None, aim_description = None,
       aim_link = None\<rparr>
    = Ok (sample_account, [plain_msg (WasmExecute ''reg'' (ToRegistry (AddAccount None ''king'')) [])])"
    by (simp add: account_instantiate_def sample_chain_def sample_platform_def code_defs
        registry_contract_new_def module_factory_contract_new_def validate_description_def
        validate_link_def verify_new_owner_def instantiate_modules_def check_funds_def king_info_def
        sample_account_def fresh_account_def empty_account_def has_info_def monarch_owner_def)
  then show ?thesis by (rule account_start.intros)
qed

lemma sample_account_reachable:
  "reachable (account_start sample_platform) (account_step sample_platform) sample_account"
  by (rule reach_start, rule sample_account_start)

text \<open>
  C9: every account that can be reached, by whatever messages, replies and migrations, is
  well-formed. The whitelist of addresses that may act for it has no repetition and at most fifteen
  entries, no module has an empty id, no module is listed twice as a dependent, the state keeps its
  owner, id, status and contract name.
\<close>

theorem account_well_formed:
  assumes "reachable (account_start pf) (account_step pf) st"
  shows "(\<exists>wl. whitelisted_modules st = Some wl \<and> distinct wl \<and> length wl \<le> 15)
    \<and> load (account_modules st) [] = None
    \<and> (\<forall>mid ds. load (dependents st) mid = Some ds \<longrightarrow> distinct ds)
    \<and> suspension_status st \<noteq> None \<and> a_ownership st \<noteq> None \<and> a_account_id st \<noteq> None
    \<and> migrate_context st \<noteq> None \<and> (\<exists>cv. a_cw2 st = Some cv \<and> cv_contract cv = ACCOUNT)"
  using wf.holds [OF assms]
  by (simp add: account_wf_def whitelist_ok_def items_ok_def modules_ok_def dependents_ok_def
      WHITELIST_SIZE_LIMIT_def)

theorem account_well_formed_witness: "\<exists>wl. whitelisted_modules sample_account = Some wl \<and> length wl \<le> 15"
  using account_well_formed [OF sample_account_reachable] by blast

end
