(* ===== verification/Account_Safety.thy ===== *)
theory Account_Safety
  imports Account_Invariants
begin

text \<open>
  Who may do what with an account: the suspension switch, the permission each message needs, the
  permission to act as admin of a module (\<open>CALLING_TO_AS_ADMIN\<close>) over whole transactions with nested
  calls, and the registration of sub-accounts.
\<close>

section \<open>Permissions\<close>

definition account_owner :: "chain \<Rightarrow> account_state \<Rightarrow> addr \<Rightarrow> bool" where
  "account_owner ch st s \<longleftrightarrow> (\<exists>ow. a_ownership st = Some ow \<and> controls ch (own_owner ow) s)"

text \<open>A module on the whitelist, the owner, or the account itself.\<close>

definition may_act :: "chain \<Rightarrow> env \<Rightarrow> account_state \<Rightarrow> addr \<Rightarrow> bool" where
  "may_act ch ev st s \<longleftrightarrow> (\<exists>wl. whitelisted_modules st = Some wl
     \<and> (s \<in> set wl \<or> account_owner ch st s \<or> s = env_contract ev))"

lemma assert_owner_iff [simp]: "assert_account_owner ch st s = Ok u \<longleftrightarrow> account_owner ch st s"
  by (simp add: assert_account_owner_Ok account_owner_def)

lemma assert_may_act [simp]:
  "assert_whitelisted_owner_or_self ch ev st s = Ok u \<longleftrightarrow> may_act ch ev st s"
proof -
  have "is_ok (assert_nested_owner ch (a_ownership st) s) \<longleftrightarrow> account_owner ch st s"
    using nested_owner_Ok [of ch "a_ownership st" s]
    by (cases "assert_nested_owner ch (a_ownership st) s") (simp_all add: account_owner_def)
  then show ?thesis
    by (cases "whitelisted_modules st")
      (auto simp: assert_whitelisted_owner_or_self_def may_act_def load_item_def)
qed

fun permitted :: "chain \<Rightarrow> env \<Rightarrow> account_state \<Rightarrow> addr \<Rightarrow> account_execute_msg \<Rightarrow> bool" where
  "permitted ch ev st s (Execute _) = may_act ch ev st s"
| "permitted ch ev st s (ExecuteWithData _) = may_act ch ev st s"
| "permitted ch ev st s (ExecuteOnModule _ _ _) = may_act ch ev st s"
| "permitted ch ev st s (IcaAction _) = may_act ch ev st s"
| "permitted ch ev st s (UpdateSubAccount (RegisterSubAccount i)) = (account_of_seq ch ev i = Ok (Some s))"
| "permitted ch ev st s (UpdateSubAccount (UnregisterSubAccount i)) = (account_of_seq ch ev i = Ok (Some s))"
| "permitted ch ev st s (UpdateOwnership action) =
     is_ok (update_ownership ch (env_block ev) s action (a_ownership st))"
| "permitted ch ev st s AddAuthMethod = False"
| "permitted ch ev st s (RemoveAuthMethod _) = False"
| "permitted ch ev st s _ = account_owner ch st s"

lemma account_handle_permitted:
  assumes "account_handle pf ch ev st info msg = Ok (st', out)"
  shows "permitted ch ev st (info_sender info) msg"
proof (cases msg)
  case (UpdateSubAccount a)
  with assms show ?thesis
    by (cases a) (auto simp: sub_account_action_Ok simp del: handle_sub_account_action.simps)
qed (use assms in \<open>auto simp: and_then_Ok map_err_Ok execute_msgs_def execute_msgs_with_data_def
      execute_on_module_def admin_execute_on_module_def admin_execute_def ica_action_def
      update_internal_config_def install_modules_def uninstall_module_def upgrade_modules_def
      create_sub_account_def update_info_def\<close>)

lemma account_execute_handles:
  assumes "account_execute pf ch ev st info msg = Ok (st', out)" and "\<And>s. msg \<noteq> UpdateStatus s"
  shows "account_handle pf ch ev st info msg = Ok (st', out)" and "suspension_status st = Some False"
  using assms by (cases msg; auto simp: account_execute_def result_simps split: if_splits)+

lemma update_status_Ok:
  "account_execute pf ch ev st info (UpdateStatus status) = Ok (st', out) \<longleftrightarrow>
     (\<exists>b. status = Some b \<and> account_owner ch st (info_sender info)
        \<and> st' = st\<lparr>suspension_status := Some b\<rparr> \<and> out = [])"
  by (cases status) (auto simp: account_execute_def update_account_status_def
      update_suspension_status_def and_then_Ok)

text \<open>
  C8: every message an account carries out was sent by someone with the permission it needs: the
  owner (or the top-level owner above a sub-account) for configuration, modules, upgrades, admin
  calls and new sub-accounts; a whitelisted address, the owner or the account itself for plain
  execution; the account registered under that id for sub-account registration; whoever the
  ownership rules allow for ownership messages.
\<close>

theorem account_execute_authorised:
  assumes "account_execute pf ch ev st info msg = Ok (st', out)"
  shows "permitted ch ev st (info_sender info) msg"
proof (cases "\<exists>s. msg = UpdateStatus s")
  case True
  with assms show ?thesis using update_status_Ok [of pf ch ev st info _ st' out] by auto
next
  case False
  with assms have "account_handle pf ch ev st info msg = Ok (st', out)"
    by (intro account_execute_handles) auto
  then show ?thesis by (rule account_handle_permitted)
qed

lemma king_owns: "account_owner ch sample_account ''king''"
  by (simp add: account_owner_def controls_def sample_account_def fresh_account_def monarch_owner_def)

lemma sample_account_simps [simp]:
  "suspension_status sample_account = Some False" "calling_to_as_admin sample_account = None"
  "account_modules sample_account = []" "sub_accounts sample_account = []"
  "whitelisted_modules sample_account = Some []" "a_ownership sample_account = Some monarch_owner"
  "a_account_id sample_account = Some (account_id_local 1)" "dependents sample_account = []"
  by (simp_all add: sample_account_def fresh_account_def empty_account_def)

lemma sample_chain_simps [simp]:
  "q_addr_validate sample_chain a = Ok a" "q_ownership sample_chain a = Err (StdNotFound a)"
  by (simp_all add: sample_chain_def)

theorem account_execute_authorised_witness:
  "account_owner sample_chain sample_account ''king''"
proof -
  have "account_execute sample_platform sample_chain sample_env sample_account king_info
      (UpdateStatus (Some True)) = Ok (sample_account\<lparr>suspension_status := Some True\<rparr>, [])"
    unfolding update_status_Ok using king_owns by (intro exI [of _ True]) (simp add: king_info_def)
  from account_execute_authorised [OF this] show ?thesis by (simp add: king_info_def)
qed

text \<open>
  C10: a suspended account does exactly one thing: its owner can set the status. Every other message
  fails, from every sender, and setting the status changes nothing else and sends nothing.
\<close>

theorem suspended_account_only_status:
  assumes "suspension_status st = Some True"
  shows "account_execute pf ch ev st info msg = Ok (st', out) \<longleftrightarrow>
    (\<exists>b. msg = UpdateStatus (Some b) \<and> account_owner ch st (info_sender info)
       \<and> st' = st\<lparr>suspension_status := Some b\<rparr> \<and> out = [])"
proof (cases "\<exists>s. msg = UpdateStatus s")
  case True
  then show ?thesis using update_status_Ok [of pf ch ev st info _ st' out] by auto
next
  case False
  have "account_execute pf ch ev st info msg \<noteq> Ok (st', out)"
    using account_execute_handles(2) [of pf ch ev st info msg st' out] False assms by auto
  with False show ?thesis by auto
qed

theorem suspended_account_only_status_witness:
  "account_execute sample_platform sample_chain sample_env
     (sample_account\<lparr>suspension_status := Some True\<rparr>) king_info (Execute []) \<noteq> Ok (sample_account, [])"
  using suspended_account_only_status [of "sample_account\<lparr>suspension_status := Some True\<rparr>"
      sample_platform sample_chain sample_env king_info "Execute []" sample_account "[]"] by simp

section \<open>Acting as admin of a module\<close>

text \<open>The handlers that leave \<open>CALLING_TO_AS_ADMIN\<close> alone.\<close>

lemma fold_dependents_calling:
  "calling_to_as_admin (set_as_dependent st mid deps) = calling_to_as_admin st"
  "calling_to_as_admin (remove_as_dependent st mid deps) = calling_to_as_admin st"
  by (induction deps arbitrary: st)
    (simp_all add: set_as_dependent_def remove_as_dependent_def add_dependent_def drop_dependent_def)

lemma update_whitelisted_calling:
  "update_whitelisted_modules st xs ys = Ok st' \<Longrightarrow> calling_to_as_admin st' = calling_to_as_admin st"
  by (auto simp: update_whitelisted_Ok)

lemma update_module_addresses_calling:
  assumes "update_module_addresses st xs ys = Ok st'"
  shows "calling_to_as_admin st' = calling_to_as_admin st"
proof -
  from assms obtain st1 where st1: "try_fold add_module_address st xs = Ok st1"
    and st': "calling_to_as_admin st' = calling_to_as_admin st1"
    by (auto simp: update_module_addresses_def result_simps)
  have "calling_to_as_admin st1 = calling_to_as_admin st"
    using st1 by (rule try_fold_invariant) (auto simp: add_module_address_def split: if_splits)
  with st' show ?thesis by simp
qed

lemma install_modules_calling:
  assumes "install_modules_internal pf ch st ms fnds code = Ok (st', out)"
  shows "calling_to_as_admin st' = calling_to_as_admin st"
  using assms
  by (auto simp: install_modules_internal_def and_then_Ok Let_def
      dest!: update_whitelisted_calling update_module_addresses_calling)

lemma uninstall_module_calling:
  assumes "uninstall_module ch ev st info mid = Ok (st', out)"
  shows "calling_to_as_admin st' = calling_to_as_admin st"
  using assms
  by (rule uninstall_module_elim)
    (auto simp: fold_dependents_calling dest: update_whitelisted_calling split: if_splits)

lemma set_migrate_msgs_calling:
  assumes "set_migrate_msgs_and_context pf ch ev st mi mm ms = Ok (st', ms')"
  shows "calling_to_as_admin st' = calling_to_as_admin st"
proof -
  from assms obtain response :: module_response and old new_msgs where
    "(case m_reference (mr_module response) of
         Adapter new \<Rightarrow> handle_adapter_migration pf ch ev st (m_info (mr_module response)) old new
       | App code_id \<Rightarrow> handle_app_migration ch st mm old (m_info (mr_module response)) code_id
       | Standalone code_id \<Rightarrow> and_then (unwrap mm) (\<lambda>mm.
           Ok (st, [build_module_migrate_msg old code_id mm]))
       | _ \<Rightarrow> Err (NotUpgradeable mi)) = Ok (st', new_msgs)"
    unfolding set_migrate_msgs_and_context_def and_then_Ok by (auto split: prod.splits)
  then show ?thesis
    by (cases "m_reference (mr_module response)")
      (auto simp: and_then_Ok load_item_Ok handle_adapter_migration_def handle_app_migration_def
        replace_adapter_def add_module_upgrade_to_context_def Let_def
        dest!: update_whitelisted_calling update_module_addresses_calling)
qed

lemma upgrade_one_calling:
  assumes "upgrade_one pf ch ev up x = Ok up'"
  shows "calling_to_as_admin (up_state up') = calling_to_as_admin (up_state up)"
  using assms set_migrate_msgs_calling
  by (cases x) (auto simp: upgrade_one_def Let_def and_then_Ok split: if_splits)

lemma upgrade_modules_calling:
  assumes "upgrade_modules pf ch ev st info ms = Ok (st', out)"
  shows "calling_to_as_admin st' = Some CALLING_TO_AS_ADMIN_WILD_CARD"
proof -
  let ?st = "st\<lparr>calling_to_as_admin := Some CALLING_TO_AS_ADMIN_WILD_CARD\<rparr>"
  from assms obtain up where up: "try_fold (upgrade_one pf ch ev)
       \<lparr>up_state = ?st, up_msgs = [], up_account = None, up_ids = []\<rparr> ms = Ok up"
    and st': "st' = up_state up"
    unfolding upgrade_modules_def and_then_Ok Let_def by auto
  have "calling_to_as_admin (up_state up) = Some CALLING_TO_AS_ADMIN_WILD_CARD"
    using up by (rule try_fold_invariant) (simp_all add: upgrade_one_calling)
  with st' show ?thesis by simp
qed

text \<open>The contract a message lets the account act on as admin, or the wild card.\<close>

fun admin_target :: "chain \<Rightarrow> account_state \<Rightarrow> account_execute_msg \<Rightarrow> addr option" where
  "admin_target ch st (AdminExecute a _) = (case q_addr_validate ch a of Ok b \<Rightarrow> Some b | _ \<Rightarrow> None)"
| "admin_target ch st (AdminExecuteOnModule mid _) = load (account_modules st) mid"
| "admin_target ch st (Upgrade _) = Some CALLING_TO_AS_ADMIN_WILD_CARD"
| "admin_target ch st _ = None"

lemma account_handle_calling:
  assumes "account_handle pf ch ev st info msg = Ok (st', out)"
  shows "calling_to_as_admin st' = (case admin_target ch st msg of Some a \<Rightarrow> Some a
    | None \<Rightarrow> calling_to_as_admin st)"
proof (cases msg)
  case (UpdateSubAccount a)
  with assms show ?thesis
    by (cases a) (auto simp: sub_account_action_Ok simp del: handle_sub_account_action.simps)
next
  case (UpdateInternalConfig c)
  with assms show ?thesis
    by (cases c) (auto simp: update_internal_config_def and_then_Ok
        dest!: update_whitelisted_calling update_module_addresses_calling)
next
  case (CreateSubAccount n d l ns ms i)
  with assms show ?thesis by (auto simp: create_sub_account_def and_then_Ok Let_def)
next
  case (UpdateInfo n d l)
  with assms show ?thesis by (auto simp: update_info_def and_then_Ok Let_def)
qed (use assms in \<open>auto simp: and_then_Ok map_err_Ok ok_or_Ok execute_msgs_with_data_def
      execute_on_module_def admin_execute_on_module_def admin_execute_def ica_action_def
      install_modules_def load_module_addr_def
      dest: execute_msgs_keeps install_modules_calling uninstall_module_calling
        upgrade_modules_calling split: if_splits\<close>)

lemma account_execute_calling:
  assumes "account_execute pf ch ev st info msg = Ok (st', out)"
  shows "calling_to_as_admin st' = (case admin_target ch st msg of Some a \<Rightarrow> Some a
    | None \<Rightarrow> calling_to_as_admin st)"
proof (cases "\<exists>s. msg = UpdateStatus s")
  case True
  with assms show ?thesis using update_status_Ok [of pf ch ev st info _ st' out] by auto
next
  case False
  with assms show ?thesis by (intro account_handle_calling account_execute_handles) auto
qed

text \<open>
  C7: outside an admin call, the only message after which a module accepts the account as its
  admin is the owner's admin call to this very module, or an upgrade (for every module). In
  particular an address on the whitelist cannot use the account to administrate a module. The module
  reads \<open>CALLING_TO_AS_ADMIN\<close> from the account; the account is not its own top-level owner.
\<close>

theorem module_accepts_account_as_admin_iff:
  assumes "account_execute pf ch ev st info msg = Ok (st', out)"
    and "calling_to_as_admin st = None"
    and "q_calling_to ch' (env_contract ev) = ok_or e (calling_to_as_admin st')"
    and "query_top_level_owner_addr ch' (env_contract ev) \<noteq> Ok (env_contract ev)"
  shows "assert_admin ch' (Some (Some (env_contract ev))) mev (env_contract ev) = Ok () \<longleftrightarrow>
    account_owner ch st (info_sender info)
    \<and> (admin_target ch st msg = Some (env_contract mev)
       \<or> admin_target ch st msg = Some CALLING_TO_AS_ADMIN_WILD_CARD)"
proof -
  have calling: "calling_to_as_admin st' = admin_target ch st msg"
    using account_execute_calling [OF assms(1)] assms(2) by (simp split: option.splits)
  have own: "account_owner ch st (info_sender info)" if "admin_target ch st msg = Some a" for a
  proof (cases "\<exists>s. msg = UpdateStatus s")
    case False
    with assms(1) have "account_handle pf ch ev st info msg = Ok (st', out)"
      by (intro account_execute_handles) auto
    from account_handle_permitted [OF this] that show ?thesis by (cases msg) auto
  qed (use that in auto)
  have "query_top_level_owner_addr ch' (env_contract ev) = Ok (env_contract ev) \<longleftrightarrow>
      (case query_top_level_owner_addr ch' (env_contract ev) of Ok a \<Rightarrow> a = env_contract ev | _ \<Rightarrow> False)"
    by (cases "query_top_level_owner_addr ch' (env_contract ev)") auto
  with assms(3,4) calling own show ?thesis
    by (auto simp: assert_admin_def is_admin_def is_admin_custom_def result_simps
        assert_account_calling_to_as_admin_is_self_def ok_or_def split: option.splits)
qed

lemma king_admin_call:
  "account_execute sample_platform sample_chain sample_env sample_account king_info
     (AdminExecute ''dex'' ''{}'') = Ok (sample_account\<lparr>calling_to_as_admin := Some ''dex''\<rparr>,
       [reply_on_success (WasmExecute ''dex'' (Raw ''{}'') []) ADMIN_ACTION_REPLY_ID])"
proof -
  have "assert_account_owner sample_chain sample_account ''king'' = Ok ()" by (simp add: king_owns)
  then show ?thesis
    by (simp add: account_execute_def admin_execute_def king_info_def load_item_def del: assert_owner_iff)
qed

theorem module_accepts_account_as_admin_iff_witness:
  "assert_admin (sample_chain\<lparr>q_calling_to := (\<lambda>a. Ok ''dex'')\<rparr>) (Some (Some ''acct''))
     (sample_env\<lparr>env_contract := ''dex''\<rparr>) ''acct'' = Ok ()"
  using module_accepts_account_as_admin_iff [OF king_admin_call, of
      "sample_chain\<lparr>q_calling_to := (\<lambda>a. Ok ''dex'')\<rparr>" "StdMsg []"
      "sample_env\<lparr>env_contract := ''dex''\<rparr>"] king_owns [of sample_chain]
  by (simp add: sample_env_def king_info_def query_top_level_owner_addr_def
      query_top_level_owner_def query_ownership_def MAX_ADMIN_RECURSION_def numeral_2_eq_2)

section \<open>Transactions\<close>

text \<open>
  A call to the account runs its handler and then its sub-messages in order. While a sub-message
  runs, any contract may call the account again, any number of times (\<open>calls\<close>); after it, the
  account gets the reply it asked for. A call that fails leaves no trace. A transaction that succeeds
  is a series of calls that all went through.
\<close>

inductive calls :: "'c platform \<Rightarrow> account_state \<Rightarrow> account_state \<Rightarrow> bool"
  and dispatch :: "'c platform \<Rightarrow> account_state \<Rightarrow> sub_msg list \<Rightarrow> account_state \<Rightarrow> bool" for pf where
  calls_done: "calls pf s s"
| calls_execute: "account_execute pf ch ev s info msg = Ok (s1, out) \<Longrightarrow> dispatch pf s1 out s2
    \<Longrightarrow> calls pf s2 s3 \<Longrightarrow> calls pf s s3"
| calls_migrate: "account_migrate ch s = Ok (s1, out) \<Longrightarrow> calls pf s1 s2 \<Longrightarrow> calls pf s s2"
| dispatch_done: "dispatch pf s [] s"
| dispatch_plain: "sm_reply_on_success m = None \<Longrightarrow> calls pf s s1 \<Longrightarrow> dispatch pf s1 ms s2
    \<Longrightarrow> dispatch pf s (m # ms) s2"
| dispatch_reply: "sm_reply_on_success m = Some i \<Longrightarrow> calls pf s s1
    \<Longrightarrow> account_reply ch s1 \<lparr>rp_id = i, rp_result = Ok d\<rparr> = Ok (s2, data) \<Longrightarrow> dispatch pf s2 ms s3
    \<Longrightarrow> dispatch pf s (m # ms) s3"

definition releases :: "sub_msg list \<Rightarrow> bool" where
  "releases ms \<longleftrightarrow> ms \<noteq> [] \<and> (sm_reply_on_success (last ms) = Some ADMIN_ACTION_REPLY_ID
     \<or> sm_reply_on_success (last ms) = Some ASSERT_MODULE_DEPENDENCIES_REQUIREMENTS_REPLY_ID)"

lemma register_dependencies_calling:
  assumes "register_dependencies ch st = Ok st'"
  shows "calling_to_as_admin st' = calling_to_as_admin st"
proof -
  from assms obtain ms where ms: "try_fold (register_one ch) st ms = Ok st'"
    by (auto simp: register_dependencies_def result_simps)
  have step: "calling_to_as_admin t' = calling_to_as_admin t" if "register_one ch t (m, a) = Ok t'"
    for t m a t'
    using that by (cases "m_reference m")
      (auto simp: register_one_def result_simps Let_def fold_dependents_calling)
  show ?thesis using ms
    by (rule try_fold_invariant) (auto dest: step)
qed

text \<open>Replies never take the permission; two of them give it back.\<close>

lemma account_reply_calling:
  assumes "account_reply ch st rp = Ok (st', d)"
  shows "calling_to_as_admin st' = None \<or> calling_to_as_admin st' = calling_to_as_admin st"
    and "rp_id rp = ADMIN_ACTION_REPLY_ID \<or> rp_id rp = ASSERT_MODULE_DEPENDENCIES_REQUIREMENTS_REPLY_ID
      \<Longrightarrow> calling_to_as_admin st' = None"
  using assms
  by (auto simp: account_reply_def map_ok_Ok admin_action_reply_def and_then_Ok reply_ids
      assert_modules_dependency_requirements_def dest: register_dependencies_calling split: if_splits)

lemma account_execute_releases:
  assumes "account_execute pf ch ev st info msg = Ok (st', out)"
  shows "calling_to_as_admin st' = calling_to_as_admin st \<or> releases out"
proof (cases "admin_target ch st msg")
  case None
  then show ?thesis using account_execute_calling [OF assms] by simp
next
  case (Some a)
  then have "\<And>s. msg \<noteq> UpdateStatus s" by auto
  from account_execute_handles(1) [OF assms this] Some have "releases out"
    by (cases msg) (auto simp: releases_def and_then_Ok map_err_Ok admin_execute_on_module_def
        admin_execute_def reply_on_success_def dest: upgrade_modules_Ok(2) split: if_splits)
  then show ?thesis ..
qed

lemma account_migrate_calling:
  "account_migrate ch st = Ok (st', out) \<Longrightarrow> calling_to_as_admin st' = calling_to_as_admin st"
  by (auto simp: account_migrate_def result_simps split: if_splits)

lemma calls_release:
  "calls pf s s' \<Longrightarrow> calling_to_as_admin s = None \<longrightarrow> calling_to_as_admin s' = None"
  "dispatch pf s ms s' \<Longrightarrow> calling_to_as_admin s = None \<or> releases ms \<longrightarrow> calling_to_as_admin s' = None"
proof (induction rule: calls_dispatch.inducts)
  case (calls_execute ch ev s info msg s1 out s2 s3)
  then show ?case using account_execute_releases [OF calls_execute(1)] by auto
next
  case (calls_migrate ch s s1 out s2)
  then show ?case using account_migrate_calling [OF calls_migrate(1)] by auto
next
  case (dispatch_plain m s s1 ms s2)
  then show ?case by (cases "ms = []") (auto simp: releases_def)
next
  case (dispatch_reply m i s s1 ch d s2 data ms s3)
  from account_reply_calling [OF dispatch_reply.hyps(2)] dispatch_reply show ?case
    by (cases "ms = []") (auto simp: releases_def elim: dispatch.cases)
qed (auto simp: releases_def)

text \<open>
  C6: the permission to act as admin never outlives a transaction. However the sub-messages of an
  admin call or an upgrade call back into the account, once every call has gone through the item
  \<open>CALLING_TO_AS_ADMIN\<close> is empty again, because each handler that fills it ends in a reply that
  clears it (an upgrade always sends at least one message).
\<close>

theorem admin_permission_released:
  assumes "calls pf s s'" and "calling_to_as_admin s = None"
  shows "calling_to_as_admin s' = None"
  using calls_release(1) [OF assms(1)] assms(2) by simp

lemma king_transaction: "calls sample_platform sample_account sample_account"
proof (rule calls_execute [OF king_admin_call])
  show "dispatch sample_platform (sample_account\<lparr>calling_to_as_admin := Some ''dex''\<rparr>)
      [reply_on_success (WasmExecute ''dex'' (Raw ''{}'') []) ADMIN_ACTION_REPLY_ID] sample_account"
  proof (rule dispatch_reply [OF _ calls_done _ dispatch_done])
    show "account_reply sample_chain (sample_account\<lparr>calling_to_as_admin := Some ''dex''\<rparr>)
        \<lparr>rp_id = ADMIN_ACTION_REPLY_ID, rp_result = Ok None\<rparr> = Ok (sample_account, None)"
      by (simp add: account_reply_def reply_ids admin_action_reply_def sample_account_def
          fresh_account_def empty_account_def)
  qed (simp add: reply_on_success_def)
qed (rule calls_done)

theorem admin_permission_released_witness: "calling_to_as_admin sample_account = None"
  using admin_permission_released [OF king_transaction] sample_account_simps(2) by blast

end
