(* ===== verification/Account_Modules.thy ===== *)
theory Account_Modules
  imports Account_Safety
begin

text \<open>
  Installing, removing and upgrading the modules of an account: an installation keeps what is there
  and asks the module factory exactly once, the addresses the account records are the ones the
  factory instantiates at, dependencies are checked and protected, and an upgrade only moves to code
  the registry holds.
\<close>

section \<open>Installation\<close>

lemma add_module_address_all:
  assumes "try_fold add_module_address st xs = Ok st'"
  shows "load (account_modules st') = load (account_modules st) ++ map_of (rev xs)"
    and "install_modules_context st' = install_modules_context st"
  using assms
proof (induction xs arbitrary: st)
  case (Cons x xs)
  {
    case 1
    then show ?case using Cons.IH(1)
      by (auto simp: result_simps add_module_address_def map_add_def fun_eq_iff
          split: prod.splits if_splits option.splits)
  next
    case 2
    then show ?case using Cons.IH(2)
      by (auto simp: result_simps add_module_address_def split: prod.splits if_splits)
  }
qed simp_all

text \<open>The loop records the modules in order and only those that are not installed yet.\<close>

definition installs :: "'c platform \<Rightarrow> chain \<Rightarrow> string \<Rightarrow> binary \<Rightarrow> module \<Rightarrow> addr \<Rightarrow> addr option \<Rightarrow> bool" where
  "installs pf ch canonical salt m a ctx \<longleftrightarrow>
     (case m_reference m of
        Adapter b \<Rightarrow> a = b \<and> ctx = None
      | Native b \<Rightarrow> a = b \<and> ctx = None
      | Service b \<Rightarrow> a = b \<and> ctx = None
      | App c \<Rightarrow> ctx = Some a \<and> (\<exists>sum raw. p_checksum pf c = Ok sum
          \<and> p_instantiate2 pf sum canonical salt = Ok raw \<and> q_humanize ch raw = Ok a)
      | Standalone c \<Rightarrow> ctx = Some a \<and> (\<exists>sum raw. p_checksum pf c = Ok sum
          \<and> p_instantiate2 pf sum canonical salt = Ok raw \<and> q_humanize ch raw = Ok a)
      | Account _ \<Rightarrow> False)"

lemma install_one_Ok:
  assumes "install_one pf ch st canonical salt ins (r, im) = Ok ins'"
  shows "\<exists>a ctx im'. ins' = record_install (mr_module r) a ctx im' ins
    \<and> installs pf ch canonical salt (mr_module r) a ctx
    \<and> load (account_modules st) (module_id (m_info (mr_module r))) = None"
proof -
  from assms have new: "load (account_modules st) (module_id (m_info (mr_module r))) = None"
    by (auto simp: install_one_def Let_def has_def split: if_splits)
  with assms show ?thesis
    by (cases "m_reference (mr_module r)")
      (auto simp: install_one_def install_contract_def installs_def Let_def has_def and_then_Ok
        map_err_Ok split: if_splits)
qed

lemma install_all_Ok:
  assumes "try_fold (install_one pf ch st canonical salt) ins (zip rs ims) = Ok ins'"
    and "length rs = length ims"
  shows "\<exists>xs. list_all2 (\<lambda>r x. installs pf ch canonical salt (mr_module r) (fst x) (snd x)
        \<and> load (account_modules st) (module_id (m_info (mr_module r))) = None) rs xs
      \<and> in_account ins' = in_account ins
        @ map2 (\<lambda>r x. (module_id (m_info (mr_module r)), fst x)) rs xs
      \<and> in_context ins' = in_context ins @ map2 (\<lambda>r x. (mr_module r, snd x)) rs xs
      \<and> map mic_module (in_factory ins') = map mic_module (in_factory ins) @ map (m_info \<circ> mr_module) rs"
  using assms(2,1)
proof (induction rs ims arbitrary: ins rule: list_induct2)
  case (Cons r rs im ims)
  then obtain ins1 where i1: "install_one pf ch st canonical salt ins (r, im) = Ok ins1"
    and rest: "try_fold (install_one pf ch st canonical salt) ins1 (zip rs ims) = Ok ins'"
    by (auto simp: result_simps)
  from install_one_Ok [OF i1] obtain a ctx im' where
    ins1: "ins1 = record_install (mr_module r) a ctx im' ins"
    and inst: "installs pf ch canonical salt (mr_module r) a ctx"
    and new: "load (account_modules st) (module_id (m_info (mr_module r))) = None" by blast
  from Cons.IH [OF rest] obtain xs where
    "list_all2 (\<lambda>r x. installs pf ch canonical salt (mr_module r) (fst x) (snd x)
        \<and> load (account_modules st) (module_id (m_info (mr_module r))) = None) rs xs"
    and "in_account ins' = in_account ins1
        @ map2 (\<lambda>r x. (module_id (m_info (mr_module r)), fst x)) rs xs"
    and "in_context ins' = in_context ins1 @ map2 (\<lambda>r x. (mr_module r, snd x)) rs xs"
    and "map mic_module (in_factory ins') = map mic_module (in_factory ins1) @ map (m_info \<circ> mr_module) rs"
    by blast
  with ins1 inst new show ?case
    by (intro exI [of _ "(a, ctx) # xs"]) (simp add: record_install_def)
qed simp

lemma fst_map2:
  "length xs = length ys \<Longrightarrow> map fst (map2 (\<lambda>x y. (g x, h y)) xs ys) = map g xs"
  by (induction xs ys rule: list_induct2) simp_all

text \<open>Everything an installation has done once it succeeds.\<close>

lemma install_modules_internal_elim:
  assumes "install_modules_internal pf ch st ms fnds code = Ok (st', out)"
  obtains registry mf canonical rs aid xs cfgs where
    "registry_contract_new ch code = Ok registry" and "module_factory_contract_new ch code = Ok mf"
    and "q_canonicalize ch mf = Ok canonical"
    and "query_modules_configs ch registry (map mic_module ms) = Ok rs" and "a_account_id st = Some aid"
    and "list_all2 (\<lambda>r x. installs pf ch canonical (generate_instantiate_salt pf aid) (mr_module r)
        (fst x) (snd x) \<and> load (account_modules st) (module_id (m_info (mr_module r))) = None) rs xs"
    and "load (account_modules st') = load (account_modules st)
        ++ map_of (rev (map2 (\<lambda>r x. (module_id (m_info (mr_module r)), fst x)) rs xs))"
    and "install_modules_context st' = Some (map2 (\<lambda>r x. (mr_module r, snd x)) rs xs)"
    and "map mic_module cfgs = map (m_info \<circ> mr_module) rs"
    and "out = [reply_on_success (WasmExecute mf
        (ToFactoryInstall cfgs (generate_instantiate_salt pf aid)) fnds)
        REGISTER_MODULES_DEPENDENCIES_REPLY_ID]"
proof -
  from assms obtain aid registry mf canonical rs and ins :: installation and st1 where
    basic: "a_account_id st = Some aid" "registry_contract_new ch code = Ok registry"
      "module_factory_contract_new ch code = Ok mf" "q_canonicalize ch mf = Ok canonical"
      "query_modules_configs ch registry (map mic_module ms) = Ok rs"
    and ins: "try_fold (install_one pf ch st canonical (generate_instantiate_salt pf aid))
       \<lparr>in_whitelist = [], in_account = [], in_context = [], in_factory = []\<rparr>
       (zip rs (map mic_init_msg ms)) = Ok ins"
    and st1: "update_whitelisted_modules st (in_whitelist ins) [] = Ok st1"
    and st': "update_module_addresses (st1\<lparr>install_modules_context := Some (in_context ins)\<rparr>)
       (in_account ins) [] = Ok st'"
    and out: "out = [reply_on_success (WasmExecute mf
        (ToFactoryInstall (in_factory ins) (generate_instantiate_salt pf aid)) fnds)
        REGISTER_MODULES_DEPENDENCIES_REPLY_ID]"
    unfolding install_modules_internal_def and_then_Ok map_err_Ok Let_def load_item_Ok by auto
  have len: "length rs = length (map mic_init_msg ms)"
    using query_modules_configs_length [OF basic(5)] by simp
  from install_all_Ok [OF ins len] obtain xs where
    xs: "list_all2 (\<lambda>r x. installs pf ch canonical (generate_instantiate_salt pf aid) (mr_module r)
        (fst x) (snd x) \<and> load (account_modules st) (module_id (m_info (mr_module r))) = None) rs xs"
    and acc: "in_account ins = map2 (\<lambda>r x. (module_id (m_info (mr_module r)), fst x)) rs xs"
    and ctx: "in_context ins = map2 (\<lambda>r x. (mr_module r, snd x)) rs xs"
    and fac: "map mic_module (in_factory ins) = map (m_info \<circ> mr_module) rs" by auto
  from st' have "try_fold add_module_address
      (st1\<lparr>install_modules_context := Some (in_context ins)\<rparr>) (in_account ins) = Ok st'"
    by (auto simp: update_module_addresses_def result_simps)
  from add_module_address_all [OF this] st1
  have l: "load (account_modules st') = load (account_modules st) ++ map_of (rev (in_account ins))"
    and c: "install_modules_context st' = Some (in_context ins)"
    by (auto simp: update_whitelisted_Ok)
  show thesis
    by (rule that [OF basic(2-5) basic(1) xs l [unfolded acc] c [unfolded ctx] fac out])
qed

text \<open>
  C11: only the owner installs modules. An installation never changes the address of a module that is
  already there, every module it is asked for is new and has an address afterwards, and it sends one
  message: all attached funds go to the module factory with the resolved modules, and the account
  asks for the reply in which it checks their dependencies.
\<close>

theorem install_modules_effect:
  assumes "install_modules pf ch ev st info ms = Ok (st', out)"
  shows "account_owner ch st (info_sender info)
    \<and> (load (account_modules st) mid = Some a \<longrightarrow> load (account_modules st') mid = Some a)
    \<and> (\<exists>ctx cfgs mf salt. install_modules_context st' = Some ctx \<and> length ctx = length ms
        \<and> (\<forall>m \<in> fst ` set ctx. load (account_modules st) (module_id (m_info m)) = None
            \<and> load (account_modules st') (module_id (m_info m)) \<noteq> None)
        \<and> map mic_module cfgs = map (m_info \<circ> fst) ctx
        \<and> out = [reply_on_success (WasmExecute mf (ToFactoryInstall cfgs salt) (info_funds info))
            REGISTER_MODULES_DEPENDENCIES_REPLY_ID])"
proof -
  from assms obtain code where owner: "account_owner ch st (info_sender info)"
    and run: "install_modules_internal pf ch st ms (info_funds info) code = Ok (st', out)"
    by (auto simp: install_modules_def and_then_Ok)
  from run show ?thesis
  proof (rule install_modules_internal_elim)
    fix registry mf canonical and rs :: "module_response list" and aid
    and xs :: "(addr \<times> addr option) list"
      and cfgs :: "module_install_config list"
    let ?salt = "generate_instantiate_salt pf aid"
    let ?new = "map2 (\<lambda>r x. (module_id (m_info (mr_module r)), fst x)) rs xs"
    let ?ctx = "map2 (\<lambda>r x. (mr_module r, snd x)) rs xs"
    assume rs: "query_modules_configs ch registry (map mic_module ms) = Ok rs"
      and xs: "list_all2 (\<lambda>r x. installs pf ch canonical ?salt (mr_module r) (fst x) (snd x)
        \<and> load (account_modules st) (module_id (m_info (mr_module r))) = None) rs xs"
      and l: "load (account_modules st') = load (account_modules st) ++ map_of (rev ?new)"
      and c: "install_modules_context st' = Some ?ctx"
      and f: "map mic_module cfgs = map (m_info \<circ> mr_module) rs"
      and out: "out = [reply_on_success (WasmExecute mf (ToFactoryInstall cfgs ?salt)
        (info_funds info)) REGISTER_MODULES_DEPENDENCIES_REPLY_ID]"
    have len: "length rs = length xs" using xs by (rule list_all2_lengthD)
    have keys: "fst ` set ?new = (\<lambda>r. module_id (m_info (mr_module r))) ` set rs"
      using fst_map2 [OF len, of "\<lambda>r. module_id (m_info (mr_module r))" fst] by (metis set_map)
    have mods: "fst ` set ?ctx = mr_module ` set rs"
      using fst_map2 [OF len, of mr_module snd] by (metis set_map)
    have new: "load (account_modules st) (module_id (m_info (mr_module r))) = None" if "r \<in> set rs" for r
      using xs that by (auto simp: list_all2_conv_all_nth in_set_conv_nth)
    have keep: "load (account_modules st) mid = Some a \<longrightarrow> load (account_modules st') mid = Some a"
    proof
      assume that: "load (account_modules st) mid = Some a"
      have "mid \<notin> fst ` set ?new" unfolding keys using that new by auto
      then have "map_of (rev ?new) mid = None" by (simp add: map_of_eq_None_iff)
      with that l show "load (account_modules st') mid = Some a" by (simp add: map_add_def)
    qed
    have stored: "load (account_modules st') (module_id (m_info (mr_module r))) \<noteq> None" if "r \<in> set rs" for r
    proof -
      have "module_id (m_info (mr_module r)) \<in> fst ` set ?new" unfolding keys using that by blast
      then have "map_of (rev ?new) (module_id (m_info (mr_module r))) \<noteq> None"
        by (simp add: map_of_eq_None_iff)
      with l show ?thesis by (auto simp: map_add_def)
    qed
    have "map (m_info \<circ> fst) ?ctx = map m_info (map mr_module rs)"
      by (simp only: map_map [symmetric] fst_map2 [OF len])
    then have infos: "map mic_module cfgs = map (m_info \<circ> fst) ?ctx" using f by simp
    have n: "length ?ctx = length ms" using len query_modules_configs_length [OF rs] by simp
    have "\<forall>m \<in> fst ` set ?ctx. load (account_modules st) (module_id (m_info m)) = None
        \<and> load (account_modules st') (module_id (m_info m)) \<noteq> None"
    proof
      fix m assume "m \<in> fst ` set ?ctx"
      then obtain r where "r \<in> set rs" "m = mr_module r" unfolding mods by (elim imageE)
      with new stored show "load (account_modules st) (module_id (m_info m)) = None
        \<and> load (account_modules st') (module_id (m_info m)) \<noteq> None" by simp
    qed
    then show ?thesis using owner keep c infos out n
      by (intro conjI exI [of _ ?ctx] exI [of _ cfgs] exI [of _ mf] exI [of _ ?salt]) assumption+
  qed
qed


text \<open>A concrete installation: an app of the developer \<open>dev\<close> on the account of the monarch.\<close>

definition app_module :: module_info where
  "app_module = \<lparr>mi_namespace = ''dev'', mi_name = ''calc'', mi_version = Version ''1.0.0''\<rparr>"

definition app_registry :: registry_state where
  "app_registry = paid_registry\<lparr>registered_modules := [(mod_key app_module, App 9)], module_config := []\<rparr>"

definition app_install :: module_install_config where
  "app_install = \<lparr>mic_module = app_module, mic_init_msg = Some ''{}''\<rparr>"

definition app_response :: module_response where
  "app_response = \<lparr>mr_module = \<lparr>m_info = app_module, m_reference = App 9\<rparr>,
     mr_config = default_module_configuration\<rparr>"

definition app_salt :: binary where
  "app_salt = generate_instantiate_salt sample_platform (account_id_local 1)"

definition app_account :: account_state where
  "app_account = sample_account\<lparr>whitelisted_modules := Some [''mf'' @ app_salt],
     install_modules_context := Some [(mr_module app_response, Some (''mf'' @ app_salt))],
     account_modules := [(''dev:calc'', ''mf'' @ app_salt)]\<rparr>"

lemma app_query: "query_modules_configs (paid_chain app_registry) ''reg'' [app_module] = Ok [app_response]"
proof -
  have "module_query_one sv app_registry app_module = Ok app_response" for sv
    by (simp add: module_query_one_def app_module_def app_registry_def load_err_def load_def
        module_configuration_from_storage_def app_response_def mod_key_def paid_registry_def
        empty_registry_def default_module_configuration_def)
  then show ?thesis
    by (simp add: query_modules_configs_def handle_modules_query_def smart_query_def paid_chain_facts)
qed

lemma app_chain_facts:
  "module_factory_contract_new (paid_chain rst) 7 = Ok ''mf''"
  "q_humanize (paid_chain rst) a = Ok a"
  "q_contract_info (paid_chain rst) (''mf'' @ app_salt) = Err (StdNotFound (''mf'' @ app_salt))"
  "q_semver (paid_chain rst) = sample_semver"
  by (simp_all add: paid_chain_def sample_chain_def code_defs module_factory_contract_new_def
      app_salt_def generate_instantiate_salt_def)

lemma app_install_run:
  "install_modules_internal sample_platform (paid_chain app_registry) sample_account [app_install] [] 7
   = Ok (app_account, [reply_on_success (WasmExecute ''mf'' (ToFactoryInstall [app_install] app_salt) [])
       REGISTER_MODULES_DEPENDENCIES_REPLY_ID])"
proof -
  have "module_id app_module = ''dev:calc''" by (simp add: app_module_def module_id_def)
  moreover have "should_be_whitelisted (mr_module app_response)"
    by (simp add: should_be_whitelisted_def app_response_def)
  ultimately show ?thesis
    using app_query app_chain_facts
    by (simp add: install_modules_internal_def load_item_def paid_chain_facts app_install_def
        install_one_def install_contract_def record_install_def has_def app_response_def
        sample_platform_def app_salt_def [symmetric] update_whitelisted_modules_def
        add_whitelisted_def update_module_addresses_def add_module_address_def Let_def
        WHITELIST_SIZE_LIMIT_def app_account_def)
      (simp add: app_salt_def sample_platform_def generate_instantiate_salt_def add_whitelisted_def
        add_module_address_def)
qed

definition app_label :: string where
  "app_label = ''Module: '' @ module_info_display app_module @ '', Height '' @ show_nat 1"

lemma app_create_run:
  "execute_create_modules sample_platform (paid_chain app_registry) paid_env empty_factory
     \<lparr>info_sender = ''acct'', info_funds = []\<rparr> [app_install] app_salt
   = Ok (empty_factory, [WasmInstantiate2 9 [] (Some ''acct'') app_label (AppInit ''acct'' ''{}'') app_salt])"
proof -
  have "account_addresses app_registry = account_addresses paid_registry" by (simp add: app_registry_def)
  from paid_chain_facts(5) [OF this] show ?thesis
    using app_query
    by (simp add: execute_create_modules_def paid_env_def app_install_def paid_chain_facts
        app_chain_facts create_one_def charge_install_def create_contract_def
        instantiate2_contract_def app_response_def default_module_configuration_def
        sample_platform_def app_label_def)
qed

theorem install_modules_effect_witness:
  "\<exists>ctx. install_modules_context app_account = Some ctx \<and> length ctx = 1"
proof -
  have "assert_account_owner (paid_chain app_registry) sample_account ''king'' = Ok ()"
    by (simp add: king_owns)
  moreover have "abstract_code_id (paid_chain app_registry) ''acct'' = Ok 7"
    by (simp add: abstract_code_id_def paid_chain_def)
  ultimately have run: "install_modules sample_platform (paid_chain app_registry) sample_env sample_account
      king_info [app_install] = Ok (app_account, [reply_on_success
        (WasmExecute ''mf'' (ToFactoryInstall [app_install] app_salt) [])
        REGISTER_MODULES_DEPENDENCIES_REPLY_ID])"
    using app_install_run
    by (simp add: install_modules_def king_info_def sample_env_def del: assert_owner_iff)
  show ?thesis using install_modules_effect [OF run] by auto
qed


end
