(* ===== verification/Module_Base_Safety.thy ===== *)
theory Module_Base_Safety
  imports Module_Base Account_Modules
begin

text \<open>
  Safety of the base of modules: who may use an adapter on behalf of an account, the bounds of the
  lists of authorised addresses over every history of the adapter, that the upgrade of an adapter moves the
  list of the account from the old contract to the new one, and who reaches the IBC endpoints of a module.
\<close>

section \<open>Accounts and lists\<close>

lemma assert_account_self: "assert_account ch registry a = Ok b \<Longrightarrow> b = a"
  by (auto simp: assert_account_def result_simps split: if_splits)

lemma assert_is_account_Ok [result_simps]:
  "assert_is_account ch registry a = Ok b \<longleftrightarrow> b = a \<and> assert_account ch registry a = Ok a"
  using assert_account_self [of ch registry a b] by (auto simp: assert_is_account_def result_simps)

lemma assert_is_account_admin_Ok [result_simps]:
  "assert_is_account_admin ch ev registry a = Ok b \<longleftrightarrow>
     b = a \<and> assert_account ch registry a = Ok a \<and> assert_account_calling_to_as_admin_is_self ch ev a"
  by (auto simp: assert_is_account_admin_def result_simps)

lemma unwrap_or_True [result_simps]: "unwrap_or False r = Ok b \<longleftrightarrow> r = Ok b \<or> (\<not> b \<and> (\<exists>e. r = Err e))"
  by (cases r) (auto simp: unwrap_or_def)

lemma is_top_level_owner_True [simp]:
  "is_top_level_owner ch a s = Ok True \<longleftrightarrow> query_top_level_owner_addr ch a = Ok s"
  by (auto simp: is_top_level_owner_def result_simps)

lemma or_else_Ok [result_simps]:
  "(case r of Ok a \<Rightarrow> Ok a | Panic \<Rightarrow> Panic | Err _ \<Rightarrow> s) = Ok b \<longleftrightarrow> r = Ok b \<or> (\<exists>e. r = Err e) \<and> s = Ok b"
  by (cases r) auto

lemma authorized_of_save [simp]:
  "authorized_of (st\<lparr>authorized_addresses := save a l (authorized_addresses st)\<rparr>) b
     = (if b = a then l else authorized_of st b)"
  by (simp add: authorized_of_def)

lemma authorized_of_more: "authorized_addresses st' = authorized_addresses st \<Longrightarrow> authorized_of st' = authorized_of st"
  by (simp add: authorized_of_def fun_eq_iff)

section \<open>Requests\<close>

lemma request_guard_Ok [result_simps]:
  "(if a = s then Ok a else if P then Ok a
    else and_then (unwrap_or False (is_top_level_owner ch a s)) (\<lambda>b. if b then Ok a else Err e)) = Ok x \<longleftrightarrow>
     x = a \<and> (a = s \<or> P \<or> query_top_level_owner_addr ch a = Ok s)"
  by (auto simp: result_simps split: if_splits)

lemma handle_app_msg_Ok:
  "handle_app_msg mc ch ev st info account_address request = Ok out \<longleftrightarrow>
     (\<exists>registry account h. adapter_registry ch st = Ok registry \<and> assert_account ch registry account = Ok account
        \<and> ac_execute mc = Some h \<and> h ch ev info (Some account) st request = Ok out
        \<and> (case account_address of
             None \<Rightarrow> account = info_sender info
           | Some s \<Rightarrow> q_addr_validate ch s = Ok account
               \<and> (account = info_sender info \<or> info_sender info \<in> set (authorized_of st account)
                  \<or> query_top_level_owner_addr ch account = Ok (info_sender info))))"
proof (cases account_address)
  case None
  then show ?thesis
    by (auto simp: handle_app_msg_def Let_def result_simps)
next
  case (Some s)
  then show ?thesis
    by (auto simp: handle_app_msg_def Let_def result_simps)
qed

text \<open>
  C23: the handler of an adapter runs on behalf of an account exactly when the account is registered and the
  sender is that account itself, an address the account authorised, or the top-level owner of the account; the
  two last must name the account in the request.
\<close>

theorem adapter_request_authorised:
  "adapter_execute qa mc ch ev st info (AdapterModule account_address request) = Ok out \<longleftrightarrow>
     (\<exists>registry account h. adapter_registry ch st = Ok registry \<and> assert_account ch registry account = Ok account
        \<and> ac_execute mc = Some h \<and> h ch ev info (Some account) st request = Ok out
        \<and> (case account_address of
             None \<Rightarrow> account = info_sender info
           | Some s \<Rightarrow> q_addr_validate ch s = Ok account
               \<and> (account = info_sender info \<or> info_sender info \<in> set (authorized_of st account)
                  \<or> query_top_level_owner_addr ch account = Ok (info_sender info))))"
  by (simp add: handle_app_msg_Ok)

section \<open>The lists of authorised addresses\<close>

definition list_ok :: "addr list \<Rightarrow> bool" where
  "list_ok l \<longleftrightarrow> distinct l \<and> length l \<le> unat MAXIMUM_AUTHORIZED_ADDRESSES"

lemma max_authorized [simp]: "unat MAXIMUM_AUTHORIZED_ADDRESSES = 15"
  by (simp add: MAXIMUM_AUTHORIZED_ADDRESSES_def)

lemma authorize_one_distinct: "authorize_one qa ch s l x = Ok l' \<Longrightarrow> distinct l \<Longrightarrow> distinct l'"
  by (auto simp: authorize_one_def result_simps split: if_splits)

lemma deauthorize_one_distinct: "deauthorize_one qa ch s l x = Ok l' \<Longrightarrow> distinct l \<Longrightarrow> distinct l'"
  by (auto simp: deauthorize_one_def result_simps split: if_splits)

lemma update_authorized_Ok:
  assumes "update_authorized_addresses qa ch st info account to_add to_remove = Ok st'"
  obtains l where "st' = st\<lparr>authorized_addresses := save account l (authorized_addresses st)\<rparr>"
    and "distinct (authorized_of st account) \<Longrightarrow> list_ok l"
proof -
  from assms obtain l1 l where add: "try_fold (authorize_one qa ch (info_sender info)) (authorized_of st account) to_add = Ok l1"
    and rem: "try_fold (deauthorize_one qa ch (info_sender info)) l1 to_remove = Ok l"
    and len: "length l \<le> 15"
    and st': "st' = st\<lparr>authorized_addresses := save account l (authorized_addresses st)\<rparr>"
    unfolding update_authorized_addresses_def and_then_Ok by (auto split: if_splits)
  have "distinct l" if d: "distinct (authorized_of st account)"
  proof -
    from try_fold_invariant [OF add, of distinct] d have "distinct l1" by (blast intro: authorize_one_distinct)
    with try_fold_invariant [OF rem, of distinct] show ?thesis by (blast intro: deauthorize_one_distinct)
  qed
  with st' len show thesis by (intro that) (simp_all add: list_ok_def)
qed

lemma adapter_base_execute_Ok:
  "adapter_base_execute qa mc ch ev st info account_address (UpdateAuthorizedAddresses xs ys) = Ok st' \<longleftrightarrow>
     (\<exists>registry account. adapter_registry ch st = Ok registry \<and> assert_account ch registry account = Ok account
        \<and> (account = info_sender info \<and> assert_account_calling_to_as_admin_is_self ch ev account
           \<or> (\<exists>e s. assert_is_account_admin ch ev registry (info_sender info) = Err e \<and> account_address = Some s
               \<and> q_addr_validate ch s = Ok account \<and> query_top_level_owner_addr ch account = Ok (info_sender info)))
        \<and> update_authorized_addresses qa ch st info account xs ys = Ok st')"
  unfolding adapter_base_execute_def and_then_Ok map_err_Ok or_else_Ok
  by (cases account_address) (auto simp: result_simps split: if_splits)

text \<open>The handlers a module author writes get the base storage and leave the lists alone.\<close>

definition keeps_authorized :: "('c adapter_state_scheme module_out, 'e) module_result \<Rightarrow> 'c adapter_state_scheme \<Rightarrow> bool" where
  "keeps_authorized r st \<longleftrightarrow> (case r of Ok (st', _) \<Rightarrow> authorized_addresses st' = authorized_addresses st | _ \<Rightarrow> True)"

definition handlers_keep_authorized :: "('c adapter_state_scheme, 'i, 'x, 'g, 'u, 'e) abstract_contract \<Rightarrow> bool" where
  "handlers_keep_authorized mc \<longleftrightarrow>
     (\<forall>h. ac_instantiate mc = Some h \<longrightarrow> (\<forall>ch ev info st m. keeps_authorized (h ch ev info st m) st))
   \<and> (\<forall>h. ac_execute mc = Some h \<longrightarrow> (\<forall>ch ev info a st m. keeps_authorized (h ch ev info a st m) st))
   \<and> (\<forall>h. ac_sudo mc = Some h \<longrightarrow> (\<forall>ch ev st m. keeps_authorized (h ch ev st m) st))
   \<and> (\<forall>i h. maybe_reply_handler mc i = Some h \<longrightarrow> (\<forall>ch ev st m. keeps_authorized (h ch ev st m) st))
   \<and> (\<forall>h. ac_ibc_callback mc = Some h \<longrightarrow> (\<forall>ch ev st c r. keeps_authorized (h ch ev st c r) st))
   \<and> (\<forall>h. ac_module_ibc mc = Some h \<longrightarrow> (\<forall>ch ev st c i m. keeps_authorized (h ch ev st c i m) st))"

inductive adapter_start ::
  "('c adapter_state_scheme, 'i, 'x, 'g, 'u, 'e) abstract_contract \<Rightarrow> 'c adapter_state_scheme \<Rightarrow> bool"
  for mc where
  "authorized_addresses st0 = [] \<Longrightarrow> adapter_instantiate mc ch ev st0 info registry msg = Ok (st, ms) \<Longrightarrow> adapter_start mc st"

inductive adapter_step ::
  "('c adapter_state_scheme, 'i, 'x, 'g, 'u, 'e) abstract_contract \<Rightarrow> 'c adapter_state_scheme \<Rightarrow> 'c adapter_state_scheme \<Rightarrow> bool"
  for mc where
  execute: "adapter_execute qa mc ch ev st info msg = Ok (st', ms) \<Longrightarrow> adapter_step mc st st'"
| reply: "module_reply mc ch ev st rp = Ok (st', ms) \<Longrightarrow> adapter_step mc st st'"
| sudo: "module_sudo mc ch ev st m = Ok (st', ms) \<Longrightarrow> adapter_step mc st st'"

inductive_cases adapter_startE: "adapter_start mc st"
inductive_cases adapter_stepE: "adapter_step mc st st'"

definition adapter_lists_ok :: "'c adapter_state_scheme \<Rightarrow> bool" where
  "adapter_lists_ok st \<longleftrightarrow> (\<forall>a. list_ok (authorized_of st a))"

lemma keeps_lists: "keeps_authorized (Ok (st', ms)) st \<Longrightarrow> adapter_lists_ok st' = adapter_lists_ok st"
  by (simp add: keeps_authorized_def adapter_lists_ok_def authorized_of_def)

lemma handler_lists:
  assumes "handlers_keep_authorized mc"
  shows "ac_execute mc = Some x \<Longrightarrow> x ch ev info acc st xm = Ok (st', ms) \<Longrightarrow> adapter_lists_ok st' = adapter_lists_ok st"
    and "ac_sudo mc = Some s \<Longrightarrow> s ch ev st sm = Ok (st', ms) \<Longrightarrow> adapter_lists_ok st' = adapter_lists_ok st"
    and "maybe_reply_handler mc i = Some r \<Longrightarrow> r ch ev st rm = Ok (st', ms) \<Longrightarrow> adapter_lists_ok st' = adapter_lists_ok st"
    and "ac_ibc_callback mc = Some c \<Longrightarrow> c ch ev st b res = Ok (st', ms) \<Longrightarrow> adapter_lists_ok st' = adapter_lists_ok st"
    and "ac_module_ibc mc = Some m \<Longrightarrow> m ch ev st chn mi b = Ok (st', ms) \<Longrightarrow> adapter_lists_ok st' = adapter_lists_ok st"
  using assms unfolding handlers_keep_authorized_def by (metis keeps_lists)+

lemma adapter_start_lists:
  assumes "handlers_keep_authorized mc" and "adapter_start mc st"
  shows "adapter_lists_ok st"
  using assms(2)
proof (rule adapter_startE)
  fix st0 ch ev info registry msg ms
  assume 0: "authorized_addresses st0 = []" and ok: "adapter_instantiate mc ch ev st0 info registry msg = Ok (st, ms)"
  have "authorized_addresses st = []"
  proof (cases "ac_instantiate mc")
    case (Some h)
    with ok obtain ci :: contract_info where h: "h ch ev info (st0\<lparr>ad_module_data := Some (module_version_data mc),
        ad_cw2 := Some \<lparr>cv_contract = ac_name mc, cv_version = ac_version mc\<rparr>,
        ad_code_id := Some (ci_code_id ci)\<rparr>) msg = Ok (st, ms)" (is "h ch ev info ?st1 msg = _")
      by (auto simp: adapter_instantiate_def result_simps Let_def)
    from assms(1) Some have "keeps_authorized (h ch ev info ?st1 msg) ?st1"
      by (auto simp: handlers_keep_authorized_def)
    with h 0 show ?thesis by (simp add: keeps_authorized_def)
  qed (use ok 0 in \<open>auto simp: adapter_instantiate_def result_simps Let_def\<close>)
  then show ?thesis by (simp add: adapter_lists_ok_def authorized_of_def list_ok_def)
qed

lemma adapter_base_lists:
  assumes "adapter_base_execute qa mc ch ev st info account_address msg = Ok st'" and "adapter_lists_ok st"
  shows "adapter_lists_ok st'"
proof (cases msg)
  case (UpdateAuthorizedAddresses xs ys)
  with assms(1) obtain account where "update_authorized_addresses qa ch st info account xs ys = Ok st'"
    by (auto simp: adapter_base_execute_Ok)
  then show ?thesis
    by (rule update_authorized_Ok) (use assms(2) in \<open>auto simp: adapter_lists_ok_def list_ok_def\<close>)
qed

lemma adapter_execute_lists:
  assumes "handlers_keep_authorized mc" and "adapter_execute qa mc ch ev st info msg = Ok (st', ms)" and "adapter_lists_ok st"
  shows "adapter_lists_ok st'"
proof (cases msg)
  case (AdapterModule a r)
  with assms(2) obtain h account where "ac_execute mc = Some h" "h ch ev info (Some account) st r = Ok (st', ms)"
    by (auto simp: handle_app_msg_Ok)
  with handler_lists(1) [OF assms(1)] assms(3) show ?thesis by metis
next
  case (AdapterBase a m)
  with assms show ?thesis by (auto simp: result_simps intro: adapter_base_lists)
next
  case (AdapterIbcCallback c r)
  with assms(2) obtain h where "ac_ibc_callback mc = Some h" "h ch ev st c r = Ok (st', ms)"
    by (auto simp: ibc_callback_def result_simps split: if_splits)
  with handler_lists(4) [OF assms(1)] assms(3) show ?thesis by metis
next
  case (AdapterModuleIbc c i m)
  with assms(2) obtain h where "ac_module_ibc mc = Some h" "h ch ev st c i m = Ok (st', ms)"
    by (auto simp: module_ibc_def result_simps split: if_splits)
  with handler_lists(5) [OF assms(1)] assms(3) show ?thesis by metis
qed

lemma adapter_step_lists:
  assumes mc: "handlers_keep_authorized mc" and "adapter_step mc st st'" and ok: "adapter_lists_ok st"
  shows "adapter_lists_ok st'"
  using assms(2)
proof (rule adapter_stepE)
  fix qa ch ev info msg ms
  assume "adapter_execute qa mc ch ev st info msg = Ok (st', ms)"
  then show ?thesis using adapter_execute_lists mc ok by blast
next
  fix ch ev rp ms
  assume "module_reply mc ch ev st rp = Ok (st', ms)"
  then obtain h where "maybe_reply_handler mc (rp_id rp) = Some h" "h ch ev st rp = Ok (st', ms)"
    by (auto simp: module_reply_def result_simps)
  with handler_lists(3) [OF mc] ok show ?thesis by metis
next
  fix ch ev m ms
  assume "module_sudo mc ch ev st m = Ok (st', ms)"
  then obtain h where "ac_sudo mc = Some h" "h ch ev st m = Ok (st', ms)"
    by (auto simp: module_sudo_def result_simps)
  with handler_lists(2) [OF mc] ok show ?thesis by metis
qed

text \<open>
  in every state a history of calls leaves an adapter in, the list of authorised addresses of every account
  has no address twice and at most \<open>MAXIMUM_AUTHORIZED_ADDRESSES\<close> addresses, as long as the handlers of the module
  do not write to the storage of the base.
\<close>

theorem adapter_authorized_bounded:
  assumes "handlers_keep_authorized mc" and "reachable (adapter_start mc) (adapter_step mc) st"
  shows "distinct (authorized_of st account) \<and> length (authorized_of st account) \<le> 15"
proof -
  have "invariant (adapter_start mc) (adapter_step mc) adapter_lists_ok"
    using assms(1) by unfold_locales (auto intro: adapter_start_lists adapter_step_lists)
  from invariant.holds [OF this assms(2)] show ?thesis by (simp add: adapter_lists_ok_def list_ok_def)
qed

text \<open>
  the list of an account changes only by a call of that account while it acts as the admin of the adapter, or of
  its top-level owner; the lists of all other accounts stay.
\<close>

theorem adapter_lists_separate:
  assumes "adapter_execute qa mc ch ev st info (AdapterBase account_address msg) = Ok (st', ms)"
    and "authorized_of st' other \<noteq> authorized_of st other"
  shows "other = info_sender info \<and> assert_account_calling_to_as_admin_is_self ch ev other
    \<or> query_top_level_owner_addr ch other = Ok (info_sender info)"
proof (cases msg)
  case (UpdateAuthorizedAddresses xs ys)
  with assms(1) obtain account where u: "update_authorized_addresses qa ch st info account xs ys = Ok st'"
    and "account = info_sender info \<and> assert_account_calling_to_as_admin_is_self ch ev account
      \<or> query_top_level_owner_addr ch account = Ok (info_sender info)"
    by (auto simp: result_simps adapter_base_execute_Ok)
  moreover from u assms(2) have "other = account" by (rule_tac update_authorized_Ok) (auto split: if_splits)
  ultimately show ?thesis by simp
qed

section \<open>The upgrade of an adapter\<close>

lemma authorize_all:
  assumes "\<forall>x\<in>set xs. get_addr_from_module_id_or_addr qa ch s x = Ok x" and "distinct (l @ xs)"
  shows "try_fold (authorize_one qa ch s) l xs = Ok (l @ xs)"
  using assms by (induction xs arbitrary: l) (auto simp: authorize_one_def)

lemma deauthorize_all:
  assumes "\<forall>x\<in>set xs. get_addr_from_module_id_or_addr qa ch s x = Ok x" and "distinct xs" and "set xs \<subseteq> set l"
  shows "try_fold (deauthorize_one qa ch s) l xs = Ok (filter (\<lambda>a. a \<notin> set xs) l)"
  using assms
proof (induction xs arbitrary: l)
  case (Cons x xs)
  then have "try_fold (deauthorize_one qa ch s) (filter (\<lambda>y. y \<noteq> x) l) xs
    = Ok (filter (\<lambda>a. a \<notin> set xs) (filter (\<lambda>y. y \<noteq> x) l))" by (intro Cons.IH) auto
  moreover have "filter (\<lambda>a. a \<notin> set xs) (filter (\<lambda>y. y \<noteq> x) l) = filter (\<lambda>a. a \<notin> set (x # xs)) l"
    by (auto intro: filter_cong)
  moreover have "deauthorize_one qa ch s l x = Ok (filter (\<lambda>y. y \<noteq> x) l)"
    using Cons.prems by (simp add: deauthorize_one_def)
  ultimately show ?case by simp
qed simp

lemma update_all:
  assumes "\<forall>x\<in>set xs. get_addr_from_module_id_or_addr qa ch (info_sender info) x = Ok x" and "list_ok xs"
  shows "authorized_of st account = [] \<Longrightarrow> update_authorized_addresses qa ch st info account xs []
      = Ok (st\<lparr>authorized_addresses := save account xs (authorized_addresses st)\<rparr>)"
    and "authorized_of st account = xs \<Longrightarrow> update_authorized_addresses qa ch st info account [] xs
      = Ok (st\<lparr>authorized_addresses := save account [] (authorized_addresses st)\<rparr>)"
  using assms authorize_all [OF assms(1), of "[]"] deauthorize_all [OF assms(1), of xs]
  by (simp_all add: update_authorized_addresses_def list_ok_def)

text \<open>The account runs a message on an adapter, as its admin.\<close>

definition run_as_account ::
  "account_querier \<Rightarrow> ('c adapter_state_scheme, 'i, 'x, 'g, 'u, 'e) abstract_contract \<Rightarrow> chain \<Rightarrow> env \<Rightarrow> 'c adapter_state_scheme
   \<Rightarrow> addr \<Rightarrow> cosmos_msg \<Rightarrow> ('c adapter_state_scheme module_out, 'e) module_result" where
  "run_as_account qa mc ch ev st account msg =
     (case msg of
        WasmExecute contract (ToAdapterBase account_address m) funds \<Rightarrow>
          adapter_execute qa mc ch (ev\<lparr>env_contract := contract\<rparr>) st \<lparr>info_sender = account, info_funds = funds\<rparr>
            (AdapterBase account_address m)
      | _ \<Rightarrow> Panic)"

text \<open>
  the two messages with which an account replaces an adapter succeed and move the authorised addresses: the old
  contract ends with an empty list for the account, the new one with exactly the list the old one had. The account
  calls with the wild card of the upgrade; its stored addresses are valid and are not ids of its modules; the old
  list is within the bounds every adapter keeps and the new adapter has no list for the account yet.
\<close>

theorem replace_adapter_moves_authorized:
  assumes rep: "replace_adapter pf ev ast new old = Ok (ast', [m1, m2])"
    and query: "p_authorized_addresses pf old (env_contract ev) = Ok (authorized_of st_old (env_contract ev))"
    and wild: "q_calling_to ch (env_contract ev) = Ok CALLING_TO_AS_ADMIN_WILD_CARD"
    and old: "adapter_registry ch st_old = Ok registry" and new: "adapter_registry ch st_new = Ok registry"
    and account: "assert_account ch registry (env_contract ev) = Ok (env_contract ev)"
    and addrs: "\<forall>x\<in>set (authorized_of st_old (env_contract ev)). get_addr_from_module_id_or_addr qa ch (env_contract ev) x = Ok x"
    and bounds: "list_ok (authorized_of st_old (env_contract ev))"
    and empty: "authorized_of st_new (env_contract ev) = []"
  shows "\<exists>st_old' st_new'. run_as_account qa mc ch ev' st_old (env_contract ev) m1 = Ok (st_old', [])
     \<and> run_as_account qa mc ch ev' st_new (env_contract ev) m2 = Ok (st_new', [])
     \<and> authorized_of st_old' (env_contract ev) = []
     \<and> authorized_of st_new' (env_contract ev) = authorized_of st_old (env_contract ev)"
proof -
  let ?acc = "env_contract ev" let ?l = "authorized_of st_old ?acc"
  let ?info = "\<lparr>info_sender = ?acc, info_funds = []\<rparr>"
  from rep query have m: "m1 = WasmExecute old (ToAdapterBase None (UpdateAuthorizedAddresses [] ?l)) []"
    "m2 = WasmExecute new (ToAdapterBase None (UpdateAuthorizedAddresses ?l [])) []"
    by (auto simp: replace_adapter_def configure_adapter_def result_simps Let_def)
  have admin: "assert_account_calling_to_as_admin_is_self ch e ?acc" for e
    using wild by (simp add: assert_account_calling_to_as_admin_is_self_def)
  note u = update_all [where info = ?info and xs = ?l and qa = qa and ch = ch and account = ?acc]
  have "adapter_base_execute qa mc ch e st_old ?info None (UpdateAuthorizedAddresses [] ?l)
      = Ok (st_old\<lparr>authorized_addresses := save ?acc [] (authorized_addresses st_old)\<rparr>)" for e
    using old account admin u(2) [of st_old] addrs bounds by (auto simp: adapter_base_execute_Ok)
  moreover have "adapter_base_execute qa mc ch e st_new ?info None (UpdateAuthorizedAddresses ?l [])
      = Ok (st_new\<lparr>authorized_addresses := save ?acc ?l (authorized_addresses st_new)\<rparr>)" for e
    using new account admin u(1) [of st_new] addrs bounds empty by (auto simp: adapter_base_execute_Ok)
  ultimately show ?thesis by (simp add: m run_as_account_def)
qed

section \<open>The IBC endpoints\<close>

lemma native_addr_Ok [result_simps]:
  "native_addr ch registry mid = Ok a \<longleftrightarrow>
     (\<exists>mi m. module_info_from_id mid (Version CONTRACT_VERSION) = Ok mi \<and> registry_query_module ch registry mi = Ok m
        \<and> m_reference m = Native a)"
  by (auto simp: native_addr_def result_simps elim!: unwrap_native.elims)

text \<open>
  a module takes an IBC callback only from the address that the registry has for the IBC client, and a call of a
  module on another chain only from the address that the registry has for the IBC host.
\<close>

theorem module_ibc_endpoints_guarded:
  assumes "app_execute mc ch ev st info msg = Ok out"
    and "(\<exists>c r. msg = AppIbcCallback c r) \<and> mid = IBC_CLIENT \<or> (\<exists>c i m. msg = AppModuleIbc c i m) \<and> mid = IBC_HOST"
  shows "\<exists>registry mi m. app_abstract_registry ch st = Ok registry \<and> module_info_from_id mid (Version CONTRACT_VERSION) = Ok mi
    \<and> registry_query_module ch registry mi = Ok m \<and> m_reference m = Native (info_sender info)"
  using assms by (auto simp: ibc_callback_def module_ibc_def result_simps split: if_splits)

section \<open>Witnesses\<close>

text \<open>An adapter whose handler accepts every request, installed on the account \<open>acct\<close>.\<close>

definition quiet_adapter :: "(adapter_state, unit, unit, unit, unit, unit) abstract_contract" where
  "quiet_adapter = \<lparr>ac_name = ''dev:dex'', ac_version = ''1.0.0'', ac_metadata = None, ac_dependencies = [],
     ac_instantiate = None, ac_execute = Some (\<lambda>ch ev info account st m. Ok (st, [])), ac_migrate = None, ac_sudo = None,
     ac_replies = [], ac_ibc_callback = None, ac_module_ibc = None\<rparr>"

definition admin_chain :: chain where
  "admin_chain = paid_chain paid_registry
     \<lparr>q_contract_info := (\<lambda>a. Ok \<lparr>ci_code_id = 7, ci_admin = None\<rparr>),
      q_calling_to := (\<lambda>a. if a = ''acct'' then Ok CALLING_TO_AS_ADMIN_WILD_CARD else Err (StdNotFound a))\<rparr>"

definition fresh_adapter :: adapter_state where
  "fresh_adapter = \<lparr>ad_cw2 = None, ad_module_data = None, ad_code_id = None, authorized_addresses = []\<rparr>"

definition live_adapter :: "(addr, addr list) store \<Rightarrow> adapter_state" where
  "live_adapter l = \<lparr>ad_cw2 = Some \<lparr>cv_contract = ''dev:dex'', cv_version = ''1.0.0''\<rparr>,
     ad_module_data = Some (module_version_data quiet_adapter), ad_code_id = Some 7, authorized_addresses = l\<rparr>"

lemma admin_chain_facts:
  "adapter_registry admin_chain (live_adapter l) = Ok ''reg''"
  "assert_account admin_chain ''reg'' ''acct'' = Ok ''acct''"
  "q_addr_validate admin_chain = Ok"
  "q_calling_to admin_chain ''acct'' = Ok CALLING_TO_AS_ADMIN_WILD_CARD"
  by (simp_all add: admin_chain_def live_adapter_def adapter_registry_def registry_contract_new_def code_defs
      paid_chain_def sample_chain_def assert_account_def unchecked_account_id_def registry_account_def raw_query_def
      paid_registry_def load_def acc_key_def)

lemma admin_resolves:
  "get_addr_from_module_id_or_addr (\<lambda>a. Ok sample_account) admin_chain ''acct'' ''friend'' = Ok ''friend''"
  by (simp add: get_addr_from_module_id_or_addr_def admin_chain_facts sample_account_def fresh_account_def
      empty_account_def)

lemma authorize_friend:
  "adapter_execute (\<lambda>a. Ok sample_account) quiet_adapter admin_chain ev (live_adapter []) paid_info
     (AdapterBase None (UpdateAuthorizedAddresses [''friend''] [])) = Ok (live_adapter [(''acct'', [''friend''])], [])"
proof -
  have "update_authorized_addresses (\<lambda>a. Ok sample_account) admin_chain (live_adapter []) paid_info ''acct'' [''friend''] []
    = Ok (live_adapter [(''acct'', [''friend''])])"
    using update_all(1) [of "[''friend'']" "\<lambda>a. Ok sample_account" admin_chain paid_info "live_adapter []" "''acct''"]
    by (simp add: admin_resolves paid_info_def list_ok_def live_adapter_def authorized_of_def)
  then have "adapter_base_execute (\<lambda>a. Ok sample_account) quiet_adapter admin_chain ev (live_adapter []) paid_info None
      (UpdateAuthorizedAddresses [''friend''] []) = Ok (live_adapter [(''acct'', [''friend''])])"
    by (simp add: adapter_base_execute_Ok admin_chain_facts paid_info_def assert_account_calling_to_as_admin_is_self_def)
  then show ?thesis by simp
qed

lemma quiet_keeps: "handlers_keep_authorized quiet_adapter"
  by (simp add: handlers_keep_authorized_def quiet_adapter_def keeps_authorized_def maybe_reply_handler_def)

lemma live_start: "adapter_start quiet_adapter (live_adapter [])"
proof (rule adapter_start.intros)
  show "adapter_instantiate quiet_adapter admin_chain paid_env fresh_adapter paid_info ''reg'' () = Ok (live_adapter [], [])"
    by (simp add: adapter_instantiate_def admin_chain_def quiet_adapter_def fresh_adapter_def live_adapter_def Let_def)
qed (simp add: fresh_adapter_def)

theorem adapter_authorized_bounded_witness:
  "distinct (authorized_of (live_adapter [(''acct'', [''friend''])]) ''acct'')
   \<and> length (authorized_of (live_adapter [(''acct'', [''friend''])]) ''acct'') \<le> 15"
proof (rule adapter_authorized_bounded [OF quiet_keeps])
  show "reachable (adapter_start quiet_adapter) (adapter_step quiet_adapter) (live_adapter [(''acct'', [''friend''])])"
    by (rule reach_step, rule reach_start, rule live_start, rule adapter_step.execute, rule authorize_friend)
qed

theorem adapter_lists_separate_witness:
  "''acct'' = info_sender paid_info \<and> assert_account_calling_to_as_admin_is_self admin_chain paid_env ''acct''
    \<or> query_top_level_owner_addr admin_chain ''acct'' = Ok (info_sender paid_info)"
  by (rule adapter_lists_separate [OF authorize_friend]) (simp add: authorized_of_def live_adapter_def)

theorem replace_adapter_moves_authorized_witness:
  "\<exists>old' new'. run_as_account (\<lambda>a. Ok sample_account) quiet_adapter admin_chain paid_env
       (live_adapter [(''acct'', [''friend''])]) ''acct'' (configure_adapter ''old'' (UpdateAuthorizedAddresses [] [''friend''])) = Ok (old', [])
   \<and> run_as_account (\<lambda>a. Ok sample_account) quiet_adapter admin_chain paid_env
       (live_adapter []) ''acct'' (configure_adapter ''new'' (UpdateAuthorizedAddresses [''friend''] [])) = Ok (new', [])
   \<and> authorized_of old' ''acct'' = [] \<and> authorized_of new' ''acct'' = [''friend'']"
proof -
  let ?pf = "sample_platform\<lparr>p_authorized_addresses := (\<lambda>_ _. Ok [''friend''])\<rparr>"
  let ?st = "sample_account\<lparr>whitelisted_modules := Some [''old'']\<rparr>"
  have acc: "env_contract sample_env = ''acct''" by (simp add: sample_env_def)
  have auth: "authorized_of (live_adapter [(''acct'', [''friend''])]) ''acct'' = [''friend'']"
    by (simp add: authorized_of_def live_adapter_def)
  have rep: "replace_adapter ?pf sample_env ?st ''new'' ''old''
    = Ok (?st\<lparr>whitelisted_modules := Some [''new'']\<rparr>, [configure_adapter ''old'' (UpdateAuthorizedAddresses [] [''friend'']),
        configure_adapter ''new'' (UpdateAuthorizedAddresses [''friend''] [])])"
    by (simp add: replace_adapter_def update_whitelisted_modules_def load_item_def add_whitelisted_def
        WHITELIST_SIZE_LIMIT_def)
  from replace_adapter_moves_authorized [OF rep, of "live_adapter [(''acct'', [''friend''])]" admin_chain "''reg''"
      "live_adapter []" "\<lambda>a. Ok sample_account" quiet_adapter paid_env]
  show ?thesis
    by (simp add: acc auth admin_chain_facts admin_resolves list_ok_def) (simp add: authorized_of_def live_adapter_def)
qed

text \<open>An app of the account \<open>acct\<close> that takes calls of modules on other chains.\<close>

definition ibc_app :: "(app_state, unit, unit, unit, unit, unit) abstract_contract" where
  "ibc_app = \<lparr>ac_name = ''dev:app'', ac_version = ''1.0.0'', ac_metadata = None, ac_dependencies = [],
     ac_instantiate = None, ac_execute = None, ac_migrate = None, ac_sudo = None, ac_replies = [],
     ac_ibc_callback = None, ac_module_ibc = Some (\<lambda>ch ev st c i m. Ok (st, []))\<rparr>"

definition live_app :: app_state where
  "live_app = \<lparr>ap_cw2 = None, ap_module_data = None, ap_account = Some ''acct'', ap_admin = Some (Some ''acct'')\<rparr>"

definition host_module :: module_info where
  "host_module = \<lparr>mi_namespace = ''abstract'', mi_name = ''ibc-host'', mi_version = Version ''0.26.1''\<rparr>"

definition hosted_chain :: chain where
  "hosted_chain = paid_chain (paid_registry\<lparr>registered_modules := [(mod_key host_module, Native ''host'')]\<rparr>)"

lemma hosted_chain_facts:
  "app_abstract_registry hosted_chain live_app = Ok ''reg''"
  "module_info_from_id IBC_HOST (Version CONTRACT_VERSION) = Ok host_module"
  "registry_query_module hosted_chain ''reg'' host_module = Ok \<lparr>m_info = host_module, m_reference = Native ''host''\<rparr>"
proof -
  show "app_abstract_registry hosted_chain live_app = Ok ''reg''"
    by (simp add: app_abstract_registry_def app_code_def live_app_def hosted_chain_def abstract_code_id_def paid_chain_def
        registry_contract_new_def code_defs sample_chain_def)
qed (code_simp+)

theorem module_ibc_endpoints_guarded_witness:
  "\<exists>registry mi m. app_abstract_registry hosted_chain live_app = Ok registry
     \<and> module_info_from_id IBC_HOST (Version CONTRACT_VERSION) = Ok mi
     \<and> registry_query_module hosted_chain registry mi = Ok m \<and> m_reference m = Native ''host''"
proof -
  have "app_execute ibc_app hosted_chain paid_env live_app \<lparr>info_sender = ''host'', info_funds = []\<rparr>
      (AppModuleIbc ''juno'' paid_module ''{}'') = Ok (live_app, [])"
    by (simp add: module_ibc_def native_addr_def hosted_chain_facts ibc_app_def)
  from module_ibc_endpoints_guarded [OF this, of IBC_HOST] show ?thesis by auto
qed

end
