(* ===== verification/Voting.thy ===== *)
theory Voting
  imports Data_Types
begin

text \<open>
  The voting object \<open>SimpleVoting\<close> of \<open>objects/voting.rs\<close>, a state object that contracts embed:
  proposals with a fixed list of voters, votes that may be changed while the proposal is active, a
  veto period and a count. Its stored state is the record \<open>voting_state\<close>.

  \<open>Timestamp\<close> and \<open>Decimal\<close> of \<open>cosmwasm_std\<close> are their public representations, nanoseconds and
  atomics; what the crate computes on them is the parameter \<open>cosmwasm_math\<close>, with the documented
  arithmetic as the hypothesis \<open>math_laws\<close>. Additions of the object itself are checked, as the
  release profile of the contracts asks.

  Theorems: the counters of a proposal count the stored votes, a counted proposal has the outcome its
  threshold asks for and keeps it, and every proposal can be counted once its time is over.
\<close>

type_synonym u128 = "128 word"
type_synonym timestamp = u64
type_synonym decimal = u128
type_synonym proposal_id = u64

record cosmwasm_math =
  plus_seconds :: "timestamp \<Rightarrow> u64 \<Rightarrow> timestamp option"
  mul_floor :: "u128 \<Rightarrow> decimal \<Rightarrow> u128 option"
  decimal_one :: decimal
  decimal_zero :: decimal

section \<open>Data\<close>

record vote =
  v_vote :: bool
  v_memo :: "string option"

datatype proposal_outcome = Passed | Failed | Canceled | Vetoed

datatype proposal_status =
    Active
  | VetoPeriod timestamp
  | WaitingForCount
  | Finished proposal_outcome

datatype threshold = Majority | Percentage decimal

record vote_config =
  vc_threshold :: threshold
  veto_duration_seconds :: "u64 option"

record proposal_info =
  total_voters :: u32
  votes_for :: u32
  votes_against :: u32
  pi_status :: proposal_status
  pi_config :: vote_config
  end_timestamp :: timestamp

datatype vote_error =
    VoteStd std_error
  | DuplicateAddrs
  | NoProposalById
  | ProposalNotActive proposal_status
  | ThresholdError string
  | NotVeto proposal_status
  | VotingNotOver
  | VoteUnauthorized

type_synonym 'a vote_result = "('a, vote_error) result"

record voting_state =
  next_proposal_id :: "proposal_id option"
  proposals :: "(proposal_id \<times> addr, vote option) store"
  proposals_info :: "(proposal_id, proposal_info) store"
  vs_config :: "vote_config option"

definition empty_voting :: voting_state where
  "empty_voting = \<lparr>next_proposal_id = None, proposals = [], proposals_info = [], vs_config = None\<rparr>"

section \<open>Proposals\<close>

fun assert_is_active :: "proposal_status \<Rightarrow> unit vote_result" where
  "assert_is_active Active = Ok ()"
| "assert_is_active s = Err (ProposalNotActive s)"

definition proposal_new :: "u32 \<Rightarrow> vote_config \<Rightarrow> timestamp \<Rightarrow> proposal_info" where
  "proposal_new initial_voters config end_ts = \<lparr>total_voters = initial_voters, votes_for = 0,
     votes_against = 0, pi_status = Active, pi_config = config, end_timestamp = end_ts\<rparr>"

definition assert_active_proposal :: "proposal_info \<Rightarrow> unit vote_result" where
  "assert_active_proposal i = assert_is_active (pi_status i)"

text \<open>\<open>+= 1\<close> and \<open>-= 1\<close> abort on overflow.\<close>

definition vote_update :: "vote option \<Rightarrow> vote \<Rightarrow> proposal_info \<Rightarrow> proposal_info vote_result" where
  "vote_update previous_vote new_vote i =
     (case (map_option v_vote previous_vote, v_vote new_vote) of
        (Some True, True) \<Rightarrow> Ok i
      | (Some False, False) \<Rightarrow> Ok i
      | (Some True, False) \<Rightarrow>
          and_then (unwrap (checked_add (votes_against i) 1)) (\<lambda>a.
          and_then (unwrap (checked_sub (votes_for i) 1)) (\<lambda>f.
          Ok (i\<lparr>votes_against := a, votes_for := f\<rparr>)))
      | (Some False, True) \<Rightarrow>
          and_then (unwrap (checked_add (votes_for i) 1)) (\<lambda>f.
          and_then (unwrap (checked_sub (votes_against i) 1)) (\<lambda>a.
          Ok (i\<lparr>votes_for := f, votes_against := a\<rparr>)))
      | (None, True) \<Rightarrow>
          and_then (unwrap (checked_add (votes_for i) 1)) (\<lambda>f. Ok (i\<lparr>votes_for := f\<rparr>))
      | (None, False) \<Rightarrow>
          and_then (unwrap (checked_add (votes_against i) 1)) (\<lambda>a. Ok (i\<lparr>votes_against := a\<rparr>)))"

definition finish_vote :: "proposal_outcome \<Rightarrow> block_info \<Rightarrow> proposal_info \<Rightarrow> proposal_info" where
  "finish_vote outcome block i = i\<lparr>pi_status := Finished outcome, end_timestamp := time block\<rparr>"

fun validate_percentage :: "cosmwasm_math \<Rightarrow> threshold \<Rightarrow> unit vote_result" where
  "validate_percentage cm (Percentage percent) =
     (if percent = decimal_zero cm then Err (ThresholdError ''can't be 0%'')
      else if percent > decimal_one cm
      then Err (ThresholdError ''not possible to reach >100% votes'')
      else Ok ())"
| "validate_percentage cm Majority = Ok ()"

section \<open>Operations of the voting object\<close>

definition voting_instantiate ::
  "cosmwasm_math \<Rightarrow> voting_state \<Rightarrow> vote_config \<Rightarrow> voting_state vote_result" where
  "voting_instantiate cm st config =
     and_then (validate_percentage cm (vc_threshold config)) (\<lambda>_.
     Ok (st\<lparr>next_proposal_id := Some 0, vs_config := Some config\<rparr>))"

definition update_vote_config :: "voting_state \<Rightarrow> vote_config \<Rightarrow> voting_state" where
  "update_vote_config st new_vote_config = st\<lparr>vs_config := Some new_vote_config\<rparr>"

definition voting_load_config :: "voting_state \<Rightarrow> vote_config vote_result" where
  "voting_load_config st = ok_or (VoteStd (StdNotFound ''vote_config'')) (vs_config st)"

definition new_proposal ::
  "voting_state \<Rightarrow> timestamp \<Rightarrow> addr list \<Rightarrow> (voting_state \<times> proposal_id) vote_result" where
  "new_proposal st end_ts initial_voters =
     (if \<not> distinct initial_voters then Err DuplicateAddrs
      else
      and_then (ok_or (VoteStd (StdNotFound ''id'')) (next_proposal_id st)) (\<lambda>i.
      and_then (unwrap (checked_add i 1)) (\<lambda>proposal_id.
      let st = st\<lparr>next_proposal_id := Some proposal_id\<rparr>
      in and_then (voting_load_config st) (\<lambda>config.
      let st = st\<lparr>proposals_info := save proposal_id
            (proposal_new (of_nat (length initial_voters)) config end_ts) (proposals_info st)\<rparr>
      in Ok (st\<lparr>proposals := fold (\<lambda>voter. save (proposal_id, voter) None) initial_voters
            (proposals st)\<rparr>, proposal_id)))))"

definition load_proposal ::
  "cosmwasm_math \<Rightarrow> voting_state \<Rightarrow> block_info \<Rightarrow> proposal_id \<Rightarrow> proposal_info vote_result" where
  "load_proposal cm st block pid =
     and_then (ok_or NoProposalById (load (proposals_info st) pid)) (\<lambda>proposal.
     if pi_status proposal = Active
     then
       and_then (unwrap (plus_seconds cm (end_timestamp proposal)
         (case veto_duration_seconds (pi_config proposal) of Some s \<Rightarrow> s | None \<Rightarrow> 0)))
         (\<lambda>veto_expiration.
       Ok (if time block \<ge> end_timestamp proposal
           then (if time block < veto_expiration
             then proposal\<lparr>pi_status := VetoPeriod veto_expiration\<rparr>
             else proposal\<lparr>pi_status := WaitingForCount\<rparr>)
           else proposal))
     else Ok proposal)"

definition cast_vote ::
  "cosmwasm_math \<Rightarrow> voting_state \<Rightarrow> block_info \<Rightarrow> proposal_id \<Rightarrow> addr \<Rightarrow> vote
   \<Rightarrow> (voting_state \<times> proposal_info) vote_result" where
  "cast_vote cm st block pid voter vote =
     and_then (load_proposal cm st block pid) (\<lambda>i.
     and_then (assert_active_proposal i) (\<lambda>_.
     case load (proposals st) (pid, voter) of
       Some prev_v \<Rightarrow>
         and_then (vote_update prev_v vote i) (\<lambda>i.
         Ok (st\<lparr>proposals := save (pid, voter) (Some vote) (proposals st),
                proposals_info := save pid i (proposals_info st)\<rparr>, i))
     | None \<Rightarrow> Err VoteUnauthorized))"

definition cancel_proposal ::
  "cosmwasm_math \<Rightarrow> voting_state \<Rightarrow> block_info \<Rightarrow> proposal_id
   \<Rightarrow> (voting_state \<times> proposal_info) vote_result" where
  "cancel_proposal cm st block pid =
     and_then (load_proposal cm st block pid) (\<lambda>i.
     and_then (assert_active_proposal i) (\<lambda>_.
     let i = finish_vote Canceled block i
     in Ok (st\<lparr>proposals_info := save pid i (proposals_info st)\<rparr>, i)))"

definition vote_threshold :: "cosmwasm_math \<Rightarrow> proposal_info \<Rightarrow> u128 vote_result" where
  "vote_threshold cm i =
     (case vc_threshold (pi_config i) of
        Majority \<Rightarrow> Ok (ucast (total_voters i div 2 + 1))
      | Percentage d \<Rightarrow> unwrap (mul_floor cm (ucast (total_voters i)) d))"

definition count_votes ::
  "cosmwasm_math \<Rightarrow> voting_state \<Rightarrow> block_info \<Rightarrow> proposal_id
   \<Rightarrow> (voting_state \<times> proposal_info \<times> proposal_outcome) vote_result" where
  "count_votes cm st block pid =
     and_then (load_proposal cm st block pid) (\<lambda>i.
     and_then (ensure (pi_status i = WaitingForCount) VotingNotOver) (\<lambda>_.
     and_then (vote_threshold cm i) (\<lambda>thr.
     let outcome = (if ucast (votes_for i) \<ge> thr then Passed else Failed);
         i = finish_vote outcome block i
     in Ok (st\<lparr>proposals_info := save pid i (proposals_info st)\<rparr>, i, outcome))))"

definition veto_proposal ::
  "cosmwasm_math \<Rightarrow> voting_state \<Rightarrow> block_info \<Rightarrow> proposal_id
   \<Rightarrow> (voting_state \<times> proposal_info) vote_result" where
  "veto_proposal cm st block pid =
     and_then (load_proposal cm st block pid) (\<lambda>i.
     case pi_status i of
       VetoPeriod _ \<Rightarrow>
         let i = i\<lparr>pi_status := Finished Vetoed\<rparr>
         in Ok (st\<lparr>proposals_info := save pid i (proposals_info st)\<rparr>, i)
     | s \<Rightarrow> Err (NotVeto s))"

definition load_vote :: "voting_state \<Rightarrow> proposal_id \<Rightarrow> addr \<Rightarrow> vote option vote_result" where
  "load_vote st pid voter = ok_or (VoteStd (StdNotFound ''vote'')) (load (proposals st) (pid, voter))"

definition VOTING_DEFAULT_LIMIT :: u64 where "VOTING_DEFAULT_LIMIT = 25"

definition query_by_id ::
  "voting_state \<Rightarrow> proposal_id \<Rightarrow> addr option \<Rightarrow> u64 option \<Rightarrow> (addr \<times> vote option) list" where
  "query_by_id st pid start_after limit =
     take (unat (case limit of Some l \<Rightarrow> l | None \<Rightarrow> VOTING_DEFAULT_LIMIT))
       (map (\<lambda>(k, v). (snd k, v))
         (entries_where (\<lambda>k. fst k = pid \<and> (case start_after of Some a \<Rightarrow> a < snd k | None \<Rightarrow> True))
           (proposals st)))"

definition query_list ::
  "voting_state \<Rightarrow> (proposal_id \<times> addr) option \<Rightarrow> u64 option
   \<Rightarrow> ((proposal_id \<times> addr) \<times> vote option) list" where
  "query_list st start_after limit =
     take (unat (case limit of Some l \<Rightarrow> l | None \<Rightarrow> VOTING_DEFAULT_LIMIT))
       (entries_where (\<lambda>k. case start_after of Some a \<Rightarrow> a < k | None \<Rightarrow> True) (proposals st))"

section \<open>The voting object as a state machine\<close>

definition voting_start :: "cosmwasm_math \<Rightarrow> voting_state \<Rightarrow> bool" where
  "voting_start cm st \<longleftrightarrow> (\<exists>config. voting_instantiate cm empty_voting config = Ok st)"

inductive voting_step :: "cosmwasm_math \<Rightarrow> voting_state \<Rightarrow> voting_state \<Rightarrow> bool" for cm where
  config: "voting_step cm st (update_vote_config st c)"
| propose: "new_proposal st e vs = Ok (st', p) \<Longrightarrow> voting_step cm st st'"
| cast: "cast_vote cm st b p a v = Ok (st', i) \<Longrightarrow> voting_step cm st st'"
| cancel: "cancel_proposal cm st b p = Ok (st', i) \<Longrightarrow> voting_step cm st st'"
| count: "count_votes cm st b p = Ok (st', i, out) \<Longrightarrow> voting_step cm st st'"
| veto: "veto_proposal cm st b p = Ok (st', i) \<Longrightarrow> voting_step cm st st'"

inductive_cases voting_stepE: "voting_step cm st st'"

definition voters :: "voting_state \<Rightarrow> proposal_id \<Rightarrow> addr set" where
  "voters st p = {a. load (proposals st) (p, a) \<noteq> None}"

definition votes_cast :: "voting_state \<Rightarrow> proposal_id \<Rightarrow> bool \<Rightarrow> addr set" where
  "votes_cast st p b = {a. \<exists>v. load (proposals st) (p, a) = Some (Some v) \<and> v_vote v = b}"

definition counted :: "voting_state \<Rightarrow> proposal_id \<Rightarrow> proposal_info \<Rightarrow> bool" where
  "counted st p i \<longleftrightarrow> total_voters i = of_nat (card (voters st p))
     \<and> unat (votes_for i) = card (votes_cast st p True)
     \<and> unat (votes_against i) = card (votes_cast st p False)"

text \<open>What the status of a stored proposal says about its counters. The intermediate statuses are
  never stored: they are computed when a proposal is loaded.\<close>

definition reached :: "cosmwasm_math \<Rightarrow> proposal_info \<Rightarrow> bool" where
  "reached cm i \<longleftrightarrow> (\<exists>thr. vote_threshold cm i = Ok thr \<and> thr \<le> ucast (votes_for i))"

fun status_ok :: "cosmwasm_math \<Rightarrow> proposal_info \<Rightarrow> proposal_status \<Rightarrow> bool" where
  "status_ok cm i (Finished Passed) \<longleftrightarrow> reached cm i"
| "status_ok cm i (Finished Failed) \<longleftrightarrow> \<not> reached cm i"
| "status_ok cm i (Finished _) \<longleftrightarrow> True"
| "status_ok cm i Active \<longleftrightarrow> True"
| "status_ok cm i _ \<longleftrightarrow> False"

definition proposal_ok :: "cosmwasm_math \<Rightarrow> voting_state \<Rightarrow> proposal_id \<Rightarrow> proposal_info \<Rightarrow> bool" where
  "proposal_ok cm st p i \<longleftrightarrow> counted st p i \<and> status_ok cm i (pi_status i)"

definition voting_wf :: "cosmwasm_math \<Rightarrow> voting_state \<Rightarrow> bool" where
  "voting_wf cm st \<longleftrightarrow>
     (\<forall>p a. load (proposals_info st) p = None \<longrightarrow> load (proposals st) (p, a) = None)
     \<and> (\<forall>p i. load (proposals_info st) p = Some i \<longrightarrow>
          (\<exists>n. next_proposal_id st = Some n \<and> p \<le> n) \<and> proposal_ok cm st p i)"

lemma finite_load: "finite {k. load m k \<noteq> None}"
  using finite_dom_map_of [of m] by (simp add: load_def dom_def)

lemma finite_voters [simp]: "finite (voters st p)"
proof -
  have "voters st p \<subseteq> snd ` {k. load (proposals st) k \<noteq> None}"
    by (force simp: voters_def)
  then show ?thesis by (rule finite_subset) (rule finite_imageI [OF finite_load])
qed

lemma votes_cast_voters: "votes_cast st p b \<subseteq> voters st p"
  by (auto simp: votes_cast_def voters_def)

lemma finite_votes_cast [simp]: "finite (votes_cast st p b)"
  by (rule finite_subset [OF votes_cast_voters finite_voters])

lemma votes_cast_disjoint: "votes_cast st p True \<inter> votes_cast st p False = {}"
  by (auto simp: votes_cast_def)

text \<open>The two counters together never exceed the number of voters.\<close>

lemma votes_bounded:
  "card (votes_cast st p True) + card (votes_cast st p False) \<le> card (voters st p)"
  by (metis card_Un_disjoint card_mono finite_votes_cast finite_voters sup.bounded_iff
      votes_cast_disjoint votes_cast_voters)

lemma proposal_ok_cong:
  assumes "\<And>a. load (proposals st') (p, a) = load (proposals st) (p, a)"
  shows "proposal_ok cm st' p i = proposal_ok cm st p i"
  by (simp add: proposal_ok_def counted_def voters_def votes_cast_def assms)

lemma reached_finish [simp]:
  "reached cm (i\<lparr>pi_status := s\<rparr>) = reached cm i"
  "reached cm (i\<lparr>end_timestamp := t\<rparr>) = reached cm i"
  by (simp_all add: reached_def vote_threshold_def split: threshold.splits)

lemma counted_finish [simp]:
  "counted st p (i\<lparr>pi_status := s\<rparr>) = counted st p i"
  "counted st p (i\<lparr>end_timestamp := t\<rparr>) = counted st p i"
  by (simp_all add: counted_def)

text \<open>Loading a proposal changes at most its status.\<close>

lemma load_proposal_Ok:
  assumes "load_proposal cm st b p = Ok i"
  obtains j s where "load (proposals_info st) p = Some j" and "i = j\<lparr>pi_status := s\<rparr>"
    and "pi_status j = Active \<or> s = pi_status j"
proof -
  from assms obtain j where j: "load (proposals_info st) p = Some j"
    by (auto simp: load_proposal_def result_simps)
  have "i = j\<lparr>pi_status := pi_status i\<rparr>" "pi_status j = Active \<or> pi_status i = pi_status j"
    using assms j by (auto simp: load_proposal_def result_simps split: if_splits)
  with j that show thesis by blast
qed

text \<open>Saving another version of one proposal, with the votes unchanged.\<close>

lemma voting_wf_save_info:
  assumes "voting_wf cm st" and "load (proposals_info st) p = Some j" and "proposal_ok cm st p i"
  shows "voting_wf cm (st\<lparr>proposals_info := save p i (proposals_info st)\<rparr>)"
proof -
  have cong: "proposal_ok cm (st\<lparr>proposals_info := x\<rparr>) q k = proposal_ok cm st q k" for x q k
    by (rule proposal_ok_cong) simp
  show ?thesis using assms by (auto simp: voting_wf_def cong)
qed

lemma load_save_voters:
  "load (fold (\<lambda>v. save (p, v) None) vs m) (q, a)
   = (if q = p \<and> a \<in> set vs then Some None else load m (q, a))"
  by (induction vs arbitrary: m) auto

lemma voting_wf_new_proposal:
  assumes wf: "voting_wf cm st" and new: "new_proposal st e vs = Ok (st', p)"
  shows "voting_wf cm st'"
proof -
  from new obtain n c where d: "distinct vs" and n: "next_proposal_id st = Some n"
    and p: "checked_add n 1 = Some p"
    and st': "st' = st\<lparr>next_proposal_id := Some p,
        proposals_info := save p (proposal_new (of_nat (length vs)) c e) (proposals_info st),
        proposals := fold (\<lambda>v. save (p, v) None) vs (proposals st)\<rparr>"
    by (auto simp: new_proposal_def result_simps Let_def split: if_splits)
  from p have np: "n < p" by (auto dest!: checked_add_Some simp: word_less_nat_alt)
  have fresh: "load (proposals_info st) p = None"
    using wf np n unfolding voting_wf_def
    by (metis leD not_None_eq option.inject)
  then have no_votes: "load (proposals st) (p, a) = None" for a
    using wf by (auto simp: voting_wf_def)
  have votes: "load (proposals st') (q, a)
      = (if q = p \<and> a \<in> set vs then Some None else load (proposals st) (q, a))" for q a
    by (simp add: st' load_save_voters)
  have "voters st' p = set vs" "votes_cast st' p b = {}" for b
    by (auto simp: voters_def votes_cast_def votes no_votes)
  then have "proposal_ok cm st' p (proposal_new (of_nat (length vs)) c e)"
    by (simp add: proposal_ok_def counted_def proposal_new_def distinct_card d)
  moreover have "proposal_ok cm st' q i = proposal_ok cm st q i" if "q \<noteq> p" for q i
    using that by (intro proposal_ok_cong) (simp add: votes)
  moreover have "load (proposals_info st')
      = (load (proposals_info st))(p \<mapsto> proposal_new (of_nat (length vs)) c e)"
    and "next_proposal_id st' = Some p"
    by (simp_all add: st')
  ultimately show ?thesis
    using wf np n fresh unfolding voting_wf_def
    by (auto simp: votes split: if_splits) (metis less_imp_le option.inject order_trans)
qed

lemma voters_cast:
  assumes "load (proposals st) (p, a) \<noteq> None"
  shows "voters (st\<lparr>proposals := save (p, a) x (proposals st), proposals_info := y\<rparr>) q = voters st q"
  using assms by (auto simp: voters_def)

lemma votes_cast_cast:
  "votes_cast (st\<lparr>proposals := save (p, a) (Some v) (proposals st), proposals_info := y\<rparr>) q b
   = (if q = p then (if v_vote v = b then insert a (votes_cast st p b) else votes_cast st p b - {a})
      else votes_cast st q b)"
  by (auto simp: votes_cast_def)

lemma vote_update_fields:
  "vote_update prev v i = Ok i' \<Longrightarrow>
   total_voters i' = total_voters i \<and> pi_status i' = pi_status i \<and> pi_config i' = pi_config i
   \<and> end_timestamp i' = end_timestamp i"
  by (auto simp: vote_update_def result_simps split: option.splits bool.splits)

lemma vote_update_counts:
  assumes "vote_update prev v i = Ok i'"
  shows "unat (votes_for i') + (if \<exists>w. prev = Some w \<and> v_vote w then 1 else 0)
       = unat (votes_for i) + (if v_vote v then 1 else 0)"
    and "unat (votes_against i') + (if \<exists>w. prev = Some w \<and> \<not> v_vote w then 1 else 0)
       = unat (votes_against i) + (if v_vote v then 0 else 1)"
  using assms
  by (auto simp: vote_update_def result_simps checked_sub_Some dest!: checked_add_Some
      split: option.splits bool.splits)

lemma card_votes_cast_after:
  assumes "load (proposals st) (p, a) = Some prev"
  shows "card (votes_cast (st\<lparr>proposals := save (p, a) (Some v) (proposals st), proposals_info := y\<rparr>) p b)
      + (if \<exists>w. prev = Some w \<and> v_vote w = b then 1 else 0)
      = card (votes_cast st p b) + (if v_vote v = b then 1 else 0)"
proof -
  have mem: "a \<in> votes_cast st p b \<longleftrightarrow> (\<exists>w. prev = Some w \<and> v_vote w = b)"
    using assms by (auto simp: votes_cast_def)
  show ?thesis
    using mem card_Suc_Diff1 [of "votes_cast st p b" a]
    by (auto simp: votes_cast_cast insert_absorb)
qed

lemma voting_wf_cast_vote:
  assumes wf: "voting_wf cm st" and cast: "cast_vote cm st b p a v = Ok (st', i)"
  shows "voting_wf cm st'"
proof -
  from cast obtain j prev where j: "load_proposal cm st b p = Ok j" "pi_status j = Active"
    and prev: "load (proposals st) (p, a) = Some prev" and i: "vote_update prev v j = Ok i"
    and st': "st' = st\<lparr>proposals := save (p, a) (Some v) (proposals st),
                proposals_info := save p i (proposals_info st)\<rparr>"
    by (auto simp: cast_vote_def result_simps assert_active_proposal_def
        elim!: assert_is_active.elims split: option.splits)
  from j(1) obtain j0 s where j0: "load (proposals_info st) p = Some j0" and "j = j0\<lparr>pi_status := s\<rparr>"
    by (rule load_proposal_Ok)
  with wf have cj: "counted st p j" by (auto simp: voting_wf_def proposal_ok_def)
  have "voters st' q = voters st q" for q
    unfolding st' using prev by (intro voters_cast) simp
  moreover have "unat (votes_for i) = card (votes_cast st' p True)"
    using vote_update_counts(1) [OF i] cj
      card_votes_cast_after [OF prev, where b = True and v = v and y = "save p i (proposals_info st)"]
    unfolding st' counted_def by (simp split: if_splits)
  moreover have "unat (votes_against i) = card (votes_cast st' p False)"
    using vote_update_counts(2) [OF i] cj
      card_votes_cast_after [OF prev, where b = False and v = v and y = "save p i (proposals_info st)"]
    unfolding st' counted_def by (simp split: if_splits)
  ultimately have "counted st' p i"
    using cj vote_update_fields [OF i] by (simp add: counted_def)
  then have ok: "proposal_ok cm st' p i"
    using vote_update_fields [OF i] j(2) by (simp add: proposal_ok_def)
  have "proposal_ok cm st' q k = proposal_ok cm st q k" if "q \<noteq> p" for q k
    using that by (intro proposal_ok_cong) (simp add: st')
  then show ?thesis
    using wf ok j0 by (auto simp: voting_wf_def st' split: if_splits)
qed

lemma voting_wf_finish:
  assumes "voting_wf cm st" and "load_proposal cm st b p = Ok i" and "status_ok cm i s"
  shows "voting_wf cm (st\<lparr>proposals_info := save p (i\<lparr>pi_status := s\<rparr>) (proposals_info st)\<rparr>)"
    and "voting_wf cm (st\<lparr>proposals_info :=
      save p (i\<lparr>pi_status := s, end_timestamp := t\<rparr>) (proposals_info st)\<rparr>)"
proof -
  from assms(2) obtain j u where j: "load (proposals_info st) p = Some j" "i = j\<lparr>pi_status := u\<rparr>"
    by (rule load_proposal_Ok)
  then have c: "counted st p i" using assms(1) by (auto simp: voting_wf_def proposal_ok_def)
  have s: "status_ok cm (i\<lparr>pi_status := s\<rparr>) s" "status_ok cm (i\<lparr>pi_status := s, end_timestamp := t\<rparr>) s"
    using assms(3) by (cases "(cm, i, s)" rule: status_ok.cases; simp)+
  show "voting_wf cm (st\<lparr>proposals_info := save p (i\<lparr>pi_status := s\<rparr>) (proposals_info st)\<rparr>)"
    and "voting_wf cm (st\<lparr>proposals_info :=
      save p (i\<lparr>pi_status := s, end_timestamp := t\<rparr>) (proposals_info st)\<rparr>)"
    using c s by (auto intro!: voting_wf_save_info [OF assms(1) j(1)] simp: proposal_ok_def)
qed

lemma veto_proposal_OkE:
  assumes "veto_proposal cm st b p = Ok (st', i)"
  obtains j e where "load_proposal cm st b p = Ok j" and "pi_status j = VetoPeriod e"
    and "i = j\<lparr>pi_status := Finished Vetoed\<rparr>"
    and "st' = st\<lparr>proposals_info := save p i (proposals_info st)\<rparr>"
proof -
  from assms obtain j where j: "load_proposal cm st b p = Ok j"
    by (auto simp: veto_proposal_def and_then_Ok)
  with assms that show thesis
    by (cases "pi_status j") (auto simp: veto_proposal_def Let_def)
qed

interpretation voting: invariant "voting_start cm" "voting_step cm" "voting_wf cm"
proof
  show "voting_wf cm s" if "voting_start cm s" for s
    using that by (auto simp: voting_start_def voting_instantiate_def empty_voting_def voting_wf_def
        result_simps)
next
  fix s s' assume wf: "voting_wf cm s" and "voting_step cm s s'"
  from this(2) show "voting_wf cm s'"
  proof (cases rule: voting_step.cases)
    case (config c)
    have "proposal_ok cm (s\<lparr>vs_config := x\<rparr>) p i = proposal_ok cm s p i" for x p i
      by (rule proposal_ok_cong) simp
    with wf config show ?thesis by (simp add: voting_wf_def update_vote_config_def)
  next
    case (propose e vs p)
    with wf show ?thesis by (metis voting_wf_new_proposal)
  next
    case (cast b p a v i)
    with wf show ?thesis by (metis voting_wf_cast_vote)
  next
    case (cancel b p i)
    with wf show ?thesis
      by (auto simp: cancel_proposal_def result_simps finish_vote_def Let_def intro: voting_wf_finish)
  next
    case (count b p i out)
    with wf show ?thesis
      by (auto simp: count_votes_def result_simps finish_vote_def Let_def reached_def
          intro!: voting_wf_finish split: if_splits)
  next
    case (veto b p i)
    with wf show ?thesis
      by (auto elim!: veto_proposal_OkE intro!: voting_wf_finish)
  qed
qed

section \<open>What the counters mean\<close>

text \<open>In every state a voting object can reach, the counters of each proposal are the numbers of
  voters who voted for and against it, the total is the number of its voters (as a \<open>u32\<close>), and no
  more votes are counted than there are voters, however often votes were changed.\<close>

theorem votes_counted:
  assumes "reachable (voting_start cm) (voting_step cm) st"
    and "load (proposals_info st) p = Some i"
  shows "unat (votes_for i) = card {a. \<exists>v. load (proposals st) (p, a) = Some (Some v) \<and> v_vote v}
    \<and> unat (votes_against i) = card {a. \<exists>v. load (proposals st) (p, a) = Some (Some v) \<and> \<not> v_vote v}
    \<and> total_voters i = of_nat (card {a. load (proposals st) (p, a) \<noteq> None})
    \<and> unat (votes_for i) + unat (votes_against i) \<le> card {a. load (proposals st) (p, a) \<noteq> None}"
proof -
  have "counted st p i"
    using voting.holds [OF assms(1)] assms(2) by (auto simp: voting_wf_def proposal_ok_def)
  then show ?thesis
    using votes_bounded [of st p] by (simp add: counted_def voters_def votes_cast_def)
qed

section \<open>Thresholds\<close>

text \<open>The documented arithmetic of \<open>cosmwasm_std\<close>: seconds are nanoseconds times \<open>10 ^ 9\<close>, a decimal
  is its atomics over \<open>10 ^ 18\<close>, and overflow aborts.\<close>

definition math_laws :: "cosmwasm_math \<Rightarrow> bool" where
  "math_laws cm \<longleftrightarrow> decimal_one cm = 10 ^ 18 \<and> decimal_zero cm = 0
     \<and> (\<forall>t s. plus_seconds cm t s = (if unat t + unat s * 10 ^ 9 < 2 ^ 64
            then Some (of_nat (unat t + unat s * 10 ^ 9)) else None))
     \<and> (\<forall>n d. mul_floor cm n d = (if unat n * unat d div 10 ^ 18 < 2 ^ 128
            then Some (of_nat (unat n * unat d div 10 ^ 18)) else None))"

definition needed_votes :: "proposal_info \<Rightarrow> nat" where
  "needed_votes i = (case vc_threshold (pi_config i) of
     Majority \<Rightarrow> unat (total_voters i) div 2 + 1
   | Percentage d \<Rightarrow> unat (total_voters i) * unat d div 10 ^ 18)"

definition veto_seconds :: "proposal_info \<Rightarrow> nat" where
  "veto_seconds i = (case veto_duration_seconds (pi_config i) of Some s \<Rightarrow> unat s | None \<Rightarrow> 0)"

lemma unat_total_voters: "unat (total_voters i) < 2 ^ 32"
  using unsigned_less [of "total_voters i"] by simp

lemma unat_u64: "unat (w :: u64) < 2 ^ 64"
  using unsigned_less [of w] by simp

lemma of_nat_le_u64: "n < 2 ^ 64 \<Longrightarrow> (of_nat n :: u64) \<le> w \<longleftrightarrow> n \<le> unat w"
  by (simp add: word_le_nat_alt unat_of_nat)

lemma unat_widen: "unat (ucast (w :: u32) :: u128) = unat w"
  by (simp add: unsigned_ucast_eq take_bit_nat_eq_self_iff unsigned_less [THEN less_trans])

text \<open>The threshold is computed without overflow: a \<open>u32\<close> times a decimal fits \<open>Uint128\<close>.\<close>

lemma vote_threshold_value:
  assumes "math_laws cm"
  shows "\<exists>thr. vote_threshold cm i = Ok thr \<and> unat thr = needed_votes i"
proof (cases "vc_threshold (pi_config i)")
  case Majority
  have "unat (total_voters i div 2 + 1) = unat (total_voters i) div 2 + 1"
    using unat_total_voters [of i]
    by (simp add: unat_word_ariths(1) unat_div_distrib)
  then show ?thesis
    using Majority by (simp add: vote_threshold_def needed_votes_def unat_widen)
next
  case (Percentage d)
  have "unat d < 2 ^ 128" using unsigned_less [of d] by simp
  then have "unat (total_voters i) * unat d \<le> 2 ^ 32 * 2 ^ 128"
    using unat_total_voters [of i] by (intro mult_le_mono) simp_all
  then have "unat (total_voters i) * unat d div 10 ^ 18 \<le> 2 ^ 32 * 2 ^ 128 div 10 ^ 18"
    by (rule div_le_mono)
  also have "\<dots> < (2::nat) ^ 128" by simp
  finally have fits: "unat (total_voters i) * unat d div 10 ^ 18 < 2 ^ 128" .
  moreover have "unat (ucast (total_voters i) :: u128) = unat (total_voters i)"
    by (simp add: unat_widen)
  ultimately show ?thesis
    using assms Percentage
    by (simp add: vote_threshold_def needed_votes_def math_laws_def unat_of_nat)
qed

lemma threshold_compare:
  assumes "vote_threshold cm i = Ok thr" and "unat thr = needed_votes i"
  shows "thr \<le> ucast (votes_for i) \<longleftrightarrow> needed_votes i \<le> unat (votes_for i)"
  using assms by (simp add: word_le_nat_alt unat_widen)

lemma reached_iff:
  assumes "math_laws cm"
  shows "reached cm i \<longleftrightarrow> needed_votes i \<le> unat (votes_for i)"
  using vote_threshold_value [OF assms, of i] threshold_compare by (fastforce simp: reached_def)

text \<open>C15: A proposal that was counted has the outcome its threshold asks for: it passed exactly if
  its votes in favour reach more than half of the voters, or the given fraction of them rounded
  down. The number of votes cannot change any more.\<close>

theorem counted_outcome_correct:
  assumes "math_laws cm" and "reachable (voting_start cm) (voting_step cm) st"
    and "load (proposals_info st) p = Some i" and "pi_status i \<in> {Finished Passed, Finished Failed}"
  shows "pi_status i = Finished Passed \<longleftrightarrow>
    (case vc_threshold (pi_config i) of
       Majority \<Rightarrow> unat (total_voters i) < 2 * card (votes_cast st p True)
     | Percentage d \<Rightarrow> unat (total_voters i) * unat d div 10 ^ 18 \<le> card (votes_cast st p True))"
proof -
  have ok: "proposal_ok cm st p i"
    using voting.holds [OF assms(2)] assms(3) by (auto simp: voting_wf_def)
  then have "pi_status i = Finished Passed \<longleftrightarrow> needed_votes i \<le> card (votes_cast st p True)"
    using assms(4) reached_iff [OF assms(1), of i] by (auto simp: proposal_ok_def counted_def)
  then show ?thesis by (auto simp: needed_votes_def split: threshold.split)
qed

section \<open>Finished proposals\<close>

lemma load_proposal_not_active:
  assumes "load (proposals_info st) p = Some i" and "pi_status i \<noteq> Active"
  shows "load_proposal cm st b p = Ok i"
  using assms by (simp add: load_proposal_def)

lemma assert_active_Ok: "assert_active_proposal i = Ok u \<longleftrightarrow> pi_status i = Active"
  by (cases "pi_status i") (simp_all add: assert_active_proposal_def)

text \<open>No operation touches a finished proposal or its votes.\<close>

lemma finished_step:
  assumes wf: "voting_wf cm st" and step: "voting_step cm st st'"
    and i: "load (proposals_info st) p = Some i" "pi_status i = Finished out"
  shows "load (proposals_info st') p = Some i \<and> load (proposals st') (p, a) = load (proposals st) (p, a)"
  using step
proof (cases rule: voting_step.cases)
  case (config c)
  with i show ?thesis by (simp add: update_vote_config_def)
next
  case (propose e vs q)
  then obtain n where n: "next_proposal_id st = Some n" "checked_add n 1 = Some q"
    and st': "load (proposals_info st') p = (if p = q then load (proposals_info st') q
        else load (proposals_info st) p)"
      "load (proposals st') (p, a) = (if p = q \<and> a \<in> set vs then Some None else load (proposals st) (p, a))"
    by (auto simp: new_proposal_def result_simps Let_def load_save_voters split: if_splits)
  have "p \<le> n" using wf i n by (auto simp: voting_wf_def)
  moreover have "n < q" using n by (auto dest!: checked_add_Some simp: word_less_nat_alt)
  ultimately show ?thesis using st' i by auto
next
  case (cast b q v w j)
  then have "q \<noteq> p"
    using i load_proposal_not_active [OF i(1)] by (auto simp: cast_vote_def result_simps assert_active_Ok)
  with cast i show ?thesis by (auto simp: cast_vote_def result_simps split: option.splits)
next
  case (cancel b q j)
  then have "q \<noteq> p"
    using i load_proposal_not_active [OF i(1)] by (auto simp: cancel_proposal_def result_simps assert_active_Ok)
  with cancel i show ?thesis by (auto simp: cancel_proposal_def result_simps Let_def)
next
  case (count b q j out')
  then have "q \<noteq> p"
    using i load_proposal_not_active [OF i(1)] by (auto simp: count_votes_def result_simps)
  with count i show ?thesis by (auto simp: count_votes_def result_simps Let_def)
next
  case (veto b q j)
  then obtain k e where "load_proposal cm st b q = Ok k" "pi_status k = VetoPeriod e"
    and st': "st' = st\<lparr>proposals_info := save q j (proposals_info st)\<rparr>"
    by (rule veto_proposal_OkE)
  then have "q \<noteq> p" using i load_proposal_not_active [OF i(1)] by auto
  with st' i show ?thesis by simp
qed

text \<open>Finished is final: once a proposal is canceled, vetoed or counted, no sequence of
  operations changes it, its outcome or any of its votes.\<close>

theorem finished_proposal_final:
  assumes "reachable (voting_start cm) (voting_step cm) st"
    and "load (proposals_info st) p = Some i" and "pi_status i = Finished out"
    and "(voting_step cm)\<^sup>*\<^sup>* st st'"
  shows "load (proposals_info st') p = Some i
    \<and> load (proposals st') (p, a) = load (proposals st) (p, a)"
proof -
  from assms(4) have "reachable (voting_start cm) (voting_step cm) st'
      \<and> load (proposals_info st') p = Some i \<and> load (proposals st') (p, a) = load (proposals st) (p, a)"
  proof (induction rule: rtranclp_induct)
    case base
    with assms show ?case by simp
  next
    case (step y z)
    then show ?case
      using finished_step [OF voting.holds, of cm y z p i out a] assms(3) by (auto intro: reach_step)
  qed
  then show ?thesis by simp
qed

section \<open>Counting is always possible\<close>

lemma load_proposal_over:
  assumes "math_laws cm" and "load (proposals_info st) p = Some i" and "pi_status i = Active"
    and "unat (end_timestamp i) + veto_seconds i * 10 ^ 9 \<le> unat (time b)"
  shows "load_proposal cm st b p = Ok (i\<lparr>pi_status := WaitingForCount\<rparr>)"
proof -
  let ?e = "unat (end_timestamp i) + veto_seconds i * 10 ^ 9"
  have fits: "?e < 2 ^ 64"
    using assms(4) unat_u64 [of "time b"] by simp
  have "plus_seconds cm (end_timestamp i)
      (case veto_duration_seconds (pi_config i) of Some s \<Rightarrow> s | None \<Rightarrow> 0) = Some (of_nat ?e)"
    using assms(1) fits by (simp add: math_laws_def veto_seconds_def split: option.splits)
  moreover have "of_nat ?e \<le> time b"
    using of_nat_le_u64 [OF fits] assms(4) by blast
  moreover have "end_timestamp i \<le> time b"
    using assms(4) by (simp add: word_le_nat_alt)
  ultimately show ?thesis
    using assms(2,3) by (simp add: load_proposal_def linorder_not_less)
qed

text \<open>C16: An active proposal whose voting and veto time are over can be counted by anyone, whatever
  was voted: the count returns, finishes the proposal and stores the outcome.\<close>

theorem proposal_can_be_counted:
  assumes "math_laws cm" and "load (proposals_info st) p = Some i" and "pi_status i = Active"
    and "unat (end_timestamp i) + veto_seconds i * 10 ^ 9 \<le> unat (time b)"
  shows "\<exists>st' i' out. count_votes cm st b p = Ok (st', i', out)
    \<and> load (proposals_info st') p = Some i' \<and> pi_status i' = Finished out
    \<and> out = (if needed_votes i \<le> unat (votes_for i) then Passed else Failed)"
proof -
  let ?i = "i\<lparr>pi_status := WaitingForCount\<rparr>"
  obtain thr where thr: "vote_threshold cm ?i = Ok thr" "unat thr = needed_votes ?i"
    using vote_threshold_value [OF assms(1)] by blast
  then have "thr \<le> ucast (votes_for i) \<longleftrightarrow> needed_votes i \<le> unat (votes_for i)"
    using threshold_compare [OF thr] by (simp add: needed_votes_def split: threshold.splits)
  then show ?thesis
    using thr(1) load_proposal_over [OF assms] by (simp add: count_votes_def finish_vote_def Let_def)
qed

text \<open>A veto period that does not fit a timestamp locks the proposal: every operation on it aborts,
  at every time. Neither instantiation nor \<open>update_vote_config\<close> bounds the duration.\<close>

lemma veto_overflow_locks_proposal:
  assumes "math_laws cm" and "load (proposals_info st) p = Some i" and "pi_status i = Active"
    and "2 ^ 64 \<le> unat (end_timestamp i) + veto_seconds i * 10 ^ 9"
  shows "cast_vote cm st b p a v = Panic" and "cancel_proposal cm st b p = Panic"
    and "count_votes cm st b p = Panic" and "veto_proposal cm st b p = Panic"
proof -
  have "load_proposal cm st b p = Panic"
    using assms by (auto simp: load_proposal_def math_laws_def veto_seconds_def split: option.splits)
  then show "cast_vote cm st b p a v = Panic" and "cancel_proposal cm st b p = Panic"
    and "count_votes cm st b p = Panic" and "veto_proposal cm st b p = Panic"
    by (simp_all add: cast_vote_def cancel_proposal_def count_votes_def veto_proposal_def)
qed

text \<open>A percentage threshold is rounded down, to zero for few voters: then a proposal passes
  without a single vote.\<close>

lemma percentage_threshold_may_be_zero:
  assumes "math_laws cm" and "load (proposals_info st) p = Some i" and "pi_status i = Active"
    and "unat (end_timestamp i) + veto_seconds i * 10 ^ 9 \<le> unat (time b)"
    and "vc_threshold (pi_config i) = Percentage d" and "unat (total_voters i) * unat d < 10 ^ 18"
  shows "\<exists>st' i'. count_votes cm st b p = Ok (st', i', Passed)"
proof -
  obtain thr where "vote_threshold cm (i\<lparr>pi_status := WaitingForCount\<rparr>) = Ok thr" "unat thr = 0"
    using vote_threshold_value [OF assms(1), of "i\<lparr>pi_status := WaitingForCount\<rparr>"] assms(5,6)
    by (auto simp: needed_votes_def)
  then show ?thesis
    using load_proposal_over [OF assms(1-4)] by (simp add: count_votes_def finish_vote_def Let_def unat_eq_0)
qed

section \<open>A vote\<close>

definition std_math :: cosmwasm_math where
  "std_math = \<lparr>
     plus_seconds = (\<lambda>t s. let n = unat t + unat s * 10 ^ 9 in if n < 2 ^ 64 then Some (of_nat n) else None),
     mul_floor = (\<lambda>n d. let m = unat n * unat d div 10 ^ 18 in if m < 2 ^ 128 then Some (of_nat m) else None),
     decimal_one = 10 ^ 18, decimal_zero = 0\<rparr>"

lemma std_math_laws: "math_laws std_math"
  by (simp add: math_laws_def std_math_def Let_def)

definition at_time :: "u64 \<Rightarrow> block_info" where
  "at_time t = \<lparr>height = 1, time = t, chain_id = ''juno-1''\<rparr>"

definition in_favour :: "vote" where
  "in_favour = \<lparr>v_vote = True, v_memo = None\<rparr>"

definition ballot_new :: voting_state where
  "ballot_new = \<lparr>next_proposal_id = Some 0, proposals = [], proposals_info = [],
     vs_config = Some \<lparr>vc_threshold = Majority, veto_duration_seconds = Some 1\<rparr>\<rparr>"

definition ballot_info :: proposal_info where
  "ballot_info = \<lparr>total_voters = 2, votes_for = 0, votes_against = 0, pi_status = Active,
     pi_config = \<lparr>vc_threshold = Majority, veto_duration_seconds = Some 1\<rparr>, end_timestamp = 100\<rparr>"

definition ballot_open :: voting_state where
  "ballot_open = ballot_new\<lparr>next_proposal_id := Some 1, proposals_info := [(1, ballot_info)],
     proposals := [((1, ''alice''), None), ((1, ''bob''), None)]\<rparr>"

definition ballot_voted :: voting_state where
  "ballot_voted = ballot_open\<lparr>proposals_info := [(1, ballot_info\<lparr>votes_for := 1\<rparr>)],
     proposals := [((1, ''alice''), Some in_favour), ((1, ''bob''), None)]\<rparr>"

definition ballot_counted :: voting_state where
  "ballot_counted = ballot_voted\<lparr>proposals_info :=
     [(1, ballot_info\<lparr>votes_for := 1, pi_status := Finished Failed, end_timestamp := 2000000000\<rparr>)]\<rparr>"

lemmas ballot_defs = std_math_def at_time_def in_favour_def ballot_new_def ballot_info_def
  ballot_open_def ballot_voted_def ballot_counted_def

lemma ballot_new_start: "voting_start std_math ballot_new"
  unfolding voting_start_def
  by (rule exI [of _ "\<lparr>vc_threshold = Majority, veto_duration_seconds = Some 1\<rparr>"])
    (simp add: voting_instantiate_def empty_voting_def ballot_defs)

lemma ballot_open_step: "new_proposal ballot_new 100 [''alice'', ''bob''] = Ok (ballot_open, 1)"
  by (simp add: new_proposal_def ballot_defs checked_add_def voting_load_config_def Let_def proposal_new_def)

lemma ballot_voted_step:
  "cast_vote std_math ballot_open (at_time 50) 1 ''alice'' in_favour
   = Ok (ballot_voted, ballot_info\<lparr>votes_for := 1\<rparr>)"
  by (simp add: cast_vote_def load_proposal_def assert_active_proposal_def vote_update_def
      ballot_defs checked_add_def load_def)

lemma ballot_counted_step:
  "count_votes std_math ballot_voted (at_time 2000000000) 1 = Ok (ballot_counted,
     ballot_info\<lparr>votes_for := 1, pi_status := Finished Failed, end_timestamp := 2000000000\<rparr>, Failed)"
  by (simp add: count_votes_def load_proposal_def vote_threshold_def finish_vote_def
      ballot_defs load_def word_le_nat_alt Let_def)

lemma ballot_reachable:
  "reachable (voting_start std_math) (voting_step std_math) ballot_voted"
  "reachable (voting_start std_math) (voting_step std_math) ballot_counted"
proof -
  have "reachable (voting_start std_math) (voting_step std_math) ballot_new"
    by (rule reach_start) (rule ballot_new_start)
  then have "reachable (voting_start std_math) (voting_step std_math) ballot_open"
    by (rule reach_step) (rule propose, rule ballot_open_step)
  then show v: "reachable (voting_start std_math) (voting_step std_math) ballot_voted"
    by (rule reach_step) (rule cast, rule ballot_voted_step)
  then show "reachable (voting_start std_math) (voting_step std_math) ballot_counted"
    by (rule reach_step) (rule count, rule ballot_counted_step)
qed

lemma ballot_voted_load:
  "load (proposals_info ballot_voted) 1 = Some (ballot_info\<lparr>votes_for := 1\<rparr>)"
  by (simp add: ballot_voted_def load_def)

theorem votes_counted_witness:
  "card {a. \<exists>v. load (proposals ballot_voted) (1, a) = Some (Some v) \<and> v_vote v} = 1"
  using votes_counted [OF ballot_reachable(1) ballot_voted_load] by simp

theorem counted_outcome_correct_witness:
  "\<not> (2 < 2 * card (votes_cast ballot_counted 1 True))"
  using counted_outcome_correct [OF std_math_laws ballot_reachable(2), of 1
      "ballot_info\<lparr>votes_for := 1, pi_status := Finished Failed, end_timestamp := 2000000000\<rparr>"]
  by (simp add: ballot_defs load_def)

theorem finished_proposal_final_witness:
  "load (proposals_info (update_vote_config ballot_counted
      \<lparr>vc_threshold = Percentage 1, veto_duration_seconds = None\<rparr>)) 1
   = Some (ballot_info\<lparr>votes_for := 1, pi_status := Finished Failed, end_timestamp := 2000000000\<rparr>)"
  using finished_proposal_final [OF ballot_reachable(2) _ _ r_into_rtranclp [of "voting_step std_math", OF config], of 1
      "ballot_info\<lparr>votes_for := 1, pi_status := Finished Failed, end_timestamp := 2000000000\<rparr>"]
  by (simp add: ballot_defs load_def)

theorem proposal_can_be_counted_witness:
  "\<exists>st' i'. count_votes std_math ballot_open (at_time 2000000000) 1 = Ok (st', i', Failed)"
  using proposal_can_be_counted [OF std_math_laws, of ballot_open 1 ballot_info "at_time 2000000000"]
  by (auto simp: ballot_defs load_def needed_votes_def veto_seconds_def)

end
