(* ===== verification/Ans_Invariants.thy ===== *)
theory Ans_Invariants
  imports Ans_Queries
begin

text \<open>
  The name service as a state machine. The pools a pairing lists and the metadata of pools are two
  views of one relation, which every message keeps in step; assets, exchanges and their reverse
  entries are not kept in step, and the lemmas at the end show how.
\<close>

definition ans_start :: "ans_state \<Rightarrow> bool" where
  "ans_start st \<longleftrightarrow> (\<exists>ch admin. ans_instantiate ch empty_ans admin = Ok st)"

inductive ans_step :: "ans_state \<Rightarrow> ans_state \<Rightarrow> bool" where
  exec: "ans_handle_message ac ch ev st info msg = Ok st' \<Longrightarrow> ans_step st st'"
| migrate: "ans_migrate ch ev st AnsMigrate = Ok st' \<Longrightarrow> ans_step st st'"

section \<open>The relation behind both maps\<close>

text \<open>Pool \<open>u\<close> is listed under the pair \<open>x\<close>, \<open>y\<close> on exchange \<open>d\<close>; its metadata says so.\<close>

definition listed :: "ans_state \<Rightarrow> unique_pool_id \<Rightarrow> asset_entry \<Rightarrow> asset_entry \<Rightarrow> dex_name \<Rightarrow> bool" where
  "listed st u x y d \<longleftrightarrow> u \<in> unique_id ` set (pools_of st (SubKey x, SubKey y, d))"

definition described :: "ans_state \<Rightarrow> unique_pool_id \<Rightarrow> asset_entry \<Rightarrow> asset_entry \<Rightarrow> dex_name \<Rightarrow> bool" where
  "described st u x y d \<longleftrightarrow> (\<exists>md. load (pool_metadatas st) u = Some md \<and> d = to_lowercase (pm_dex md)
     \<and> x \<in> set (pm_assets md) \<and> y \<in> set (pm_assets md) \<and> x \<noteq> y)"

definition no_empty :: "ans_state \<Rightarrow> bool" where
  "no_empty st \<longleftrightarrow> [] \<notin> ran (load (asset_pairings st))"

definition pools_ok :: "unique_pool_id \<Rightarrow> ans_state \<Rightarrow> bool" where
  "pools_ok n st \<longleftrightarrow> (\<forall>u x y d. listed st u x y d = described st u x y d)
     \<and> no_empty st
     \<and> (\<forall>u md. load (pool_metadatas st) u = Some md \<longrightarrow> u < n)"

definition ans_wf :: "ans_state \<Rightarrow> bool" where
  "ans_wf st \<longleftrightarrow> (\<exists>n. next_unique_pool_id st = Some n \<and> pools_ok n st)"

lemma set_asset_pairs:
  "(x, y) \<in> set (asset_pairs as) \<longleftrightarrow> x \<in> set as \<and> y \<in> set as \<and> x \<noteq> y"
proof
  assume "(x, y) \<in> set (asset_pairs as)"
  then show "x \<in> set as \<and> y \<in> set as \<and> x \<noteq> y"
    by (auto simp: asset_pairs_def enumerate_eq_zip dest: set_zip_leftD set_zip_rightD)
next
  assume *: "x \<in> set as \<and> y \<in> set as \<and> x \<noteq> y"
  then obtain i j where "i < length as" "j < length as" "as ! i = x" "as ! j = y"
    by (metis in_set_conv_nth)
  then have "(i, x) \<in> set (enumerate 0 as)" "(j, y) \<in> set (enumerate 0 as)" "i \<noteq> j"
    using * by (auto simp: in_set_enumerate_eq)
  with * show "(x, y) \<in> set (asset_pairs as)"
    by (fastforce simp: asset_pairs_def)
qed

lemma described_pairings [simp]:
  "described (st\<lparr>asset_pairings := p\<rparr>) u x y d = described st u x y d"
  by (simp add: described_def)

lemma no_empty_metadatas [simp]: "no_empty (st\<lparr>pool_metadatas := p\<rparr>) = no_empty st"
  by (simp add: no_empty_def)

lemma no_empty_save:
  "no_empty st \<Longrightarrow> v \<noteq> [] \<Longrightarrow> no_empty (st\<lparr>asset_pairings := save k v (asset_pairings st)\<rparr>)"
  "no_empty st \<Longrightarrow> no_empty (st\<lparr>asset_pairings := remove k (save k v (asset_pairings st))\<rparr>)"
  by (auto simp: no_empty_def ran_def split: if_splits)

lemma listed_metadatas [simp]:
  "listed (st\<lparr>pool_metadatas := p\<rparr>) u x y d = listed st u x y d"
  by (simp add: listed_def pools_of_def)

section \<open>Registering and removing pairings\<close>

lemma pools_of_save [simp]:
  "pools_of (st\<lparr>asset_pairings := save k v (asset_pairings st)\<rparr>) k' = (if k' = k then v else pools_of st k')"
  by (simp add: pools_of_def)

lemma pools_of_register:
  "pools_of (register_asset_pairing (dex_asset_pairing_new x y d) r st) k
   = (if k = (SubKey x, SubKey y, to_lowercase d) then pools_of st k @ [r] else pools_of st k)"
  by (simp add: register_asset_pairing_def pairing_key_def dex_asset_pairing_new_def)

lemma pools_of_remove:
  "pools_of (remove_pairing_action v d (x, y) st) k
   = (if k = (SubKey x, SubKey y, to_lowercase d)
      then filter (\<lambda>i. unique_id i \<noteq> v) (pools_of st k) else pools_of st k)"
  by (auto simp: remove_pairing_action_def pairing_key_def dex_asset_pairing_new_def Let_def pools_of_def)

lemma listed_register_pool:
  "listed (register_pool_pairings n a as d st) u x y e \<longleftrightarrow>
     listed st u x y e \<or> (u = n \<and> e = to_lowercase d \<and> (x, y) \<in> set (asset_pairs as))"
proof -
  have "listed (fold (\<lambda>(x, y). register_asset_pairing (dex_asset_pairing_new x y d)
      \<lparr>unique_id = n, pool_address = a\<rparr>) ps st) u x y e \<longleftrightarrow>
      listed st u x y e \<or> (u = n \<and> e = to_lowercase d \<and> (x, y) \<in> set ps)" for ps
    by (induction ps arbitrary: st) (auto simp: listed_def pools_of_register split: if_splits)
  then show ?thesis by (simp add: register_pool_pairings_def exec_on_asset_pairings_def)
qed

lemma listed_remove_pool:
  "listed (remove_pool_pairings v d as st) u x y e \<longleftrightarrow>
     listed st u x y e \<and> \<not> (u = v \<and> e = to_lowercase d \<and> (x, y) \<in> set (asset_pairs as))"
proof -
  have "listed (fold (remove_pairing_action v d) ps st) u x y e \<longleftrightarrow>
      listed st u x y e \<and> \<not> (u = v \<and> e = to_lowercase d \<and> (x, y) \<in> set ps)" for ps
    by (induction ps arbitrary: st) (auto simp: listed_def pools_of_remove split: if_splits)
  then show ?thesis by (simp add: remove_pool_pairings_def exec_on_asset_pairings_def)
qed

text \<open>Only the pairings change, and no list becomes empty.\<close>

definition only_pairings :: "ans_state \<Rightarrow> ans_state \<Rightarrow> bool" where
  "only_pairings st st' \<longleftrightarrow> (\<exists>p. st' = st\<lparr>asset_pairings := p\<rparr>)
     \<and> (no_empty st \<longrightarrow> no_empty st')"

lemma only_pairings_fold:
  assumes "\<And>p st. only_pairings st (f p st)"
  shows "only_pairings st (fold f ps st)"
proof (induction ps arbitrary: st)
  case Nil
  have "\<exists>p. st = st\<lparr>asset_pairings := p\<rparr>" by (rule exI [of _ "asset_pairings st"]) simp
  then show ?case by (simp add: only_pairings_def)
next
  case (Cons p ps)
  have "only_pairings st st' \<Longrightarrow> only_pairings st' st'' \<Longrightarrow> only_pairings st st''" for st st' st''
    by (auto simp: only_pairings_def)
  with Cons assms show ?case by (metis fold_simps(2))
qed

lemma only_pairings_register: "only_pairings st (register_pool_pairings n a as d st)"
  unfolding register_pool_pairings_def exec_on_asset_pairings_def
  by (rule only_pairings_fold)
    (auto simp: only_pairings_def register_asset_pairing_def intro!: no_empty_save split: prod.split)

lemma next_register [simp]:
  "next_unique_pool_id (register_pool_pairings n a as d st) = next_unique_pool_id st"
  "pool_metadatas (register_pool_pairings n a as d st) = pool_metadatas st"
  using only_pairings_register [of st n a as d] by (auto simp: only_pairings_def)

lemma only_pairings_remove: "only_pairings st (remove_pool_pairings v d as st)"
  unfolding remove_pool_pairings_def exec_on_asset_pairings_def
  by (rule only_pairings_fold)
    (auto simp: only_pairings_def remove_pairing_action_def Let_def intro!: no_empty_save)

section \<open>Every message keeps the relation\<close>

lemma add_pool_ok:
  assumes ok: "pools_ok n st" and add: "add_pool ch dexes (st, n) x = Ok (st', n')"
  shows "pools_ok n' st'"
proof -
  obtain a0 md0 where x: "x = (a0, md0)" by (cases x)
  from add obtain a as where n': "checked_add n 1 = Some n'"
    and st': "st' = (register_pool_pairings n a as (to_lowercase (pm_dex md0)) st)
        \<lparr>pool_metadatas := save n (md0\<lparr>pm_assets := as\<rparr>) (pool_metadatas st)\<rparr>"
    by (auto simp: x add_pool_def result_simps Let_def split: if_splits)
  let ?st = "register_pool_pairings n a as (to_lowercase (pm_dex md0)) st"
  have nn: "n < n'" using n' by (auto dest!: checked_add_Some simp: word_less_nat_alt)
  have fresh: "load (pool_metadatas st) n = None"
    using ok by (cases "load (pool_metadatas st) n") (auto simp: pools_ok_def)
  have metas: "load (pool_metadatas st') = (load (pool_metadatas st))(n \<mapsto> md0\<lparr>pm_assets := as\<rparr>)"
    by (simp add: st')
  have "listed st' u x y d = described st' u x y d" for u x y d
  proof (cases "u = n")
    case True
    have "\<not> listed st n x y d" using ok fresh by (simp add: pools_ok_def described_def)
    then show ?thesis
      using True unfolding st' by (auto simp: listed_register_pool described_def set_asset_pairs)
  next
    case False
    then have "described st' u x y d = described st u x y d" by (simp add: described_def metas)
    then show ?thesis
      using False ok unfolding st' by (simp add: listed_register_pool pools_ok_def)
  qed
  moreover have "no_empty st'"
    using only_pairings_register [of st n a as "to_lowercase (pm_dex md0)"] ok
    by (simp add: st' only_pairings_def pools_ok_def)
  ultimately show ?thesis
    using ok nn by (auto simp: pools_ok_def metas split: if_splits intro: less_trans)
qed

lemma remove_pool_ok:
  assumes ok: "pools_ok n st"
  shows "pools_ok n (remove_pool v st)"
proof (cases "load (pool_metadatas st) v")
  case None
  with ok show ?thesis by (simp add: remove_pool_def)
next
  case (Some md)
  let ?st = "remove_pool_pairings v (pm_dex md) (pm_assets md) st"
  have same: "pool_metadatas ?st = pool_metadatas st"
    using only_pairings_remove [of st v "pm_dex md" "pm_assets md"] by (auto simp: only_pairings_def)
  have st': "remove_pool v st = ?st\<lparr>pool_metadatas := remove v (pool_metadatas st)\<rparr>"
    using Some same by (simp add: remove_pool_def Let_def)
  have "listed (remove_pool v st) u x y d = described (remove_pool v st) u x y d" for u x y d
  proof (cases "u = v")
    case True
    have "listed st v x y d \<Longrightarrow> d = to_lowercase (pm_dex md) \<and> (x, y) \<in> set (asset_pairs (pm_assets md))"
      using ok Some by (auto simp: pools_ok_def described_def set_asset_pairs)
    then show ?thesis unfolding st' by (auto simp: True listed_remove_pool described_def)
  next
    case False
    then show ?thesis
      using ok unfolding st' by (simp add: listed_remove_pool described_def pools_ok_def)
  qed
  moreover have "no_empty (remove_pool v st)"
    using only_pairings_remove [of st v "pm_dex md" "pm_assets md"] ok
    by (simp add: st' only_pairings_def pools_ok_def)
  ultimately show ?thesis using ok by (auto simp: pools_ok_def st' split: if_splits)
qed

lemma add_pools_ok:
  "pools_ok n st \<Longrightarrow> try_fold (add_pool ch dexes) (st, n) xs = Ok (st', n') \<Longrightarrow> pools_ok n' st'"
  by (induction xs arbitrary: st n) (auto simp: result_simps dest: add_pool_ok)

lemma remove_pools_ok: "pools_ok n st \<Longrightarrow> pools_ok n (fold remove_pool xs st)"
  by (induction xs arbitrary: st) (auto intro: remove_pool_ok)

lemma pools_ok_next [simp]: "pools_ok n (st\<lparr>next_unique_pool_id := i\<rparr>) = pools_ok n st"
  by (simp add: pools_ok_def listed_def described_def pools_of_def no_empty_def)

lemma fold_remove_pool_next: "next_unique_pool_id (fold remove_pool xs st) = next_unique_pool_id st"
proof (induction xs arbitrary: st)
  case (Cons v xs)
  have "next_unique_pool_id (remove_pool v st) = next_unique_pool_id st"
  proof (cases "load (pool_metadatas st) v")
    case (Some md)
    then show ?thesis
      using only_pairings_remove [of st v "pm_dex md" "pm_assets md"]
      by (auto simp: remove_pool_def only_pairings_def Let_def)
  qed (simp add: remove_pool_def)
  with Cons show ?case by simp
qed simp

lemma add_pools_next:
  "try_fold (add_pool ch dexes) (st, n) xs = Ok (st', n') \<Longrightarrow> next_unique_pool_id st' = next_unique_pool_id st"
proof (induction xs arbitrary: st n)
  case (Cons x xs)
  then obtain st1 n1 where 1: "add_pool ch dexes (st, n) x = Ok (st1, n1)"
    and "try_fold (add_pool ch dexes) (st1, n1) xs = Ok (st', n')"
    by (auto simp: result_simps)
  moreover from 1 have "next_unique_pool_id st1 = next_unique_pool_id st"
    by (auto simp: add_pool_def result_simps Let_def split: if_splits prod.splits)
  ultimately show ?case using Cons.IH by simp
qed simp

lemma update_pools_ok:
  assumes "ans_wf st" and "update_pools ch st info to_add to_remove = Ok st'"
  shows "ans_wf st'"
proof -
  from assms(2) obtain n n1 dexes st1 where n: "next_unique_pool_id st = Some n"
    and add: "try_fold (add_pool ch dexes) (st, n) to_add = Ok (st1, n1)"
    and st': "st' = (let st = fold remove_pool to_remove st1
      in if n1 \<noteq> n then st\<lparr>next_unique_pool_id := Some n1\<rparr> else st)"
    unfolding update_pools_def and_then_Ok ok_or_Ok by (auto simp: Let_def)
  have "pools_ok n1 (fold remove_pool to_remove st1)"
    using assms(1) n add by (auto simp: ans_wf_def intro: remove_pools_ok add_pools_ok)
  moreover have "next_unique_pool_id (fold remove_pool to_remove st1) = Some n"
    using n add by (simp add: fold_remove_pool_next add_pools_next)
  ultimately show ?thesis by (auto simp: ans_wf_def st' Let_def)
qed

text \<open>The other messages leave pools alone.\<close>

definition same_pools :: "ans_state \<Rightarrow> ans_state \<Rightarrow> bool" where
  "same_pools st st' \<longleftrightarrow> next_unique_pool_id st' = next_unique_pool_id st
     \<and> asset_pairings st' = asset_pairings st \<and> pool_metadatas st' = pool_metadatas st"

lemma same_pools_wf: "same_pools st st' \<Longrightarrow> ans_wf st \<Longrightarrow> ans_wf st'"
  by (simp add: same_pools_def ans_wf_def pools_ok_def listed_def described_def pools_of_def no_empty_def)

lemma same_pools_refl: "same_pools st st"
  by (simp add: same_pools_def)

lemma same_pools_trans: "same_pools a b \<Longrightarrow> same_pools b c \<Longrightarrow> same_pools a c"
  by (simp add: same_pools_def)

lemma same_pools_fold:
  assumes "\<And>x st. same_pools st (f x st)"
  shows "same_pools st (fold f xs st)"
  by (induction xs arbitrary: st) (auto intro: same_pools_refl same_pools_trans assms)

lemma same_pools_try_fold:
  assumes "\<And>st x st'. f st x = Ok st' \<Longrightarrow> same_pools st st'"
  shows "try_fold f st xs = Ok st' \<Longrightarrow> same_pools st st'"
  by (induction xs arbitrary: st) (auto simp: result_simps intro: same_pools_refl same_pools_trans dest: assms)

lemma same_pools_messages:
  "update_contract_addresses ch st info add1 rem1 = Ok st' \<Longrightarrow> same_pools st st'"
  "update_asset_addresses ac ch st info add2 rem2 = Ok st' \<Longrightarrow> same_pools st st'"
  "update_channels ch st info add3 rem3 = Ok st' \<Longrightarrow> same_pools st st'"
  "update_dex_registry ch st info add4 rem4 = Ok st' \<Longrightarrow> same_pools st st'"
proof -
  have c: "add_contract_address ch s x = Ok s' \<Longrightarrow> same_pools s s'" "same_pools s (remove_contract_address k s)" for s x s' k
    by (auto simp: add_contract_address_def remove_contract_address_def same_pools_def result_simps Let_def split: prod.splits)
  show "update_contract_addresses ch st info add1 rem1 = Ok st' \<Longrightarrow> same_pools st st'"
    by (auto simp: update_contract_addresses_def result_simps
        intro: same_pools_trans [OF same_pools_try_fold [OF c(1)] same_pools_fold [OF c(2)]])
  have a: "add_asset_address ac s x = Ok s' \<Longrightarrow> same_pools s s'" "same_pools s (remove_asset_address k s)" for s x s' k
    by (auto simp: add_asset_address_def remove_asset_address_def same_pools_def result_simps Let_def
        split: prod.splits option.split)
  show "update_asset_addresses ac ch st info add2 rem2 = Ok st' \<Longrightarrow> same_pools st st'"
    by (auto simp: update_asset_addresses_def result_simps
        intro: same_pools_trans [OF same_pools_try_fold [OF a(1)] same_pools_fold [OF a(2)]])
  have l: "add_channel s x = Ok s' \<Longrightarrow> same_pools s s'" "remove_channel s k = Ok s' \<Longrightarrow> same_pools s s'" for s x s' k
    by (auto simp: add_channel_def remove_channel_def same_pools_def result_simps split: prod.splits)
  show "update_channels ch st info add3 rem3 = Ok st' \<Longrightarrow> same_pools st st'"
    by (auto simp: update_channels_def result_simps
        intro: same_pools_trans [OF same_pools_try_fold [OF l(1)] same_pools_try_fold [OF l(2)]])
  show "update_dex_registry ch st info add4 rem4 = Ok st' \<Longrightarrow> same_pools st st'"
    by (auto simp: update_dex_registry_def update_dexes_def same_pools_def result_simps split: if_splits)
qed

interpretation ans: invariant ans_start ans_step ans_wf
proof
  show "ans_wf s" if "ans_start s" for s
    using that by (auto simp: ans_start_def ans_instantiate_def empty_ans_def ans_wf_def pools_ok_def
        listed_def described_def pools_of_def no_empty_def ran_def result_simps)
next
  fix s s' assume wf: "ans_wf s" and "ans_step s s'"
  from this(2) show "ans_wf s'"
  proof (cases rule: ans_step.cases)
    case (exec ac ch ev info msg)
    then show ?thesis
      using wf by (cases msg) (auto simp: result_simps same_pools_def intro: update_pools_ok
          same_pools_wf [OF same_pools_messages(1)] same_pools_wf [OF same_pools_messages(2)]
          same_pools_wf [OF same_pools_messages(3)] same_pools_wf [OF same_pools_messages(4)]
          same_pools_wf)
  next
    case (migrate ch ev)
    then have "same_pools s s'" by (auto simp: result_simps same_pools_def)
    then show ?thesis using wf by (rule same_pools_wf)
  qed
qed


section \<open>A name service with one pool\<close>

definition ans_msgs :: "ans_execute_msg list" where
  "ans_msgs = [UpdateAssetAddresses [(''Atom'', ''native:uatom''), (''osmo'', ''native:uosmo'')] [],
     UpdateDexes [''Osmosis''] [],
     UpdatePools [(PoolId 1, \<lparr>pm_dex = ''Osmosis'', pm_pool_type = Weighted, pm_assets = [''ATOM'', ''osmo'']\<rparr>)] []]"

definition ans_run :: "ans_execute_msg list \<Rightarrow> ans_state \<Rightarrow> ans_state ans_result" where
  "ans_run msgs st = try_fold (\<lambda>st msg. ans_handle_message Ok sample_chain
     \<lparr>env_contract = ''ans'', env_block = \<lparr>height = 1, time = 1, chain_id = ''osmosis-1''\<rparr>\<rparr> st
     \<lparr>info_sender = ''admin'', info_funds = []\<rparr> msg) st msgs"

definition osmo_pool :: pool_metadata where
  "osmo_pool = \<lparr>pm_dex = ''Osmosis'', pm_pool_type = Weighted, pm_assets = [''atom'', ''osmo'']\<rparr>"

definition osmo_ans :: ans_state where
  "osmo_ans = the_Ok (and_then (ans_instantiate sample_chain empty_ans ''admin'') (ans_run ans_msgs))"

lemma ans_exec_reachable:
  "reachable ans_start ans_step st \<Longrightarrow> ans_handle_message ac ch ev st info msg = Ok st'
   \<Longrightarrow> reachable ans_start ans_step st'"
  by (rule reach_step, assumption, rule ans_step.exec)

lemma ans_run_reachable:
  "reachable ans_start ans_step st \<Longrightarrow> ans_run msgs st = Ok st' \<Longrightarrow> reachable ans_start ans_step st'"
proof (induction msgs arbitrary: st)
  case (Cons m msgs)
  then show ?case
    unfolding ans_run_def by (auto simp: result_simps intro: ans_exec_reachable)
qed (simp add: ans_run_def)

lemma lower_samples [simp]:
  "to_lowercase ''Atom'' = ''atom''" "to_lowercase ''ATOM'' = ''atom''" "to_lowercase ''atom'' = ''atom''"
  "to_lowercase ''osmo'' = ''osmo''" "to_lowercase ''Osmosis'' = ''osmosis''"
  "to_lowercase ''OSMOSIS'' = ''osmosis''" "to_lowercase ''osmosis'' = ''osmosis''"
  by code_simp+

lemma osmo_ans_run:
  "and_then (ans_instantiate sample_chain empty_ans ''admin'') (ans_run ans_msgs) = Ok osmo_ans"
  "pool_metadatas osmo_ans = [(1, osmo_pool)]"
  by (simp_all add: osmo_ans_def osmo_pool_def ans_run_def ans_msgs_def ans_instantiate_def empty_ans_def sample_chain_def
      update_asset_addresses_def add_asset_address_def assert_ans_owner_def update_dex_registry_def
      update_dexes_def register_dex_def update_pools_def add_pool_def validate_pool_assets_def
      asset_entry_new_def asset_entry_format_def register_pool_pairings_def exec_on_asset_pairings_def
      asset_pairs_def register_asset_pairing_def pairing_key_def dex_asset_pairing_new_def pools_of_def
      MIN_POOL_ASSETS_def MAX_POOL_ASSETS_def has_def load_def checked_add_def Let_def)

lemma osmo_ans_reachable: "reachable ans_start ans_step osmo_ans"
proof -
  from osmo_ans_run(1) obtain st where st: "ans_instantiate sample_chain empty_ans ''admin'' = Ok st"
    and run: "ans_run ans_msgs st = Ok osmo_ans" by (auto simp: and_then_Ok)
  have "ans_start st" using st by (auto simp: ans_start_def)
  then show ?thesis by (intro ans_run_reachable [OF reach_start run])
qed


section \<open>Where names come apart\<close>

text \<open>Giving a name to another asset leaves the reverse entry of the old one behind.\<close>

lemma renamed_asset_keeps_reverse:
  assumes "add_asset_address ac st (n, a1) = Ok st1" and "add_asset_address ac st1 (n, a2) = Ok st2"
    and "ac a1 = Ok i1" and "ac a2 = Ok i2" and "i1 \<noteq> i2"
  shows "load (asset_addresses st2) (asset_entry_new n) = Some i2"
    and "load (rev_asset_addresses st2) i1 = Some (asset_entry_new n)"
  using assms by (auto simp: add_asset_address_def Let_def)

text \<open>Removing one of two names of an asset also removes the reverse entry of the other.\<close>

lemma removed_alias_drops_reverse:
  assumes "load (asset_addresses st) (asset_entry_new n) = Some i"
    and "load (asset_addresses st) (asset_entry_new m) = Some i" and "asset_entry_new n \<noteq> asset_entry_new m"
  shows "load (asset_addresses (remove_asset_address n st)) (asset_entry_new m) = Some i"
    and "load (rev_asset_addresses (remove_asset_address n st)) i = None"
  using assms by (simp_all add: remove_asset_address_def Let_def)

text \<open>An exchange name with a capital letter can be registered twice, and cannot be removed as given.\<close>

lemma dex_names_case:
  "register_dex ''Osmosis'' (register_dex ''Osmosis'' []) = [''osmosis'', ''osmosis'']"
  "deregister_dex ''Osmosis'' (register_dex ''Osmosis'' []) = [''osmosis'']"
  by (simp_all add: register_dex_def deregister_dex_def)

end
