(* ===== verification/Sdk_Apis.thy ===== *)
theory Sdk_Apis
  imports Module_Base_Safety Voting Ans_Invariants
begin

text \<open>
  The parts of the sdk that modules build their messages with (\<open>abstract-sdk/src\<close>): the resolution of names
  (\<open>ans_resolve.rs\<close>), actions on the account (\<open>account_action.rs\<close>, \<open>apis/execution.rs\<close>), transfers
  (\<open>apis/bank.rs\<close>) and their division (\<open>apis/splitter.rs\<close>), with the fees and deposits of
  \<open>abstract-std/src/objects\<close>.

  What \<open>cw_asset\<close>, \<open>cw_utils\<close> and the arithmetic of \<open>cosmwasm_std\<close> compute is the parameter \<open>sdk_lib\<close>. The
  amount of an asset has the integer type \<open>'n\<close> of the crate the module is compiled with. The names that
  \<open>wrap_query_error\<close> adds to an error are left out.

  Theorems: an app's account action reaches the account that installed it, and dividing an asset pays every receiver
  the same and never more than there is.
\<close>

record 'n asset =
  as_info :: asset_info
  as_amount :: 'n

record 'n sdk_lib =
  sl_ans :: ans_querier
  sl_asset_new :: "asset_info \<Rightarrow> u256 \<Rightarrow> 'n asset"
  sl_asset_of_coin :: "coin \<Rightarrow> 'n asset"
  sl_transfer_msg :: "'n asset \<Rightarrow> addr \<Rightarrow> (cosmos_msg, string) result"
  sl_send_msg :: "'n asset \<Rightarrow> addr \<Rightarrow> binary \<Rightarrow> (cosmos_msg, string) result"
  sl_query_balance :: "asset_info \<Rightarrow> addr \<Rightarrow> ('n, string) result"
  sl_asset_amount :: "'n \<Rightarrow> (u256, std_error) result"
  sl_native_denom :: "asset_info \<Rightarrow> string option"
  sl_is_cw20 :: "asset_info \<Rightarrow> bool"
  sl_must_pay :: "coin list \<Rightarrow> string \<Rightarrow> (u256, string) result"
  sl_multiply_ratio :: "u256 \<Rightarrow> u256 \<Rightarrow> u256 \<Rightarrow> u256 option"
  sl_mul_floor :: "u256 \<Rightarrow> decimal \<Rightarrow> u256 option"
  sl_math :: cosmwasm_math

section \<open>Names (ans_resolve.rs)\<close>

definition resolve_lp_token :: "ans_querier \<Rightarrow> addr \<Rightarrow> lp_token \<Rightarrow> asset_info ans_query_result" where
  "resolve_lp_token qa ans lp = query_asset qa ans (lp_token_asset_entry lp)"

definition resolve_ans_asset :: "'n sdk_lib \<Rightarrow> addr \<Rightarrow> ans_asset \<Rightarrow> 'n asset ans_query_result" where
  "resolve_ans_asset sl ans a =
     and_then (query_asset (sl_ans sl) ans (aa_name a)) (\<lambda>i. Ok (sl_asset_new sl i (aa_amount a)))"

definition resolve_asset :: "'n sdk_lib \<Rightarrow> addr \<Rightarrow> 'n asset \<Rightarrow> ans_asset ans_query_result" where
  "resolve_asset sl ans a =
     and_then (query_asset_reverse (sl_ans sl) ans (as_info a)) (\<lambda>name.
     and_then (map_err (AnsQueryFailed ''parse'') (sl_asset_amount sl (as_amount a))) (\<lambda>n.
     Ok \<lparr>aa_name = name, aa_amount = n\<rparr>))"

definition resolve_assets :: "'n sdk_lib \<Rightarrow> addr \<Rightarrow> 'n asset list \<Rightarrow> ans_asset list ans_query_result" where
  "resolve_assets sl ans assets = try_map (resolve_asset sl ans) assets"

definition is_registered :: "'a ans_query_result \<Rightarrow> bool" where
  "is_registered r = is_ok r"

definition assert_registered :: "'a ans_query_result \<Rightarrow> unit ans_query_result" where
  "assert_registered r = map_ok (\<lambda>_. ()) r"

section \<open>Actions on the account (account_action.rs, features/executor.rs, apis/execution.rs)\<close>

type_synonym account_action = "cosmos_msg list"

definition merge_action :: "account_action \<Rightarrow> account_action \<Rightarrow> account_action" where
  "merge_action acc other = acc @ other"

definition module_account :: "addr option \<Rightarrow> (addr, sdk_error) result" where
  "module_account base_account = ok_or (SdkStd (StdNotFound ''base_state'')) base_account"

definition execute_on_account ::
  "addr option \<Rightarrow> account_execute_msg \<Rightarrow> coin list \<Rightarrow> (module_msg, sdk_error) result" where
  "execute_on_account base_account msg fnds =
     and_then (module_account base_account) (\<lambda>account_address. Ok (OnAccount account_address msg fnds))"

definition executor_execute_with_funds ::
  "addr option \<Rightarrow> account_action list \<Rightarrow> coin list \<Rightarrow> (module_msg, sdk_error) result" where
  "executor_execute_with_funds base_account actions fnds =
     (let msgs = concat actions in execute_on_account base_account (Execute msgs) fnds)"

definition executor_execute :: "addr option \<Rightarrow> account_action list \<Rightarrow> (module_msg, sdk_error) result" where
  "executor_execute base_account actions = executor_execute_with_funds base_account actions []"

definition executor_execute_with_data :: "addr option \<Rightarrow> cosmos_msg \<Rightarrow> (module_msg, sdk_error) result" where
  "executor_execute_with_data base_account msg = execute_on_account base_account (ExecuteWithData msg) []"

section \<open>Transfers (apis/bank.rs)\<close>

text \<open>\<open>Transferable\<close>: names are resolved, coins converted and assets taken as they are.\<close>

datatype 'n transferable = TransferAns ans_asset | TransferAsset "'n asset" | TransferCoin coin

fun transferable_asset ::
  "'n sdk_lib \<Rightarrow> (addr, sdk_error) result \<Rightarrow> 'n transferable \<Rightarrow> ('n asset, sdk_error) result" where
  "transferable_asset sl ans (TransferAns a) =
     and_then ans (\<lambda>ans. map_err SdkAnsHost (resolve_ans_asset sl ans a))"
| "transferable_asset sl ans (TransferAsset a) = Ok a"
| "transferable_asset sl ans (TransferCoin c) = Ok (sl_asset_of_coin sl c)"

definition bank_balance ::
  "'n sdk_lib \<Rightarrow> (addr, sdk_error) result \<Rightarrow> addr option \<Rightarrow> asset_entry \<Rightarrow> ('n asset, sdk_error) result" where
  "bank_balance sl ans base_account a =
     and_then ans (\<lambda>ans.
     and_then (map_err SdkAnsHost (query_asset (sl_ans sl) ans a)) (\<lambda>resolved_info.
     and_then (module_account base_account) (\<lambda>account.
     and_then (map_err SdkAsset (sl_query_balance sl resolved_info account)) (\<lambda>balance.
     Ok \<lparr>as_info = resolved_info, as_amount = balance\<rparr>))))"

definition bank_balances ::
  "'n sdk_lib \<Rightarrow> (addr, sdk_error) result \<Rightarrow> addr option \<Rightarrow> asset_entry list \<Rightarrow> ('n asset list, sdk_error) result" where
  "bank_balances sl ans base_account assets = try_map (bank_balance sl ans base_account) assets"

definition transfer_msgs ::
  "'n sdk_lib \<Rightarrow> (addr, sdk_error) result \<Rightarrow> 'n transferable list \<Rightarrow> addr \<Rightarrow> (cosmos_msg list, sdk_error) result" where
  "transfer_msgs sl ans fnds recipient =
     and_then (try_map (transferable_asset sl ans) fnds) (\<lambda>transferable_funds.
     map_err SdkAsset (try_map (\<lambda>a. sl_transfer_msg sl a recipient) transferable_funds))"

definition bank_deposit ::
  "'n sdk_lib \<Rightarrow> (addr, sdk_error) result \<Rightarrow> addr option \<Rightarrow> 'n transferable list \<Rightarrow> (cosmos_msg list, sdk_error) result" where
  "bank_deposit sl ans base_account fnds =
     and_then (module_account base_account) (\<lambda>recipient. transfer_msgs sl ans fnds recipient)"

definition bank_transfer ::
  "'n sdk_lib \<Rightarrow> (addr, sdk_error) result \<Rightarrow> 'n transferable list \<Rightarrow> addr \<Rightarrow> (account_action, sdk_error) result" where
  "bank_transfer sl ans fnds recipient = transfer_msgs sl ans fnds recipient"

definition bank_withdraw ::
  "'n sdk_lib \<Rightarrow> (addr, sdk_error) result \<Rightarrow> env \<Rightarrow> 'n transferable list \<Rightarrow> (account_action, sdk_error) result" where
  "bank_withdraw sl ans ev fnds = bank_transfer sl ans fnds (env_contract ev)"

definition bank_send ::
  "'n sdk_lib \<Rightarrow> (addr, sdk_error) result \<Rightarrow> 'n transferable \<Rightarrow> addr \<Rightarrow> binary \<Rightarrow> (account_action, sdk_error) result" where
  "bank_send sl ans fnds recipient message =
     and_then (transferable_asset sl ans fnds) (\<lambda>a.
     and_then (map_err SdkAsset (sl_send_msg sl a recipient message)) (\<lambda>msg. Ok [msg]))"

section \<open>Division (apis/splitter.rs)\<close>

definition split_asset ::
  "'n sdk_lib \<Rightarrow> (addr, sdk_error) result \<Rightarrow> ans_asset \<Rightarrow> addr list \<Rightarrow> (account_action, sdk_error) result" where
  "split_asset sl ans a receivers =
     and_then (unwrap (sl_multiply_ratio sl (aa_amount a) 1 (of_nat (length receivers)))) (\<lambda>n.
     let receives_each = a\<lparr>aa_amount := n\<rparr>
     in try_fold (\<lambda>acc receiver.
          and_then (bank_transfer sl ans [TransferAns receives_each] receiver) (\<lambda>action. Ok (merge_action acc action)))
        [] receivers)"

section \<open>Fees (objects/fee.rs)\<close>

type_synonym fee = decimal

record usage_fee =
  uf_fee :: fee
  uf_recipient :: addr

definition fee_new :: "decimal \<Rightarrow> (fee, abstract_error) result" where
  "fee_new shr = (if shr \<ge> 10 ^ 18 then Err FeeShareError else Ok shr)"

definition fee_compute :: "'n sdk_lib \<Rightarrow> fee \<Rightarrow> u256 \<Rightarrow> (u256, 'e) result" where
  "fee_compute sl f n = unwrap (sl_mul_floor sl n f)"

definition fee_msg :: "'n sdk_lib \<Rightarrow> 'n asset \<Rightarrow> addr \<Rightarrow> (cosmos_msg, string) result" where
  "fee_msg sl a recipient = sl_transfer_msg sl a recipient"

definition usage_fee_new :: "decimal \<Rightarrow> addr \<Rightarrow> (usage_fee, abstract_error) result" where
  "usage_fee_new shr recipient =
     and_then (fee_new shr) (\<lambda>f. Ok \<lparr>uf_fee = f, uf_recipient = recipient\<rparr>)"

definition usage_fee_set_share :: "usage_fee \<Rightarrow> decimal \<Rightarrow> (usage_fee, abstract_error) result" where
  "usage_fee_set_share u shr = and_then (fee_new shr) (\<lambda>f. Ok (u\<lparr>uf_fee := f\<rparr>))"

definition usage_fee_compute :: "'n sdk_lib \<Rightarrow> usage_fee \<Rightarrow> u256 \<Rightarrow> (u256, 'e) result" where
  "usage_fee_compute sl u n = unwrap (sl_mul_floor sl n (uf_fee u))"

definition usage_fee_set_recipient :: "usage_fee \<Rightarrow> addr \<Rightarrow> usage_fee" where
  "usage_fee_set_recipient u recipient = u\<lparr>uf_recipient := recipient\<rparr>"

section \<open>Deposits (objects/deposit_info.rs)\<close>

definition deposit_info_assert :: "asset_info \<Rightarrow> asset_info \<Rightarrow> (unit, abstract_error) result" where
  "deposit_info_assert own_info info =
     (if info = own_info then Ok ()
      else Err (Assert (''Invalid deposit asset. Expected '' @ own_info @ '', got '' @ info @ ''.'')))"

definition deposit_info_get_denom :: "'n sdk_lib \<Rightarrow> asset_info \<Rightarrow> (string, abstract_error) result" where
  "deposit_info_get_denom sl info =
     (case sl_native_denom sl info of
        Some d \<Rightarrow> Ok d
      | None \<Rightarrow> (if sl_is_cw20 sl info then Err (Assert ('''denom' only exists for native tokens.'')) else Panic))"

section \<open>Documented behaviour of the libraries\<close>

text \<open>A coin is sent by a bank message; exactly one coin of the denomination, not empty, is a payment.\<close>

definition bank_laws :: "'n sdk_lib \<Rightarrow> bool" where
  "bank_laws sl \<longleftrightarrow> (\<forall>c a. sl_transfer_msg sl (sl_asset_of_coin sl c) a = Ok (BankSend a [c]))
     \<and> (\<forall>fs d n. sl_must_pay sl fs d = Ok n \<longleftrightarrow> n \<noteq> 0 \<and> fs = [\<lparr>denom = d, amount = n\<rparr>])"

text \<open>Multiplication by a ratio rounds down and aborts on overflow and on a zero denominator.\<close>

definition ratio_laws :: "'n sdk_lib \<Rightarrow> bool" where
  "ratio_laws sl \<longleftrightarrow>
     (\<forall>a n d. sl_multiply_ratio sl a n d = (if d \<noteq> 0 \<and> unat a * unat n div unat d < 2 ^ 256
        then Some (of_nat (unat a * unat n div unat d)) else None))
   \<and> (\<forall>a d. sl_mul_floor sl a d = (if unat a * unat d div 10 ^ 18 < 2 ^ 256
        then Some (of_nat (unat a * unat d div 10 ^ 18)) else None))"

lemma unat_u256: "unat (w :: u256) < 2 ^ 256"
  using unsigned_less [of w] by simp

lemma bank_deposit_coin:
  assumes "bank_laws sl"
  shows "bank_deposit sl ans (Some account) [TransferCoin c] = Ok [BankSend account [c]]"
  using assms by (simp add: bank_laws_def bank_deposit_def transfer_msgs_def module_account_def)

lemma must_payD: "bank_laws sl \<Longrightarrow> sl_must_pay sl fs d = Ok n \<Longrightarrow> n \<noteq> 0 \<and> fs = [\<lparr>denom = d, amount = n\<rparr>]"
  by (simp add: bank_laws_def)

lemma multiply_ratio_Some:
  assumes "ratio_laws sl" and "sl_multiply_ratio sl a n d = Some r"
  shows "d \<noteq> 0 \<and> unat r = unat a * unat n div unat d"
  using assms by (auto simp: ratio_laws_def unat_of_nat split: if_splits)

lemma multiply_ratio_le:
  assumes "ratio_laws sl" and "sl_multiply_ratio sl a n d = Some r" and "unat n \<le> unat d"
  shows "r \<le> a"
proof -
  from multiply_ratio_Some [OF assms(1,2)] have d: "unat d \<noteq> 0" and r: "unat r = unat a * unat n div unat d"
    by (auto simp: unat_eq_0)
  have "unat a * unat n div unat d \<le> unat a * unat d div unat d"
    using assms(3) by (intro div_le_mono mult_le_mono) simp_all
  with d r show ?thesis by (simp add: word_le_nat_alt)
qed

lemma multiply_ratio_fraction:
  assumes "ratio_laws sl" and "n \<le> d" and "d \<noteq> 0"
  shows "\<exists>r. sl_multiply_ratio sl a n d = Some r"
proof -
  have "unat a * unat n div unat d \<le> unat a * unat d div unat d"
    using assms(2) by (intro div_le_mono mult_le_mono) (simp_all add: word_le_nat_alt)
  also have "\<dots> = unat a" using assms(3) by (simp add: unat_eq_0)
  also have "\<dots> < 2 ^ 256" by (rule unat_u256)
  finally show ?thesis using assms(1,3) by (simp add: ratio_laws_def)
qed

section \<open>Theorems\<close>

text \<open>
  what an app sends with the executor is one message to the account the app was installed on, with all messages
  of all actions in their order.
\<close>

theorem executor_reaches_own_account:
  assumes "app_instantiate mc ch ev st info account msg = Ok (st', ms)" and "ac_instantiate mc = None"
  shows "executor_execute (ap_account st') actions = Ok (OnAccount account (Execute (concat actions)) [])"
  using assms by (auto simp: app_instantiate_def executor_execute_def executor_execute_with_funds_def
      execute_on_account_def module_account_def Let_def)

text \<open>
  a fee that \<open>Fee::new\<close> accepts is computed without abort for every amount, and is zero or smaller than the
  amount it is taken from.
\<close>

theorem fee_below_amount:
  assumes "ratio_laws sl" and "fee_new shr = Ok f"
  shows "\<exists>n. fee_compute sl f a = (Ok n :: (u256, abstract_error) result) \<and> unat n = unat a * unat shr div 10 ^ 18
    \<and> (a = 0 \<or> n < a)"
proof -
  from assms(2) have f: "f = shr" and shr: "unat shr < 10 ^ 18"
    by (auto simp: fee_new_def word_le_nat_alt not_le split: if_splits)
  let ?n = "unat a * unat shr div 10 ^ 18"
  have le: "?n \<le> unat a * 10 ^ 18 div 10 ^ 18" using shr by (intro div_le_mono mult_le_mono) simp_all
  then have "?n \<le> unat a" by simp
  also have "unat a < 2 ^ 256" by (rule unat_u256)
  finally have fits: "?n < 2 ^ 256" .
  have lt: "?n < unat a" if "a \<noteq> 0"
  proof -
    from that have "unat a * unat shr < unat a * 10 ^ 18" using shr by (simp add: unat_gt_0)
    then show ?thesis by (simp add: less_mult_imp_div_less)
  qed
  from assms(1) fits have "fee_compute sl f a = (Ok (of_nat ?n) :: (u256, abstract_error) result)"
    by (simp add: fee_compute_def ratio_laws_def f)
  then show ?thesis using fits lt by (auto simp: word_less_nat_alt unat_of_nat)
qed

lemma split_loop:
  assumes "try_fold (\<lambda>acc r. and_then (bank_transfer sl ans [t] r) (\<lambda>action. Ok (merge_action acc action))) acc rs = Ok msgs"
    and "transferable_asset sl ans t = Ok b"
  shows "\<exists>ms. msgs = acc @ ms \<and> list_all2 (\<lambda>m r. sl_transfer_msg sl b r = Ok m) ms rs"
  using assms(1)
proof (induction rs arbitrary: acc)
  case (Cons r rs)
  then obtain m where m: "sl_transfer_msg sl b r = Ok m"
    and rest: "try_fold (\<lambda>acc r. and_then (bank_transfer sl ans [t] r) (\<lambda>action. Ok (merge_action acc action))) (acc @ [m]) rs = Ok msgs"
    using assms(2) by (auto simp: bank_transfer_def transfer_msgs_def merge_action_def result_simps)
  from Cons.IH [OF rest] obtain ms where "msgs = (acc @ [m]) @ ms" "list_all2 (\<lambda>m r. sl_transfer_msg sl b r = Ok m) ms rs"
    by blast
  with m show ?case by (intro exI [of _ "m # ms"]) simp
qed simp

text \<open>
  splitting an asset sends every receiver one transfer of the same amount; together they receive no more than the
  asset has, and what is left over is less than one unit per receiver.
\<close>

theorem split_is_fair:
  assumes "ratio_laws sl" and "split_asset sl ans a receivers = Ok msgs" and "length receivers < 2 ^ 256"
  shows "\<exists>host info each. ans = Ok host \<and> query_asset (sl_ans sl) host (aa_name a) = Ok info
    \<and> list_all2 (\<lambda>m r. sl_transfer_msg sl (sl_asset_new sl info each) r = Ok m) msgs receivers
    \<and> length receivers * unat each \<le> unat (aa_amount a)
    \<and> unat (aa_amount a) - length receivers * unat each < length receivers"
proof -
  let ?k = "length receivers"
  from assms(2) obtain n where n: "sl_multiply_ratio sl (aa_amount a) 1 (of_nat ?k) = Some n"
    and loop: "try_fold (\<lambda>acc r. and_then (bank_transfer sl ans [TransferAns (a\<lparr>aa_amount := n\<rparr>)] r)
        (\<lambda>action. Ok (merge_action acc action))) [] receivers = Ok msgs"
    by (auto simp: split_asset_def result_simps Let_def)
  from multiply_ratio_Some [OF assms(1) n] assms(3) have k: "?k \<noteq> 0" and div: "unat n = unat (aa_amount a) div ?k"
    by (auto simp: unat_of_nat)
  from k loop obtain b where b: "transferable_asset sl ans (TransferAns (a\<lparr>aa_amount := n\<rparr>)) = Ok b"
    by (cases receivers) (auto simp: bank_transfer_def transfer_msgs_def result_simps)
  then obtain host info where host: "ans = Ok host" "query_asset (sl_ans sl) host (aa_name a) = Ok info"
    and "b = sl_asset_new sl info n"
    by (auto simp: resolve_ans_asset_def result_simps)
  with split_loop [OF loop b] have "list_all2 (\<lambda>m r. sl_transfer_msg sl (sl_asset_new sl info n) r = Ok m) msgs receivers"
    by auto
  moreover have "?k * unat n \<le> unat (aa_amount a)" "unat (aa_amount a) - ?k * unat n < ?k"
    using k by (simp_all add: div minus_mult_div_eq_mod)
  ultimately show ?thesis using host by blast
qed

section \<open>Witnesses\<close>

definition bank_lib :: "ans_state \<Rightarrow> u256 sdk_lib" where
  "bank_lib ast = \<lparr>sl_ans = (\<lambda>a. Ok ast), sl_asset_new = (\<lambda>i n. \<lparr>as_info = i, as_amount = n\<rparr>),
     sl_asset_of_coin = (\<lambda>c. \<lparr>as_info = CHR ''n'' # denom c, as_amount = amount c\<rparr>),
     sl_transfer_msg = (\<lambda>a r. Ok (BankSend r [\<lparr>denom = tl (as_info a), amount = as_amount a\<rparr>])),
     sl_send_msg = (\<lambda>a r m. Err ''cw20 only''),
     sl_query_balance = (\<lambda>i a. Ok 0), sl_asset_amount = Ok,
     sl_native_denom = (\<lambda>i. if i \<noteq> [] \<and> hd i = CHR ''n'' then Some (tl i) else None), sl_is_cw20 = (\<lambda>i. False),
     sl_must_pay = (\<lambda>fs d. case fs of [c] \<Rightarrow> (if denom c = d \<and> amount c \<noteq> 0 then Ok (amount c) else Err d) | _ \<Rightarrow> Err d),
     sl_multiply_ratio = (\<lambda>a n d. let r = unat a * unat n div unat d
       in if d \<noteq> 0 \<and> r < 2 ^ 256 then Some (of_nat r) else None),
     sl_mul_floor = (\<lambda>a d. let r = unat a * unat d div 10 ^ 18 in if r < 2 ^ 256 then Some (of_nat r) else None),
     sl_math = std_math\<rparr>"

lemma bank_lib_laws: "bank_laws (bank_lib ast)" "ratio_laws (bank_lib ast)"
  by (auto simp: bank_laws_def ratio_laws_def bank_lib_def Let_def split: list.splits if_splits)
    (metis coin.select_convs)+

theorem executor_reaches_own_account_witness:
  "executor_execute (ap_account (live_app\<lparr>ap_module_data := Some (module_version_data ibc_app),
       ap_cw2 := Some \<lparr>cv_contract = ''dev:app'', cv_version = ''1.0.0''\<rparr>\<rparr>)) [[BankSend ''bob'' []]]
   = Ok (OnAccount ''acct'' (Execute [BankSend ''bob'' []]) [])"
proof -
  have "app_instantiate ibc_app hosted_chain paid_env live_app king_info ''acct'' ()
    = Ok (live_app\<lparr>ap_module_data := Some (module_version_data ibc_app),
       ap_cw2 := Some \<lparr>cv_contract = ''dev:app'', cv_version = ''1.0.0''\<rparr>\<rparr>, [])"
    by (simp add: app_instantiate_def ibc_app_def live_app_def Let_def)
  from executor_reaches_own_account [OF this] show ?thesis by (simp add: ibc_app_def)
qed

theorem fee_below_amount_witness:
  "\<exists>n. fee_compute (bank_lib empty_ans) (10 ^ 17) 1000 = (Ok n :: (u256, abstract_error) result) \<and> unat n = 100"
  using fee_below_amount [OF bank_lib_laws(2), of "10 ^ 17" "10 ^ 17" empty_ans 1000]
  by (auto simp: fee_new_def)

theorem split_is_fair_witness:
  "\<exists>host info each. (Ok ''ans'' :: (addr, sdk_error) result) = Ok host
    \<and> query_asset (sl_ans (bank_lib (empty_ans\<lparr>asset_addresses := [(''usd'', ''nusd'')]\<rparr>))) host ''usd'' = Ok info
    \<and> 3 * unat (each :: u256) \<le> 100 \<and> 100 - 3 * unat each < 3"
proof -
  let ?ast = "empty_ans\<lparr>asset_addresses := [(''usd'', ''nusd'')]\<rparr>"
  have "\<exists>ms. split_asset (bank_lib ?ast) (Ok ''ans'') \<lparr>aa_name = ''usd'', aa_amount = 100\<rparr> [''a'', ''b'', ''c''] = Ok ms"
    by (simp add: split_asset_def bank_lib_def bank_transfer_def transfer_msgs_def resolve_ans_asset_def query_asset_def
        ans_raw_def Let_def)
  then obtain ms where "split_asset (bank_lib ?ast) (Ok ''ans'') \<lparr>aa_name = ''usd'', aa_amount = 100\<rparr> [''a'', ''b'', ''c''] = Ok ms" ..
  from split_is_fair [OF bank_lib_laws(2) this] obtain host info each where
    "host = ''ans''" "query_asset (sl_ans (bank_lib ?ast)) host ''usd'' = Ok info"
    "3 * unat (each :: u256) \<le> 100" "100 - 3 * unat each < 3" by (auto simp: numeral_3_eq_3)
  then show ?thesis by blast
qed

end
