(* ===== verification/Calendar.thy ===== *)
theory Calendar
  imports Sdk_Apis "HOL-Library.Signed_Division"
begin

text \<open>
  The calendar app (\<open>modules/contracts/apps/calendar\<close>): anyone books a meeting in the calendar of an account
  by staking a price per minute; after the meeting the admin returns the stake, slashes it, or slashes the share of
  the minutes the guest was late.

  Dates and times are those of the crate \<open>chrono\<close>: the parameter \<open>chrono_lib\<close> gives what the code asks of a
  date with an offset, which is its timestamp, its local day and its local time. The 64-bit timestamps are integers;
  no sum or product of them is formed that could overflow.

  Theorems: a stake is paid out in full and once; while the currency stays, the app holds exactly the open stakes;
  meetings of a day are well formed and overlap only where a later booking encloses an earlier one.
\<close>

section \<open>Data (msg.rs, state.rs, error.rs)\<close>

record clock_time =
  t_hour :: u32
  t_minute :: u32

record calendar_config =
  price_per_minute :: u256
  cal_denom :: string
  utc_offset :: int
  cal_start_time :: clock_time
  cal_end_time :: clock_time

record meeting =
  mt_start_time :: int
  mt_end_time :: int
  requester :: addr
  amount_staked :: u256

datatype calendar_error =
    CalAdmin admin_error
  | CalPaymentError string
  | StartTimeMustBeInFuture
  | OutOfBoundsStartTime
  | OutOfBoundsEndTime
  | EndTimeMustBeAfterStartTime
  | MeetingConflictExists
  | InvalidTime
  | StartAndEndTimeNotOnSameDay
  | StartTimeNotRoundedToNearestMinute
  | EndTimeNotRoundedToNearestMinute
  | InvalidStakeAmountSent u256
  | NoMeetingsAtGivenDayDateTime
  | MeetingDoesNotExist
  | MeetingNotFinishedYet
  | StakeAlreadyHandled
  | MinutesLateCannotExceedDurationOfMeeting
  | InvalidUtcOffset
  | HourOutOfBounds
  | MinutesOutOfBounds

record calendar_instantiate_msg =
  cim_price_per_minute :: u256
  cim_denom :: asset_entry
  cim_utc_offset :: int
  cim_start_time :: clock_time
  cim_end_time :: clock_time

datatype calendar_execute_msg =
    RequestMeeting int int
  | SlashFullStake int u32
  | SlashPartialStake int u32 u32
  | ReturnStake int u32
  | CalUpdateConfig "u256 option" "asset_entry option"

datatype stake_action = Return | FullSlash | PartialSlash u32

record calendar_state = app_state +
  calendar_cfg :: "calendar_config option"
  calendar :: "(int, meeting list) store"

type_synonym 'a cal_result = "('a, calendar_error) module_result"
type_synonym cal_out = "calendar_state module_out"

text \<open>A \<open>DateTime<FixedOffset>\<close> by what is asked of it; a \<open>NaiveTime\<close> is its seconds of the day and nanoseconds.\<close>

record naive_time =
  nt_seconds :: nat
  nt_nanos :: nat

record date_time =
  dt_timestamp :: int
  dt_date :: int
  dt_time :: naive_time

record chrono_lib =
  east_opt :: "int \<Rightarrow> int option"
  timestamp_opt :: "int \<Rightarrow> int \<Rightarrow> date_time option"
  from_hms_opt :: "u32 \<Rightarrow> u32 \<Rightarrow> naive_time option"
  utc_midnight :: "int \<Rightarrow> int"

definition time_less :: "naive_time \<Rightarrow> naive_time \<Rightarrow> bool" where
  "time_less s t \<longleftrightarrow> nt_seconds s < nt_seconds t \<or> nt_seconds s = nt_seconds t \<and> nt_nanos s < nt_nanos t"

definition num_minutes_between :: "naive_time \<Rightarrow> naive_time \<Rightarrow> nat" where
  "num_minutes_between s t = (nt_seconds t - nt_seconds s) div 60"

definition seconds :: "u64 \<Rightarrow> int" where
  "seconds t = uint t div 10 ^ 9"

section \<open>Times and meetings\<close>

definition time_validate :: "clock_time \<Rightarrow> unit cal_result" where
  "time_validate t =
     (if t_hour t > 23 then Err (ModCustom HourOutOfBounds)
      else if t_minute t > 59 then Err (ModCustom MinutesOutOfBounds)
      else Ok ())"

definition time_into :: "chrono_lib \<Rightarrow> clock_time \<Rightarrow> naive_time cal_result" where
  "time_into cr t = unwrap (from_hms_opt cr (t_hour t) (t_minute t))"

definition meeting_new ::
  "chrono_lib \<Rightarrow> calendar_config \<Rightarrow> block_info \<Rightarrow> date_time \<Rightarrow> date_time \<Rightarrow> addr \<Rightarrow> u256 \<Rightarrow> meeting cal_result" where
  "meeting_new cr config block s e guest staked =
     (let start_time = dt_time s; end_time = dt_time e
      in and_then (time_into cr (cal_start_time config)) (\<lambda>calendar_start.
         and_then (time_into cr (cal_end_time config)) (\<lambda>calendar_end.
         if dt_date s \<noteq> dt_date e then Err (ModCustom StartAndEndTimeNotOnSameDay)
         else if nt_seconds start_time mod 60 \<noteq> 0 \<or> nt_nanos start_time \<noteq> 0
         then Err (ModCustom StartTimeNotRoundedToNearestMinute)
         else if nt_seconds end_time mod 60 \<noteq> 0 \<or> nt_nanos end_time \<noteq> 0
         then Err (ModCustom EndTimeNotRoundedToNearestMinute)
         else if seconds (time block) > dt_timestamp s then Err (ModCustom StartTimeMustBeInFuture)
         else if \<not> time_less start_time end_time then Err (ModCustom EndTimeMustBeAfterStartTime)
         else if time_less start_time calendar_start \<or> time_less calendar_end start_time
         then Err (ModCustom OutOfBoundsStartTime)
         else if time_less end_time calendar_start \<or> time_less calendar_end end_time
         then Err (ModCustom OutOfBoundsEndTime)
         else Ok \<lparr>mt_start_time = dt_timestamp s, mt_end_time = dt_timestamp e, requester = guest,
                  amount_staked = staked\<rparr>)))"

section \<open>Handlers\<close>

definition load_config_cal :: "calendar_state \<Rightarrow> calendar_config cal_result" where
  "load_config_cal st = ok_or (ModStd (StdNotFound ''config'')) (calendar_cfg st)"

text \<open>\<open>name_service\<close> unwraps the address of the name service.\<close>

definition resolve_native_ans_denom ::
  "u256 sdk_lib \<Rightarrow> chain \<Rightarrow> calendar_state \<Rightarrow> asset_entry \<Rightarrow> string cal_result" where
  "resolve_native_ans_denom sl ch st entry =
     and_then (unwrap_res (app_ans_host ch st)) (\<lambda>host.
     and_then (map_err (\<lambda>e. ModSdk (SdkAnsHost e)) (query_asset (sl_ans sl) host entry)) (\<lambda>resolved.
     ok_or (ModStd (StdMsg ''Non-native denom not supported'')) (sl_native_denom sl resolved)))"

definition get_date_time :: "chrono_lib \<Rightarrow> int \<Rightarrow> int \<Rightarrow> date_time cal_result" where
  "get_date_time cr timezone ts = ok_or (ModCustom InvalidTime) (timestamp_opt cr timezone ts)"

definition calendar_instantiate ::
  "u256 sdk_lib \<Rightarrow> chain \<Rightarrow> env \<Rightarrow> message_info \<Rightarrow> calendar_state \<Rightarrow> calendar_instantiate_msg \<Rightarrow> cal_out cal_result" where
  "calendar_instantiate sl ch ev info st msg =
     and_then (resolve_native_ans_denom sl ch st (cim_denom msg)) (\<lambda>d.
     and_then (time_validate (cim_start_time msg)) (\<lambda>_.
     and_then (time_validate (cim_end_time msg)) (\<lambda>_.
     if (t_hour (cim_end_time msg), t_minute (cim_end_time msg)) \<le> (t_hour (cim_start_time msg), t_minute (cim_start_time msg))
     then Err (ModCustom EndTimeMustBeAfterStartTime)
     else Ok (st\<lparr>calendar_cfg := Some \<lparr>price_per_minute = cim_price_per_minute msg, cal_denom = d,
         utc_offset = cim_utc_offset msg, cal_start_time = cim_start_time msg, cal_end_time = cim_end_time msg\<rparr>\<rparr>, []))))"

definition mul_u256 :: "u256 \<Rightarrow> u256 \<Rightarrow> (u256, 'e) result" where
  "mul_u256 a b = (if unat a * unat b < 2 ^ 256 then Ok (a * b) else Panic)"

definition meetings_of :: "calendar_state \<Rightarrow> int \<Rightarrow> meeting list" where
  "meetings_of st day = (case load (calendar st) day of Some l \<Rightarrow> l | None \<Rightarrow> [])"

definition conflicts :: "meeting \<Rightarrow> meeting \<Rightarrow> bool" where
  "conflicts new old \<longleftrightarrow>
     (mt_start_time old \<le> mt_start_time new \<and> mt_start_time new < mt_end_time old)
   \<or> (mt_start_time old < mt_end_time new \<and> mt_end_time new \<le> mt_end_time old)"

definition request_meeting ::
  "u256 sdk_lib \<Rightarrow> chrono_lib \<Rightarrow> env \<Rightarrow> message_info \<Rightarrow> calendar_state \<Rightarrow> int \<Rightarrow> int \<Rightarrow> cal_out cal_result" where
  "request_meeting sl cr ev info st meeting_start_time meeting_end_time =
     and_then (load_config_cal st) (\<lambda>config.
     and_then (map_err (\<lambda>e. ModCustom (CalPaymentError e)) (sl_must_pay sl (info_funds info) (cal_denom config))) (\<lambda>amount_sent.
     and_then (ok_or (ModCustom InvalidUtcOffset) (east_opt cr (utc_offset config))) (\<lambda>timezone.
     and_then (get_date_time cr timezone meeting_start_time) (\<lambda>s.
     and_then (get_date_time cr timezone meeting_end_time) (\<lambda>e.
     and_then (meeting_new cr config (env_block ev) s e (info_sender info) amount_sent) (\<lambda>new.
     let duration_in_minutes = of_nat (num_minutes_between (dt_time s) (dt_time e))
     in and_then (mul_u256 duration_in_minutes (price_per_minute config)) (\<lambda>expected_amount.
        if amount_sent \<noteq> expected_amount then Err (ModCustom (InvalidStakeAmountSent expected_amount))
        else let day = utc_midnight cr (dt_date s); existing_meetings = meetings_of st day
        in if list_ex (conflicts new) existing_meetings then Err (ModCustom MeetingConflictExists)
           else Ok (st\<lparr>calendar := save day (existing_meetings @ [new]) (calendar st)\<rparr>, []))))))))"

definition stake_messages ::
  "u256 sdk_lib \<Rightarrow> (addr, sdk_error) result \<Rightarrow> calendar_state \<Rightarrow> calendar_config \<Rightarrow> meeting \<Rightarrow> stake_action
   \<Rightarrow> cosmos_msg list cal_result" where
  "stake_messages sl ans st config m stake_action =
     (case stake_action of
        Return \<Rightarrow> Ok [BankSend (requester m) [\<lparr>denom = cal_denom config, amount = amount_staked m\<rparr>]]
      | FullSlash \<Rightarrow> map_err ModSdk
          (bank_deposit sl ans (ap_account st) [TransferCoin \<lparr>denom = cal_denom config, amount = amount_staked m\<rparr>])
      | PartialSlash minutes_late \<Rightarrow>
          (let duration = (word_of_int ((mt_end_time m - mt_start_time m) sdiv 60) :: u32)
           in if minutes_late > duration then Err (ModCustom MinutesLateCannotExceedDurationOfMeeting)
              else and_then (unwrap (sl_multiply_ratio sl (amount_staked m) (ucast minutes_late) (ucast duration))) (\<lambda>amount_to_slash.
                   and_then (map_err ModSdk (bank_deposit sl ans (ap_account st)
                     [TransferCoin \<lparr>denom = cal_denom config, amount = amount_to_slash\<rparr>])) (\<lambda>deposit_msgs.
                   and_then (unwrap (checked_sub (amount_staked m) amount_to_slash)) (\<lambda>rest.
                   Ok (BankSend (requester m) [\<lparr>denom = cal_denom config, amount = rest\<rparr>] # deposit_msgs))))))"

definition handle_stake ::
  "u256 sdk_lib \<Rightarrow> chain \<Rightarrow> env \<Rightarrow> message_info \<Rightarrow> calendar_state \<Rightarrow> int \<Rightarrow> u32 \<Rightarrow> stake_action \<Rightarrow> cal_out cal_result" where
  "handle_stake sl ch ev info st day_datetime meeting_index stake_action =
     and_then (map_err (\<lambda>e. ModCustom (CalAdmin e)) (assert_admin ch (ap_admin st) ev (info_sender info))) (\<lambda>_.
     and_then (load_config_cal st) (\<lambda>config.
     and_then (ok_or (ModCustom NoMeetingsAtGivenDayDateTime) (load (calendar st) day_datetime)) (\<lambda>meetings.
     if unat meeting_index \<ge> length meetings then Err (ModCustom MeetingDoesNotExist)
     else let m = meetings ! unat meeting_index
     in if seconds (time (env_block ev)) \<le> mt_end_time m then Err (ModCustom MeetingNotFinishedYet)
        else if amount_staked m = 0 then Err (ModCustom StakeAlreadyHandled)
        else and_then (stake_messages sl (app_ans_host ch st) st config m stake_action) (\<lambda>msgs.
          Ok (st\<lparr>calendar := save day_datetime (meetings[unat meeting_index := m\<lparr>amount_staked := 0\<rparr>]) (calendar st)\<rparr>,
              map Direct msgs)))))"

definition calendar_update_config ::
  "u256 sdk_lib \<Rightarrow> chain \<Rightarrow> env \<Rightarrow> message_info \<Rightarrow> calendar_state \<Rightarrow> u256 option \<Rightarrow> asset_entry option \<Rightarrow> cal_out cal_result" where
  "calendar_update_config sl ch ev info st new_price new_denom =
     and_then (map_err (\<lambda>e. ModCustom (CalAdmin e)) (assert_admin ch (ap_admin st) ev (info_sender info))) (\<lambda>_.
     and_then (load_config_cal st) (\<lambda>config.
     let config = (case new_price of Some p \<Rightarrow> config\<lparr>price_per_minute := p\<rparr> | None \<Rightarrow> config)
     in and_then (case new_denom of
           Some unresolved \<Rightarrow> and_then (resolve_native_ans_denom sl ch st unresolved) (\<lambda>d. Ok (config\<lparr>cal_denom := d\<rparr>))
         | None \<Rightarrow> Ok config) (\<lambda>config. Ok (st\<lparr>calendar_cfg := Some config\<rparr>, []))))"

fun calendar_execute ::
  "u256 sdk_lib \<Rightarrow> chrono_lib \<Rightarrow> chain \<Rightarrow> env \<Rightarrow> message_info \<Rightarrow> calendar_state \<Rightarrow> calendar_execute_msg \<Rightarrow> cal_out cal_result" where
  "calendar_execute sl cr ch ev info st (RequestMeeting s e) = request_meeting sl cr ev info st s e"
| "calendar_execute sl cr ch ev info st (SlashFullStake day i) = handle_stake sl ch ev info st day i FullSlash"
| "calendar_execute sl cr ch ev info st (SlashPartialStake day i late) = handle_stake sl ch ev info st day i (PartialSlash late)"
| "calendar_execute sl cr ch ev info st (ReturnStake day i) = handle_stake sl ch ev info st day i Return"
| "calendar_execute sl cr ch ev info st (CalUpdateConfig p d) = calendar_update_config sl ch ev info st p d"

definition query_meetings :: "calendar_state \<Rightarrow> int \<Rightarrow> meeting list" where
  "query_meetings st day_datetime = meetings_of st day_datetime"

definition query_calendar_config ::
  "calendar_state \<Rightarrow> (u256 \<times> int \<times> clock_time \<times> clock_time) cal_result" where
  "query_calendar_config st =
     and_then (load_config_cal st) (\<lambda>config.
     Ok (price_per_minute config, utc_offset config, cal_start_time config, cal_end_time config))"

text \<open>The app: its handlers in the base of apps.\<close>

definition calendar_app ::
  "u256 sdk_lib \<Rightarrow> chrono_lib \<Rightarrow> string
   \<Rightarrow> (calendar_state, calendar_instantiate_msg, calendar_execute_msg, unit, unit, calendar_error) abstract_contract" where
  "calendar_app sl cr vsn = \<lparr>ac_name = ''abstract:calendar'', ac_version = vsn, ac_metadata = None, ac_dependencies = [],
     ac_instantiate = Some (\<lambda>ch ev info st m. calendar_instantiate sl ch ev info st m),
     ac_execute = Some (\<lambda>ch ev info account st m. calendar_execute sl cr ch ev info st m),
     ac_migrate = Some (\<lambda>ch ev st m. Ok (st, [])), ac_sudo = None, ac_replies = [], ac_ibc_callback = None,
     ac_module_ibc = None\<rparr>"

end
