(* ===== verification/Calendar_Safety.thy ===== *)
theory Calendar_Safety
  imports Calendar
begin

text \<open>
  Safety of the calendar app: stakes are paid out in full and once, the app can always pay what it owes while its
  currency stays, and what is known of the meetings of a day.
\<close>

section \<open>Payments\<close>

fun direct_paid :: "string \<Rightarrow> module_msg \<Rightarrow> nat" where
  "direct_paid d (Direct (BankSend a cs)) = total_of d cs"
| "direct_paid d _ = 0"

definition paid_out :: "string \<Rightarrow> module_msg list \<Rightarrow> nat" where
  "paid_out d ms = (\<Sum>m\<leftarrow>ms. direct_paid d m)"

fun pays_only :: "addr set \<Rightarrow> module_msg \<Rightarrow> bool" where
  "pays_only A (Direct (BankSend a cs)) \<longleftrightarrow> a \<in> A"
| "pays_only A _ \<longleftrightarrow> False"

lemma bank_deposit_coin_Ok [result_simps]:
  assumes "bank_laws sl"
  shows "bank_deposit sl ans acc [TransferCoin c] = Ok ms \<longleftrightarrow> (\<exists>a. acc = Some a \<and> ms = [BankSend a [c]])"
  using bank_deposit_coin [OF assms] by (cases acc) (auto simp: bank_deposit_def module_account_def)

lemma stake_messages_paid:
  assumes "bank_laws sl" and "stake_messages sl ans st config m act = Ok msgs"
  shows "paid_out d (map Direct msgs) = (if d = cal_denom config then unat (amount_staked m) else 0)
    \<and> list_all (pays_only ({requester m} \<union> set_option (ap_account st))) (map Direct msgs)"
proof (cases act)
  case (PartialSlash late)
  with assms obtain slash rest a where "checked_sub (amount_staked m) slash = Some rest" "ap_account st = Some a"
    "msgs = [BankSend (requester m) [\<lparr>denom = cal_denom config, amount = rest\<rparr>],
             BankSend a [\<lparr>denom = cal_denom config, amount = slash\<rparr>]]"
    by (auto simp: stake_messages_def result_simps bank_deposit_coin_Ok [OF assms(1)] Let_def split: if_splits)
  then show ?thesis by (auto simp: paid_out_def checked_sub_Some)
qed (use assms in \<open>auto simp: stake_messages_def result_simps bank_deposit_coin_Ok [OF assms(1)] paid_out_def\<close>)

lemma handle_stake_Ok:
  assumes "handle_stake sl ch ev info st day i act = Ok (st', out)"
  obtains config ms msgs where "assert_admin ch (ap_admin st) ev (info_sender info) = Ok ()"
    and "calendar_cfg st = Some config" and "load (calendar st) day = Some ms" and "unat i < length ms"
    and "mt_end_time (ms ! unat i) < seconds (time (env_block ev))" and "amount_staked (ms ! unat i) \<noteq> 0"
    and "stake_messages sl (app_ans_host ch st) st config (ms ! unat i) act = Ok msgs" and "out = map Direct msgs"
    and "st' = st\<lparr>calendar := save day (ms[unat i := (ms ! unat i)\<lparr>amount_staked := 0\<rparr>]) (calendar st)\<rparr>"
  using assms unfolding handle_stake_def load_config_cal_def and_then_Ok
  by (auto simp: result_simps Let_def split: if_splits)

lemma meetings_of_save [simp]:
  "meetings_of (st\<lparr>calendar := save day ms (calendar st)\<rparr>) = (meetings_of st)(day := ms)"
  by (auto simp: meetings_of_def fun_eq_iff)

lemma meetings_of_load: "load (calendar st) day = Some ms \<Longrightarrow> meetings_of st day = ms"
  by (simp add: meetings_of_def)

text \<open>
  when the admin settles a meeting, the meeting is over and its stake was open; the messages pay exactly the stake,
  in the configured currency and to no one but the guest and the account; afterwards the stake is zero and no other
  meeting has changed.
\<close>

theorem stake_paid_in_full:
  assumes "bank_laws sl" and "handle_stake sl ch ev info st day i act = Ok (st', out)"
  shows "\<exists>config m. calendar_cfg st = Some config \<and> unat i < length (meetings_of st day)
    \<and> m = meetings_of st day ! unat i \<and> amount_staked m \<noteq> 0 \<and> mt_end_time m < seconds (time (env_block ev))
    \<and> paid_out (cal_denom config) out = unat (amount_staked m)
    \<and> list_all (pays_only ({requester m} \<union> set_option (ap_account st))) out
    \<and> meetings_of st' = (meetings_of st)(day := (meetings_of st day)[unat i := m\<lparr>amount_staked := 0\<rparr>])"
  using assms(2)
proof (rule handle_stake_Ok)
  fix config ms msgs
  assume "calendar_cfg st = Some config" "load (calendar st) day = Some ms" "unat i < length ms"
    "mt_end_time (ms ! unat i) < seconds (time (env_block ev))" "amount_staked (ms ! unat i) \<noteq> 0"
    "stake_messages sl (app_ans_host ch st) st config (ms ! unat i) act = Ok msgs" "out = map Direct msgs"
    "st' = st\<lparr>calendar := save day (ms[unat i := (ms ! unat i)\<lparr>amount_staked := 0\<rparr>]) (calendar st)\<rparr>"
  then show ?thesis
    using stake_messages_paid [OF assms(1), of "app_ans_host ch st" st config "ms ! unat i" act msgs "cal_denom config"]
    by (simp add: meetings_of_load)
qed

section \<open>Histories\<close>

inductive calendar_step :: "u256 sdk_lib \<Rightarrow> chrono_lib \<Rightarrow> calendar_state \<Rightarrow> calendar_state \<Rightarrow> bool" for sl cr where
  "calendar_execute sl cr ch ev info st msg = Ok (st', out) \<Longrightarrow> calendar_step sl cr st st'"

inductive_cases calendar_stepE: "calendar_step sl cr st st'"

text \<open>What a call does to the meetings: nothing, one more meeting, or one stake set to zero.\<close>

lemma request_meeting_Ok:
  assumes "request_meeting sl cr ev info st t u = Ok (st', out)"
  obtains config z s e new where "calendar_cfg st = Some config" and "east_opt cr (utc_offset config) = Some z"
    and "timestamp_opt cr z t = Some s" and "timestamp_opt cr z u = Some e"
    and "meeting_new cr config (env_block ev) s e (info_sender info) (amount_staked new) = Ok new"
    and "sl_must_pay sl (info_funds info) (cal_denom config) = Ok (amount_staked new)"
    and "mul_u256 (of_nat (num_minutes_between (dt_time s) (dt_time e))) (price_per_minute config)
       = (Ok (amount_staked new) :: u256 cal_result)"
    and "\<not> list_ex (conflicts new) (meetings_of st (utc_midnight cr (dt_date s)))" and "out = []"
    and "st' = st\<lparr>calendar := save (utc_midnight cr (dt_date s))
        (meetings_of st (utc_midnight cr (dt_date s)) @ [new]) (calendar st)\<rparr>"
proof -
  from assms obtain config n z s e new where 1: "calendar_cfg st = Some config" "east_opt cr (utc_offset config) = Some z"
    "timestamp_opt cr z t = Some s" "timestamp_opt cr z u = Some e"
    "meeting_new cr config (env_block ev) s e (info_sender info) n = Ok new"
    "sl_must_pay sl (info_funds info) (cal_denom config) = Ok n"
    "mul_u256 (of_nat (num_minutes_between (dt_time s) (dt_time e))) (price_per_minute config) = (Ok n :: u256 cal_result)"
    "\<not> list_ex (conflicts new) (meetings_of st (utc_midnight cr (dt_date s)))" "out = []"
    "st' = st\<lparr>calendar := save (utc_midnight cr (dt_date s))
        (meetings_of st (utc_midnight cr (dt_date s)) @ [new]) (calendar st)\<rparr>"
    unfolding request_meeting_def load_config_cal_def get_date_time_def and_then_Ok Let_def
    by (auto simp: result_simps split: if_splits)
  from 1(5) have "amount_staked new = n"
    by (auto simp: meeting_new_def result_simps Let_def split: if_splits)
  with 1 show thesis by (intro that [OF 1(1-4)]) simp_all
qed

lemma update_config_meetings:
  "calendar_update_config sl ch ev info st p d = Ok (st', out) \<Longrightarrow> calendar st' = calendar st \<and> out = []"
  by (auto simp: calendar_update_config_def result_simps Let_def split: option.splits)

text \<open>The effect of any call on the meetings of the days.\<close>

lemma calendar_execute_meetings:
  assumes "calendar_execute sl cr ch ev info st msg = Ok (st', out)"
  shows "calendar st' = calendar st
    \<or> (\<exists>day new. st' = st\<lparr>calendar := save day (meetings_of st day @ [new]) (calendar st)\<rparr>)
    \<or> (\<exists>day i. i < length (meetings_of st day)
        \<and> st' = st\<lparr>calendar := save day ((meetings_of st day)[i := (meetings_of st day ! i)\<lparr>amount_staked := 0\<rparr>]) (calendar st)\<rparr>)"
proof -
  have stake: "\<exists>day i. i < length (meetings_of st day)
      \<and> st' = st\<lparr>calendar := save day ((meetings_of st day)[i := (meetings_of st day ! i)\<lparr>amount_staked := 0\<rparr>]) (calendar st)\<rparr>"
    if "handle_stake sl ch ev info st day i act = Ok (st', out)" for day i act
    using that by (rule handle_stake_Ok) (auto simp: meetings_of_load intro!: exI [of _ day])
  show ?thesis
  proof (cases msg)
    case (RequestMeeting t u)
    with assms have "request_meeting sl cr ev info st t u = Ok (st', out)" by simp
    then show ?thesis by (rule request_meeting_Ok) blast
  qed (use assms stake update_config_meetings in \<open>force+\<close>)
qed

definition settled :: "calendar_state \<Rightarrow> int \<Rightarrow> nat \<Rightarrow> bool" where
  "settled st day i \<longleftrightarrow> i < length (meetings_of st day) \<and> amount_staked (meetings_of st day ! i) = 0"

lemma settled_step: "calendar_step sl cr st st' \<Longrightarrow> settled st day i \<Longrightarrow> settled st' day i"
  by (erule calendar_stepE, drule calendar_execute_meetings)
    (auto simp: settled_def meetings_of_def [of st'] meetings_of_def [of st] nth_append nth_list_update
      split: if_splits)

text \<open>
  C24: a stake is settled once: whatever happens after a meeting has been settled, settling it again fails.
\<close>

theorem stake_settled_once:
  assumes "handle_stake sl ch ev info st day i act = Ok (st', out)" and "(calendar_step sl cr)\<^sup>*\<^sup>* st' st''"
  shows "\<not> is_ok (handle_stake sl ch' ev' info' st'' day i act')"
proof -
  from assms(1) have "settled st' day (unat i)"
    by (rule handle_stake_Ok) (simp add: settled_def)
  with assms(2) have "settled st'' day (unat i)"
    by (induction rule: rtranclp_induct) (auto intro: settled_step)
  then show ?thesis
    unfolding is_ok_iff by (auto simp: settled_def meetings_of_load elim!: handle_stake_Ok)
qed

section \<open>What the app holds\<close>

definition day_stakes :: "meeting list \<Rightarrow> nat" where
  "day_stakes ms = (\<Sum>m\<leftarrow>ms. unat (amount_staked m))"

definition open_stakes :: "calendar_state \<Rightarrow> nat" where
  "open_stakes st = (\<Sum>(day, ms)\<leftarrow>calendar st. day_stakes ms)"

lemma open_stakes_save:
  assumes "ordered (calendar st)"
  shows "open_stakes (st\<lparr>calendar := save day ms (calendar st)\<rparr>) + day_stakes (meetings_of st day) = open_stakes st + day_stakes ms"
  using sum_save [OF assms, where k = day and v = ms and f = day_stakes]
  by (simp add: open_stakes_def meetings_of_def day_stakes_def split: option.splits)

lemma day_stakes_append [simp]: "day_stakes (ms @ [m]) = day_stakes ms + unat (amount_staked m)"
  by (simp add: day_stakes_def)

lemma day_stakes_update:
  "i < length ms \<Longrightarrow> day_stakes (ms[i := (ms ! i)\<lparr>amount_staked := 0\<rparr>]) + unat (amount_staked (ms ! i)) = day_stakes ms"
  by (induction ms arbitrary: i) (auto simp: day_stakes_def split: nat.splits)

text \<open>
  The balance of the app in its currency, over calls that keep the currency: what is sent with a call comes in, what
  its messages pay goes out.
\<close>

type_synonym ledger = "calendar_state \<times> nat"

definition keeps_denom :: "calendar_execute_msg \<Rightarrow> bool" where
  "keeps_denom msg \<longleftrightarrow> (\<forall>p d. msg \<noteq> CalUpdateConfig p (Some d))"

inductive ledger_start :: "u256 sdk_lib \<Rightarrow> string \<Rightarrow> ledger \<Rightarrow> bool" for sl d where
  "calendar st0 = [] \<Longrightarrow> calendar_instantiate sl ch ev info st0 msg = Ok (st, out) \<Longrightarrow>
     map_option cal_denom (calendar_cfg st) = Some d \<Longrightarrow> ledger_start sl d (st, n)"

inductive ledger_step :: "u256 sdk_lib \<Rightarrow> chrono_lib \<Rightarrow> string \<Rightarrow> ledger \<Rightarrow> ledger \<Rightarrow> bool" for sl cr d where
  "calendar_execute sl cr ch ev info st msg = Ok (st', out) \<Longrightarrow> keeps_denom msg \<Longrightarrow>
     ledger_step sl cr d (st, n) (st', n + total_of d (info_funds info) - paid_out d out)"

inductive_cases ledger_startE: "ledger_start sl d s"
inductive_cases ledger_stepE: "ledger_step sl cr d s s'"

definition ledger_ok :: "string \<Rightarrow> ledger \<Rightarrow> bool" where
  "ledger_ok d s \<longleftrightarrow> ordered (calendar (fst s)) \<and> map_option cal_denom (calendar_cfg (fst s)) = Some d
     \<and> open_stakes (fst s) \<le> snd s"

lemma ledger_ok_start: "ledger_start sl d s \<Longrightarrow> ledger_ok d s"
  by (erule ledger_startE)
    (auto simp: ledger_ok_def open_stakes_def calendar_instantiate_def result_simps split: if_splits)

lemma handle_stake_ledger:
  assumes laws: "bank_laws sl" and "handle_stake sl ch ev info st day i act = Ok (st', out)" and ok: "ledger_ok d (st, n)"
  shows "ledger_ok d (st', n + x - paid_out d out)"
  using assms(2)
proof (rule handle_stake_Ok)
  fix config msgs and ms :: "meeting list"
  let ?m = "ms ! unat i"
  assume st: "calendar_cfg st = Some config" "load (calendar st) day = Some ms" "unat i < length ms"
    and msgs: "stake_messages sl (app_ans_host ch st) st config ?m act = Ok msgs" "out = map Direct msgs"
    and st': "st' = st\<lparr>calendar := save day (ms[unat i := ?m\<lparr>amount_staked := 0\<rparr>]) (calendar st)\<rparr>"
  from ok have "ordered (calendar st)" "cal_denom config = d" "open_stakes st \<le> n" using st by (auto simp: ledger_ok_def)
  moreover from stake_messages_paid [OF laws msgs(1), of d] this(2) have "paid_out d out = unat (amount_staked ?m)"
    by (simp add: msgs(2))
  moreover from open_stakes_save [OF \<open>ordered (calendar st)\<close>, of day "ms[unat i := ?m\<lparr>amount_staked := 0\<rparr>]"]
  have "open_stakes st' + unat (amount_staked ?m) = open_stakes st"
    using day_stakes_update [OF st(3)] st(2) by (simp add: st' meetings_of_load)
  ultimately show ?thesis using st by (simp add: ledger_ok_def st' ordered_save)
qed

lemma request_meeting_ledger:
  assumes laws: "bank_laws sl" and "request_meeting sl cr ev info st t u = Ok (st', out)" and ok: "ledger_ok d (st, n)"
  shows "ledger_ok d (st', n + total_of d (info_funds info) - paid_out d out)"
  using assms(2)
proof (rule request_meeting_Ok)
  fix config z s e new
  let ?day = "utc_midnight cr (dt_date s)"
  assume st: "calendar_cfg st = Some config" and pay: "sl_must_pay sl (info_funds info) (cal_denom config) = Ok (amount_staked new)"
    and st': "out = []" "st' = st\<lparr>calendar := save ?day (meetings_of st ?day @ [new]) (calendar st)\<rparr>"
  from ok st have d: "cal_denom config = d" "ordered (calendar st)" "open_stakes st \<le> n" by (auto simp: ledger_ok_def)
  from must_payD [OF laws pay] d(1) have "total_of d (info_funds info) = unat (amount_staked new)" by simp
  moreover from open_stakes_save [OF d(2), of ?day "meetings_of st ?day @ [new]"]
  have "open_stakes st' = open_stakes st + unat (amount_staked new)" by (simp add: st')
  ultimately show ?thesis using d st by (simp add: ledger_ok_def st' ordered_save paid_out_def)
qed

lemma ledger_ok_step:
  assumes "bank_laws sl" and "ledger_step sl cr d s s'" and ok: "ledger_ok d s"
  shows "ledger_ok d s'"
  using assms(2)
proof (rule ledger_stepE)
  fix ch ev info st msg st' out n
  assume s: "s = (st, n)" "s' = (st', n + total_of d (info_funds info) - paid_out d out)"
    and run: "calendar_execute sl cr ch ev info st msg = Ok (st', out)" and keep: "keeps_denom msg"
  show ?thesis
  proof (cases msg)
    case (RequestMeeting t u)
    with run ok show ?thesis by (simp add: s request_meeting_ledger [OF assms(1)])
  next
    case (CalUpdateConfig p e)
    with keep have e: "e = None" by (auto simp: keeps_denom_def)
    with run CalUpdateConfig ok show ?thesis
      by (auto simp: s ledger_ok_def calendar_update_config_def load_config_cal_def result_simps Let_def open_stakes_def
          paid_out_def split: option.splits)
  qed (use run ok in \<open>simp_all add: s handle_stake_ledger [OF assms(1)]\<close>)
qed

text \<open>
  C25: as long as its currency is not changed, the app can always pay what it owes: in every history the balance in
  its currency covers the sum of the open stakes.
\<close>

theorem calendar_solvent:
  assumes "bank_laws sl" and "reachable (ledger_start sl d) (ledger_step sl cr d) (st, n)"
  shows "open_stakes st \<le> n"
proof -
  have "invariant (ledger_start sl d) (ledger_step sl cr d) (ledger_ok d)"
    using assms(1) by unfold_locales (auto intro: ledger_ok_start ledger_ok_step)
  from invariant.holds [OF this assms(2)] show ?thesis by (simp add: ledger_ok_def)
qed

section \<open>The meetings of a day\<close>

text \<open>The documented behaviour of \<open>chrono\<close>: local time is the timestamp moved by the offset.\<close>

definition chrono_laws :: "chrono_lib \<Rightarrow> bool" where
  "chrono_laws cr \<longleftrightarrow> (\<forall>o1 z. east_opt cr o1 = Some z \<longrightarrow> z = o1)
     \<and> (\<forall>z t dt. timestamp_opt cr z t = Some dt \<longrightarrow> dt = \<lparr>dt_timestamp = t, dt_date = (t + z) div 86400,
          dt_time = \<lparr>nt_seconds = nat ((t + z) mod 86400), nt_nanos = 0\<rparr>\<rparr>)
     \<and> (\<forall>h m t. from_hms_opt cr h m = Some t \<longrightarrow> t = \<lparr>nt_seconds = unat h * 3600 + unat m * 60, nt_nanos = 0\<rparr>)
     \<and> (\<forall>d. utc_midnight cr d = d * 86400)"

definition clock_seconds :: "clock_time \<Rightarrow> int" where
  "clock_seconds t = int (unat (t_hour t)) * 3600 + int (unat (t_minute t)) * 60"

text \<open>A meeting of the day that starts at local second \<open>day\<close>, on full minutes and within the hours of the calendar.\<close>

definition meeting_ok :: "calendar_config \<Rightarrow> int \<Rightarrow> meeting \<Rightarrow> bool" where
  "meeting_ok config day m \<longleftrightarrow>
     (let s = mt_start_time m + utc_offset config; e = mt_end_time m + utc_offset config
      in s < e \<and> day \<le> s \<and> e < day + 86400 \<and> s mod 60 = 0 \<and> e mod 60 = 0
         \<and> day + clock_seconds (cal_start_time config) \<le> s \<and> e \<le> day + clock_seconds (cal_end_time config))"

lemma local_time:
  fixes x :: int
  shows "x = x div 86400 * 86400 + int (nat (x mod 86400))" and "nat (x mod 86400) mod 60 = 0 \<longleftrightarrow> x mod 60 = 0"
    and "int (nat (x mod 86400)) < 86400"
proof -
  have nn: "0 \<le> x mod 86400" "x mod 86400 < 86400" by simp_all
  then show 1: "x = x div 86400 * 86400 + int (nat (x mod 86400))" by simp
  have "int (nat (x mod 86400) mod 60) = x mod 86400 mod 60" using nn by (simp add: zmod_int)
  also have "x mod 86400 mod 60 = x mod 60" by (rule mod_mod_cancel) simp
  finally show "nat (x mod 86400) mod 60 = 0 \<longleftrightarrow> x mod 60 = 0" by linarith
  show "int (nat (x mod 86400)) < 86400" using nn by simp
qed

lemma meeting_new_Ok:
  assumes "meeting_new cr config block s e guest n = Ok new"
  obtains cs ce where "from_hms_opt cr (t_hour (cal_start_time config)) (t_minute (cal_start_time config)) = Some cs"
    and "from_hms_opt cr (t_hour (cal_end_time config)) (t_minute (cal_end_time config)) = Some ce"
    and "dt_date s = dt_date e" and "nt_seconds (dt_time s) mod 60 = 0" and "nt_seconds (dt_time e) mod 60 = 0"
    and "nt_nanos (dt_time s) = 0" and "nt_nanos (dt_time e) = 0"
    and "nt_seconds (dt_time s) < nt_seconds (dt_time e)" and "nt_seconds cs \<le> nt_seconds (dt_time s)"
    and "nt_seconds (dt_time e) \<le> nt_seconds ce"
    and "mt_start_time new = dt_timestamp s" and "mt_end_time new = dt_timestamp e"
  using assms unfolding meeting_new_def time_into_def Let_def and_then_Ok unwrap_Ok
  by (auto simp: time_less_def split: if_splits)

lemma chrono_date:
  assumes "chrono_laws cr" and "timestamp_opt cr z t = Some dt"
  shows "dt_timestamp dt = t" and "dt_date dt = (t + z) div 86400" and "nt_seconds (dt_time dt) = nat ((t + z) mod 86400)"
proof -
  from assms have "dt = \<lparr>dt_timestamp = t, dt_date = (t + z) div 86400,
      dt_time = \<lparr>nt_seconds = nat ((t + z) mod 86400), nt_nanos = 0\<rparr>\<rparr>" unfolding chrono_laws_def by blast
  then show "dt_timestamp dt = t" "dt_date dt = (t + z) div 86400" "nt_seconds (dt_time dt) = nat ((t + z) mod 86400)"
    by (simp_all only: date_time.simps naive_time.simps)
qed

lemma chrono_clock:
  assumes "chrono_laws cr" and "from_hms_opt cr (t_hour c) (t_minute c) = Some t"
  shows "clock_seconds c = int (nt_seconds t)"
proof -
  from assms have "t = \<lparr>nt_seconds = unat (t_hour c) * 3600 + unat (t_minute c) * 60, nt_nanos = 0\<rparr>"
    unfolding chrono_laws_def by blast
  then show ?thesis by (simp add: clock_seconds_def)
qed

lemma meeting_new_ok:
  assumes laws: "chrono_laws cr" and z: "east_opt cr (utc_offset config) = Some z"
    and s: "timestamp_opt cr z t = Some s" and e: "timestamp_opt cr z u = Some e"
    and new: "meeting_new cr config block s e guest n = Ok new"
  shows "meeting_ok config (utc_midnight cr (dt_date s)) new"
  using new
proof (rule meeting_new_Ok)
  fix cs ce
  let ?x = "t + utc_offset config" and ?y = "u + utc_offset config"
  assume hms: "from_hms_opt cr (t_hour (cal_start_time config)) (t_minute (cal_start_time config)) = Some cs"
      "from_hms_opt cr (t_hour (cal_end_time config)) (t_minute (cal_end_time config)) = Some ce"
    and new': "dt_date s = dt_date e" "nt_seconds (dt_time s) mod 60 = 0" "nt_seconds (dt_time e) mod 60 = 0"
      "nt_seconds (dt_time s) < nt_seconds (dt_time e)" "nt_seconds cs \<le> nt_seconds (dt_time s)"
      "nt_seconds (dt_time e) \<le> nt_seconds ce" "mt_start_time new = dt_timestamp s" "mt_end_time new = dt_timestamp e"
  from laws z have z': "z = utc_offset config" unfolding chrono_laws_def by blast
  note dt = chrono_date [OF laws s, unfolded z'] chrono_date [OF laws e, unfolded z']
  note clock = chrono_clock [OF laws hms(1)] chrono_clock [OF laws hms(2)]
  from laws have mid: "utc_midnight cr (dt_date s) = ?x div 86400 * 86400" unfolding chrono_laws_def dt by blast
  note x = local_time [of ?x] and y = local_time [of ?y]
  have "?x mod 60 = 0" using new'(2) x(2) by (simp only: dt)
  moreover have "?y mod 60 = 0" using new'(3) y(2) by (simp only: dt)
  moreover have day: "?x div 86400 = ?y div 86400" and lt: "nat (?x mod 86400) < nat (?y mod 86400)"
    and lo: "nt_seconds cs \<le> nat (?x mod 86400)" and hi: "nat (?y mod 86400) \<le> nt_seconds ce"
    using new'(1,4-6) by (simp_all only: dt)
  have "?x < ?y" "?x div 86400 * 86400 \<le> ?x" "?y < ?x div 86400 * 86400 + 86400"
    "?x div 86400 * 86400 + int (nt_seconds cs) \<le> ?x" "?y \<le> ?x div 86400 * 86400 + int (nt_seconds ce)"
    using x(1,3) y(1,3) day lt lo hi by linarith+
  ultimately show ?thesis unfolding meeting_ok_def Let_def mid clock new'(7,8) dt(1,4) by blast
qed

text \<open>The times of the meetings in the order they were booked: a later one that overlaps an earlier one encloses it.\<close>

definition booked_after :: "int \<times> int \<Rightarrow> int \<times> int \<Rightarrow> bool" where
  "booked_after m new \<longleftrightarrow> (fst m < snd new \<and> fst new < snd m \<longrightarrow> fst new < fst m \<and> snd m < snd new)"

definition meeting_times :: "calendar_state \<Rightarrow> int \<Rightarrow> (int \<times> int) list" where
  "meeting_times st day = map (\<lambda>m. (mt_start_time m, mt_end_time m)) (meetings_of st day)"

definition calendar_ok :: "calendar_state \<Rightarrow> bool" where
  "calendar_ok st \<longleftrightarrow> (\<exists>config. calendar_cfg st = Some config
     \<and> (\<forall>day. list_all (meeting_ok config day) (meetings_of st day) \<and> sorted_wrt booked_after (meeting_times st day)))"

inductive calendar_start :: "u256 sdk_lib \<Rightarrow> calendar_state \<Rightarrow> bool" for sl where
  "calendar st0 = [] \<Longrightarrow> calendar_instantiate sl ch ev info st0 msg = Ok (st, out) \<Longrightarrow> calendar_start sl st"

inductive_cases calendar_startE: "calendar_start sl st"

lemma calendar_ok_start: "calendar_start sl st \<Longrightarrow> calendar_ok st"
  by (erule calendar_startE)
    (auto simp: calendar_ok_def meeting_times_def meetings_of_def calendar_instantiate_def result_simps split: if_splits)

lemma no_conflict_booked:
  assumes "\<not> conflicts new m" and "mt_start_time new < mt_end_time new" and "mt_start_time m < mt_end_time m"
  shows "booked_after (mt_start_time m, mt_end_time m) (mt_start_time new, mt_end_time new)"
  using assms by (auto simp: conflicts_def booked_after_def)

lemma meeting_ok_less: "meeting_ok config day m \<Longrightarrow> mt_start_time m < mt_end_time m"
  by (simp add: meeting_ok_def Let_def)

lemma meeting_ok_stake [simp]: "meeting_ok config day (m\<lparr>amount_staked := n\<rparr>) = meeting_ok config day m"
  by (simp add: meeting_ok_def)

lemma meeting_ok_config [simp]:
  "meeting_ok (config\<lparr>price_per_minute := p\<rparr>) = meeting_ok config" "meeting_ok (config\<lparr>cal_denom := d\<rparr>) = meeting_ok config"
  by (simp_all add: meeting_ok_def fun_eq_iff)

lemma request_meeting_calendar:
  assumes laws: "chrono_laws cr" and "request_meeting sl cr ev info st t u = Ok (st', out)" and ok: "calendar_ok st"
  shows "calendar_ok st'"
  using assms(2)
proof (rule request_meeting_Ok)
  fix config z new and s e :: date_time
  let ?day = "utc_midnight cr (dt_date s)"
  assume st: "calendar_cfg st = Some config" and dt: "east_opt cr (utc_offset config) = Some z"
      "timestamp_opt cr z t = Some s" "timestamp_opt cr z u = Some e"
    and new: "meeting_new cr config (env_block ev) s e (info_sender info) (amount_staked new) = Ok new"
    and free: "\<not> list_ex (conflicts new) (meetings_of st ?day)"
    and st': "st' = st\<lparr>calendar := save ?day (meetings_of st ?day @ [new]) (calendar st)\<rparr>"
  have new_ok: "meeting_ok config ?day new" by (rule meeting_new_ok [OF laws dt new])
  from ok st have days: "list_all (meeting_ok config day) (meetings_of st day)" "sorted_wrt booked_after (meeting_times st day)" for day
    by (auto simp: calendar_ok_def)
  have "booked_after (mt_start_time m, mt_end_time m) (mt_start_time new, mt_end_time new)" if "m \<in> set (meetings_of st ?day)" for m
    using that free days(1) [of ?day] new_ok
    by (intro no_conflict_booked) (auto simp: list_ex_iff list_all_iff dest: meeting_ok_less)
  then have "sorted_wrt booked_after (meeting_times st' ?day)"
    using days(2) [of ?day] by (auto simp: meeting_times_def sorted_wrt_append st')
  then show ?thesis using days new_ok st
    by (auto simp: calendar_ok_def st' meeting_times_def)
qed

lemma calendar_ok_step:
  assumes "chrono_laws cr" and "calendar_step sl cr st st'" and ok: "calendar_ok st"
  shows "calendar_ok st'"
  using assms(2)
proof (rule calendar_stepE)
  fix ch ev info msg out
  assume run: "calendar_execute sl cr ch ev info st msg = Ok (st', out)"
  have stake: "calendar_ok st'" if "handle_stake sl ch ev info st day i act = Ok (st', out)" for day i act
    using that
  proof (rule handle_stake_Ok)
    fix config msgs and ms :: "meeting list"
    assume "load (calendar st) day = Some ms" "unat i < length ms"
      and st': "st' = st\<lparr>calendar := save day (ms[unat i := (ms ! unat i)\<lparr>amount_staked := 0\<rparr>]) (calendar st)\<rparr>"
    then have times: "meeting_times st' = meeting_times st"
      by (auto simp: meeting_times_def fun_eq_iff map_update meetings_of_load list_update_same_conv)
    moreover have "list_all (meeting_ok config day') (meetings_of st' day') = list_all (meeting_ok config day') (meetings_of st day')"
      for config day'
      using \<open>load (calendar st) day = Some ms\<close> \<open>unat i < length ms\<close>
      by (auto simp: st' meetings_of_load list_all_length nth_list_update)
    moreover have "calendar_cfg st' = calendar_cfg st" by (simp add: st')
    ultimately show ?thesis using ok by (simp add: calendar_ok_def)
  qed
  show ?thesis
  proof (cases msg)
    case (CalUpdateConfig p d)
    with run ok show ?thesis
      by (auto simp: calendar_update_config_def load_config_cal_def calendar_ok_def result_simps Let_def meeting_times_def
          meetings_of_def split: option.splits)
  qed (use run stake ok request_meeting_calendar [OF assms(1)] in auto)
qed

lemma calendar_ok_reachable:
  assumes "chrono_laws cr" and "reachable (calendar_start sl) (calendar_step sl cr) st"
  shows "calendar_ok st"
proof -
  have "invariant (calendar_start sl) (calendar_step sl cr) calendar_ok"
    using assms(1) by unfold_locales (auto intro: calendar_ok_start calendar_ok_step)
  from invariant.holds [OF this assms(2)] show ?thesis .
qed

text \<open>
  every stored meeting starts before it ends, lies on the local day it is stored under, begins and ends on a full
  minute, and keeps to the hours of the calendar; only bookings overlap where the later one starts before and ends after
  the earlier one.
\<close>

theorem calendar_meetings_ok:
  assumes "chrono_laws cr" and "reachable (calendar_start sl) (calendar_step sl cr) st"
    and "calendar_cfg st = Some config" and "i < j" and "j < length (meetings_of st day)"
  shows "meeting_ok config day (meetings_of st day ! i) \<and> meeting_ok config day (meetings_of st day ! j)
    \<and> booked_after (meeting_times st day ! i) (meeting_times st day ! j)"
  using calendar_ok_reachable [OF assms(1,2)] assms(3-5)
  by (auto simp: calendar_ok_def list_all_length meeting_times_def sorted_wrt_iff_nth_less)

section \<open>A calendar\<close>

text \<open>\<open>chrono\<close> by division with remainder, the calendar of \<open>acct\<close> from 9 to 17 o'clock in UTC, at one unit per minute.\<close>

definition std_chrono :: chrono_lib where
  "std_chrono = \<lparr>east_opt = (\<lambda>z. if - 86400 < z \<and> z < 86400 then Some z else None),
     timestamp_opt = (\<lambda>z t. Some \<lparr>dt_timestamp = t, dt_date = (t + z) div 86400,
       dt_time = \<lparr>nt_seconds = nat ((t + z) mod 86400), nt_nanos = 0\<rparr>\<rparr>),
     from_hms_opt = (\<lambda>h m. if h < 24 \<and> m < 60 then Some \<lparr>nt_seconds = unat h * 3600 + unat m * 60, nt_nanos = 0\<rparr> else None),
     utc_midnight = (\<lambda>d. d * 86400)\<rparr>"

lemma std_chrono_laws: "chrono_laws std_chrono"
  by (simp add: chrono_laws_def std_chrono_def)

definition cal_lib :: "u256 sdk_lib" where
  "cal_lib = bank_lib (empty_ans\<lparr>asset_addresses := [(''usd'', ''nuusd'')]\<rparr>)"

definition office_hours :: calendar_config where
  "office_hours = \<lparr>price_per_minute = 1, cal_denom = ''uusd'', utc_offset = 0,
     cal_start_time = \<lparr>t_hour = 9, t_minute = 0\<rparr>, cal_end_time = \<lparr>t_hour = 17, t_minute = 0\<rparr>\<rparr>"

definition acct_calendar :: "(int, meeting list) store \<Rightarrow> calendar_state" where
  "acct_calendar ms = \<lparr>ap_cw2 = None, ap_module_data = None, ap_account = Some ''acct'', ap_admin = Some (Some ''acct''),
     calendar_cfg = Some office_hours, calendar = ms\<rparr>"

definition guest_pays :: "u256 \<Rightarrow> message_info" where
  "guest_pays n = \<lparr>info_sender = ''guest'', info_funds = [\<lparr>denom = ''uusd'', amount = n\<rparr>]\<rparr>"

definition at_second :: "u64 \<Rightarrow> env" where
  "at_second t = \<lparr>env_contract = ''cal'', env_block = at_time (t * 10 ^ 9)\<rparr>"

definition booking :: "int \<Rightarrow> int \<Rightarrow> u256 \<Rightarrow> meeting" where
  "booking s e n = \<lparr>mt_start_time = s * 3600, mt_end_time = e * 3600, requester = ''guest'', amount_staked = n\<rparr>"

lemmas calendar_defs = std_chrono_def cal_lib_def bank_lib_def office_hours_def acct_calendar_def guest_pays_def
  at_second_def booking_def at_time_def

lemma acct_calendar_start: "calendar_start cal_lib (acct_calendar [])"
proof (rule calendar_start.intros)
  let ?msg = "\<lparr>cim_price_per_minute = 1, cim_denom = ''usd'', cim_utc_offset = 0,
     cim_start_time = \<lparr>t_hour = 9, t_minute = 0\<rparr>, cim_end_time = \<lparr>t_hour = 17, t_minute = 0\<rparr>\<rparr>"
  have "app_ans_host admin_chain ((acct_calendar [])\<lparr>calendar_cfg := None\<rparr>) = Ok ''ans''"
    by (simp add: app_ans_host_def app_code_def acct_calendar_def abstract_code_id_def admin_chain_def ans_host_new_def
        code_defs paid_chain_def sample_chain_def)
  then show "calendar_instantiate cal_lib admin_chain (at_second 0) king_info ((acct_calendar [])\<lparr>calendar_cfg := None\<rparr>) ?msg
      = Ok (acct_calendar [], [])"
    by (simp add: calendar_instantiate_def resolve_native_ans_denom_def calendar_defs query_asset_def ans_raw_def
        time_validate_def load_def)
qed (simp add: acct_calendar_def)

lemma request_booking:
  "request_meeting cal_lib std_chrono (at_second 0) (guest_pays 60) (acct_calendar []) 36000 39600
     = Ok (acct_calendar [(0, [booking 10 11 60])], [])"
  by (simp add: request_meeting_def calendar_defs load_config_cal_def get_date_time_def meeting_new_def time_into_def
      seconds_def time_less_def num_minutes_between_def mul_u256_def meetings_of_def load_def Let_def)

text \<open>A meeting that begins before and ends after a booked one passes the check for conflicts.\<close>

lemma enclosing_meeting_accepted:
  "request_meeting cal_lib std_chrono (at_second 0) (guest_pays 180) (acct_calendar [(0, [booking 10 11 60])]) 32400 43200
     = Ok (acct_calendar [(0, [booking 10 11 60, booking 9 12 180])], [])"
  by (simp add: request_meeting_def calendar_defs load_config_cal_def get_date_time_def meeting_new_def time_into_def
      seconds_def time_less_def num_minutes_between_def mul_u256_def meetings_of_def conflicts_def load_def Let_def)

lemma booked_reachable:
  "reachable (calendar_start cal_lib) (calendar_step cal_lib std_chrono) (acct_calendar [(0, [booking 10 11 60, booking 9 12 180])])"
proof (rule reach_step)
  show "reachable (calendar_start cal_lib) (calendar_step cal_lib std_chrono) (acct_calendar [(0, [booking 10 11 60])])"
  proof (rule reach_step)
    show "reachable (calendar_start cal_lib) (calendar_step cal_lib std_chrono) (acct_calendar [])"
      by (rule reach_start) (rule acct_calendar_start)
    show "calendar_step cal_lib std_chrono (acct_calendar []) (acct_calendar [(0, [booking 10 11 60])])"
      by (rule calendar_step.intros [where msg = "RequestMeeting 36000 39600" and ev = "at_second 0" and info = "guest_pays 60"]) (simp add: request_booking)
  qed
  show "calendar_step cal_lib std_chrono (acct_calendar [(0, [booking 10 11 60])])
      (acct_calendar [(0, [booking 10 11 60, booking 9 12 180])])"
    by (rule calendar_step.intros [where msg = "RequestMeeting 32400 43200" and ev = "at_second 0" and info = "guest_pays 180"]) (simp add: enclosing_meeting_accepted)
qed

theorem calendar_meetings_ok_witness:
  "meeting_ok office_hours 0 (booking 10 11 60) \<and> meeting_ok office_hours 0 (booking 9 12 180)
   \<and> booked_after (36000, 39600) (32400, 43200)"
  using calendar_meetings_ok [OF std_chrono_laws booked_reachable, of office_hours 0 1 0]
  by (simp add: acct_calendar_def meetings_of_def meeting_times_def load_def) (simp add: booking_def)

definition acct_admin :: message_info where
  "acct_admin = \<lparr>info_sender = ''acct'', info_funds = []\<rparr>"

lemma slash_half:
  "handle_stake cal_lib admin_chain (at_second 50000) acct_admin (acct_calendar [(0, [booking 10 11 60])]) 0 0 (PartialSlash 15)
     = Ok (acct_calendar [(0, [booking 10 11 0])],
         [Direct (BankSend ''guest'' [\<lparr>denom = ''uusd'', amount = 45\<rparr>]), Direct (BankSend ''acct'' [\<lparr>denom = ''uusd'', amount = 15\<rparr>])])"
proof -
  have "assert_admin admin_chain (Some (Some ''acct'')) (at_second 50000) ''acct'' = Ok ()"
    by (simp add: assert_admin_def is_admin_def is_admin_custom_def assert_account_calling_to_as_admin_is_self_def
        admin_chain_facts)
  moreover have "stake_messages cal_lib (app_ans_host admin_chain (acct_calendar [(0, [booking 10 11 60])]))
      (acct_calendar [(0, [booking 10 11 60])]) office_hours (booking 10 11 60) (PartialSlash 15)
    = Ok [BankSend ''guest'' [\<lparr>denom = ''uusd'', amount = 45\<rparr>], BankSend ''acct'' [\<lparr>denom = ''uusd'', amount = 15\<rparr>]]"
    by (simp add: stake_messages_def calendar_defs bank_deposit_def module_account_def transfer_msgs_def
        signed_divide_int_def checked_sub_def Let_def)
  ultimately show ?thesis
    by (simp add: handle_stake_def load_config_cal_def acct_calendar_def acct_admin_def load_def booking_def seconds_def
        at_second_def at_time_def Let_def)
qed

theorem stake_paid_in_full_witness:
  "paid_out ''uusd'' [Direct (BankSend ''guest'' [\<lparr>denom = ''uusd'', amount = 45\<rparr>]),
     Direct (BankSend ''acct'' [\<lparr>denom = ''uusd'', amount = 15\<rparr>])] = 60"
proof -
  have "bank_laws cal_lib" by (simp add: cal_lib_def bank_lib_laws)
  from stake_paid_in_full [OF this slash_half] show ?thesis
    by (auto simp: acct_calendar_def office_hours_def meetings_of_def load_def booking_def)
qed

theorem stake_settled_once_witness:
  "\<not> is_ok (handle_stake cal_lib admin_chain (at_second 60000) acct_admin (acct_calendar [(0, [booking 10 11 0])]) 0 0 Return)"
  by (rule stake_settled_once [OF slash_half rtranclp.rtrancl_refl])

theorem calendar_solvent_witness: "open_stakes (acct_calendar [(0, [booking 10 11 60])]) \<le> 60"
proof (rule calendar_solvent [where sl = cal_lib and d = "''uusd''" and cr = std_chrono])
  show "reachable (ledger_start cal_lib ''uusd'') (ledger_step cal_lib std_chrono ''uusd'') (acct_calendar [(0, [booking 10 11 60])], 60)"
  proof (rule reach_step)
    show "reachable (ledger_start cal_lib ''uusd'') (ledger_step cal_lib std_chrono ''uusd'') (acct_calendar [], 0)"
      using acct_calendar_start
      by (auto elim!: calendar_startE intro!: reach_start ledger_start.intros simp: acct_calendar_def office_hours_def)
    have "ledger_step cal_lib std_chrono ''uusd'' (acct_calendar [], 0)
        (acct_calendar [(0, [booking 10 11 60])], 0 + total_of ''uusd'' (info_funds (guest_pays 60)) - paid_out ''uusd'' [])"
      by (rule ledger_step.intros [where msg = "RequestMeeting 36000 39600" and ev = "at_second 0"]) (simp_all add: request_booking keeps_denom_def)
    then show "ledger_step cal_lib std_chrono ''uusd'' (acct_calendar [], 0) (acct_calendar [(0, [booking 10 11 60])], 60)"
      by (simp add: guest_pays_def paid_out_def)
  qed
qed (simp add: cal_lib_def bank_lib_laws)

end
