(* ===== verification/Challenge.thy ===== *)
theory Challenge
  imports Sdk_Apis
begin

text \<open>
  The challenge app (\<open>modules/contracts/apps/challenge\<close>): the owner of an account sets a challenge with
  friends who vote on whether the owner failed; when a vote passes, the account pays the friends. The votes are kept by the
  voting object of \<open>Voting\<close>, which the app embeds. Attributes of responses are left out.

  Amounts of the app are 128-bit integers; an amount in the name service has 256 bits.
\<close>

section \<open>Data (state.rs, msg.rs, error.rs)\<close>

definition MAX_AMOUNT_OF_FRIENDS :: nat where "MAX_AMOUNT_OF_FRIENDS = 20"

datatype strike_strategy = Split u128 | PerFriend u128

record admin_strikes =
  num_strikes :: u8
  strikes_limit :: u8

record challenge_entry =
  ce_name :: string
  strike_asset :: asset_entry
  strike_strategy :: strike_strategy
  ce_description :: string
  ce_admin_strikes :: admin_strikes
  proposal_duration_seconds :: u64
  ce_end_timestamp :: timestamp

text \<open>\<open>Friend::Addr(FriendByAddr { address, name })\<close> and \<open>Friend::AbstractAccount(id)\<close>, checked or not.\<close>

datatype friend = FriendAddr string string | FriendAccount account_id

datatype update_friends_op_kind = AddFriends | RemoveFriends

record challenge_request =
  cr_name :: string
  cr_strike_asset :: asset_entry
  cr_strike_strategy :: strike_strategy
  cr_description :: "string option"
  challenge_duration_seconds :: u64
  cr_proposal_duration_seconds :: u64
  cr_strikes_limit :: "u8 option"
  init_friends :: "friend list"

datatype challenge_error =
    ChAdmin admin_error
  | ChVoteError vote_error
  | ChValidationError validation_error
  | ChallengeNotFound
  | ZeroFriends
  | TooManyFriends
  | DuplicateFriends
  | FriendsEditDuringProposal timestamp
  | ChallengeExpired
  | ExpectedProposal

datatype challenge_execute_msg =
    ChUpdateConfig vote_config
  | CreateChallenge challenge_request
  | UpdateChallenge u64 "string option" "string option"
  | CancelChallenge u64
  | UpdateFriendsForChallenge u64 "friend list" update_friends_op_kind
  | CastVote u64 vote
  | CountVotes u64
  | Veto u64

record challenge_state = app_state +
  next_id :: "u64 option"
  simple_voting :: voting_state
  challenges :: "(u64, challenge_entry) store"
  challenge_friends :: "(u64, friend list) store"
  challenge_proposals :: "(u64 \<times> proposal_id, unit) store"

type_synonym 'a chl_result = "('a, challenge_error) module_result"
type_synonym chl_out = "challenge_state module_out"

definition admin_strikes_new :: "u8 option \<Rightarrow> admin_strikes" where
  "admin_strikes_new l = \<lparr>num_strikes = 0, strikes_limit = (case l of Some n \<Rightarrow> n | None \<Rightarrow> 1)\<rparr>"

definition strike :: "admin_strikes \<Rightarrow> (admin_strikes \<times> bool) chl_result" where
  "strike s =
     and_then (unwrap (checked_add (num_strikes s) 1)) (\<lambda>n. Ok (s\<lparr>num_strikes := n\<rparr>, n \<ge> strikes_limit s))"

definition challenge_entry_new :: "challenge_request \<Rightarrow> timestamp \<Rightarrow> challenge_entry chl_result" where
  "challenge_entry_new request end_ts =
     and_then (map_err (\<lambda>e. ModCustom (ChValidationError e)) (validate_name (cr_name request))) (\<lambda>_.
     and_then (map_err (\<lambda>e. ModCustom (ChValidationError e)) (validate_description (cr_description request))) (\<lambda>_.
     Ok \<lparr>ce_name = cr_name request, strike_asset = cr_strike_asset request, strike_strategy = cr_strike_strategy request,
         ce_description = (case cr_description request of Some d \<Rightarrow> d | None \<Rightarrow> []),
         ce_admin_strikes = admin_strikes_new (cr_strikes_limit request),
         proposal_duration_seconds = cr_proposal_duration_seconds request, ce_end_timestamp = end_ts\<rparr>))"

section \<open>Friends\<close>

definition account_of :: "chain \<Rightarrow> 'c app_state_scheme \<Rightarrow> account_id \<Rightarrow> (addr, 'e) module_result" where
  "account_of ch st i =
     map_err ModSdk (and_then (app_abstract_registry ch st) (\<lambda>registry. map_err SdkRegistry (registry_account ch registry i)))"

fun friend_check :: "chain \<Rightarrow> challenge_state \<Rightarrow> friend \<Rightarrow> (addr \<times> friend) chl_result" where
  "friend_check ch st (FriendAddr human name) =
     and_then (map_err ModSdk (app_abstract_registry ch st)) (\<lambda>_.
     and_then (map_err (\<lambda>e. ModSdk (SdkStd e)) (q_addr_validate ch human)) (\<lambda>checked. Ok (checked, FriendAddr checked name)))"
| "friend_check ch st (FriendAccount i) = and_then (account_of ch st i) (\<lambda>base. Ok (base, FriendAccount i))"

fun friend_addr :: "chain \<Rightarrow> challenge_state \<Rightarrow> friend \<Rightarrow> addr chl_result" where
  "friend_addr ch st (FriendAddr human name) = Ok human"
| "friend_addr ch st (FriendAccount i) = account_of ch st i"

section \<open>Handlers\<close>

definition challenge_instantiate :: "'n sdk_lib \<Rightarrow> challenge_state \<Rightarrow> vote_config \<Rightarrow> chl_out chl_result" where
  "challenge_instantiate sl st config =
     and_then (map_err (\<lambda>e. ModCustom (ChVoteError e)) (voting_instantiate (sl_math sl) (simple_voting st) config)) (\<lambda>v.
     Ok (st\<lparr>next_id := Some 0, simple_voting := v\<rparr>, []))"

definition assert_challenge_admin :: "chain \<Rightarrow> env \<Rightarrow> message_info \<Rightarrow> challenge_state \<Rightarrow> unit chl_result" where
  "assert_challenge_admin ch ev info st =
     map_err (\<lambda>e. ModCustom (ChAdmin e)) (assert_admin ch (ap_admin st) ev (info_sender info))"

definition last_proposal :: "challenge_state \<Rightarrow> u64 \<Rightarrow> proposal_id option" where
  "last_proposal st cid =
     (case entries_where (\<lambda>k. fst k = cid) (challenge_proposals st) of
        [] \<Rightarrow> None
      | es \<Rightarrow> Some (snd (fst (last es))))"

definition load_challenge :: "challenge_state \<Rightarrow> u64 \<Rightarrow> challenge_entry chl_result" where
  "load_challenge st cid = ok_or (ModStd (StdNotFound ''challenges'')) (load (challenges st) cid)"

definition load_friends :: "challenge_state \<Rightarrow> u64 \<Rightarrow> friend list chl_result" where
  "load_friends st cid = ok_or (ModStd (StdNotFound ''friends'')) (load (challenge_friends st) cid)"

definition vote_err :: "'a vote_result \<Rightarrow> 'a chl_result" where
  "vote_err r = map_err (\<lambda>e. ModCustom (ChVoteError e)) r"

definition create_challenge ::
  "'n sdk_lib \<Rightarrow> chain \<Rightarrow> env \<Rightarrow> message_info \<Rightarrow> challenge_state \<Rightarrow> challenge_request \<Rightarrow> chl_out chl_result" where
  "create_challenge sl ch ev info st req =
     and_then (assert_challenge_admin ch ev info st) (\<lambda>_.
     and_then (ensure (length (init_friends req) < MAX_AMOUNT_OF_FRIENDS) (ModCustom TooManyFriends)) (\<lambda>_.
     and_then (try_map (friend_check ch st) (init_friends req)) (\<lambda>friends_validated.
     if \<not> distinct (map fst friends_validated) then Err (ModCustom DuplicateFriends)
     else
     and_then (ok_or (ModStd (StdNotFound ''next_id'')) (next_id st)) (\<lambda>i.
     and_then (unwrap (checked_add i 1)) (\<lambda>cid.
     let st = st\<lparr>next_id := Some cid, challenge_friends := save cid (map snd friends_validated) (challenge_friends st)\<rparr>
     in and_then (unwrap (plus_seconds (sl_math sl) (time (env_block ev)) (challenge_duration_seconds req))) (\<lambda>end_ts.
        and_then (challenge_entry_new req end_ts) (\<lambda>entry.
        Ok (st\<lparr>challenges := save cid entry (challenges st)\<rparr>, [])))))))) "

definition update_challenge ::
  "chain \<Rightarrow> env \<Rightarrow> message_info \<Rightarrow> challenge_state \<Rightarrow> u64 \<Rightarrow> string option \<Rightarrow> string option \<Rightarrow> chl_out chl_result" where
  "update_challenge ch ev info st cid new_name new_description =
     and_then (assert_challenge_admin ch ev info st) (\<lambda>_.
     and_then (ok_or (ModCustom ChallengeNotFound) (load (challenges st) cid)) (\<lambda>entry.
     let entry = (case new_name of Some n \<Rightarrow> entry\<lparr>ce_name := n\<rparr> | None \<Rightarrow> entry);
         entry = (case new_description of Some d \<Rightarrow> entry\<lparr>ce_description := d\<rparr> | None \<Rightarrow> entry)
     in Ok (st\<lparr>challenges := save cid entry (challenges st)\<rparr>, [])))"

definition cancel_challenge ::
  "'n sdk_lib \<Rightarrow> chain \<Rightarrow> env \<Rightarrow> message_info \<Rightarrow> challenge_state \<Rightarrow> u64 \<Rightarrow> chl_out chl_result" where
  "cancel_challenge sl ch ev info st cid =
     and_then (assert_challenge_admin ch ev info st) (\<lambda>_.
     and_then (load_challenge st cid) (\<lambda>entry.
     if time (env_block ev) \<ge> ce_end_timestamp entry then Err (ModCustom ChallengeExpired)
     else
     and_then (case last_proposal st cid of
         Some pid \<Rightarrow> and_then (vote_err (cancel_proposal (sl_math sl) (simple_voting st) (env_block ev) pid)) (\<lambda>(v, _).
           Ok (st\<lparr>simple_voting := v\<rparr>))
       | None \<Rightarrow> Ok st) (\<lambda>st.
     let entry = entry\<lparr>ce_end_timestamp := time (env_block ev)\<rparr>
     in Ok (st\<lparr>challenges := save cid entry (challenges st)\<rparr>, []))))"

definition update_friends_for_challenge ::
  "'n sdk_lib \<Rightarrow> chain \<Rightarrow> env \<Rightarrow> message_info \<Rightarrow> challenge_state \<Rightarrow> u64 \<Rightarrow> friend list \<Rightarrow> update_friends_op_kind
   \<Rightarrow> chl_out chl_result" where
  "update_friends_for_challenge sl ch ev info st cid friends op_kind =
     and_then (assert_challenge_admin ch ev info st) (\<lambda>_.
     and_then (try_map (friend_check ch st) friends) (\<lambda>friends_validated.
     and_then (case last_proposal st cid of
         Some pid \<Rightarrow> and_then (vote_err (load_proposal (sl_math sl) (simple_voting st) (env_block ev) pid)) (\<lambda>i.
           ensure (\<not> time (env_block ev) < end_timestamp i) (ModCustom (FriendsEditDuringProposal (end_timestamp i))))
       | None \<Rightarrow> Ok ()) (\<lambda>_.
     case op_kind of
       AddFriends \<Rightarrow>
         and_then (ok_or (ModCustom ChallengeNotFound) (load (challenge_friends st) cid)) (\<lambda>current_friends.
         and_then (ensure (length friends_validated + length current_friends < MAX_AMOUNT_OF_FRIENDS)
           (ModCustom TooManyFriends)) (\<lambda>_.
         and_then (try_map (friend_addr ch st) current_friends) (\<lambda>current_friends_addrs.
         if \<not> distinct (current_friends_addrs @ map fst friends_validated) then Err (ModCustom DuplicateFriends)
         else Ok (st\<lparr>challenge_friends := save cid (current_friends @ map snd friends_validated) (challenge_friends st)\<rparr>, []))))
     | RemoveFriends \<Rightarrow>
         and_then (ok_or (ModCustom ZeroFriends) (load (challenge_friends st) cid)) (\<lambda>current_friends.
         let current_friends = fold (\<lambda>rem. filter (\<lambda>f. f \<noteq> rem)) (map snd friends_validated) current_friends
         in Ok (st\<lparr>challenge_friends := save cid current_friends (challenge_friends st)\<rparr>, [])))))"

definition open_proposal ::
  "'n sdk_lib \<Rightarrow> chain \<Rightarrow> env \<Rightarrow> challenge_state \<Rightarrow> u64 \<Rightarrow> challenge_entry \<Rightarrow> (challenge_state \<times> proposal_id) chl_result" where
  "open_proposal sl ch ev st cid entry =
     (if time (env_block ev) \<ge> ce_end_timestamp entry then Err (ModCustom ChallengeExpired)
      else
      and_then (load_friends st cid) (\<lambda>friends.
      and_then (try_map (friend_addr ch st) friends) (\<lambda>voters.
      and_then (unwrap (plus_seconds (sl_math sl) (time (env_block ev)) (proposal_duration_seconds entry))) (\<lambda>end_ts.
      and_then (vote_err (new_proposal (simple_voting st) end_ts voters)) (\<lambda>(v, pid).
      Ok (st\<lparr>simple_voting := v, challenge_proposals := save (cid, pid) () (challenge_proposals st)\<rparr>, pid))))))"

definition get_or_create_active_proposal ::
  "'n sdk_lib \<Rightarrow> chain \<Rightarrow> env \<Rightarrow> challenge_state \<Rightarrow> u64 \<Rightarrow> (challenge_state \<times> proposal_id) chl_result" where
  "get_or_create_active_proposal sl ch ev st cid =
     and_then (load_challenge st cid) (\<lambda>entry.
     case last_proposal st cid of
       Some pid \<Rightarrow>
         and_then (vote_err (load_proposal (sl_math sl) (simple_voting st) (env_block ev) pid)) (\<lambda>i.
         if is_ok (assert_active_proposal i) then Ok (st, pid) else open_proposal sl ch ev st cid entry)
     | None \<Rightarrow> open_proposal sl ch ev st cid entry)"

definition challenge_cast_vote ::
  "'n sdk_lib \<Rightarrow> chain \<Rightarrow> env \<Rightarrow> message_info \<Rightarrow> challenge_state \<Rightarrow> u64 \<Rightarrow> vote \<Rightarrow> chl_out chl_result" where
  "challenge_cast_vote sl ch ev info st cid vote =
     and_then (get_or_create_active_proposal sl ch ev st cid) (\<lambda>(st, pid).
     and_then (map_err ModSdk (app_abstract_registry ch st)) (\<lambda>registry.
     and_then (case assert_is_account ch registry (info_sender info) of
         Ok base \<Rightarrow> Ok base | Err _ \<Rightarrow> Ok (info_sender info) | Panic \<Rightarrow> Panic) (\<lambda>voter.
     and_then (vote_err (cast_vote (sl_math sl) (simple_voting st) (env_block ev) pid voter vote)) (\<lambda>(v, _).
     Ok (st\<lparr>simple_voting := v\<rparr>, [])))))"

definition charge_penalty ::
  "'n sdk_lib \<Rightarrow> chain \<Rightarrow> challenge_state \<Rightarrow> challenge_entry \<Rightarrow> friend list \<Rightarrow> module_msg list chl_result" where
  "charge_penalty sl ch st entry friends =
     (let num_friends = length friends
      in if num_friends = 0 then Err (ModCustom ZeroFriends)
         else
         let amount_per_friend = (case strike_strategy entry of
               Split n \<Rightarrow> n div of_nat num_friends
             | PerFriend n \<Rightarrow> n);
             asset_per_friend = \<lparr>aa_name = strike_asset entry, aa_amount = ucast amount_per_friend\<rparr>
         in and_then (try_map (\<lambda>friend.
               and_then (friend_addr ch st friend) (\<lambda>recipient.
               map_err ModSdk (bank_transfer sl (app_ans_host ch st) [TransferAns asset_per_friend] recipient))) friends)
               (\<lambda>transfer_actions.
            and_then (map_err ModSdk (executor_execute (ap_account st) transfer_actions)) (\<lambda>transfer_msg.
            Ok [transfer_msg])))"

text \<open>The strike is counted on the loaded copy of the challenge, which is not stored again.\<close>

definition try_finish_challenge ::
  "'n sdk_lib \<Rightarrow> chain \<Rightarrow> challenge_state \<Rightarrow> proposal_outcome \<Rightarrow> challenge_entry \<Rightarrow> u64 \<Rightarrow> chl_out chl_result" where
  "try_finish_challenge sl ch st outcome entry cid =
     and_then (load_friends st cid) (\<lambda>friends.
     and_then (if outcome = Passed then
         and_then (strike (ce_admin_strikes entry)) (\<lambda>(s, finished). Ok (entry\<lparr>ce_admin_strikes := s\<rparr>))
       else Ok entry) (\<lambda>entry.
     if outcome \<noteq> Passed then Ok (st, [])
     else and_then (charge_penalty sl ch st entry friends) (\<lambda>msgs. Ok (st, msgs))))"

definition challenge_count_votes ::
  "'n sdk_lib \<Rightarrow> chain \<Rightarrow> env \<Rightarrow> challenge_state \<Rightarrow> u64 \<Rightarrow> chl_out chl_result" where
  "challenge_count_votes sl ch ev st cid =
     and_then (load_challenge st cid) (\<lambda>entry.
     and_then (ok_or (ModCustom ExpectedProposal) (last_proposal st cid)) (\<lambda>pid.
     and_then (vote_err (count_votes (sl_math sl) (simple_voting st) (env_block ev) pid)) (\<lambda>(v, _, outcome).
     try_finish_challenge sl ch (st\<lparr>simple_voting := v\<rparr>) outcome entry cid)))"

definition challenge_veto ::
  "'n sdk_lib \<Rightarrow> chain \<Rightarrow> env \<Rightarrow> message_info \<Rightarrow> challenge_state \<Rightarrow> u64 \<Rightarrow> chl_out chl_result" where
  "challenge_veto sl ch ev info st cid =
     and_then (ok_or (ModCustom ExpectedProposal) (last_proposal st cid)) (\<lambda>pid.
     and_then (assert_challenge_admin ch ev info st) (\<lambda>_.
     and_then (vote_err (veto_proposal (sl_math sl) (simple_voting st) (env_block ev) pid)) (\<lambda>(v, _).
     Ok (st\<lparr>simple_voting := v\<rparr>, []))))"

fun challenge_execute ::
  "'n sdk_lib \<Rightarrow> chain \<Rightarrow> env \<Rightarrow> message_info \<Rightarrow> challenge_state \<Rightarrow> challenge_execute_msg \<Rightarrow> chl_out chl_result" where
  "challenge_execute sl ch ev info st (CreateChallenge req) = create_challenge sl ch ev info st req"
| "challenge_execute sl ch ev info st (UpdateChallenge cid n d) = update_challenge ch ev info st cid n d"
| "challenge_execute sl ch ev info st (CancelChallenge cid) = cancel_challenge sl ch ev info st cid"
| "challenge_execute sl ch ev info st (UpdateFriendsForChallenge cid fs k) = update_friends_for_challenge sl ch ev info st cid fs k"
| "challenge_execute sl ch ev info st (CastVote cid v) = challenge_cast_vote sl ch ev info st cid v"
| "challenge_execute sl ch ev info st (CountVotes cid) = challenge_count_votes sl ch ev st cid"
| "challenge_execute sl ch ev info st (Veto cid) = challenge_veto sl ch ev info st cid"
| "challenge_execute sl ch ev info st (ChUpdateConfig c) = Ok (st\<lparr>simple_voting := update_vote_config (simple_voting st) c\<rparr>, [])"

section \<open>Queries (handlers/query.rs)\<close>

definition get_proposal_if_active ::
  "'n sdk_lib \<Rightarrow> block_info \<Rightarrow> challenge_state \<Rightarrow> u64 \<Rightarrow> proposal_info option chl_result" where
  "get_proposal_if_active sl block st cid =
     (case last_proposal st cid of
        None \<Rightarrow> Ok None
      | Some pid \<Rightarrow> and_then (vote_err (load_proposal (sl_math sl) (simple_voting st) block pid)) (\<lambda>i.
          Ok (if is_ok (assert_active_proposal i) then Some i else None)))"

definition query_challenge ::
  "'n sdk_lib \<Rightarrow> block_info \<Rightarrow> challenge_state \<Rightarrow> u64 \<Rightarrow> (challenge_entry \<times> proposal_info option) option chl_result" where
  "query_challenge sl block st cid =
     and_then (get_proposal_if_active sl block st cid) (\<lambda>proposal.
     Ok (map_option (\<lambda>entry. (entry, proposal)) (load (challenges st) cid)))"

definition query_friends :: "challenge_state \<Rightarrow> u64 \<Rightarrow> friend list" where
  "query_friends st cid = (case load (challenge_friends st) cid of Some l \<Rightarrow> l | None \<Rightarrow> [])"

definition proposal_of :: "challenge_state \<Rightarrow> u64 \<Rightarrow> proposal_id option \<Rightarrow> proposal_id option" where
  "proposal_of st cid pid =
     (case pid of
        Some p \<Rightarrow> map_option (\<lambda>_. p) (load (challenge_proposals st) (cid, p))
      | None \<Rightarrow> last_proposal st cid)"

definition query_vote ::
  "chain \<Rightarrow> challenge_state \<Rightarrow> string \<Rightarrow> u64 \<Rightarrow> proposal_id option \<Rightarrow> vote option chl_result" where
  "query_vote ch st voter_addr cid pid =
     and_then (map_err ModStd (q_addr_validate ch voter_addr)) (\<lambda>voter.
     case proposal_of st cid pid of
       Some p \<Rightarrow> vote_err (load_vote (simple_voting st) p voter)
     | None \<Rightarrow> Ok None)"

definition query_votes ::
  "challenge_state \<Rightarrow> u64 \<Rightarrow> proposal_id option \<Rightarrow> addr option \<Rightarrow> u64 option \<Rightarrow> (addr \<times> vote option) list" where
  "query_votes st cid pid start_after limit =
     (case proposal_of st cid pid of
        Some p \<Rightarrow> query_by_id (simple_voting st) p start_after limit
      | None \<Rightarrow> [])"

definition query_proposals ::
  "'n sdk_lib \<Rightarrow> block_info \<Rightarrow> challenge_state \<Rightarrow> u64 \<Rightarrow> proposal_id option \<Rightarrow> u64 option
   \<Rightarrow> (proposal_id \<times> proposal_info) list chl_result" where
  "query_proposals sl block st cid start_after limit =
     (let ids = take (unat (case limit of Some l \<Rightarrow> l | None \<Rightarrow> VOTING_DEFAULT_LIMIT))
           (map (\<lambda>e. snd (fst e)) (entries_where (\<lambda>k. fst k = cid
             \<and> (case start_after of Some a \<Rightarrow> a < snd k | None \<Rightarrow> True)) (challenge_proposals st)))
      in try_map (\<lambda>p. and_then (vote_err (load_proposal (sl_math sl) (simple_voting st) block p)) (\<lambda>i. Ok (p, i))) ids)"

definition query_challenges ::
  "'n sdk_lib \<Rightarrow> block_info \<Rightarrow> challenge_state \<Rightarrow> u64 option \<Rightarrow> u64 option
   \<Rightarrow> (u64 \<times> challenge_entry \<times> proposal_info option) list chl_result" where
  "query_challenges sl block st start limit =
     try_map (\<lambda>(cid, entry). and_then (unwrap_or None (get_proposal_if_active sl block st cid)) (\<lambda>proposal.
         Ok (cid, entry, proposal)))
       (take (unat (case limit of Some l \<Rightarrow> l | None \<Rightarrow> VOTING_DEFAULT_LIMIT)) (entries_after start (challenges st)))"

end
