(* ===== verification/Challenge_Safety.thy ===== *)
theory Challenge_Safety
  imports Challenge
begin

text \<open>
  Safety of the challenge app. Every history of the app is a history of the voting object it embeds, so what
  is proved of votes holds in the app; the account is only charged for a proposal that passed, once, and the friends share
  no more than the strike; friends cannot be exchanged while a vote runs.
\<close>

section \<open>The app as a state machine\<close>

lemma vote_err_Ok [result_simps]: "vote_err r = Ok a \<longleftrightarrow> r = Ok a"
  by (simp add: vote_err_def result_simps)

inductive challenge_start :: "'n sdk_lib \<Rightarrow> challenge_state \<Rightarrow> bool" for sl where
  "simple_voting st0 = empty_voting \<Longrightarrow> challenges st0 = [] \<Longrightarrow> challenge_friends st0 = [] \<Longrightarrow> challenge_proposals st0 = [] \<Longrightarrow>
     challenge_instantiate sl st0 config = Ok (st, out) \<Longrightarrow> challenge_start sl st"

inductive challenge_step :: "'n sdk_lib \<Rightarrow> challenge_state \<Rightarrow> challenge_state \<Rightarrow> bool" for sl where
  "challenge_execute sl ch ev info st msg = Ok (st', out) \<Longrightarrow> challenge_step sl st st'"

inductive_cases challenge_startE: "challenge_start sl st"
inductive_cases challenge_stepE: "challenge_step sl st st'"

section \<open>Votes\<close>

lemma open_proposal_Ok:
  assumes "open_proposal sl ch ev st cid entry = Ok (st', pid)"
  obtains v e vs where "new_proposal (simple_voting st) e vs = Ok (v, pid)"
    and "st' = st\<lparr>simple_voting := v, challenge_proposals := save (cid, pid) () (challenge_proposals st)\<rparr>"
  using assms unfolding open_proposal_def
  by (auto simp: result_simps split: if_splits)

lemma get_or_create_Ok:
  assumes "get_or_create_active_proposal sl ch ev st cid = Ok (st', pid)"
  shows "(st' = st \<and> last_proposal st cid = Some pid) \<and> load (challenges st) cid \<noteq> None
    \<or> (\<exists>v e vs. new_proposal (simple_voting st) e vs = Ok (v, pid) \<and> load (challenges st) cid \<noteq> None
        \<and> st' = st\<lparr>simple_voting := v, challenge_proposals := save (cid, pid) () (challenge_proposals st)\<rparr>)"
proof -
  from assms obtain entry where e: "load (challenges st) cid = Some entry"
    and "st' = st \<and> last_proposal st cid = Some pid \<or> open_proposal sl ch ev st cid entry = Ok (st', pid)"
    unfolding get_or_create_active_proposal_def load_challenge_def and_then_Ok
    by (auto simp: result_simps split: option.splits if_splits)
  then show ?thesis
  proof (elim disjE)
    assume "open_proposal sl ch ev st cid entry = Ok (st', pid)"
    then show ?thesis by (rule open_proposal_Ok) (use e in blast)
  qed (use e in simp)
qed

lemma cast_vote_run:
  assumes "challenge_cast_vote sl ch ev info st cid vote = Ok (st', out)"
  obtains st1 pid v i where "get_or_create_active_proposal sl ch ev st cid = Ok (st1, pid)" and "out = []"
    and "cast_vote (sl_math sl) (simple_voting st1) (env_block ev) pid (info_sender info) vote = Ok (v, i)"
    and "st' = st1\<lparr>simple_voting := v\<rparr>"
proof -
  have same: "(case r of Ok base \<Rightarrow> Ok base | Err _ \<Rightarrow> Ok s | Panic \<Rightarrow> Panic) = Ok (a :: addr) \<longleftrightarrow> r = Ok a \<or> (\<exists>e. r = Err e) \<and> a = s"
    for r :: "(addr, sdk_error) result" and s a by (cases r) auto
  from assms show thesis
    unfolding challenge_cast_vote_def and_then_Ok
    by (auto simp: same result_simps split: prod.splits intro: that)
qed

lemma try_finish_Ok:
  assumes "try_finish_challenge sl ch st outcome entry cid = Ok (st', out)"
  shows "st' = st \<and> (out = [] \<or> outcome = Passed \<and> (\<exists>s fs. load (challenge_friends st) cid = Some fs
    \<and> charge_penalty sl ch st (entry\<lparr>ce_admin_strikes := s\<rparr>) fs = Ok out))"
  using assms unfolding try_finish_challenge_def load_friends_def
  by (auto simp: result_simps split: if_splits)

lemma count_run:
  assumes "challenge_count_votes sl ch ev st cid = Ok (st', out)"
  obtains entry pid v i outcome where "load (challenges st) cid = Some entry" and "last_proposal st cid = Some pid"
    and "count_votes (sl_math sl) (simple_voting st) (env_block ev) pid = Ok (v, i, outcome)"
    and "try_finish_challenge sl ch (st\<lparr>simple_voting := v\<rparr>) outcome entry cid = Ok (st', out)"
  using assms unfolding challenge_count_votes_def load_challenge_def and_then_Ok
  by (auto simp: result_simps)

lemma length_fold_filter: "length (fold (\<lambda>rem. filter (\<lambda>f. f \<noteq> rem)) rs cs) \<le> length cs"
proof (induction rs arbitrary: cs)
  case (Cons r rs)
  have "length (fold (\<lambda>rem. filter (\<lambda>f. f \<noteq> rem)) rs (filter (\<lambda>f. f \<noteq> r) cs)) \<le> length (filter (\<lambda>f. f \<noteq> r) cs)" by (rule Cons.IH)
  also have "\<dots> \<le> length cs" by simp
  finally show ?case by simp
qed simp

lemma update_friends_Ok:
  assumes "update_friends_for_challenge sl ch ev info st cid fs k = Ok (st', out)"
  obtains l cur where "load (challenge_friends st) cid = Some cur" and "length l < MAX_AMOUNT_OF_FRIENDS \<or> length l \<le> length cur"
    and "out = []" and "st' = st\<lparr>challenge_friends := save cid l (challenge_friends st)\<rparr>"
    and "\<And>pid. last_proposal st cid = Some pid \<Longrightarrow>
        \<exists>i. load_proposal (sl_math sl) (simple_voting st) (env_block ev) pid = Ok i \<and> end_timestamp i \<le> time (env_block ev)"
proof -
  from assms obtain vs u where guard: "(case last_proposal st cid of
         Some pid \<Rightarrow> and_then (vote_err (load_proposal (sl_math sl) (simple_voting st) (env_block ev) pid)) (\<lambda>i.
           ensure (\<not> time (env_block ev) < end_timestamp i) (ModCustom (FriendsEditDuringProposal (end_timestamp i))))
       | None \<Rightarrow> Ok ()) = (Ok u :: unit chl_result)"
    and op: "(case k of
       AddFriends \<Rightarrow>
         and_then (ok_or (ModCustom ChallengeNotFound) (load (challenge_friends st) cid)) (\<lambda>current_friends.
         and_then (ensure (length vs + length current_friends < MAX_AMOUNT_OF_FRIENDS)
           (ModCustom TooManyFriends)) (\<lambda>_.
         and_then (try_map (friend_addr ch st) current_friends) (\<lambda>current_friends_addrs.
         if \<not> distinct (current_friends_addrs @ map fst vs) then Err (ModCustom DuplicateFriends)
         else Ok (st\<lparr>challenge_friends := save cid (current_friends @ map snd vs) (challenge_friends st)\<rparr>, []))))
     | RemoveFriends \<Rightarrow>
         and_then (ok_or (ModCustom ZeroFriends) (load (challenge_friends st) cid)) (\<lambda>current_friends.
         let current_friends = fold (\<lambda>rem. filter (\<lambda>f. f \<noteq> rem)) (map snd vs) current_friends
         in Ok (st\<lparr>challenge_friends := save cid current_friends (challenge_friends st)\<rparr>, []))) = Ok (st', out)"
    unfolding update_friends_for_challenge_def and_then_Ok by blast
  have ended: "\<exists>i. load_proposal (sl_math sl) (simple_voting st) (env_block ev) pid = Ok i \<and> end_timestamp i \<le> time (env_block ev)"
    if "last_proposal st cid = Some pid" for pid
    using guard that by (auto simp: result_simps not_less)
  show thesis
  proof (cases k)
    case AddFriends
    with op obtain cur where "load (challenge_friends st) cid = Some cur" "length vs + length cur < MAX_AMOUNT_OF_FRIENDS"
      "out = []" "st' = st\<lparr>challenge_friends := save cid (cur @ map snd vs) (challenge_friends st)\<rparr>"
      by (auto simp: result_simps split: if_splits)
    with ended show thesis by (intro that [of cur "cur @ map snd vs"]) auto
  next
    case RemoveFriends
    with op obtain cur where "load (challenge_friends st) cid = Some cur" "out = []"
      "st' = st\<lparr>challenge_friends := save cid (fold (\<lambda>rem. filter (\<lambda>f. f \<noteq> rem)) (map snd vs) cur) (challenge_friends st)\<rparr>"
      by (auto simp: result_simps Let_def)
    with ended length_fold_filter [of "map snd vs" cur] show thesis by (intro that) auto
  qed
qed

lemma voting_steps:
  "new_proposal v e vs = Ok (v', p) \<Longrightarrow> (voting_step cm)\<^sup>*\<^sup>* v v'"
  "cast_vote cm v b p a w = Ok (v', i) \<Longrightarrow> (voting_step cm)\<^sup>*\<^sup>* v v'"
  "cancel_proposal cm v b p = Ok (v', i) \<Longrightarrow> (voting_step cm)\<^sup>*\<^sup>* v v'"
  "count_votes cm v b p = Ok (v', i, out) \<Longrightarrow> (voting_step cm)\<^sup>*\<^sup>* v v'"
  "veto_proposal cm v b p = Ok (v', i) \<Longrightarrow> (voting_step cm)\<^sup>*\<^sup>* v v'"
  "(voting_step cm)\<^sup>*\<^sup>* v (update_vote_config v c)"
  by (rule r_into_rtranclp, erule voting_step.propose voting_step.cast voting_step.cancel voting_step.count voting_step.veto)+
    (rule r_into_rtranclp, rule voting_step.config)

lemma challenge_execute_voting:
  assumes "challenge_execute sl ch ev info st msg = Ok (st', out)"
  shows "(voting_step (sl_math sl))\<^sup>*\<^sup>* (simple_voting st) (simple_voting st')"
proof (cases msg)
  case (CastVote cid vote)
  with assms have "challenge_cast_vote sl ch ev info st cid vote = Ok (st', out)" by simp
  then obtain st1 pid v i where 1: "get_or_create_active_proposal sl ch ev st cid = Ok (st1, pid)"
    and 2: "cast_vote (sl_math sl) (simple_voting st1) (env_block ev) pid (info_sender info) vote = Ok (v, i)"
    and st': "st' = st1\<lparr>simple_voting := v\<rparr>" by (rule cast_vote_run)
  have "(voting_step (sl_math sl))\<^sup>*\<^sup>* (simple_voting st) (simple_voting st1)"
    using get_or_create_Ok [OF 1]
  proof (elim disjE exE conjE)
    fix v e vs
    assume n: "new_proposal (simple_voting st) e vs = Ok (v, pid)"
      and "st1 = st\<lparr>simple_voting := v, challenge_proposals := save (cid, pid) () (challenge_proposals st)\<rparr>"
    then show ?thesis using voting_steps(1) [OF n] by simp
  qed simp
  with voting_step.cast [OF 2] show ?thesis by (simp add: st')
next
  case (CountVotes cid)
  with assms have "challenge_count_votes sl ch ev st cid = Ok (st', out)" by simp
  then show ?thesis
    by (rule count_run) (auto dest!: try_finish_Ok dest: voting_steps(1-5))
next
  case (CancelChallenge cid)
  with assms show ?thesis
    by (auto simp: cancel_challenge_def result_simps Let_def split: option.splits if_splits dest: voting_steps(1-5))
next
  case (Veto cid)
  with assms show ?thesis by (auto simp: challenge_veto_def result_simps dest: voting_steps(1-5))
next
  case (ChUpdateConfig c)
  with assms show ?thesis by (auto intro: voting_steps(6))
next
  case (CreateChallenge req)
  with assms show ?thesis by (auto simp: create_challenge_def result_simps Let_def split: if_splits)
next
  case (UpdateChallenge cid n d)
  with assms show ?thesis by (auto simp: update_challenge_def result_simps Let_def)
next
  case (UpdateFriendsForChallenge cid fs k)
  with assms show ?thesis by (auto elim: update_friends_Ok)
qed

lemma reachable_rtranclp: "reachable start step s \<Longrightarrow> step\<^sup>*\<^sup>* s t \<Longrightarrow> reachable start step t"
  by (erule rtranclp_induct) (auto intro: reach_step)

lemma challenge_voting_reachable:
  assumes "reachable (challenge_start sl) (challenge_step sl) st"
  shows "reachable (voting_start (sl_math sl)) (voting_step (sl_math sl)) (simple_voting st)"
  using assms
proof (induction rule: reachable.induct)
  case (reach_start st)
  then obtain st0 config out where "simple_voting st0 = empty_voting" "challenge_instantiate sl st0 config = Ok (st, out)"
    by (rule challenge_startE)
  then have "voting_instantiate (sl_math sl) empty_voting config = Ok (simple_voting st)"
    by (auto simp: challenge_instantiate_def result_simps)
  then have "voting_start (sl_math sl) (simple_voting st)" unfolding voting_start_def by blast
  then show ?case by (rule reachable.reach_start)
next
  case (reach_step st st')
  then show ?case by (auto elim!: challenge_stepE intro: reachable_rtranclp challenge_execute_voting)
qed

text \<open>
  C26: every history of the challenge app is, for the votes it keeps, a history of the voting object: the counters, outcomes
  and finality proved of the voting object hold in the app.
\<close>

theorem challenge_refines_voting:
  assumes "reachable (challenge_start sl) (challenge_step sl) st"
  shows "reachable (voting_start (sl_math sl)) (voting_step (sl_math sl)) (simple_voting st)"
  by (rule challenge_voting_reachable [OF assms])

section \<open>The penalty\<close>

lemma charge_penalty_Ok:
  assumes "charge_penalty sl ch st entry fs = Ok out"
  obtains account msgs where "fs \<noteq> []" and "ap_account st = Some account" and "out = [OnAccount account (Execute (concat msgs)) []]"
    and "list_all2 (\<lambda>f m. \<exists>a. friend_addr ch st f = Ok a \<and> bank_transfer sl (app_ans_host ch st)
        [TransferAns \<lparr>aa_name = strike_asset entry, aa_amount = ucast (case strike_strategy entry of
           Split n \<Rightarrow> n div of_nat (length fs) | PerFriend n \<Rightarrow> n)\<rparr>] a = Ok m) fs msgs"
  using assms unfolding charge_penalty_def Let_def
  by (auto simp: result_simps try_map_Ok_iff executor_execute_def executor_execute_with_funds_def execute_on_account_def
      module_account_def split: if_splits)

lemma messages_only_by_count:
  assumes "challenge_execute sl ch ev info st msg = Ok (st', out)" and "out \<noteq> []"
  obtains cid where "msg = CountVotes cid" and "challenge_count_votes sl ch ev st cid = Ok (st', out)"
proof (cases msg)
  case (CastVote cid vote)
  with assms show thesis by (auto elim: cast_vote_run)
next
  case (UpdateFriendsForChallenge cid fs k)
  with assms show thesis by (auto elim: update_friends_Ok)
qed (use assms that in \<open>auto simp: create_challenge_def update_challenge_def cancel_challenge_def challenge_veto_def
  result_simps Let_def split: if_splits\<close>)

lemma count_votes_Ok:
  assumes "count_votes cm v b p = Ok (v', i', outcome)"
  obtains i where "load (proposals_info v) p = Some i" and "pi_status i = Active \<or> pi_status i = WaitingForCount"
    and "outcome = Passed \<longleftrightarrow> reached cm i" and "load (proposals_info v') p = Some i'" and "pi_status i' = Finished outcome"
proof -
  from assms obtain j thr where j: "load_proposal cm v b p = Ok j" "pi_status j = WaitingForCount"
    and thr: "vote_threshold cm j = Ok thr" and o: "outcome = (if thr \<le> ucast (votes_for j) then Passed else Failed)"
    and v': "i' = finish_vote outcome b j" "v' = v\<lparr>proposals_info := save p i' (proposals_info v)\<rparr>"
    by (auto simp: count_votes_def result_simps Let_def)
  from j obtain i where i: "load (proposals_info v) p = Some i" "i = j \<or> (pi_status i = Active \<and> j = i\<lparr>pi_status := WaitingForCount\<rparr>)"
    by (auto simp: load_proposal_def result_simps split: if_splits)
  from i(2) have "vote_threshold cm i = vote_threshold cm j" "votes_for i = votes_for j"
    by (auto simp: vote_threshold_def split: threshold.splits)
  with thr o have "outcome = Passed \<longleftrightarrow> reached cm i" by (auto simp: reached_def)
  with i j(2) v' show thesis by (intro that [of i]) (auto simp: finish_vote_def)
qed

text \<open>
  C27: the only messages the app ever sends are those of a penalty, sent when the votes of a challenge are counted. Then as
  many friends have voted for the penalty as the threshold of the proposal asks for, and the one message makes the account of the
  app, and no other, transfer to the friends.
\<close>

theorem penalty_needs_passed_vote:
  assumes "math_laws (sl_math sl)" and "reachable (challenge_start sl) (challenge_step sl) st"
    and "challenge_execute sl ch ev info st msg = Ok (st', out)" and "out \<noteq> []"
  shows "\<exists>cid pid i account msgs. msg = CountVotes cid \<and> last_proposal st cid = Some pid
    \<and> load (proposals_info (simple_voting st)) pid = Some i
    \<and> needed_votes i \<le> card (votes_cast (simple_voting st) pid True)
    \<and> ap_account st = Some account \<and> out = [OnAccount account (Execute msgs) []]"
  using assms(3,4)
proof (rule messages_only_by_count)
  fix cid
  assume msg: "msg = CountVotes cid" and "challenge_count_votes sl ch ev st cid = Ok (st', out)"
  from this(2) obtain entry pid v i' outcome where pid: "last_proposal st cid = Some pid"
    and count: "count_votes (sl_math sl) (simple_voting st) (env_block ev) pid = Ok (v, i', outcome)"
    and fin: "try_finish_challenge sl ch (st\<lparr>simple_voting := v\<rparr>) outcome entry cid = Ok (st', out)"
    by (rule count_run)
  from try_finish_Ok [OF fin] assms(4) obtain s fs where passed: "outcome = Passed"
    and pen: "charge_penalty sl ch (st\<lparr>simple_voting := v\<rparr>) (entry\<lparr>ce_admin_strikes := s\<rparr>) fs = Ok out" by blast
  from count obtain i where i: "load (proposals_info (simple_voting st)) pid = Some i" "outcome = Passed \<longleftrightarrow> reached (sl_math sl) i"
    by (rule count_votes_Ok)
  have "counted (simple_voting st) pid i"
    using voting.holds [OF challenge_voting_reachable [OF assms(2)]] i(1) by (auto simp: voting_wf_def proposal_ok_def)
  with i passed have "needed_votes i \<le> card (votes_cast (simple_voting st) pid True)"
    by (simp add: reached_iff [OF assms(1)] counted_def)
  moreover from pen obtain account msgs where "ap_account st = Some account" "out = [OnAccount account (Execute (concat msgs)) []]"
    by (rule charge_penalty_Ok) simp
  ultimately show ?thesis using msg pid i(1) by blast
qed

section \<open>Friends and strikes\<close>

text \<open>What a message does to the friends, the challenges and the counter of ids.\<close>

lemma create_challenge_Ok:
  assumes "create_challenge sl ch ev info st req = Ok (st', out)"
  obtains n cid fs entry where "next_id st = Some n" and "checked_add n 1 = Some cid" and "length fs < MAX_AMOUNT_OF_FRIENDS"
    and "num_strikes (ce_admin_strikes entry) = 0"
    and "st' = st\<lparr>next_id := Some cid, challenge_friends := save cid fs (challenge_friends st), challenges := save cid entry (challenges st)\<rparr>"
proof -
  have entry: "num_strikes (ce_admin_strikes entry) = 0" if "challenge_entry_new req t = Ok entry" for t entry
    using that by (auto simp: challenge_entry_new_def admin_strikes_new_def result_simps)
  from assms obtain fv n cid t e where "length (init_friends req) < MAX_AMOUNT_OF_FRIENDS" "try_map (friend_check ch st) (init_friends req) = Ok fv"
    "next_id st = Some n" "checked_add n 1 = Some cid" "challenge_entry_new req t = Ok e"
    "st' = st\<lparr>next_id := Some cid, challenge_friends := save cid (map snd fv) (challenge_friends st), challenges := save cid e (challenges st)\<rparr>"
    unfolding create_challenge_def and_then_Ok Let_def by (auto simp: result_simps split: if_splits)
  then show thesis
    by (intro that [of n cid "map snd fv" e]) (auto simp: entry try_map_Ok_iff dest: list_all2_lengthD)
qed

lemma update_challenge_Ok:
  assumes "update_challenge ch ev info st cid n d = Ok (st', out)"
  obtains e e' where "load (challenges st) cid = Some e" and "ce_admin_strikes e' = ce_admin_strikes e"
    and "st' = st\<lparr>challenges := save cid e' (challenges st)\<rparr>"
proof -
  from assms obtain e e' where "load (challenges st) cid = Some e" "st' = st\<lparr>challenges := save cid e' (challenges st)\<rparr>"
    "e' = (case d of Some t \<Rightarrow> (case n of Some s \<Rightarrow> e\<lparr>ce_name := s\<rparr> | None \<Rightarrow> e)\<lparr>ce_description := t\<rparr>
        | None \<Rightarrow> (case n of Some s \<Rightarrow> e\<lparr>ce_name := s\<rparr> | None \<Rightarrow> e))"
    unfolding update_challenge_def and_then_Ok Let_def by (auto simp: result_simps)
  then show thesis by (intro that [of e e']) (simp_all split: option.split)
qed

lemma cancel_challenge_Ok:
  assumes "cancel_challenge sl ch ev info st cid = Ok (st', out)"
  obtains e e' v where "load (challenges st) cid = Some e" and "ce_admin_strikes e' = ce_admin_strikes e"
    and "st' = st\<lparr>simple_voting := v, challenges := save cid e' (challenges st)\<rparr>"
proof (cases "last_proposal st cid")
  case None
  with assms obtain e where "load (challenges st) cid = Some e"
    "st' = st\<lparr>challenges := save cid (e\<lparr>ce_end_timestamp := time (env_block ev)\<rparr>) (challenges st)\<rparr>"
    unfolding cancel_challenge_def load_challenge_def and_then_Ok Let_def by (auto simp: result_simps split: if_splits)
  then show thesis by (intro that [of e "e\<lparr>ce_end_timestamp := time (env_block ev)\<rparr>" "simple_voting st"]) simp_all
next
  case (Some pid)
  with assms obtain e v where "load (challenges st) cid = Some e"
    "st' = st\<lparr>simple_voting := v, challenges := save cid (e\<lparr>ce_end_timestamp := time (env_block ev)\<rparr>) (challenges st)\<rparr>"
    unfolding cancel_challenge_def load_challenge_def and_then_Ok Let_def by (auto simp: result_simps split: if_splits)
  then show thesis by (intro that [of e "e\<lparr>ce_end_timestamp := time (env_block ev)\<rparr>" v]) simp_all
qed

lemma get_or_create_frame:
  assumes "get_or_create_active_proposal sl ch ev st cid = Ok (st', pid)"
  shows "next_id st' = next_id st" and "challenge_friends st' = challenge_friends st" and "challenges st' = challenges st"
  using get_or_create_Ok [OF assms] by auto

lemma challenge_execute_frame:
  assumes "challenge_execute sl ch ev info st msg = Ok (st', out)"
  shows "next_id st' = next_id st \<and> challenge_friends st' = challenge_friends st
      \<and> (\<forall>c e'. load (challenges st') c = Some e' \<longrightarrow> (\<exists>e. load (challenges st) c = Some e \<and> ce_admin_strikes e' = ce_admin_strikes e))
    \<or> (\<exists>req. msg = CreateChallenge req) \<or> (\<exists>c fs k. msg = UpdateFriendsForChallenge c fs k)"
proof (cases msg)
  case (CastVote cid vote)
  with assms have "challenge_cast_vote sl ch ev info st cid vote = Ok (st', out)" by simp
  then show ?thesis by (rule cast_vote_run) (auto simp: get_or_create_frame)
next
  case (CountVotes cid)
  with assms have "challenge_count_votes sl ch ev st cid = Ok (st', out)" by simp
  then show ?thesis by (rule count_run) (auto dest!: try_finish_Ok)
next
  case (UpdateChallenge cid n d)
  with assms obtain e e' where "load (challenges st) cid = Some e" "ce_admin_strikes e' = ce_admin_strikes e"
    "st' = st\<lparr>challenges := save cid e' (challenges st)\<rparr>"
    by (rule_tac update_challenge_Ok) auto
  then show ?thesis by auto
next
  case (CancelChallenge cid)
  with assms obtain e e' v where "load (challenges st) cid = Some e" "ce_admin_strikes e' = ce_admin_strikes e"
    "st' = st\<lparr>simple_voting := v, challenges := save cid e' (challenges st)\<rparr>"
    by (rule_tac cancel_challenge_Ok) auto
  then show ?thesis by auto
qed (use assms in \<open>auto simp: challenge_veto_def result_simps\<close>)

definition challenge_wf :: "challenge_state \<Rightarrow> bool" where
  "challenge_wf st \<longleftrightarrow>
     (\<exists>n. next_id st = Some n \<and> (\<forall>cid. load (challenge_friends st) cid \<noteq> None \<longrightarrow> cid \<le> n))
     \<and> (\<forall>cid fs. load (challenge_friends st) cid = Some fs \<longrightarrow> length fs < MAX_AMOUNT_OF_FRIENDS)
     \<and> (\<forall>cid e. load (challenges st) cid = Some e \<longrightarrow> num_strikes (ce_admin_strikes e) = 0)"

lemma checked_add_one_less: "checked_add (n :: u64) 1 = Some m \<Longrightarrow> n < m"
  by (auto dest!: checked_add_Some simp: word_less_nat_alt)

lemma challenge_wf_step:
  assumes wf: "challenge_wf st" and run: "challenge_execute sl ch ev info st msg = Ok (st', out)"
  shows "challenge_wf st'"
  using challenge_execute_frame [OF run]
proof (elim disjE exE)
  fix req
  assume "msg = CreateChallenge req"
  with run have "create_challenge sl ch ev info st req = Ok (st', out)" by simp
  then show ?thesis
  proof (rule create_challenge_Ok)
    fix n cid fs entry
    assume n: "next_id st = Some n" "checked_add n 1 = Some cid"
      and st': "st' = st\<lparr>next_id := Some cid, challenge_friends := save cid fs (challenge_friends st), challenges := save cid entry (challenges st)\<rparr>"
      and new: "length fs < MAX_AMOUNT_OF_FRIENDS" "num_strikes (ce_admin_strikes entry) = 0"
    from n(2) have "n < cid" by (rule checked_add_one_less)
    with wf n have "c \<le> cid" if "load (challenge_friends st) c \<noteq> None" for c
      using that unfolding challenge_wf_def by (metis dual_order.strict_implies_order option.inject order.trans)
    with wf new show ?thesis by (auto simp: challenge_wf_def st')
  qed
next
  fix c fs k
  assume "msg = UpdateFriendsForChallenge c fs k"
  with run have "update_friends_for_challenge sl ch ev info st c fs k = Ok (st', out)" by simp
  then show ?thesis
  proof (rule update_friends_Ok)
    fix l cur
    assume cur: "load (challenge_friends st) c = Some cur" and l: "length l < MAX_AMOUNT_OF_FRIENDS \<or> length l \<le> length cur"
      and st': "st' = st\<lparr>challenge_friends := save c l (challenge_friends st)\<rparr>"
    from wf cur have "length cur < MAX_AMOUNT_OF_FRIENDS" by (auto simp: challenge_wf_def)
    with l have "length l < MAX_AMOUNT_OF_FRIENDS" by auto
    with wf cur show ?thesis by (auto simp: challenge_wf_def st')
  qed
next
  assume "next_id st' = next_id st \<and> challenge_friends st' = challenge_friends st
    \<and> (\<forall>c e'. load (challenges st') c = Some e' \<longrightarrow> (\<exists>e. load (challenges st) c = Some e \<and> ce_admin_strikes e' = ce_admin_strikes e))"
  with wf show ?thesis unfolding challenge_wf_def by metis
qed

interpretation challenge: invariant "challenge_start sl" "challenge_step sl" challenge_wf
proof
  show "challenge_wf s" if "challenge_start sl s" for s
    using that by (rule challenge_startE) (auto simp: challenge_wf_def challenge_instantiate_def result_simps)
  show "challenge_wf s'" if "challenge_wf s" "challenge_step sl s s'" for s s'
    using that(2) by (rule challenge_stepE) (rule challenge_wf_step [OF that(1)])
qed

text \<open>
  a challenge never has twenty friends or more, however it was set up and edited.
\<close>

theorem challenge_friends_bounded:
  assumes "reachable (challenge_start sl) (challenge_step sl) st" and "load (challenge_friends st) cid = Some fs"
  shows "length fs < 20"
  using challenge.holds [OF assms(1)] assms(2) by (auto simp: challenge_wf_def MAX_AMOUNT_OF_FRIENDS_def)

text \<open>No strike is ever recorded: the counter of every challenge stays zero, whatever is voted, so the limit
  \<open>strikes_limit\<close> of the challenge is without effect.\<close>

lemma strikes_never_recorded:
  assumes "reachable (challenge_start sl) (challenge_step sl) st" and "load (challenges st) cid = Some entry"
  shows "num_strikes (ce_admin_strikes entry) = 0"
  using challenge.holds [OF assms(1)] assms(2) by (auto simp: challenge_wf_def)

text \<open>
  the friends of a challenge only change by a message of the admin, and not while a vote on the challenge runs: the
  last proposal has ended by then, so a vote is decided by the friends it was opened with.
\<close>

theorem friends_frozen_during_vote:
  assumes "reachable (challenge_start sl) (challenge_step sl) st"
    and "challenge_execute sl ch ev info st msg = Ok (st', out)"
    and "load (challenge_friends st) cid = Some fs" and "load (challenge_friends st') cid \<noteq> Some fs"
  shows "(\<exists>l k. msg = UpdateFriendsForChallenge cid l k) \<and> assert_challenge_admin ch ev info st = Ok ()
    \<and> (\<forall>pid. last_proposal st cid = Some pid \<longrightarrow>
        (\<exists>i. load_proposal (sl_math sl) (simple_voting st) (env_block ev) pid = Ok i \<and> end_timestamp i \<le> time (env_block ev)))"
proof -
  from challenge_execute_frame [OF assms(2)] assms(3,4)
  consider req where "msg = CreateChallenge req" | c l k where "msg = UpdateFriendsForChallenge c l k" by auto
  then show ?thesis
  proof cases
    case 1
    with assms(2) have "create_challenge sl ch ev info st req = Ok (st', out)" by simp
    then obtain n c fs' where "next_id st = Some n" "checked_add n 1 = Some c"
      "load (challenge_friends st') = (load (challenge_friends st))(c \<mapsto> fs')"
      by (rule create_challenge_Ok) simp
    moreover from this have "cid \<le> n" "n < c"
      using challenge.holds [OF assms(1)] assms(3) by (auto simp: challenge_wf_def checked_add_one_less)
    ultimately have "load (challenge_friends st') cid = Some fs" using assms(3) by (cases "cid = c") auto
    with assms(4) show ?thesis by contradiction
  next
    case 2
    with assms(2) have run: "update_friends_for_challenge sl ch ev info st c l k = Ok (st', out)" by simp
    then have admin: "assert_challenge_admin ch ev info st = Ok ()"
      unfolding update_friends_for_challenge_def and_then_Ok by auto
    from run show ?thesis
    proof (rule update_friends_Ok)
      fix l' cur
      assume st': "st' = st\<lparr>challenge_friends := save c l' (challenge_friends st)\<rparr>"
        and ended: "\<And>pid. last_proposal st c = Some pid \<Longrightarrow>
          \<exists>i. load_proposal (sl_math sl) (simple_voting st) (env_block ev) pid = Ok i \<and> end_timestamp i \<le> time (env_block ev)"
      with assms(3,4) have "c = cid" by (auto split: if_splits)
      with 2 admin ended show ?thesis by blast
    qed
  qed
qed

section \<open>One penalty per proposal\<close>

lemma finished_run:
  assumes "reachable (voting_start cm) (voting_step cm) v" and "(voting_step cm)\<^sup>*\<^sup>* v v'"
    and "load (proposals_info v) p = Some i" and "pi_status i = Finished out"
  shows "load (proposals_info v') p = Some i"
  using assms(2)
proof (induction rule: rtranclp_induct)
  case (step y z)
  from assms(1) step.hyps(1) have "voting_wf cm y" by (rule voting.holds [OF reachable_rtranclp])
  from finished_step [OF this step.hyps(2) step.IH assms(4)] show ?case by simp
qed (rule assms(3))

lemma challenge_run_voting:
  "(challenge_step sl)\<^sup>*\<^sup>* st st' \<Longrightarrow> (voting_step (sl_math sl))\<^sup>*\<^sup>* (simple_voting st) (simple_voting st')"
  by (induction rule: rtranclp_induct) (auto elim!: challenge_stepE dest: challenge_execute_voting)

lemma finished_not_counted:
  assumes "last_proposal st cid = Some pid" and "load (proposals_info (simple_voting st)) pid = Some i" and "pi_status i = Finished o'"
  shows "challenge_count_votes sl ch ev st cid \<noteq> Ok r"
proof
  assume "challenge_count_votes sl ch ev st cid = Ok r"
  then have "challenge_count_votes sl ch ev st cid = Ok (fst r, snd r)" by simp
  then show False by (rule count_run) (use assms in \<open>auto elim!: count_votes_Ok\<close>)
qed

text \<open>
  a proposal is paid for at most once: when its votes have been counted, then in every later state, as long as it is the last
  proposal of the challenge, counting its votes again fails.
\<close>

theorem penalty_once_per_proposal:
  assumes "reachable (challenge_start sl) (challenge_step sl) st"
    and "challenge_execute sl ch ev info st (CountVotes cid) = Ok (st1, out)"
    and "(challenge_step sl)\<^sup>*\<^sup>* st1 st2" and "last_proposal st2 cid = last_proposal st cid"
  shows "\<not> is_ok (challenge_execute sl ch' ev' info' st2 (CountVotes cid))"
proof -
  from assms(2) have "challenge_count_votes sl ch ev st cid = Ok (st1, out)" by simp
  then obtain entry pid v i outcome where pid: "last_proposal st cid = Some pid"
    and count: "count_votes (sl_math sl) (simple_voting st) (env_block ev) pid = Ok (v, i, outcome)"
    and fin: "try_finish_challenge sl ch (st\<lparr>simple_voting := v\<rparr>) outcome entry cid = Ok (st1, out)" by (rule count_run)
  from try_finish_Ok [OF fin] have v: "simple_voting st1 = v" by auto
  from count have i: "load (proposals_info v) pid = Some i" "pi_status i = Finished outcome" by (auto elim: count_votes_Ok)
  have "reachable (voting_start (sl_math sl)) (voting_step (sl_math sl)) (simple_voting st1)"
    using challenge_voting_reachable [OF assms(1)] challenge_execute_voting [OF assms(2)] by (rule reachable_rtranclp)
  then have "load (proposals_info (simple_voting st2)) pid = Some i"
    by (rule finished_run [OF _ challenge_run_voting [OF assms(3)]]) (simp_all add: v i)
  with pid assms(4) i(2) have "challenge_count_votes sl ch' ev' st2 cid \<noteq> Ok r" for r
    by (intro finished_not_counted [of _ _ pid i]) simp_all
  then show ?thesis by (cases "challenge_count_votes sl ch' ev' st2 cid") auto
qed

text \<open>A challenge whose last proposal is decided cannot be cancelled any more: the proposal is cancelled with the challenge,
  and only an active proposal can be.\<close>

lemma cancel_fails_after_vote:
  assumes "last_proposal st cid = Some pid" and "load (proposals_info (simple_voting st)) pid = Some i" and "pi_status i = Finished o'"
  shows "\<not> is_ok (cancel_challenge sl ch ev info st cid)"
proof -
  have "cancel_proposal cm (simple_voting st) b pid \<noteq> Ok r" for cm b r
    using assms(2,3) load_proposal_not_active [OF assms(2)] by (auto simp: cancel_proposal_def result_simps assert_active_Ok)
  then have "cancel_challenge sl ch ev info st cid \<noteq> Ok r" for r
    using assms(1) by (auto simp: cancel_challenge_def result_simps split: if_splits)
  then show ?thesis by (cases "cancel_challenge sl ch ev info st cid") auto
qed

text \<open>Whoever sends it, a change of the threshold and of the veto period is accepted.\<close>

lemma vote_config_unprotected:
  "\<exists>st'. challenge_execute sl ch ev info st (ChUpdateConfig c) = Ok (st', []) \<and> vs_config (simple_voting st') = Some c"
  by (simp add: update_vote_config_def)

section \<open>The shares\<close>

lemma unat_div_of_nat:
  assumes "0 < n" and "n < 2 ^ 128"
  shows "n * unat ((w :: u128) div of_nat n) \<le> unat w" and "unat w < n * (unat (w div of_nat n) + 1)"
proof -
  have "unat (w div of_nat n) = unat w div n" using assms(2) by (simp add: unat_div unat_of_nat)
  then show "n * unat (w div of_nat n) \<le> unat w" and "unat w < n * (unat (w div of_nat n) + 1)"
    using dividend_less_times_div [OF assms(1), of "unat w"] by (simp_all add: times_div_less_eq_dividend)
qed

text \<open>
  a strike that is split costs the account no more than the strike, and all of it but a remainder below one unit per friend:
  every friend is sent the same share.
\<close>

theorem split_strike_bounded:
  assumes "reachable (challenge_start sl) (challenge_step sl) st"
    and "load (challenge_friends st) cid = Some fs" and "strike_strategy entry = Split strike_amount"
    and "charge_penalty sl ch st entry fs = Ok out"
  shows "\<exists>(share :: u128) account msgs. out = [OnAccount account (Execute (concat msgs)) []]
    \<and> length fs * unat share \<le> unat strike_amount \<and> unat strike_amount < length fs * (unat share + 1)
    \<and> list_all2 (\<lambda>f m. \<exists>a. friend_addr ch st f = Ok a
        \<and> bank_transfer sl (app_ans_host ch st) [TransferAns \<lparr>aa_name = strike_asset entry, aa_amount = ucast share\<rparr>] a = Ok m) fs msgs"
  using assms(4)
proof (rule charge_penalty_Ok)
  fix account msgs
  let ?share = "strike_amount div of_nat (length fs)"
  assume "fs \<noteq> []" and out: "out = [OnAccount account (Execute (concat msgs)) []]"
    and all: "list_all2 (\<lambda>f m. \<exists>a. friend_addr ch st f = Ok a \<and> bank_transfer sl (app_ans_host ch st)
        [TransferAns \<lparr>aa_name = strike_asset entry, aa_amount = ucast (case strike_strategy entry of
           Split n \<Rightarrow> n div of_nat (length fs) | PerFriend n \<Rightarrow> n)\<rparr>] a = Ok m) fs msgs"
  moreover have "length fs < 2 ^ 128"
    using challenge.holds [OF assms(1)] assms(2) by (force simp: challenge_wf_def MAX_AMOUNT_OF_FRIENDS_def)
  ultimately show ?thesis
    using unat_div_of_nat [of "length fs" strike_amount] assms(3) by (intro exI [of _ ?share] exI [of _ account] exI [of _ msgs]) simp
qed

section \<open>A challenge lost\<close>

text \<open>The account \<open>''acct''\<close> bets 100 dollars with two friends; both vote for the penalty.\<close>

definition bet_lib :: "u256 sdk_lib" where
  "bet_lib = bank_lib (empty_ans\<lparr>asset_addresses := [(''usd'', ''nusd'')]\<rparr>)"

definition bet_at :: "u64 \<Rightarrow> env" where
  "bet_at t = \<lparr>env_contract = ''bet'', env_block = at_time t\<rparr>"

definition by_addr :: "addr \<Rightarrow> message_info" where
  "by_addr a = \<lparr>info_sender = a, info_funds = []\<rparr>"

definition bet_friends :: "friend list" where
  "bet_friends = [FriendAddr ''alice'' ''A'', FriendAddr ''bob'' ''B'']"

definition bet_request :: challenge_request where
  "bet_request = \<lparr>cr_name = ''run'', cr_strike_asset = ''usd'', cr_strike_strategy = Split 100, cr_description = None,
     challenge_duration_seconds = 10, cr_proposal_duration_seconds = 1, cr_strikes_limit = None, init_friends = bet_friends\<rparr>"

definition bet_config :: vote_config where
  "bet_config = \<lparr>vc_threshold = Majority, veto_duration_seconds = None\<rparr>"

definition bet_entry :: challenge_entry where
  "bet_entry = \<lparr>ce_name = ''run'', strike_asset = ''usd'', strike_strategy = Split 100, ce_description = [],
     ce_admin_strikes = \<lparr>num_strikes = 0, strikes_limit = 1\<rparr>, proposal_duration_seconds = 1, ce_end_timestamp = 10000000000\<rparr>"

definition bet_blank :: challenge_state where
  "bet_blank = \<lparr>ap_cw2 = None, ap_module_data = None, ap_account = Some ''acct'', ap_admin = Some (Some ''acct''),
     next_id = None, simple_voting = empty_voting, challenges = [], challenge_friends = [], challenge_proposals = []\<rparr>"

definition bet_new :: challenge_state where
  "bet_new = bet_blank\<lparr>next_id := Some 0, simple_voting := ballot_new\<lparr>vs_config := Some bet_config\<rparr>\<rparr>"

definition bet_set :: challenge_state where
  "bet_set = bet_new\<lparr>next_id := Some 1, challenges := [(1, bet_entry)], challenge_friends := [(1, bet_friends)]\<rparr>"

definition bet_info :: "u32 \<Rightarrow> proposal_info" where
  "bet_info n = \<lparr>total_voters = 2, votes_for = n, votes_against = 0, pi_status = Active, pi_config = bet_config, end_timestamp = 1000000000\<rparr>"

definition bet_voted :: "u32 \<Rightarrow> vote option \<Rightarrow> challenge_state" where
  "bet_voted n b = bet_set\<lparr>challenge_proposals := [((1, 1), ())], simple_voting := ballot_new\<lparr>vs_config := Some bet_config,
     next_proposal_id := Some 1, proposals_info := [(1, bet_info n)], proposals := [((1, ''alice''), Some in_favour), ((1, ''bob''), b)]\<rparr>\<rparr>"

definition bet_lost :: challenge_state where
  "bet_lost = (bet_voted 2 (Some in_favour))\<lparr>simple_voting := (simple_voting (bet_voted 2 (Some in_favour)))\<lparr>proposals_info :=
     [(1, (bet_info 2)\<lparr>pi_status := Finished Passed, end_timestamp := 2000000000\<rparr>)]\<rparr>\<rparr>"

lemmas bet_defs = bet_lib_def bet_at_def by_addr_def bet_friends_def bet_request_def bet_config_def bet_entry_def bet_blank_def
  bet_new_def bet_set_def bet_info_def bet_voted_def bet_lost_def ballot_new_def at_time_def in_favour_def

lemma bet_chain:
  assumes "ap_account (st :: challenge_state) = Some ''acct''"
  shows "app_abstract_registry admin_chain st = Ok ''reg''" and "\<exists>host. app_ans_host admin_chain st = Ok host"
  using assms by (simp_all add: app_abstract_registry_def app_ans_host_def app_code_def admin_chain_def abstract_code_id_def paid_chain_def
      registry_contract_new_def ans_host_new_def code_defs sample_chain_def)

lemma bet_set_step: "challenge_execute bet_lib admin_chain (bet_at 0) (by_addr ''acct'') bet_new (CreateChallenge bet_request) = Ok (bet_set, [])"
proof -
  have "validate_name ''run'' = Ok ()" "validate_description None = Ok ()" by code_simp+
  then show ?thesis
    by (simp add: create_challenge_def assert_challenge_admin_def assert_admin_def is_admin_def is_admin_custom_def
      assert_account_calling_to_as_admin_is_self_def bet_chain admin_chain_facts challenge_entry_new_def admin_strikes_new_def bet_defs MAX_AMOUNT_OF_FRIENDS_def
      bank_lib_def std_math_def checked_add_def Let_def)
qed

lemma not_an_account:
  "assert_account admin_chain ''reg'' ''alice'' = Err (RqFailedToQueryAccountId ''alice'')"
  "assert_account admin_chain ''reg'' ''bob'' = Err (RqFailedToQueryAccountId ''bob'')"
  by (simp_all add: admin_chain_def paid_chain_def sample_chain_def assert_account_def unchecked_account_id_def)

lemma bet_vote_steps:
  "challenge_execute bet_lib admin_chain (bet_at 0) (by_addr ''alice'') bet_set (CastVote 1 in_favour) = Ok (bet_voted 1 None, [])"
  "challenge_execute bet_lib admin_chain (bet_at 0) (by_addr ''bob'') (bet_voted 1 None) (CastVote 1 in_favour)
   = Ok (bet_voted 2 (Some in_favour), [])"
  by (simp_all add: challenge_cast_vote_def get_or_create_active_proposal_def last_proposal_def open_proposal_def load_challenge_def
      load_friends_def bet_chain assert_is_account_def not_an_account new_proposal_def cast_vote_def load_proposal_def
      assert_active_proposal_def vote_update_def checked_add_def voting_load_config_def proposal_new_def vote_err_def
      bet_defs bank_lib_def std_math_def load_def entries_where_def Let_def)

definition bet_penalty :: "module_msg list" where
  "bet_penalty = [OnAccount ''acct'' (Execute [BankSend ''alice'' [\<lparr>denom = ''usd'', amount = 50\<rparr>],
     BankSend ''bob'' [\<lparr>denom = ''usd'', amount = 50\<rparr>]]) []]"

lemma bet_lost_step:
  "challenge_execute bet_lib admin_chain (bet_at 2000000000) (by_addr ''carl'') (bet_voted 2 (Some in_favour)) (CountVotes 1)
   = Ok (bet_lost, bet_penalty)"
proof -
  obtain host where "app_ans_host admin_chain bet_lost = Ok host" using bet_chain(2) [of bet_lost] by (auto simp: bet_defs)
  then show ?thesis
  by (simp add: challenge_count_votes_def last_proposal_def load_challenge_def load_friends_def count_votes_def load_proposal_def
      vote_threshold_def finish_vote_def try_finish_challenge_def strike_def charge_penalty_def executor_execute_def
      executor_execute_with_funds_def execute_on_account_def module_account_def bank_transfer_def transfer_msgs_def
      resolve_ans_asset_def query_asset_def ans_raw_def checked_add_def vote_err_def bet_penalty_def
      bet_defs bank_lib_def std_math_def load_def entries_where_def Let_def word_le_nat_alt)
qed

lemma bet_reachable:
  "reachable (challenge_start bet_lib) (challenge_step bet_lib) (bet_voted 2 (Some in_favour))"
  "reachable (challenge_start bet_lib) (challenge_step bet_lib) bet_lost"
proof -
  have "challenge_instantiate bet_lib bet_blank bet_config = Ok (bet_new, [])"
    by (simp add: challenge_instantiate_def voting_instantiate_def empty_voting_def bet_defs)
  then have "challenge_start bet_lib bet_new"
    by (rule challenge_start.intros [rotated 4]) (simp_all add: bet_blank_def)
  then have "reachable (challenge_start bet_lib) (challenge_step bet_lib) bet_new" by (rule reach_start)
  then have "reachable (challenge_start bet_lib) (challenge_step bet_lib) bet_set"
    by (rule reach_step) (rule challenge_step.intros [OF bet_set_step])
  then have "reachable (challenge_start bet_lib) (challenge_step bet_lib) (bet_voted 1 None)"
    by (rule reach_step) (rule challenge_step.intros [OF bet_vote_steps(1)])
  then show v: "reachable (challenge_start bet_lib) (challenge_step bet_lib) (bet_voted 2 (Some in_favour))"
    by (rule reach_step) (rule challenge_step.intros [OF bet_vote_steps(2)])
  then show "reachable (challenge_start bet_lib) (challenge_step bet_lib) bet_lost"
    by (rule reach_step) (rule challenge_step.intros [OF bet_lost_step])
qed

lemma bet_facts:
  "sl_math bet_lib = std_math" "load (challenge_friends bet_lost) 1 = Some bet_friends"
  "last_proposal bet_lost 1 = Some 1" "last_proposal (bet_voted 2 (Some in_favour)) 1 = Some 1"
  by (simp_all add: bet_defs bank_lib_def last_proposal_def entries_where_def)

theorem challenge_refines_voting_witness:
  "reachable (voting_start std_math) (voting_step std_math) (simple_voting bet_lost)"
  using challenge_refines_voting [OF bet_reachable(2)] by (simp add: bet_facts)

theorem penalty_needs_passed_vote_witness:
  "\<exists>i. load (proposals_info (simple_voting (bet_voted 2 (Some in_favour)))) 1 = Some i
    \<and> needed_votes i \<le> card (votes_cast (simple_voting (bet_voted 2 (Some in_favour))) 1 True)"
proof -
  have "math_laws (sl_math bet_lib)" by (simp add: bet_facts std_math_laws)
  from penalty_needs_passed_vote [OF this bet_reachable(1) bet_lost_step] show ?thesis
    by (auto simp: bet_penalty_def bet_facts)
qed

theorem challenge_friends_bounded_witness: "length bet_friends < 20"
  using challenge_friends_bounded [OF bet_reachable(2) bet_facts(2)] .

lemma bet_edit_step:
  "challenge_execute bet_lib admin_chain (bet_at 2000000000) (by_addr ''acct'') bet_lost
     (UpdateFriendsForChallenge 1 [FriendAddr ''bob'' ''B''] RemoveFriends)
   = Ok (bet_lost\<lparr>challenge_friends := [(1, [FriendAddr ''alice'' ''A''])]\<rparr>, [])"
  by (simp add: update_friends_for_challenge_def assert_challenge_admin_def assert_admin_def is_admin_def is_admin_custom_def
      assert_account_calling_to_as_admin_is_self_def bet_chain admin_chain_facts last_proposal_def load_proposal_def
      vote_err_def bet_defs load_def entries_where_def Let_def)

theorem friends_frozen_during_vote_witness:
  "\<exists>i. load_proposal std_math (simple_voting bet_lost) (at_time 2000000000) 1 = Ok i \<and> end_timestamp i \<le> 2000000000"
  using friends_frozen_during_vote [OF bet_reachable(2) bet_edit_step bet_facts(2)]
  by (auto simp: bet_facts bet_friends_def bet_at_def at_time_def)

theorem penalty_once_per_proposal_witness:
  "\<not> is_ok (challenge_execute bet_lib admin_chain (bet_at 2000000000) (by_addr ''carl'') bet_lost (CountVotes 1))"
  using penalty_once_per_proposal [OF bet_reachable(1) bet_lost_step rtranclp.rtrancl_refl] by (simp add: bet_facts)

theorem split_strike_bounded_witness:
  "\<exists>share :: u128. 2 * unat share \<le> 100 \<and> 100 < 2 * (unat share + 1)"
proof -
  obtain host where "app_ans_host admin_chain bet_lost = Ok host" using bet_chain(2) [of bet_lost] by (auto simp: bet_defs)
  then have "charge_penalty bet_lib admin_chain bet_lost bet_entry bet_friends = Ok bet_penalty"
    by (simp add: charge_penalty_def executor_execute_def executor_execute_with_funds_def execute_on_account_def module_account_def
        bank_transfer_def transfer_msgs_def resolve_ans_asset_def query_asset_def ans_raw_def bet_penalty_def bet_defs bank_lib_def
        load_def Let_def)
  from split_strike_bounded [OF bet_reachable(2) bet_facts(2) _ this, of 100] obtain share :: u128
    where "length bet_friends * unat share \<le> unat (100 :: u128)" "unat (100 :: u128) < length bet_friends * (unat share + 1)"
    by (auto simp: bet_entry_def)
  then show ?thesis by (intro exI [of _ share]) (simp add: bet_friends_def)
qed

end
