(* ===== verification/Twa.thy ===== *)
theory Twa
  imports Module_Base Voting
begin

text \<open>
  The time weighted average of \<open>objects/time_weighted_average.rs\<close>: a running sum of a value over time in a
  128-bit counter that wraps around, and the average of the value over a period. The stored item is an argument, absent
  before it is set. Decimals and timestamps of \<open>cosmwasm_std\<close> are the parameter \<open>decimal_lib\<close>; \<open>None\<close> is an abort.

  Theorems: the average is the exact time integral of the value divided by the time that has passed, even when the counter
  has wrapped, and it does not exceed the greatest value.
\<close>

record decimal_lib =
  dl_math :: cosmwasm_math
  dl_seconds :: "timestamp \<Rightarrow> u64"
  dl_minus_seconds :: "timestamp \<Rightarrow> u64 \<Rightarrow> timestamp option"
  dl_from_ratio :: "u128 \<Rightarrow> u64 \<Rightarrow> decimal option"
  dl_decimal_mul :: "decimal \<Rightarrow> decimal \<Rightarrow> decimal option"
  dl_from_atomics :: "u128 \<Rightarrow> u32 \<Rightarrow> decimal option"
  dl_mul_ceil :: "u128 \<Rightarrow> decimal \<Rightarrow> u128 option"
  dl_div_floor :: "u128 \<Rightarrow> decimal \<Rightarrow> u128 option"

section \<open>Operations\<close>

definition DEFAULT_PRECISION :: u8 where "DEFAULT_PRECISION = 6"

record twa_data =
  twa_precision :: u8
  last_block_time :: timestamp
  cumulative_value :: u128
  last_averaging_block_time :: timestamp
  last_averaging_block_height :: u64
  last_averaging_cumulative_value :: u128
  averaging_period :: u64
  average_value :: decimal

type_synonym 'a abs_result = "('a, abstract_error) result"

definition twa_instantiate :: "decimal_lib \<Rightarrow> env \<Rightarrow> u8 option \<Rightarrow> u64 \<Rightarrow> twa_data" where
  "twa_instantiate dl ev prec period =
     (let block_time = time (env_block ev)
      in \<lparr>twa_precision = (case prec of Some p \<Rightarrow> p | None \<Rightarrow> DEFAULT_PRECISION),
          last_block_time = block_time, cumulative_value = 0,
          last_averaging_block_time = block_time, last_averaging_block_height = height (env_block ev),
          last_averaging_cumulative_value = 0, averaging_period = period, average_value = decimal_zero (dl_math dl)\<rparr>)"

definition twa_load :: "twa_data option \<Rightarrow> twa_data abs_result" where
  "twa_load item = ok_or (AbsStd (StdNotFound ''twa'')) item"

definition twa_accumulate ::
  "decimal_lib \<Rightarrow> env \<Rightarrow> twa_data option \<Rightarrow> decimal \<Rightarrow> (twa_data \<times> u128 option) abs_result" where
  "twa_accumulate dl ev item current_value =
     and_then (twa_load item) (\<lambda>twa.
     let block_time = time (env_block ev)
     in if block_time \<le> last_block_time twa then Ok (twa, None)
        else
        and_then (unwrap (checked_sub (dl_seconds dl block_time) (dl_seconds dl (last_block_time twa)))) (\<lambda>elapsed.
        let time_elapsed = (ucast elapsed :: u128);
            twa = twa\<lparr>last_block_time := block_time\<rparr>
        in and_then (if current_value \<noteq> decimal_zero (dl_math dl) then
               and_then (unwrap (mul_floor (dl_math dl) time_elapsed current_value)) (\<lambda>v.
               Ok (twa\<lparr>cumulative_value := cumulative_value twa + v\<rparr>))
             else Ok twa) (\<lambda>twa.
           Ok (twa, Some (cumulative_value twa)))))"

definition twa_get_value :: "twa_data option \<Rightarrow> decimal abs_result" where
  "twa_get_value item = map_ok average_value (twa_load item)"

definition twa_try_update_value :: "decimal_lib \<Rightarrow> env \<Rightarrow> twa_data option \<Rightarrow> (twa_data \<times> decimal option) abs_result" where
  "twa_try_update_value dl ev item =
     and_then (twa_load item) (\<lambda>twa.
     let block_time = time (env_block ev)
     in and_then (unwrap (checked_sub (dl_seconds dl block_time) (dl_seconds dl (last_averaging_block_time twa)))) (\<lambda>time_elapsed.
        if time_elapsed < averaging_period twa then Ok (twa, None)
        else
        and_then (unwrap (dl_from_ratio dl (cumulative_value twa - last_averaging_cumulative_value twa) time_elapsed))
          (\<lambda>new_average_value.
        Ok (twa\<lparr>average_value := new_average_value, last_averaging_block_time := block_time,
             last_averaging_cumulative_value := cumulative_value twa\<rparr>, Some new_average_value))))"

definition twa_update_settings :: "twa_data option \<Rightarrow> u64 \<Rightarrow> twa_data abs_result" where
  "twa_update_settings item period = map_ok (\<lambda>twa. twa\<lparr>averaging_period := period\<rparr>) (twa_load item)"

definition twa_needs_refresh :: "decimal_lib \<Rightarrow> env \<Rightarrow> twa_data \<Rightarrow> bool abs_result" where
  "twa_needs_refresh dl ev twa =
     and_then (unwrap (checked_sub (dl_seconds dl (time (env_block ev))) (dl_seconds dl (last_averaging_block_time twa))))
       (\<lambda>time_elapsed. Ok (time_elapsed \<ge> averaging_period twa))"

section \<open>Documented behaviour of the libraries\<close>

text \<open>Decimals have 18 digits after the point and round down, \<open>checked_mul_ceil\<close> rounds up; a ratio with a zero
  denominator and every result that does not fit abort. Timestamps are nanoseconds.\<close>

definition fits_u128 :: "nat \<Rightarrow> u128 option" where
  "fits_u128 n = (if n < 2 ^ 128 then Some (of_nat n) else None)"

definition decimal_laws :: "decimal_lib \<Rightarrow> bool" where
  "decimal_laws dl \<longleftrightarrow> math_laws (dl_math dl)
     \<and> (\<forall>t. unat (dl_seconds dl t) = unat t div 10 ^ 9)
     \<and> (\<forall>t s. dl_minus_seconds dl t s = (if unat s * 10 ^ 9 \<le> unat t then Some (of_nat (unat t - unat s * 10 ^ 9)) else None))
     \<and> (\<forall>n d. dl_from_ratio dl n d = (if d = 0 then None else fits_u128 (unat n * 10 ^ 18 div unat d)))
     \<and> (\<forall>a b. dl_decimal_mul dl a b = fits_u128 (unat a * unat b div 10 ^ 18))
     \<and> (\<forall>n. dl_from_atomics dl n 0 = fits_u128 (unat n * 10 ^ 18))
     \<and> (\<forall>n d. dl_mul_ceil dl n d = fits_u128 ((unat n * unat d + (10 ^ 18 - 1)) div 10 ^ 18))
     \<and> (\<forall>n d. dl_div_floor dl n d = (if d = 0 then None else fits_u128 (unat n * 10 ^ 18 div unat d)))"

lemma fits_u128_Some: "fits_u128 n = Some w \<longleftrightarrow> n < 2 ^ 128 \<and> unat w = n"
  by (auto simp: fits_u128_def unat_of_nat word_unat_eq_iff)

lemma unat_u128: "unat (w :: u128) < 2 ^ 128"
  using unsigned_less [of w] by simp

lemma mul_floor_Some:
  assumes "decimal_laws dl"
  shows "mul_floor (dl_math dl) n d = Some w \<longleftrightarrow> unat n * unat d div 10 ^ 18 < 2 ^ 128 \<and> unat w = unat n * unat d div 10 ^ 18"
  using assms by (auto simp: decimal_laws_def math_laws_def unat_of_nat word_unat_eq_iff)

lemma unat_widen64: "unat (ucast (w :: u64) :: u128) = unat w"
  by (simp add: unsigned_ucast_eq take_bit_nat_eq_self less_trans [OF unat_u64])

section \<open>The integral\<close>

text \<open>The sum the counter should have: every value counts for the full seconds from the last update to its own.\<close>

fun accrued :: "nat \<Rightarrow> (env \<times> decimal) list \<Rightarrow> nat" where
  "accrued l [] = 0"
| "accrued l ((ev, v) # us) =
     (let t = unat (time (env_block ev))
      in if t \<le> l then accrued l us else (t div 10 ^ 9 - l div 10 ^ 9) * unat v div 10 ^ 18 + accrued t us)"

fun last_time :: "nat \<Rightarrow> (env \<times> decimal) list \<Rightarrow> nat" where
  "last_time l [] = l"
| "last_time l ((ev, v) # us) = last_time (max l (unat (time (env_block ev)))) us"

fun twa_run :: "decimal_lib \<Rightarrow> twa_data \<Rightarrow> (env \<times> decimal) list \<Rightarrow> twa_data abs_result" where
  "twa_run dl twa [] = Ok twa"
| "twa_run dl twa ((ev, v) # us) = and_then (twa_accumulate dl ev (Some twa) v) (\<lambda>(twa, _). twa_run dl twa us)"

text \<open>One update: either nothing changes, or the counter grows, modulo its width, by the share of the value.\<close>

lemma twa_accumulate_Ok:
  assumes "decimal_laws dl" and "twa_accumulate dl ev (Some twa) v = Ok (twa', r)"
  shows "if unat (time (env_block ev)) \<le> unat (last_block_time twa) then twa' = twa
    else \<exists>w. unat w = (unat (time (env_block ev)) div 10 ^ 9 - unat (last_block_time twa) div 10 ^ 9) * unat v div 10 ^ 18
      \<and> twa' = twa\<lparr>last_block_time := time (env_block ev), cumulative_value := cumulative_value twa + w\<rparr>"
proof (cases "time (env_block ev) \<le> last_block_time twa")
  case True
  with assms(2) show ?thesis by (simp add: twa_accumulate_def twa_load_def word_le_nat_alt)
next
  case False
  from assms(1) have z: "decimal_zero (dl_math dl) = 0" and s: "unat (dl_seconds dl t) = unat t div 10 ^ 9" for t
    by (simp_all add: decimal_laws_def math_laws_def)
  from assms(2) False obtain e where e: "checked_sub (dl_seconds dl (time (env_block ev))) (dl_seconds dl (last_block_time twa)) = Some e"
    and upd: "(if v \<noteq> 0 then \<exists>w. mul_floor (dl_math dl) (ucast e) v = Some w
          \<and> twa' = twa\<lparr>last_block_time := time (env_block ev), cumulative_value := cumulative_value twa + w\<rparr>
        else twa' = twa\<lparr>last_block_time := time (env_block ev)\<rparr>)"
    by (auto simp: twa_accumulate_def twa_load_def z result_simps Let_def split: if_splits)
  from e have "unat e = unat (time (env_block ev)) div 10 ^ 9 - unat (last_block_time twa) div 10 ^ 9"
    by (auto simp: checked_sub_Some s)
  moreover have "unat (ucast e :: u128) = unat e" by (rule unat_widen64)
  ultimately have "\<exists>w. unat w = (unat (time (env_block ev)) div 10 ^ 9 - unat (last_block_time twa) div 10 ^ 9) * unat v div 10 ^ 18
      \<and> twa' = twa\<lparr>last_block_time := time (env_block ev), cumulative_value := cumulative_value twa + w\<rparr>"
    using upd by (cases "v = 0") (auto simp: mul_floor_Some [OF assms(1)] intro: exI [of _ 0])
  with False show ?thesis by (simp add: word_le_nat_alt)
qed

lemma twa_run_Ok:
  assumes "decimal_laws dl" and "twa_run dl twa us = Ok twa'"
  shows "\<exists>t. unat t = last_time (unat (last_block_time twa)) us
    \<and> twa' = twa\<lparr>last_block_time := t, cumulative_value := cumulative_value twa + of_nat (accrued (unat (last_block_time twa)) us)\<rparr>"
  using assms(2)
proof (induction us arbitrary: twa)
  case (Cons u us)
  obtain ev v where u: "u = (ev, v)" by (cases u)
  from Cons.prems obtain twa1 r where acc: "twa_accumulate dl ev (Some twa) v = Ok (twa1, r)" and run: "twa_run dl twa1 us = Ok twa'"
    by (auto simp: u result_simps)
  let ?t = "unat (time (env_block ev))" and ?l = "unat (last_block_time twa)"
  show ?case
  proof (cases "?t \<le> ?l")
    case True
    with twa_accumulate_Ok [OF assms(1) acc] Cons.IH [OF run] show ?thesis by (simp add: u)
  next
    case False
    with twa_accumulate_Ok [OF assms(1) acc] obtain w where w: "unat w = (?t div 10 ^ 9 - ?l div 10 ^ 9) * unat v div 10 ^ 18"
      and twa1: "twa1 = twa\<lparr>last_block_time := time (env_block ev), cumulative_value := cumulative_value twa + w\<rparr>" by auto
    have "of_nat (accrued ?l (u # us)) = w + of_nat (accrued ?t us)"
      using False by (simp only: u accrued.simps Let_def if_False of_nat_add flip: w) simp
    with Cons.IH [OF run] twa1 False show ?thesis by (simp add: u add.assoc max_def)
  qed
qed auto

text \<open>Values no greater than \<open>V\<close> accrue no more than \<open>V\<close> does over the whole time.\<close>

lemma accrued_le:
  assumes "list_all (\<lambda>(ev, v). unat v \<le> V) us"
  shows "accrued l us * 10 ^ 18 \<le> (last_time l us div 10 ^ 9 - l div 10 ^ 9) * V \<and> l \<le> last_time l us"
  using assms
proof (induction us arbitrary: l)
  case (Cons u us)
  obtain ev v where u: "u = (ev, v)" by (cases u)
  let ?t = "unat (time (env_block ev))"
  show ?case
  proof (cases "?t \<le> l")
    case True
    with Cons show ?thesis by (simp add: u max_def)
  next
    case False
    have IH: "accrued ?t us * 10 ^ 18 \<le> (last_time ?t us div 10 ^ 9 - ?t div 10 ^ 9) * V" and le: "?t \<le> last_time ?t us"
      using Cons by (simp_all add: u)
    let ?d = "?t div 10 ^ 9 - l div 10 ^ 9"
    have "?d * unat v div 10 ^ 18 * 10 ^ 18 \<le> ?d * unat v" by simp
    also have "\<dots> \<le> ?d * V" using Cons.prems by (simp add: u)
    finally have "?d * unat v div 10 ^ 18 * 10 ^ 18 \<le> ?d * V" .
    moreover have "last_time ?t us div 10 ^ 9 - l div 10 ^ 9 = (last_time ?t us div 10 ^ 9 - ?t div 10 ^ 9) + ?d"
      using False le div_le_mono [of l ?t "10 ^ 9"] div_le_mono [of ?t "last_time ?t us" "10 ^ 9"] by simp
    ultimately show ?thesis using IH le False
      by (simp add: u Let_def max_def add_mult_distrib)
  qed
qed simp

section \<open>The average\<close>

text \<open>The counter may wrap: what counts is that the integral since the last average fits.\<close>

lemma twa_update_Ok:
  assumes "decimal_laws dl" and "twa_try_update_value dl ev (Some twa) = Ok (twa', Some avg)"
  shows "averaging_period twa \<le> dl_seconds dl (time (env_block ev)) - dl_seconds dl (last_averaging_block_time twa)"
    and "unat (last_averaging_block_time twa) div 10 ^ 9 < unat (time (env_block ev)) div 10 ^ 9"
    and "unat avg = unat (cumulative_value twa - last_averaging_cumulative_value twa) * 10 ^ 18
      div (unat (time (env_block ev)) div 10 ^ 9 - unat (last_averaging_block_time twa) div 10 ^ 9)"
proof -
  let ?now = "dl_seconds dl (time (env_block ev))" and ?last = "dl_seconds dl (last_averaging_block_time twa)"
  from assms(1) have s: "unat (dl_seconds dl t) = unat t div 10 ^ 9" for t by (simp add: decimal_laws_def)
  from assms(2) obtain e where e: "checked_sub ?now ?last = Some e" "\<not> e < averaging_period twa"
    and r: "dl_from_ratio dl (cumulative_value twa - last_averaging_cumulative_value twa) e = Some avg"
    by (auto simp: twa_try_update_value_def twa_load_def result_simps Let_def split: if_splits)
  from r assms(1) have nz: "e \<noteq> 0" and avg: "unat avg = unat (cumulative_value twa - last_averaging_cumulative_value twa) * 10 ^ 18 div unat e"
    by (auto simp: decimal_laws_def fits_u128_Some split: if_splits)
  from e(1) have ue: "unat ?now = unat ?last + unat e" by (simp add: checked_sub_Some)
  from e show "averaging_period twa \<le> ?now - ?last" by (auto simp: checked_sub_def split: if_splits)
  from nz have "unat e \<noteq> 0" by (simp add: unat_eq_0)
  with ue show "unat (last_averaging_block_time twa) div 10 ^ 9 < unat (time (env_block ev)) div 10 ^ 9" by (simp add: s)
  from ue avg show "unat avg = unat (cumulative_value twa - last_averaging_cumulative_value twa) * 10 ^ 18
      div (unat (time (env_block ev)) div 10 ^ 9 - unat (last_averaging_block_time twa) div 10 ^ 9)" by (simp add: s)
qed


text \<open>
  an average is never greater than the greatest value that was in effect, if no time before the last average is
  counted again: the running sum was up to date when the last average was taken.
\<close>

theorem twa_average_bounded:
  assumes "decimal_laws dl" and "twa_run dl twa us = Ok twa1"
    and "cumulative_value twa = last_averaging_cumulative_value twa"
    and "last_averaging_block_time twa \<le> last_block_time twa"
    and "list_all (\<lambda>(ev, v). unat v \<le> V) us" and "last_block_time twa1 \<le> time (env_block ev)"
    and "twa_try_update_value dl ev (Some twa1) = Ok (twa2, Some avg)"
  shows "unat avg \<le> V"
proof -
  let ?l = "unat (last_block_time twa)" and ?a = "unat (last_averaging_block_time twa)" and ?t = "unat (time (env_block ev))"
  let ?n = "accrued ?l us" and ?e = "?t div 10 ^ 9 - ?a div 10 ^ 9"
  from twa_run_Ok [OF assms(1,2)] obtain t where t: "unat t = last_time ?l us"
    and twa1: "twa1 = twa\<lparr>last_block_time := t, cumulative_value := cumulative_value twa + of_nat ?n\<rparr>" by blast
  have "last_time ?l us \<le> ?t" using assms(6) t twa1 by (simp add: word_le_nat_alt)
  then have "last_time ?l us div 10 ^ 9 - ?l div 10 ^ 9 \<le> ?e"
    using assms(4) unfolding word_le_nat_alt by (rule order_trans [OF diff_le_mono [OF div_le_mono] diff_le_mono2 [OF div_le_mono]])
  then have "(last_time ?l us div 10 ^ 9 - ?l div 10 ^ 9) * V \<le> ?e * V" by (rule mult_le_mono1)
  then have "?n * 10 ^ 18 \<le> ?e * V" by (rule order_trans [OF conjunct1 [OF accrued_le [OF assms(5)]]])
  moreover have "unat (of_nat ?n :: u128) \<le> ?n" by (simp add: unat_of_nat)
  then have "unat (of_nat ?n :: u128) * 10 ^ 18 \<le> ?n * 10 ^ 18" by (rule mult_le_mono1)
  ultimately have "unat (of_nat ?n :: u128) * 10 ^ 18 \<le> ?e * V" by (rule order_trans [rotated])
  moreover have "unat avg = unat (of_nat ?n :: u128) * 10 ^ 18 div ?e" and "0 < ?e"
    using twa_update_Ok(2,3) [OF assms(1,7)] by (simp_all add: twa1 assms(3))
  ultimately show ?thesis by (metis div_le_mono nonzero_mult_div_cancel_left not_gr_zero)
qed

text \<open>Averaging does not bring the running sum up to date: without an update in the period the average is zero, whatever the
  value was.\<close>

lemma twa_average_without_update:
  assumes "decimal_laws dl" and "cumulative_value twa = last_averaging_cumulative_value twa"
    and "twa_try_update_value dl ev (Some twa) = Ok (twa', Some avg)"
  shows "avg = 0"
  using twa_update_Ok(3) [OF assms(1,3)] assms(2) by (simp add: unat_eq_0)

section \<open>Witnesses\<close>

definition std_decimal :: decimal_lib where
  "std_decimal = \<lparr>dl_math = std_math, dl_seconds = (\<lambda>t. t div 10 ^ 9),
     dl_minus_seconds = (\<lambda>t s. if unat s * 10 ^ 9 \<le> unat t then Some (of_nat (unat t - unat s * 10 ^ 9)) else None),
     dl_from_ratio = (\<lambda>n d. if d = 0 then None else fits_u128 (unat n * 10 ^ 18 div unat d)),
     dl_decimal_mul = (\<lambda>a b. fits_u128 (unat a * unat b div 10 ^ 18)),
     dl_from_atomics = (\<lambda>n p. if p = 0 then fits_u128 (unat n * 10 ^ 18) else None),
     dl_mul_ceil = (\<lambda>n d. fits_u128 ((unat n * unat d + (10 ^ 18 - 1)) div 10 ^ 18)),
     dl_div_floor = (\<lambda>n d. if d = 0 then None else fits_u128 (unat n * 10 ^ 18 div unat d))\<rparr>"

lemma std_decimal_laws: "decimal_laws std_decimal"
  by (simp add: decimal_laws_def std_decimal_def std_math_laws unat_div)

definition twa_at :: "u64 \<Rightarrow> env" where
  "twa_at s = \<lparr>env_contract = ''twa'', env_block = at_time (s * 10 ^ 9)\<rparr>"

text \<open>Two for ten seconds, then four for ten seconds, in a counter that is about to wrap.\<close>

definition twa_full :: twa_data where
  "twa_full = (twa_instantiate std_decimal (twa_at 0) None 20)\<lparr>cumulative_value := - 5, last_averaging_cumulative_value := - 5\<rparr>"

definition twa_values :: "(env \<times> decimal) list" where
  "twa_values = [(twa_at 10, 2 * 10 ^ 18), (twa_at 20, 4 * 10 ^ 18)]"

lemmas twa_defs = twa_full_def twa_values_def twa_instantiate_def twa_at_def at_time_def std_decimal_def std_math_def

lemma twa_full_run:
  "twa_run std_decimal twa_full twa_values = Ok (twa_full\<lparr>last_block_time := 20000000000, cumulative_value := 55\<rparr>)"
  "twa_try_update_value std_decimal (twa_at 20) (Some (twa_full\<lparr>last_block_time := 20000000000, cumulative_value := 55\<rparr>))
   = Ok (twa_full\<lparr>last_block_time := 20000000000, cumulative_value := 55, average_value := 3000000000000000000,
       last_averaging_block_time := 20000000000, last_averaging_cumulative_value := 55\<rparr>, Some 3000000000000000000)"
  by (simp_all add: twa_accumulate_def twa_try_update_value_def twa_load_def twa_defs fits_u128_def checked_sub_def Let_def)


theorem twa_average_bounded_witness: "unat (3000000000000000000 :: decimal) \<le> 4 * 10 ^ 18"
proof (rule twa_average_bounded [OF std_decimal_laws twa_full_run(1) _ _ _ _ twa_full_run(2)])
  show "list_all (\<lambda>(ev, v). unat v \<le> 4 * 10 ^ 18) twa_values" by (simp add: twa_values_def)
qed (simp_all add: twa_defs)

end
