(* ===== verification/Subscription.thy ===== *)
theory Subscription
  imports Sdk_Apis Twa
begin

text \<open>
  The subscription app (\<open>modules/contracts/apps/subscription\<close>): users pay per second in advance, the income is averaged
  over time, and subscribers can receive emissions of a token. Attributes of responses are left out.

  \<open>Asset\<close> of \<open>cw_asset\<close> has a 128-bit amount here. \<open>sub_lib\<close> holds what the app takes from \<open>cw_asset\<close>, \<open>cosmwasm_std\<close> and
  the JSON library: the check of an asset, the asset of a cw20 contract, the text of an asset, the parser of a cw20 hook and
  the encoding of the unsubscribe hook.
\<close>

record sub_lib =
  sb_sdk :: "u128 sdk_lib"
  sb_dec :: decimal_lib
  sb_check :: asset_checker
  sb_cw20 :: "addr \<Rightarrow> asset_info"
  sb_hook_of_json :: "binary \<Rightarrow> (string option, std_error) result"
  sb_unsubscribed_json :: "string list \<Rightarrow> binary"

section \<open>Data (state.rs, msg.rs, error.rs)\<close>

datatype emission_type =
    NoEmissions
  | SecondShared decimal asset_info
  | SecondPerUser decimal asset_info

record subscription_config =
  payment_asset :: asset_info
  subscription_cost_per_second :: decimal
  subscription_per_second_emissions :: emission_type
  unsubscribe_hook_addr :: "addr option"

record subscriber =
  expiration_timestamp :: timestamp
  last_emission_claim_timestamp :: timestamp

datatype subscription_error =
    SubAdmin admin_error
  | SubAsset string
  | SubDecimal
  | CheckedMultiplyFraction
  | WrongToken asset_info
  | NotUsingCW20Hook
  | EmissionsAlreadyClaimed
  | InsufficientPayment u128 asset_info
  | SubscriberEmissionsNotEnabled
  | NoOneUnsubbed
  | TooManyUnsubs
  | ZeroAveragePeriod

record subscription_instantiate_msg =
  si_payment_asset :: string
  si_cost_per_second :: decimal
  si_emissions :: emission_type
  si_averaging_period :: u64
  si_hook_addr :: "string option"

datatype subscription_execute_msg =
    Pay "string option"
  | Unsubscribe "string list"
  | ClaimEmissions string
  | UpdateSubscriptionConfig "string option" "decimal option" "emission_type option" "string clearable option"
  | RefreshTWA

text \<open>\<open>Cw20ReceiveMsg\<close>, and the messages of the custom handler that are not those of the base.\<close>

record cw20_receive_msg =
  cw20_sender :: string
  cw20_amount :: u128
  cw20_msg :: binary

datatype subscription_custom_msg = SubModule subscription_execute_msg | Receive cw20_receive_msg

record subscription_state = app_state +
  sub_config :: "subscription_config option"
  active_subs :: "u32 option"
  subscribers :: "(addr, subscriber) store"
  expired_subscribers :: "(addr, subscriber) store"
  income_twa :: "twa_data option"

type_synonym 'a sub_result = "('a, subscription_error) module_result"
type_synonym sub_out = "subscription_state module_out"

definition MAX_UNSUBS :: nat where "MAX_UNSUBS = 15"

definition emission_check :: "sub_lib \<Rightarrow> emission_type \<Rightarrow> emission_type abs_result" where
  "emission_check sb e =
     (case e of
        NoEmissions \<Rightarrow> Ok NoEmissions
      | SecondShared d a \<Rightarrow> and_then (map_err AbsAsset (sb_check sb a)) (\<lambda>a. Ok (SecondShared d a))
      | SecondPerUser d a \<Rightarrow> and_then (map_err AbsAsset (sb_check sb a)) (\<lambda>a. Ok (SecondPerUser d a)))"

definition subscriber_new :: "sub_lib \<Rightarrow> block_info \<Rightarrow> u64 \<Rightarrow> subscriber sub_result" where
  "subscriber_new sb block paid_for_seconds =
     and_then (unwrap (plus_seconds (dl_math (sb_dec sb)) (time block) paid_for_seconds)) (\<lambda>t.
     Ok \<lparr>expiration_timestamp = t, last_emission_claim_timestamp = time block\<rparr>)"

definition subscriber_extend :: "sub_lib \<Rightarrow> subscriber \<Rightarrow> u64 \<Rightarrow> subscriber sub_result" where
  "subscriber_extend sb s paid_for_seconds =
     and_then (unwrap (plus_seconds (dl_math (sb_dec sb)) (expiration_timestamp s) paid_for_seconds)) (\<lambda>t.
     Ok (s\<lparr>expiration_timestamp := t\<rparr>))"

definition is_expired :: "subscriber \<Rightarrow> block_info \<Rightarrow> bool" where
  "is_expired s block \<longleftrightarrow> time block \<ge> expiration_timestamp s"

section \<open>Handlers\<close>

definition load_sub_config :: "subscription_state \<Rightarrow> subscription_config sub_result" where
  "load_sub_config st = ok_or (ModStd (StdNotFound ''config'')) (sub_config st)"

definition load_active_subs :: "subscription_state \<Rightarrow> u32 sub_result" where
  "load_active_subs st = ok_or (ModStd (StdNotFound ''state'')) (active_subs st)"

definition load_subscriber :: "subscription_state \<Rightarrow> addr \<Rightarrow> subscriber sub_result" where
  "load_subscriber st a = ok_or (ModStd (StdNotFound ''subs'')) (load (subscribers st) a)"

definition subscription_instantiate ::
  "sub_lib \<Rightarrow> chain \<Rightarrow> env \<Rightarrow> subscription_state \<Rightarrow> subscription_instantiate_msg \<Rightarrow> sub_out sub_result" where
  "subscription_instantiate sb ch ev st msg =
     and_then (map_err (\<lambda>e. ModCustom (SubAsset e)) (sb_check sb (si_payment_asset msg))) (\<lambda>payment.
     and_then (map_err ModAbstract (emission_check sb (si_emissions msg))) (\<lambda>emissions.
     and_then (case si_hook_addr msg of
         Some human \<Rightarrow> and_then (map_err ModStd (q_addr_validate ch human)) (\<lambda>a. Ok (Some a))
       | None \<Rightarrow> Ok None) (\<lambda>hook.
     let config = \<lparr>payment_asset = payment, subscription_cost_per_second = si_cost_per_second msg,
           subscription_per_second_emissions = emissions, unsubscribe_hook_addr = hook\<rparr>;
         st = st\<lparr>sub_config := Some config, active_subs := Some 0\<rparr>
     in and_then (ensure (si_averaging_period msg \<noteq> 0) (ModCustom ZeroAveragePeriod)) (\<lambda>_.
        Ok (st\<lparr>income_twa := Some (twa_instantiate (sb_dec sb) ev None (si_averaging_period msg))\<rparr>, [])))))"

text \<open>The income per second: the number of subscribers, as a decimal, times the cost.\<close>

definition income :: "sub_lib \<Rightarrow> u32 \<Rightarrow> subscription_config \<Rightarrow> decimal sub_result" where
  "income sb n config =
     and_then (ok_or (ModCustom SubDecimal) (dl_from_atomics (sb_dec sb) (ucast n) 0)) (\<lambda>d.
     unwrap (dl_decimal_mul (sb_dec sb) d (subscription_cost_per_second config)))"

definition accumulate_income ::
  "sub_lib \<Rightarrow> env \<Rightarrow> u32 \<Rightarrow> subscription_config \<Rightarrow> subscription_state \<Rightarrow> subscription_state sub_result" where
  "accumulate_income sb ev n config st =
     and_then (income sb n config) (\<lambda>v.
     and_then (map_err ModAbstract (twa_accumulate (sb_dec sb) ev (income_twa st) v)) (\<lambda>(twa, _).
     Ok (st\<lparr>income_twa := Some twa\<rparr>)))"

definition book_payment ::
  "sub_lib \<Rightarrow> env \<Rightarrow> subscription_state \<Rightarrow> subscription_config \<Rightarrow> u128 asset \<Rightarrow> u128 \<Rightarrow> u64 \<Rightarrow> addr
   \<Rightarrow> subscription_state sub_result" where
  "book_payment sb ev st config ast required_payment paid_for_seconds subscriber_addr =
     (case load (subscribers st) subscriber_addr of
        Some active_sub \<Rightarrow>
          and_then (subscriber_extend sb active_sub paid_for_seconds) (\<lambda>active_sub.
          Ok (st\<lparr>subscribers := save subscriber_addr active_sub (subscribers st)\<rparr>))
      | None \<Rightarrow>
          if as_amount ast < required_payment
          then Err (ModCustom (InsufficientPayment required_payment (payment_asset config)))
          else
          and_then (subscriber_new sb (env_block ev) paid_for_seconds) (\<lambda>s.
          and_then (load_active_subs st) (\<lambda>n.
          and_then (accumulate_income sb ev n config st) (\<lambda>st.
          let st = st\<lparr>expired_subscribers := remove subscriber_addr (expired_subscribers st),
                subscribers := save subscriber_addr s (subscribers st)\<rparr>
          in and_then (unwrap (checked_add n 1)) (\<lambda>n. Ok (st\<lparr>active_subs := Some n\<rparr>))))))"

definition try_pay :: "sub_lib \<Rightarrow> env \<Rightarrow> subscription_state \<Rightarrow> u128 asset \<Rightarrow> addr \<Rightarrow> sub_out sub_result" where
  "try_pay sb ev st ast subscriber_addr =
     and_then (load_sub_config st) (\<lambda>config.
     and_then (map_err ModAbstract (twa_load (income_twa st))) (\<lambda>twa.
     and_then (ok_or (ModStd (StdNotFound ''base_state'')) (ap_account st)) (\<lambda>account.
     if payment_asset config \<noteq> as_info ast then Err (ModCustom (WrongToken (payment_asset config)))
     else
     and_then (ok_or (ModCustom CheckedMultiplyFraction)
       (dl_mul_ceil (sb_dec sb) (ucast (averaging_period twa)) (subscription_cost_per_second config))) (\<lambda>required_payment.
     and_then (ok_or (ModCustom CheckedMultiplyFraction)
       (dl_div_floor (sb_dec sb) (as_amount ast) (subscription_cost_per_second config))) (\<lambda>paid.
     and_then (book_payment sb ev st config ast required_payment (ucast paid) subscriber_addr) (\<lambda>st.
     and_then (map_err (\<lambda>e. ModCustom (SubAsset e)) (sl_transfer_msg (sb_sdk sb) ast account)) (\<lambda>m.
     Ok (st, [Direct m]))))))))"

definition seconds_passed :: "sub_lib \<Rightarrow> block_info \<Rightarrow> subscriber \<Rightarrow> u64 sub_result" where
  "seconds_passed sb block s =
     and_then (unwrap (dl_minus_seconds (sb_dec sb) (time block) (dl_seconds (sb_dec sb) (last_emission_claim_timestamp s))))
       (\<lambda>duration. Ok (dl_seconds (sb_dec sb) duration))"

definition emission_asset :: "sub_lib \<Rightarrow> emission_type \<Rightarrow> u32 \<Rightarrow> u64 \<Rightarrow> u128 asset sub_result" where
  "emission_asset sb emissions n secs =
     (case emissions of
        NoEmissions \<Rightarrow> Err (ModCustom SubscriberEmissionsNotEnabled)
      | SecondShared shared_emissions token \<Rightarrow>
          and_then (unwrap (mul_floor (dl_math (sb_dec sb)) (ucast secs) shared_emissions)) (\<lambda>all.
          if n = 0 then Panic else Ok \<lparr>as_info = token, as_amount = all div ucast n\<rparr>)
      | SecondPerUser per_user_emissions token \<Rightarrow>
          and_then (unwrap (mul_floor (dl_math (sb_dec sb)) (ucast secs) per_user_emissions)) (\<lambda>n.
          Ok \<lparr>as_info = token, as_amount = n\<rparr>))"

text \<open>The subscriber that is passed by reference comes back with the action.\<close>

definition claim_emissions_msg ::
  "sub_lib \<Rightarrow> chain \<Rightarrow> env \<Rightarrow> subscription_state \<Rightarrow> subscriber \<Rightarrow> addr \<Rightarrow> emission_type \<Rightarrow> u32
   \<Rightarrow> (subscriber \<times> account_action option) sub_result" where
  "claim_emissions_msg sb ch ev st s subscriber_addr emissions n =
     (if last_emission_claim_timestamp s \<ge> time (env_block ev) then Err (ModCustom EmissionsAlreadyClaimed)
      else
      and_then (seconds_passed sb (env_block ev) s) (\<lambda>secs.
      and_then (emission_asset sb emissions n secs) (\<lambda>a.
      if as_amount a \<noteq> 0 then
        and_then (map_err ModSdk (bank_transfer (sb_sdk sb) (app_ans_host ch st) [TransferAsset a] subscriber_addr)) (\<lambda>send_msg.
        Ok (s\<lparr>last_emission_claim_timestamp := time (env_block ev)\<rparr>, Some send_msg))
      else Ok (s, None))))"

text \<open>Nothing to claim is no error when a subscription ends.\<close>

definition or_no_claim ::
  "subscriber \<Rightarrow> (subscriber \<times> account_action option) sub_result \<Rightarrow> (subscriber \<times> account_action option) sub_result" where
  "or_no_claim s r =
     (if r = Err (ModCustom EmissionsAlreadyClaimed) \<or> r = Err (ModCustom SubscriberEmissionsNotEnabled) then Ok (s, None)
      else r)"

text \<open>The variables of the loop: the storage, the number of subscribers, the cancelled addresses and the actions.\<close>

type_synonym unsub_acc = "subscription_state \<times> u32 \<times> addr list \<times> account_action list"

definition unsubscribe_one ::
  "sub_lib \<Rightarrow> chain \<Rightarrow> env \<Rightarrow> emission_type \<Rightarrow> unsub_acc \<Rightarrow> addr \<Rightarrow> unsub_acc sub_result" where
  "unsubscribe_one sb ch ev emissions acc a =
     (case acc of (st, n, canceled, claims) \<Rightarrow>
        and_then (load_subscriber st a) (\<lambda>s.
        if is_expired s (env_block ev) then
          and_then (or_no_claim s (claim_emissions_msg sb ch ev st s a emissions n)) (\<lambda>(s, maybe_claim).
          and_then (unwrap (checked_sub n 1)) (\<lambda>n.
          Ok (st\<lparr>subscribers := remove a (subscribers st), expired_subscribers := save a s (expired_subscribers st)\<rparr>,
              n, canceled @ [a], (case maybe_claim of Some m \<Rightarrow> claims @ [m] | None \<Rightarrow> claims))))
        else Ok acc))"

definition unsubscribe :: "sub_lib \<Rightarrow> chain \<Rightarrow> env \<Rightarrow> subscription_state \<Rightarrow> string list \<Rightarrow> sub_out sub_result" where
  "unsubscribe sb ch ev st unsubscribe_addrs =
     (if length unsubscribe_addrs > MAX_UNSUBS then Err (ModCustom TooManyUnsubs)
      else
      and_then (map_err ModStd (try_map (q_addr_validate ch) unsubscribe_addrs)) (\<lambda>addrs.
      and_then (load_active_subs st) (\<lambda>n.
      and_then (load_sub_config st) (\<lambda>config.
      and_then (accumulate_income sb ev n config st) (\<lambda>st.
      and_then (try_fold (unsubscribe_one sb ch ev (subscription_per_second_emissions config)) (st, n, [], []) addrs)
        (\<lambda>(st, n, canceled, claims).
      if canceled = [] then Err (ModCustom NoOneUnsubbed)
      else
      let st = st\<lparr>active_subs := Some n\<rparr>;
          claim_msgs = (case executor_execute (ap_account st) claims of Ok m \<Rightarrow> [m] | _ \<Rightarrow> []);
          hook_msgs = (case unsubscribe_hook_addr config of
              Some hook \<Rightarrow> [Direct (WasmExecute hook (Raw (sb_unsubscribed_json sb canceled)) [])]
            | None \<Rightarrow> [])
      in Ok (st, claim_msgs @ hook_msgs)))))))"

definition claim_subscriber_emissions ::
  "sub_lib \<Rightarrow> chain \<Rightarrow> env \<Rightarrow> subscription_state \<Rightarrow> string \<Rightarrow> sub_out sub_result" where
  "claim_subscriber_emissions sb ch ev st human =
     and_then (map_err ModStd (q_addr_validate ch human)) (\<lambda>subscriber_addr.
     and_then (load_active_subs st) (\<lambda>n.
     and_then (load_sub_config st) (\<lambda>config.
     and_then (load_subscriber st subscriber_addr) (\<lambda>s.
     and_then (claim_emissions_msg sb ch ev st s subscriber_addr (subscription_per_second_emissions config) n) (\<lambda>(s, maybe_action).
     let st = st\<lparr>subscribers := save subscriber_addr s (subscribers st)\<rparr>
     in case maybe_action of
          Some act \<Rightarrow> and_then (map_err ModSdk (executor_execute (ap_account st) [act])) (\<lambda>m. Ok (st, [m]))
        | None \<Rightarrow> Ok (st, []))))))"

definition update_subscription_config ::
  "sub_lib \<Rightarrow> chain \<Rightarrow> env \<Rightarrow> message_info \<Rightarrow> subscription_state \<Rightarrow> string option \<Rightarrow> decimal option \<Rightarrow> emission_type option
   \<Rightarrow> string clearable option \<Rightarrow> sub_out sub_result" where
  "update_subscription_config sb ch ev info st payment cost emissions hook =
     and_then (map_err (\<lambda>e. ModCustom (SubAdmin e)) (assert_admin ch (ap_admin st) ev (info_sender info))) (\<lambda>_.
     and_then (load_sub_config st) (\<lambda>config.
     let config = (case cost of Some c \<Rightarrow> config\<lparr>subscription_cost_per_second := c\<rparr> | None \<Rightarrow> config)
     in and_then (case payment of
           Some p \<Rightarrow> and_then (map_err (\<lambda>e. ModCustom (SubAsset e)) (sb_check sb p)) (\<lambda>p. Ok (config\<lparr>payment_asset := p\<rparr>))
         | None \<Rightarrow> Ok config) (\<lambda>config.
        and_then (case emissions of
           Some e \<Rightarrow> and_then (map_err ModAbstract (emission_check sb e)) (\<lambda>e.
             Ok (config\<lparr>subscription_per_second_emissions := e\<rparr>))
         | None \<Rightarrow> Ok config) (\<lambda>config.
        and_then (case hook of
           Some (Set human) \<Rightarrow> and_then (map_err ModStd (q_addr_validate ch human)) (\<lambda>a.
             Ok (config\<lparr>unsubscribe_hook_addr := Some a\<rparr>))
         | Some Clear \<Rightarrow> Ok (config\<lparr>unsubscribe_hook_addr := None\<rparr>)
         | None \<Rightarrow> Ok config) (\<lambda>config.
        Ok (st\<lparr>sub_config := Some config\<rparr>, []))))))"

fun subscription_execute ::
  "sub_lib \<Rightarrow> chain \<Rightarrow> env \<Rightarrow> message_info \<Rightarrow> subscription_state \<Rightarrow> subscription_execute_msg \<Rightarrow> sub_out sub_result" where
  "subscription_execute sb ch ev info st (Pay subscriber_addr) =
     and_then (case subscriber_addr of
         Some human \<Rightarrow> map_err ModStd (q_addr_validate ch human)
       | None \<Rightarrow> Ok (info_sender info)) (\<lambda>subscriber_addr.
     if info_funds info = [] then Err (ModCustom NotUsingCW20Hook)
     else try_pay sb ev st (sl_asset_of_coin (sb_sdk sb) (last (info_funds info))) subscriber_addr)"
| "subscription_execute sb ch ev info st (Unsubscribe addrs) = unsubscribe sb ch ev st addrs"
| "subscription_execute sb ch ev info st (ClaimEmissions a) = claim_subscriber_emissions sb ch ev st a"
| "subscription_execute sb ch ev info st (UpdateSubscriptionConfig p c e h) =
     update_subscription_config sb ch ev info st p c e h"
| "subscription_execute sb ch ev info st RefreshTWA =
     and_then (map_err ModAbstract (twa_try_update_value (sb_dec sb) ev (income_twa st))) (\<lambda>(twa, _).
     Ok (st\<lparr>income_twa := Some twa\<rparr>, []))"

definition receive_cw20 ::
  "sub_lib \<Rightarrow> chain \<Rightarrow> env \<Rightarrow> message_info \<Rightarrow> subscription_state \<Rightarrow> cw20_receive_msg \<Rightarrow> sub_out sub_result" where
  "receive_cw20 sb ch ev info st m =
     and_then (map_err ModStd (sb_hook_of_json sb (cw20_msg m))) (\<lambda>subscriber_addr.
     let ast = \<lparr>as_info = sb_cw20 sb (info_sender info), as_amount = cw20_amount m\<rparr>
     in and_then (map_err ModStd (q_addr_validate ch (case subscriber_addr of Some a \<Rightarrow> a | None \<Rightarrow> cw20_sender m)))
        (\<lambda>subscriber_addr. try_pay sb ev st ast subscriber_addr))"

fun subscription_custom_execute ::
  "sub_lib \<Rightarrow> chain \<Rightarrow> env \<Rightarrow> message_info \<Rightarrow> subscription_state \<Rightarrow> subscription_custom_msg \<Rightarrow> sub_out sub_result" where
  "subscription_custom_execute sb ch ev info st (SubModule m) = subscription_execute sb ch ev info st m"
| "subscription_custom_execute sb ch ev info st (Receive m) = receive_cw20 sb ch ev info st m"

section \<open>Queries (handlers/query.rs)\<close>

definition query_subscription_fee :: "sub_lib \<Rightarrow> subscription_state \<Rightarrow> u128 asset sub_result" where
  "query_subscription_fee sb st =
     and_then (load_sub_config st) (\<lambda>config.
     and_then (map_err ModAbstract (twa_load (income_twa st))) (\<lambda>twa.
     and_then (unwrap (mul_floor (dl_math (sb_dec sb)) (ucast (averaging_period twa)) (subscription_cost_per_second config)))
       (\<lambda>minimal_cost. Ok \<lparr>as_info = payment_asset config, as_amount = minimal_cost\<rparr>)))"

definition query_subscriber :: "chain \<Rightarrow> subscription_state \<Rightarrow> string \<Rightarrow> (bool \<times> subscriber option) sub_result" where
  "query_subscriber ch st human =
     and_then (map_err ModStd (q_addr_validate ch human)) (\<lambda>a.
     case load (subscribers st) a of
       Some s \<Rightarrow> Ok (True, Some s)
     | None \<Rightarrow> Ok (False, load (expired_subscribers st) a))"

definition query_subscribers ::
  "subscription_state \<Rightarrow> addr option \<Rightarrow> u64 option \<Rightarrow> bool option \<Rightarrow> (addr \<times> bool \<times> subscriber) list" where
  "query_subscribers st start_after limit expired_subs =
     (let subscribed = \<not> (case expired_subs of Some b \<Rightarrow> b | None \<Rightarrow> False)
      in map (\<lambda>(a, s). (a, subscribed, s))
           (take (unat (case limit of Some l \<Rightarrow> l | None \<Rightarrow> VOTING_DEFAULT_LIMIT))
             (entries_after start_after (if subscribed then subscribers st else expired_subscribers st))))"

end
