(* ===== verification/Subscription_Safety.thy ===== *)
theory Subscription_Safety
  imports Subscription
begin

text \<open>
  Correctness of the subscription app: the counter of subscribers is the number of subscribers, so dividing the shared
  emissions never fails; a paid subscription lasts as long as was paid for and is only ended after that, by anyone; the app
  never keeps a payment.
\<close>

section \<open>The app as a state machine\<close>

inductive subscription_start :: "sub_lib \<Rightarrow> subscription_state \<Rightarrow> bool" for sb where
  "subscribers st0 = [] \<Longrightarrow> expired_subscribers st0 = [] \<Longrightarrow> subscription_instantiate sb ch ev st0 msg = Ok (st, out)
     \<Longrightarrow> subscription_start sb st"

inductive subscription_step :: "sub_lib \<Rightarrow> subscription_state \<Rightarrow> subscription_state \<Rightarrow> bool" for sb where
  "subscription_custom_execute sb ch ev info st msg = Ok (st', out) \<Longrightarrow> subscription_step sb st st'"

inductive_cases subscription_startE: "subscription_start sb st"
inductive_cases subscription_stepE: "subscription_step sb st st'"

section \<open>What the handlers do\<close>

lemma twa_accumulate_period:
  "twa_accumulate dl ev item v = Ok (twa', r) \<Longrightarrow> \<exists>twa. item = Some twa \<and> averaging_period twa' = averaging_period twa"
  by (auto simp: twa_accumulate_def twa_load_def result_simps Let_def split: if_splits)

lemma twa_update_period:
  "twa_try_update_value dl ev item = Ok (twa', r) \<Longrightarrow> \<exists>twa. item = Some twa \<and> averaging_period twa' = averaging_period twa"
  by (auto simp: twa_try_update_value_def twa_load_def result_simps Let_def split: if_splits)

lemma accumulate_income_Ok:
  assumes "accumulate_income sb ev n config st = Ok st'"
  obtains twa twa' where "income_twa st = Some twa" and "averaging_period twa' = averaging_period twa"
    and "st' = st\<lparr>income_twa := Some twa'\<rparr>"
  using assms by (auto simp: accumulate_income_def result_simps dest!: twa_accumulate_period)

text \<open>A payment extends a subscription or opens one.\<close>

lemma book_payment_Ok:
  assumes "book_payment sb ev st config ast need secs a = Ok st'"
  obtains (extend) s t where "load (subscribers st) a = Some s"
    and "plus_seconds (dl_math (sb_dec sb)) (expiration_timestamp s) secs = Some t"
    and "st' = st\<lparr>subscribers := save a (s\<lparr>expiration_timestamp := t\<rparr>) (subscribers st)\<rparr>"
  | (open_new) t n n' twa twa' where "load (subscribers st) a = None" and "need \<le> as_amount ast"
    and "plus_seconds (dl_math (sb_dec sb)) (time (env_block ev)) secs = Some t"
    and "active_subs st = Some n" and "checked_add n 1 = Some n'"
    and "income_twa st = Some twa" and "averaging_period twa' = averaging_period twa"
    and "st' = st\<lparr>income_twa := Some twa', expired_subscribers := remove a (expired_subscribers st),
      subscribers := save a \<lparr>expiration_timestamp = t, last_emission_claim_timestamp = time (env_block ev)\<rparr> (subscribers st),
      active_subs := Some n'\<rparr>"
proof (cases "load (subscribers st) a")
  case (Some s)
  with assms show thesis by (auto simp: book_payment_def subscriber_extend_def result_simps intro: extend)
next
  case None
  with assms obtain t n n' st1 where "need \<le> as_amount ast"
    "plus_seconds (dl_math (sb_dec sb)) (time (env_block ev)) secs = Some t"
    "active_subs st = Some n" "accumulate_income sb ev n config st = Ok st1" "checked_add n 1 = Some n'"
    "st' = st1\<lparr>expired_subscribers := remove a (expired_subscribers st1),
      subscribers := save a \<lparr>expiration_timestamp = t, last_emission_claim_timestamp = time (env_block ev)\<rparr> (subscribers st1),
      active_subs := Some n'\<rparr>"
    by (auto simp: book_payment_def subscriber_new_def load_active_subs_def result_simps Let_def not_less split: if_splits)
  with None show thesis by (auto elim!: accumulate_income_Ok intro: open_new)
qed

lemma try_pay_Ok:
  assumes "try_pay sb ev st ast a = Ok (st', out)"
  obtains config twa account m need secs where "sub_config st = Some config" and "income_twa st = Some twa"
    and "ap_account st = Some account" and "payment_asset config = as_info ast"
    and "dl_mul_ceil (sb_dec sb) (ucast (averaging_period twa)) (subscription_cost_per_second config) = Some need"
    and "dl_div_floor (sb_dec sb) (as_amount ast) (subscription_cost_per_second config) = Some secs"
    and "book_payment sb ev st config ast need (ucast secs) a = Ok st'"
    and "sl_transfer_msg (sb_sdk sb) ast account = Ok m" and "out = [Direct m]"
  using assms unfolding try_pay_def load_sub_config_def twa_load_def by (auto simp: result_simps split: if_splits)

text \<open>A claim either changes nothing but the time of the claim, or fails.\<close>

lemma claim_emissions_Ok:
  assumes "claim_emissions_msg sb ch ev st s a emissions n = Ok (s', act)"
  obtains secs ast where "last_emission_claim_timestamp s < time (env_block ev)"
    and "seconds_passed sb (env_block ev) s = Ok secs" and "emission_asset sb emissions n secs = Ok ast"
    and "if as_amount ast = 0 then s' = s \<and> act = None
      else s' = s\<lparr>last_emission_claim_timestamp := time (env_block ev)\<rparr>
        \<and> (\<exists>m. act = Some m \<and> bank_transfer (sb_sdk sb) (app_ans_host ch st) [TransferAsset ast] a = Ok m)"
  using assms unfolding claim_emissions_msg_def and_then_Ok by (auto simp: result_simps not_le split: if_splits)

lemma claim_keeps_expiration:
  "claim_emissions_msg sb ch ev st s a emissions n = Ok (s', act) \<Longrightarrow> expiration_timestamp s' = expiration_timestamp s"
  by (erule claim_emissions_Ok) (auto split: if_splits)

lemma unsubscribe_one_Ok:
  assumes "unsubscribe_one sb ch ev emissions (st, n, canceled, claims) a = Ok (st', n', canceled', claims')"
  obtains (same) "st' = st" "n' = n" "canceled' = canceled"
  | (gone) s s' where "load (subscribers st) a = Some s" and "is_expired s (env_block ev)" and "expiration_timestamp s' = expiration_timestamp s"
    and "checked_sub n 1 = Some n'" and "canceled' = canceled @ [a]"
    and "st' = st\<lparr>subscribers := remove a (subscribers st), expired_subscribers := save a s' (expired_subscribers st)\<rparr>"
proof -
  from assms obtain s where s: "load (subscribers st) a = Some s"
    and run: "(if is_expired s (env_block ev) then
       and_then (or_no_claim s (claim_emissions_msg sb ch ev st s a emissions n)) (\<lambda>(s, maybe_claim).
       and_then (unwrap (checked_sub n 1)) (\<lambda>n.
       Ok (st\<lparr>subscribers := remove a (subscribers st), expired_subscribers := save a s (expired_subscribers st)\<rparr>,
           n, canceled @ [a], (case maybe_claim of Some m \<Rightarrow> claims @ [m] | None \<Rightarrow> claims))))
     else Ok (st, n, canceled, claims)) = Ok (st', n', canceled', claims')"
    unfolding unsubscribe_one_def load_subscriber_def and_then_Ok ok_or_Ok prod.case by blast
  show thesis
  proof (cases "is_expired s (env_block ev)")
    case True
    with run obtain s' act where f: "or_no_claim s (claim_emissions_msg sb ch ev st s a emissions n) = Ok (s', act)"
      and n: "checked_sub n 1 = Some n'" "canceled' = canceled @ [a]"
        "st' = st\<lparr>subscribers := remove a (subscribers st), expired_subscribers := save a s' (expired_subscribers st)\<rparr>"
      by (auto simp: result_simps)
    then have "expiration_timestamp s' = expiration_timestamp s"
      by (auto simp: or_no_claim_def dest: claim_keeps_expiration split: if_splits)
    with s True n show thesis by (intro gone) assumption+
  next
    case False
    with run show thesis by (intro same) simp_all
  qed
qed

text \<open>The loop: what is cancelled was expired, and every cancellation is counted.\<close>

definition moved :: "env \<Rightarrow> subscription_state \<Rightarrow> subscription_state \<Rightarrow> bool" where
  "moved ev st st' \<longleftrightarrow> sub_config st' = sub_config st \<and> income_twa st' = income_twa st \<and> ap_account st' = ap_account st
     \<and> (\<forall>a. load (subscribers st') a = load (subscribers st) a \<and> load (expired_subscribers st') a = load (expired_subscribers st) a
        \<or> (\<exists>s e. load (subscribers st) a = Some s \<and> is_expired s (env_block ev) \<and> load (subscribers st') a = None
            \<and> load (expired_subscribers st') a = Some e \<and> expiration_timestamp e = expiration_timestamp s))"

definition counts :: "u32 \<Rightarrow> subscription_state \<Rightarrow> bool" where
  "counts n st \<longleftrightarrow> unat n = card (dom (load (subscribers st)))"

lemma finite_dom_load [simp]: "finite (dom (load m))"
  using finite_load [of m] by (simp add: dom_def)

lemma counts_gone:
  assumes "counts n st" and "load (subscribers st) a = Some s" and "checked_sub n 1 = Some n'"
  shows "counts n' (st\<lparr>subscribers := remove a (subscribers st), expired_subscribers := e\<rparr>)"
proof -
  from assms(2) have "a \<in> dom (load (subscribers st))" by blast
  with assms(1,3) show ?thesis by (auto simp: counts_def checked_sub_Some)
qed

lemma moved_gone:
  assumes "moved ev st st1" and "load (subscribers st1) a = Some s" and "is_expired s (env_block ev)"
    and "expiration_timestamp e = expiration_timestamp s"
  shows "moved ev st (st1\<lparr>subscribers := remove a (subscribers st1), expired_subscribers := save a e (expired_subscribers st1)\<rparr>)"
proof -
  from assms(1,2) have "load (subscribers st) a = Some s" unfolding moved_def by (metis option.distinct(1))
  with assms show ?thesis by (simp add: moved_def)
qed

lemma unsubscribe_loop:
  assumes "try_fold (unsubscribe_one sb ch ev emissions) (st1, n1, cs1, ms1) addrs = Ok (st2, n2, cs2, ms2)"
    and "counts n1 st1" and "moved ev st st1"
  shows "counts n2 st2 \<and> moved ev st st2"
  using assms
proof (induction addrs arbitrary: st1 n1 cs1 ms1)
  case (Cons a addrs)
  then obtain st3 n3 cs3 ms3 where one: "unsubscribe_one sb ch ev emissions (st1, n1, cs1, ms1) a = Ok (st3, n3, cs3, ms3)"
    and rest: "try_fold (unsubscribe_one sb ch ev emissions) (st3, n3, cs3, ms3) addrs = Ok (st2, n2, cs2, ms2)"
    by (auto simp: result_simps)
  from one have "counts n3 st3 \<and> moved ev st st3"
  proof (cases rule: unsubscribe_one_Ok)
    case same
    with Cons.prems show ?thesis by simp
  next
    case (gone s s')
    with Cons.prems show ?thesis by (auto intro: counts_gone moved_gone)
  qed
  with Cons.IH [OF rest] show ?case by blast
qed simp

lemma unsubscribe_Ok:
  assumes "unsubscribe sb ch ev st addrs = Ok (st', out)" and "\<And>n. active_subs st = Some n \<Longrightarrow> counts n st"
  obtains n twa twa' st2 where "income_twa st = Some twa" and "averaging_period twa' = averaging_period twa"
    and "moved ev (st\<lparr>income_twa := Some twa'\<rparr>) st2" and "counts n st2" and "st' = st2\<lparr>active_subs := Some n\<rparr>"
proof -
  from assms(1) obtain as n config st1 st2 n2 cs ms where n: "active_subs st = Some n"
    and acc: "accumulate_income sb ev n config st = Ok st1"
    and loop: "try_fold (unsubscribe_one sb ch ev (subscription_per_second_emissions config)) (st1, n, [], []) as = Ok (st2, n2, cs, ms)"
    and st': "st' = st2\<lparr>active_subs := Some n2\<rparr>"
    unfolding unsubscribe_def load_active_subs_def by (auto simp: result_simps Let_def split: if_splits)
  from acc obtain twa twa' where t: "income_twa st = Some twa" "averaging_period twa' = averaging_period twa"
    and st1: "st1 = st\<lparr>income_twa := Some twa'\<rparr>" by (rule accumulate_income_Ok)
  have "counts n st1" using assms(2) [OF n] by (simp add: st1 counts_def)
  with unsubscribe_loop [OF loop, of st1] have "counts n2 st2" "moved ev st1 st2" by (auto simp: moved_def)
  with t st1 st' show thesis by (intro that) simp_all
qed

lemma claim_subscriber_Ok:
  assumes "claim_subscriber_emissions sb ch ev st human = Ok (st', out)"
  obtains a s s' where "q_addr_validate ch human = Ok a" and "load (subscribers st) a = Some s"
    and "expiration_timestamp s' = expiration_timestamp s" and "st' = st\<lparr>subscribers := save a s' (subscribers st)\<rparr>"
proof -
  from assms obtain a where a: "q_addr_validate ch human = Ok a" by (auto simp: claim_subscriber_emissions_def result_simps)
  from assms a obtain n config s where s: "load (subscribers st) a = Some s" and c: "active_subs st = Some n" "sub_config st = Some config"
    by (auto simp: claim_subscriber_emissions_def load_subscriber_def load_active_subs_def load_sub_config_def result_simps)
  with assms a obtain s' act where "claim_emissions_msg sb ch ev st s a (subscription_per_second_emissions config) n = Ok (s', act)"
    and "st' = st\<lparr>subscribers := save a s' (subscribers st)\<rparr>"
    by (auto simp: claim_subscriber_emissions_def load_subscriber_def load_active_subs_def load_sub_config_def result_simps
        Let_def split: option.splits)
  with a s show thesis by (intro that [of a s s']) (auto dest: claim_keeps_expiration)
qed

lemma update_subscription_config_Ok:
  assumes "update_subscription_config sb ch ev info st p c e h = Ok (st', out)"
  obtains config where "st' = st\<lparr>sub_config := Some config\<rparr>" and "assert_admin ch (ap_admin st) ev (info_sender info) = Ok ()"
  using assms unfolding update_subscription_config_def and_then_Ok Let_def by (auto simp: result_simps)

section \<open>The counter of subscribers\<close>

definition subscription_wf :: "subscription_state \<Rightarrow> bool" where
  "subscription_wf st \<longleftrightarrow> (\<exists>n. active_subs st = Some n \<and> counts n st)
     \<and> dom (load (subscribers st)) \<inter> dom (load (expired_subscribers st)) = {}
     \<and> (\<exists>twa. income_twa st = Some twa \<and> averaging_period twa \<noteq> 0) \<and> sub_config st \<noteq> None"

lemma counts_simps [simp]:
  "counts n (st\<lparr>income_twa := t\<rparr>) = counts n st" "counts n (st\<lparr>sub_config := c\<rparr>) = counts n st"
  "counts n (st\<lparr>active_subs := k\<rparr>) = counts n st"
  by (simp_all add: counts_def)

lemma counts_new:
  assumes "counts n st" and "load (subscribers st) a = None" and "checked_add n 1 = Some n'"
  shows "unat n' = card (dom (load (save a s (subscribers st))))"
  using assms by (auto simp: counts_def card_insert_if domIff dest!: checked_add_Some)

lemma counts_update:
  assumes "counts n st" and "load (subscribers st) a = Some s"
  shows "counts n (st\<lparr>subscribers := save a s' (subscribers st)\<rparr>)"
  using assms by (simp add: counts_def insert_absorb domI)

lemma try_pay_wf:
  assumes "subscription_wf st" and "try_pay sb ev st ast a = Ok (st', out)"
  shows "subscription_wf st'"
  using assms(2)
proof (rule try_pay_Ok)
  fix config need secs
  assume "book_payment sb ev st config ast need (ucast secs) a = Ok st'"
  then show ?thesis
  proof (cases rule: book_payment_Ok)
    case (extend s t)
    with assms(1) show ?thesis by (auto simp: subscription_wf_def intro: counts_update)
  next
    case (open_new t n n' twa twa')
    with assms(1) have "counts n st" by (simp add: subscription_wf_def)
    from counts_new [OF this open_new(1,5)] assms(1) open_new show ?thesis
      by (auto simp: subscription_wf_def counts_def)
  qed
qed

lemma moved_disjoint:
  assumes "moved ev st st'" and "dom (load (subscribers st)) \<inter> dom (load (expired_subscribers st)) = {}"
  shows "dom (load (subscribers st')) \<inter> dom (load (expired_subscribers st')) = {}"
proof (rule ccontr)
  assume "\<not> ?thesis"
  then obtain a where "load (subscribers st') a \<noteq> None" "load (expired_subscribers st') a \<noteq> None" by auto
  with assms(1) have "load (subscribers st) a \<noteq> None \<and> load (expired_subscribers st) a \<noteq> None"
    unfolding moved_def by metis
  with assms(2) show False by auto
qed

lemma unsubscribe_wf:
  assumes "subscription_wf st" and "unsubscribe sb ch ev st addrs = Ok (st', out)"
  shows "subscription_wf st'"
  using assms(2)
proof (rule unsubscribe_Ok)
  show "counts n st" if "active_subs st = Some n" for n using assms(1) that by (auto simp: subscription_wf_def)
  fix n twa twa' st2
  assume t: "income_twa st = Some twa" "averaging_period twa' = averaging_period twa"
    and moved: "moved ev (st\<lparr>income_twa := Some twa'\<rparr>) st2" and c: "counts n st2" and st': "st' = st2\<lparr>active_subs := Some n\<rparr>"
  have "dom (load (subscribers st2)) \<inter> dom (load (expired_subscribers st2)) = {}"
    by (rule moved_disjoint [OF moved]) (use assms(1) in \<open>simp add: subscription_wf_def\<close>)
  moreover from moved have "income_twa st2 = Some twa'" "sub_config st2 = sub_config st" by (simp_all add: moved_def)
  ultimately show ?thesis using assms(1) t c by (simp add: subscription_wf_def st')
qed

lemma custom_execute_cases:
  assumes "subscription_custom_execute sb ch ev info st msg = Ok (st', out)"
  obtains (pay) ast a where "try_pay sb ev st ast a = Ok (st', out)"
  | (unsub) addrs where "unsubscribe sb ch ev st addrs = Ok (st', out)"
  | (claim) human where "claim_subscriber_emissions sb ch ev st human = Ok (st', out)"
  | (config) c where "st' = st\<lparr>sub_config := Some c\<rparr>"
  | (refresh) twa twa' where "income_twa st = Some twa" and "averaging_period twa' = averaging_period twa"
      and "st' = st\<lparr>income_twa := Some twa'\<rparr>"
proof (cases msg)
  case (SubModule m)
  with assms have run: "subscription_execute sb ch ev info st m = Ok (st', out)" by simp
  show thesis
  proof (cases m)
    case RefreshTWA
    with run show thesis by (auto simp: result_simps dest!: twa_update_period intro: refresh)
  qed (use run pay unsub claim config in \<open>auto simp: result_simps split: if_splits elim!: update_subscription_config_Ok\<close>)
next
  case (Receive m)
  with assms pay show thesis by (auto simp: receive_cw20_def result_simps Let_def)
qed

lemma subscription_wf_step:
  assumes "subscription_wf st" and "subscription_custom_execute sb ch ev info st msg = Ok (st', out)"
  shows "subscription_wf st'"
  using assms(2)
proof (cases rule: custom_execute_cases)
  case (claim human)
  then show ?thesis
  proof (rule claim_subscriber_Ok)
    fix a s s'
    assume "load (subscribers st) a = Some s" and "st' = st\<lparr>subscribers := save a s' (subscribers st)\<rparr>"
    with assms(1) show ?thesis by (auto simp: subscription_wf_def intro: counts_update)
  qed
next
  case (pay ast a)
  then show ?thesis by (rule try_pay_wf [OF assms(1)])
next
  case (unsub addrs)
  then show ?thesis by (rule unsubscribe_wf [OF assms(1)])
qed (use assms(1) in \<open>auto simp: subscription_wf_def\<close>)

interpretation subscription: invariant "subscription_start sb" "subscription_step sb" subscription_wf
proof
  show "subscription_wf s" if "subscription_start sb s" for s
    using that by (rule subscription_startE)
      (auto simp: subscription_instantiate_def subscription_wf_def counts_def twa_instantiate_def result_simps Let_def fun_eq_iff)
  show "subscription_wf s'" if "subscription_wf s" "subscription_step sb s s'" for s s'
    using that(2) by (rule subscription_stepE) (rule subscription_wf_step [OF that(1)])
qed

text \<open>
  in every state of the app the counter of active subscribers is the number of stored subscribers, and nobody is both
  subscribed and expired.
\<close>

theorem active_subs_counted:
  assumes "reachable (subscription_start sb) (subscription_step sb) st"
  shows "\<exists>n. active_subs st = Some n \<and> unat n = card (dom (load (subscribers st)))
    \<and> dom (load (subscribers st)) \<inter> dom (load (expired_subscribers st)) = {}"
  using subscription.holds [OF assms] by (auto simp: subscription_wf_def counts_def)

section \<open>Paid time\<close>

lemma plus_seconds_Some:
  assumes "decimal_laws dl"
  shows "plus_seconds (dl_math dl) t n = Some t' \<longleftrightarrow> unat t + unat n * 10 ^ 9 < 2 ^ 64 \<and> unat t' = unat t + unat n * 10 ^ 9"
proof -
  have "(if N < 2 ^ 64 then Some (of_nat N :: u64) else None) = Some t' \<longleftrightarrow> N < 2 ^ 64 \<and> unat t' = N" for N
    by (auto simp: unat_of_nat word_unat_eq_iff)
  moreover from assms have "plus_seconds (dl_math dl) t n
      = (if unat t + unat n * 10 ^ 9 < 2 ^ 64 then Some (of_nat (unat t + unat n * 10 ^ 9)) else None)"
    by (simp only: decimal_laws_def math_laws_def)
  ultimately show ?thesis by (simp only:)
qed

lemma pay_keeps:
  assumes "decimal_laws (sb_dec sb)" and "try_pay sb ev st ast b = Ok (st', out)" and "load (subscribers st) a = Some s"
  shows "\<exists>s'. load (subscribers st') a = Some s' \<and> expiration_timestamp s \<le> expiration_timestamp s'"
  using assms(2)
proof (rule try_pay_Ok)
  fix config need secs
  assume "book_payment sb ev st config ast need (ucast secs) b = Ok st'"
  then show ?thesis
  proof (cases rule: book_payment_Ok)
    case (extend u t)
    then have "expiration_timestamp u \<le> t" by (simp add: plus_seconds_Some [OF assms(1)] word_le_nat_alt)
    with extend assms(3) show ?thesis by (cases "a = b") auto
  next
    case open_new
    with assms(3) show ?thesis by auto
  qed
qed

text \<open>
  C28: what was paid for is kept: no message shortens or ends a subscription that has not expired at the time of the block;
  an expired one is either still there or moved, with its end, to the expired subscribers.
\<close>

theorem subscription_kept_until_expiry:
  assumes "decimal_laws (sb_dec sb)" and "reachable (subscription_start sb) (subscription_step sb) st"
    and "subscription_custom_execute sb ch ev info st msg = Ok (st', out)" and "load (subscribers st) a = Some s"
  shows "(\<exists>s'. load (subscribers st') a = Some s' \<and> expiration_timestamp s \<le> expiration_timestamp s')
    \<or> (is_expired s (env_block ev) \<and> load (subscribers st') a = None
       \<and> (\<exists>e. load (expired_subscribers st') a = Some e \<and> expiration_timestamp e = expiration_timestamp s))"
  using assms(3)
proof (cases rule: custom_execute_cases)
  case (pay ast b)
  from pay_keeps [OF assms(1) this assms(4)] show ?thesis ..
next
  case (unsub addrs)
  then show ?thesis
  proof (rule unsubscribe_Ok)
    show "counts n st" if "active_subs st = Some n" for n
      using subscription.holds [OF assms(2)] that by (auto simp: subscription_wf_def)
    fix n twa' st2
    assume "moved ev (st\<lparr>income_twa := Some twa'\<rparr>) st2" and "st' = st2\<lparr>active_subs := Some n\<rparr>"
    with assms(4) show ?thesis by (auto simp: moved_def dest!: spec [of _ a])
  qed
next
  case (claim human)
  then show ?thesis
  proof (rule claim_subscriber_Ok)
    fix b u u'
    assume "load (subscribers st) b = Some u" "expiration_timestamp u' = expiration_timestamp u"
      "st' = st\<lparr>subscribers := save b u' (subscribers st)\<rparr>"
    with assms(4) show ?thesis by (cases "a = b") auto
  qed
qed (use assms(4) in auto)

text \<open>
  a payment buys the whole seconds it covers at the price per second: they are added to a running subscription, or to the
  time of the block for a new one, which must cover the averaging period. The payment goes on to the account of the app.
\<close>

theorem payment_buys_time:
  assumes "decimal_laws (sb_dec sb)" and "try_pay sb ev st ast a = Ok (st', out)" and "sub_config st = Some config"
    and "unat (as_amount ast) * 10 ^ 18 div unat (subscription_cost_per_second config) < 2 ^ 64"
  shows "\<exists>s' account m. load (subscribers st') a = Some s'
    \<and> unat (expiration_timestamp s') = (case load (subscribers st) a of
          Some s \<Rightarrow> unat (expiration_timestamp s) | None \<Rightarrow> unat (time (env_block ev)))
        + unat (as_amount ast) * 10 ^ 18 div unat (subscription_cost_per_second config) * 10 ^ 9
    \<and> as_info ast = payment_asset config
    \<and> ap_account st = Some account \<and> sl_transfer_msg (sb_sdk sb) ast account = Ok m \<and> out = [Direct m]"
  using assms(2)
proof (rule try_pay_Ok)
  fix c account m need secs
  let ?n = "unat (as_amount ast) * 10 ^ 18 div unat (subscription_cost_per_second config)"
  assume c: "sub_config st = Some c" "payment_asset c = as_info ast"
    and d: "dl_div_floor (sb_dec sb) (as_amount ast) (subscription_cost_per_second c) = Some secs"
    and book: "book_payment sb ev st c ast need (ucast secs) a = Ok st'"
    and out: "ap_account st = Some account" "sl_transfer_msg (sb_sdk sb) ast account = Ok m" "out = [Direct m]"
  from d assms(1,3) c have "unat secs = ?n" by (auto simp: decimal_laws_def fits_u128_Some split: if_splits)
  then have secs: "unat (ucast secs :: u64) = ?n" using assms(4) by (simp add: unsigned_ucast_eq take_bit_nat_eq_self)
  have "\<exists>s'. load (subscribers st') a = Some s' \<and> unat (expiration_timestamp s') = (case load (subscribers st) a of
      Some s \<Rightarrow> unat (expiration_timestamp s) | None \<Rightarrow> unat (time (env_block ev))) + ?n * 10 ^ 9"
    using book by (cases rule: book_payment_Ok) (auto simp: plus_seconds_Some [OF assms(1)] secs)
  with c out assms(3) show ?thesis by auto
qed

text \<open>More than \<open>2 ^ 64\<close> seconds are cut off: a payment for exactly so many seconds is taken and buys nothing.\<close>

lemma large_payment_buys_nothing:
  assumes "decimal_laws (sb_dec sb)" and "try_pay sb ev st ast a = Ok (st', out)" and "sub_config st = Some config"
    and "unat (as_amount ast) * 10 ^ 18 div unat (subscription_cost_per_second config) = 2 ^ 64" and "load (subscribers st) a = Some s"
  shows "load (subscribers st') a = Some s"
  using assms(2)
proof (rule try_pay_Ok)
  fix c need secs
  assume c: "sub_config st = Some c" and d: "dl_div_floor (sb_dec sb) (as_amount ast) (subscription_cost_per_second c) = Some secs"
    and book: "book_payment sb ev st c ast need (ucast secs) a = Ok st'"
  from d assms(1,3,4) c have "unat secs = 2 ^ 64" by (auto simp: decimal_laws_def fits_u128_Some split: if_splits)
  then have secs: "unat (ucast secs :: u64) = 0" by (simp add: unsigned_ucast_eq take_bit_eq_mod)
  from book show ?thesis
    using assms(5) by (cases rule: book_payment_Ok) (auto simp: plus_seconds_Some [OF assms(1)] secs word_unat_eq_iff)
qed

section \<open>Emissions\<close>

text \<open>Over less than \<open>10 ^ 18\<close> seconds, which a timestamp cannot exceed, no rate overflows.\<close>

lemma unat_seconds_less:
  assumes "decimal_laws dl"
  shows "unat (dl_seconds dl t) < 10 ^ 18"
proof -
  have "unat (dl_seconds dl t) \<le> unat t div 10 ^ 9" using assms by (simp add: decimal_laws_def)
  also have "\<dots> < 10 ^ 18" using unat_u64 [of t] by (simp add: div_less_iff_less_mult)
  finally show ?thesis .
qed

lemma mul_floor_seconds:
  assumes "decimal_laws dl" and "unat (n :: u64) < 10 ^ 18"
  shows "\<exists>w. mul_floor (dl_math dl) (ucast n) d = Some w \<and> unat w = unat n * unat d div 10 ^ 18"
proof -
  have "unat n * unat d \<le> 10 ^ 18 * unat d" using assms(2) by (intro mult_le_mono1) simp
  then have "unat n * unat d div 10 ^ 18 \<le> 10 ^ 18 * unat d div 10 ^ 18" by (rule div_le_mono)
  then have "unat n * unat d div 10 ^ 18 \<le> unat d" by simp
  then have lt: "unat n * unat d div 10 ^ 18 < 2 ^ 128" using unat_u128 [of d] by (rule le_less_trans)
  have w: "unat (of_nat (unat n * unat d div 10 ^ 18) :: u128) = unat n * unat d div 10 ^ 18"
    using lt fits_u128_Some [THEN iffD1, THEN conjunct2, of "unat n * unat d div 10 ^ 18"] by (simp only: fits_u128_def if_True)
  show ?thesis by (rule exI, rule conjI [OF _ w]) (use lt w in \<open>simp only: mul_floor_Some [OF assms(1)] unat_widen64 simp_thms\<close>)
qed

lemma div_minus_multiple:
  fixes t q :: nat
  assumes "q * 10 ^ 9 \<le> t"
  shows "(t - q * 10 ^ 9) div 10 ^ 9 = t div 10 ^ 9 - q"
proof -
  from assms obtain r where "t = r + q * 10 ^ 9" by (metis le_add_diff_inverse2)
  then show ?thesis by simp
qed

lemma seconds_passed_Ok:
  assumes "decimal_laws (sb_dec sb)" and "last_emission_claim_timestamp s < time block"
  shows "\<exists>secs. seconds_passed sb block s = Ok secs \<and> unat secs < 10 ^ 18
    \<and> unat secs = unat (time block) div 10 ^ 9 - unat (last_emission_claim_timestamp s) div 10 ^ 9"
proof -
  let ?t = "unat (time block)" and ?l = "unat (last_emission_claim_timestamp s)"
  from assms(1) have sec: "unat (dl_seconds (sb_dec sb) t) = unat t div 10 ^ 9" for t by (simp add: decimal_laws_def)
  have le: "?l div 10 ^ 9 * 10 ^ 9 \<le> ?t" using assms(2) by (simp add: word_less_nat_alt order_trans [OF div_times_less_eq_dividend])
  with assms(1) obtain d where d: "dl_minus_seconds (sb_dec sb) (time block) (dl_seconds (sb_dec sb) (last_emission_claim_timestamp s)) = Some d"
    "d = of_nat (?t - ?l div 10 ^ 9 * 10 ^ 9)" by (simp add: decimal_laws_def sec)
  have "?t - ?l div 10 ^ 9 * 10 ^ 9 < 2 ^ 64" using unat_u64 [of "time block"] by (rule le_less_trans [OF diff_le_self])
  with d have "unat d = ?t - ?l div 10 ^ 9 * 10 ^ 9" by (simp add: unat_of_nat)
  then have "unat (dl_seconds (sb_dec sb) d) = ?t div 10 ^ 9 - ?l div 10 ^ 9"
    by (simp only: sec div_minus_multiple [OF le])
  then show ?thesis using d unat_seconds_less [OF assms(1), of d] by (simp add: seconds_passed_def)
qed

text \<open>What is due after \<open>t\<close> seconds: all \<open>k\<close> subscribers together get no more than a shared rate gives.\<close>

fun emission_due :: "emission_type \<Rightarrow> nat \<Rightarrow> nat \<Rightarrow> u128 asset sub_result \<Rightarrow> bool" where
  "emission_due NoEmissions k t r \<longleftrightarrow> r = Err (ModCustom SubscriberEmissionsNotEnabled)"
| "emission_due (SecondShared d token) k t r \<longleftrightarrow>
     (\<exists>x. r = Ok \<lparr>as_info = token, as_amount = x\<rparr> \<and> k * unat x \<le> t * unat d div 10 ^ 18)"
| "emission_due (SecondPerUser d token) k t r \<longleftrightarrow>
     (\<exists>x. r = Ok \<lparr>as_info = token, as_amount = x\<rparr> \<and> unat x = t * unat d div 10 ^ 18)"

lemma emission_asset_due:
  assumes "decimal_laws (sb_dec sb)" and "n \<noteq> 0" and "unat secs < 10 ^ 18"
  shows "emission_due emissions (unat n) (unat secs) (emission_asset sb emissions n secs)"
proof (cases emissions)
  case NoEmissions
  then show ?thesis by (simp add: emission_asset_def)
next
  case (SecondShared d token)
  obtain w where w: "mul_floor (dl_math (sb_dec sb)) (ucast secs) d = Some w" "unat w = unat secs * unat d div 10 ^ 18"
    using mul_floor_seconds [OF assms(1,3)] by blast
  have "unat n * unat (w div ucast n) \<le> unat w" by (simp add: unat_div unat_widen times_div_less_eq_dividend)
  with SecondShared w assms(2) show ?thesis by (simp add: emission_asset_def)
next
  case (SecondPerUser d token)
  with mul_floor_seconds [OF assms(1,3), of d] show ?thesis by (auto simp: emission_asset_def)
qed

lemma subscriber_counted:
  assumes "subscription_wf st" and "load (subscribers st) a = Some s" and "active_subs st = Some n"
  shows "unat n = card (dom (load (subscribers st)))" and "n \<noteq> 0"
proof -
  show c: "unat n = card (dom (load (subscribers st)))" using assms(1,3) by (simp add: subscription_wf_def counts_def)
  have "a \<in> dom (load (subscribers st))" using assms(2) by blast
  then have "card (dom (load (subscribers st))) \<noteq> 0" by (metis card_eq_0_iff empty_iff finite_dom_load)
  with c show "n \<noteq> 0" by (metis unat_0)
qed


section \<open>Ending a subscription\<close>

lemma twa_accumulate_total:
  assumes "decimal_laws dl"
  shows "\<exists>r. twa_accumulate dl ev (Some twa) v = Ok r"
proof (cases "time (env_block ev) \<le> last_block_time twa")
  case False
  let ?now = "dl_seconds dl (time (env_block ev))" and ?last = "dl_seconds dl (last_block_time twa)"
  from assms False have "?last \<le> ?now" by (simp add: decimal_laws_def word_le_nat_alt div_le_mono)
  then have e: "checked_sub ?now ?last = Some (?now - ?last)" by (simp add: checked_sub_def)
  then have "unat (?now - ?last) < 10 ^ 18" using unat_seconds_less [OF assms, of "time (env_block ev)"] by (auto simp: checked_sub_Some)
  then obtain w where "mul_floor (dl_math dl) (ucast (?now - ?last)) v = Some w" using mul_floor_seconds [OF assms] by blast
  with e False show ?thesis by (auto simp: twa_accumulate_def twa_load_def Let_def)
qed (simp add: twa_accumulate_def twa_load_def)

lemma accumulate_income_total:
  assumes "decimal_laws (sb_dec sb)" and "income_twa st = Some twa" and "unat n * unat (subscription_cost_per_second config) < 2 ^ 128"
  shows "\<exists>twa'. accumulate_income sb ev n config st = Ok (st\<lparr>income_twa := Some twa'\<rparr>)"
proof -
  have "unat n * 10 ^ 18 < 2 ^ 128" using unsigned_less [of n, where ?'a = nat] by simp
  then obtain d where d: "dl_from_atomics (sb_dec sb) (ucast n) 0 = Some d" "unat d = unat n * 10 ^ 18"
    using assms(1) fits_u128_Some [of "unat n * 10 ^ 18"] by (auto simp: decimal_laws_def unat_widen fits_u128_def)
  have "unat d * unat (subscription_cost_per_second config) div 10 ^ 18 = unat n * unat (subscription_cost_per_second config)"
    by (simp add: d(2) ac_simps)
  with assms(1,3) obtain v where v: "dl_decimal_mul (sb_dec sb) d (subscription_cost_per_second config) = Some v"
    by (auto simp: decimal_laws_def fits_u128_def)
  obtain twa' r where "twa_accumulate (sb_dec sb) ev (Some twa) v = Ok (twa', r)"
    using twa_accumulate_total [OF assms(1), of ev twa v] by fastforce
  with d v assms(2) show ?thesis by (intro exI [of _ twa']) (simp add: accumulate_income_def income_def)
qed

lemma or_no_claim_total:
  assumes "decimal_laws (sb_dec sb)" and "n \<noteq> 0" and "\<forall>ast r. is_ok (sl_transfer_msg (sb_sdk sb) ast r)"
  shows "\<exists>s' act. or_no_claim s (claim_emissions_msg sb ch ev st s a emissions n) = Ok (s', act)"
proof (cases "time (env_block ev) \<le> last_emission_claim_timestamp s")
  case True
  then show ?thesis by (simp add: claim_emissions_msg_def or_no_claim_def)
next
  case False
  then obtain secs where secs: "seconds_passed sb (env_block ev) s = Ok secs" "unat secs < 10 ^ 18"
    using seconds_passed_Ok [OF assms(1)] by (meson not_le)
  have t: "\<exists>m. bank_transfer (sb_sdk sb) ans [TransferAsset ast] a = Ok m" for ans ast
    using assms(3) by (auto simp: bank_transfer_def transfer_msgs_def is_ok_iff result_simps)
  show ?thesis
  proof (cases emissions)
    case NoEmissions
    with False secs show ?thesis by (simp add: claim_emissions_msg_def or_no_claim_def emission_asset_def)
  next
    case (SecondShared d token)
    with emission_asset_due [OF assms(1,2) secs(2), of emissions] obtain x where
      "emission_asset sb emissions n secs = Ok \<lparr>as_info = token, as_amount = x\<rparr>" by auto
    with False secs t [of "app_ans_host ch st" "\<lparr>as_info = token, as_amount = x\<rparr>"] show ?thesis
      by (auto simp: claim_emissions_msg_def or_no_claim_def)
  next
    case (SecondPerUser d token)
    with emission_asset_due [OF assms(1,2) secs(2), of emissions] obtain x where
      "emission_asset sb emissions n secs = Ok \<lparr>as_info = token, as_amount = x\<rparr>" by auto
    with False secs t [of "app_ans_host ch st" "\<lparr>as_info = token, as_amount = x\<rparr>"] show ?thesis
      by (auto simp: claim_emissions_msg_def or_no_claim_def)
  qed
qed

text \<open>
  C30: anyone can end an expired subscription at any time: the message succeeds, the subscriber is gone and one less is
  counted, provided the income of all subscribers fits a decimal and a transfer message can be built.
\<close>

theorem expired_can_be_ended:
  assumes "decimal_laws (sb_dec sb)" and "reachable (subscription_start sb) (subscription_step sb) st"
    and "load (subscribers st) a = Some s" and "is_expired s (env_block ev)" and "q_addr_validate ch human = Ok a"
    and "active_subs st = Some n" and "sub_config st = Some config"
    and "unat n * unat (subscription_cost_per_second config) < 2 ^ 128"
    and "\<forall>ast r. is_ok (sl_transfer_msg (sb_sdk sb) ast r)"
  shows "\<exists>st' out. subscription_execute sb ch ev info st (Unsubscribe [human]) = Ok (st', out)
    \<and> load (subscribers st') a = None \<and> active_subs st' = Some (n - 1)"
proof -
  from subscription.holds [OF assms(2)] obtain twa where wf: "subscription_wf st" and twa: "income_twa st = Some twa"
    by (auto simp: subscription_wf_def)
  have n: "n \<noteq> 0" by (rule subscriber_counted [OF wf assms(3,6)])
  then have one: "checked_sub n 1 = Some (n - 1)" by (simp add: checked_sub_def word_le_nat_alt unat_gt_0 Suc_leI)
  obtain twa' where acc: "accumulate_income sb ev n config st = Ok (st\<lparr>income_twa := Some twa'\<rparr>)"
    using accumulate_income_total [OF assms(1) twa assms(8)] by blast
  obtain s' act where "or_no_claim s (claim_emissions_msg sb ch ev (st\<lparr>income_twa := Some twa'\<rparr>) s a
      (subscription_per_second_emissions config) n) = Ok (s', act)"
    using or_no_claim_total [OF assms(1) n assms(9)] by blast
  with assms(3-7) one acc show ?thesis
    by (simp add: unsubscribe_def MAX_UNSUBS_def load_active_subs_def load_sub_config_def unsubscribe_one_def load_subscriber_def Let_def)
qed

section \<open>Differences to the documentation\<close>

lemma div_less_ceiling:
  assumes "p mod k \<noteq> 0" and "0 < k"
  shows "p div k < (p + (k - 1)) div (k :: nat)"
proof -
  from assms have k: "0 < k" "1 \<le> p mod k" by simp_all
  have "p + (k - 1) = p div k * k + (p mod k + (k - 1))" by (metis add.assoc div_mult_mod_eq)
  also have "\<dots> div k = p div k + (p mod k + (k - 1)) div k" using k(1) by (intro div_mult_self3) simp
  finally have "(p + (k - 1)) div k = p div k + (p mod k + (k - 1)) div k" .
  moreover have "k div k \<le> (p mod k + (k - 1)) div k" by (rule div_le_mono) (use k in linarith)
  then have "1 \<le> (p mod k + (k - 1)) div k" using k(1) by simp
  ultimately show ?thesis by linarith
qed

text \<open>The fee the query quotes is rounded down, the fee that is asked for is rounded up.\<close>

lemma quoted_fee_refused:
  assumes "decimal_laws (sb_dec sb)" and "query_subscription_fee sb st = Ok ast" and "income_twa st = Some twa"
    and "sub_config st = Some config" and "load (subscribers st) a = None"
    and "\<not> 10 ^ 18 dvd unat (averaging_period twa) * unat (subscription_cost_per_second config)"
  shows "\<not> is_ok (try_pay sb ev st ast a)"
proof
  let ?p = "unat (averaging_period twa) * unat (subscription_cost_per_second config)"
  assume "is_ok (try_pay sb ev st ast a)"
  then obtain st' out where "try_pay sb ev st ast a = Ok (st', out)" by (auto simp: is_ok_iff)
  then show False
  proof (rule try_pay_Ok)
    fix c twa1 need secs
    assume "sub_config st = Some c" "income_twa st = Some twa1"
      and need: "dl_mul_ceil (sb_dec sb) (ucast (averaging_period twa1)) (subscription_cost_per_second c) = Some need"
      and book: "book_payment sb ev st c ast need (ucast secs) a = Ok st'"
    with assms(1,3,4) have "unat need = (?p + (10 ^ 18 - 1)) div 10 ^ 18"
      by (simp add: decimal_laws_def fits_u128_Some unat_widen64)
    moreover have "need \<le> as_amount ast" using book assms(5) by (cases rule: book_payment_Ok) auto
    moreover have "unat (as_amount ast) = ?p div 10 ^ 18"
      using assms(2-4) by (auto simp: query_subscription_fee_def load_sub_config_def twa_load_def result_simps
          mul_floor_Some [OF assms(1)] unat_widen64)
    ultimately have "(?p + (10 ^ 18 - 1)) div 10 ^ 18 \<le> ?p div 10 ^ 18" by (simp add: word_le_nat_alt)
    moreover have "?p mod 10 ^ 18 \<noteq> 0" using assms(6) by (simp add: dvd_eq_mod_eq_0)
    then have "?p div 10 ^ 18 < (?p + (10 ^ 18 - 1)) div 10 ^ 18" by (rule div_less_ceiling) simp
    ultimately show False by simp
  qed
qed

section \<open>A subscriber\<close>

text \<open>One dollar per second, with two tokens per second shared among the subscribers; \<open>''bob''\<close> pays for 100 seconds.\<close>

definition club_sdk :: "u128 sdk_lib" where
  "club_sdk = \<lparr>sl_ans = (\<lambda>a. Ok empty_ans), sl_asset_new = (\<lambda>i n. \<lparr>as_info = i, as_amount = ucast n\<rparr>),
     sl_asset_of_coin = (\<lambda>c. \<lparr>as_info = CHR ''n'' # denom c, as_amount = ucast (amount c)\<rparr>),
     sl_transfer_msg = (\<lambda>a r. Ok (BankSend r [\<lparr>denom = tl (as_info a), amount = ucast (as_amount a)\<rparr>])),
     sl_send_msg = (\<lambda>a r m. Err ''cw20 only''), sl_query_balance = (\<lambda>i a. Ok 0), sl_asset_amount = (\<lambda>n. Ok (ucast n)),
     sl_native_denom = (\<lambda>i. Some (tl i)), sl_is_cw20 = (\<lambda>i. False), sl_must_pay = (\<lambda>fs d. Err d),
     sl_multiply_ratio = (\<lambda>a n d. None), sl_mul_floor = (\<lambda>a d. None), sl_math = std_math\<rparr>"

definition club_lib :: sub_lib where
  "club_lib = \<lparr>sb_sdk = club_sdk, sb_dec = std_decimal, sb_check = Ok, sb_cw20 = (\<lambda>a. CHR ''c'' # a),
     sb_hook_of_json = (\<lambda>b. Ok None), sb_unsubscribed_json = concat\<rparr>"

definition club_config :: subscription_config where
  "club_config = \<lparr>payment_asset = ''nusd'', subscription_cost_per_second = 10 ^ 18,
     subscription_per_second_emissions = SecondShared (2 * 10 ^ 18) ''ntok'', unsubscribe_hook_addr = None\<rparr>"

definition club_blank :: subscription_state where
  "club_blank = \<lparr>ap_cw2 = None, ap_module_data = None, ap_account = Some ''acct'', ap_admin = Some (Some ''acct''),
     sub_config = None, active_subs = None, subscribers = [], expired_subscribers = [], income_twa = None\<rparr>"

definition club_new :: subscription_state where
  "club_new = club_blank\<lparr>sub_config := Some club_config, active_subs := Some 0,
     income_twa := Some (twa_instantiate std_decimal (twa_at 0) None 20)\<rparr>"

definition bob_sub :: subscriber where
  "bob_sub = \<lparr>expiration_timestamp = 110000000000, last_emission_claim_timestamp = 10000000000\<rparr>"

definition club_bob :: subscription_state where
  "club_bob = club_new\<lparr>active_subs := Some 1, subscribers := [(''bob'', bob_sub)],
     income_twa := Some ((twa_instantiate std_decimal (twa_at 0) None 20)\<lparr>last_block_time := 10000000000\<rparr>)\<rparr>"

definition bob_pays :: message_info where
  "bob_pays = \<lparr>info_sender = ''bob'', info_funds = [\<lparr>denom = ''usd'', amount = 100\<rparr>]\<rparr>"

lemmas club_defs = club_sdk_def club_lib_def club_config_def club_blank_def club_new_def bob_sub_def club_bob_def bob_pays_def
  twa_instantiate_def twa_at_def at_time_def std_decimal_def std_math_def

lemma club_lib_laws: "decimal_laws (sb_dec club_lib)" "\<forall>ast r. is_ok (sl_transfer_msg (sb_sdk club_lib) ast r)"
  by (simp_all add: club_lib_def std_decimal_laws club_sdk_def)

definition bob_asset :: "u128 asset" where "bob_asset = \<lparr>as_info = ''nusd'', as_amount = 100\<rparr>"

lemma bob_try_pay: "try_pay club_lib (twa_at 10) club_new bob_asset ''bob'' = Ok (club_bob, [Direct (BankSend ''acct'' [\<lparr>denom = ''usd'', amount = 100\<rparr>])])"
  by (simp add: try_pay_def book_payment_def subscriber_new_def load_sub_config_def load_active_subs_def twa_load_def
      accumulate_income_def income_def twa_accumulate_def bob_asset_def club_defs fits_u128_def checked_add_def checked_sub_def remove_def Let_def)

lemma bob_pay_step:
  "subscription_custom_execute club_lib admin_chain (twa_at 10) bob_pays club_new (SubModule (Pay None))
   = Ok (club_bob, [Direct (BankSend ''acct'' [\<lparr>denom = ''usd'', amount = 100\<rparr>])])"
  using bob_try_pay by (simp add: bob_pays_def bob_asset_def club_lib_def club_sdk_def)

lemma club_reachable: "reachable (subscription_start club_lib) (subscription_step club_lib) club_bob"
proof -
  have "subscription_instantiate club_lib admin_chain (twa_at 0) club_blank \<lparr>si_payment_asset = ''nusd'',
      si_cost_per_second = 10 ^ 18, si_emissions = SecondShared (2 * 10 ^ 18) ''ntok'', si_averaging_period = 20, si_hook_addr = None\<rparr>
    = Ok (club_new, [])"
    by (simp add: subscription_instantiate_def emission_check_def club_defs Let_def)
  then have "subscription_start club_lib club_new"
    by (rule subscription_start.intros [rotated 2]) (simp_all add: club_blank_def)
  then have "reachable (subscription_start club_lib) (subscription_step club_lib) club_new" by (rule reach_start)
  then show ?thesis by (rule reach_step) (rule subscription_step.intros [OF bob_pay_step])
qed

lemma club_bob_facts:
  "load (subscribers club_bob) ''bob'' = Some bob_sub" "active_subs club_bob = Some 1" "sub_config club_bob = Some club_config"
  by (simp_all add: club_bob_def club_new_def)

theorem active_subs_counted_witness: "card (dom (load (subscribers club_bob))) = 1"
  using active_subs_counted [OF club_reachable] by (simp add: club_bob_facts)

theorem subscription_kept_until_expiry_witness:
  "load (subscribers club_bob) ''bob'' = Some bob_sub \<and> \<not> is_expired bob_sub (env_block (twa_at 10))"
proof -
  have "subscription_custom_execute club_lib admin_chain (twa_at 10) bob_pays club_bob (SubModule RefreshTWA) = Ok (club_bob, [])"
    by (simp add: twa_try_update_value_def twa_load_def club_defs checked_sub_def Let_def)
  from subscription_kept_until_expiry [OF club_lib_laws(1) club_reachable this club_bob_facts(1)] show ?thesis
    by (auto simp: club_bob_facts is_expired_def bob_sub_def twa_at_def at_time_def)
qed

theorem payment_buys_time_witness:
  "\<exists>s'. load (subscribers club_bob) ''bob'' = Some s' \<and> unat (expiration_timestamp s') = 10 * 10 ^ 9 + 100 * 10 ^ 9"
proof -
  have "sub_config club_new = Some club_config" "load (subscribers club_new) ''bob'' = None"
    by (simp_all add: club_new_def club_blank_def)
  with payment_buys_time [OF club_lib_laws(1) bob_try_pay, of club_config] show ?thesis
    by (auto simp: bob_asset_def club_config_def twa_at_def at_time_def)
qed


theorem expired_can_be_ended_witness:
  "\<exists>st' out. subscription_execute club_lib admin_chain (twa_at 200) bob_pays club_bob (Unsubscribe [''bob'']) = Ok (st', out)
    \<and> load (subscribers st') ''bob'' = None \<and> active_subs st' = Some 0"
proof -
  have "is_expired bob_sub (env_block (twa_at 200))" by (simp add: is_expired_def bob_sub_def twa_at_def at_time_def)
  moreover have "q_addr_validate admin_chain ''bob'' = Ok ''bob''" by (simp add: admin_chain_facts)
  moreover have "unat (1 :: u32) * unat (subscription_cost_per_second club_config) < 2 ^ 128" by (simp add: club_config_def)
  ultimately show ?thesis
    using expired_can_be_ended [OF club_lib_laws(1) club_reachable club_bob_facts(1) _ _ club_bob_facts(2,3) _ club_lib_laws(2)] by simp
qed

text \<open>The average income is refreshed without the income since the last change of the subscribers: with one subscriber who pays
  a dollar per second all the time, it is zero.\<close>

lemma refreshed_income_misses_subscriber:
  "\<exists>twa. subscription_custom_execute club_lib admin_chain (twa_at 100) bob_pays club_bob (SubModule RefreshTWA)
    = Ok (club_bob\<lparr>income_twa := Some twa\<rparr>, []) \<and> average_value twa = 0"
  by (simp add: twa_try_update_value_def twa_load_def club_defs checked_sub_def fits_u128_def Let_def)

end
