(* ===== verification/Sdk_Modules.thy ===== *)
theory Sdk_Modules
  imports Sdk_Apis
begin

text \<open>
  How a module reaches the other modules of its account and other chains (\<open>abstract-sdk/src/apis\<close>): the addresses
  of installed modules (\<open>modules.rs\<close>), messages and queries to adapters (\<open>adapter.rs\<close>) and apps (\<open>app.rs\<close>), the
  client of the IBC client (\<open>ibc.rs\<close>), and the fees taken from an asset (\<open>cw_helpers/fees.rs\<close>).

  The account of the module is the argument \<open>base_account\<close>, its dependencies are \<open>deps\<close>, and \<open>qa\<close> answers the
  stored state of an account. What a message is as JSON is the parameter \<open>to_json\<close>, what a contract answers to
  a query is \<open>smart\<close>.

  Theorems: a message to an adapter is sent only to the address the account has installed it at and names the
  account it is for, and taking a fee divides the amount without loss.
\<close>

section \<open>Installed modules (apis/modules.rs)\<close>

definition module_address :: "account_querier \<Rightarrow> addr option \<Rightarrow> string \<Rightarrow> (addr, sdk_error) result" where
  "module_address qa base_account mid =
     and_then (module_account base_account) (\<lambda>account_addr.
     and_then (map_err SdkStd (qa account_addr)) (\<lambda>acc.
     ok_or (MissingModule mid) (load (account_modules acc) mid)))"

definition installed_version ::
  "account_querier \<Rightarrow> chain \<Rightarrow> addr option \<Rightarrow> string \<Rightarrow> (contract_version, sdk_error) result" where
  "installed_version qa ch base_account mid =
     and_then (module_address qa base_account mid) (\<lambda>a. map_err SdkStd (q_cw2 ch a))"

definition assert_module_dependency :: "dependency list \<Rightarrow> string \<Rightarrow> (unit, sdk_error) result" where
  "assert_module_dependency dps mid =
     (let is_dependency = list_ex (\<lambda>x. x = mid) (map dep_id dps)
      in if is_dependency then Ok () else Err (MissingDependency mid))"

section \<open>Adapters and apps (apis/adapter.rs, apis/app.rs)\<close>

definition adapters_execute ::
  "('x adapter_execute_msg \<Rightarrow> (binary, std_error) result) \<Rightarrow> account_querier \<Rightarrow> dependency list \<Rightarrow> addr option
   \<Rightarrow> string \<Rightarrow> 'x \<Rightarrow> (cosmos_msg, sdk_error) result" where
  "adapters_execute to_json qa dps base_account adapter_id message =
     and_then (assert_module_dependency dps adapter_id) (\<lambda>_.
     and_then (module_account base_account) (\<lambda>account.
     let adapter_msg = AdapterModule (Some account) message
     in and_then (module_address qa base_account adapter_id) (\<lambda>adapter_address.
        and_then (map_err SdkStd (to_json adapter_msg)) (\<lambda>b. Ok (WasmExecute adapter_address (Raw b) [])))))"

definition adapters_query ::
  "(addr \<Rightarrow> 'q \<Rightarrow> ('r, std_error) result) \<Rightarrow> account_querier \<Rightarrow> addr option \<Rightarrow> string \<Rightarrow> 'q \<Rightarrow> ('r, sdk_error) result" where
  "adapters_query smart qa base_account adapter_id qry =
     and_then (module_address qa base_account adapter_id) (\<lambda>adapter_address.
     map_err SdkStd (smart adapter_address qry))"

definition apps_execute ::
  "('x app_execute_msg \<Rightarrow> (binary, std_error) result) \<Rightarrow> account_querier \<Rightarrow> dependency list \<Rightarrow> addr option
   \<Rightarrow> string \<Rightarrow> 'x app_execute_msg \<Rightarrow> (cosmos_msg, sdk_error) result" where
  "apps_execute to_json qa dps base_account app_id app_msg =
     and_then (assert_module_dependency dps app_id) (\<lambda>_.
     and_then (module_address qa base_account app_id) (\<lambda>app_address.
     and_then (map_err SdkStd (to_json app_msg)) (\<lambda>b. Ok (WasmExecute app_address (Raw b) []))))"

definition apps_query ::
  "(addr \<Rightarrow> 'q \<Rightarrow> ('r, std_error) result) \<Rightarrow> account_querier \<Rightarrow> addr option \<Rightarrow> string \<Rightarrow> 'q \<Rightarrow> ('r, sdk_error) result" where
  "apps_query smart qa base_account app_id qry =
     and_then (module_address qa base_account app_id) (\<lambda>app_address. map_err SdkStd (smart app_address qry))"

section \<open>Other chains (apis/ibc.rs)\<close>

type_synonym client_json = "client_execute_msg \<Rightarrow> (binary, std_error) result"

text \<open>The address of the IBC client is the one the registry has for the own release.\<close>

definition ibc_client_address ::
  "chain \<Rightarrow> dependency list \<Rightarrow> (addr, sdk_error) result \<Rightarrow> (addr, sdk_error) result" where
  "ibc_client_address ch dps registry =
     and_then (assert_module_dependency dps IBC_CLIENT) (\<lambda>_.
     and_then registry (\<lambda>registry.
     and_then (map_err SdkAbstract (module_info_from_id IBC_CLIENT (Version CONTRACT_VERSION))) (\<lambda>mi.
     and_then (map_err SdkRegistry (registry_query_module ch registry mi)) (\<lambda>m.
     map_err SdkAbstract (unwrap_native (m_reference m))))))"

definition to_ibc_client ::
  "client_json \<Rightarrow> (addr, sdk_error) result \<Rightarrow> client_execute_msg \<Rightarrow> (cosmos_msg, sdk_error) result" where
  "to_ibc_client to_json client msg =
     and_then client (\<lambda>a.
     and_then (map_err SdkStd (to_json msg)) (\<lambda>b. Ok (WasmExecute a (Raw b) [])))"

definition module_ibc_action ::
  "client_json \<Rightarrow> ('m \<Rightarrow> (binary, std_error) result) \<Rightarrow> (addr, sdk_error) result \<Rightarrow> truncated_chain_id \<Rightarrow> module_info
   \<Rightarrow> 'm \<Rightarrow> binary option \<Rightarrow> (cosmos_msg, sdk_error) result" where
  "module_ibc_action to_json msg_json client host_chain target_module exec_msg callback =
     and_then client (\<lambda>a.
     and_then (map_err SdkStd (msg_json exec_msg)) (\<lambda>b.
     to_ibc_client to_json (Ok a) (ModuleIbcAction host_chain target_module b callback)))"

definition ibc_queries ::
  "client_json \<Rightarrow> (addr, sdk_error) result \<Rightarrow> truncated_chain_id \<Rightarrow> module_query query_request list \<Rightarrow> binary
   \<Rightarrow> (cosmos_msg, sdk_error) result" where
  "ibc_queries to_json client host_chain queries callback =
     to_ibc_client to_json client (IbcQuery host_chain queries callback)"

definition ibc_query ::
  "client_json \<Rightarrow> (addr, sdk_error) result \<Rightarrow> truncated_chain_id \<Rightarrow> module_query query_request \<Rightarrow> binary
   \<Rightarrow> (cosmos_msg, sdk_error) result" where
  "ibc_query to_json client host_chain qry callback =
     to_ibc_client to_json client (IbcQuery host_chain [qry] callback)"

definition ibc_execute ::
  "client_json \<Rightarrow> addr option \<Rightarrow> client_execute_msg \<Rightarrow> coin list \<Rightarrow> (module_msg, sdk_error) result" where
  "ibc_execute to_json base_account msg fnds =
     and_then (module_account base_account) (\<lambda>account.
     and_then (map_err SdkStd (to_json msg)) (\<lambda>b.
     Ok (OnAccount account (ExecuteOnModule IBC_CLIENT b fnds) [])))"

definition create_remote_account ::
  "client_json \<Rightarrow> addr option \<Rightarrow> truncated_chain_id \<Rightarrow> (module_msg, sdk_error) result" where
  "create_remote_account to_json base_account host_chain =
     ibc_execute to_json base_account (ClientRegister host_chain None []) []"

definition ibc_host_action ::
  "client_json \<Rightarrow> addr option \<Rightarrow> truncated_chain_id \<Rightarrow> host_action \<Rightarrow> (module_msg, sdk_error) result" where
  "ibc_host_action to_json base_account host_chain action =
     ibc_execute to_json base_account (RemoteAction host_chain action) []"

definition ics20_transfer ::
  "client_json \<Rightarrow> addr option \<Rightarrow> truncated_chain_id \<Rightarrow> coin list \<Rightarrow> string option \<Rightarrow> string option
   \<Rightarrow> (module_msg, sdk_error) result" where
  "ics20_transfer to_json base_account host_chain fnds memo receiver =
     ibc_execute to_json base_account (SendFunds host_chain receiver memo) fnds"

definition install_remote_app ::
  "client_json \<Rightarrow> ('m \<Rightarrow> (binary, std_error) result) \<Rightarrow> addr option \<Rightarrow> truncated_chain_id \<Rightarrow> module_info \<Rightarrow> 'm
   \<Rightarrow> (module_msg, sdk_error) result" where
  "install_remote_app to_json msg_json base_account host_chain mi init_msg =
     and_then (map_err SdkStd (msg_json init_msg)) (\<lambda>b.
     ibc_host_action to_json base_account host_chain
       (Dispatch [InstallModules [\<lparr>mic_module = mi, mic_init_msg = Some b\<rparr>]]))"

definition install_remote_api ::
  "client_json \<Rightarrow> addr option \<Rightarrow> truncated_chain_id \<Rightarrow> module_info \<Rightarrow> (module_msg, sdk_error) result" where
  "install_remote_api to_json base_account host_chain mi =
     ibc_host_action to_json base_account host_chain
       (Dispatch [InstallModules [\<lparr>mic_module = mi, mic_init_msg = None\<rparr>]])"

definition execute_on_remote_module ::
  "client_json \<Rightarrow> ('m \<Rightarrow> (binary, std_error) result) \<Rightarrow> addr option \<Rightarrow> truncated_chain_id \<Rightarrow> string \<Rightarrow> 'm
   \<Rightarrow> (module_msg, sdk_error) result" where
  "execute_on_remote_module to_json msg_json base_account host_chain mid exec_msg =
     and_then (map_err SdkStd (msg_json exec_msg)) (\<lambda>b.
     ibc_host_action to_json base_account host_chain (Dispatch [ExecuteOnModule mid b []]))"

section \<open>Fees on an asset (cw_helpers/fees.rs)\<close>

definition take_off :: "u256 asset \<Rightarrow> u256 \<Rightarrow> (u256 asset, 'e) result" where
  "take_off a n = and_then (unwrap (checked_sub (as_amount a) n)) (\<lambda>rest. Ok (a\<lparr>as_amount := rest\<rparr>))"

definition charge_fee :: "u256 sdk_lib \<Rightarrow> u256 asset \<Rightarrow> fee \<Rightarrow> (u256 \<times> u256 asset, sdk_error) result" where
  "charge_fee sl a f =
     and_then (fee_compute sl f (as_amount a)) (\<lambda>fee_amount.
     and_then (take_off a fee_amount) (\<lambda>a. Ok (fee_amount, a)))"

definition charge_usage_fee ::
  "u256 sdk_lib \<Rightarrow> u256 asset \<Rightarrow> usage_fee \<Rightarrow> (cosmos_msg option \<times> u256 asset, sdk_error) result" where
  "charge_usage_fee sl a u =
     and_then (usage_fee_compute sl u (as_amount a)) (\<lambda>fee_amount.
     if fee_amount = 0 then Ok (None, a)
     else and_then (take_off a fee_amount) (\<lambda>rest.
       and_then (map_err SdkAsset
         (sl_transfer_msg sl \<lparr>as_info = as_info a, as_amount = fee_amount\<rparr> (uf_recipient u))) (\<lambda>msg.
       Ok (Some msg, rest))))"

section \<open>Theorems\<close>

lemma module_address_Ok [result_simps]:
  "module_address qa base_account mid = Ok a \<longleftrightarrow>
     (\<exists>account acc. base_account = Some account \<and> qa account = Ok acc \<and> load (account_modules acc) mid = Some a)"
  by (auto simp: module_address_def module_account_def result_simps)

lemma adapters_execute_Ok [result_simps]:
  "adapters_execute to_json qa dps base_account mid message = Ok msg \<longleftrightarrow>
     (\<exists>account acc a b. base_account = Some account \<and> qa account = Ok acc \<and> load (account_modules acc) mid = Some a
        \<and> mid \<in> dep_id ` set dps \<and> to_json (AdapterModule (Some account) message) = Ok b
        \<and> msg = WasmExecute a (Raw b) [])"
  unfolding adapters_execute_def Let_def and_then_Ok map_err_Ok module_address_Ok
  by (auto simp: module_account_def assert_module_dependency_def list_ex_iff image_iff result_simps)

lemma ibc_execute_Ok [result_simps]:
  "ibc_execute to_json base_account msg fnds = Ok m \<longleftrightarrow>
     (\<exists>account b. base_account = Some account \<and> to_json msg = Ok b
        \<and> m = OnAccount account (ExecuteOnModule IBC_CLIENT b fnds) [])"
  by (auto simp: ibc_execute_def module_account_def result_simps)

lemma take_off_Ok [result_simps]:
  "take_off a n = Ok b \<longleftrightarrow> n \<le> as_amount a \<and> b = a\<lparr>as_amount := as_amount a - n\<rparr>"
  by (auto simp: take_off_def checked_sub_def result_simps split: if_splits)

text \<open>
  a message that a module sends to an adapter over the sdk goes to the address at which the account of the
  module has the adapter installed, and asks the adapter to act for that account; the module must have declared the
  adapter as a dependency.
\<close>

theorem adapter_message_addressed:
  assumes "adapters_execute to_json qa dps (ap_account st) mid message = Ok msg"
  shows "\<exists>account acc a b. ap_account st = Some account \<and> qa account = Ok acc \<and> load (account_modules acc) mid = Some a
    \<and> mid \<in> dep_id ` set dps \<and> msg = WasmExecute a (Raw b) []
    \<and> to_json (AdapterModule (Some account) message) = Ok b"
  using assms by (auto simp: result_simps)

lemma usage_fee_amount:
  assumes "ratio_laws sl" and "usage_fee_new shr recipient = Ok u"
  shows "usage_fee_compute sl u a = Ok (of_nat (unat a * unat shr div 10 ^ 18))"
    and "unat (of_nat (unat a * unat shr div 10 ^ 18) :: u256) = unat a * unat shr div 10 ^ 18"
    and "(of_nat (unat a * unat shr div 10 ^ 18) :: u256) \<le> a"
proof -
  from assms(2) have u: "uf_fee u = shr" and shr: "unat shr < 10 ^ 18"
    by (auto simp: usage_fee_new_def fee_new_def word_le_nat_alt not_le result_simps split: if_splits)
  have "unat a * unat shr div 10 ^ 18 \<le> unat a * 10 ^ 18 div 10 ^ 18"
    using shr by (intro div_le_mono mult_le_mono) simp_all
  then have le: "unat a * unat shr div 10 ^ 18 \<le> unat a" by simp
  then have fits: "unat a * unat shr div 10 ^ 18 < 2 ^ 256" using unat_u256 [of a] by linarith
  show "usage_fee_compute sl u a = Ok (of_nat (unat a * unat shr div 10 ^ 18))"
    using assms(1) fits by (simp add: usage_fee_compute_def ratio_laws_def u)
  show eq: "unat (of_nat (unat a * unat shr div 10 ^ 18) :: u256) = unat a * unat shr div 10 ^ 18"
    using fits by (simp add: unat_of_nat)
  show "(of_nat (unat a * unat shr div 10 ^ 18) :: u256) \<le> a"
    using le unfolding word_le_nat_alt eq .
qed

text \<open>
  taking a usage fee divides the amount of an asset: what is left and what is sent to the recipient add up to
  the amount, the fee is the share rounded down, and no message is sent for a fee of zero.
\<close>

theorem usage_fee_divides:
  assumes "ratio_laws sl" and "usage_fee_new shr recipient = Ok u" and "charge_usage_fee sl a u = Ok (msg, rest)"
  shows "\<exists>fee. unat fee = unat (as_amount a) * unat shr div 10 ^ 18 \<and> fee \<le> as_amount a
    \<and> rest = a\<lparr>as_amount := as_amount a - fee\<rparr>
    \<and> (if fee = 0 then msg = None
       else \<exists>m. msg = Some m \<and> sl_transfer_msg sl \<lparr>as_info = as_info a, as_amount = fee\<rparr> recipient = Ok m)"
proof -
  let ?fee = "of_nat (unat (as_amount a) * unat shr div 10 ^ 18) :: u256"
  note fee = usage_fee_amount [OF assms(1,2), of "as_amount a"]
  from assms(2) have u: "uf_recipient u = recipient" by (auto simp: usage_fee_new_def result_simps)
  from assms(3) have "if ?fee = 0 then msg = None \<and> rest = a
      else rest = a\<lparr>as_amount := as_amount a - ?fee\<rparr>
        \<and> (\<exists>m. msg = Some m \<and> sl_transfer_msg sl \<lparr>as_info = as_info a, as_amount = ?fee\<rparr> recipient = Ok m)"
    unfolding charge_usage_fee_def fee(1) by (auto simp: u result_simps split: if_splits)
  with fee(2,3) show ?thesis by (intro exI [of _ ?fee]) (auto split: if_splits)
qed

section \<open>Witnesses\<close>

theorem usage_fee_divides_witness:
  "\<exists>fee. unat (fee :: u256) = 300 \<and> (7700 :: u256) = 8000 - fee \<and> 300 \<noteq> (0 :: nat)"
proof -
  let ?sl = "bank_lib empty_ans" let ?a = "\<lparr>as_info = ''nusd'', as_amount = 8000\<rparr> :: u256 asset"
  have u: "usage_fee_new 37500000000000000 ''dao'' = Ok \<lparr>uf_fee = 37500000000000000, uf_recipient = ''dao''\<rparr>"
    by (simp add: usage_fee_new_def fee_new_def)
  have "charge_usage_fee ?sl ?a \<lparr>uf_fee = 37500000000000000, uf_recipient = ''dao''\<rparr>
    = Ok (Some (BankSend ''dao'' [\<lparr>denom = ''usd'', amount = 300\<rparr>]), ?a\<lparr>as_amount := 7700\<rparr>)"
    by (simp add: charge_usage_fee_def usage_fee_compute_def bank_lib_def take_off_def checked_sub_def)
  from usage_fee_divides [OF bank_lib_laws(2) u this] obtain fee :: u256 where
    "unat fee = 8000 * 37500000000000000 div 10 ^ 18" "?a\<lparr>as_amount := 7700\<rparr> = ?a\<lparr>as_amount := as_amount ?a - fee\<rparr>"
    by auto
  then show ?thesis by (intro exI [of _ fee]) simp
qed

theorem adapter_message_addressed_witness:
  "\<exists>acc. (\<lambda>a. Ok (empty_account\<lparr>account_modules := [(''abstract:dex'', ''dex1'')]\<rparr>)) ''acct'' = (Ok acc :: (account_state, std_error) result)
     \<and> load (account_modules acc) ''abstract:dex'' = Some ''dex1''"
proof -
  let ?qa = "\<lambda>a. Ok (empty_account\<lparr>account_modules := [(''abstract:dex'', ''dex1'')]\<rparr>)"
  have "adapters_execute (\<lambda>m. Ok ''{}'') ?qa [\<lparr>dep_id = ''abstract:dex'', version_req = []\<rparr>] (ap_account live_app) ''abstract:dex'' ()
      = Ok (WasmExecute ''dex1'' (Raw ''{}'') [])"
    by (simp add: adapters_execute_Ok live_app_def load_def)
  from adapter_message_addressed [OF this] show ?thesis by (auto simp: load_def)
qed

end
