(* ===== verification/Dex.thy ===== *)
theory Dex
  imports Sdk_Modules
begin

text \<open>
  The adapter for exchanges: the standard every exchange implements and its messages
  (\<open>packages/standards/dex/src\<close>, \<open>packages/standards/utils/src/identity.rs\<close>) and the adapter
  \<open>modules/contracts/adapters/dex/src\<close> with its handlers, queries and the resolution of actions.

  An exchange is a trait object in the code, so here it is a record of functions over the data
  the exchange keeps between \<open>fetch_data\<close> and the action; which exchanges are compiled in is the list of
  features of the crate. JSON, the checks of \<open>cw_asset\<close> and its conversion to coins are the other
  fields of the parameter \<open>dex_lib\<close>. Amounts have the width of the amount of an asset.
\<close>

section \<open>Names of exchanges (utils/src/identity.rs, exchanges/exchange_resolver.rs)\<close>

definition decompose_platform_name :: "string \<Rightarrow> string option \<times> string" where
  "decompose_platform_name platform_name =
     (case split_once CHR ''>'' platform_name of
        Some (chain_name, platform_name) \<Rightarrow> (Some chain_name, platform_name)
      | None \<Rightarrow> (None, platform_name))"

definition get_chain_name :: "env \<Rightarrow> string" where
  "get_chain_name ev = before_last CHR ''-'' (chain_id (env_block ev))"

definition is_current_chain :: "env \<Rightarrow> string \<Rightarrow> bool" where
  "is_current_chain ev chain_name \<longleftrightarrow> get_chain_name ev = chain_name"

text \<open>An identified platform: its name and the chains it is available on.\<close>

record identified_platform =
  pf_name :: string
  pf_chains :: "string list"

definition is_available_on :: "identified_platform \<Rightarrow> env \<Rightarrow> string option \<Rightarrow> bool" where
  "is_available_on p ev chain_name =
     (case chain_name of
        Some chain_name \<Rightarrow> chain_name \<in> set (pf_chains p)
      | None \<Rightarrow> get_chain_name ev \<in> set (pf_chains p))"

definition LOCAL_CHAIN :: "string list" where "LOCAL_CHAIN = [''cosmos-testnet'']"
definition JUNO :: "string list" where "JUNO = [''juno'', ''uni'']"
definition KUJIRA :: "string list" where "KUJIRA = [''kaiyo'', ''harpoon'']"
definition NEUTRON :: "string list" where "NEUTRON = [''neutron'', ''pion'']"
definition ARCHWAY :: "string list" where "ARCHWAY = [''archway'', ''constantine'']"
definition OSMOSIS :: "string list" where "OSMOSIS = [''osmosis'', ''osmo-test'']"

datatype dex_error =
    DexAsset string
  | DexAns ans_query_error
  | UnknownDexOnThisPlatform string "string option"
  | UnknownDex string
  | ForeignDex string
  | UnsupportedAssetType string
  | TooFewAssets
  | TooManyAssets u8
  | ArgumentMismatch string "string list"
  | BalancerNotSupported string
  | DexMismatch string string string
  | NotImplemented string
  | MaxSlippageAssertion string string
  | IbcMsgQuery
  | AssetPairingNotFound dex_asset_pairing
  | InvalidGenerateMessage
  | PoolAddressEmpty
  | DexUnauthorized

type_synonym 'a dex_result = "('a, dex_error) module_result"

definition identify_exchange :: "string list \<Rightarrow> string \<Rightarrow> identified_platform dex_result" where
  "identify_exchange features value =
     (let on = (\<lambda>chains. Ok \<lparr>pf_name = value, pf_chains = (if ''local'' \<in> set features then LOCAL_CHAIN else chains)\<rparr>)
      in if value = ''wyndex'' then on JUNO
         else if value = ''neutron'' then on NEUTRON
         else if value = ''fin'' then on KUJIRA
         else if value = ''osmosis'' then Ok \<lparr>pf_name = value, pf_chains = OSMOSIS\<rparr>
         else if value = ''astrovault'' then on ARCHWAY
         else Err (ModCustom (UnknownDex value)))"

definition is_over_ibc :: "string list \<Rightarrow> env \<Rightarrow> string \<Rightarrow> (string \<times> bool) dex_result" where
  "is_over_ibc features ev platform_name =
     (let (chain_name, local_platform_name) = decompose_platform_name platform_name
      in if chain_name \<noteq> None \<and> \<not> is_current_chain ev (the chain_name)
         then Ok (local_platform_name, True)
         else and_then (identify_exchange features local_platform_name) (\<lambda>platform_id.
           if \<not> is_available_on platform_id ev chain_name
           then Err (ModCustom (UnknownDexOnThisPlatform platform_name chain_name))
           else Ok (local_platform_name, False)))"

section \<open>Messages (standards/dex/src/action.rs, msg.rs)\<close>

record swap_node =
  sn_pool_id :: pool_address
  sn_ask_asset :: asset_info

datatype dex_action =
    ProvideLiquidity pool_address "u256 asset list" "decimal option"
  | WithdrawLiquidity pool_address "u256 asset"
  | Swap pool_address "u256 asset" asset_info "decimal option" "decimal option"
  | RouteSwap "swap_node list" "u256 asset" "decimal option" "decimal option"

datatype dex_execute_msg =
    UpdateFee "decimal option" "u32 option"
  | DexActionMsg dex_name dex_action

record dex_instantiate_msg =
  dim_swap_fee :: decimal
  dim_recipient_account :: u32

record dex_fees =
  df_swap_fee :: fee
  df_recipient :: addr

record dex_state = adapter_state +
  DEX_FEES :: "dex_fees option"

type_synonym dex_out = "dex_state module_out"

text \<open>The trait \<open>DexCommand\<close>.\<close>

record 's dex_command =
  dc_default :: 's
  dc_name :: string
  dc_fetch_data :: "'s \<Rightarrow> addr \<Rightarrow> addr \<Rightarrow> addr \<Rightarrow> 's dex_result"
  dc_swap :: "'s \<Rightarrow> pool_address \<Rightarrow> u256 asset \<Rightarrow> asset_info \<Rightarrow> decimal option \<Rightarrow> decimal option
    \<Rightarrow> cosmos_msg list dex_result"
  dc_swap_route :: "'s \<Rightarrow> swap_node list \<Rightarrow> u256 asset \<Rightarrow> decimal option \<Rightarrow> decimal option
    \<Rightarrow> cosmos_msg list dex_result"
  dc_provide_liquidity :: "'s \<Rightarrow> pool_address \<Rightarrow> u256 asset list \<Rightarrow> decimal option \<Rightarrow> cosmos_msg list dex_result"
  dc_withdraw_liquidity :: "'s \<Rightarrow> pool_address \<Rightarrow> u256 asset \<Rightarrow> cosmos_msg list dex_result"
  dc_simulate_swap :: "'s \<Rightarrow> pool_address \<Rightarrow> u256 asset \<Rightarrow> asset_info \<Rightarrow> (u256 \<times> u256 \<times> u256 \<times> bool) dex_result"

record 's dex_lib =
  dx_sdk :: "u256 sdk_lib"
  dx_features :: "string list"
  dx_exchange :: "string \<Rightarrow> 's dex_command"
  dx_check_info :: asset_checker
  dx_coin :: "u256 asset \<Rightarrow> (coin, string) result"
  dx_json_dex :: "dex_execute_msg \<Rightarrow> (binary, std_error) result"
  dx_json_adapter :: "dex_execute_msg adapter_execute_msg \<Rightarrow> (binary, std_error) result"
  dx_json_client :: client_json

definition resolve_exchange :: "'s dex_lib \<Rightarrow> string \<Rightarrow> 's dex_command dex_result" where
  "resolve_exchange dl value =
     (if (value, True) \<in> set [
          (''wyndex'', ''wynd'' \<in> set (dx_features dl)),
          (''neutron'', ''neutron'' \<in> set (dx_features dl)),
          (''osmosis'', ''osmosis'' \<in> set (dx_features dl)),
          (''astroport'', ''astroport'' \<in> set (dx_features dl)),
          (''fin'', ''fin'' \<in> set (dx_features dl)),
          (''astrovault'', ''astrovault'' \<in> set (dx_features dl))]
      then Ok (dx_exchange dl value)
      else Err (ModCustom (ForeignDex value)))"

section \<open>Fees (standards/dex/src/msg.rs)\<close>

definition MAX_FEE :: decimal where "MAX_FEE = 50000000000000000"

definition check_fee_share :: "decimal \<Rightarrow> (unit, abstract_error) result" where
  "check_fee_share fee = (if fee > MAX_FEE then Err FeeShareError else Ok ())"

definition dex_fees_new :: "decimal \<Rightarrow> addr \<Rightarrow> (dex_fees, abstract_error) result" where
  "dex_fees_new swap_fee_share recipient =
     and_then (check_fee_share swap_fee_share) (\<lambda>_.
     and_then (fee_new swap_fee_share) (\<lambda>f. Ok \<lparr>df_swap_fee = f, df_recipient = recipient\<rparr>))"

definition set_swap_fee_share :: "dex_fees \<Rightarrow> decimal \<Rightarrow> (dex_fees, abstract_error) result" where
  "set_swap_fee_share fees new_swap_fee_share =
     and_then (check_fee_share new_swap_fee_share) (\<lambda>_.
     and_then (fee_new new_swap_fee_share) (\<lambda>f. Ok (fees\<lparr>df_swap_fee := f\<rparr>)))"

definition swap_usage_fee :: "dex_fees \<Rightarrow> (usage_fee, abstract_error) result" where
  "swap_usage_fee fees = usage_fee_new (df_swap_fee fees) (df_recipient fees)"

definition load_dex_fees :: "dex_state \<Rightarrow> dex_fees dex_result" where
  "load_dex_fees st = ok_or (ModStd (StdNotFound ''dex_fees'')) (DEX_FEES st)"

section \<open>Checks of received data\<close>

definition check_pool :: "chain \<Rightarrow> pool_address \<Rightarrow> pool_address dex_result" where
  "check_pool ch p = map_err ModAbstract (pool_address_check (q_addr_validate ch) p)"

definition check_info :: "'s dex_lib \<Rightarrow> asset_info \<Rightarrow> asset_info dex_result" where
  "check_info dl i = map_err (\<lambda>e. ModCustom (DexAsset e)) (dx_check_info dl i)"

definition check_asset :: "'s dex_lib \<Rightarrow> u256 asset \<Rightarrow> u256 asset dex_result" where
  "check_asset dl a = and_then (check_info dl (as_info a)) (\<lambda>i. Ok (a\<lparr>as_info := i\<rparr>))"

definition swap_node_check :: "'s dex_lib \<Rightarrow> chain \<Rightarrow> swap_node \<Rightarrow> (swap_node, abstract_error) result" where
  "swap_node_check dl ch node =
     and_then (pool_address_check (q_addr_validate ch) (sn_pool_id node)) (\<lambda>p.
     and_then (map_err AbsAsset (dx_check_info dl (sn_ask_asset node))) (\<lambda>i.
     Ok \<lparr>sn_pool_id = p, sn_ask_asset = i\<rparr>))"

section \<open>Actions (adapter.rs)\<close>

definition adapter_ans_host :: "chain \<Rightarrow> 'c adapter_state_scheme \<Rightarrow> (addr, sdk_error) result" where
  "adapter_ans_host ch st =
     and_then (ok_or (SdkStd (StdNotFound ''base_state'')) (ad_code_id st)) (\<lambda>code.
     map_err SdkAbstract (ans_host_new ch code))"

definition exchange_data :: "chain \<Rightarrow> dex_state \<Rightarrow> addr \<Rightarrow> 's dex_command \<Rightarrow> 's dex_result" where
  "exchange_data ch st sndr exchange =
     and_then (map_err ModSdk (adapter_registry ch st)) (\<lambda>registry.
     and_then (map_err ModSdk (adapter_ans_host ch st)) (\<lambda>ans.
     dc_fetch_data exchange (dc_default exchange) sndr registry ans))"

definition charge_swap_fee ::
  "'s dex_lib \<Rightarrow> dex_state \<Rightarrow> u256 asset \<Rightarrow> (cosmos_msg option \<times> u256 asset) dex_result" where
  "charge_swap_fee dl st offer_asset =
     and_then (load_dex_fees st) (\<lambda>dex_fees.
     and_then (map_err ModAbstract (swap_usage_fee dex_fees)) (\<lambda>usage_fee.
     map_err ModSdk (charge_usage_fee (dx_sdk dl) offer_asset usage_fee)))"

definition push_fee :: "cosmos_msg list \<Rightarrow> cosmos_msg option \<Rightarrow> cosmos_msg list" where
  "push_fee swap_msgs fee_transfer = (case fee_transfer of Some f \<Rightarrow> swap_msgs @ [f] | None \<Rightarrow> swap_msgs)"

definition resolve_swap ::
  "'s dex_lib \<Rightarrow> chain \<Rightarrow> dex_state \<Rightarrow> addr \<Rightarrow> u256 asset \<Rightarrow> asset_info \<Rightarrow> pool_address \<Rightarrow> 's dex_command
   \<Rightarrow> decimal option \<Rightarrow> decimal option \<Rightarrow> cosmos_msg list dex_result" where
  "resolve_swap dl ch st sndr offer_asset ask_asset pool exchange max_spread belief_price =
     and_then (check_pool ch pool) (\<lambda>pool_address.
     and_then (check_asset dl offer_asset) (\<lambda>offer_asset.
     and_then (check_info dl ask_asset) (\<lambda>ask_asset.
     and_then (charge_swap_fee dl st offer_asset) (\<lambda>(fee_transfer, offer_asset).
     and_then (exchange_data ch st sndr exchange) (\<lambda>x.
     and_then (dc_swap exchange x pool_address offer_asset ask_asset belief_price max_spread) (\<lambda>swap_msgs.
     Ok (push_fee swap_msgs fee_transfer)))))))"

definition resolve_route_swap ::
  "'s dex_lib \<Rightarrow> chain \<Rightarrow> dex_state \<Rightarrow> addr \<Rightarrow> u256 asset \<Rightarrow> swap_node list \<Rightarrow> 's dex_command
   \<Rightarrow> decimal option \<Rightarrow> decimal option \<Rightarrow> cosmos_msg list dex_result" where
  "resolve_route_swap dl ch st sndr offer_asset swap_route exchange max_spread belief_price =
     and_then (check_asset dl offer_asset) (\<lambda>offer_asset.
     and_then (map_err ModAbstract (try_map (swap_node_check dl ch) swap_route)) (\<lambda>swap_route.
     and_then (charge_swap_fee dl st offer_asset) (\<lambda>(fee_transfer, offer_asset).
     and_then (exchange_data ch st sndr exchange) (\<lambda>x.
     and_then (dc_swap_route exchange x swap_route offer_asset belief_price max_spread) (\<lambda>swap_msgs.
     Ok (push_fee swap_msgs fee_transfer))))))"

definition resolve_provide_liquidity ::
  "'s dex_lib \<Rightarrow> chain \<Rightarrow> dex_state \<Rightarrow> addr \<Rightarrow> u256 asset list \<Rightarrow> pool_address \<Rightarrow> 's dex_command
   \<Rightarrow> decimal option \<Rightarrow> cosmos_msg list dex_result" where
  "resolve_provide_liquidity dl ch st sndr offer_assets pool exchange max_spread =
     and_then (check_pool ch pool) (\<lambda>pool_address.
     and_then (try_map (check_asset dl) offer_assets) (\<lambda>offer_assets.
     and_then (exchange_data ch st sndr exchange) (\<lambda>x.
     dc_provide_liquidity exchange x pool_address offer_assets max_spread)))"

definition resolve_withdraw_liquidity ::
  "'s dex_lib \<Rightarrow> chain \<Rightarrow> dex_state \<Rightarrow> addr \<Rightarrow> u256 asset \<Rightarrow> pool_address \<Rightarrow> 's dex_command
   \<Rightarrow> cosmos_msg list dex_result" where
  "resolve_withdraw_liquidity dl ch st sndr lp_token pool exchange =
     and_then (check_pool ch pool) (\<lambda>pool_address.
     and_then (check_asset dl lp_token) (\<lambda>lp_token.
     and_then (exchange_data ch st sndr exchange) (\<lambda>x.
     dc_withdraw_liquidity exchange x pool_address lp_token)))"

definition PROVIDE_LIQUIDITY :: u64 where "PROVIDE_LIQUIDITY = 7542"
definition WITHDRAW_LIQUIDITY :: u64 where "WITHDRAW_LIQUIDITY = 7546"
definition SWAP :: u64 where "SWAP = 7544"
definition SWAP_ROUTE :: u64 where "SWAP_ROUTE = 7545"

fun resolve_dex_action ::
  "'s dex_lib \<Rightarrow> chain \<Rightarrow> dex_state \<Rightarrow> addr \<Rightarrow> dex_action \<Rightarrow> 's dex_command \<Rightarrow> (cosmos_msg list \<times> u64) dex_result" where
  "resolve_dex_action dl ch st sndr (ProvideLiquidity pool assets max_spread) exchange =
     (if length assets < 2 then Err (ModCustom TooFewAssets)
      else map_ok (\<lambda>ms. (ms, PROVIDE_LIQUIDITY)) (resolve_provide_liquidity dl ch st sndr assets pool exchange max_spread))"
| "resolve_dex_action dl ch st sndr (WithdrawLiquidity pool lp_token) exchange =
     map_ok (\<lambda>ms. (ms, WITHDRAW_LIQUIDITY)) (resolve_withdraw_liquidity dl ch st sndr lp_token pool exchange)"
| "resolve_dex_action dl ch st sndr (Swap pool offer_asset ask_asset max_spread belief_price) exchange =
     map_ok (\<lambda>ms. (ms, SWAP)) (resolve_swap dl ch st sndr offer_asset ask_asset pool exchange max_spread belief_price)"
| "resolve_dex_action dl ch st sndr (RouteSwap route offer_asset max_spread belief_price) exchange =
     map_ok (\<lambda>ms. (ms, SWAP_ROUTE)) (resolve_route_swap dl ch st sndr offer_asset route exchange max_spread belief_price)"

section \<open>Handlers (handlers/instantiate.rs, handlers/execute.rs)\<close>

definition DEX_ADAPTER_ID :: string where "DEX_ADAPTER_ID = ''abstract:dex''"

definition fee_recipient :: "chain \<Rightarrow> 'c adapter_state_scheme \<Rightarrow> u32 \<Rightarrow> (addr, 'e) module_result" where
  "fee_recipient ch st account_id =
     and_then (map_err ModSdk (adapter_registry ch st)) (\<lambda>registry.
     and_then (map_err ModAbstract (account_id_new account_id Local)) (\<lambda>i.
     map_err (\<lambda>e. ModSdk (SdkRegistry e)) (registry_account ch registry i)))"

definition dex_instantiate ::
  "chain \<Rightarrow> env \<Rightarrow> message_info \<Rightarrow> dex_state \<Rightarrow> dex_instantiate_msg \<Rightarrow> dex_out dex_result" where
  "dex_instantiate ch ev info st msg =
     and_then (fee_recipient ch st (dim_recipient_account msg)) (\<lambda>recipient.
     and_then (map_err ModAbstract (dex_fees_new (dim_swap_fee msg) recipient)) (\<lambda>dex_fees.
     Ok (st\<lparr>DEX_FEES := Some dex_fees\<rparr>, [])))"

definition handle_local_request ::
  "'s dex_lib \<Rightarrow> chain \<Rightarrow> dex_state \<Rightarrow> addr option \<Rightarrow> string \<Rightarrow> dex_action \<Rightarrow> dex_out dex_result" where
  "handle_local_request dl ch st target_account exchange action =
     and_then (resolve_exchange dl exchange) (\<lambda>exchange.
     and_then (map_err ModSdk (module_account target_account)) (\<lambda>account.
     and_then (resolve_dex_action dl ch st account action exchange) (\<lambda>(msgs, _).
     and_then (map_err ModSdk (executor_execute target_account [msgs])) (\<lambda>account_msg.
     Ok (st, [account_msg])))))"

definition offer_to_coin :: "'s dex_lib \<Rightarrow> u256 asset \<Rightarrow> coin dex_result" where
  "offer_to_coin dl offer =
     and_then (check_asset dl offer) (\<lambda>a. map_err (\<lambda>e. ModCustom (DexAsset e)) (dx_coin dl a))"

fun resolve_assets_to_transfer :: "'s dex_lib \<Rightarrow> dex_action \<Rightarrow> coin list dex_result" where
  "resolve_assets_to_transfer dl (RouteSwap _ offer_asset _ _) = map_ok (\<lambda>c. [c]) (offer_to_coin dl offer_asset)"
| "resolve_assets_to_transfer dl (Swap _ offer_asset _ _ _) = map_ok (\<lambda>c. [c]) (offer_to_coin dl offer_asset)"
| "resolve_assets_to_transfer dl (ProvideLiquidity _ assets _) = try_map (offer_to_coin dl) assets"
| "resolve_assets_to_transfer dl (WithdrawLiquidity _ lp_token) = map_ok (\<lambda>c. [c]) (offer_to_coin dl lp_token)"

text \<open>The callback is built, but not sent.\<close>

definition handle_ibc_request ::
  "'s dex_lib \<Rightarrow> chain \<Rightarrow> dex_state \<Rightarrow> addr option \<Rightarrow> message_info \<Rightarrow> string \<Rightarrow> dex_action \<Rightarrow> dex_out dex_result" where
  "handle_ibc_request dl ch st target_account info dex_name action =
     and_then (map_err ModAbstract (chain_from_string dex_name)) (\<lambda>host_chain.
     and_then (unwrap_res (adapter_ans_host ch st)) (\<lambda>_.
     and_then (resolve_assets_to_transfer dl action) (\<lambda>coins.
     and_then (map_err ModSdk (ics20_transfer (dx_json_client dl) target_account host_chain coins None None))
       (\<lambda>ics20_transfer_msg.
     and_then (map_err ModStd (dx_json_adapter dl (AdapterModule None (DexActionMsg dex_name action)))) (\<lambda>exec_msg.
     let host_action = Dispatch [ExecuteOnModule DEX_ADAPTER_ID exec_msg []]
     in and_then (if is_ok (q_contract_info ch (info_sender info))
          then map_ok Some (map_err ModStd (dx_json_dex dl (DexActionMsg dex_name action)))
          else Ok None) (\<lambda>_.
        and_then (map_err ModSdk (ibc_host_action (dx_json_client dl) target_account host_chain host_action))
          (\<lambda>ibc_action_msg.
        Ok (st, [ics20_transfer_msg, ibc_action_msg]))))))))"

definition update_fee ::
  "chain \<Rightarrow> dex_state \<Rightarrow> addr option \<Rightarrow> decimal option \<Rightarrow> u32 option \<Rightarrow> dex_out dex_result" where
  "update_fee ch st target_account swap_fee recipient_account_id =
     and_then (map_err ModSdk (adapter_registry ch st)) (\<lambda>registry.
     and_then (map_err (\<lambda>e. ModSdk (SdkRegistry e)) (query_namespace ch registry ABSTRACT_NAMESPACE)) (\<lambda>namespace.
     and_then (unwrap_namespace namespace) (\<lambda>namespace_info.
     and_then (unwrap target_account) (\<lambda>target.
     if snd namespace_info \<noteq> target then Err (ModCustom DexUnauthorized)
     else
       and_then (load_dex_fees st) (\<lambda>fee.
       and_then (case swap_fee of
           Some swap_fee \<Rightarrow> map_err ModAbstract (set_swap_fee_share fee swap_fee)
         | None \<Rightarrow> Ok fee) (\<lambda>fee.
       and_then (case recipient_account_id of
           Some account_id \<Rightarrow> map_ok (\<lambda>recipient. fee\<lparr>df_recipient := recipient\<rparr>) (fee_recipient ch st account_id)
         | None \<Rightarrow> Ok fee) (\<lambda>fee.
       Ok (st\<lparr>DEX_FEES := Some fee\<rparr>, []))))))))"

fun dex_execute ::
  "'s dex_lib \<Rightarrow> chain \<Rightarrow> env \<Rightarrow> message_info \<Rightarrow> addr option \<Rightarrow> dex_state \<Rightarrow> dex_execute_msg \<Rightarrow> dex_out dex_result" where
  "dex_execute dl ch ev info target_account st (DexActionMsg dex_name action) =
     and_then (is_over_ibc (dx_features dl) ev dex_name) (\<lambda>(local_dex_name, over_ibc).
     if over_ibc then handle_ibc_request dl ch st target_account info local_dex_name action
     else handle_local_request dl ch st target_account local_dex_name action)"
| "dex_execute dl ch ev info target_account st (UpdateFee swap_fee recipient_account_id) =
     update_fee ch st target_account swap_fee recipient_account_id"

text \<open>The contract (\<open>contract.rs\<close>): no dependencies, no migration and no replies.\<close>

definition dex_adapter ::
  "'s dex_lib \<Rightarrow> (dex_state, dex_instantiate_msg, dex_execute_msg, unit, unit, dex_error) abstract_contract" where
  "dex_adapter dl = \<lparr>ac_name = DEX_ADAPTER_ID, ac_version = CONTRACT_VERSION, ac_metadata = None,
     ac_dependencies = [], ac_instantiate = Some dex_instantiate, ac_execute = Some (dex_execute dl),
     ac_migrate = None, ac_sudo = None, ac_replies = [], ac_ibc_callback = None, ac_module_ibc = None\<rparr>"

section \<open>Queries (handlers/query.rs)\<close>

record 'a simulate_swap_response =
  ssr_pool :: "'a \<times> 'a \<times> dex_name"
  ssr_return_amount :: u256
  ssr_spread_amount :: u256
  ssr_commission :: "'a \<times> u256"
  ssr_usage_fee :: u256

definition fees_query :: "dex_state \<Rightarrow> (fee \<times> addr) dex_result" where
  "fees_query st = and_then (load_dex_fees st) (\<lambda>dex_fees. Ok (df_swap_fee dex_fees, df_recipient dex_fees))"

text \<open>The errors of the exchange become texts.\<close>

definition simulate_swap ::
  "'s dex_lib \<Rightarrow> dex_state \<Rightarrow> string \<Rightarrow> pool_address \<Rightarrow> u256 asset \<Rightarrow> asset_info
   \<Rightarrow> asset_info simulate_swap_response dex_result" where
  "simulate_swap dl st dex_nm pool offer_asset ask_asset =
     and_then (map_err (\<lambda>_. ModStd (StdMsg ''resolve'')) (resolve_exchange dl dex_nm)) (\<lambda>exchange.
     and_then (load_dex_fees st) (\<lambda>dex_fees.
     and_then (fee_compute (dx_sdk dl) (df_swap_fee dex_fees) (as_amount offer_asset)) (\<lambda>adapter_fee.
     and_then (take_off offer_asset adapter_fee) (\<lambda>offer_asset.
     and_then (map_err (\<lambda>_. ModStd (StdMsg ''simulate''))
       (dc_simulate_swap exchange (dc_default exchange) pool offer_asset ask_asset))
       (\<lambda>(return_amount, spread_amount, commission_amount, fee_on_input).
     let commission_asset = (if fee_on_input then ask_asset else as_info offer_asset)
     in Ok \<lparr>ssr_pool = (as_info offer_asset, ask_asset, to_lowercase (dc_name exchange)),
            ssr_return_amount = return_amount, ssr_spread_amount = spread_amount,
            ssr_commission = (commission_asset, commission_amount), ssr_usage_fee = adapter_fee\<rparr>)))))"

definition simulate_swap_raw ::
  "'s dex_lib \<Rightarrow> chain \<Rightarrow> dex_state \<Rightarrow> u256 asset \<Rightarrow> asset_info \<Rightarrow> string \<Rightarrow> pool_address
   \<Rightarrow> asset_info simulate_swap_response dex_result" where
  "simulate_swap_raw dl ch st offer_asset ask_asset dex_nm pool =
     and_then (check_pool ch pool) (\<lambda>pool.
     and_then (check_asset dl offer_asset) (\<lambda>offer_asset.
     and_then (check_info dl ask_asset) (\<lambda>ask_asset.
     simulate_swap dl st dex_nm pool offer_asset ask_asset)))"

fun generate_messages ::
  "'s dex_lib \<Rightarrow> chain \<Rightarrow> env \<Rightarrow> dex_state \<Rightarrow> dex_execute_msg \<Rightarrow> string \<Rightarrow> cosmos_msg list dex_result" where
  "generate_messages dl ch ev st (DexActionMsg dex_nm action) addr_as_sender =
     and_then (is_over_ibc (dx_features dl) ev dex_nm) (\<lambda>(local_dex_name, over_ibc).
     if over_ibc then Err (ModCustom IbcMsgQuery)
     else
       and_then (resolve_exchange dl local_dex_name) (\<lambda>exchange.
       and_then (map_err ModStd (q_addr_validate ch addr_as_sender)) (\<lambda>addr_as_sender.
       and_then (resolve_dex_action dl ch st addr_as_sender action exchange) (\<lambda>(messages, _).
       Ok messages))))"
| "generate_messages dl ch ev st (UpdateFee _ _) addr_as_sender = Err (ModCustom InvalidGenerateMessage)"

section \<open>Actions with names of assets (standards/dex/src/ans_action.rs)\<close>

datatype dex_ans_action =
    AnsProvideLiquidity "ans_asset list" "decimal option"
  | AnsWithdrawLiquidity ans_asset
  | AnsSwap ans_asset asset_entry "decimal option" "decimal option"

text \<open>\<open>Vec::pop\<close>: the last pool of the pair.\<close>

definition dex_pool_address ::
  "ans_querier \<Rightarrow> addr \<Rightarrow> dex_name \<Rightarrow> asset_entry \<times> asset_entry \<Rightarrow> pool_address ans_query_result" where
  "dex_pool_address qa ans dex_nm assets =
     (let dex_pair = dex_asset_pairing_new (fst assets) (snd assets) dex_nm
      in and_then (query_asset_pairing qa ans dex_pair) (\<lambda>pool_ref.
         and_then (ok_or (DexPairingNotFound dex_pair ans) (last_opt pool_ref)) (\<lambda>found.
         Ok (pool_address found))))"

text \<open>\<open>swap_remove(0)\<close> of a vector without elements panics.\<close>

definition first_two :: "'a list \<Rightarrow> ('a \<times> 'a, 'e) result" where
  "first_two xs = (case xs of x # y # _ \<Rightarrow> Ok (x, y) | _ \<Rightarrow> Panic)"

definition lp_pairing :: "asset_entry \<Rightarrow> dex_asset_pairing ans_query_result" where
  "lp_pairing name =
     and_then (map_err (\<lambda>_. AnsFormattingError ''lp token'' ''lp token'' name) (asset_entry_lp_token name)) (\<lambda>lp.
     lp_token_dex_asset_pairing lp)"

fun resolve_whole_dex_action ::
  "u256 sdk_lib \<Rightarrow> addr \<Rightarrow> dex_name \<Rightarrow> dex_ans_action \<Rightarrow> dex_execute_msg ans_query_result" where
  "resolve_whole_dex_action sl ans dex_nm (AnsProvideLiquidity assets max_spread) =
     (let asset_names = take 2 (map aa_name assets)
      in and_then (try_map (resolve_ans_asset sl ans) assets) (\<lambda>assets.
         and_then (first_two asset_names) (\<lambda>(x, y).
         and_then (dex_pool_address (sl_ans sl) ans dex_nm (x, y)) (\<lambda>p.
         Ok (DexActionMsg dex_nm (ProvideLiquidity p assets max_spread))))))"
| "resolve_whole_dex_action sl ans dex_nm (AnsWithdrawLiquidity lp_token) =
     and_then (resolve_ans_asset sl ans lp_token) (\<lambda>lp_asset.
     and_then (lp_pairing (aa_name lp_token)) (\<lambda>pairing.
     and_then (query_asset_pairing (sl_ans sl) ans pairing) (\<lambda>pool_ids.
     if length pool_ids \<noteq> 1 then Err (AnsQueryFailed ''lp_pairing.resolve''
       (StdMsg (''There are '' @ show_nat (length pool_ids) @ '' pairings for the given LP token'')))
     else and_then (unwrap (last_opt pool_ids)) (\<lambda>found.
       Ok (DexActionMsg dex_nm (WithdrawLiquidity (pool_address found) lp_asset))))))"
| "resolve_whole_dex_action sl ans dex_nm (AnsSwap offer_asset ask_asset max_spread belief_price) =
     (let offer = asset_entry_format (aa_name offer_asset);
          ask = asset_entry_format ask_asset
      in and_then (query_asset (sl_ans sl) ans offer) (\<lambda>offer_asset_info.
         and_then (query_asset (sl_ans sl) ans ask) (\<lambda>ask_asset_info.
         and_then (dex_pool_address (sl_ans sl) ans dex_nm (offer, ask)) (\<lambda>p.
         let offer_asset = sl_asset_new sl offer_asset_info (aa_amount offer_asset)
         in Ok (DexActionMsg dex_nm (Swap p offer_asset ask_asset_info max_spread belief_price))))))"

text \<open>The same for users of the contracts (\<open>ans_resolve_interface\<close>): the first pool of the pair, of the
  exchange without its chain.\<close>

definition client_pool_address :: "ans_state \<Rightarrow> dex_name \<Rightarrow> asset_entry \<times> asset_entry \<Rightarrow> (pool_address, std_error) result" where
  "client_pool_address ast dex_nm assets =
     (let (_, local_dex_name) = decompose_platform_name dex_nm
      in and_then (query_pool_entries ast [dex_asset_pairing_new (fst assets) (snd assets) local_dex_name]) (\<lambda>pools.
         and_then (unwrap (last_opt pools)) (\<lambda>(_, references).
         case references of r # _ \<Rightarrow> Ok (pool_address r) | [] \<Rightarrow> Panic)))"

text \<open>The query for a simulation with names, which come back in the answer.\<close>

definition simulate_swap_ans ::
  "'s dex_lib \<Rightarrow> chain \<Rightarrow> dex_state \<Rightarrow> ans_asset \<Rightarrow> asset_entry \<Rightarrow> dex_name \<Rightarrow> asset_entry simulate_swap_response dex_result" where
  "simulate_swap_ans dl ch st offer_asset ask_asset dex_nm =
     and_then (unwrap_res (adapter_ans_host ch st)) (\<lambda>ans.
     and_then (map_err (\<lambda>e. ModSdk (SdkAnsHost e)) (resolve_ans_asset (dx_sdk dl) ans offer_asset)) (\<lambda>cw_offer_asset.
     and_then (map_err (\<lambda>e. ModSdk (SdkAnsHost e)) (query_asset (sl_ans (dx_sdk dl)) ans ask_asset)) (\<lambda>cw_ask_asset.
     and_then (map_err (\<lambda>e. ModCustom (DexAns e))
       (dex_pool_address (sl_ans (dx_sdk dl)) ans dex_nm (aa_name offer_asset, ask_asset))) (\<lambda>p.
     and_then (simulate_swap dl st dex_nm p cw_offer_asset cw_ask_asset) (\<lambda>r.
     Ok \<lparr>ssr_pool = (aa_name offer_asset, ask_asset, to_lowercase dex_nm),
         ssr_return_amount = ssr_return_amount r, ssr_spread_amount = ssr_spread_amount r,
         ssr_commission = (if fst (ssr_commission r) = cw_ask_asset then (ask_asset, snd (ssr_commission r))
           else (aa_name offer_asset, snd (ssr_commission r))),
         ssr_usage_fee = ssr_usage_fee r\<rparr>)))))"

section \<open>The adapter for other modules (api.rs)\<close>

definition dex_api_execute ::
  "'s dex_lib \<Rightarrow> account_querier \<Rightarrow> dependency list \<Rightarrow> addr option \<Rightarrow> dex_name \<Rightarrow> dex_action
   \<Rightarrow> (cosmos_msg, sdk_error) result" where
  "dex_api_execute dl qa dps base_account dex_nm action =
     adapters_execute (dx_json_adapter dl) qa dps base_account DEX_ADAPTER_ID (DexActionMsg dex_nm action)"

definition ans_dex_execute ::
  "'s dex_lib \<Rightarrow> account_querier \<Rightarrow> dependency list \<Rightarrow> addr option \<Rightarrow> (addr, sdk_error) result \<Rightarrow> dex_name \<Rightarrow> dex_ans_action
   \<Rightarrow> (cosmos_msg, sdk_error) result" where
  "ans_dex_execute dl qa dps base_account ans_host dex_nm action =
     and_then ans_host (\<lambda>ans.
     and_then (map_err SdkAnsHost (resolve_whole_dex_action (dx_sdk dl) ans dex_nm action)) (\<lambda>message.
     adapters_execute (dx_json_adapter dl) qa dps base_account DEX_ADAPTER_ID message))"

end
