(* ===== verification/Adapters.thy ===== *)
theory Adapters
  imports Sdk_Modules
begin

text \<open>
  What the adapters of the repository share: an execution handler and nothing that reacts to other chains
  (locale \<open>plain_adapter\<close>), and handlers that only ask the account of the request to do something (locale
  \<open>account_adapter\<close>). Theories Dex_Safety, Money_Market_Safety and Staking interpret them on the adapters for
  exchanges, money markets, staking contracts and validators.
\<close>

text \<open>The sender may act for an account of the registry: it is the account, authorised by it or its top-level owner.\<close>

definition may_act_for :: "chain \<Rightarrow> 'c adapter_state_scheme \<Rightarrow> addr \<Rightarrow> addr \<Rightarrow> bool" where
  "may_act_for ch st sndr account \<longleftrightarrow>
     (\<exists>registry. adapter_registry ch st = Ok registry \<and> assert_account ch registry account = Ok account)
     \<and> (account = sndr \<or> sndr \<in> set (authorized_of st account) \<or> query_top_level_owner_addr ch account = Ok sndr)"

text \<open>Every message of an adapter is a call of one account that the sender may act for.\<close>

definition acts_for_permitted :: "('c adapter_state_scheme, 'i, 'x, 'g, 'u, 'e) abstract_contract \<Rightarrow> bool" where
  "acts_for_permitted mc \<longleftrightarrow>
     (\<forall>qa ch ev st info msg st' out. adapter_execute qa mc ch ev st info msg = Ok (st', out) \<longrightarrow>
        (\<exists>account. may_act_for ch st (info_sender info) account
           \<and> (\<forall>m \<in> set out. \<exists>call fnds. m = OnAccount account call fnds)) \<or> out = [])"

lemma executor_execute_Ok [result_simps]:
  "executor_execute base_account actions = Ok m \<longleftrightarrow>
     (\<exists>account. base_account = Some account \<and> m = OnAccount account (Execute (concat actions)) [])"
  by (auto simp: executor_execute_def executor_execute_with_funds_def execute_on_account_def module_account_def
      result_simps)

locale plain_adapter =
  fixes mc :: "('c adapter_state_scheme, 'i, 'x, 'g, 'u, 'e) abstract_contract"
    and h :: "chain \<Rightarrow> env \<Rightarrow> message_info \<Rightarrow> addr option \<Rightarrow> 'c adapter_state_scheme \<Rightarrow> 'x
      \<Rightarrow> ('c adapter_state_scheme module_out, 'e) module_result"
  assumes handler: "ac_execute mc = Some h"
    and no_dependencies: "ac_dependencies mc = []"
    and no_module_ibc: "ac_module_ibc mc = None"
begin

lemma execute_cases:
  assumes "adapter_execute qa mc ch ev st info msg = Ok (st', out)"
  obtains (request) account_address req account where "msg = AdapterModule account_address req"
      and "h ch ev info (Some account) st req = Ok (st', out)" and "may_act_for ch st (info_sender info) account"
    | (base) l where "st' = st\<lparr>authorized_addresses := l\<rparr>" and "out = []"
proof (cases msg)
  case (AdapterModule account_address req)
  with assms have "handle_app_msg mc ch ev st info account_address req = Ok (st', out)" by simp
  then obtain account where "h ch ev info (Some account) st req = Ok (st', out)"
    "may_act_for ch st (info_sender info) account"
    by (auto simp: handle_app_msg_Ok handler may_act_for_def split: option.splits)
  then show thesis by (rule request [OF AdapterModule])
next
  case (AdapterBase account_address m)
  then obtain xs ys where "m = UpdateAuthorizedAddresses xs ys" by (cases m)
  with AdapterBase assms obtain l where "st' = st\<lparr>authorized_addresses := l\<rparr>" "out = []"
    by (auto simp: adapter_base_execute_Ok result_simps elim!: update_authorized_Ok)
  then show thesis by (rule base)
next
  case (AdapterIbcCallback c r)
  with assms show thesis by (auto simp: ibc_callback_def no_dependencies)
next
  case (AdapterModuleIbc c i m)
  with assms show thesis by (auto simp: module_ibc_def no_module_ibc result_simps split: if_splits)
qed

end

locale account_adapter = plain_adapter +
  assumes on_account: "h ch ev info (Some account) st req = Ok (st', out) \<Longrightarrow> m \<in> set out
    \<Longrightarrow> \<exists>call fnds. m = OnAccount account call fnds"
begin

lemma acts: "acts_for_permitted mc"
  unfolding acts_for_permitted_def
proof (intro allI impI)
  fix qa ch ev st info msg st' out
  assume "adapter_execute qa mc ch ev st info msg = Ok (st', out)"
  then show "(\<exists>account. may_act_for ch st (info_sender info) account
      \<and> (\<forall>m \<in> set out. \<exists>call fnds. m = OnAccount account call fnds)) \<or> out = []"
    by (cases rule: execute_cases) (blast dest: on_account, blast)
qed

end

end
