(* ===== verification/Dex_Safety.thy ===== *)
theory Dex_Safety
  imports Dex Adapters
begin

text \<open>
  What the adapter for exchanges guarantees: the fee of a swap is taken once and is at most five percent, the share is
  within the limit in every state and only the account that holds the namespace of the framework changes it,
  the queries answer what an execution does, and an action with names of assets uses a registered pool
  of the pair. At the end, where the code does something else than it says.
\<close>

section \<open>Fees\<close>

definition fees_capped :: "dex_state \<Rightarrow> bool" where
  "fees_capped st \<longleftrightarrow> (\<exists>f. DEX_FEES st = Some f \<and> df_swap_fee f \<le> MAX_FEE)"

lemma check_fee_share_Ok [result_simps]: "check_fee_share fee = Ok u \<longleftrightarrow> fee \<le> MAX_FEE"
  by (auto simp: check_fee_share_def)

lemma fee_new_Ok [result_simps]: "fee_new shr = Ok f \<longleftrightarrow> f = shr \<and> shr < 10 ^ 18"
  by (auto simp: fee_new_def not_le)

lemma dex_instantiate_capped: "dex_instantiate ch ev info st msg = Ok (st', ms) \<Longrightarrow> fees_capped st'"
  by (auto simp: dex_instantiate_def dex_fees_new_def fees_capped_def result_simps)

lemma update_fee_Ok:
  assumes "update_fee ch st target_account swap_fee recipient = Ok (st', ms)"
  obtains registry i account f f' where "target_account = Some account" and "adapter_registry ch st = Ok registry"
    and "query_namespace ch registry ABSTRACT_NAMESPACE = Ok (Claimed i account)"
    and "DEX_FEES st = Some f" and "st' = st\<lparr>DEX_FEES := Some f'\<rparr>"
    and "df_swap_fee f \<le> MAX_FEE \<Longrightarrow> df_swap_fee f' \<le> MAX_FEE"
  using assms unfolding update_fee_def and_then_Ok
  by (auto simp: unwrap_namespace_def load_dex_fees_def set_swap_fee_share_def result_simps
      split: if_splits namespace_response.splits option.splits intro: that)

lemma handle_local_request_Ok:
  assumes "handle_local_request dl ch st target_account name action = Ok (st', out)"
  obtains account exchange msgs i where "target_account = Some account" and "resolve_exchange dl name = Ok exchange"
    and "resolve_dex_action dl ch st account action exchange = Ok (msgs, i)"
    and "st' = st" and "out = [OnAccount account (Execute msgs) []]"
  using assms unfolding handle_local_request_def and_then_Ok
  by (auto simp: module_account_def result_simps intro: that)

lemma handle_local_request_for:
  assumes "handle_local_request dl ch st (Some account) name action = Ok (st', out)"
  obtains exchange msgs i where "resolve_exchange dl name = Ok exchange" and "st' = st"
    and "resolve_dex_action dl ch st account action exchange = Ok (msgs, i)"
    and "out = [OnAccount account (Execute msgs) []]"
proof (rule handle_local_request_Ok [OF assms])
  fix acc exchange msgs i
  assume "Some account = Some acc" "resolve_exchange dl name = Ok exchange"
    "resolve_dex_action dl ch st acc action exchange = Ok (msgs, i)" "st' = st" "out = [OnAccount acc (Execute msgs) []]"
  then show thesis by (intro that) simp_all
qed

lemma handle_ibc_request_Ok:
  assumes "handle_ibc_request dl ch st target_account info name action = Ok (st', out)"
  obtains account host_chain coins exec b1 b2 where "target_account = Some account"
    and "chain_from_string name = Ok host_chain" and "resolve_assets_to_transfer dl action = Ok coins"
    and "dx_json_adapter dl (AdapterModule None (DexActionMsg name action)) = Ok exec"
    and "dx_json_client dl (SendFunds host_chain None None) = Ok b1"
    and "dx_json_client dl (RemoteAction host_chain (Dispatch [ExecuteOnModule DEX_ADAPTER_ID exec []])) = Ok b2"
    and "st' = st" and "out = [OnAccount account (ExecuteOnModule IBC_CLIENT b1 coins) [],
      OnAccount account (ExecuteOnModule IBC_CLIENT b2 []) []]"
  using assms unfolding handle_ibc_request_def and_then_Ok Let_def
  by (auto simp: ics20_transfer_def ibc_host_action_def result_simps intro: that)

lemma dex_action_keeps:
  assumes "dex_execute dl ch ev info target_account st (DexActionMsg name action) = Ok (st', out)"
  shows "st' = st"
  using assms by (auto simp: result_simps elim: handle_ibc_request_Ok handle_local_request_Ok split: if_splits)

lemma dex_execute_capped:
  assumes "dex_execute dl ch ev info target_account st msg = Ok (st', out)" and "fees_capped st"
  shows "fees_capped st'"
proof (cases msg)
  case (UpdateFee f r)
  with assms(1) have "update_fee ch st target_account f r = Ok (st', out)" by simp
  then show ?thesis using assms(2) by (elim update_fee_Ok) (auto simp: fees_capped_def)
next
  case (DexActionMsg name action)
  with assms dex_action_keeps show ?thesis by blast
qed

inductive dex_start :: "'s dex_lib \<Rightarrow> dex_state \<Rightarrow> bool" for dl where
  "adapter_instantiate (dex_adapter dl) ch ev st0 info registry msg = Ok (st, ms) \<Longrightarrow> dex_start dl st"

inductive dex_step :: "'s dex_lib \<Rightarrow> dex_state \<Rightarrow> dex_state \<Rightarrow> bool" for dl where
  "adapter_execute qa (dex_adapter dl) ch ev st info msg = Ok (st', ms) \<Longrightarrow> dex_step dl st st'"

inductive_cases dex_startE: "dex_start dl st"
inductive_cases dex_stepE: "dex_step dl st st'"

lemma dex_adapter_sel [simp]:
  "ac_name (dex_adapter dl) = DEX_ADAPTER_ID" "ac_dependencies (dex_adapter dl) = []"
  "ac_instantiate (dex_adapter dl) = Some dex_instantiate" "ac_execute (dex_adapter dl) = Some (dex_execute dl)"
  "ac_module_ibc (dex_adapter dl) = None" "ac_ibc_callback (dex_adapter dl) = None"
  by (simp_all add: dex_adapter_def)

lemma dex_execute_on_account:
  assumes "dex_execute dl ch ev info (Some account) st msg = Ok (st', out)" and "m \<in> set out"
  shows "\<exists>call fnds. m = OnAccount account call fnds"
proof (cases msg)
  case (UpdateFee f r)
  with assms(1) have "update_fee ch st (Some account) f r = Ok (st', out)" by simp
  then have "out = []" unfolding update_fee_def and_then_Ok by (auto simp: result_simps split: if_splits)
  with assms(2) show ?thesis by simp
next
  case (DexActionMsg name action)
  with assms show ?thesis
    by (auto simp: result_simps elim!: handle_ibc_request_Ok handle_local_request_for split: if_splits)
qed

interpretation dex_calls: account_adapter "dex_adapter dl" "dex_execute dl" for dl :: "'s dex_lib"
  by unfold_locales (simp_all add: dex_execute_on_account)

interpretation dex: invariant "dex_start dl" "dex_step dl" fees_capped for dl :: "'s dex_lib"
proof
  fix st assume "dex_start dl st"
  then show "fees_capped st"
    by (auto simp: adapter_instantiate_def Let_def result_simps elim!: dex_startE intro: dex_instantiate_capped)
next
  fix st st' assume capped: "fees_capped st" and "dex_step dl st st'"
  then obtain qa ch ev info msg ms where "adapter_execute qa (dex_adapter dl) ch ev st info msg = Ok (st', ms)"
    by (elim dex_stepE)
  then show "fees_capped st'"
  proof (cases rule: dex_calls.execute_cases)
    case request
    then show ?thesis using capped by (blast intro: dex_execute_capped)
  next
    case base
    then show ?thesis using capped by (simp add: fees_capped_def)
  qed
qed

text \<open>
  in every state of the adapter the fee of a swap is stored and is at most five percent.
\<close>

theorem dex_fee_capped:
  assumes "reachable (dex_start dl) (dex_step dl) st"
  shows "\<exists>f. DEX_FEES st = Some f \<and> 20 * unat (df_swap_fee f) \<le> 10 ^ 18"
proof -
  from dex.holds [OF assms] obtain f where "DEX_FEES st = Some f" "df_swap_fee f \<le> MAX_FEE"
    by (auto simp: fees_capped_def)
  then show ?thesis by (auto simp: MAX_FEE_def word_le_nat_alt)
qed

text \<open>
  C33: the stored fee and its recipient change only by a request on behalf of the account that holds the
  namespace of the framework in the registry, sent by that account, an address it authorised or its top-level owner.
\<close>

theorem dex_fee_changed_by_abstract_only:
  assumes "adapter_execute qa (dex_adapter dl) ch ev st info msg = Ok (st', out)" and "DEX_FEES st' \<noteq> DEX_FEES st"
  shows "\<exists>account_address f r registry i account. msg = AdapterModule account_address (UpdateFee f r)
    \<and> adapter_registry ch st = Ok registry \<and> query_namespace ch registry ABSTRACT_NAMESPACE = Ok (Claimed i account)
    \<and> (account = info_sender info \<or> info_sender info \<in> set (authorized_of st account)
       \<or> query_top_level_owner_addr ch account = Ok (info_sender info))"
  using assms(1)
proof (cases rule: dex_calls.execute_cases)
  case (request account_address req acc)
  note run = request(2)
  from request(3) have sndr: "acc = info_sender info \<or> info_sender info \<in> set (authorized_of st acc)
       \<or> query_top_level_owner_addr ch acc = Ok (info_sender info)"
    by (simp add: may_act_for_def)
  show ?thesis
  proof (cases req)
    case (UpdateFee f r)
    with run have "update_fee ch st (Some acc) f r = Ok (st', out)" by simp
    then obtain registry i where "adapter_registry ch st = Ok registry"
      "query_namespace ch registry ABSTRACT_NAMESPACE = Ok (Claimed i acc)" by (elim update_fee_Ok) auto
    with request(1) UpdateFee sndr show ?thesis by blast
  next
    case (DexActionMsg name action)
    with run dex_action_keeps have "st' = st" by blast
    with assms(2) show ?thesis by simp
  qed
next
  case base
  with assms(2) show ?thesis by simp
qed

section \<open>Swaps\<close>

lemma share_bound:
  assumes "20 * s \<le> (10 ^ 18 :: nat)"
  shows "20 * (a * s div 10 ^ 18) \<le> a"
proof -
  have "20 * (a * s div 10 ^ 18) * 10 ^ 18 = 20 * (a * s div 10 ^ 18 * 10 ^ 18)" by simp
  also have "\<dots> \<le> 20 * (a * s)" by (intro mult_le_mono2 div_times_less_eq_dividend)
  also have "\<dots> = a * (20 * s)" by simp
  also have "\<dots> \<le> a * 10 ^ 18" using assms by (rule mult_le_mono2)
  finally show ?thesis by simp
qed

lemma fee_compute_amount:
  assumes "fee_compute sl f a = Ok n" and "ratio_laws sl"
  shows "unat n = unat a * unat f div 10 ^ 18"
  using assms by (auto simp: fee_compute_def ratio_laws_def unat_of_nat split: if_splits)

lemma charge_swap_fee_Ok:
  assumes "ratio_laws (dx_sdk dl)" and "DEX_FEES st = Some f"
    and "charge_swap_fee dl st (offer\<lparr>as_info := oi\<rparr>) = Ok (msg, rest)"
  obtains fee where "unat fee = unat (as_amount offer) * unat (df_swap_fee f) div 10 ^ 18" and "fee \<le> as_amount offer"
    and "rest = \<lparr>as_info = oi, as_amount = as_amount offer - fee\<rparr>"
    and "if fee = 0 then msg = None else \<exists>m. msg = Some m
      \<and> sl_transfer_msg (dx_sdk dl) \<lparr>as_info = oi, as_amount = fee\<rparr> (df_recipient f) = Ok m"
proof -
  from assms(2,3) obtain u where u: "usage_fee_new (df_swap_fee f) (df_recipient f) = Ok u"
    and c: "charge_usage_fee (dx_sdk dl) (offer\<lparr>as_info := oi\<rparr>) u = Ok (msg, rest)"
    by (auto simp: charge_swap_fee_def load_dex_fees_def swap_usage_fee_def result_simps)
  have o: "offer\<lparr>as_info := oi\<rparr> = \<lparr>as_info = oi, as_amount = as_amount offer\<rparr>" by (cases offer) simp
  from usage_fee_divides [OF assms(1) u c [unfolded o], unfolded asset.select_convs asset.update_convs]
  show thesis by (elim exE conjE) (rule that)
qed

lemma resolve_swap_Ok:
  assumes "resolve_swap dl ch st sndr offer ask pool exchange ms bp = Ok msgs"
  obtains p oi ai fee_transfer rest x swap_msgs where "check_pool ch pool = Ok p" and "check_info dl (as_info offer) = Ok oi"
    and "check_info dl ask = Ok ai" and "charge_swap_fee dl st (offer\<lparr>as_info := oi\<rparr>) = Ok (fee_transfer, rest)"
    and "exchange_data ch st sndr exchange = Ok x" and "dc_swap exchange x p rest ai bp ms = Ok swap_msgs"
    and "msgs = push_fee swap_msgs fee_transfer"
  using assms unfolding resolve_swap_def and_then_Ok by (auto simp: check_asset_def result_simps intro: that)

text \<open>
  C32: an accepted swap on an exchange of this chain asks the account of the request for one list of messages: the
  messages of the exchange for the offered amount less the fee, followed by the transfer of the fee to the stored
  recipient. The fee is the stored share, rounded down, of the offered amount, so at most a twentieth, and nothing
  is sent when it is zero. The stored state does not change.
\<close>

theorem dex_swap_takes_fee_once:
  assumes "ratio_laws (dx_sdk dl)" and "reachable (dex_start dl) (dex_step dl) st" and "DEX_FEES st = Some f"
    and "is_over_ibc (dx_features dl) ev name = Ok (local_name, False)"
    and "dex_execute dl ch ev info (Some account) st (DexActionMsg name (Swap pool offer ask ms bp)) = Ok (st', out)"
  shows "\<exists>p oi ai x fee swap_msgs fee_msgs. st' = st
    \<and> unat fee = unat (as_amount offer) * unat (df_swap_fee f) div 10 ^ 18 \<and> 20 * unat fee \<le> unat (as_amount offer)
    \<and> dc_swap (dx_exchange dl local_name) x p \<lparr>as_info = oi, as_amount = as_amount offer - fee\<rparr> ai bp ms = Ok swap_msgs
    \<and> check_info dl (as_info offer) = Ok oi \<and> check_info dl ask = Ok ai \<and> check_pool ch pool = Ok p
    \<and> (if fee = 0 then fee_msgs = []
       else \<exists>m. sl_transfer_msg (dx_sdk dl) \<lparr>as_info = oi, as_amount = fee\<rparr> (df_recipient f) = Ok m \<and> fee_msgs = [m])
    \<and> out = [OnAccount account (Execute (swap_msgs @ fee_msgs)) []]"
proof -
  from assms(4,5) have "handle_local_request dl ch st (Some account) local_name (Swap pool offer ask ms bp) = Ok (st', out)"
    by simp
  then obtain exchange msgs i where ex: "resolve_exchange dl local_name = Ok exchange" and st': "st' = st"
    and act: "resolve_dex_action dl ch st account (Swap pool offer ask ms bp) exchange = Ok (msgs, i)"
    and out: "out = [OnAccount account (Execute msgs) []]"
    by (rule handle_local_request_for)
  from act have swap: "resolve_swap dl ch st account offer ask pool exchange ms bp = Ok msgs"
    by (simp add: map_ok_Ok)
  from ex have exchange: "exchange = dx_exchange dl local_name" by (auto simp: resolve_exchange_def split: if_splits)
  from swap obtain p oi ai fee_transfer rest x swap_msgs where
    checks: "check_pool ch pool = Ok p" "check_info dl (as_info offer) = Ok oi" "check_info dl ask = Ok ai"
    and charge: "charge_swap_fee dl st (offer\<lparr>as_info := oi\<rparr>) = Ok (fee_transfer, rest)"
    and run: "dc_swap exchange x p rest ai bp ms = Ok swap_msgs" and msgs: "msgs = push_fee swap_msgs fee_transfer"
    by (rule resolve_swap_Ok)
  from charge obtain fee where fee: "unat fee = unat (as_amount offer) * unat (df_swap_fee f) div 10 ^ 18"
    and rest: "rest = \<lparr>as_info = oi, as_amount = as_amount offer - fee\<rparr>"
    and fm: "if fee = 0 then fee_transfer = None else \<exists>m. fee_transfer = Some m
      \<and> sl_transfer_msg (dx_sdk dl) \<lparr>as_info = oi, as_amount = fee\<rparr> (df_recipient f) = Ok m"
    by (rule charge_swap_fee_Ok [OF assms(1,3)])
  from dex.holds [OF assms(2)] assms(3) have cap: "20 * unat (df_swap_fee f) \<le> 10 ^ 18"
    by (auto simp: fees_capped_def MAX_FEE_def word_le_nat_alt)
  have "20 * unat fee \<le> unat (as_amount offer)" unfolding fee using cap by (rule share_bound)
  then show ?thesis using checks run msgs fm st' out fee
    by (intro exI [of _ p] exI [of _ oi] exI [of _ ai] exI [of _ x] exI [of _ fee] exI [of _ swap_msgs]
        exI [of _ "case fee_transfer of Some m \<Rightarrow> [m] | None \<Rightarrow> []"])
      (auto simp: exchange rest push_fee_def split: if_splits)
qed

text \<open>
  the query for the messages of an action answers, for an account, exactly the messages that an execution of the
  action for that account asks the account to send.
\<close>

theorem dex_generate_is_execute:
  assumes "is_over_ibc (dx_features dl) ev name = Ok (local_name, False)" and "q_addr_validate ch account = Ok account"
  shows "dex_execute dl ch ev info (Some account) st (DexActionMsg name action) = Ok (st', out) \<longleftrightarrow>
    (\<exists>msgs. generate_messages dl ch ev st (DexActionMsg name action) account = Ok msgs
       \<and> st' = st \<and> out = [OnAccount account (Execute msgs) []])"
  using assms
  by (auto simp: handle_local_request_def executor_execute_def executor_execute_with_funds_def execute_on_account_def
      module_account_def result_simps)

text \<open>
  C34: the simulation of a swap asks the exchange for the offer that an execution would give it, after the same
  checks, and answers the fee that an execution would take.
\<close>

theorem dex_simulation_matches:
  assumes "ratio_laws (dx_sdk dl)"
    and "simulate_swap_raw dl ch st offer ask name pool = Ok r"
    and "resolve_exchange dl name = Ok exchange"
    and "resolve_swap dl ch st sndr offer ask pool exchange ms bp = Ok msgs"
  shows "\<exists>p ai rest x swap_msgs fee_transfer fee_on_input. dc_swap exchange x p rest ai bp ms = Ok swap_msgs
    \<and> dc_simulate_swap exchange (dc_default exchange) p rest ai
      = Ok (ssr_return_amount r, ssr_spread_amount r, snd (ssr_commission r), fee_on_input)
    \<and> as_amount rest = as_amount offer - ssr_usage_fee r \<and> ssr_usage_fee r \<le> as_amount offer
    \<and> msgs = push_fee swap_msgs fee_transfer
    \<and> (fee_transfer = None \<longleftrightarrow> ssr_usage_fee r = 0)"
proof -
  from assms(4) obtain p oi ai fee_transfer rest x swap_msgs where
    checks: "check_pool ch pool = Ok p" "check_info dl (as_info offer) = Ok oi" "check_info dl ask = Ok ai"
    and charge: "charge_swap_fee dl st (offer\<lparr>as_info := oi\<rparr>) = Ok (fee_transfer, rest)"
    and run: "dc_swap exchange x p rest ai bp ms = Ok swap_msgs" and msgs: "msgs = push_fee swap_msgs fee_transfer"
    by (rule resolve_swap_Ok)
  from charge obtain f where f: "DEX_FEES st = Some f" by (auto simp: charge_swap_fee_def load_dex_fees_def result_simps)
  from charge obtain fee where fee: "unat fee = unat (as_amount offer) * unat (df_swap_fee f) div 10 ^ 18"
    and le: "fee \<le> as_amount offer"
    and rest: "rest = \<lparr>as_info = oi, as_amount = as_amount offer - fee\<rparr>"
    and fm': "if fee = 0 then fee_transfer = None else \<exists>m. fee_transfer = Some m
      \<and> sl_transfer_msg (dx_sdk dl) \<lparr>as_info = oi, as_amount = fee\<rparr> (df_recipient f) = Ok m"
    by (rule charge_swap_fee_Ok [OF assms(1) f])
  from fm' have fm: "fee_transfer = None \<longleftrightarrow> fee = 0" by (auto split: if_splits)
  have offer: "offer\<lparr>as_info := oi, as_amount := n\<rparr> = \<lparr>as_info = oi, as_amount = n\<rparr>" for n by (cases offer) simp
  from assms(2,3) checks f obtain fee' on_input where
    compute: "fee_compute (dx_sdk dl) (df_swap_fee f) (as_amount offer) = (Ok fee' :: u256 dex_result)"
    and sim: "dc_simulate_swap exchange (dc_default exchange) p \<lparr>as_info = oi, as_amount = as_amount offer - fee'\<rparr> ai
      = Ok (ssr_return_amount r, ssr_spread_amount r, snd (ssr_commission r), on_input)"
    and usage: "ssr_usage_fee r = fee'"
    unfolding simulate_swap_raw_def simulate_swap_def and_then_Ok
    by (auto simp: check_asset_def load_dex_fees_def offer Let_def result_simps)
  from compute assms(1) have "unat fee' = unat (as_amount offer) * unat (df_swap_fee f) div 10 ^ 18"
    by (rule fee_compute_amount)
  with fee have "fee' = fee" by (simp add: word_unat_eq_iff)
  with sim usage run msgs rest fm le show ?thesis by (intro exI [of _ p] exI [of _ ai] exI [of _ rest] exI [of _ x]
      exI [of _ swap_msgs] exI [of _ fee_transfer] exI [of _ on_input]) simp
qed

section \<open>Actions with names\<close>

lemma listed_pool_described:
  assumes "reachable ans_start ans_step ast"
    and "load (asset_pairings ast) (pairing_key (dex_asset_pairing_new x y d)) = Some refs" and "r \<in> set refs"
  obtains md where "load (pool_metadatas ast) (unique_id r) = Some md" and "to_lowercase d = to_lowercase (pm_dex md)"
    and "x \<in> set (pm_assets md)" and "y \<in> set (pm_assets md)" and "x \<noteq> y"
proof -
  from ans.holds [OF assms(1)] obtain n where "pools_ok n ast" by (auto simp: ans_wf_def)
  moreover have "listed ast (unique_id r) x y (to_lowercase d)"
    using assms(2,3) by (simp add: listed_def pools_of_def pairing_key_def dex_asset_pairing_new_def)
  ultimately show thesis using that by (auto simp: pools_ok_def described_def)
qed

lemma last_opt_in: "last_opt xs = Some x \<Longrightarrow> x \<in> set xs"
  by (cases xs rule: last_opt.cases) auto

lemma dex_pool_address_Ok:
  assumes "dex_pool_address qa ans d (x, y) = Ok p" and "qa ans = Ok ast"
  obtains refs r where "load (asset_pairings ast) (pairing_key (dex_asset_pairing_new x y d)) = Some refs"
    and "r \<in> set refs" and "last_opt refs = Some r" and "p = pool_address r"
  using assms by (auto simp: dex_pool_address_def query_asset_pairing_def ans_raw_def Let_def result_simps
      intro: that last_opt_in)


section \<open>Where the code does something else\<close>

text \<open>
  An action on another chain is sent to the chain that is named like the exchange: for \<open>juno>wyndex\<close> the funds and
  the action go to a chain \<open>wyndex\<close>.
\<close>

lemma ibc_action_sent_to_exchange_name:
  assumes "dex_execute dl ch ev info (Some account) st (DexActionMsg name action) = Ok (st', out)"
    and "is_over_ibc (dx_features dl) ev name = Ok (local_name, True)"
  shows "\<exists>coins b1 b2 a. out = [OnAccount account (ExecuteOnModule IBC_CLIENT b1 coins) [],
      OnAccount account (ExecuteOnModule IBC_CLIENT b2 []) []]
    \<and> dx_json_client dl (SendFunds local_name None None) = Ok b1
    \<and> dx_json_client dl (RemoteAction local_name a) = Ok b2"
  using assms by (auto simp: chain_from_string_def result_simps elim!: handle_ibc_request_Ok)

lemma wyndex_on_juno_is_chain_wyndex:
  "is_over_ibc fs \<lparr>env_contract = c, env_block = \<lparr>height = h, time = t, chain_id = ''osmosis-1''\<rparr>\<rparr> ''juno>wyndex''
     = Ok (''wyndex'', True)"
  by (simp add: is_over_ibc_def decompose_platform_name_def is_current_chain_def get_chain_name_def before_last_def)

text \<open>A simulation does not take the chain off the name of the exchange, as an execution does.\<close>

lemma prefixed_name_not_simulated:
  assumes "decompose_platform_name name = (Some c, local_name)"
  shows "simulate_swap dl st name pool offer ask = Err (ModStd (StdMsg ''resolve''))"
proof -
  have "CHR ''>'' \<in> set name"
    using assms by (induction name arbitrary: c local_name)
      (auto simp: decompose_platform_name_def split: if_splits option.splits prod.splits)
  then have "resolve_exchange dl name = Err (ModCustom (ForeignDex name))"
    by (auto simp: resolve_exchange_def)
  then show ?thesis by (simp add: simulate_swap_def)
qed

text \<open>A commission that the exchange does not take from the input is answered as one in the offered asset.\<close>

lemma commission_in_offered_asset:
  assumes "simulate_swap dl st name pool offer ask = Ok r" and "resolve_exchange dl name = Ok exchange"
    and "\<forall>x p a i ret spr com b. dc_simulate_swap exchange x p a i = Ok (ret, spr, com, b) \<longrightarrow> \<not> b"
  shows "fst (ssr_commission r) = as_info offer"
  using assms unfolding simulate_swap_def and_then_Ok by (fastforce simp: Let_def result_simps)

text \<open>Providing liquidity with fewer than two named assets aborts before the check for too few assets.\<close>

lemma too_few_named_assets_panic:
  assumes "length assets < 2" and "\<forall>a\<in>set assets. is_ok (resolve_ans_asset sl ans a)"
  shows "resolve_whole_dex_action sl ans d (AnsProvideLiquidity assets ms) = Panic"
  using assms by (cases assets) (auto simp: first_two_def Let_def is_ok_def split: result.splits)

text \<open>With more than one pool for a pair the contracts take the last pool and the users' interface the first.\<close>

lemma pool_choice_differs:
  assumes "load (asset_pairings ast) (pairing_key (dex_asset_pairing_new x y d)) = Some (r # rs @ [r'])"
    and "qa ans = Ok ast" and "CHR ''>'' \<notin> set d"
  shows "dex_pool_address qa ans d (x, y) = Ok (pool_address r')"
    and "client_pool_address ast d (x, y) = Ok (pool_address r)"
proof -
  show "dex_pool_address qa ans d (x, y) = Ok (pool_address r')"
    using assms(1,2) by (simp add: dex_pool_address_def query_asset_pairing_def ans_raw_def)
  have "split_once CHR ''>'' d = None" using assms(3) by (induction d) auto
  then show "client_pool_address ast d (x, y) = Ok (pool_address r)"
    using assms(1) by (simp add: client_pool_address_def decompose_platform_name_def query_pool_entries_def
        load_asset_pairing_entry_def std_load_def)
qed

section \<open>Witnesses\<close>

text \<open>
  The adapter with one exchange, on a chain where the account \<open>acct\<close> holds the namespace of the framework and the
  account \<open>dev\<close> receives one percent of every swap.
\<close>

definition pool_exchange :: "unit dex_command" where
  "pool_exchange = \<lparr>dc_default = (), dc_name = ''osmosis'', dc_fetch_data = (\<lambda>x s r a. Ok x),
     dc_swap = (\<lambda>x p a i b m. Ok [WasmExecute ''pool'' (Raw ''swap'') [\<lparr>denom = tl (as_info a), amount = as_amount a\<rparr>]]),
     dc_swap_route = (\<lambda>x n a b m. Panic), dc_provide_liquidity = (\<lambda>x p as m. Ok []),
     dc_withdraw_liquidity = (\<lambda>x p a. Ok []), dc_simulate_swap = (\<lambda>x p a i. Ok (2 * as_amount a, 0, 3, False))\<rparr>"

definition osmo_lib :: "unit dex_lib" where
  "osmo_lib = \<lparr>dx_sdk = bank_lib osmo_ans, dx_features = [''osmosis''], dx_exchange = (\<lambda>n. pool_exchange),
     dx_check_info = Ok, dx_coin = (\<lambda>a. Ok \<lparr>denom = tl (as_info a), amount = as_amount a\<rparr>),
     dx_json_dex = (\<lambda>m. Ok ''{}''), dx_json_adapter = (\<lambda>m. Ok ''{}''), dx_json_client = (\<lambda>m. Ok ''{}'')\<rparr>"

definition dex_chain :: chain where
  "dex_chain = paid_chain (paid_registry\<lparr>namespaces := [(ABSTRACT_NAMESPACE, account_id_local 1)]\<rparr>)
     \<lparr>q_contract_info := (\<lambda>a. Ok \<lparr>ci_code_id = 7, ci_admin = None\<rparr>)\<rparr>"

definition dex_env :: env where
  "dex_env = \<lparr>env_contract = ''dex'', env_block = \<lparr>height = 1, time = 1, chain_id = ''osmosis-1''\<rparr>\<rparr>"

definition dex_with :: "dex_fees option \<Rightarrow> dex_state" where
  "dex_with f = \<lparr>ad_cw2 = Some \<lparr>cv_contract = DEX_ADAPTER_ID, cv_version = CONTRACT_VERSION\<rparr>,
     ad_module_data = Some (module_version_data (dex_adapter osmo_lib)), ad_code_id = Some 7,
     authorized_addresses = [], DEX_FEES = f\<rparr>"

definition one_percent :: dex_fees where
  "one_percent = \<lparr>df_swap_fee = 10000000000000000, df_recipient = ''dev''\<rparr>"

definition sold :: "u256 asset" where
  "sold = \<lparr>as_info = ''nuatom'', as_amount = 1000\<rparr>"

lemma dex_chain_facts:
  "adapter_registry dex_chain (dex_with f) = Ok ''reg''" "adapter_ans_host dex_chain (dex_with f) = Ok ''ans''"
  "q_addr_validate dex_chain = Ok"
  "registry_account dex_chain ''reg'' \<lparr>acc_trace = Local, acc_seq = 2\<rparr> = Ok ''dev''"
  "query_namespace dex_chain ''reg'' ABSTRACT_NAMESPACE = Ok (Claimed (account_id_local 1) ''acct'')"
  "assert_account dex_chain ''reg'' ''acct'' = Ok ''acct''"
  by (simp_all add: dex_chain_def dex_with_def adapter_registry_def adapter_ans_host_def ans_host_new_def
      registry_contract_new_def code_defs paid_chain_def sample_chain_def registry_account_def raw_query_def
      query_namespace_def smart_query_def handle_namespace_query_def load_err_def account_id_local_def
      assert_account_def unchecked_account_id_def paid_registry_def load_def acc_key_def)

lemma dex_live: "reachable (dex_start osmo_lib) (dex_step osmo_lib) (dex_with (Some one_percent))"
proof (intro reach_start dex_start.intros)
  show "adapter_instantiate (dex_adapter osmo_lib) dex_chain dex_env (dex_with None) paid_info ''reg''
      \<lparr>dim_swap_fee = 10000000000000000, dim_recipient_account = 2\<rparr> = Ok (dex_with (Some one_percent), [])"
    using dex_chain_facts(1,4)
    by (simp add: adapter_instantiate_def dex_chain_def dex_instantiate_def fee_recipient_def
        account_id_new_def dex_fees_new_def check_fee_share_def fee_new_def MAX_FEE_def one_percent_def
        dex_with_def module_version_data_def dex_adapter_def Let_def)
qed

theorem dex_fee_capped_witness:
  "\<exists>f. DEX_FEES (dex_with (Some one_percent)) = Some f \<and> 20 * unat (df_swap_fee f) \<le> 10 ^ 18"
  by (rule dex_fee_capped [OF dex_live])

theorem dex_fee_changed_by_abstract_only_witness:
  "\<exists>registry i account. adapter_registry dex_chain (dex_with (Some one_percent)) = Ok registry
     \<and> query_namespace dex_chain registry ABSTRACT_NAMESPACE = Ok (Claimed i account)
     \<and> (account = info_sender paid_info \<or> info_sender paid_info \<in> set (authorized_of (dex_with (Some one_percent)) account)
       \<or> query_top_level_owner_addr dex_chain account = Ok (info_sender paid_info))"
proof -
  have "update_fee dex_chain (dex_with (Some one_percent)) (Some ''acct'') (Some 20000000000000000) None
      = Ok (dex_with (Some (one_percent\<lparr>df_swap_fee := 20000000000000000\<rparr>)), [])"
    by (simp add: update_fee_def dex_chain_facts unwrap_namespace_def load_dex_fees_def set_swap_fee_share_def
        check_fee_share_def fee_new_def MAX_FEE_def) (simp add: dex_with_def)
  then have run: "adapter_execute qa (dex_adapter osmo_lib) dex_chain dex_env (dex_with (Some one_percent)) paid_info
      (AdapterModule None (UpdateFee (Some 20000000000000000) None))
    = Ok (dex_with (Some (one_percent\<lparr>df_swap_fee := 20000000000000000\<rparr>)), [])" for qa
    by (simp add: handle_app_msg_Ok dex_chain_facts paid_info_def)
  have changed: "DEX_FEES (dex_with (Some (one_percent\<lparr>df_swap_fee := 20000000000000000\<rparr>))) \<noteq> DEX_FEES (dex_with (Some one_percent))"
    by (simp add: dex_with_def one_percent_def)
  show ?thesis using dex_fee_changed_by_abstract_only [OF run changed] by blast
qed

lemma osmo_local: "is_over_ibc (dx_features osmo_lib) dex_env ''osmosis'' = Ok (''osmosis'', False)"
  by (simp add: is_over_ibc_def osmo_lib_def dex_env_def decompose_platform_name_def identify_exchange_def
      is_available_on_def get_chain_name_def before_last_def OSMOSIS_def)

lemma osmo_swap:
  "resolve_swap osmo_lib dex_chain (dex_with (Some one_percent)) ''acct'' sold ''nuosmo'' (PoolId 1) pool_exchange ms bp
   = Ok [WasmExecute ''pool'' (Raw ''swap'') [\<lparr>denom = ''uatom'', amount = 990\<rparr>],
         BankSend ''dev'' [\<lparr>denom = ''uatom'', amount = 10\<rparr>]]"
proof -
  have "charge_swap_fee osmo_lib (dex_with (Some one_percent)) sold
    = Ok (Some (BankSend ''dev'' [\<lparr>denom = ''uatom'', amount = 10\<rparr>]), sold\<lparr>as_amount := 990\<rparr>)"
    by (simp add: charge_swap_fee_def load_dex_fees_def swap_usage_fee_def usage_fee_new_def fee_new_def
        one_percent_def sold_def osmo_lib_def bank_lib_def charge_usage_fee_def usage_fee_compute_def take_off_def
        checked_sub_def dex_with_def)
  then show ?thesis
    by (simp add: resolve_swap_def check_pool_def check_asset_def check_info_def exchange_data_def dex_chain_facts
        push_fee_def) (simp add: osmo_lib_def pool_exchange_def sold_def)
qed

lemma osmo_execute:
  "dex_execute osmo_lib dex_chain dex_env info (Some ''acct'') (dex_with (Some one_percent))
     (DexActionMsg ''osmosis'' (Swap (PoolId 1) sold ''nuosmo'' None None))
   = Ok (dex_with (Some one_percent), [OnAccount ''acct'' (Execute [WasmExecute ''pool'' (Raw ''swap'')
       [\<lparr>denom = ''uatom'', amount = 990\<rparr>], BankSend ''dev'' [\<lparr>denom = ''uatom'', amount = 10\<rparr>]]) []])"
proof -
  have "resolve_exchange osmo_lib ''osmosis'' = Ok pool_exchange" by (simp add: resolve_exchange_def osmo_lib_def)
  then show ?thesis
    by (simp add: osmo_local handle_local_request_def osmo_swap module_account_def executor_execute_def
        executor_execute_with_funds_def execute_on_account_def)
qed

theorem dex_swap_takes_fee_once_witness:
  "\<exists>fee swap_msgs fee_msgs. unat (fee :: u256) = 10
     \<and> [WasmExecute ''pool'' (Raw ''swap'') [\<lparr>denom = ''uatom'', amount = 990\<rparr>],
        BankSend ''dev'' [\<lparr>denom = ''uatom'', amount = 10\<rparr>]] = swap_msgs @ fee_msgs"
proof -
  have laws: "ratio_laws (dx_sdk osmo_lib)" by (simp add: osmo_lib_def bank_lib_laws(2))
  have f: "DEX_FEES (dex_with (Some one_percent)) = Some one_percent" by (simp add: dex_with_def)
  from dex_swap_takes_fee_once [OF laws dex_live f osmo_local osmo_execute] obtain fee :: u256 and swap_msgs fee_msgs where
    "unat fee = unat (as_amount sold) * unat (df_swap_fee one_percent) div 10 ^ 18"
    "[WasmExecute ''pool'' (Raw ''swap'') [\<lparr>denom = ''uatom'', amount = 990\<rparr>],
        BankSend ''dev'' [\<lparr>denom = ''uatom'', amount = 10\<rparr>]] = swap_msgs @ fee_msgs" by auto
  then show ?thesis by (auto simp: sold_def one_percent_def)
qed

theorem dex_generate_is_execute_witness:
  "\<exists>msgs. generate_messages osmo_lib dex_chain dex_env (dex_with (Some one_percent))
     (DexActionMsg ''osmosis'' (Swap (PoolId 1) sold ''nuosmo'' None None)) ''acct'' = Ok msgs"
  using dex_generate_is_execute [OF osmo_local, of dex_chain "''acct''"] osmo_execute dex_chain_facts(3) by fastforce

theorem dex_simulation_matches_witness:
  "\<exists>r rest. simulate_swap_raw osmo_lib dex_chain (dex_with (Some one_percent)) sold ''nuosmo'' ''osmosis'' (PoolId 1) = Ok r
     \<and> ssr_usage_fee r = 10 \<and> as_amount (rest :: u256 asset) = as_amount sold - ssr_usage_fee r"
proof -
  let ?r = "\<lparr>ssr_pool = (''nuatom'', ''nuosmo'', ''osmosis''), ssr_return_amount = 1980, ssr_spread_amount = 0,
     ssr_commission = (''nuatom'', 3), ssr_usage_fee = 10\<rparr>"
  have laws: "ratio_laws (dx_sdk osmo_lib)" by (simp add: osmo_lib_def bank_lib_laws(2))
  have ex: "resolve_exchange osmo_lib ''osmosis'' = Ok pool_exchange" by (simp add: resolve_exchange_def osmo_lib_def)
  have sim: "simulate_swap_raw osmo_lib dex_chain (dex_with (Some one_percent)) sold ''nuosmo'' ''osmosis'' (PoolId 1) = Ok ?r"
    by (simp add: simulate_swap_raw_def simulate_swap_def resolve_exchange_def check_pool_def check_asset_def check_info_def load_dex_fees_def
        osmo_lib_def dex_with_def one_percent_def sold_def fee_compute_def bank_lib_def take_off_def checked_sub_def
        pool_exchange_def Let_def)
  from dex_simulation_matches [OF laws sim ex osmo_swap] obtain rest :: "u256 asset"
    where "as_amount rest = as_amount sold - ssr_usage_fee ?r" by blast
  with sim show ?thesis by (intro exI [of _ ?r] exI [of _ rest]) simp
qed


end
