(* ===== verification/Payment.thy ===== *)
theory Payment
  imports Dex_Safety
begin

text \<open>
  The payment app (\<open>modules/contracts/apps/payment/src\<close>): anyone tips the account in any asset; the app forwards
  the payment to the account, asks the exchange adapter to swap it to the asset the account wants, and keeps
  the history of every tipper.

  The history is a \<open>cw_storage_plus::SnapshotMap\<close> with the strategy \<open>EveryBlock\<close>: beside the current map a change
  log that has, for a key and a height, the value from before the first write of that block.

  Parameters are the list of assets of \<open>cw_asset\<close> and the answer of the exchange adapter to a simulation
  (\<open>Dex.simulate_swap_ans\<close> is its model). Amounts have the width of the amount of an asset.
\<close>

section \<open>Maps with history\<close>

record ('k, 'v) snapshot_map =
  sm_primary :: "('k, 'v) store"
  sm_changelog :: "('k \<times> u64, 'v option) store"

definition sm_empty :: "('k, 'v) snapshot_map" where
  "sm_empty = \<lparr>sm_primary = [], sm_changelog = []\<rparr>"

definition sm_load :: "('k, 'v) snapshot_map \<Rightarrow> 'k \<Rightarrow> 'v option" where
  "sm_load m k = load (sm_primary m) k"

definition sm_save :: "'k::linorder \<Rightarrow> 'v \<Rightarrow> u64 \<Rightarrow> ('k, 'v) snapshot_map \<Rightarrow> ('k, 'v) snapshot_map" where
  "sm_save k v h m =
     \<lparr>sm_primary = save k v (sm_primary m),
      sm_changelog = (if has (sm_changelog m) (k, h) then sm_changelog m
        else save (k, h) (load (sm_primary m) k) (sm_changelog m))\<rparr>"

text \<open>The first change at or after the height has the value from before it.\<close>

definition sm_load_at :: "('k, 'v) snapshot_map \<Rightarrow> 'k \<Rightarrow> u64 \<Rightarrow> 'v option" where
  "sm_load_at m k h =
     (case entries_where (\<lambda>(k', h'). k' = k \<and> h \<le> h') (sm_changelog m) of
        (_, old) # _ \<Rightarrow> old
      | [] \<Rightarrow> load (sm_primary m) k)"

section \<open>State and messages (state.rs, msg.rs, error.rs)\<close>

record payment_config =
  desired_asset :: "asset_entry option"
  denom_asset :: string
  exchanges :: "dex_name list"

type_synonym tipper_key = "subkey \<times> asset_entry"

record payment_state = app_state +
  pay_config :: "payment_config option"
  TIPPERS :: "(tipper_key, u256) snapshot_map"
  TIP_COUNT :: "u32 option"
  TIPPER_COUNT :: "(addr, u32) snapshot_map"

datatype payment_error =
    PayAsset string
  | PayAdmin admin_error
  | TipperDoesNotExist
  | DesiredAssetDoesNotExist
  | DexNotRegistered string

datatype payment_execute_msg =
    Tip
  | PayUpdateConfig "asset_entry clearable option" "string option" "dex_name list option"

record cw20_receipt =
  cr_sender :: string
  cr_amount :: u256

datatype payment_custom_msg = PayModule payment_execute_msg | PayReceive cw20_receipt

type_synonym 'a pay_result = "('a, payment_error) module_result"
type_synonym pay_out = "payment_state module_out"

record 's pay_lib =
  pl_dex :: "'s dex_lib"
  pl_accounts :: account_querier
  pl_assets_of :: "coin list \<Rightarrow> u256 asset list"
  pl_add_asset :: "u256 asset list \<Rightarrow> u256 asset \<Rightarrow> (u256 asset list, string) result"
  pl_cw20 :: "addr \<Rightarrow> asset_info"
  pl_simulate :: "addr \<Rightarrow> ans_asset \<times> asset_entry \<times> dex_name \<Rightarrow> (asset_entry simulate_swap_response, std_error) result"

definition pl_sdk :: "'s pay_lib \<Rightarrow> u256 sdk_lib" where
  "pl_sdk pl = dx_sdk (pl_dex pl)"

definition pl_ans :: "'s pay_lib \<Rightarrow> ans_querier" where
  "pl_ans pl = sl_ans (pl_sdk pl)"

definition DEX_DEPENDENCY :: dependency where
  "DEX_DEPENDENCY = \<lparr>dep_id = DEX_ADAPTER_ID, version_req = [CONTRACT_VERSION]\<rparr>"

definition MAX_SPREAD_PERCENT :: decimal where "MAX_SPREAD_PERCENT = 20"

text \<open>\<open>Decimal::percent\<close>\<close>

definition percent :: "decimal \<Rightarrow> decimal" where
  "percent n = n * 10000000000000000"

definition load_pay_config :: "payment_state \<Rightarrow> payment_config pay_result" where
  "load_pay_config st = ok_or (ModStd (StdNotFound ''cfg'')) (pay_config st)"

section \<open>Configuration (handlers/instantiate.rs, handlers/execute.rs)\<close>

definition check_desired_asset :: "'s pay_lib \<Rightarrow> addr \<Rightarrow> asset_entry \<Rightarrow> unit pay_result" where
  "check_desired_asset pl ans a =
     map_ok (\<lambda>_. ()) (map_err (\<lambda>_. ModCustom DesiredAssetDoesNotExist) (query_asset (pl_ans pl) ans a))"

definition check_exchanges :: "'s pay_lib \<Rightarrow> addr \<Rightarrow> dex_name list \<Rightarrow> unit pay_result" where
  "check_exchanges pl ans names =
     and_then (map_err (\<lambda>e. ModSdk (SdkAnsHost e)) (ans_query_registered_dexes (pl_ans pl) ans)) (\<lambda>ans_dexes.
     try_fold (\<lambda>_ d. if d \<in> set ans_dexes then Ok () else Err (ModCustom (DexNotRegistered d))) () names)"

definition payment_instantiate ::
  "'s pay_lib \<Rightarrow> chain \<Rightarrow> payment_state \<Rightarrow> payment_config \<Rightarrow> pay_out pay_result" where
  "payment_instantiate pl ch st msg =
     and_then (unwrap_res (app_ans_host ch st)) (\<lambda>ans.
     and_then (case desired_asset msg of Some a \<Rightarrow> check_desired_asset pl ans a | None \<Rightarrow> Ok ()) (\<lambda>_.
     and_then (check_exchanges pl ans (exchanges msg)) (\<lambda>_.
     Ok (st\<lparr>pay_config := Some msg, TIP_COUNT := Some 0\<rparr>, []))))"

definition clearable_into :: "'a clearable \<Rightarrow> 'a option" where
  "clearable_into c = (case c of Set a \<Rightarrow> Some a | Clear \<Rightarrow> None)"

definition update_payment_config ::
  "'s pay_lib \<Rightarrow> chain \<Rightarrow> env \<Rightarrow> message_info \<Rightarrow> payment_state \<Rightarrow> asset_entry clearable option \<Rightarrow> string option
   \<Rightarrow> dex_name list option \<Rightarrow> pay_out pay_result" where
  "update_payment_config pl ch ev info st new_desired new_denom new_exchanges =
     and_then (map_err (\<lambda>e. ModCustom (PayAdmin e)) (assert_admin ch (ap_admin st) ev (info_sender info))) (\<lambda>_.
     and_then (unwrap_res (app_ans_host ch st)) (\<lambda>ans.
     and_then (load_pay_config st) (\<lambda>config.
     and_then (case new_desired of
         Some d \<Rightarrow> and_then (case d of Set a \<Rightarrow> check_desired_asset pl ans a | Clear \<Rightarrow> Ok ()) (\<lambda>_.
           Ok (config\<lparr>desired_asset := clearable_into d\<rparr>))
       | None \<Rightarrow> Ok config) (\<lambda>config.
     and_then (case new_exchanges of
         Some names \<Rightarrow> and_then (check_exchanges pl ans names) (\<lambda>_. Ok (config\<lparr>exchanges := names\<rparr>))
       | None \<Rightarrow> Ok config) (\<lambda>config.
     let config = (case new_denom of Some d \<Rightarrow> config\<lparr>denom_asset := d\<rparr> | None \<Rightarrow> config)
     in Ok (st\<lparr>pay_config := Some config\<rparr>, []))))))"

section \<open>Tips (handlers/execute.rs, handlers/receive.rs)\<close>

definition add_tipped :: "addr \<Rightarrow> u64 \<Rightarrow> payment_state \<Rightarrow> ans_asset \<Rightarrow> payment_state pay_result" where
  "add_tipped sndr h st a =
     (let key = (SubKey sndr, aa_name a);
          total = (case sm_load (TIPPERS st) key of Some n \<Rightarrow> n | None \<Rightarrow> 0)
      in and_then (unwrap (checked_add total (aa_amount a))) (\<lambda>total.
         Ok (st\<lparr>TIPPERS := sm_save key total h (TIPPERS st)\<rparr>)))"

definition update_tipper_history ::
  "payment_state \<Rightarrow> addr \<Rightarrow> ans_asset list \<Rightarrow> u64 \<Rightarrow> payment_state pay_result" where
  "update_tipper_history st sndr assets h =
     and_then (ok_or (ModStd (StdNotFound ''tip-count'')) (TIP_COUNT st)) (\<lambda>total_count.
     and_then (unwrap (checked_add total_count 1)) (\<lambda>total_count.
     let st = st\<lparr>TIP_COUNT := Some total_count\<rparr>;
         tipper_count = (case sm_load (TIPPER_COUNT st) sndr of Some n \<Rightarrow> n | None \<Rightarrow> 0)
     in and_then (unwrap (checked_add tipper_count 1)) (\<lambda>tipper_count.
        try_fold (add_tipped sndr h) (st\<lparr>TIPPER_COUNT := sm_save sndr tipper_count h (TIPPER_COUNT st)\<rparr>) assets)))"

record tip_acc =
  ta_swap_msgs :: "cosmos_msg list"
  ta_desired_amount :: u256
  ta_assets_to_add :: "ans_asset list"

definition add_desired :: "tip_acc \<Rightarrow> u256 \<Rightarrow> tip_acc pay_result" where
  "add_desired acc n =
     and_then (unwrap (checked_add (ta_desired_amount acc) n)) (\<lambda>total. Ok (acc\<lparr>ta_desired_amount := total\<rparr>))"

text \<open>\<open>ans.pool_list\<close> is a smart query of the name service.\<close>

definition pool_list ::
  "ans_querier \<Rightarrow> addr \<Rightarrow> asset_entry \<times> asset_entry \<Rightarrow> (dex_asset_pairing \<times> pool_reference list) list pay_result" where
  "pool_list qa ans pair =
     map_err (\<lambda>e. ModSdk (SdkStd e)) (and_then (qa ans) (\<lambda>ast. list_pool_entries ast (Some (Some pair, None)) None None))"

definition swap_on ::
  "'s pay_lib \<Rightarrow> chain \<Rightarrow> payment_state \<Rightarrow> asset_entry \<Rightarrow> tip_acc \<Rightarrow> ans_asset \<Rightarrow> dex_name \<Rightarrow> tip_acc pay_result" where
  "swap_on pl ch st desired acc pay_asset dex_nm =
     and_then (map_err ModSdk (ans_dex_execute (pl_dex pl) (pl_accounts pl) [DEX_DEPENDENCY] (ap_account st)
       (app_ans_host ch st) dex_nm (AnsSwap pay_asset desired (Some (percent MAX_SPREAD_PERCENT)) None)))
       (\<lambda>trigger_swap_msg.
     and_then (map_err ModSdk (adapters_query (pl_simulate pl) (pl_accounts pl) (ap_account st) DEX_ADAPTER_ID
       (pay_asset, desired, dex_nm))) (\<lambda>sim.
     add_desired (acc\<lparr>ta_swap_msgs := ta_swap_msgs acc @ [trigger_swap_msg]\<rparr>) (ssr_return_amount sim)))"

definition swap_tip ::
  "'s pay_lib \<Rightarrow> chain \<Rightarrow> payment_state \<Rightarrow> addr \<Rightarrow> asset_entry \<Rightarrow> dex_name list \<Rightarrow> tip_acc \<Rightarrow> ans_asset \<Rightarrow> tip_acc pay_result" where
  "swap_tip pl ch st ans desired exchange_strs acc pay_asset =
     (if aa_name pay_asset = desired then add_desired acc (aa_amount pay_asset)
      else and_then (pool_list (pl_ans pl) ans (desired, aa_name pay_asset)) (\<lambda>resp.
        case List.find (\<lambda>(pair, refs). refs \<noteq> [] \<and> dap_dex pair \<in> set exchange_strs) resp of
          Some (pair, _) \<Rightarrow> swap_on pl ch st desired acc pay_asset (dap_dex pair)
        | None \<Rightarrow> Ok (acc\<lparr>ta_assets_to_add := ta_assets_to_add acc @ [pay_asset]\<rparr>)))"

definition tip ::
  "'s pay_lib \<Rightarrow> chain \<Rightarrow> env \<Rightarrow> message_info \<Rightarrow> payment_state \<Rightarrow> u256 asset option \<Rightarrow> pay_out pay_result" where
  "tip pl ch ev info st cw20_receipt =
     (let deposited = pl_assets_of pl (info_funds info)
      in and_then (case cw20_receipt of
           Some cw20_deposit \<Rightarrow> map_err (\<lambda>e. ModCustom (PayAsset e)) (pl_add_asset pl deposited cw20_deposit)
         | None \<Rightarrow> Ok deposited) (\<lambda>deposited.
         and_then (map_err ModSdk (bank_deposit (pl_sdk pl) (app_ans_host ch st) (ap_account st) (map TransferAsset deposited)))
           (\<lambda>forward_payment_msgs.
         and_then (load_pay_config st) (\<lambda>config.
         and_then (unwrap_res (app_ans_host ch st)) (\<lambda>ans.
         and_then (map_err (\<lambda>e. ModSdk (SdkAnsHost e)) (resolve_assets (pl_sdk pl) ans deposited)) (\<lambda>asset_entries.
         case desired_asset config of
           None \<Rightarrow>
             and_then (update_tipper_history st (info_sender info) asset_entries (height (env_block ev))) (\<lambda>st.
             Ok (st, map Direct forward_payment_msgs))
         | Some desired \<Rightarrow>
             and_then (try_fold (swap_tip pl ch st ans desired (exchanges config))
               \<lparr>ta_swap_msgs = [], ta_desired_amount = 0, ta_assets_to_add = []\<rparr> asset_entries) (\<lambda>acc.
             let assets_to_add = ta_assets_to_add acc
                   @ (if ta_desired_amount acc \<noteq> 0 then [\<lparr>aa_name = desired, aa_amount = ta_desired_amount acc\<rparr>] else [])
             in and_then (update_tipper_history st (info_sender info) assets_to_add (height (env_block ev))) (\<lambda>st.
                Ok (st, map Direct (forward_payment_msgs @ ta_swap_msgs acc))))))))))"

fun payment_execute ::
  "'s pay_lib \<Rightarrow> chain \<Rightarrow> env \<Rightarrow> message_info \<Rightarrow> payment_state \<Rightarrow> payment_execute_msg \<Rightarrow> pay_out pay_result" where
  "payment_execute pl ch ev info st Tip = tip pl ch ev info st None"
| "payment_execute pl ch ev info st (PayUpdateConfig a d e) = update_payment_config pl ch ev info st a d e"

definition payment_receive ::
  "'s pay_lib \<Rightarrow> chain \<Rightarrow> env \<Rightarrow> message_info \<Rightarrow> payment_state \<Rightarrow> cw20_receipt \<Rightarrow> pay_out pay_result" where
  "payment_receive pl ch ev info st m =
     (let receipt = \<lparr>as_info = pl_cw20 pl (info_sender info), as_amount = cr_amount m\<rparr>
      in and_then (map_err ModStd (q_addr_validate ch (cr_sender m))) (\<lambda>sndr.
         tip pl ch ev (info\<lparr>info_sender := sndr\<rparr>) st (Some receipt)))"

fun payment_custom_execute ::
  "'s pay_lib \<Rightarrow> chain \<Rightarrow> env \<Rightarrow> message_info \<Rightarrow> payment_state \<Rightarrow> payment_custom_msg \<Rightarrow> pay_out pay_result" where
  "payment_custom_execute pl ch ev info st (PayModule m) = payment_execute pl ch ev info st m"
| "payment_custom_execute pl ch ev info st (PayReceive m) = payment_receive pl ch ev info st m"

section \<open>Queries (handlers/query.rs)\<close>

definition DEFAULT_TIPPERS_LIMIT :: u32 where "DEFAULT_TIPPERS_LIMIT = 10"

definition tippers_limit :: "u32 option \<Rightarrow> nat" where
  "tippers_limit l = unat (case l of Some n \<Rightarrow> n | None \<Rightarrow> DEFAULT_TIPPERS_LIMIT)"

record tipper_response =
  tr_address :: addr
  tr_tip_count :: u32
  tr_total_amounts :: "ans_asset list"

definition query_tip_count :: "payment_state \<Rightarrow> u32" where
  "query_tip_count st = (case TIP_COUNT st of Some n \<Rightarrow> n | None \<Rightarrow> 0)"

text \<open>The assets of a tipper, after an exclusive bound.\<close>

definition tipper_entries :: "payment_state \<Rightarrow> addr \<Rightarrow> asset_entry option \<Rightarrow> u32 option \<Rightarrow> (tipper_key \<times> u256) list" where
  "tipper_entries st a start_after limit =
     take (tippers_limit limit) (entries_where
       (\<lambda>k. fst k = SubKey a \<and> (case start_after of Some s \<Rightarrow> s < snd k | None \<Rightarrow> True)) (sm_primary (TIPPERS st)))"

definition tipper_at_height ::
  "payment_state \<Rightarrow> addr \<Rightarrow> asset_entry option \<Rightarrow> u32 option \<Rightarrow> u64 \<Rightarrow> tipper_response" where
  "tipper_at_height st a start_after limit h =
     \<lparr>tr_address = a,
      tr_tip_count = (case sm_load_at (TIPPER_COUNT st) a h of Some n \<Rightarrow> n | None \<Rightarrow> 0),
      tr_total_amounts = map (\<lambda>(k, _). \<lparr>aa_name = snd k,
        aa_amount = (case sm_load_at (TIPPERS st) k h of Some n \<Rightarrow> n | None \<Rightarrow> 0)\<rparr>) (tipper_entries st a start_after limit)\<rparr>"

definition query_tipper ::
  "chain \<Rightarrow> payment_state \<Rightarrow> string \<Rightarrow> asset_entry option \<Rightarrow> u32 option \<Rightarrow> u64 option \<Rightarrow> tipper_response pay_result" where
  "query_tipper ch st address start_after limit at_height =
     and_then (map_err ModStd (q_addr_validate ch address)) (\<lambda>a.
     case at_height of
       Some h \<Rightarrow> Ok (tipper_at_height st a start_after limit h)
     | None \<Rightarrow> Ok \<lparr>tr_address = a,
         tr_tip_count = (case sm_load (TIPPER_COUNT st) a of Some n \<Rightarrow> n | None \<Rightarrow> 0),
         tr_total_amounts = map (\<lambda>(k, n). \<lparr>aa_name = snd k, aa_amount = n\<rparr>) (tipper_entries st a start_after limit)\<rparr>)"

definition query_list_tippers_count ::
  "chain \<Rightarrow> payment_state \<Rightarrow> string option \<Rightarrow> u32 option \<Rightarrow> (addr \<times> u32) list pay_result" where
  "query_list_tippers_count ch st start_after limit =
     and_then (case start_after of
         Some human \<Rightarrow> map_ok Some (map_err ModStd (q_addr_validate ch human))
       | None \<Rightarrow> Ok None) (\<lambda>start.
     Ok (take (tippers_limit limit) (entries_after start (sm_primary (TIPPER_COUNT st)))))"

end
