(* ===== verification/Payment_Safety.thy ===== *)
theory Payment_Safety
  imports Payment
begin

text \<open>
  What the payment app guarantees: a tip is forwarded whole and only swaps follow it, the two counts of tips agree, tips
  only add to the totals of their sender, and the query for a past height answers what was stored when that block
  began. The last rests on the laws of maps with history, stated as a locale and interpreted on the
  snapshot map of the app.
\<close>

section \<open>Maps with history\<close>

locale history_map =
  fixes look :: "'m \<Rightarrow> 'k \<Rightarrow> 'v option"
    and look_at :: "'m \<Rightarrow> 'k \<Rightarrow> u64 \<Rightarrow> 'v option"
    and put :: "'k \<Rightarrow> 'v \<Rightarrow> u64 \<Rightarrow> 'm \<Rightarrow> 'm"
    and wf :: "u64 \<Rightarrow> 'm \<Rightarrow> bool"
  assumes look_put: "look (put k v h m) = (look m)(k \<mapsto> v)"
    and wf_put: "wf h m \<Longrightarrow> wf h (put k v h m)"
    and wf_later: "wf h m \<Longrightarrow> h \<le> h' \<Longrightarrow> wf h' m"
    and at_end: "wf h m \<Longrightarrow> h < h' \<Longrightarrow> look_at m k h' = look m k"
    and at_past: "wf h m \<Longrightarrow> h' \<le> h \<Longrightarrow> look_at (put k v h m) k' h' = look_at m k' h'"
begin

lemma wf_puts: "wf h m \<Longrightarrow> wf h (fold (\<lambda>(k, v). put k v h) ws m)"
  by (induction ws arbitrary: m) (auto intro: wf_put)

lemma past_of_puts: "wf h m \<Longrightarrow> h' \<le> h \<Longrightarrow> look_at (fold (\<lambda>(k, v). put k v h) ws m) k' h' = look_at m k' h'"
  by (induction ws arbitrary: m) (auto simp: at_past wf_put)

lemma look_puts: "look (fold (\<lambda>(k, v). put k v h) ws m) = fold (\<lambda>(k, v) f. f(k \<mapsto> v)) ws (look m)"
  by (induction ws arbitrary: m) (auto simp: look_put)

end

definition sm_wf :: "u64 \<Rightarrow> ('k::linorder, 'v) snapshot_map \<Rightarrow> bool" where
  "sm_wf h m \<longleftrightarrow> ordered (sm_changelog m) \<and> (\<forall>(k, h')\<in>fst ` set (sm_changelog m). h' \<le> h)"

interpretation snapshot: history_map sm_load sm_load_at sm_save sm_wf
proof
  fix h h' :: u64 and m :: "('k::linorder, 'v) snapshot_map" and k k' :: 'k and v :: 'v
  show "sm_load (sm_save k v h m) = (sm_load m)(k \<mapsto> v)"
    by (simp add: sm_load_def sm_save_def fun_eq_iff)
  show "sm_wf h (sm_save k v h m)" if "sm_wf h m"
    using that set_save [of "(k, h)" "load (sm_primary m) k" "sm_changelog m"]
    by (fastforce simp: sm_wf_def sm_save_def ordered_save)
  show "sm_wf h' m" if "sm_wf h m" "h \<le> h'"
    using that by (fastforce simp: sm_wf_def)
  show "sm_load_at m k h' = sm_load m k" if "sm_wf h m" "h < h'"
  proof -
    have "entries_where (\<lambda>(k', ha). k' = k \<and> h' \<le> ha) (sm_changelog m) = []"
      using that by (fastforce simp: sm_wf_def entries_where_def filter_empty_conv)
    then show ?thesis by (simp add: sm_load_at_def sm_load_def)
  qed
  show "sm_load_at (sm_save k v h m) k' h' = sm_load_at m k' h'" if wf: "sm_wf h m" and le: "h' \<le> h"
  proof -
    let ?P = "\<lambda>(x, ha). x = k' \<and> h' \<le> ha"
    consider (same) "k = k'" "\<not> has (sm_changelog m) (k, h)" | (seen) "k = k'" "has (sm_changelog m) (k, h)" | (other) "k \<noteq> k'"
      by blast
    then show ?thesis
    proof cases
      case same
      have "x < (k, h)" if x: "x \<in> fst ` set (sm_changelog m)" "?P x" for x
      proof -
        from wf x have "snd x \<le> h" by (auto simp: sm_wf_def)
        moreover have "x \<noteq> (k, h)" using x same(2) by (auto simp: has_def load_def map_of_eq_None_iff)
        ultimately show ?thesis using x(2) same(1) by (cases x) (auto simp: less_prod_def)
      qed
      with same wf le have "entries_where ?P (save (k, h) (load (sm_primary m) k) (sm_changelog m))
          = entries_where ?P (sm_changelog m) @ [((k, h), load (sm_primary m) k)]"
        by (intro entries_where_save_new) (auto simp: sm_wf_def)
      with same show ?thesis by (auto simp: sm_load_at_def sm_save_def split: list.splits)
    next
      case seen
      then obtain old where "((k, h), old) \<in> set (sm_changelog m)" by (auto simp: has_def load_def dest: map_of_SomeD)
      with seen(1) le have "((k, h), old) \<in> set (entries_where ?P (sm_changelog m))" by (simp add: entries_where_def)
      then have "entries_where ?P (sm_changelog m) \<noteq> []" by auto
      with seen show ?thesis by (auto simp: sm_load_at_def sm_save_def split: list.splits)
    next
      case other
      then show ?thesis by (auto simp: sm_load_at_def sm_save_def entries_where_save_other split: list.splits)
    qed
  qed
qed

section \<open>What changes the history\<close>

definition only_adds :: "subkey \<Rightarrow> (tipper_key, u256) snapshot_map \<Rightarrow> (tipper_key, u256) snapshot_map \<Rightarrow> bool" where
  "only_adds s m m' \<longleftrightarrow> (\<forall>k. (fst k \<noteq> s \<longrightarrow> sm_load m' k = sm_load m k)
     \<and> (\<forall>old. sm_load m k = Some old \<longrightarrow> (\<exists>new. sm_load m' k = Some new \<and> old \<le> new)))"

lemma only_adds_refl: "only_adds s m m"
  by (simp add: only_adds_def)

lemma only_adds_trans:
  assumes "only_adds s m1 m2" and "only_adds s m2 m3"
  shows "only_adds s m1 m3"
  unfolding only_adds_def
proof (intro allI conjI impI)
  fix k :: tipper_key assume "fst k \<noteq> s"
  with assms show "sm_load m3 k = sm_load m1 k" unfolding only_adds_def by metis
next
  fix k old assume "sm_load m1 k = Some old"
  with assms(1) obtain mid where "sm_load m2 k = Some mid" "old \<le> mid" unfolding only_adds_def by blast
  moreover from this(1) assms(2) obtain new where "sm_load m3 k = Some new" "mid \<le> new" unfolding only_adds_def by blast
  ultimately show "\<exists>new. sm_load m3 k = Some new \<and> old \<le> new" by (blast intro: order_trans)
qed

lemma add_tipped_Ok:
  assumes "add_tipped s h st a = Ok st'"
  obtains n where "st' = st\<lparr>TIPPERS := sm_save (SubKey s, aa_name a) n h (TIPPERS st)\<rparr>"
    and "only_adds (SubKey s) (TIPPERS st) (TIPPERS st')"
proof -
  let ?k = "(SubKey s, aa_name a)"
  from assms obtain n where n: "checked_add (case sm_load (TIPPERS st) ?k of Some n \<Rightarrow> n | None \<Rightarrow> 0) (aa_amount a) = Some n"
    and st': "st' = st\<lparr>TIPPERS := sm_save ?k n h (TIPPERS st)\<rparr>"
    by (auto simp: add_tipped_def Let_def result_simps)
  from checked_add_Some [OF n] have "old \<le> n" if "sm_load (TIPPERS st) ?k = Some old" for old
    using that by (simp add: word_le_nat_alt)
  then have "only_adds (SubKey s) (TIPPERS st) (TIPPERS st')"
    by (auto simp: only_adds_def st' snapshot.look_put)
  with st' show thesis by (rule that)
qed

definition tipped_from :: "addr \<Rightarrow> u64 \<Rightarrow> payment_state \<Rightarrow> payment_state \<Rightarrow> bool" where
  "tipped_from s h st st' \<longleftrightarrow> TIP_COUNT st' = TIP_COUNT st \<and> TIPPER_COUNT st' = TIPPER_COUNT st
     \<and> only_adds (SubKey s) (TIPPERS st) (TIPPERS st')
     \<and> (\<exists>ws. TIPPERS st' = fold (\<lambda>(k, v). sm_save k v h) ws (TIPPERS st))"

lemma tipped_from_refl: "tipped_from s h st st"
  by (auto simp: tipped_from_def only_adds_refl intro: exI [of _ "[]"])

lemma add_tipped_from:
  assumes "add_tipped s h st a = Ok st'" and "tipped_from s h st0 st"
  shows "tipped_from s h st0 st'"
proof -
  from assms(2) obtain ws where ws: "TIPPERS st = fold (\<lambda>(k, v). sm_save k v h) ws (TIPPERS st0)"
    and adds: "only_adds (SubKey s) (TIPPERS st0) (TIPPERS st)"
    and counts: "TIP_COUNT st = TIP_COUNT st0" "TIPPER_COUNT st = TIPPER_COUNT st0"
    by (auto simp: tipped_from_def)
  from assms(1) obtain n where st': "st' = st\<lparr>TIPPERS := sm_save (SubKey s, aa_name a) n h (TIPPERS st)\<rparr>"
    and more: "only_adds (SubKey s) (TIPPERS st) (TIPPERS st')" by (rule add_tipped_Ok)
  have "TIPPERS st' = fold (\<lambda>(k, v). sm_save k v h) (ws @ [((SubKey s, aa_name a), n)]) (TIPPERS st0)"
    by (simp add: st' ws)
  then have "\<exists>ws. TIPPERS st' = fold (\<lambda>(k, v). sm_save k v h) ws (TIPPERS st0)" ..
  with only_adds_trans [OF adds more] counts show ?thesis by (simp add: tipped_from_def st')
qed

lemma update_tipper_history_Ok:
  assumes "update_tipper_history st s assets h = Ok st'"
  obtains n n' c ws where "TIP_COUNT st = Some n" and "TIP_COUNT st' = Some n'" and "unat n' = unat n + 1"
    and "TIPPER_COUNT st' = sm_save s c h (TIPPER_COUNT st)"
    and "unat c = (case sm_load (TIPPER_COUNT st) s of Some old \<Rightarrow> unat old | None \<Rightarrow> 0) + 1"
    and "TIPPERS st' = fold (\<lambda>(k, v). sm_save k v h) ws (TIPPERS st)"
    and "only_adds (SubKey s) (TIPPERS st) (TIPPERS st')"
proof -
  from assms obtain n n' c where n: "TIP_COUNT st = Some n" and n': "checked_add n 1 = Some n'"
    and c: "checked_add (case sm_load (TIPPER_COUNT st) s of Some n \<Rightarrow> n | None \<Rightarrow> 0) 1 = Some c"
    and run: "try_fold (add_tipped s h) (st\<lparr>TIP_COUNT := Some n', TIPPER_COUNT := sm_save s c h (TIPPER_COUNT st)\<rparr>) assets = Ok st'"
    by (auto simp: update_tipper_history_def Let_def result_simps)
  from try_fold_invariant [OF run, of "tipped_from s h (st\<lparr>TIP_COUNT := Some n', TIPPER_COUNT := sm_save s c h (TIPPER_COUNT st)\<rparr>)"]
  have "tipped_from s h (st\<lparr>TIP_COUNT := Some n', TIPPER_COUNT := sm_save s c h (TIPPER_COUNT st)\<rparr>) st'"
    by (blast intro: tipped_from_refl add_tipped_from)
  moreover have "unat n' = unat n + 1" using checked_add_Some [OF n'] by simp
  moreover have "unat c = (case sm_load (TIPPER_COUNT st) s of Some old \<Rightarrow> unat old | None \<Rightarrow> 0) + 1"
    using checked_add_Some [OF c] by (simp split: option.splits)
  ultimately show thesis using n by (auto simp: tipped_from_def intro: that)
qed

lemma tip_Ok:
  assumes "tip pl ch ev info st receipt = Ok (st', out)"
  obtains assets where "update_tipper_history st (info_sender info) assets (height (env_block ev)) = Ok st'"
  using assms unfolding tip_def Let_def and_then_Ok
  by (auto simp: Let_def result_simps intro: that split: option.splits)

lemma payment_execute_cases:
  assumes "payment_custom_execute pl ch ev info st msg = Ok (st', out)"
  obtains (tip) s assets where "update_tipper_history st s assets (height (env_block ev)) = Ok st'"
    | (config) c where "st' = st\<lparr>pay_config := c\<rparr>"
proof (cases msg)
  case (PayModule m)
  show thesis
  proof (cases m)
    case Tip
    with PayModule assms have "tip pl ch ev info st None = Ok (st', out)" by simp
    then show thesis by (rule tip_Ok) (rule tip)
  next
    case (PayUpdateConfig a d e)
    with PayModule assms have "update_payment_config pl ch ev info st a d e = Ok (st', out)" by simp
    then show thesis unfolding update_payment_config_def and_then_Ok Let_def by (auto intro: config)
  qed
next
  case (PayReceive m)
  with assms obtain s r where "tip pl ch ev (info\<lparr>info_sender := s\<rparr>) st (Some r) = Ok (st', out)"
    by (auto simp: payment_receive_def Let_def result_simps)
  then show thesis by (rule tip_Ok) (rule tip)
qed

section \<open>Runs\<close>

text \<open>A state with the height of the last block; heights never go down.\<close>

inductive pay_start :: "'s pay_lib \<Rightarrow> u64 \<times> payment_state \<Rightarrow> bool" for pl where
  "TIPPERS st0 = sm_empty \<Longrightarrow> TIPPER_COUNT st0 = sm_empty \<Longrightarrow> payment_instantiate pl ch st0 msg = Ok (st, ms)
   \<Longrightarrow> pay_start pl (h, st)"

inductive pay_step :: "'s pay_lib \<Rightarrow> u64 \<times> payment_state \<Rightarrow> u64 \<times> payment_state \<Rightarrow> bool" for pl where
  "payment_custom_execute pl ch ev info st msg = Ok (st', out) \<Longrightarrow> h \<le> height (env_block ev)
   \<Longrightarrow> pay_step pl (h, st) (height (env_block ev), st')"

inductive_cases pay_startE: "pay_start pl s"
inductive_cases pay_stepE: "pay_step pl s s'"

definition counted_tips :: "payment_state \<Rightarrow> nat" where
  "counted_tips st = (\<Sum>(a, c)\<leftarrow>sm_primary (TIPPER_COUNT st). unat c)"

definition pay_inv :: "u64 \<times> payment_state \<Rightarrow> bool" where
  "pay_inv = (\<lambda>(h, st). sm_wf h (TIPPERS st) \<and> sm_wf h (TIPPER_COUNT st) \<and> ordered (sm_primary (TIPPER_COUNT st))
     \<and> (\<exists>n. TIP_COUNT st = Some n \<and> unat n = counted_tips st))"

lemma counted_tips_save:
  assumes "ordered (sm_primary (TIPPER_COUNT st))" and "TIPPER_COUNT st' = sm_save s c h (TIPPER_COUNT st)"
    and "unat c = (case sm_load (TIPPER_COUNT st) s of Some old \<Rightarrow> unat old | None \<Rightarrow> 0) + 1"
  shows "counted_tips st' = counted_tips st + 1"
  using sum_save [OF assms(1), where k = s and v = c and f = unat] assms(2,3)
  by (simp add: counted_tips_def sm_save_def sm_load_def split: option.splits)

lemma tip_keeps_inv:
  assumes "update_tipper_history st s assets h = Ok st'" and "pay_inv (h0, st)" and "h0 \<le> h"
  shows "pay_inv (h, st')"
proof -
  from assms(1) obtain n n' c ws where counts: "TIP_COUNT st = Some n" "TIP_COUNT st' = Some n'" "unat n' = unat n + 1"
    and c: "TIPPER_COUNT st' = sm_save s c h (TIPPER_COUNT st)"
      "unat c = (case sm_load (TIPPER_COUNT st) s of Some old \<Rightarrow> unat old | None \<Rightarrow> 0) + 1"
    and ws: "TIPPERS st' = fold (\<lambda>(k, v). sm_save k v h) ws (TIPPERS st)" by (rule update_tipper_history_Ok)
  from assms(2) have ord: "ordered (sm_primary (TIPPER_COUNT st))" and n: "unat n = counted_tips st"
    and wf: "sm_wf h0 (TIPPERS st)" "sm_wf h0 (TIPPER_COUNT st)"
    using counts(1) by (auto simp: pay_inv_def)
  note wf = wf [THEN snapshot.wf_later, OF assms(3)]
  from wf(1) have "sm_wf h (TIPPERS st')" unfolding ws by (rule snapshot.wf_puts)
  moreover from wf(2) have "sm_wf h (TIPPER_COUNT st')" unfolding c(1) by (rule snapshot.wf_put)
  moreover have "ordered (sm_primary (TIPPER_COUNT st'))" using ord by (simp add: c(1) sm_save_def ordered_save)
  ultimately show ?thesis using counts n counted_tips_save [OF ord c] by (simp add: pay_inv_def)
qed

interpretation pay: invariant "pay_start pl" "pay_step pl" pay_inv for pl :: "'s pay_lib"
proof
  fix s assume "pay_start pl s"
  then show "pay_inv s"
    by (auto simp: payment_instantiate_def result_simps pay_inv_def counted_tips_def sm_empty_def sm_wf_def elim!: pay_startE)
next
  fix s s' assume inv: "pay_inv s" and "pay_step pl s s'"
  then obtain ch ev info st msg st' out h where s: "s = (h, st)" "s' = (height (env_block ev), st')"
    and run: "payment_custom_execute pl ch ev info st msg = Ok (st', out)" and h: "h \<le> height (env_block ev)"
    by (elim pay_stepE) auto
  from run show "pay_inv s'"
  proof (cases rule: payment_execute_cases)
    case tip
    then show ?thesis using inv h unfolding s by (rule tip_keeps_inv)
  next
    case config
    with inv h show ?thesis unfolding s pay_inv_def by (auto simp: counted_tips_def intro: snapshot.wf_later)
  qed
qed

text \<open>
  in every state of the payment app the number of tips is the sum of the numbers of tips of all tippers.
\<close>

theorem tip_counts_agree:
  assumes "reachable (pay_start pl) (pay_step pl) (h, st)"
  shows "TIP_COUNT st = Some (query_tip_count st)
    \<and> unat (query_tip_count st) = (\<Sum>(a, c)\<leftarrow>sm_primary (TIPPER_COUNT st). unat c)"
  using pay.holds [OF assms] by (auto simp: pay_inv_def counted_tips_def query_tip_count_def)

text \<open>
  a message to the app never lowers what is recorded of a tipper and leaves the records of all addresses but
  one as they are.
\<close>

theorem tips_only_add:
  assumes "payment_custom_execute pl ch ev info st msg = Ok (st', out)"
  shows "\<exists>s. \<forall>k. (fst k \<noteq> SubKey s \<longrightarrow> sm_load (TIPPERS st') k = sm_load (TIPPERS st) k)
    \<and> (\<forall>old. sm_load (TIPPERS st) k = Some old \<longrightarrow> (\<exists>new. sm_load (TIPPERS st') k = Some new \<and> old \<le> new))"
  using assms
proof (cases rule: payment_execute_cases)
  case (tip s assets)
  then have "only_adds (SubKey s) (TIPPERS st) (TIPPERS st')" by (rule update_tipper_history_Ok)
  then show ?thesis by (auto simp: only_adds_def)
next
  case config
  then show ?thesis by simp
qed

section \<open>History\<close>

text \<open>Steps in blocks from height \<open>h\<close> on.\<close>

definition pay_step_from :: "'s pay_lib \<Rightarrow> u64 \<Rightarrow> u64 \<times> payment_state \<Rightarrow> u64 \<times> payment_state \<Rightarrow> bool" where
  "pay_step_from pl h s s' \<longleftrightarrow> pay_step pl s s' \<and> h \<le> fst s'"

lemma step_keeps_past:
  assumes "pay_step_from pl h s s'" and "pay_inv s"
  shows "sm_load_at (TIPPERS (snd s')) k h = sm_load_at (TIPPERS (snd s)) k h"
    and "sm_load_at (TIPPER_COUNT (snd s')) a h = sm_load_at (TIPPER_COUNT (snd s)) a h"
proof -
  from assms(1) obtain ch ev info st msg st' out h0 where s: "s = (h0, st)" "s' = (height (env_block ev), st')"
    and run: "payment_custom_execute pl ch ev info st msg = Ok (st', out)" and h0: "h0 \<le> height (env_block ev)"
    and h: "h \<le> height (env_block ev)"
    by (auto simp: pay_step_from_def elim!: pay_stepE)
  from assms(2) have wf: "sm_wf (height (env_block ev)) (TIPPERS st)" "sm_wf (height (env_block ev)) (TIPPER_COUNT st)"
    using h0 by (auto simp: s pay_inv_def intro: snapshot.wf_later)
  have "sm_load_at (TIPPERS st') k h = sm_load_at (TIPPERS st) k h
      \<and> sm_load_at (TIPPER_COUNT st') a h = sm_load_at (TIPPER_COUNT st) a h"
    using run
  proof (cases rule: payment_execute_cases)
    case (tip x assets)
    then obtain c ws where "TIPPER_COUNT st' = sm_save x c (height (env_block ev)) (TIPPER_COUNT st)"
      "TIPPERS st' = fold (\<lambda>(k, v). sm_save k v (height (env_block ev))) ws (TIPPERS st)"
      by (elim update_tipper_history_Ok) blast
    then show ?thesis using wf h by (simp add: snapshot.at_past snapshot.past_of_puts)
  next
    case config
    then show ?thesis by simp
  qed
  then show "sm_load_at (TIPPERS (snd s')) k h = sm_load_at (TIPPERS (snd s)) k h"
    and "sm_load_at (TIPPER_COUNT (snd s')) a h = sm_load_at (TIPPER_COUNT (snd s)) a h" by (simp_all add: s)
qed

lemma run_keeps_past:
  assumes "(pay_step_from pl h)\<^sup>*\<^sup>* s s'" and "reachable (pay_start pl) (pay_step pl) s"
  shows "sm_load_at (TIPPERS (snd s')) k h = sm_load_at (TIPPERS (snd s)) k h
    \<and> sm_load_at (TIPPER_COUNT (snd s')) a h = sm_load_at (TIPPER_COUNT (snd s)) a h
    \<and> reachable (pay_start pl) (pay_step pl) s'"
  using assms(1)
proof (induction rule: rtranclp_induct)
  case (step y z)
  then have "pay_inv y" by (blast intro: pay.holds)
  with step step_keeps_past [OF step.hyps(2)] show ?case by (auto simp: pay_step_from_def intro: reach_step)
qed (simp add: assms(2))

text \<open>
  C37: the query for a tipper at a past height answers what the app had recorded when the block of that height began: take
  any state the app reached before height \<open>h\<close> and any run of the app from there in blocks of height \<open>h\<close> or later; the
  count and every amount that the query at \<open>h\<close> answers after the run are those of the state before it.
\<close>

theorem tipper_history_exact:
  assumes "reachable (pay_start pl) (pay_step pl) (h0, st)" and "h0 < h"
    and "(pay_step_from pl h)\<^sup>*\<^sup>* (h0, st) (h1, st')" and "q_addr_validate ch address = Ok a"
  shows "\<exists>r. query_tipper ch st' address start_after limit (Some h) = Ok r
    \<and> tr_tip_count r = (case sm_load (TIPPER_COUNT st) a of Some n \<Rightarrow> n | None \<Rightarrow> 0)
    \<and> (\<forall>x\<in>set (tr_total_amounts r).
         aa_amount x = (case sm_load (TIPPERS st) (SubKey a, aa_name x) of Some n \<Rightarrow> n | None \<Rightarrow> 0))"
proof -
  from pay.holds [OF assms(1)] have wf: "sm_wf h0 (TIPPERS st)" "sm_wf h0 (TIPPER_COUNT st)" by (auto simp: pay_inv_def)
  have past: "sm_load_at (TIPPERS st') k h = sm_load (TIPPERS st) k"
      "sm_load_at (TIPPER_COUNT st') x h = sm_load (TIPPER_COUNT st) x" for k x
    using run_keeps_past [OF assms(3,1), of k x] snapshot.at_end [OF wf(1) assms(2)] snapshot.at_end [OF wf(2) assms(2)]
    by simp_all
  have "fst k = SubKey a" if "(k, n) \<in> set (tipper_entries st' a start_after limit)" for k n
    using that by (auto simp: tipper_entries_def entries_where_def dest!: in_set_takeD)
  then show ?thesis using assms(4)
    by (fastforce simp: query_tipper_def tipper_at_height_def past)
qed

section \<open>Payments\<close>

text \<open>A message of the app that asks the exchange adapter of the account for a swap to the desired asset.\<close>

definition swap_request :: "'s pay_lib \<Rightarrow> addr \<Rightarrow> dex_name list \<Rightarrow> cosmos_msg \<Rightarrow> bool" where
  "swap_request pl account names msg \<longleftrightarrow> (\<exists>acc adapter b d p a i. pl_accounts pl account = Ok acc
     \<and> load (account_modules acc) DEX_ADAPTER_ID = Some adapter \<and> msg = WasmExecute adapter (Raw b) [] \<and> d \<in> set names
     \<and> dx_json_adapter (pl_dex pl) (AdapterModule (Some account)
         (DexActionMsg d (Swap p a i (Some (percent MAX_SPREAD_PERCENT)) None))) = Ok b)"

lemma ans_dex_swap_Ok:
  assumes "ans_dex_execute dl qa dps (Some account) host d (AnsSwap offer ask ms bp) = Ok msg"
  obtains acc adapter b p a i where "qa account = Ok acc" and "load (account_modules acc) DEX_ADAPTER_ID = Some adapter"
    and "msg = WasmExecute adapter (Raw b) []"
    and "dx_json_adapter dl (AdapterModule (Some account) (DexActionMsg d (Swap p a i ms bp))) = Ok b"
  using assms by (auto simp: ans_dex_execute_def Let_def result_simps intro: that)

lemma swap_on_requests:
  assumes "swap_on pl ch st desired acc a d = Ok acc'" and "ap_account st = Some account" and "d \<in> set names"
  obtains msg where "swap_request pl account names msg" and "ta_swap_msgs acc' = ta_swap_msgs acc @ [msg]"
proof -
  from assms(1,2) obtain msg sim where
    msg: "ans_dex_execute (pl_dex pl) (pl_accounts pl) [DEX_DEPENDENCY] (Some account) (app_ans_host ch st) d
      (AnsSwap a desired (Some (percent MAX_SPREAD_PERCENT)) None) = Ok msg"
    and acc': "add_desired (acc\<lparr>ta_swap_msgs := ta_swap_msgs acc @ [msg]\<rparr>) sim = Ok acc'"
    unfolding swap_on_def and_then_Ok map_err_Ok by auto
  from msg assms(3) have "swap_request pl account names msg"
    by (elim ans_dex_swap_Ok) (auto simp: swap_request_def)
  with acc' show thesis by (intro that) (auto simp: add_desired_def result_simps)
qed

lemma found_dex:
  "List.find (\<lambda>(pair, refs). refs \<noteq> [] \<and> dap_dex pair \<in> set names) resp = Some (pair, refs) \<Longrightarrow> dap_dex pair \<in> set names"
  by (auto simp: find_Some_iff)

lemma swap_tip_requests:
  assumes "swap_tip pl ch st ans desired names acc a = Ok acc'" and "ap_account st = Some account"
    and "\<forall>m\<in>set (ta_swap_msgs acc). swap_request pl account names m"
  shows "\<forall>m\<in>set (ta_swap_msgs acc'). swap_request pl account names m"
proof (cases "ta_swap_msgs acc' = ta_swap_msgs acc")
  case False
  with assms(1) obtain resp where "pool_list (pl_ans pl) ans (desired, aa_name a) = Ok resp"
    and step: "(case List.find (\<lambda>(pair, refs). refs \<noteq> [] \<and> dap_dex pair \<in> set names) resp of
      Some (pair, _) \<Rightarrow> swap_on pl ch st desired acc a (dap_dex pair)
    | None \<Rightarrow> Ok (acc\<lparr>ta_assets_to_add := ta_assets_to_add acc @ [a]\<rparr>)) = Ok acc'"
    by (auto simp: swap_tip_def add_desired_def unwrap_Ok and_then_Ok split: if_splits)
  with False obtain pair refs where "List.find (\<lambda>(pair, refs). refs \<noteq> [] \<and> dap_dex pair \<in> set names) resp = Some (pair, refs)"
    by (cases "List.find (\<lambda>(pair, refs). refs \<noteq> [] \<and> dap_dex pair \<in> set names) resp") auto
  with step found_dex have "dap_dex pair \<in> set names" "swap_on pl ch st desired acc a (dap_dex pair) = Ok acc'" by fastforce+
  then show ?thesis using assms(2,3) by (elim swap_on_requests [where names = names]) auto
qed (simp add: assms(3))

lemma forward_coins:
  assumes "bank_laws sl"
  shows "bank_deposit sl ans (Some account) (map TransferAsset (map (sl_asset_of_coin sl) cs)) = Ok (map (\<lambda>c. BankSend account [c]) cs)"
proof -
  have "try_map (transferable_asset sl ans) (map TransferAsset as) = Ok as" for as by (induction as) simp_all
  moreover have "try_map (\<lambda>a. sl_transfer_msg sl a account) (map (sl_asset_of_coin sl) cs) = Ok (map (\<lambda>c. BankSend account [c]) cs)"
    using assms by (induction cs) (simp_all add: bank_laws_def)
  ultimately show ?thesis by (simp add: bank_deposit_def transfer_msgs_def module_account_def del: map_map)
qed

text \<open>
  C36: an accepted tip sends every coin that came with it to the account of the app, and beside that only asks
  the exchange adapter that the account has installed for swaps on behalf of the account, without funds, on configured
  exchanges and with a spread of at most a fifth. The app keeps nothing.
\<close>

theorem tip_forwards_payment:
  assumes "bank_laws (pl_sdk pl)" and "pl_assets_of pl (info_funds info) = map (sl_asset_of_coin (pl_sdk pl)) (info_funds info)"
    and "payment_execute pl ch ev info st Tip = Ok (st', out)"
  shows "\<exists>account config swaps. ap_account st = Some account \<and> pay_config st = Some config
    \<and> out = map Direct (map (\<lambda>c. BankSend account [c]) (info_funds info) @ swaps)
    \<and> (\<forall>m\<in>set swaps. swap_request pl account (exchanges config) m) \<and> (desired_asset config = None \<longrightarrow> swaps = [])"
proof -
  let ?fs = "map (sl_asset_of_coin (pl_sdk pl)) (info_funds info)"
  from assms(2,3) obtain fwd config ans entries where
    dep: "bank_deposit (pl_sdk pl) (app_ans_host ch st) (ap_account st) (map TransferAsset ?fs) = Ok fwd"
    and config: "pay_config st = Some config"
    and rest: "(case desired_asset config of
         None \<Rightarrow> and_then (update_tipper_history st (info_sender info) entries (height (env_block ev))) (\<lambda>st. Ok (st, map Direct fwd))
       | Some desired \<Rightarrow>
           and_then (try_fold (swap_tip pl ch st ans desired (exchanges config))
             \<lparr>ta_swap_msgs = [], ta_desired_amount = 0, ta_assets_to_add = []\<rparr> entries) (\<lambda>acc.
           let assets_to_add = ta_assets_to_add acc
                 @ (if ta_desired_amount acc \<noteq> 0 then [\<lparr>aa_name = desired, aa_amount = ta_desired_amount acc\<rparr>] else [])
           in and_then (update_tipper_history st (info_sender info) assets_to_add (height (env_block ev))) (\<lambda>st.
              Ok (st, map Direct (fwd @ ta_swap_msgs acc))))) = Ok (st', out)"
    unfolding payment_execute.simps tip_def Let_def and_then_Ok by (auto simp: load_pay_config_def result_simps Let_def)
  from dep obtain account where account: "ap_account st = Some account"
    by (auto simp: bank_deposit_def module_account_def result_simps)
  from dep forward_coins [OF assms(1)] have fwd: "fwd = map (\<lambda>c. BankSend account [c]) (info_funds info)"
    by (simp add: account)
  show ?thesis
  proof (cases "desired_asset config")
    case None
    with rest have "out = map Direct (fwd @ [])" by (auto simp: result_simps)
    with account config fwd show ?thesis by (intro exI [of _ account] exI [of _ config] exI [of _ "[]"]) simp
  next
    case (Some desired)
    with rest obtain acc where run: "try_fold (swap_tip pl ch st ans desired (exchanges config))
        \<lparr>ta_swap_msgs = [], ta_desired_amount = 0, ta_assets_to_add = []\<rparr> entries = Ok acc"
      and out: "out = map Direct (fwd @ ta_swap_msgs acc)"
      by (auto simp: result_simps Let_def)
    from try_fold_invariant [OF run, of "\<lambda>acc. \<forall>m\<in>set (ta_swap_msgs acc). swap_request pl account (exchanges config) m"]
    have "\<forall>m\<in>set (ta_swap_msgs acc). swap_request pl account (exchanges config) m"
      using swap_tip_requests account by fastforce
    with account config fwd out Some show ?thesis
      by (intro exI [of _ account] exI [of _ config] exI [of _ "ta_swap_msgs acc"]) simp
  qed
qed

section \<open>Witnesses\<close>

text \<open>An app on the account \<open>acct\<close> that wants \<open>osmo\<close>; \<open>bob\<close> tips \<open>atom\<close>.\<close>

definition pay_ans :: ans_state where
  "pay_ans = empty_ans\<lparr>asset_addresses := [(''atom'', ''nuatom''), (''osmo'', ''nuosmo'')],
     rev_asset_addresses := [(''nuatom'', ''atom''), (''nuosmo'', ''osmo'')], registered_dexes := Some [''osmosis''],
     asset_pairings := [((SubKey ''atom'', SubKey ''osmo'', ''osmosis''), [\<lparr>unique_id = 1, pool_address = PoolId 1\<rparr>]),
       ((SubKey ''osmo'', SubKey ''atom'', ''osmosis''), [\<lparr>unique_id = 1, pool_address = PoolId 1\<rparr>])]\<rparr>"

definition tip_lib :: "unit pay_lib" where
  "tip_lib = \<lparr>pl_dex = osmo_lib\<lparr>dx_sdk := bank_lib pay_ans\<rparr>,
     pl_accounts = (\<lambda>a. Ok (empty_account\<lparr>account_modules := [(DEX_ADAPTER_ID, ''dex'')]\<rparr>)),
     pl_assets_of = map (sl_asset_of_coin (bank_lib pay_ans)), pl_add_asset = (\<lambda>as a. Ok (as @ [a])),
     pl_cw20 = (\<lambda>a. ''c'' @ a),
     pl_simulate = (\<lambda>a (offer, ask, d). Ok \<lparr>ssr_pool = (aa_name offer, ask, d), ssr_return_amount = 2 * aa_amount offer,
       ssr_spread_amount = 0, ssr_commission = (ask, 0), ssr_usage_fee = 0\<rparr>)\<rparr>"

definition jar :: "(tipper_key, u256) snapshot_map \<Rightarrow> u32 \<Rightarrow> (addr, u32) snapshot_map \<Rightarrow> payment_state" where
  "jar m n c = \<lparr>ap_cw2 = None, ap_module_data = None, ap_account = Some ''acct'', ap_admin = Some (Some ''acct''),
     pay_config = Some \<lparr>desired_asset = Some ''osmo'', denom_asset = ''usd'', exchanges = [''osmosis'']\<rparr>,
     TIPPERS = m, TIP_COUNT = Some n, TIPPER_COUNT = c\<rparr>"

definition bob_tips :: "coin list \<Rightarrow> message_info" where
  "bob_tips cs = \<lparr>info_sender = ''bob'', info_funds = cs\<rparr>"

definition pay_at :: "u64 \<Rightarrow> env" where
  "pay_at h = \<lparr>env_contract = ''jar'', env_block = \<lparr>height = h, time = h, chain_id = ''osmosis-1''\<rparr>\<rparr>"

definition atoms :: "coin list" where
  "atoms = [\<lparr>denom = ''uatom'', amount = 5\<rparr>]"

lemma jar_ans: "app_ans_host hosted_chain (jar m n c) = Ok ''ans''"
  by (simp add: app_ans_host_def app_code_def jar_def hosted_chain_def abstract_code_id_def paid_chain_def
      ans_host_new_def code_defs sample_chain_def)

lemma osmo_lower: "asset_entry_format ''atom'' = ''atom''" "asset_entry_format ''osmo'' = ''osmo''" "to_lowercase ''osmosis'' = ''osmosis''"
  by (simp_all add: asset_entry_format_def)

lemma jar_start: "pay_start tip_lib (0, jar sm_empty 0 sm_empty)"
proof (rule pay_start.intros)
  show "payment_instantiate tip_lib hosted_chain (jar sm_empty 9 sm_empty)
      \<lparr>desired_asset = Some ''osmo'', denom_asset = ''usd'', exchanges = [''osmosis'']\<rparr> = Ok (jar sm_empty 0 sm_empty, [])"
    by (simp add: payment_instantiate_def jar_ans check_desired_asset_def check_exchanges_def query_asset_def ans_raw_def
        ans_query_registered_dexes_def query_registered_dexes_def pl_ans_def pl_sdk_def tip_lib_def osmo_lib_def bank_lib_def
        pay_ans_def load_def) (simp add: jar_def)
qed (simp_all add: jar_def)

lemma bob_swap:
  "swap_tip tip_lib hosted_chain (jar m n c) ''ans'' ''osmo'' [''osmosis'']
     \<lparr>ta_swap_msgs = [], ta_desired_amount = 0, ta_assets_to_add = []\<rparr> \<lparr>aa_name = ''atom'', aa_amount = 5\<rparr>
   = Ok \<lparr>ta_swap_msgs = [WasmExecute ''dex'' (Raw ''{}'') []], ta_desired_amount = 10, ta_assets_to_add = []\<rparr>"
proof -
  have host: "app_ans_host hosted_chain (jar m n c) = Ok ''ans''" by (rule jar_ans)
  have pools: "pool_list (pl_ans tip_lib) ''ans'' (''osmo'', ''atom'')
      = Ok [(dex_asset_pairing_new ''osmo'' ''atom'' ''osmosis'', [\<lparr>unique_id = 1, pool_address = PoolId 1\<rparr>])]"
    by (simp add: pool_list_def pl_ans_def pl_sdk_def tip_lib_def bank_lib_def pay_ans_def list_pool_entries_def
        entries_where_def ans_limit_def ANS_DEFAULT_LIMIT_def ANS_MAX_LIMIT_def)
  have msg: "ans_dex_execute (pl_dex tip_lib) (pl_accounts tip_lib) [DEX_DEPENDENCY] (Some ''acct'') (Ok ''ans'') ''osmosis''
      (AnsSwap \<lparr>aa_name = ''atom'', aa_amount = 5\<rparr> ''osmo'' (Some (percent MAX_SPREAD_PERCENT)) None)
    = Ok (WasmExecute ''dex'' (Raw ''{}'') [])"
    by (simp add: ans_dex_execute_def osmo_lower query_asset_def ans_raw_def dex_pool_address_def query_asset_pairing_def
        pairing_key_def dex_asset_pairing_new_def adapters_execute_Ok tip_lib_def osmo_lib_def bank_lib_def pay_ans_def
        DEX_DEPENDENCY_def load_def Let_def)
  show ?thesis
    by (simp add: swap_tip_def pools swap_on_def host dex_asset_pairing_new_def osmo_lower jar_def [THEN arg_cong, of ap_account] msg)
      (simp add: adapters_query_def module_address_def module_account_def tip_lib_def load_def add_desired_def checked_add_def)
qed

lemma bob_pays:
  assumes "checked_add (case sm_load m (SubKey ''bob'', ''osmo'') of Some x \<Rightarrow> x | None \<Rightarrow> 0) 10 = Some t"
    and "checked_add n 1 = Some n'" and "checked_add (case sm_load c ''bob'' of Some x \<Rightarrow> x | None \<Rightarrow> 0) 1 = Some x"
  shows "payment_execute tip_lib hosted_chain (pay_at h) (bob_tips atoms) (jar m n c) Tip
    = Ok (jar (sm_save (SubKey ''bob'', ''osmo'') t h m) n' (sm_save ''bob'' x h c),
        map Direct [BankSend ''acct'' atoms, WasmExecute ''dex'' (Raw ''{}'') []])"
proof -
  let ?a = "\<lparr>aa_name = ''atom'', aa_amount = 5\<rparr>" and ?i = "\<lparr>as_info = ''nuatom'', as_amount = 5\<rparr> :: u256 asset"
  have assets: "pl_assets_of tip_lib atoms = [?i]" by (simp add: tip_lib_def bank_lib_def atoms_def)
  have dep: "bank_deposit (pl_sdk tip_lib) (Ok ''ans'') (Some ''acct'') [TransferAsset ?i] = Ok [BankSend ''acct'' atoms]"
    by (simp add: bank_deposit_def transfer_msgs_def module_account_def pl_sdk_def tip_lib_def bank_lib_def atoms_def)
  have names: "resolve_assets (pl_sdk tip_lib) ''ans'' [?i] = Ok [?a]"
    by (simp add: resolve_assets_def resolve_asset_def query_asset_reverse_def ans_raw_def pl_sdk_def tip_lib_def bank_lib_def
        pay_ans_def load_def)
  have history: "update_tipper_history (jar m n c) ''bob'' [\<lparr>aa_name = ''osmo'', aa_amount = 10\<rparr>] h
      = Ok (jar (sm_save (SubKey ''bob'', ''osmo'') t h m) n' (sm_save ''bob'' x h c))"
    using assms by (simp add: update_tipper_history_def add_tipped_def jar_def Let_def)
  have jar: "ap_account (jar m n c) = Some ''acct''" "load_pay_config (jar m n c)
      = Ok \<lparr>desired_asset = Some ''osmo'', denom_asset = ''usd'', exchanges = [''osmosis'']\<rparr>"
    by (simp_all add: jar_def load_pay_config_def)
  show ?thesis
    by (simp add: tip_def bob_tips_def assets jar dep jar_ans names bob_swap history pay_at_def)
qed

definition jar7 :: payment_state where
  "jar7 = jar (sm_save (SubKey ''bob'', ''osmo'') 10 7 sm_empty) 1 (sm_save ''bob'' 1 7 sm_empty)"

definition jar9 :: payment_state where
  "jar9 = jar (sm_save (SubKey ''bob'', ''osmo'') 20 9 (sm_save (SubKey ''bob'', ''osmo'') 10 7 sm_empty)) 2
     (sm_save ''bob'' 2 9 (sm_save ''bob'' 1 7 sm_empty))"

lemma bob_pays_at_7: "payment_execute tip_lib hosted_chain (pay_at 7) (bob_tips atoms) (jar sm_empty 0 sm_empty) Tip
  = Ok (jar7, map Direct [BankSend ''acct'' atoms, WasmExecute ''dex'' (Raw ''{}'') []])"
  unfolding jar7_def by (rule bob_pays) (simp_all add: sm_load_def sm_empty_def checked_add_def)

lemma bob_pays_at_9: "payment_execute tip_lib hosted_chain (pay_at 9) (bob_tips atoms) jar7 Tip
  = Ok (jar9, map Direct [BankSend ''acct'' atoms, WasmExecute ''dex'' (Raw ''{}'') []])"
  unfolding jar7_def jar9_def by (rule bob_pays) (simp_all add: snapshot.look_put checked_add_def)

lemma jar7_reachable: "reachable (pay_start tip_lib) (pay_step tip_lib) (7, jar7)"
proof (rule reach_step)
  show "reachable (pay_start tip_lib) (pay_step tip_lib) (0, jar sm_empty 0 sm_empty)" by (rule reach_start) (rule jar_start)
  show "pay_step tip_lib (0, jar sm_empty 0 sm_empty) (7, jar7)"
    using pay_step.intros [of tip_lib hosted_chain "pay_at 7" "bob_tips atoms" _ "PayModule Tip" _ _ 0] bob_pays_at_7
    by (simp add: pay_at_def)
qed

theorem tip_counts_agree_witness:
  "TIP_COUNT jar7 = Some (query_tip_count jar7) \<and> unat (query_tip_count jar7) = 1"
  using tip_counts_agree [OF jar7_reachable] by (simp add: query_tip_count_def jar7_def jar_def)

theorem tips_only_add_witness:
  "sm_load (TIPPERS jar7) (SubKey ''bob'', ''osmo'') = Some 10 \<and> (\<exists>new. sm_load (TIPPERS jar9) (SubKey ''bob'', ''osmo'') = Some new \<and> 10 \<le> new)"
proof -
  have "payment_custom_execute tip_lib hosted_chain (pay_at 9) (bob_tips atoms) jar7 (PayModule Tip)
      = Ok (jar9, map Direct [BankSend ''acct'' atoms, WasmExecute ''dex'' (Raw ''{}'') []])"
    unfolding payment_custom_execute.simps by (rule bob_pays_at_9)
  from tips_only_add [OF this] have "sm_load (TIPPERS jar7) (SubKey ''bob'', ''osmo'') = Some 10
      \<longrightarrow> (\<exists>new. sm_load (TIPPERS jar9) (SubKey ''bob'', ''osmo'') = Some new \<and> 10 \<le> new)" by blast
  then show ?thesis by (simp add: jar7_def jar_def snapshot.look_put)
qed

theorem tipper_history_exact_witness:
  "\<exists>r. query_tipper sample_chain jar9 ''bob'' None None (Some 8) = Ok r \<and> tr_tip_count r = 1
     \<and> (\<forall>x\<in>set (tr_total_amounts r). aa_name x = ''osmo'' \<longrightarrow> aa_amount x = 10)
     \<and> sm_load (TIPPERS jar9) (SubKey ''bob'', ''osmo'') = Some 20"
proof -
  have "pay_step tip_lib (7, jar7) (9, jar9)"
    using pay_step.intros [of tip_lib hosted_chain "pay_at 9" "bob_tips atoms" _ "PayModule Tip" _ _ 7] bob_pays_at_9
    by (simp add: pay_at_def)
  then have "(pay_step_from tip_lib 8)\<^sup>*\<^sup>* (7, jar7) (9, jar9)" by (auto simp: pay_step_from_def)
  from tipper_history_exact [OF jar7_reachable _ this, of sample_chain "''bob''" "''bob''" None None]
  show ?thesis by (auto simp: sample_chain_def jar7_def jar9_def jar_def snapshot.look_put)
qed

theorem tip_forwards_payment_witness:
  "\<exists>swaps. map Direct [BankSend ''acct'' atoms, WasmExecute ''dex'' (Raw ''{}'') []]
       = map Direct (map (\<lambda>c. BankSend ''acct'' [c]) atoms @ swaps)
     \<and> (\<forall>m\<in>set swaps. swap_request tip_lib ''acct'' [''osmosis''] m)"
proof -
  have laws: "bank_laws (pl_sdk tip_lib)" by (simp add: pl_sdk_def tip_lib_def bank_lib_laws(1))
  have assets: "pl_assets_of tip_lib (info_funds (bob_tips atoms)) = map (sl_asset_of_coin (pl_sdk tip_lib)) (info_funds (bob_tips atoms))"
    by (simp add: pl_sdk_def tip_lib_def)
  from tip_forwards_payment [OF laws assets bob_pays_at_9] show ?thesis
    by (auto simp: jar7_def jar_def bob_tips_def)
qed

end
