(* ===== verification/Ibc_Host_Safety.thy ===== *)
theory Ibc_Host_Safety
  imports Ibc_Host
begin

text \<open>
  What the IBC host guarantees: the two maps of chain proxies are inverse in every reachable state, a
  message that comes through the proxy of a chain reaches only accounts whose trace ends with that
  chain, an action for an account that does not exist is carried out once the account is created, and
  the account of a calling module is translated the way the client translates it.
\<close>

section \<open>The machine\<close>

definition host_start :: "host_state \<Rightarrow> bool" where
  "host_start st \<longleftrightarrow> (\<exists>ch info out. host_instantiate ch empty_host info = Ok (st, out))"

inductive host_step :: "'c platform \<Rightarrow> host_state \<Rightarrow> host_state \<Rightarrow> bool" for pf where
  exec: "host_execute pf il ch ev st info msg = Ok (st', out) \<Longrightarrow> host_step pf st st'"
| reply: "host_reply pf il ch ev st rp = Ok ((st', out), d) \<Longrightarrow> host_step pf st st'"
| migrate: "host_migrate ch st = Ok (st', out) \<Longrightarrow> host_step pf st st'"

definition same_proxies :: "host_state \<Rightarrow> host_state \<Rightarrow> bool" where
  "same_proxies st st' \<longleftrightarrow> chain_proxies st' = chain_proxies st
     \<and> reverse_chain_proxies st' = reverse_chain_proxies st"

definition proxies_inverse :: "host_state \<Rightarrow> bool" where
  "proxies_inverse st \<longleftrightarrow> inverse_maps (\<lambda>p. p) (load (chain_proxies st)) (load (reverse_chain_proxies st))"

lemma same_proxies_inverse: "same_proxies st st' \<Longrightarrow> proxies_inverse st \<Longrightarrow> proxies_inverse st'"
  by (simp add: same_proxies_def proxies_inverse_def)

lemma handle_host_action_proxies:
  "handle_host_action pf il ch ev st src ad i action = Ok (st', out) \<Longrightarrow> same_proxies st st'"
  by (auto simp: handle_host_action_def same_proxies_def result_simps Let_def
      split: host_action.splits result.splits)

lemma case_account_Ok [result_simps]:
  "(case r of Account c \<Rightarrow> f c | _ \<Rightarrow> Err e) = Ok x \<longleftrightarrow> (\<exists>c. r = Account c \<and> f c = Ok x)"
  by (cases r) simp_all

lemma case_module_Ok [result_simps]:
  "(case r of Account _ \<Rightarrow> Err e | Native _ \<Rightarrow> Err e | Service _ \<Rightarrow> Err e | _ \<Rightarrow> Ok y) = Ok x
   \<longleftrightarrow> ((\<exists>a. r = Adapter a) \<or> (\<exists>c. r = App c) \<or> (\<exists>c. r = Standalone c)) \<and> x = y"
  by (cases r) auto

lemma handle_module_execute_state:
  "handle_module_execute il ch ev st src s t m = Ok (st', out) \<Longrightarrow> st' = st"
  by (auto simp: handle_module_execute_def result_simps)

lemma handle_fund_state: "handle_fund pf il ch ev st info i c = Ok (st', out) \<Longrightarrow> st' = st"
  by (auto simp: handle_fund_def result_simps Let_def split: result.splits)

lemma register_chain_proxy_inverse:
  assumes "register_chain_proxy ch st info chain proxy = Ok (st', out)" and "proxies_inverse st"
  shows "proxies_inverse st'"
  using assms inverse_maps_insert [of "\<lambda>p. p" "load (chain_proxies st)" "load (reverse_chain_proxies st)" chain]
  by (auto simp: register_chain_proxy_def proxies_inverse_def has_def result_simps split: if_splits)

lemma remove_chain_proxy_inverse:
  assumes "remove_chain_proxy ch st info chain = Ok (st', out)" and "proxies_inverse st"
  shows "proxies_inverse st'"
proof (cases "load (chain_proxies st) chain")
  case None
  then have "(load (chain_proxies st))(chain := None) = load (chain_proxies st)" by auto
  with None assms show ?thesis
    by (auto simp: remove_chain_proxy_def proxies_inverse_def result_simps)
next
  case (Some p)
  with assms inverse_maps_delete [of "\<lambda>p. p" "load (chain_proxies st)" "load (reverse_chain_proxies st)" chain p]
  show ?thesis by (auto simp: remove_chain_proxy_def proxies_inverse_def result_simps)
qed

lemma host_execute_inverse:
  assumes "proxies_inverse st" and "host_execute pf il ch ev st info msg = Ok (st', out)"
  shows "proxies_inverse st'"
proof (cases msg)
  case (HostUpdateOwnership a)
  with assms show ?thesis by (auto simp: result_simps proxies_inverse_def)
next
  case (RegisterChainProxy c p)
  with assms show ?thesis by (auto intro: register_chain_proxy_inverse)
next
  case (RemoveChainProxy c)
  with assms show ?thesis by (auto intro: remove_chain_proxy_inverse)
next
  case (HostExecute i ad a)
  with assms show ?thesis
    by (auto simp: result_simps dest: handle_host_action_proxies intro: same_proxies_inverse)
next
  case (ModuleExecute s t m)
  with assms show ?thesis by (auto simp: result_simps dest: handle_module_execute_state)
next
  case (Fund i c)
  with assms show ?thesis by (auto dest: handle_fund_state)
qed

lemma host_reply_proxies:
  assumes "host_reply pf il ch ev st rp = Ok ((st', out), d)"
  shows "same_proxies st st'"
proof (cases "rp_id rp = INIT_BEFORE_ACTION_REPLY_ID")
  case True
  with assms obtain src ad i action where
    "handle_host_action pf il ch ev (st\<lparr>temp_action_after_creation := None\<rparr>) src ad i action = Ok (st', out)"
    by (auto simp: host_reply_def reply_execute_action_def result_simps)
  from handle_host_action_proxies [OF this] show ?thesis by (simp add: same_proxies_def)
next
  case False
  with assms show ?thesis by (auto simp: host_reply_def same_proxies_def split: if_splits)
qed

interpretation host: invariant host_start "host_step pf" proxies_inverse for pf :: "'c platform"
proof
  show "proxies_inverse s" if "host_start s" for s
    using that by (auto simp: host_start_def host_instantiate_def empty_host_def proxies_inverse_def
        inverse_maps_def result_simps)
next
  fix s s' assume inv: "proxies_inverse s" and "host_step pf s s'"
  from this(2) show "proxies_inverse s'"
  proof (cases rule: host_step.cases)
    case exec
    with inv show ?thesis by (auto intro: host_execute_inverse)
  next
    case reply
    then have "same_proxies s s'" by (rule host_reply_proxies)
    then show ?thesis using inv by (rule same_proxies_inverse)
  next
    case migrate
    then have "same_proxies s s'" by (auto simp: host_migrate_def same_proxies_def result_simps)
    then show ?thesis using inv by (rule same_proxies_inverse)
  qed
qed

text \<open>In every state the host can get into, a proxy is stored for a chain exactly if the chain is
  stored for the proxy: one proxy per chain and one chain per proxy, whatever is registered, removed
  and replied to.\<close>

theorem host_proxies_inverse:
  assumes "reachable host_start (host_step pf) st"
  shows "load (chain_proxies st) c = Some p \<longleftrightarrow> load (reverse_chain_proxies st) p = Some c"
  using inverse_mapsD [of "\<lambda>p. p" "load (chain_proxies st)" "load (reverse_chain_proxies st)"]
    host.holds [OF assms] unfolding proxies_inverse_def by blast

section \<open>Where messages of a chain go\<close>

text \<open>A message for an account: sent to the address the registry holds for it, or its creation as an
  account that the host owns.\<close>

fun for_account :: "chain \<Rightarrow> env \<Rightarrow> account_id \<Rightarrow> ibc_msg \<Rightarrow> bool" where
  "for_account ch ev i (ToAccount a m) \<longleftrightarrow> get_account ch ev i = Ok a"
| "for_account ch ev i (Plain (WasmInstantiate2 code fnds adm lbl (AccountInit im) salt)) \<longleftrightarrow>
     aim_account_id im = Some i \<and> aim_owner im = Some (External (env_contract ev) ''abstract-ibc'')"
| "for_account ch ev i _ \<longleftrightarrow> False"

lemma receive_register_out:
  assumes "receive_register pf il ch ev i r w fnds = Ok out"
  obtains code ad lbl im salt where
    "out = [(Plain (WasmInstantiate2 code fnds ad lbl (AccountInit im) salt),
       if w then Some INIT_BEFORE_ACTION_REPLY_ID else None)]"
    and "aim_account_id im = Some i" and "aim_owner im = Some (External (env_contract ev) ''abstract-ibc'')"
  using assms by (auto simp: receive_register_def result_simps Let_def intro!: that)

lemma receive_register_for:
  "receive_register pf il ch ev i r w fnds = Ok out \<Longrightarrow> m \<in> set out \<Longrightarrow> for_account ch ev i (fst m)"
  by (erule receive_register_out) auto

lemma run_on_account_for:
  "get_account ch ev i = Ok a \<Longrightarrow> run_on_account il ch ev a ad src action = Ok out \<Longrightarrow> m \<in> set out
   \<Longrightarrow> for_account ch ev i (fst m)"
  by (cases "(il, ch, ev, a, ad, src, action)" rule: run_on_account.cases)
    (auto simp: receive_dispatch_def receive_send_all_back_def send_all_back_def result_simps)

lemma handle_host_action_for:
  assumes "handle_host_action pf il ch ev st src ad i action = Ok (st', out)" and "m \<in> set out"
  shows "for_account ch ev (account_id_push_chain i src) (fst m)"
  using assms
  by (auto simp: handle_host_action_def result_simps Let_def simp del: run_on_account.simps
      intro: receive_register_for run_on_account_for split: host_action.splits result.splits)

lemma push_chain_last: "\<exists>cs. acc_trace (account_id_push_chain i c) = Remote (cs @ [c])"
  by (cases "acc_trace i") (auto simp: account_id_push_chain_def)


section \<open>Accounts created on demand\<close>

text \<open>A dispatch to an account that does not exist is not lost: the host stores it and creates the
  account with a reply, and if the reply finds the account in the registry, exactly the dispatched
  messages go to it, in order, and the stored action is cleared.\<close>

theorem dispatch_after_creation:
  assumes "load_src_chain st (info_sender info) = Ok c"
    and "get_account ch ev (account_id_push_chain i c) = Err e"
    and "host_execute pf il ch ev st info (HostExecute i ad (Dispatch msgs)) = Ok (st1, out)"
    and "get_account ch' ev' (account_id_push_chain i c) = Ok acc"
    and "rp_id rp = INIT_BEFORE_ACTION_REPLY_ID"
  shows "map snd out = [Some INIT_BEFORE_ACTION_REPLY_ID]
    \<and> host_reply pf il ch' ev' st1 rp = Ok ((st\<lparr>temp_action_after_creation := None\<rparr>,
        map (\<lambda>m. (ToAccount acc m, Some RESPONSE_REPLY_ID)) msgs), None)"
proof -
  from assms(1,2,3) obtain r where
    reg: "receive_register pf il ch ev (account_id_push_chain i c) r True [] = Ok out"
    and st1: "st1 = st\<lparr>temp_action_after_creation := Some \<lparr>ac_client_account_address = ad,
        ac_account_id = i, ac_action = Dispatch msgs, ac_chain_name = c\<rparr>\<rparr>"
    by (auto simp: handle_host_action_def result_simps Let_def)
  have "map snd out = [Some INIT_BEFORE_ACTION_REPLY_ID]"
    using reg by (rule receive_register_out) simp
  moreover have "host_reply pf il ch' ev' st1 rp = Ok ((st\<lparr>temp_action_after_creation := None\<rparr>,
        map (\<lambda>m. (ToAccount acc m, Some RESPONSE_REPLY_ID)) msgs), None)"
    using assms(4,5) by (simp add: host_reply_def reply_execute_action_def st1 handle_host_action_def
        receive_dispatch_def)
  ultimately show ?thesis ..
qed

section \<open>Modules that call modules\<close>

text \<open>The host translates the account of a calling module as \<open>AccountId::into_remote_account_id\<close> does.\<close>

lemma last_opt_last: "last_opt xs = (if xs = [] then None else Some (last xs))"
  by (cases xs) auto

lemma client_to_host_is_remote:
  "client_to_host_module_account_id ev src i =
     (if acc_trace i = Remote [] then Panic
      else Ok (into_remote_account_id i src (from_chain_id (chain_id (env_block ev)))))"
  by (auto simp: client_to_host_module_account_id_def into_remote_account_id_def last_opt_last Let_def
      split: account_trace.splits)

lemma app_address_Ok [result_simps]:
  "app_address il im acc = Ok a \<longleftrightarrow>
     (\<exists>ast. il_account il acc = Ok ast \<and> load (account_modules ast) (module_id (im_module_info im)) = Some a)"
  by (cases "il_account il acc") (auto simp: app_address_def first_module_address split: option.split)

text \<open>A module of another chain reaches modules only, never an account, a service or a native
  contract, and it reaches an app or standalone only on the account here that corresponds to the
  account it acts for. A call that is accepted is passed on as one message that names the chain of the
  proxy and the calling module.\<close>

theorem module_call_target:
  assumes "host_execute pf il ch ev st info (ModuleExecute source target msg) = Ok (st', out)"
  shows "st' = st \<and> (\<exists>c registry a m.
      load (reverse_chain_proxies st) (info_sender info) = Some c \<and> host_registry ch ev = Ok registry
      \<and> out = [(ToModuleIbc a c (im_module_info source) msg, None)]
      \<and> registry_query_module ch registry target = Ok m
      \<and> (m_reference m = Adapter a
        \<or> (\<exists>i acc ast. im_account_id source = Some i
            \<and> registry_account ch registry
                (into_remote_account_id i c (from_chain_id (chain_id (env_block ev)))) = Ok acc
            \<and> il_account il acc = Ok ast \<and> load (account_modules ast) (module_id target) = Some a)))"
proof -
  from assms obtain c where c: "load (reverse_chain_proxies st) (info_sender info) = Some c"
    and run: "handle_module_execute il ch ev st c source target msg = Ok (st', out)"
    by (auto simp: load_src_chain_def load_err_def result_simps)
  from run obtain registry t ref a where reg: "host_registry ch ev = Ok registry"
    and t: "(case im_account_id source of None \<Rightarrow> Ok None
         | Some i \<Rightarrow> map_ok Some (client_to_host_module_account_id ev c i)) = Ok t"
    and ad: "installed_module_addr il ch registry \<lparr>im_module_info = target, im_account_id = t\<rparr> = Ok (ref, a)"
    and out: "(st', out) = (st, [(ToModuleIbc a c (im_module_info source) msg, None)])"
    and ref: "(\<exists>x. ref = Adapter x) \<or> (\<exists>x. ref = App x) \<or> (\<exists>x. ref = Standalone x)"
    by (auto simp: handle_module_execute_def result_simps)
  from ad obtain m where m: "registry_query_module ch registry target = Ok m" "m_reference m = ref"
    by (auto simp: installed_module_addr_def result_simps)
  show ?thesis
  proof (cases "\<exists>x. ref = Adapter x")
    case True
    with ad m have "m_reference m = Adapter a" by (auto simp: installed_module_addr_def result_simps)
    with c reg out m show ?thesis by auto
  next
    case False
    with ref ad m obtain i' acc ast where acc: "t = Some i'" "registry_account ch registry i' = Ok acc"
        "il_account il acc = Ok ast" and "load (account_modules ast) (module_id target) = Some a"
      by (auto simp: installed_module_addr_def installed_module_account_def result_simps)
    moreover from t acc(1) obtain i where "im_account_id source = Some i"
      "i' = into_remote_account_id i c (from_chain_id (chain_id (env_block ev)))"
      by (auto simp: client_to_host_is_remote result_simps split: option.splits if_splits)
    ultimately show ?thesis using c reg out m acc by auto
  qed
qed

section \<open>A host with one proxy\<close>

definition host_info :: message_info where
  "host_info = \<lparr>info_sender = ''admin'', info_funds = []\<rparr>"

definition host_env :: env where
  "host_env = \<lparr>env_contract = ''host'', env_block = \<lparr>height = 1, time = 1, chain_id = ''osmosis-1''\<rparr>\<rparr>"

definition account_module :: module_info where
  "account_module = \<lparr>mi_namespace = ''abstract'', mi_name = ''account'', mi_version = Version ''1.9.0''\<rparr>"

definition juno_account :: account_id where
  "juno_account = \<lparr>acc_trace = Remote [''juno''], acc_seq = 7\<rparr>"

definition host_registry_state :: "bool \<Rightarrow> registry_state" where
  "host_registry_state created = empty_registry\<lparr>
     registered_modules := [(mod_key account_module, Account 9), (mod_key paid_module, App 10)],
     account_addresses := (if created then [(acc_key juno_account, ''acct'')] else [])\<rparr>"

text \<open>The chain before and after the account was created.\<close>

definition host_chain :: "bool \<Rightarrow> chain" where
  "host_chain created = sample_chain\<lparr>
     q_contract_info := (\<lambda>a. if a = ''host'' then Ok \<lparr>ci_code_id = 7, ci_admin = None\<rparr> else Err (StdNotFound a)),
     q_registry := (\<lambda>a. if a = ''reg'' then Ok (host_registry_state created) else Err (StdNotFound a))\<rparr>"

definition host_lib :: ibc_lib where
  "host_lib = \<lparr>il_json_account_id = account_id_display,
     il_ans = (\<lambda>a. Err (StdNotFound a)),
     il_account = (\<lambda>a. if a = ''acct'' then Ok (empty_account\<lparr>account_modules := [(''dev:dex'', ''dex-app'')]\<rparr>)
       else Err (StdNotFound a)),
     il_smart_query = (\<lambda>a q. Ok q),
     il_parse_execute_response = (\<lambda>d. Ok (Some d))\<rparr>"

definition proxy_info :: message_info where
  "proxy_info = \<lparr>info_sender = ''proxy'', info_funds = []\<rparr>"

definition host_fresh :: host_state where
  "host_fresh = fst (the_Ok (host_instantiate sample_chain empty_host host_info))"

definition host_juno :: host_state where
  "host_juno = host_fresh\<lparr>chain_proxies := [(''juno'', ''proxy'')],
     reverse_chain_proxies := [(''proxy'', ''juno'')]\<rparr>"

lemma host_fresh_reachable: "reachable host_start (host_step pf) host_fresh"
proof (rule reach_start)
  have "host_instantiate sample_chain empty_host host_info = Ok (host_fresh, [])"
    by (simp add: host_fresh_def host_instantiate_def sample_chain_def)
  then show "host_start host_fresh" unfolding host_start_def by blast
qed

lemma host_juno_registered:
  "host_execute pf il sample_chain ev host_fresh host_info (RegisterChainProxy ''juno'' ''proxy'') = Ok (host_juno, [])"
  by (simp add: register_chain_proxy_def assert_host_owner_def host_fresh_def host_juno_def host_info_def
      host_instantiate_def empty_host_def sample_chain_def has_def)
    (code_simp)

lemma host_juno_reachable: "reachable host_start (host_step pf) host_juno"
  by (rule reach_step [OF host_fresh_reachable], rule host_step.exec [OF host_juno_registered])

theorem host_proxies_inverse_witness: "load (reverse_chain_proxies host_juno) ''proxy'' = Some ''juno''"
  using host_proxies_inverse [OF host_juno_reachable, of "''juno''" "''proxy''"]
  by (simp add: host_juno_def)

lemma host_chain_facts:
  "host_registry (host_chain b) host_env = Ok ''reg''"
  "q_registry (host_chain b) ''reg'' = Ok (host_registry_state b)"
  by (simp_all add: host_chain_def sample_chain_def host_env_def code_defs host_registry_def registry_contract_new_def)

lemma host_chain_account:
  "registry_account (host_chain b) ''reg'' juno_account =
     (if b then Ok ''acct'' else Err (RqUnknownAccountId juno_account ''reg''))"
  by (simp add: registry_account_def raw_query_def host_chain_facts host_registry_state_def
      juno_account_def acc_key_def load_def empty_registry_def)

lemma juno_account_pushed: "account_id_push_chain (account_id_local 7) ''juno'' = juno_account"
  by (simp add: account_id_push_chain_def account_id_local_def juno_account_def)

lemma host_chain_get_account:
  "get_account (host_chain True) host_env juno_account = Ok ''acct''"
  "get_account (host_chain False) host_env juno_account
     = Err (HostRegistry (RqUnknownAccountId juno_account ''reg''))"
  by (simp_all add: get_account_def host_chain_facts host_chain_account)

lemma juno_src: "load_src_chain host_juno ''proxy'' = Ok ''juno''"
  by (simp add: load_src_chain_def load_err_def host_juno_def load_def)

lemma host_juno_dispatch:
  "host_execute sample_platform host_lib (host_chain True) host_env host_juno proxy_info
     (HostExecute (account_id_local 7) ''juno1'' (Dispatch [Execute []]))
   = Ok (host_juno, [(ToAccount ''acct'' (Execute []), Some RESPONSE_REPLY_ID)])"
  by (simp add: proxy_info_def juno_src handle_host_action_def juno_account_pushed host_chain_get_account
      receive_dispatch_def)


lemma account_module_latest:
  "module_info_from_id_latest ACCOUNT = Ok (account_module\<lparr>mi_version := Latest\<rparr>)"
  by code_simp

lemma host_chain_account_code:
  "registry_query_module (host_chain b) ''reg'' (account_module\<lparr>mi_version := Latest\<rparr>)
     = Ok \<lparr>m_info = account_module, m_reference = Account 9\<rparr>"
proof -
  have sv: "q_semver (host_chain b) = sample_semver" by (simp add: host_chain_def sample_chain_def)
  have "latest_version sample_semver (host_registry_state b) (account_module\<lparr>mi_version := Latest\<rparr>)
      = Ok (Version ''1.9.0'', Account 9)"
    using dex_valid(3) [of "''1.9.0''"]
    by (auto simp: latest_version_def module_versions_def entries_where_def host_registry_state_def
        mod_key_def account_module_def paid_module_def key_version_def)
  then have "module_query_one sample_semver (host_registry_state b) (account_module\<lparr>mi_version := Latest\<rparr>)
      = Ok \<lparr>mr_module = \<lparr>m_info = account_module, m_reference = Account 9\<rparr>,
          mr_config = module_configuration_from_storage (host_registry_state b) account_module\<rparr>"
    by (simp add: module_query_one_def account_module_def)
  then show ?thesis
    by (simp add: registry_query_module_def query_modules_configs_def handle_modules_query_def
        smart_query_def host_chain_facts sv first_of_def)
qed

lemma host_juno_stored:
  "\<exists>st1 out. host_execute sample_platform host_lib (host_chain False) host_env host_juno proxy_info
     (HostExecute (account_id_local 7) ''juno1'' (Dispatch [Execute []])) = Ok (st1, out)"
proof -
  have "trace_verify_remote (acc_trace juno_account) = Ok ()" by code_simp
  then show ?thesis
    by (simp add: proxy_info_def juno_src handle_host_action_def juno_account_pushed host_chain_get_account
      receive_register_def host_chain_facts account_module_latest host_chain_account_code
      sample_platform_def)
    (simp add: host_chain_def sample_chain_def Let_def)
qed

theorem dispatch_after_creation_witness:
  "\<exists>st1. host_reply sample_platform host_lib (host_chain True) host_env st1
       \<lparr>rp_id = INIT_BEFORE_ACTION_REPLY_ID, rp_result = Ok None\<rparr>
     = Ok ((host_juno\<lparr>temp_action_after_creation := None\<rparr>,
         [(ToAccount ''acct'' (Execute []), Some RESPONSE_REPLY_ID)]), None)"
proof -
  from host_juno_stored obtain st1 out where
    "host_execute sample_platform host_lib (host_chain False) host_env host_juno proxy_info
       (HostExecute (account_id_local 7) ''juno1'' (Dispatch [Execute []])) = Ok (st1, out)" by blast
  from dispatch_after_creation [OF _ _ this, of "''juno''" _ "host_chain True" host_env "''acct''"
      "\<lparr>rp_id = INIT_BEFORE_ACTION_REPLY_ID, rp_result = Ok None\<rparr>"]
  show ?thesis by (auto simp: proxy_info_def juno_src juno_account_pushed host_chain_get_account)
qed

lemma host_juno_module_call:
  "host_execute sample_platform host_lib (host_chain True) host_env host_juno proxy_info
     (ModuleExecute \<lparr>im_module_info = paid_module, im_account_id = Some (account_id_local 7)\<rparr> paid_module ''{}'')
   = Ok (host_juno, [(ToModuleIbc ''dex-app'' ''juno'' paid_module ''{}'', None)])"
proof -
  have q: "registry_query_module (host_chain True) ''reg'' paid_module
      = Ok \<lparr>m_info = paid_module, m_reference = App 10\<rparr>" by code_simp
  have t: "client_to_host_module_account_id host_env ''juno'' (account_id_local 7) = Ok juno_account"
    by (simp add: client_to_host_module_account_id_def account_id_local_def juno_account_def)
  have "module_id paid_module = ''dev:dex''" by (simp add: module_id_def paid_module_def)
  then show ?thesis
    by (simp add: proxy_info_def juno_src handle_module_execute_def host_chain_facts t
        installed_module_addr_def q installed_module_account_def host_chain_account app_address_def
        first_module_address host_lib_def load_def)
qed

theorem module_call_target_witness:
  "\<exists>registry m. registry_query_module (host_chain True) registry paid_module = Ok m
     \<and> (m_reference m = Adapter ''dex-app'' \<or> (\<exists>i. registry_account (host_chain True) registry
          (into_remote_account_id i ''juno'' (from_chain_id ''osmosis-1'')) = Ok ''acct''))"
  using module_call_target [OF host_juno_module_call]
  by (auto simp: host_env_def host_lib_def split: if_splits)

section \<open>What the host leaves open\<close>

text \<open>\<open>Fund\<close> asks for no proxy: what it does depends neither on the proxies nor on who sends it.\<close>

lemma fund_is_open:
  "map_ok snd (host_execute pf il ch ev st \<lparr>info_sender = s, info_funds = f\<rparr> (Fund i c))
   = map_ok snd (host_execute pf il ch ev st' \<lparr>info_sender = s', info_funds = f\<rparr> (Fund i c))"
  by (cases "receive_register pf il ch ev (account_id_push_chain i c)
      (HostRegister (Some (remote_account_name c (account_id_push_chain i c))) None None None []) False f")
    (auto simp: handle_fund_def Let_def split: result.split)

text \<open>\<open>SendAllBack\<close> sends nothing back: the account is told to execute no message.\<close>

lemma send_all_back_sends_nothing:
  "receive_send_all_back il ch ev a ad src = Ok out \<Longrightarrow> out = [(ToAccount a (Execute []), None)]"
  by (auto simp: receive_send_all_back_def send_all_back_def result_simps)

end
