(* ===== verification/Ibc_Client_Safety.thy ===== *)
theory Ibc_Client_Safety
  imports Ibc_Client Ibc_Host_Safety
begin

text \<open>
  What the IBC client guarantees: the notes and the infrastructure of the chains are inverse in every
  reachable state, only the note of a chain can report on that chain, funds sent with actions are
  settled exactly once whatever happens in between, calls are sent in the name of their true sender,
  and, together with the host of the other chain, a remote action arrives at the account of its sender.
\<close>

section \<open>The machine\<close>

datatype client_event =
    CExec ibc_lib chain env message_info client_execute_msg
  | CReply reply_msg
  | CSudo ibc_lifecycle
  | CMigrate chain

fun client_apply :: "client_lib \<Rightarrow> client_state \<Rightarrow> client_event \<Rightarrow> client_response client_result" where
  "client_apply cl st (CExec il ch ev info msg) = client_execute il cl ch ev st info msg"
| "client_apply cl st (CReply rp) = client_reply cl st rp"
| "client_apply cl st (CSudo m) = client_sudo st m"
| "client_apply cl st (CMigrate ch) = client_migrate ch st"

definition client_start :: "client_state \<Rightarrow> bool" where
  "client_start st \<longleftrightarrow> (\<exists>ch info out. client_instantiate ch empty_client info = Ok (st, out))"

inductive client_step :: "client_state \<Rightarrow> client_state \<Rightarrow> bool" where
  event: "client_apply cl st e = Ok (st', out) \<Longrightarrow> client_step st st'"

definition notes_inverse :: "client_state \<Rightarrow> bool" where
  "notes_inverse st \<longleftrightarrow> inverse_maps polytone_note (load (ibc_infra st)) (load (reverse_polytone_note st))"

text \<open>What the entry points that send a packet leave as it is.\<close>

definition same_client :: "client_state \<Rightarrow> client_state \<Rightarrow> bool" where
  "same_client st st' \<longleftrightarrow> ibc_infra st' = ibc_infra st \<and> reverse_polytone_note st' = reverse_polytone_note st
     \<and> remote_accounts st' = remote_accounts st \<and> ics20_account_callbacks st' = ics20_account_callbacks st"

lemma same_client_inverse: "same_client st st' \<Longrightarrow> notes_inverse st \<Longrightarrow> notes_inverse st'"
  by (simp add: same_client_def notes_inverse_def)

lemma send_same:
  "execute_send_packet ch ev st info c action = Ok (st', out) \<Longrightarrow> same_client st st'"
  "execute_register_account il cl ch ev st info c ns mods = Ok (st', out) \<Longrightarrow> same_client st st'"
  "execute_send_module_to_module_packet il cl ch ev st info c m b cb = Ok (st', out) \<Longrightarrow> same_client st st'"
  "execute_send_query cl ev st info c qs b = Ok (st', out) \<Longrightarrow> same_client st st'"
  "execute_send_funds il ch ev st info c memo rec = Ok (st', out) \<Longrightarrow> same_client st st'"
  "execute_send_funds_with_actions il cl ch ev st info c acts = Ok (st', out) \<Longrightarrow> same_client st st'"
  by (auto simp: execute_send_packet_def execute_register_account_def execute_send_module_to_module_packet_def
      execute_send_query_def execute_send_funds_def execute_send_funds_with_actions_def same_client_def
      result_simps Let_def)

lemma register_infrastructure_inverse:
  assumes "execute_register_infrastructure cl ch ev st info c host note = Ok (st', out)" and "notes_inverse st"
  shows "notes_inverse st'"
proof -
  from assms(1) obtain n where n: "load (ibc_infra st) c = None" "load (reverse_polytone_note st) n = None"
    and st': "st' = st\<lparr>ibc_infra := save c \<lparr>polytone_note = n, remote_abstract_host = host,
                   remote_proxy = None\<rparr> (ibc_infra st),
                 reverse_polytone_note := save n c (reverse_polytone_note st)\<rparr>"
    by (auto simp: execute_register_infrastructure_def has_def result_simps split: if_splits)
  with assms(2) inverse_maps_insert [of polytone_note "load (ibc_infra st)" "load (reverse_polytone_note st)" c
      "\<lparr>polytone_note = n, remote_abstract_host = host, remote_proxy = None\<rparr>"]
  show ?thesis by (simp add: notes_inverse_def)
qed

lemma remove_host_inverse:
  assumes "execute_remove_host ch st info c = Ok (st', out)" and "notes_inverse st"
  shows "notes_inverse st'"
proof (cases "load (ibc_infra st) c")
  case None
  then have "(load (ibc_infra st))(c := None) = load (ibc_infra st)" by auto
  with None assms show ?thesis by (auto simp: execute_remove_host_def notes_inverse_def result_simps)
next
  case (Some i)
  with assms inverse_maps_delete [of polytone_note "load (ibc_infra st)" "load (reverse_polytone_note st)" c i]
  show ?thesis by (auto simp: execute_remove_host_def notes_inverse_def result_simps)
qed

text \<open>A callback from the note of a chain touches what is stored for that chain only.\<close>

definition only_chain :: "truncated_chain_id \<Rightarrow> client_state \<Rightarrow> client_state \<Rightarrow> bool" where
  "only_chain c st st' \<longleftrightarrow> (\<forall>d. d \<noteq> c \<longrightarrow> load (ibc_infra st') d = load (ibc_infra st) d)
     \<and> map_option polytone_note (load (ibc_infra st') c) = map_option polytone_note (load (ibc_infra st) c)
     \<and> (\<forall>k d. d \<noteq> c \<longrightarrow> load (remote_accounts st') (k, d) = load (remote_accounts st) (k, d))
     \<and> reverse_polytone_note st' = reverse_polytone_note st
     \<and> ics20_account_callbacks st' = ics20_account_callbacks st"

lemma who_am_i_only:
  "receive_who_am_i st c cb r = Ok st' \<Longrightarrow> only_chain c st st'"
  by (cases "(st, c, cb, r)" rule: receive_who_am_i.cases) (auto simp: only_chain_def split: option.splits)

lemma create_account_only:
  "receive_create_account st c i cb r = Ok st' \<Longrightarrow> only_chain c st st'"
  by (cases "(st, c, i, cb, r)" rule: receive_create_account.cases) (auto simp: only_chain_def result_simps)

lemma callback_cases:
  assumes "receive_action_callback cl ev st info cb = Ok (st', out)"
  obtains c where "load (reverse_polytone_note st) (info_sender info) = Some c"
    and "cbm_initiator cb = env_contract ev" and "only_chain c st st'"
proof -
  from assms obtain c m where c: "load (reverse_polytone_note st) (info_sender info) = Some c"
    "cbm_initiator cb = env_contract ev"
    and run: "(case m of
       WhoAmI \<Rightarrow> and_then (receive_who_am_i st c cb (cbm_result cb)) (\<lambda>st. Ok (st, []))
     | CreateAccount i \<Rightarrow> and_then (receive_create_account st c i cb (cbm_result cb)) (\<lambda>st. Ok (st, []))
     | ModuleRemoteAction a b im \<Rightarrow> and_then (map_err ClientStd (from_execute (cbm_result cb) im)) (\<lambda>r.
         Ok (st, [(IbcCallback a b r, None)]))
     | ModuleRemoteQuery a b qs \<Rightarrow> and_then (map_err ClientStd (from_query (cbm_result cb) qs)) (\<lambda>r.
         Ok (st, [(IbcCallback a b r, None)]))) = Ok (st', out)"
    unfolding receive_action_callback_def and_then_Ok ok_or_Ok ensure_Ok by blast
  from run have "only_chain c st st'"
    by (cases m) (auto simp: result_simps dest: who_am_i_only create_account_only, auto simp: only_chain_def)
  with c show thesis by (rule that)
qed

lemma only_chain_note:
  assumes "only_chain c st st'"
  shows "map_option polytone_note (load (ibc_infra st') d) = map_option polytone_note (load (ibc_infra st) d)"
  using assms by (cases "d = c") (auto simp: only_chain_def)

lemma only_chain_inverse:
  assumes "only_chain c st st'" and "notes_inverse st"
  shows "notes_inverse st'"
proof -
  have rev: "reverse_polytone_note st' = reverse_polytone_note st" using assms(1) by (simp add: only_chain_def)
  have keep: "map_option polytone_note (load (ibc_infra st') d) = Some n
      \<longleftrightarrow> map_option polytone_note (load (ibc_infra st) d) = Some n" for d n
    using only_chain_note [OF assms(1), of d] by simp
  have "(\<forall>d n. map_option polytone_note (load (ibc_infra st) d) = Some n \<longleftrightarrow> load (reverse_polytone_note st) n = Some d)
      = notes_inverse st" for st
    unfolding notes_inverse_def inverse_maps_def by (auto simp: map_option_eq_Some) blast+
  from this [of st] this [of st'] show ?thesis using assms(2) rev keep by metis
qed

lemma client_execute_inverse:
  assumes "notes_inverse st" and "client_execute il cl ch ev st info msg = Ok (st', out)"
  shows "notes_inverse st'"
  using assms
  by (cases msg) (auto simp: result_simps notes_inverse_def [of "st\<lparr>c_ownership := ow\<rparr>" for ow]
      simp flip: notes_inverse_def intro: register_infrastructure_inverse remove_host_inverse
      elim!: callback_cases intro: only_chain_inverse dest!: send_same intro: same_client_inverse)

lemma reply_sudo_notes:
  "client_reply cl st rp = Ok (st', out) \<Longrightarrow> notes_inverse st \<Longrightarrow> notes_inverse st'"
  "client_sudo st m = Ok (st', out) \<Longrightarrow> notes_inverse st \<Longrightarrow> notes_inverse st'"
  "client_migrate ch st = Ok (st', out) \<Longrightarrow> notes_inverse st \<Longrightarrow> notes_inverse st'"
  by (auto simp: client_reply_def save_callback_actions_def client_sudo_def client_migrate_def notes_inverse_def
      result_simps split: if_splits, cases m, auto simp: result_simps Let_def)

interpretation client: invariant client_start client_step notes_inverse
proof
  show "notes_inverse s" if "client_start s" for s
    using that by (auto simp: client_start_def client_instantiate_def empty_client_def notes_inverse_def
        inverse_maps_def result_simps)
next
  fix s s' assume inv: "notes_inverse s" and "client_step s s'"
  then obtain cl e out where "client_apply cl s e = Ok (s', out)" by (auto elim: client_step.cases)
  with inv show "notes_inverse s'"
    by (cases e) (auto intro: client_execute_inverse reply_sudo_notes)
qed

text \<open>In every state of the client the note of a chain and the chain of a note determine each other:
  no two chains share a note, and a callback can be attributed to one chain.\<close>

theorem client_notes_inverse:
  assumes "reachable client_start client_step st"
  shows "(\<exists>i. load (ibc_infra st) c = Some i \<and> polytone_note i = n) \<longleftrightarrow> load (reverse_polytone_note st) n = Some c"
  using inverse_mapsD [OF client.holds [OF assms, unfolded notes_inverse_def]] by blast

text \<open>C20: A callback is accepted only from the note registered for a chain and only if the client itself
  started the call. It can change what the client stores for that chain, its proxy and its accounts,
  and nothing that belongs to another chain; the note stays and no pending transfer is touched.\<close>

theorem callback_authentic:
  assumes "reachable client_start client_step st"
    and "client_execute il cl ch ev st info (Callback cb) = Ok (st', out)"
  shows "\<exists>c i. load (ibc_infra st) c = Some i \<and> polytone_note i = info_sender info
    \<and> cbm_initiator cb = env_contract ev \<and> only_chain c st st'"
proof -
  from assms(2) have "receive_action_callback cl ev st info cb = Ok (st', out)" by simp
  then obtain c where c: "load (reverse_polytone_note st) (info_sender info) = Some c"
    "cbm_initiator cb = env_contract ev" "only_chain c st st'" by (rule callback_cases)
  from inverse_mapsD(2) [OF client.holds [OF assms(1), unfolded notes_inverse_def] c(1)] c(2,3)
  show ?thesis by blast
qed

section \<open>Funds with actions\<close>

fun packet_of :: "ibc_lifecycle \<Rightarrow> packet_key" where
  "packet_of (IBCAck channel seq ack success) = (SubKey channel, seq)"
| "packet_of (IBCTimeout channel seq) = (SubKey channel, seq)"

text \<open>The packet an event is about: the one a reply stores, and the one an acknowledgement settles.\<close>

fun event_packet :: "client_lib \<Rightarrow> client_state \<Rightarrow> client_event \<Rightarrow> packet_key option" where
  "event_packet cl st (CReply rp) =
     (case (rp_result rp, ics20_account_callback_payload st) of
        (Ok (Some d), Some payload) \<Rightarrow>
          (case cl_decode_transfer cl d of Ok seq \<Rightarrow> Some (SubKey (acp_channel_id payload), seq) | _ \<Rightarrow> None)
      | _ \<Rightarrow> None)"
| "event_packet cl st (CSudo m) = Some (packet_of m)"
| "event_packet cl st _ = None"

inductive other_events :: "client_lib \<Rightarrow> packet_key \<Rightarrow> client_state \<Rightarrow> client_state \<Rightarrow> bool" for cl pk st where
  none: "other_events cl pk st st"
| other: "other_events cl pk st s \<Longrightarrow> client_apply cl s e = Ok (s', out) \<Longrightarrow> event_packet cl s e \<noteq> Some pk
    \<Longrightarrow> other_events cl pk st s'"

text \<open>What a transfer ends with: the actions on success, the coin back otherwise.\<close>

fun settlement :: "addr \<Rightarrow> coin \<Rightarrow> binary list \<Rightarrow> ibc_lifecycle \<Rightarrow> cosmos_msg list" where
  "settlement a c acts (IBCAck channel seq ack True) = map (\<lambda>m. WasmExecute a (Raw m) []) acts"
| "settlement a c acts (IBCAck channel seq ack False) = [BankSend a [c]]"
| "settlement a c acts (IBCTimeout channel seq) = [BankSend a [c]]"

lemma execute_callbacks:
  assumes "client_execute il cl ch ev st info msg = Ok (st', out)"
  shows "ics20_account_callbacks st' = ics20_account_callbacks st"
  using assms
  by (cases msg) (auto simp: result_simps only_chain_def same_client_def execute_register_infrastructure_def
      execute_remove_host_def Let_def dest!: send_same elim!: callback_cases split: if_splits option.splits)

lemma event_callbacks:
  assumes "client_apply cl st e = Ok (st', out)" and "event_packet cl st e \<noteq> Some pk"
  shows "load (ics20_account_callbacks st') pk = load (ics20_account_callbacks st) pk"
proof (cases e)
  case (CExec il ch ev info msg)
  with assms execute_callbacks [of il cl ch ev st info msg st' out] show ?thesis by simp
next
  case (CReply rp)
  with assms show ?thesis
    by (auto simp: client_reply_def save_callback_actions_def result_simps split: if_splits)
next
  case (CSudo m)
  with assms show ?thesis by (cases m) (auto simp: client_sudo_def result_simps Let_def)
next
  case (CMigrate ch)
  with assms show ?thesis by (auto simp: client_migrate_def result_simps)
qed

lemma other_events_keep:
  "other_events cl pk st st' \<Longrightarrow> load (ics20_account_callbacks st') pk = load (ics20_account_callbacks st) pk"
  by (induction rule: other_events.induct) (simp_all add: event_callbacks)

lemma sudo_settles:
  assumes "load (ics20_account_callbacks st) (packet_of m) = Some (a, c, acts)"
  shows "\<exists>st'. client_sudo st m = Ok (st', map (\<lambda>x. (ClientPlain x, None)) (settlement a c acts m))
    \<and> load (ics20_account_callbacks st') (packet_of m) = None"
  using assms by (cases "(a, c, acts, m)" rule: settlement.cases)
    (auto simp: client_sudo_def load_err_def Let_def)

lemma sudo_missing:
  "load (ics20_account_callbacks st) (packet_of m) = None \<Longrightarrow> client_sudo st m = Err (ClientStd (StdNotFound ''map''))"
  by (cases m) (simp_all add: client_sudo_def load_err_def)

text \<open>C17: Funds sent with actions are settled exactly once. The client sends the one coin it was given;
  after the reply that tells the packet, whatever happens that is not about this packet, its
  acknowledgement runs exactly the given actions on the sending account if the transfer succeeded and
  returns exactly that coin to it otherwise or on a timeout, and no further acknowledgement or timeout
  of the packet is accepted before the packet is sent again.\<close>

theorem funds_with_actions_settled_once:
  assumes "client_execute il cl ch ev st info (SendFundsWithActions chain acts) = Ok (st1, out)"
    and "client_reply cl st1 \<lparr>rp_id = SEND_FUNDS_WITH_ACTIONS_REPLY_ID, rp_result = Ok (Some d)\<rparr> = Ok (st2, out2)"
    and "cl_decode_transfer cl d = Ok seq"
  shows "\<exists>t coin. out = [(StargateTransfer t, Some SEND_FUNDS_WITH_ACTIONS_REPLY_ID)]
    \<and> mt_token t = Some coin \<and> cl_one_coin cl (info_funds info) = Ok coin
    \<and> (\<forall>st3 m. other_events cl (SubKey (mt_source_channel t), seq) st2 st3 \<longrightarrow>
         packet_of m = (SubKey (mt_source_channel t), seq) \<longrightarrow>
         (\<exists>st4. client_sudo st3 m =
              Ok (st4, map (\<lambda>x. (ClientPlain x, None)) (settlement (info_sender info) coin acts m))
            \<and> (\<forall>m' st5. other_events cl (packet_of m) st4 st5 \<longrightarrow> packet_of m' = packet_of m \<longrightarrow>
                 \<not> is_ok (client_sudo st5 m'))))"
proof -
  from assms(1) obtain channel coin memo host timeout where
    coin: "cl_one_coin cl (info_funds info) = Ok coin"
    and out: "out = [(StargateTransfer \<lparr>mt_source_port = ''transfer'', mt_source_channel = channel,
         mt_token = Some coin, mt_sender = env_contract ev, mt_receiver = host,
         mt_timeout_timestamp = timeout, mt_memo = memo\<rparr>, Some SEND_FUNDS_WITH_ACTIONS_REPLY_ID)]"
    and st1: "st1 = st\<lparr>ics20_account_callback_payload := Some \<lparr>acp_channel_id = channel,
         acp_account_address = info_sender info, acp_funds = coin, acp_msgs = acts\<rparr>\<rparr>"
    by (auto simp: execute_send_funds_with_actions_def ics_20_send_msg_def client_assert_account_def
        assert_account_def result_simps split: if_splits)
  let ?pk = "(SubKey channel, seq)"
  have st2: "load (ics20_account_callbacks st2) ?pk = Some (info_sender info, coin, acts)"
    using assms(2,3) by (auto simp: client_reply_def save_callback_actions_def st1)
  have "\<exists>st4. client_sudo st3 m =
        Ok (st4, map (\<lambda>x. (ClientPlain x, None)) (settlement (info_sender info) coin acts m))
      \<and> (\<forall>m' st5. other_events cl (packet_of m) st4 st5 \<longrightarrow> packet_of m' = packet_of m \<longrightarrow>
           \<not> is_ok (client_sudo st5 m'))"
    if "other_events cl ?pk st2 st3" and "packet_of m = ?pk" for st3 m
  proof -
    from that st2 have "load (ics20_account_callbacks st3) (packet_of m) = Some (info_sender info, coin, acts)"
      by (simp add: other_events_keep)
    from sudo_settles [OF this] obtain st4 where
      "client_sudo st3 m = Ok (st4, map (\<lambda>x. (ClientPlain x, None)) (settlement (info_sender info) coin acts m))"
      "load (ics20_account_callbacks st4) (packet_of m) = None" by blast
    then show ?thesis by (auto simp: sudo_missing dest: other_events_keep)
  qed
  with coin out show ?thesis by auto
qed

section \<open>In the name of the sender\<close>

lemma case_source_Ok [result_simps]:
  "(case r of Adapter _ \<Rightarrow> Ok y | App _ \<Rightarrow> f | _ \<Rightarrow> Err e) = Ok x
   \<longleftrightarrow> (\<exists>a. r = Adapter a) \<and> x = y \<or> (\<exists>c. r = App c) \<and> f = Ok x"
  by (cases r) auto

lemma sdk_module_info_reference:
  assumes "sdk_module_info ch registry a = Ok m"
  shows "m_reference m = Adapter b \<Longrightarrow> b = a"
    and "m_reference m = App code \<Longrightarrow> \<exists>ci. q_contract_info ch a = Ok ci \<and> ci_code_id ci = code"
proof -
  from assms obtain m' where m': "(case m_reference m' of
          Adapter b \<Rightarrow> if b = a then Ok m' else Err (WrongModuleInfo a (m_info m'))
        | Native b \<Rightarrow> if b = a then Ok m' else Err (WrongModuleInfo a (m_info m'))
        | Service b \<Rightarrow> if b = a then Ok m' else Err (WrongModuleInfo a (m_info m'))
        | App code \<Rightarrow> and_then (map_err SdkStd (q_contract_info ch a)) (\<lambda>ci.
           if code = ci_code_id ci then Ok m' else Err (WrongModuleInfo a (m_info m')))
        | Standalone code \<Rightarrow> and_then (map_err SdkStd (q_contract_info ch a)) (\<lambda>ci.
           if code = ci_code_id ci then Ok m' else Err (WrongModuleInfo a (m_info m')))
        | Account code \<Rightarrow> and_then (map_err SdkStd (q_contract_info ch a)) (\<lambda>ci.
           if code = ci_code_id ci then Ok m' else Err (WrongModuleInfo a (m_info m')))) = Ok m"
    unfolding sdk_module_info_def and_then_Ok Let_def by blast
  then have "m = m'" by (cases "m_reference m'") (auto simp: result_simps split: if_splits)
  with m' show "m_reference m = Adapter b \<Longrightarrow> b = a"
    and "m_reference m = App code \<Longrightarrow> \<exists>ci. q_contract_info ch a = Ok ci \<and> ci_code_id ci = code"
    by (auto simp: result_simps split: if_splits)
qed

text \<open>A module call leaves the chain in the name of its true sender: an adapter only from the
  address the registry holds for it, an app only from a contract that runs the registered code, and
  then for the account the app belongs to, under the id the registry holds for it and only if that
  account has the IBC client installed. Accounts, standalones, services and native contracts cannot
  call.\<close>

theorem module_packet_source:
  assumes "client_execute il cl ch ev st info (ModuleIbcAction c target msg cb) = Ok (st', out)"
  shows "st' = st \<and> (\<exists>registry m notec host src crq.
      out = [(NoteExecute notec [RemoteCall host (ModuleExecute src target msg)] crq PACKET_LIFETIME, None)]
      \<and> and_then (client_code ch ev) (client_registry ch) = Ok registry
      \<and> sdk_module_info ch registry (info_sender info) = Ok m \<and> im_module_info src = m_info m
      \<and> (m_reference m = Adapter (info_sender info) \<and> im_account_id src = None
        \<or> (\<exists>ci i acc ast. m_reference m = App (ci_code_id ci) \<and> q_contract_info ch (info_sender info) = Ok ci
            \<and> im_account_id src = Some i \<and> registry_account ch registry i = Ok acc
            \<and> cl_app_account cl (info_sender info) = Ok acc
            \<and> il_account il acc = Ok ast \<and> load (account_modules ast) IBC_CLIENT \<noteq> None)))"
proof -
  from assms obtain registry m src notec host crq where
    reg: "and_then (client_code ch ev) (client_registry ch) = Ok registry"
    and m: "sdk_module_info ch registry (info_sender info) = Ok m"
    and src: "(\<exists>a. m_reference m = Adapter a) \<and> src = \<lparr>im_module_info = m_info m, im_account_id = None\<rparr>
      \<or> (\<exists>code. m_reference m = App code)
        \<and> app_source il cl ch registry (info_sender info) (m_info m) = Ok src"
    and out: "st' = st" "out = [(NoteExecute notec [RemoteCall host (ModuleExecute src target msg)] crq PACKET_LIFETIME, None)]"
    unfolding client_execute.simps execute_send_module_to_module_packet_def and_then_Ok case_source_Ok Let_def
      map_err_Ok by blast
  from src show ?thesis
  proof
    assume "(\<exists>a. m_reference m = Adapter a) \<and> src = \<lparr>im_module_info = m_info m, im_account_id = None\<rparr>"
    with sdk_module_info_reference(1) [OF m] m reg out show ?thesis by (auto intro!: exI [of _ m])
  next
    assume app: "(\<exists>code. m_reference m = App code)
        \<and> app_source il cl ch registry (info_sender info) (m_info m) = Ok src"
    then obtain i acc ast where "cl_app_account cl (info_sender info) = Ok acc"
      "registry_account ch registry i = Ok acc" "il_account il acc = Ok ast"
      "load (account_modules ast) IBC_CLIENT \<noteq> None" "src = \<lparr>im_module_info = m_info m, im_account_id = Some i\<rparr>"
      by (auto simp: app_source_def registry_account_id_def result_simps split: if_splits)
    moreover from app sdk_module_info_reference(2) [OF m] obtain ci where
      "q_contract_info ch (info_sender info) = Ok ci" "m_reference m = App (ci_code_id ci)" by blast
    ultimately show ?thesis using out m reg by (auto intro!: exI [of _ m])
  qed
qed

section \<open>From chain to chain\<close>

text \<open>C18: A dispatch sent through the client arrives. If the note's proxy is registered on the host for
  the chain the client runs on, the one message the client has the proxy execute makes the host send
  exactly the dispatched messages, in order, to the account it holds for the sender, whose id is the
  sender's id with the client's chain appended; the sender is the account the registry holds for that
  id.\<close>

theorem remote_dispatch_arrives:
  assumes "client_execute il cl ch ev st info (RemoteAction chain (Dispatch msgs)) = Ok (st', out)"
    and "load_src_chain hst proxy = Ok (from_chain_id (chain_id (env_block ev)))"
    and "q_account_id ch (info_sender info) = Ok i"
    and "get_account hch hev (account_id_push_chain i (from_chain_id (chain_id (env_block ev)))) = Ok acc"
  shows "st' = st \<and> (\<exists>notec host hmsg registry.
      out = [(NoteExecute notec [RemoteCall host hmsg] None PACKET_LIFETIME, None)]
      \<and> registry_account ch registry i = Ok (info_sender info)
      \<and> host_execute pf hil hch hev hst \<lparr>info_sender = proxy, info_funds = []\<rparr> hmsg
          = Ok (hst, map (\<lambda>m. (ToAccount acc m, Some RESPONSE_REPLY_ID)) msgs))"
proof -
  from assms(1,3) obtain notec host registry where
    "out = [(NoteExecute notec [RemoteCall host
        (HostExecute i (info_sender info) (Dispatch msgs))] None PACKET_LIFETIME, None)]"
    "st' = st" "registry_account ch registry i = Ok (info_sender info)"
    by (auto simp: execute_send_packet_def send_remote_host_action_def client_assert_account_def
        client_account_id_def assert_account_def unchecked_account_id_def result_simps split: if_splits)
  moreover have "host_execute pf hil hch hev hst \<lparr>info_sender = proxy, info_funds = []\<rparr>
      (HostExecute i (info_sender info) (Dispatch msgs))
      = Ok (hst, map (\<lambda>m. (ToAccount acc m, Some RESPONSE_REPLY_ID)) msgs)"
    using assms(2,4) by (simp add: handle_host_action_def receive_dispatch_def)
  ultimately show ?thesis by blast
qed

text \<open>Funds sent with actions arrive: the memo of the transfer has the remote host, which receives
  the coin, execute a message that passes the received coins on to the account it holds for the
  sender.\<close>

theorem funds_reach_remote_account:
  assumes "client_execute il cl ch ev st info (SendFundsWithActions chain acts) = Ok (st', out)"
    and "q_account_id ch (info_sender info) = Ok i"
    and "get_account hch hev (account_id_push_chain i (from_chain_id (chain_id (env_block ev)))) = Ok acc"
  shows "\<exists>t hm. map fst out = [StargateTransfer t] \<and> cl_json_memo cl hm = Ok (mt_memo t)
    \<and> hm_contract hm = mt_receiver t \<and> hm_ibc_callback hm = Some (mt_sender t)
    \<and> host_execute pf hil hch hev hst \<lparr>info_sender = hook, info_funds = fnds\<rparr> (hm_msg hm)
        = Ok (hst, [(Plain (BankSend acc fnds), None)])"
proof -
  from assms(1,2) obtain host memo t where
    memo: "cl_json_memo cl \<lparr>hm_contract = host, hm_msg = Fund i (from_chain_id (chain_id (env_block ev))),
       hm_ibc_callback = Some (env_contract ev)\<rparr> = Ok memo"
    and "map fst out = [StargateTransfer t]" "mt_memo t = memo" "mt_receiver t = host" "mt_sender t = env_contract ev"
    by (auto simp: execute_send_funds_with_actions_def ics_20_send_msg_def client_assert_account_def
        client_account_id_def assert_account_def unchecked_account_id_def result_simps split: if_splits)
  moreover have "host_execute pf hil hch hev hst \<lparr>info_sender = hook, info_funds = fnds\<rparr>
      (Fund i (from_chain_id (chain_id (env_block ev)))) = Ok (hst, [(Plain (BankSend acc fnds), None)])"
    using assms(3) by (simp add: handle_fund_def)
  ultimately show ?thesis using memo by (auto intro!: exI [of _ t] exI [of _ "\<lparr>hm_contract = host,
      hm_msg = Fund i (from_chain_id (chain_id (env_block ev))), hm_ibc_callback = Some (env_contract ev)\<rparr>"])
qed

section \<open>What the client leaves open\<close>

text \<open>Queries can be sent by anyone: who sends decides only where the answer goes.\<close>

lemma ibc_query_is_open:
  "is_ok (client_execute il cl ch ev st \<lparr>info_sender = s, info_funds = f\<rparr> (IbcQuery c qs cb))
   = is_ok (client_execute il cl ch ev st \<lparr>info_sender = s', info_funds = f'\<rparr> (IbcQuery c qs cb))"
  by (auto simp: is_ok_iff execute_send_query_def result_simps Let_def)

text \<open>The internal register action cannot be sent as a remote action.\<close>

lemma internal_action_forbidden:
  "client_execute il cl ch ev st info (RemoteAction c (Internal r)) \<noteq> Ok x"
  by (auto simp: execute_send_packet_def result_simps)

section \<open>A client connected to one chain\<close>

definition client_env :: env where
  "client_env = \<lparr>env_contract = ''client'', env_block = \<lparr>height = 1, time = 1, chain_id = ''juno-1''\<rparr>\<rparr>"

definition osmo_infra :: ibc_infrastructure where
  "osmo_infra = \<lparr>polytone_note = ''note'', remote_abstract_host = ''host'', remote_proxy = None\<rparr>"

definition client_fresh :: client_state where
  "client_fresh = fst (the_Ok (client_instantiate sample_chain empty_client host_info))"

definition client_osmo :: client_state where
  "client_osmo = client_fresh\<lparr>ibc_infra := [(''osmosis'', osmo_infra)],
     reverse_polytone_note := [(''note'', ''osmosis'')]\<rparr>"

definition client_chain :: chain where
  "client_chain = sample_chain\<lparr>
     q_contract_info := (\<lambda>a. Ok \<lparr>ci_code_id = 7, ci_admin = None\<rparr>),
     q_module_data := (\<lambda>a. Ok \<lparr>md_module = ''dev:dex'', md_version = ''1.0.0'', md_dependencies = [], md_metadata = None\<rparr>),
     q_account_id := (\<lambda>a. Ok (account_id_local 7)),
     q_registry := (\<lambda>a. Ok (empty_registry\<lparr>account_addresses := [(acc_key (account_id_local 7), ''acct'')],
       registered_modules := [(mod_key paid_module, App 7)]\<rparr>))\<rparr>"

definition client_ans_state :: ans_state where
  "client_ans_state = empty_ans\<lparr>channels := [((SubKey ''osmosis'', ''ics-20''), ''channel-1'')]\<rparr>"

definition client_host_lib :: ibc_lib where
  "client_host_lib = host_lib\<lparr>il_ans := (\<lambda>a. Ok client_ans_state),
     il_account := (\<lambda>a. Ok (empty_account\<lparr>account_modules := [(IBC_CLIENT, ''client'')]\<rparr>))\<rparr>"

definition sample_client_lib :: client_lib where
  "sample_client_lib = \<lparr>
     cl_json_callback = (\<lambda>c. case c of WhoAmI \<Rightarrow> ''who'' | _ \<Rightarrow> ''other''),
     cl_from_json_callback = (\<lambda>b. if b = ''who'' then Ok WhoAmI else Err (StdMsg b)),
     cl_json_memo = (\<lambda>m. Ok (hm_contract m)),
     cl_decode_transfer = (\<lambda>d. Ok (of_nat (length d))),
     cl_one_coin = (\<lambda>cs. case cs of [c] \<Rightarrow> Ok c | _ \<Rightarrow> Err ''one coin''),
     cl_app_account = (\<lambda>a. Ok ''acct'')\<rparr>"

definition acct_info :: message_info where
  "acct_info = \<lparr>info_sender = ''acct'', info_funds = [paid_fee]\<rparr>"

definition who_am_i_callback :: callback_message where
  "who_am_i_callback = \<lparr>cbm_initiator = ''client'', cbm_initiator_msg = ''who'',
     cbm_result = PcExecute (EcrSuccess \<lparr>executed_by = ''proxy'', er_result = []\<rparr>)\<rparr>"

lemma client_fresh_reachable: "reachable client_start client_step client_fresh"
proof (rule reach_start)
  have "client_instantiate sample_chain empty_client host_info = Ok (client_fresh, [])"
    by (simp add: client_fresh_def client_instantiate_def sample_chain_def)
  then show "client_start client_fresh" unfolding client_start_def by blast
qed

lemma verify_osmosis [simp]: "verify_host_chain ''osmosis'' = Ok ()"
  by code_simp

lemma client_osmo_reachable: "reachable client_start client_step client_osmo"
proof -
  have "client_execute host_lib sample_client_lib sample_chain client_env client_fresh host_info
      (RegisterInfrastructure ''osmosis'' ''note'' ''host'')
    = Ok (client_osmo, [(NoteExecute ''note'' [] (Some \<lparr>cr_receiver = ''client'', cr_msg = ''who''\<rparr>)
        PACKET_LIFETIME, None)])"
    by (simp add: execute_register_infrastructure_def assert_client_owner_def client_fresh_def client_osmo_def
        host_info_def client_instantiate_def empty_client_def sample_chain_def has_def osmo_infra_def
        sample_client_lib_def client_env_def)
  then have "client_apply sample_client_lib client_fresh
      (CExec host_lib sample_chain client_env host_info (RegisterInfrastructure ''osmosis'' ''note'' ''host''))
    = Ok (client_osmo, [(NoteExecute ''note'' [] (Some \<lparr>cr_receiver = ''client'', cr_msg = ''who''\<rparr>)
        PACKET_LIFETIME, None)])" by simp
  from reach_step [OF client_fresh_reachable client_step.event [OF this]] show ?thesis .
qed

theorem client_notes_inverse_witness: "load (reverse_polytone_note client_osmo) ''note'' = Some ''osmosis''"
  using client_notes_inverse [OF client_osmo_reachable, of "''osmosis''" "''note''"]
  by (simp add: client_osmo_def osmo_infra_def)

lemma client_osmo_stores:
  "load (reverse_polytone_note client_osmo) = [''note'' \<mapsto> ''osmosis'']"
  "load (ibc_infra client_osmo) = [''osmosis'' \<mapsto> osmo_infra]"
  by (simp_all add: client_osmo_def)

lemma who_am_i_run:
  "client_execute host_lib sample_client_lib sample_chain client_env client_osmo
     \<lparr>info_sender = ''note'', info_funds = []\<rparr> (Callback who_am_i_callback)
   = Ok (client_osmo\<lparr>ibc_infra := [(''osmosis'', osmo_infra\<lparr>remote_proxy := Some ''proxy''\<rparr>)]\<rparr>, [])"
  by (simp add: receive_action_callback_def client_osmo_stores who_am_i_callback_def client_env_def
      sample_client_lib_def) (simp add: client_osmo_def)

theorem callback_authentic_witness:
  "\<exists>c i. load (ibc_infra client_osmo) c = Some i \<and> polytone_note i = ''note''
     \<and> only_chain c client_osmo (client_osmo\<lparr>ibc_infra := [(''osmosis'', osmo_infra\<lparr>remote_proxy := Some ''proxy''\<rparr>)]\<rparr>)"
  using callback_authentic [OF client_osmo_reachable who_am_i_run] by auto

lemma client_chain_facts:
  "client_code client_chain client_env = Ok 7"
  "client_registry client_chain 7 = Ok ''reg''"
  "client_ans client_chain 7 = Ok ''ans''"
  "registry_account client_chain ''reg'' (account_id_local 7) = Ok ''acct''"
  "client_assert_account client_chain ''reg'' ''acct'' = Ok ''acct''"
  "client_account_id client_chain a = Ok (account_id_local 7)"
  "resolve_ics20_channel client_host_lib ''ans'' ''osmosis'' = Ok ''channel-1''"
  by (simp_all add: client_chain_def sample_chain_def client_env_def code_defs client_code_def client_registry_def
      client_ans_def registry_contract_new_def ans_host_new_def client_assert_account_def assert_account_def
      unchecked_account_id_def registry_account_def raw_query_def load_def client_account_id_def
      resolve_ics20_channel_def query_channel_def ans_raw_def client_host_lib_def client_ans_state_def
      channel_key_def ICS20_def)

lemma juno_chain [simp]: "from_chain_id ''juno-1'' = ''juno''"
  by code_simp

definition sample_transfer :: msg_transfer where
  "sample_transfer = \<lparr>mt_source_port = ''transfer'', mt_source_channel = ''channel-1'', mt_token = Some paid_fee,
     mt_sender = ''client'', mt_receiver = ''host'', mt_timeout_timestamp = 3600000000001, mt_memo = ''host''\<rparr>"

definition client_sent :: client_state where
  "client_sent = client_osmo\<lparr>ics20_account_callback_payload := Some \<lparr>acp_channel_id = ''channel-1'',
     acp_account_address = ''acct'', acp_funds = paid_fee, acp_msgs = [''act'']\<rparr>\<rparr>"

lemma send_with_actions_run:
  "client_execute client_host_lib sample_client_lib client_chain client_env client_osmo acct_info
     (SendFundsWithActions ''osmosis'' [''act''])
   = Ok (client_sent, [(StargateTransfer sample_transfer, Some SEND_FUNDS_WITH_ACTIONS_REPLY_ID)])"
proof -
  have "packet_timeout client_env = Ok 3600000000001"
    by (simp add: packet_timeout_def client_env_def PACKET_LIFETIME_def checked_add_def)
  then show ?thesis
    by (simp add: execute_send_funds_with_actions_def acct_info_def client_chain_facts load_infra_def load_err_def
        client_osmo_stores ics_20_send_msg_def sample_client_lib_def osmo_infra_def client_sent_def
        sample_transfer_def) (simp add: client_env_def)
qed

lemma save_actions_run:
  "client_reply sample_client_lib client_sent
     \<lparr>rp_id = SEND_FUNDS_WITH_ACTIONS_REPLY_ID, rp_result = Ok (Some ''x'')\<rparr>
   = Ok (client_sent\<lparr>ics20_account_callbacks := [((SubKey ''channel-1'', 1), (''acct'', paid_fee, [''act'']))]\<rparr>, [])"
  by (simp add: client_reply_def save_callback_actions_def sample_client_lib_def client_sent_def client_osmo_def
      client_fresh_def client_instantiate_def empty_client_def sample_chain_def)

theorem funds_with_actions_settled_once_witness:
  "\<exists>st4. client_sudo (client_sent\<lparr>ics20_account_callbacks :=
       [((SubKey ''channel-1'', 1), (''acct'', paid_fee, [''act'']))]\<rparr>) (IBCTimeout ''channel-1'' 1)
     = Ok (st4, [(ClientPlain (BankSend ''acct'' [paid_fee]), None)])
   \<and> \<not> is_ok (client_sudo st4 (IBCAck ''channel-1'' 1 ''ack'' True))"
proof -
  have "cl_decode_transfer sample_client_lib ''x'' = Ok 1" by (simp add: sample_client_lib_def)
  from funds_with_actions_settled_once [OF send_with_actions_run save_actions_run this]
  have settled: "\<exists>st4. client_sudo st3 m = Ok (st4, map (\<lambda>x. (ClientPlain x, None)) (settlement ''acct'' paid_fee [''act''] m))
      \<and> (\<forall>m' st5. other_events sample_client_lib (packet_of m) st4 st5 \<longrightarrow> packet_of m' = packet_of m
          \<longrightarrow> \<not> is_ok (client_sudo st5 m'))"
    if "other_events sample_client_lib (SubKey ''channel-1'', 1) (client_sent\<lparr>ics20_account_callbacks :=
       [((SubKey ''channel-1'', 1), (''acct'', paid_fee, [''act'']))]\<rparr>) st3" "packet_of m = (SubKey ''channel-1'', 1)"
    for st3 m
    using that by (auto simp: sample_transfer_def acct_info_def)
  from settled [OF other_events.none, of "IBCTimeout ''channel-1'' 1"] obtain st4 where
    "client_sudo (client_sent\<lparr>ics20_account_callbacks :=
       [((SubKey ''channel-1'', 1), (''acct'', paid_fee, [''act'']))]\<rparr>) (IBCTimeout ''channel-1'' 1)
     = Ok (st4, [(ClientPlain (BankSend ''acct'' [paid_fee]), None)])"
    and "\<And>m'. packet_of m' = (SubKey ''channel-1'', 1) \<Longrightarrow> \<not> is_ok (client_sudo st4 m')"
    using other_events.none by fastforce
  then show ?thesis by auto
qed

lemma remote_dispatch_run:
  "client_execute client_host_lib sample_client_lib client_chain client_env client_osmo acct_info
     (RemoteAction ''osmosis'' (Dispatch [Execute []]))
   = Ok (client_osmo, [(NoteExecute ''note'' [RemoteCall ''host''
       (HostExecute (account_id_local 7) ''acct'' (Dispatch [Execute []]))] None PACKET_LIFETIME, None)])"
  by (simp add: execute_send_packet_def send_remote_host_action_def acct_info_def client_chain_facts
      load_infra_def load_err_def client_osmo_stores osmo_infra_def)

lemma acct_id: "q_account_id client_chain a = Ok (account_id_local 7)"
  by (simp add: client_chain_def)

theorem remote_dispatch_arrives_witness:
  "host_execute sample_platform host_lib (host_chain True) host_env host_juno \<lparr>info_sender = ''proxy'', info_funds = []\<rparr>
     (HostExecute (account_id_local 7) ''acct'' (Dispatch [Execute []]))
   = Ok (host_juno, [(ToAccount ''acct'' (Execute []), Some RESPONSE_REPLY_ID)])"
  using remote_dispatch_arrives [OF remote_dispatch_run, of host_juno "''proxy''" _ "host_chain True" host_env "''acct''"
      sample_platform host_lib]
  by (auto simp: client_env_def juno_src acct_id juno_account_pushed host_chain_get_account)

theorem funds_reach_remote_account_witness:
  "\<exists>hm. cl_json_memo sample_client_lib hm = Ok ''host''
     \<and> host_execute sample_platform host_lib (host_chain True) host_env host_juno
         \<lparr>info_sender = ''hook'', info_funds = [paid_fee]\<rparr> (hm_msg hm)
       = Ok (host_juno, [(Plain (BankSend ''acct'' [paid_fee]), None)])"
  using funds_reach_remote_account [OF send_with_actions_run, of _ "host_chain True" host_env "''acct''"
      sample_platform host_lib host_juno "''hook''" "[paid_fee]"]
  by (auto simp: client_env_def acct_id juno_account_pushed host_chain_get_account sample_transfer_def)

lemma client_chain_module_data:
  "q_module_data client_chain a
     = Ok \<lparr>md_module = ''dev:dex'', md_version = ''1.0.0'', md_dependencies = [], md_metadata = None\<rparr>"
  "q_contract_info client_chain a = Ok \<lparr>ci_code_id = 7, ci_admin = None\<rparr>"
  by (simp_all add: client_chain_def)

lemma client_chain_module:
  "sdk_module_info client_chain ''reg'' ''app'' = Ok \<lparr>m_info = paid_module, m_reference = App 7\<rparr>"
proof -
  have "registry_query_module client_chain ''reg'' paid_module = Ok \<lparr>m_info = paid_module, m_reference = App 7\<rparr>"
    by code_simp
  moreover have "module_info_from_id ''dev:dex'' (Version ''1.0.0'') = Ok paid_module" by code_simp
  ultimately show ?thesis
    by (simp add: sdk_module_info_def client_chain_module_data)
qed

lemma module_action_run:
  "\<exists>out. client_execute client_host_lib sample_client_lib client_chain client_env client_osmo
     \<lparr>info_sender = ''app'', info_funds = []\<rparr> (ModuleIbcAction ''osmosis'' paid_module ''{}'' None)
   = Ok (client_osmo, out)"
proof -
  have "registry_account_id client_chain ''reg'' ''acct'' = Ok (account_id_local 7)"
    by (simp add: registry_account_id_def unchecked_account_id_def acct_id client_chain_facts)
  then have "app_source client_host_lib sample_client_lib client_chain ''reg'' ''app'' paid_module
      = Ok \<lparr>im_module_info = paid_module, im_account_id = Some (account_id_local 7)\<rparr>"
    by (simp add: app_source_def client_chain_facts sample_client_lib_def client_host_lib_def load_def)
  then show ?thesis
    by (simp add: execute_send_module_to_module_packet_def client_chain_facts client_chain_module
      load_infra_def load_err_def client_osmo_stores)
qed

theorem module_packet_source_witness:
  "\<exists>m. sdk_module_info client_chain ''reg'' ''app'' = Ok m
     \<and> (m_reference m = Adapter ''app'' \<or> (\<exists>i. registry_account client_chain ''reg'' i = Ok ''acct''))"
proof -
  from module_action_run obtain out where
    "client_execute client_host_lib sample_client_lib client_chain client_env client_osmo
       \<lparr>info_sender = ''app'', info_funds = []\<rparr> (ModuleIbcAction ''osmosis'' paid_module ''{}'' None)
     = Ok (client_osmo, out)" by blast
  from module_packet_source [OF this] show ?thesis
    by (auto simp: client_chain_facts sample_client_lib_def)
qed

end
