(* ===== verification/Money_Market.thy ===== *)
theory Money_Market
  imports Dex
begin

text \<open>
  The adapter for money markets: the standard every market implements and its messages
  (\<open>packages/standards/money-market/src\<close>) and the adapter \<open>modules/contracts/adapters/money-market/src\<close> with its
  handlers, queries and the resolution of names.

  A money market is a trait object in the code, so here it is a record of functions over the data the market keeps
  between \<open>fetch_data\<close> and the action, as the exchanges of theory Dex. Which markets are compiled in is the list
  of features of the crate; JSON and the checks of \<open>cw_asset\<close> are fields of the parameter \<open>mm_lib\<close>.
\<close>

section \<open>Messages (standards/money-market/src/raw_action.rs, ans_action.rs, msg.rs)\<close>

type_synonym money_market_name = string

datatype money_market_error =
    MmAsset string
  | MmAns ans_query_error
  | UnknownMoneyMarket string
  | ForeignMoneyMarket string
  | MmUnsupportedAssetType string
  | MmArgumentMismatch string "string list"
  | MmNotImplemented string
  | MmIbcMsgQuery
  | MmInvalidGenerateMessage
  | ContractAddressEmpty
  | MmUnauthorized
  | ExpectedNative

type_synonym 'a mm_result = "('a, money_market_error) module_result"

datatype money_market_raw_request =
    RawDeposit "u256 asset"
  | RawWithdraw "u256 asset"
  | RawProvideCollateral asset_info "u256 asset"
  | RawWithdrawCollateral asset_info "u256 asset"
  | RawBorrow "u256 asset" asset_info
  | RawRepay "u256 asset" asset_info

record money_market_raw_action =
  ra_request :: money_market_raw_request
  ra_contract_addr :: string

datatype money_market_ans_action =
    AnsDeposit ans_asset
  | AnsWithdraw ans_asset
  | AnsProvideCollateral asset_entry ans_asset
  | AnsWithdrawCollateral asset_entry ans_asset
  | AnsBorrow ans_asset asset_entry
  | AnsRepay ans_asset asset_entry

datatype money_market_execute_msg =
    MmUpdateFee "decimal option" "u32 option"
  | AnsAction money_market_name money_market_ans_action
  | RawAction money_market_name money_market_raw_action

record money_market_instantiate_msg =
  mmi_fee :: decimal
  mmi_recipient_account :: u32

datatype money_market_query_msg =
    MmGenerateMessages money_market_execute_msg string
  | RawUserDeposit string asset_info string money_market_name
  | RawUserCollateral string asset_info asset_info string money_market_name
  | RawUserBorrow string asset_info asset_info string money_market_name
  | RawCurrentLTV string asset_info asset_info string money_market_name
  | RawMaxLTV string asset_info asset_info string money_market_name
  | RawPrice asset_info asset_info money_market_name
  | AnsUserDeposit string asset_entry money_market_name
  | AnsUserCollateral string asset_entry asset_entry money_market_name
  | AnsUserBorrow string asset_entry asset_entry money_market_name
  | AnsCurrentLTV string asset_entry asset_entry money_market_name
  | AnsMaxLTV string asset_entry asset_entry money_market_name
  | AnsPrice asset_entry asset_entry money_market_name
  | MmFees

datatype money_market_response =
    GenerateMessagesResponse "cosmos_msg list"
  | UserDepositResponse u128
  | UserCollateralResponse u128
  | UserBorrowResponse u128
  | UserCurrentLTVResponse decimal
  | UserMaxLTVResponse decimal
  | PriceResponse decimal
  | MoneyMarketFeesResponse usage_fee

text \<open>\<open>MoneyMarketQueryMsg::money_market\<close>: the market a query is for.\<close>

fun query_money_market :: "money_market_query_msg \<Rightarrow> (money_market_name, std_error) result" where
  "query_money_market (RawUserDeposit _ _ _ m) = Ok m"
| "query_money_market (RawUserCollateral _ _ _ _ m) = Ok m"
| "query_money_market (RawUserBorrow _ _ _ _ m) = Ok m"
| "query_money_market (RawCurrentLTV _ _ _ _ m) = Ok m"
| "query_money_market (RawMaxLTV _ _ _ _ m) = Ok m"
| "query_money_market (RawPrice _ _ m) = Ok m"
| "query_money_market (AnsUserDeposit _ _ m) = Ok m"
| "query_money_market (AnsUserCollateral _ _ _ m) = Ok m"
| "query_money_market (AnsUserBorrow _ _ _ m) = Ok m"
| "query_money_market (AnsCurrentLTV _ _ _ m) = Ok m"
| "query_money_market (AnsMaxLTV _ _ _ m) = Ok m"
| "query_money_market (AnsPrice _ _ m) = Ok m"
| "query_money_market (MmGenerateMessages _ _) = Err (StdMsg ''Wrong query type'')"
| "query_money_market MmFees = Err (StdMsg ''Wrong query type'')"

record mm_state = adapter_state +
  MONEY_MARKET_FEES :: "usage_fee option"

type_synonym mm_out = "mm_state module_out"

text \<open>The trait \<open>MoneyMarketCommand\<close>.\<close>

record 's money_market_command =
  mc_default :: 's
  mc_name :: string
  mc_fetch_data :: "'s \<Rightarrow> addr \<Rightarrow> addr \<Rightarrow> 's mm_result"
  mc_lending_address :: "'s \<Rightarrow> addr \<Rightarrow> asset_entry \<Rightarrow> addr ans_query_result"
  mc_collateral_address :: "'s \<Rightarrow> addr \<Rightarrow> asset_entry \<Rightarrow> asset_entry \<Rightarrow> addr ans_query_result"
  mc_borrow_address :: "'s \<Rightarrow> addr \<Rightarrow> asset_entry \<Rightarrow> asset_entry \<Rightarrow> addr ans_query_result"
  mc_current_ltv_address :: "'s \<Rightarrow> addr \<Rightarrow> asset_entry \<Rightarrow> asset_entry \<Rightarrow> addr ans_query_result"
  mc_max_ltv_address :: "'s \<Rightarrow> addr \<Rightarrow> asset_entry \<Rightarrow> asset_entry \<Rightarrow> addr ans_query_result"
  mc_deposit :: "'s \<Rightarrow> addr \<Rightarrow> u256 asset \<Rightarrow> cosmos_msg list mm_result"
  mc_withdraw :: "'s \<Rightarrow> addr \<Rightarrow> u256 asset \<Rightarrow> cosmos_msg list mm_result"
  mc_provide_collateral :: "'s \<Rightarrow> addr \<Rightarrow> u256 asset \<Rightarrow> cosmos_msg list mm_result"
  mc_withdraw_collateral :: "'s \<Rightarrow> addr \<Rightarrow> u256 asset \<Rightarrow> cosmos_msg list mm_result"
  mc_borrow :: "'s \<Rightarrow> addr \<Rightarrow> u256 asset \<Rightarrow> cosmos_msg list mm_result"
  mc_repay :: "'s \<Rightarrow> addr \<Rightarrow> u256 asset \<Rightarrow> cosmos_msg list mm_result"
  mc_price :: "'s \<Rightarrow> asset_info \<Rightarrow> asset_info \<Rightarrow> decimal mm_result"
  mc_user_deposit :: "'s \<Rightarrow> addr \<Rightarrow> addr \<Rightarrow> asset_info \<Rightarrow> u128 mm_result"
  mc_user_collateral :: "'s \<Rightarrow> addr \<Rightarrow> addr \<Rightarrow> asset_info \<Rightarrow> asset_info \<Rightarrow> u128 mm_result"
  mc_user_borrow :: "'s \<Rightarrow> addr \<Rightarrow> addr \<Rightarrow> asset_info \<Rightarrow> asset_info \<Rightarrow> u128 mm_result"
  mc_current_ltv :: "'s \<Rightarrow> addr \<Rightarrow> addr \<Rightarrow> asset_info \<Rightarrow> asset_info \<Rightarrow> decimal mm_result"
  mc_max_ltv :: "'s \<Rightarrow> addr \<Rightarrow> addr \<Rightarrow> asset_info \<Rightarrow> asset_info \<Rightarrow> decimal mm_result"

record 's mm_lib =
  mm_sdk :: "u256 sdk_lib"
  mm_features :: "string list"
  mm_market :: "string \<Rightarrow> 's money_market_command"
  mm_check_info :: asset_checker
  mm_json_adapter :: "money_market_execute_msg adapter_execute_msg \<Rightarrow> (binary, std_error) result"

section \<open>Names of markets (platform_resolver.rs)\<close>

definition identify_money_market :: "string list \<Rightarrow> string \<Rightarrow> identified_platform mm_result" where
  "identify_money_market features value =
     (if value = ''ghost''
      then Ok \<lparr>pf_name = value, pf_chains = (if ''local'' \<in> set features then LOCAL_CHAIN else KUJIRA)\<rparr>
      else Err (ModCustom (UnknownMoneyMarket value)))"

definition resolve_money_market :: "'s mm_lib \<Rightarrow> string \<Rightarrow> 's money_market_command mm_result" where
  "resolve_money_market ml value =
     (if (value, True) \<in> set [(''ghost'', ''ghost'' \<in> set (mm_features ml)), (''mars'', ''mars'' \<in> set (mm_features ml))]
      then Ok (mm_market ml value)
      else Err (ModCustom (ForeignMoneyMarket value)))"

definition mm_is_over_ibc :: "string list \<Rightarrow> env \<Rightarrow> string \<Rightarrow> (string \<times> bool) mm_result" where
  "mm_is_over_ibc features ev platform_name =
     (let (chain_name, local_platform_name) = decompose_platform_name platform_name
      in if chain_name \<noteq> None \<and> \<not> is_current_chain ev (the chain_name)
         then Ok (local_platform_name, True)
         else and_then (identify_money_market features local_platform_name) (\<lambda>platform_id.
           if \<not> is_available_on platform_id ev chain_name
           then Err (ModCustom (UnknownMoneyMarket platform_name))
           else Ok (local_platform_name, False)))"

section \<open>Resolution of names (standards/money-market/src/ans_action.rs, query.rs)\<close>

fun resolve_mm_action ::
  "u256 sdk_lib \<Rightarrow> addr \<Rightarrow> 's money_market_command \<Rightarrow> money_market_ans_action \<Rightarrow> money_market_raw_action ans_query_result" where
  "resolve_mm_action sl ans market (AnsDeposit lending_asset) =
     and_then (mc_lending_address market (mc_default market) ans (aa_name lending_asset)) (\<lambda>contract_addr.
     and_then (resolve_ans_asset sl ans lending_asset) (\<lambda>lending.
     Ok \<lparr>ra_request = RawDeposit lending, ra_contract_addr = contract_addr\<rparr>))"
| "resolve_mm_action sl ans market (AnsWithdraw lent_asset) =
     and_then (mc_lending_address market (mc_default market) ans (aa_name lent_asset)) (\<lambda>contract_addr.
     and_then (resolve_ans_asset sl ans lent_asset) (\<lambda>lent.
     Ok \<lparr>ra_request = RawWithdraw lent, ra_contract_addr = contract_addr\<rparr>))"
| "resolve_mm_action sl ans market (AnsProvideCollateral borrowable_asset collateral_asset) =
     and_then (mc_collateral_address market (mc_default market) ans borrowable_asset (aa_name collateral_asset)) (\<lambda>contract_addr.
     and_then (query_asset (sl_ans sl) ans borrowable_asset) (\<lambda>borrowable.
     and_then (resolve_ans_asset sl ans collateral_asset) (\<lambda>collateral.
     Ok \<lparr>ra_request = RawProvideCollateral borrowable collateral, ra_contract_addr = contract_addr\<rparr>)))"
| "resolve_mm_action sl ans market (AnsWithdrawCollateral borrowable_asset collateral_asset) =
     and_then (mc_collateral_address market (mc_default market) ans borrowable_asset (aa_name collateral_asset)) (\<lambda>contract_addr.
     and_then (query_asset (sl_ans sl) ans borrowable_asset) (\<lambda>borrowable.
     and_then (resolve_ans_asset sl ans collateral_asset) (\<lambda>collateral.
     Ok \<lparr>ra_request = RawWithdrawCollateral borrowable collateral, ra_contract_addr = contract_addr\<rparr>)))"
| "resolve_mm_action sl ans market (AnsBorrow borrow_asset collateral_asset) =
     and_then (mc_borrow_address market (mc_default market) ans (aa_name borrow_asset) collateral_asset) (\<lambda>contract_addr.
     and_then (resolve_ans_asset sl ans borrow_asset) (\<lambda>borrowed.
     and_then (query_asset (sl_ans sl) ans collateral_asset) (\<lambda>collateral.
     Ok \<lparr>ra_request = RawBorrow borrowed collateral, ra_contract_addr = contract_addr\<rparr>)))"
| "resolve_mm_action sl ans market (AnsRepay borrowed_asset collateral_asset) =
     and_then (mc_borrow_address market (mc_default market) ans (aa_name borrowed_asset) collateral_asset) (\<lambda>contract_addr.
     and_then (resolve_ans_asset sl ans borrowed_asset) (\<lambda>borrowed.
     and_then (query_asset (sl_ans sl) ans collateral_asset) (\<lambda>collateral.
     Ok \<lparr>ra_request = RawRepay borrowed collateral, ra_contract_addr = contract_addr\<rparr>)))"

text \<open>The market of a query is resolved by its full name, and failing becomes a text.\<close>

definition query_platform :: "'s mm_lib \<Rightarrow> string \<Rightarrow> 's money_market_command ans_query_result" where
  "query_platform ml money_market =
     map_err (\<lambda>_. AnsQueryFailed ''resolve money market'' (StdMsg ''money market'')) (resolve_money_market ml money_market)"

definition resolve_pair ::
  "'s mm_lib \<Rightarrow> addr \<Rightarrow> ('s money_market_command \<Rightarrow> 's \<Rightarrow> addr \<Rightarrow> asset_entry \<Rightarrow> asset_entry \<Rightarrow> addr ans_query_result)
   \<Rightarrow> money_market_name \<Rightarrow> asset_entry \<Rightarrow> asset_entry \<Rightarrow> (asset_info \<times> asset_info \<times> addr) ans_query_result" where
  "resolve_pair ml ans address_of money_market collateral_asset borrowed_asset =
     and_then (query_platform ml money_market) (\<lambda>market.
     and_then (address_of market (mc_default market) ans borrowed_asset collateral_asset) (\<lambda>contract_addr.
     and_then (query_asset (sl_ans (mm_sdk ml)) ans collateral_asset) (\<lambda>collateral.
     and_then (query_asset (sl_ans (mm_sdk ml)) ans borrowed_asset) (\<lambda>borrowed.
     Ok (collateral, borrowed, contract_addr)))))"

fun resolve_mm_query :: "'s mm_lib \<Rightarrow> addr \<Rightarrow> money_market_query_msg \<Rightarrow> money_market_query_msg ans_query_result" where
  "resolve_mm_query ml ans (AnsUserDeposit user named m) =
     and_then (query_platform ml m) (\<lambda>market.
     and_then (mc_lending_address market (mc_default market) ans named) (\<lambda>contract_addr.
     and_then (query_asset (sl_ans (mm_sdk ml)) ans named) (\<lambda>info.
     Ok (RawUserDeposit user info contract_addr m))))"
| "resolve_mm_query ml ans (AnsUserCollateral user collateral_asset borrowed_asset m) =
     map_ok (\<lambda>(c, b, a). RawUserCollateral user c b a m)
       (resolve_pair ml ans mc_collateral_address m collateral_asset borrowed_asset)"
| "resolve_mm_query ml ans (AnsUserBorrow user collateral_asset borrowed_asset m) =
     map_ok (\<lambda>(c, b, a). RawUserBorrow user c b a m)
       (resolve_pair ml ans mc_borrow_address m collateral_asset borrowed_asset)"
| "resolve_mm_query ml ans (AnsCurrentLTV user collateral_asset borrowed_asset m) =
     map_ok (\<lambda>(c, b, a). RawCurrentLTV user c b a m)
       (resolve_pair ml ans mc_current_ltv_address m collateral_asset borrowed_asset)"
| "resolve_mm_query ml ans (AnsMaxLTV user collateral_asset borrowed_asset m) =
     map_ok (\<lambda>(c, b, a). RawMaxLTV user c b a m)
       (resolve_pair ml ans mc_max_ltv_address m collateral_asset borrowed_asset)"
| "resolve_mm_query ml ans (AnsPrice quote base m) =
     and_then (query_asset (sl_ans (mm_sdk ml)) ans quote) (\<lambda>q.
     and_then (query_asset (sl_ans (mm_sdk ml)) ans base) (\<lambda>b. Ok (RawPrice q b m)))"
| "resolve_mm_query ml ans qry = Ok qry"

section \<open>Actions (adapter.rs)\<close>

definition DEPOSIT :: u64 where "DEPOSIT = 8142"
definition WITHDRAW :: u64 where "WITHDRAW = 8143"
definition PROVIDE_COLLATERAL :: u64 where "PROVIDE_COLLATERAL = 8144"
definition WITHDRAW_COLLATERAL :: u64 where "WITHDRAW_COLLATERAL = 8145"
definition BORROW :: u64 where "BORROW = 8146"
definition REPAY :: u64 where "REPAY = 8147"

definition mm_check_asset :: "'s mm_lib \<Rightarrow> u256 asset \<Rightarrow> u256 asset mm_result" where
  "mm_check_asset ml a =
     and_then (map_err (\<lambda>e. ModCustom (MmAsset e)) (mm_check_info ml (as_info a))) (\<lambda>i. Ok (a\<lparr>as_info := i\<rparr>))"

definition market_data :: "chain \<Rightarrow> mm_state \<Rightarrow> addr \<Rightarrow> 's money_market_command \<Rightarrow> 's mm_result" where
  "market_data ch st sndr market =
     and_then (map_err ModSdk (adapter_ans_host ch st)) (\<lambda>ans. mc_fetch_data market (mc_default market) sndr ans)"

text \<open>The five actions without a fee have the same body but for the call of the market.\<close>

definition on_market ::
  "'s mm_lib \<Rightarrow> chain \<Rightarrow> mm_state \<Rightarrow> addr \<Rightarrow> u256 asset \<Rightarrow> string \<Rightarrow> 's money_market_command
   \<Rightarrow> ('s \<Rightarrow> addr \<Rightarrow> u256 asset \<Rightarrow> 'r mm_result) \<Rightarrow> 'r mm_result" where
  "on_market ml ch st sndr moved contract_addr market act =
     and_then (map_err ModStd (q_addr_validate ch contract_addr)) (\<lambda>contract_addr.
     and_then (mm_check_asset ml moved) (\<lambda>moved.
     and_then (market_data ch st sndr market) (\<lambda>x. act x contract_addr moved)))"

definition load_mm_fees :: "mm_state \<Rightarrow> usage_fee mm_result" where
  "load_mm_fees st = ok_or (ModStd (StdNotFound ''money_market_fees'')) (MONEY_MARKET_FEES st)"

definition resolve_deposit where
  "resolve_deposit ml ch st sndr lending_asset contract_addr market =
     on_market ml ch st sndr lending_asset contract_addr market (mc_deposit market)"

text \<open>The fee is computed from the amount that was asked for and paid beside the withdrawal.\<close>

definition resolve_withdraw ::
  "'s mm_lib \<Rightarrow> chain \<Rightarrow> mm_state \<Rightarrow> addr \<Rightarrow> u256 asset \<Rightarrow> string \<Rightarrow> 's money_market_command \<Rightarrow> cosmos_msg list mm_result" where
  "resolve_withdraw ml ch st sndr lent_asset contract_addr market =
     on_market ml ch st sndr lent_asset contract_addr market (\<lambda>x contract_addr lent.
     and_then (mc_withdraw market x contract_addr lent) (\<lambda>withdraw_msgs.
     and_then (load_mm_fees st) (\<lambda>fees.
     and_then (map_err ModSdk (charge_usage_fee (mm_sdk ml) lent fees)) (\<lambda>(fee_transfer, _).
     Ok (push_fee withdraw_msgs fee_transfer)))))"

definition resolve_provide_collateral where
  "resolve_provide_collateral ml ch st sndr (_ :: asset_info) collateral_asset contract_addr market =
     on_market ml ch st sndr collateral_asset contract_addr market (mc_provide_collateral market)"

definition resolve_withdraw_collateral where
  "resolve_withdraw_collateral ml ch st sndr (_ :: asset_info) collateral_asset contract_addr market =
     on_market ml ch st sndr collateral_asset contract_addr market (mc_withdraw_collateral market)"

definition resolve_borrow where
  "resolve_borrow ml ch st sndr borrowed_asset (_ :: asset_info) contract_addr market =
     on_market ml ch st sndr borrowed_asset contract_addr market (mc_borrow market)"

definition resolve_repay where
  "resolve_repay ml ch st sndr borrowed_asset (_ :: asset_info) contract_addr market =
     on_market ml ch st sndr borrowed_asset contract_addr market (mc_repay market)"

definition resolve_money_market_action ::
  "'s mm_lib \<Rightarrow> chain \<Rightarrow> mm_state \<Rightarrow> addr \<Rightarrow> money_market_raw_action \<Rightarrow> 's money_market_command
   \<Rightarrow> (cosmos_msg list \<times> u64) mm_result" where
  "resolve_money_market_action ml ch st sndr action market =
     (let to = ra_contract_addr action
      in case ra_request action of
        RawDeposit a \<Rightarrow> map_ok (\<lambda>ms. (ms, DEPOSIT)) (resolve_deposit ml ch st sndr a to market)
      | RawWithdraw a \<Rightarrow> map_ok (\<lambda>ms. (ms, WITHDRAW)) (resolve_withdraw ml ch st sndr a to market)
      | RawProvideCollateral b c \<Rightarrow>
          map_ok (\<lambda>ms. (ms, PROVIDE_COLLATERAL)) (resolve_provide_collateral ml ch st sndr b c to market)
      | RawWithdrawCollateral b c \<Rightarrow>
          map_ok (\<lambda>ms. (ms, WITHDRAW_COLLATERAL)) (resolve_withdraw_collateral ml ch st sndr b c to market)
      | RawBorrow b c \<Rightarrow> map_ok (\<lambda>ms. (ms, BORROW)) (resolve_borrow ml ch st sndr b c to market)
      | RawRepay b c \<Rightarrow> map_ok (\<lambda>ms. (ms, REPAY)) (resolve_repay ml ch st sndr b c to market))"

section \<open>Handlers (handlers/instantiate.rs, handlers/execute.rs)\<close>

definition MONEY_MARKET_ADAPTER_ID :: string where "MONEY_MARKET_ADAPTER_ID = ''abstract:money-market''"

definition mm_instantiate ::
  "chain \<Rightarrow> env \<Rightarrow> message_info \<Rightarrow> mm_state \<Rightarrow> money_market_instantiate_msg \<Rightarrow> mm_out mm_result" where
  "mm_instantiate ch ev info st msg =
     and_then (fee_recipient ch st (mmi_recipient_account msg)) (\<lambda>recipient.
     and_then (map_err ModAbstract (usage_fee_new (mmi_fee msg) recipient)) (\<lambda>fees.
     Ok (st\<lparr>MONEY_MARKET_FEES := Some fees\<rparr>, [])))"

definition mm_local_request ::
  "'s mm_lib \<Rightarrow> chain \<Rightarrow> mm_state \<Rightarrow> addr option \<Rightarrow> string \<Rightarrow> money_market_raw_action \<Rightarrow> mm_out mm_result" where
  "mm_local_request ml ch st target_account money_market action =
     and_then (resolve_money_market ml money_market) (\<lambda>market.
     and_then (map_err ModSdk (module_account target_account)) (\<lambda>account.
     and_then (resolve_money_market_action ml ch st account action market) (\<lambda>(msgs, _).
     and_then (map_err ModSdk (executor_execute target_account [msgs])) (\<lambda>account_msg.
     Ok (st, [account_msg])))))"

definition resolve_named_action ::
  "'s mm_lib \<Rightarrow> chain \<Rightarrow> mm_state \<Rightarrow> string \<Rightarrow> money_market_ans_action \<Rightarrow> money_market_raw_action mm_result" where
  "resolve_named_action ml ch st money_market action =
     and_then (resolve_money_market ml money_market) (\<lambda>market.
     and_then (unwrap_res (adapter_ans_host ch st)) (\<lambda>ans.
     map_err (\<lambda>e. ModSdk (SdkAnsHost e)) (resolve_mm_action (mm_sdk ml) ans market action)))"

definition mm_update_fee ::
  "chain \<Rightarrow> mm_state \<Rightarrow> addr option \<Rightarrow> decimal option \<Rightarrow> u32 option \<Rightarrow> mm_out mm_result" where
  "mm_update_fee ch st target_account money_market_fee recipient_account_id =
     and_then (map_err ModSdk (adapter_registry ch st)) (\<lambda>registry.
     and_then (map_err (\<lambda>e. ModSdk (SdkRegistry e)) (query_namespace ch registry ABSTRACT_NAMESPACE)) (\<lambda>namespace.
     and_then (unwrap_namespace namespace) (\<lambda>namespace_info.
     and_then (unwrap target_account) (\<lambda>target.
     if snd namespace_info \<noteq> target then Err (ModCustom MmUnauthorized)
     else
       and_then (load_mm_fees st) (\<lambda>fee.
       and_then (case money_market_fee of
           Some shr \<Rightarrow> map_err ModAbstract (usage_fee_set_share fee shr)
         | None \<Rightarrow> Ok fee) (\<lambda>fee.
       and_then (case recipient_account_id of
           Some account_id \<Rightarrow> map_ok (usage_fee_set_recipient fee) (fee_recipient ch st account_id)
         | None \<Rightarrow> Ok fee) (\<lambda>fee.
       Ok (st\<lparr>MONEY_MARKET_FEES := Some fee\<rparr>, []))))))))"

text \<open>An action on another chain is \<open>unimplemented!\<close>.\<close>

fun mm_execute ::
  "'s mm_lib \<Rightarrow> chain \<Rightarrow> env \<Rightarrow> message_info \<Rightarrow> addr option \<Rightarrow> mm_state \<Rightarrow> money_market_execute_msg \<Rightarrow> mm_out mm_result" where
  "mm_execute ml ch ev info target_account st (AnsAction money_market_name action) =
     and_then (mm_is_over_ibc (mm_features ml) ev money_market_name) (\<lambda>(local_name, over_ibc).
     and_then (resolve_named_action ml ch st local_name action) (\<lambda>raw_action.
     if over_ibc then Panic else mm_local_request ml ch st target_account local_name raw_action))"
| "mm_execute ml ch ev info target_account st (RawAction money_market_name action) =
     and_then (mm_is_over_ibc (mm_features ml) ev money_market_name) (\<lambda>(local_name, over_ibc).
     if over_ibc then Panic else mm_local_request ml ch st target_account local_name action)"
| "mm_execute ml ch ev info target_account st (MmUpdateFee money_market_fee recipient_account_id) =
     mm_update_fee ch st target_account money_market_fee recipient_account_id"

definition money_market_adapter ::
  "'s mm_lib \<Rightarrow> (mm_state, money_market_instantiate_msg, money_market_execute_msg, unit, unit, money_market_error) abstract_contract" where
  "money_market_adapter ml = \<lparr>ac_name = MONEY_MARKET_ADAPTER_ID, ac_version = CONTRACT_VERSION, ac_metadata = None,
     ac_dependencies = [], ac_instantiate = Some mm_instantiate, ac_execute = Some (mm_execute ml),
     ac_migrate = None, ac_sudo = None, ac_replies = [], ac_ibc_callback = None, ac_module_ibc = None\<rparr>"

section \<open>Queries (handlers/query.rs)\<close>

definition mm_raw_messages ::
  "'s mm_lib \<Rightarrow> chain \<Rightarrow> env \<Rightarrow> mm_state \<Rightarrow> money_market_name \<Rightarrow> money_market_raw_action \<Rightarrow> string \<Rightarrow> cosmos_msg list mm_result" where
  "mm_raw_messages ml ch ev st money_market action addr_as_sender =
     and_then (mm_is_over_ibc (mm_features ml) ev money_market) (\<lambda>(local_name, over_ibc).
     if over_ibc then Err (ModCustom MmIbcMsgQuery)
     else
       and_then (resolve_money_market ml local_name) (\<lambda>market.
       and_then (map_err ModStd (q_addr_validate ch addr_as_sender)) (\<lambda>addr_as_sender.
       and_then (resolve_money_market_action ml ch st addr_as_sender action market) (\<lambda>(messages, _).
       Ok messages))))"

fun mm_generate_messages ::
  "'s mm_lib \<Rightarrow> chain \<Rightarrow> env \<Rightarrow> mm_state \<Rightarrow> money_market_execute_msg \<Rightarrow> string \<Rightarrow> cosmos_msg list mm_result" where
  "mm_generate_messages ml ch ev st (AnsAction money_market action) addr_as_sender =
     and_then (resolve_named_action ml ch st money_market action) (\<lambda>raw.
     mm_raw_messages ml ch ev st money_market raw addr_as_sender)"
| "mm_generate_messages ml ch ev st (RawAction money_market action) addr_as_sender =
     mm_raw_messages ml ch ev st money_market action addr_as_sender"
| "mm_generate_messages ml ch ev st (MmUpdateFee _ _) addr_as_sender = Err (ModCustom MmInvalidGenerateMessage)"

definition mm_check :: "'s mm_lib \<Rightarrow> asset_info \<Rightarrow> asset_info mm_result" where
  "mm_check ml i = map_err (\<lambda>e. ModCustom (MmAsset e)) (mm_check_info ml i)"

definition user_pair_query ::
  "'s mm_lib \<Rightarrow> chain \<Rightarrow> mm_state \<Rightarrow> 's money_market_command \<Rightarrow> string \<Rightarrow> asset_info \<Rightarrow> asset_info \<Rightarrow> string
   \<Rightarrow> ('s \<Rightarrow> addr \<Rightarrow> addr \<Rightarrow> asset_info \<Rightarrow> asset_info \<Rightarrow> 'r mm_result) \<Rightarrow> 'r mm_result" where
  "user_pair_query ml ch st market user collateral_asset borrowed_asset contract_addr ask =
     and_then (map_err ModStd (q_addr_validate ch user)) (\<lambda>user.
     and_then (map_err ModStd (q_addr_validate ch contract_addr)) (\<lambda>contract_addr.
     and_then (mm_check ml collateral_asset) (\<lambda>collateral.
     and_then (mm_check ml borrowed_asset) (\<lambda>borrowed.
     and_then (market_data ch st user market) (\<lambda>x. ask x contract_addr user borrowed collateral)))))"

definition handle_local_query ::
  "'s mm_lib \<Rightarrow> chain \<Rightarrow> env \<Rightarrow> mm_state \<Rightarrow> string \<Rightarrow> money_market_query_msg \<Rightarrow> money_market_response mm_result" where
  "handle_local_query ml ch ev st money_market qry =
     and_then (resolve_money_market ml money_market) (\<lambda>market.
     and_then (map_err ModSdk (adapter_ans_host ch st)) (\<lambda>_.
     case qry of
       RawUserDeposit user a contract_addr _ \<Rightarrow>
         and_then (map_err ModStd (q_addr_validate ch user)) (\<lambda>user.
         and_then (map_err ModStd (q_addr_validate ch contract_addr)) (\<lambda>contract_addr.
         and_then (mm_check ml a) (\<lambda>a.
         and_then (market_data ch st user market) (\<lambda>x.
         map_ok UserDepositResponse (mc_user_deposit market x contract_addr user a)))))
     | RawUserCollateral user c b contract_addr _ \<Rightarrow>
         map_ok UserCollateralResponse (user_pair_query ml ch st market user c b contract_addr (mc_user_collateral market))
     | RawUserBorrow user c b contract_addr _ \<Rightarrow>
         map_ok UserBorrowResponse (user_pair_query ml ch st market user c b contract_addr (mc_user_borrow market))
     | RawCurrentLTV user c b contract_addr _ \<Rightarrow>
         map_ok UserCurrentLTVResponse (user_pair_query ml ch st market user c b contract_addr (mc_current_ltv market))
     | RawMaxLTV user c b contract_addr _ \<Rightarrow>
         map_ok UserMaxLTVResponse (user_pair_query ml ch st market user c b contract_addr (mc_max_ltv market))
     | RawPrice quote base _ \<Rightarrow>
         and_then (mm_check ml quote) (\<lambda>quote.
         and_then (mm_check ml base) (\<lambda>base.
         and_then (market_data ch st (env_contract ev) market) (\<lambda>x.
         map_ok PriceResponse (mc_price market x base quote))))
     | _ \<Rightarrow> Err (ModStd (StdMsg ''Can't treat non-local ans query, unreachable''))))"

definition mm_fees_query :: "mm_state \<Rightarrow> usage_fee mm_result" where
  "mm_fees_query st = load_mm_fees st"

definition mm_query ::
  "'s mm_lib \<Rightarrow> chain \<Rightarrow> env \<Rightarrow> mm_state \<Rightarrow> money_market_query_msg \<Rightarrow> money_market_response mm_result" where
  "mm_query ml ch ev st msg =
     and_then (unwrap_res (adapter_ans_host ch st)) (\<lambda>ans.
     and_then (map_err (\<lambda>e. ModSdk (SdkAnsHost e)) (resolve_mm_query ml ans msg)) (\<lambda>msg.
     case msg of
       MmGenerateMessages message addr_as_sender \<Rightarrow>
         map_ok GenerateMessagesResponse (mm_generate_messages ml ch ev st message addr_as_sender)
     | MmFees \<Rightarrow> map_ok MoneyMarketFeesResponse (mm_fees_query st)
     | _ \<Rightarrow>
         and_then (map_err ModStd (query_money_market msg)) (\<lambda>money_market.
         and_then (mm_is_over_ibc (mm_features ml) ev money_market) (\<lambda>(local_name, over_ibc).
         if over_ibc then Panic else handle_local_query ml ch ev st local_name msg))))"

section \<open>The adapter for other modules (api.rs)\<close>

definition mm_api_execute ::
  "'s mm_lib \<Rightarrow> account_querier \<Rightarrow> dependency list \<Rightarrow> addr option \<Rightarrow> string \<Rightarrow> money_market_name \<Rightarrow> money_market_raw_action
   \<Rightarrow> (cosmos_msg, sdk_error) result" where
  "mm_api_execute ml qa dps base_account mid name action =
     adapters_execute (mm_json_adapter ml) qa dps base_account mid (RawAction name action)"

definition ans_mm_api_execute ::
  "'s mm_lib \<Rightarrow> account_querier \<Rightarrow> dependency list \<Rightarrow> addr option \<Rightarrow> string \<Rightarrow> money_market_name \<Rightarrow> money_market_ans_action
   \<Rightarrow> (cosmos_msg, sdk_error) result" where
  "ans_mm_api_execute ml qa dps base_account mid name action =
     adapters_execute (mm_json_adapter ml) qa dps base_account mid (AnsAction name action)"

text \<open>A query goes to the standard adapter, whatever id the interface was given.\<close>

definition mm_api_query ::
  "(addr \<Rightarrow> money_market_query_msg \<Rightarrow> (money_market_response, std_error) result) \<Rightarrow> account_querier \<Rightarrow> addr option
   \<Rightarrow> money_market_query_msg \<Rightarrow> (money_market_response, sdk_error) result" where
  "mm_api_query smart qa base_account qry = adapters_query smart qa base_account MONEY_MARKET_ADAPTER_ID qry"

end
