(* ===== verification/Money_Market_Safety.thy ===== *)
theory Money_Market_Safety
  imports Money_Market Dex_Safety
begin

text \<open>
  What the adapter for money markets guarantees: the share of the fee stays below the whole and only the account that
  holds the namespace of the framework changes it, a withdrawal pays the fee once and no other action pays one,
  an action with names is the action on what the names resolve to, and the query for messages answers those of an
  execution. At the end, where the code does something else than it says.
\<close>

section \<open>Requests\<close>

lemma mm_local_request_Ok:
  assumes "mm_local_request ml ch st (Some account) name action = Ok (st', out)"
  obtains market msgs i where "resolve_money_market ml name = Ok market" and "st' = st"
    and "resolve_money_market_action ml ch st account action market = Ok (msgs, i)"
    and "out = [OnAccount account (Execute msgs) []]"
  using assms unfolding mm_local_request_def and_then_Ok
  by (auto simp: module_account_def result_simps intro: that)

lemma mm_update_fee_Ok:
  assumes "mm_update_fee ch st target_account shr recipient = Ok (st', out)"
  obtains registry i account f f' where "target_account = Some account" and "adapter_registry ch st = Ok registry"
    and "query_namespace ch registry ABSTRACT_NAMESPACE = Ok (Claimed i account)" and "out = []"
    and "MONEY_MARKET_FEES st = Some f" and "st' = st\<lparr>MONEY_MARKET_FEES := Some f'\<rparr>"
    and "uf_fee f < 10 ^ 18 \<Longrightarrow> uf_fee f' < 10 ^ 18"
  using assms unfolding mm_update_fee_def and_then_Ok
  by (auto simp: unwrap_namespace_def load_mm_fees_def usage_fee_set_share_def usage_fee_set_recipient_def result_simps
      split: if_splits namespace_response.splits option.splits intro: that)

lemma mm_action_Ok:
  assumes "mm_execute ml ch ev info (Some account) st msg = Ok (st', out)" and "\<nexists>f r. msg = MmUpdateFee f r"
  obtains msgs where "st' = st" and "out = [OnAccount account (Execute msgs) []]"
  using assms by (cases msg) (auto simp: result_simps elim!: mm_local_request_Ok split: if_splits)

lemma mm_execute_on_account:
  assumes "mm_execute ml ch ev info (Some account) st msg = Ok (st', out)" and "m \<in> set out"
  shows "\<exists>call fnds. m = OnAccount account call fnds"
proof (cases "\<exists>f r. msg = MmUpdateFee f r")
  case True
  with assms(1) obtain f r where "mm_update_fee ch st (Some account) f r = Ok (st', out)" by auto
  then have "out = []" by (elim mm_update_fee_Ok)
  with assms(2) show ?thesis by simp
next
  case False
  from assms(1) False obtain msgs where "out = [OnAccount account (Execute msgs) []]" by (rule mm_action_Ok)
  with assms(2) show ?thesis by simp
qed

interpretation market_calls: account_adapter "money_market_adapter ml" "mm_execute ml" for ml :: "'s mm_lib"
  by unfold_locales (simp_all add: money_market_adapter_def mm_execute_on_account)

section \<open>Fees\<close>

definition mm_fee_ok :: "mm_state \<Rightarrow> bool" where
  "mm_fee_ok st \<longleftrightarrow> (\<exists>f. MONEY_MARKET_FEES st = Some f \<and> uf_fee f < 10 ^ 18)"

inductive mm_start :: "'s mm_lib \<Rightarrow> mm_state \<Rightarrow> bool" for ml where
  "adapter_instantiate (money_market_adapter ml) ch ev st0 info registry msg = Ok (st, ms) \<Longrightarrow> mm_start ml st"

inductive mm_step :: "'s mm_lib \<Rightarrow> mm_state \<Rightarrow> mm_state \<Rightarrow> bool" for ml where
  "adapter_execute qa (money_market_adapter ml) ch ev st info msg = Ok (st', ms) \<Longrightarrow> mm_step ml st st'"

inductive_cases mm_startE: "mm_start ml st"
inductive_cases mm_stepE: "mm_step ml st st'"

lemma mm_execute_fee_ok:
  assumes "mm_execute ml ch ev info (Some account) st msg = Ok (st', out)" and "mm_fee_ok st"
  shows "mm_fee_ok st'"
proof (cases "\<exists>f r. msg = MmUpdateFee f r")
  case True
  with assms(1) obtain f r where "mm_update_fee ch st (Some account) f r = Ok (st', out)" by auto
  then show ?thesis using assms(2) by (elim mm_update_fee_Ok) (auto simp: mm_fee_ok_def)
next
  case False
  from assms(1) False have "st' = st" by (rule mm_action_Ok)
  with assms(2) show ?thesis by simp
qed

interpretation market: invariant "mm_start ml" "mm_step ml" mm_fee_ok for ml :: "'s mm_lib"
proof
  fix st assume "mm_start ml st"
  then show "mm_fee_ok st"
    by (auto simp: adapter_instantiate_def money_market_adapter_def mm_instantiate_def usage_fee_new_def mm_fee_ok_def
        Let_def result_simps elim!: mm_startE)
next
  fix st st' assume ok: "mm_fee_ok st" and "mm_step ml st st'"
  then obtain qa ch ev info msg ms where "adapter_execute qa (money_market_adapter ml) ch ev st info msg = Ok (st', ms)"
    by (elim mm_stepE)
  then show "mm_fee_ok st'"
  proof (cases rule: market_calls.execute_cases)
    case request
    then show ?thesis using ok by (blast intro: mm_execute_fee_ok)
  next
    case base
    then show ?thesis using ok by (simp add: mm_fee_ok_def)
  qed
qed

text \<open>
  the stored fee and its recipient change only by a request on behalf of the account that holds the
  namespace of the framework, from a sender that may act for it.
\<close>

theorem mm_fee_changed_by_abstract_only:
  assumes "adapter_execute qa (money_market_adapter ml) ch ev st info msg = Ok (st', out)"
    and "MONEY_MARKET_FEES st' \<noteq> MONEY_MARKET_FEES st"
  shows "\<exists>account_address f r registry i account. msg = AdapterModule account_address (MmUpdateFee f r)
    \<and> adapter_registry ch st = Ok registry \<and> query_namespace ch registry ABSTRACT_NAMESPACE = Ok (Claimed i account)
    \<and> may_act_for ch st (info_sender info) account"
  using assms(1)
proof (cases rule: market_calls.execute_cases)
  case (request account_address req account)
  show ?thesis
  proof (cases "\<exists>f r. req = MmUpdateFee f r")
    case True
    then obtain f r where req: "req = MmUpdateFee f r" by blast
    with request(2) have "mm_update_fee ch st (Some account) f r = Ok (st', out)" by simp
    then obtain registry i where "adapter_registry ch st = Ok registry"
      "query_namespace ch registry ABSTRACT_NAMESPACE = Ok (Claimed i account)" by (elim mm_update_fee_Ok) auto
    with request req show ?thesis by blast
  next
    case False
    from request(2) False have "st' = st" by (rule mm_action_Ok)
    with assms(2) show ?thesis by simp
  qed
next
  case base
  with assms(2) show ?thesis by simp
qed

lemma resolve_withdraw_Ok:
  assumes "resolve_withdraw ml ch st account lent contract_addr market = Ok msgs"
  obtains to i x fees withdraw_msgs fee_transfer rest where "q_addr_validate ch contract_addr = Ok to"
    and "mm_check_info ml (as_info lent) = Ok i" and "market_data ch st account market = Ok x"
    and "mc_withdraw market x to (lent\<lparr>as_info := i\<rparr>) = Ok withdraw_msgs" and "MONEY_MARKET_FEES st = Some fees"
    and "charge_usage_fee (mm_sdk ml) (lent\<lparr>as_info := i\<rparr>) fees = Ok (fee_transfer, rest)"
    and "msgs = push_fee withdraw_msgs fee_transfer"
  using assms unfolding resolve_withdraw_def on_market_def mm_check_asset_def load_mm_fees_def and_then_Ok map_err_Ok
  by (auto simp: result_simps intro: that)

text \<open>
  a withdrawal asks the market for the whole amount and then pays the stored share of it, rounded down and
  smaller than the amount unless both are zero, to the stored recipient; nothing is sent for a fee of zero.
\<close>

theorem mm_withdraw_pays_fee_once:
  assumes "ratio_laws (mm_sdk ml)" and "reachable (mm_start ml) (mm_step ml) st" and "MONEY_MARKET_FEES st = Some f"
    and "mm_is_over_ibc (mm_features ml) ev full_name = Ok (name, False)"
    and "mm_execute ml ch ev info (Some account) st (RawAction full_name \<lparr>ra_request = RawWithdraw lent, ra_contract_addr = c\<rparr>)
      = Ok (st', out)"
  shows "\<exists>to i x fee withdraw_msgs fee_msgs. st' = st
    \<and> mc_withdraw (mm_market ml name) x to (lent\<lparr>as_info := i\<rparr>) = Ok withdraw_msgs
    \<and> unat fee = unat (as_amount lent) * unat (uf_fee f) div 10 ^ 18 \<and> fee \<le> as_amount lent
    \<and> (if fee = 0 then fee_msgs = []
       else \<exists>m. sl_transfer_msg (mm_sdk ml) \<lparr>as_info = i, as_amount = fee\<rparr> (uf_recipient f) = Ok m \<and> fee_msgs = [m])
    \<and> out = [OnAccount account (Execute (withdraw_msgs @ fee_msgs)) []]"
proof -
  from assms(4,5) have "mm_local_request ml ch st (Some account) name
    \<lparr>ra_request = RawWithdraw lent, ra_contract_addr = c\<rparr> = Ok (st', out)" by simp
  then obtain market msgs n where market: "resolve_money_market ml name = Ok market" and st': "st' = st"
    and act: "resolve_money_market_action ml ch st account \<lparr>ra_request = RawWithdraw lent, ra_contract_addr = c\<rparr> market = Ok (msgs, n)"
    and out: "out = [OnAccount account (Execute msgs) []]" by (rule mm_local_request_Ok)
  from market have m: "market = mm_market ml name" by (auto simp: resolve_money_market_def split: if_splits)
  from act have "resolve_withdraw ml ch st account lent c market = Ok msgs"
    by (simp add: resolve_money_market_action_def map_ok_Ok)
  then obtain to i x fees withdraw_msgs fee_transfer rest where
    run: "mc_withdraw market x to (lent\<lparr>as_info := i\<rparr>) = Ok withdraw_msgs" and fees: "MONEY_MARKET_FEES st = Some fees"
    and charge: "charge_usage_fee (mm_sdk ml) (lent\<lparr>as_info := i\<rparr>) fees = Ok (fee_transfer, rest)"
    and msgs: "msgs = push_fee withdraw_msgs fee_transfer" by (rule resolve_withdraw_Ok)
  from market.holds [OF assms(2)] assms(3) fees have f: "fees = f" "uf_fee f < 10 ^ 18"
    by (auto simp: mm_fee_ok_def)
  then have "usage_fee_new (uf_fee f) (uf_recipient f) = Ok f" by (simp add: usage_fee_new_def fee_new_def)
  from usage_fee_divides [OF assms(1) this charge [unfolded f]] obtain fee where
    "unat fee = unat (as_amount lent) * unat (uf_fee f) div 10 ^ 18" "fee \<le> as_amount lent"
    "if fee = 0 then fee_transfer = None else \<exists>m. fee_transfer = Some m
      \<and> sl_transfer_msg (mm_sdk ml) \<lparr>as_info = i, as_amount = fee\<rparr> (uf_recipient f) = Ok m"
    by (elim exE, intro that) (auto split: if_splits)
  then show ?thesis using run msgs out st' m
    by (intro exI [of _ to] exI [of _ i] exI [of _ x] exI [of _ fee] exI [of _ withdraw_msgs]
        exI [of _ "case fee_transfer of Some m \<Rightarrow> [m] | None \<Rightarrow> []"]) (auto simp: push_fee_def split: if_splits)
qed

section \<open>Names and messages\<close>

text \<open>
  on this chain, an action that names its assets is executed as the action on what the name service has for
  the names: the execution of the one is that of the other.
\<close>

theorem mm_named_action_is_raw:
  assumes "mm_is_over_ibc (mm_features ml) ev name = Ok (local_name, False)"
  shows "mm_execute ml ch ev info target st (AnsAction name action)
    = and_then (resolve_named_action ml ch st local_name action) (\<lambda>raw. mm_execute ml ch ev info target st (RawAction name raw))"
  using assms by simp

text \<open>
  the query for the messages of an action answers, for an account, exactly the messages that an execution of the
  action for that account asks the account to send.
\<close>

theorem mm_generate_is_execute:
  assumes "mm_is_over_ibc (mm_features ml) ev name = Ok (local_name, False)" and "q_addr_validate ch account = Ok account"
  shows "mm_execute ml ch ev info (Some account) st (RawAction name action) = Ok (st', out) \<longleftrightarrow>
    (\<exists>msgs. mm_generate_messages ml ch ev st (RawAction name action) account = Ok msgs
       \<and> st' = st \<and> out = [OnAccount account (Execute msgs) []])"
  using assms by (auto simp: mm_local_request_def mm_raw_messages_def module_account_def result_simps)

section \<open>Where the code does something else\<close>

text \<open>The standard has the same limit of five percent as that of the exchanges, but nothing applies it.\<close>

lemma mm_fee_not_capped:
  "usage_fee_new 990000000000000000 recipient = Ok \<lparr>uf_fee = 990000000000000000, uf_recipient = recipient\<rparr>"
  "MAX_FEE < 990000000000000000"
  by (simp_all add: usage_fee_new_def fee_new_def MAX_FEE_def)

text \<open>An action for a market on another chain aborts.\<close>

lemma mm_remote_action_panics:
  assumes "mm_is_over_ibc (mm_features ml) ev name = Ok (local_name, True)"
  shows "mm_execute ml ch ev info target st (RawAction name action) = Panic"
  using assms by simp

text \<open>With the chain in front of the name, which an execution accepts, named queries and messages fail.\<close>

lemma split_once_in: "split_once c s = Some (a, b) \<Longrightarrow> c \<in> set s"
  by (induction s arbitrary: a b) (auto split: if_splits option.splits prod.splits)

lemma prefixed_market_not_resolved:
  assumes "decompose_platform_name name = (Some c, local_name)"
  shows "resolve_money_market ml name = Err (ModCustom (ForeignMoneyMarket name))"
    and "resolve_mm_query ml ans (AnsUserDeposit user named name)
      = Err (AnsQueryFailed ''resolve money market'' (StdMsg ''money market''))"
    and "mm_generate_messages ml ch ev st (AnsAction name action) a = Err (ModCustom (ForeignMoneyMarket name))"
proof -
  have "CHR ''>'' \<in> set name"
    using assms by (auto simp: decompose_platform_name_def split: option.splits intro: split_once_in)
  then show foreign: "resolve_money_market ml name = Err (ModCustom (ForeignMoneyMarket name))"
    by (auto simp: resolve_money_market_def)
  show "resolve_mm_query ml ans (AnsUserDeposit user named name)
      = Err (AnsQueryFailed ''resolve money market'' (StdMsg ''money market''))"
    by (simp add: query_platform_def foreign)
  show "mm_generate_messages ml ch ev st (AnsAction name action) a = Err (ModCustom (ForeignMoneyMarket name))"
    by (simp add: resolve_named_action_def foreign)
qed

end
