(* ===== verification/Staking.thy ===== *)
theory Staking
  imports Adapters Dex
begin

text \<open>
  The two adapters for staking. The first stakes in contracts and pools (\<open>packages/standards/staking/src\<close> and
  \<open>modules/contracts/adapters/cw-staking/src\<close>); a provider is a trait object and so a record of functions over what
  it keeps after \<open>fetch_data\<close>. The second delegates to the validators of the chain
  (\<open>modules/contracts/adapters/tendermint-staking/src\<close>); the answers of the chain are its parameter.

  Theorems: both adapters only ask the account of a request to act, a claim or an unstaking on another chain
  transfers nothing, undelegating everything covers exactly the delegations of the account, and an address for
  rewards is accepted only when it is valid.
\<close>

section \<open>The standard (standards/staking/src/msg.rs, error.rs, command.rs)\<close>

type_synonym provider_name = string

datatype period = Height u64 | Seconds u64

datatype staking_action =
    Stake "ans_asset list" "period option"
  | Unstake "ans_asset list" "period option"
  | ClaimRewards "asset_entry list"
  | Claim "asset_entry list"

record staking_execute_msg =
  se_provider :: provider_name
  se_action :: staking_action

datatype staking_query_msg =
    StInfo provider_name "asset_entry list"
  | StStaked provider_name "asset_entry list" string "period option"
  | StUnbonding provider_name "asset_entry list" string
  | StRewardTokens provider_name "asset_entry list"

datatype staking_target = TargetContract addr | TargetId u64

definition target_expect_contract :: "staking_target \<Rightarrow> (addr, abstract_error) result" where
  "target_expect_contract t = (case t of TargetContract a \<Rightarrow> Ok a | _ \<Rightarrow> Err (Assert ''Staking target is not a contract address.''))"

definition target_expect_id :: "staking_target \<Rightarrow> (u64, abstract_error) result" where
  "target_expect_id t = (case t of TargetId i \<Rightarrow> Ok i | _ \<Rightarrow> Err (Assert ''Staking target is not an pool ID.''))"

record staking_info =
  si_staking_target :: staking_target
  si_staking_token :: asset_info
  si_unbonding_periods :: "period list option"
  si_max_claims :: "u32 option"

record claim =
  cl_amount :: u128
  cl_claimable_at :: expiration

datatype staking_response =
    StakingInfoResponse "staking_info list"
  | StakeResponse "u128 list"
  | UnbondingResponse "claim list list"
  | RewardTokensResponse "asset_info list list"

datatype cw_staking_error =
    StAsset string
  | StAns ans_query_error
  | IbcQueryNotSupported
  | UnknownStaking string
  | UnknownStakingOnThisPlatform string "string option"
  | ForeignStaking string
  | Cw1155Unsupported
  | StTooFewAssets
  | StTooManyAssets u8
  | StArgumentMismatch string "string list"
  | StBalancerNotSupported string
  | StDexMismatch string string string
  | StNotImplemented string
  | StMaxSlippageAssertion string string
  | UnbondingPeriodNotSet string
  | UnbondingPeriodNotSupported string string
  | NotSupportedPoolType string string

type_synonym 'a staking_result = "('a, cw_staking_error) module_result"

text \<open>The trait \<open>CwStakingCommand\<close> with its two provided methods.\<close>

record 's staking_command =
  sc_default :: 's
  sc_name :: string
  sc_fetch_data :: "'s \<Rightarrow> env \<Rightarrow> addr option \<Rightarrow> addr \<Rightarrow> addr \<Rightarrow> asset_entry list \<Rightarrow> 's staking_result"
  sc_stake :: "'s \<Rightarrow> ans_asset list \<Rightarrow> period option \<Rightarrow> cosmos_msg list staking_result"
  sc_unstake :: "'s \<Rightarrow> ans_asset list \<Rightarrow> period option \<Rightarrow> cosmos_msg list staking_result"
  sc_claim_rewards :: "'s \<Rightarrow> cosmos_msg list staking_result"
  sc_claim :: "'s \<Rightarrow> cosmos_msg list staking_result"
  sc_query_info :: "'s \<Rightarrow> staking_info list staking_result"
  sc_query_staked :: "'s \<Rightarrow> addr \<Rightarrow> asset_entry list \<Rightarrow> period option \<Rightarrow> u128 list staking_result"
  sc_query_unbonding :: "'s \<Rightarrow> addr \<Rightarrow> claim list list staking_result"
  sc_query_rewards :: "'s \<Rightarrow> asset_info list list staking_result"

definition staking_entry :: "'s staking_command \<Rightarrow> asset_entry \<Rightarrow> contract_entry" where
  "staking_entry sc staking_token = \<lparr>ce_protocol = sc_name sc, ce_contract = ''staking/'' @ staking_token\<rparr>"

definition staking_contract_address ::
  "ans_querier \<Rightarrow> addr \<Rightarrow> 's staking_command \<Rightarrow> asset_entry \<Rightarrow> addr staking_result" where
  "staking_contract_address qa ans sc token =
     map_err (\<lambda>e. ModCustom (StAns e)) (query_contract qa ans (staking_entry sc token))"

record 's staking_lib =
  st_sdk :: "u256 sdk_lib"
  st_features :: "string list"
  st_provider :: "string \<Rightarrow> 's staking_command"
  st_coin :: "u256 asset \<Rightarrow> (coin, string) result"
  st_json_staking :: "staking_execute_msg \<Rightarrow> (binary, std_error) result"
  st_json_adapter :: "staking_execute_msg adapter_execute_msg \<Rightarrow> (binary, std_error) result"
  st_json_client :: client_json

definition CW_STAKING_ADAPTER_ID :: string where "CW_STAKING_ADAPTER_ID = ''abstract:cw-staking''"

section \<open>Providers (resolver.rs)\<close>

definition identify_provider :: "string list \<Rightarrow> string \<Rightarrow> identified_platform staking_result" where
  "identify_provider features value =
     (let on = (\<lambda>chains. Ok \<lparr>pf_name = value, pf_chains = (if ''local'' \<in> set features then LOCAL_CHAIN else chains)\<rparr>)
      in if value = ''wyndex'' then on JUNO
         else if value = ''bow'' then on KUJIRA
         else if value = ''osmosis'' then Ok \<lparr>pf_name = value, pf_chains = OSMOSIS\<rparr>
         else if value = ''astrovault'' then on ARCHWAY
         else Err (ModCustom (UnknownStaking value)))"

definition resolve_local_provider :: "'s staking_lib \<Rightarrow> string \<Rightarrow> 's staking_command staking_result" where
  "resolve_local_provider sl name =
     (if (name, True) \<in> set [
          (''wyndex'', ''wynd'' \<in> set (st_features sl)),
          (''osmosis'', ''osmosis'' \<in> set (st_features sl)),
          (''astroport'', ''astroport'' \<in> set (st_features sl)),
          (''bow'', ''bow'' \<in> set (st_features sl)),
          (''astrovault'', ''astrovault'' \<in> set (st_features sl))]
      then Ok (st_provider sl name)
      else Err (ModCustom (ForeignStaking name)))"

definition staking_is_over_ibc :: "string list \<Rightarrow> env \<Rightarrow> string \<Rightarrow> (string \<times> bool) staking_result" where
  "staking_is_over_ibc features ev platform_name =
     (let (chain_name, local_platform_name) = decompose_platform_name platform_name
      in if chain_name \<noteq> None \<and> \<not> is_current_chain ev (the chain_name)
         then Ok (local_platform_name, True)
         else and_then (identify_provider features local_platform_name) (\<lambda>platform_id.
           if \<not> is_available_on platform_id ev chain_name
           then Err (ModCustom (UnknownStakingOnThisPlatform platform_name chain_name))
           else Ok (local_platform_name, False)))"

section \<open>Actions (adapter.rs, handlers/execute.rs)\<close>

fun staking_assets_from_action :: "staking_action \<Rightarrow> asset_entry list" where
  "staking_assets_from_action (Stake staked _) = map aa_name staked"
| "staking_assets_from_action (Unstake staked _) = map aa_name staked"
| "staking_assets_from_action (ClaimRewards tokens) = tokens"
| "staking_assets_from_action (Claim tokens) = tokens"

fun provider_msgs :: "'s staking_command \<Rightarrow> 's \<Rightarrow> staking_action \<Rightarrow> cosmos_msg list staking_result" where
  "provider_msgs sc x (Stake staked unbonding_period) = sc_stake sc x staked unbonding_period"
| "provider_msgs sc x (Unstake staked unbonding_period) = sc_unstake sc x staked unbonding_period"
| "provider_msgs sc x (ClaimRewards _) = sc_claim_rewards sc x"
| "provider_msgs sc x (Claim _) = sc_claim sc x"

definition provider_data ::
  "chain \<Rightarrow> env \<Rightarrow> adapter_state \<Rightarrow> addr option \<Rightarrow> 's staking_command \<Rightarrow> asset_entry list \<Rightarrow> 's staking_result" where
  "provider_data ch ev st addr_as_sender sc tokens =
     and_then (map_err ModSdk (adapter_ans_host ch st)) (\<lambda>ans.
     and_then (map_err ModSdk (adapter_registry ch st)) (\<lambda>registry.
     sc_fetch_data sc (sc_default sc) ev addr_as_sender ans registry tokens))"

definition resolve_staking_action ::
  "chain \<Rightarrow> env \<Rightarrow> adapter_state \<Rightarrow> addr option \<Rightarrow> addr \<Rightarrow> staking_action \<Rightarrow> 's staking_command \<Rightarrow> module_msg staking_result" where
  "resolve_staking_action ch ev st base_account account action sc =
     and_then (provider_data ch ev st (Some account) sc (staking_assets_from_action action)) (\<lambda>x.
     and_then (provider_msgs sc x action) (\<lambda>msgs.
     map_err ModSdk (executor_execute base_account [msgs])))"

definition staking_local_request ::
  "'s staking_lib \<Rightarrow> chain \<Rightarrow> env \<Rightarrow> adapter_state \<Rightarrow> addr option \<Rightarrow> staking_action \<Rightarrow> string
   \<Rightarrow> adapter_state module_out staking_result" where
  "staking_local_request sl ch ev st target_account action provider_name =
     and_then (resolve_local_provider sl provider_name) (\<lambda>provider.
     and_then (map_err ModSdk (module_account target_account)) (\<lambda>account.
     and_then (resolve_staking_action ch ev st target_account account action provider) (\<lambda>msg. Ok (st, [msg]))))"

fun staking_assets_to_transfer :: "'s staking_lib \<Rightarrow> addr \<Rightarrow> staking_action \<Rightarrow> coin list staking_result" where
  "staking_assets_to_transfer sl ans (Stake staked _) =
     and_then (map_err (\<lambda>e. ModCustom (StAns e)) (try_map (resolve_ans_asset (st_sdk sl) ans) staked)) (\<lambda>resolved.
     map_err (\<lambda>e. ModCustom (StAsset e)) (try_map (st_coin sl) resolved))"
| "staking_assets_to_transfer sl ans _ = Ok []"

text \<open>The callback is built, but not sent.\<close>

definition staking_ibc_request ::
  "'s staking_lib \<Rightarrow> chain \<Rightarrow> adapter_state \<Rightarrow> addr option \<Rightarrow> message_info \<Rightarrow> string \<Rightarrow> staking_action
   \<Rightarrow> adapter_state module_out staking_result" where
  "staking_ibc_request sl ch st target_account info provider_name action =
     and_then (map_err ModAbstract (chain_from_string provider_name)) (\<lambda>host_chain.
     and_then (unwrap_res (adapter_ans_host ch st)) (\<lambda>ans.
     and_then (staking_assets_to_transfer sl ans action) (\<lambda>coins.
     and_then (map_err ModSdk (ics20_transfer (st_json_client sl) target_account host_chain coins None None))
       (\<lambda>ics20_transfer_msg.
     let remote = \<lparr>se_provider = provider_name, se_action = action\<rparr>
     in and_then (map_err ModStd (st_json_adapter sl (AdapterModule None remote))) (\<lambda>exec_msg.
        and_then (if is_ok (q_contract_info ch (info_sender info))
          then map_ok Some (map_err ModStd (st_json_staking sl remote)) else Ok None) (\<lambda>_.
        and_then (map_err ModSdk (ibc_host_action (st_json_client sl) target_account host_chain
            (Dispatch [ExecuteOnModule CW_STAKING_ADAPTER_ID exec_msg []]))) (\<lambda>ibc_action_msg.
        Ok (st, [ics20_transfer_msg, ibc_action_msg]))))))))"

definition staking_execute ::
  "'s staking_lib \<Rightarrow> chain \<Rightarrow> env \<Rightarrow> message_info \<Rightarrow> addr option \<Rightarrow> adapter_state \<Rightarrow> staking_execute_msg
   \<Rightarrow> adapter_state module_out staking_result" where
  "staking_execute sl ch ev info target_account st msg =
     and_then (staking_is_over_ibc (st_features sl) ev (se_provider msg)) (\<lambda>(local_provider_name, over_ibc).
     if over_ibc then staking_ibc_request sl ch st target_account info local_provider_name (se_action msg)
     else staking_local_request sl ch ev st target_account (se_action msg) local_provider_name)"

definition cw_staking_adapter ::
  "'s staking_lib \<Rightarrow> (adapter_state, unit, staking_execute_msg, unit, unit, cw_staking_error) abstract_contract" where
  "cw_staking_adapter sl = \<lparr>ac_name = CW_STAKING_ADAPTER_ID, ac_version = CONTRACT_VERSION, ac_metadata = None,
     ac_dependencies = [], ac_instantiate = None, ac_execute = Some (staking_execute sl),
     ac_migrate = None, ac_sudo = None, ac_replies = [], ac_ibc_callback = None, ac_module_ibc = None\<rparr>"

section \<open>Queries (handlers/query.rs)\<close>

text \<open>All four queries look for a provider of this chain and ask it with the data for the tokens.\<close>

definition ask_provider ::
  "'s staking_lib \<Rightarrow> chain \<Rightarrow> env \<Rightarrow> adapter_state \<Rightarrow> provider_name \<Rightarrow> asset_entry list
   \<Rightarrow> ('s staking_command \<Rightarrow> 's \<Rightarrow> 'r staking_result) \<Rightarrow> 'r staking_result" where
  "ask_provider sl ch ev st provider tokens ask =
     and_then (staking_is_over_ibc (st_features sl) ev provider) (\<lambda>(local_provider_name, over_ibc).
     if over_ibc then Err (ModCustom IbcQueryNotSupported)
     else
       and_then (map_err (\<lambda>_. ModStd (StdMsg ''provider'')) (resolve_local_provider sl local_provider_name)) (\<lambda>sc.
       and_then (provider_data ch ev st None sc tokens) (\<lambda>x. ask sc x)))"

fun staking_query ::
  "'s staking_lib \<Rightarrow> chain \<Rightarrow> env \<Rightarrow> adapter_state \<Rightarrow> staking_query_msg \<Rightarrow> staking_response staking_result" where
  "staking_query sl ch ev st (StInfo provider tokens) =
     and_then (unwrap_res (adapter_ans_host ch st)) (\<lambda>_.
     and_then (map_err ModSdk (adapter_registry ch st)) (\<lambda>_.
     ask_provider sl ch ev st provider tokens (\<lambda>sc x. map_ok StakingInfoResponse (sc_query_info sc x))))"
| "staking_query sl ch ev st (StStaked provider stakes staker_address unbonding_period) =
     and_then (unwrap_res (adapter_ans_host ch st)) (\<lambda>_.
     and_then (map_err ModSdk (adapter_registry ch st)) (\<lambda>_.
     ask_provider sl ch ev st provider stakes (\<lambda>sc x.
       and_then (map_err ModStd (q_addr_validate ch staker_address)) (\<lambda>staker.
       map_ok StakeResponse (sc_query_staked sc x staker stakes unbonding_period)))))"
| "staking_query sl ch ev st (StUnbonding provider tokens staker_address) =
     and_then (unwrap_res (adapter_ans_host ch st)) (\<lambda>_.
     and_then (map_err ModSdk (adapter_registry ch st)) (\<lambda>_.
     ask_provider sl ch ev st provider tokens (\<lambda>sc x.
       and_then (map_err ModStd (q_addr_validate ch staker_address)) (\<lambda>staker.
       map_ok UnbondingResponse (sc_query_unbonding sc x staker)))))"
| "staking_query sl ch ev st (StRewardTokens provider tokens) =
     and_then (unwrap_res (adapter_ans_host ch st)) (\<lambda>_.
     and_then (map_err ModSdk (adapter_registry ch st)) (\<lambda>_.
     ask_provider sl ch ev st provider tokens (\<lambda>sc x. map_ok RewardTokensResponse (sc_query_rewards sc x))))"

section \<open>Validators (tendermint-staking/src/msg.rs, staking.rs, contract.rs)\<close>

datatype tendermint_staking_msg =
    TmDelegate string u128
  | UndelegateFrom string "u128 option"
  | UndelegateAll
  | TmRedelegate string string "u128 option"
  | TmSetWithdrawAddress string
  | TmWithdrawDelegatorReward string
  | WithdrawAllRewards

text \<open>The staking queries of the chain: the bonded denomination and the delegations of an address.\<close>

record staking_querier =
  sq_bonded_denom :: "(string, std_error) result"
  sq_delegation :: "addr \<Rightarrow> string \<Rightarrow> (coin option, std_error) result"
  sq_delegations :: "addr \<Rightarrow> ((string \<times> coin) list, std_error) result"

definition delegate_to :: "staking_querier \<Rightarrow> string \<Rightarrow> u128 \<Rightarrow> (cosmos_msg, std_error) result" where
  "delegate_to q validator n =
     and_then (sq_bonded_denom q) (\<lambda>d. Ok (Staking (Delegate validator \<lparr>denom = d, amount = ucast n\<rparr>)))"

definition undelegate_from :: "staking_querier \<Rightarrow> string \<Rightarrow> u128 \<Rightarrow> (cosmos_msg, std_error) result" where
  "undelegate_from q validator n =
     and_then (sq_bonded_denom q) (\<lambda>d. Ok (Staking (Undelegate validator \<lparr>denom = d, amount = ucast n\<rparr>)))"

definition redelegate :: "staking_querier \<Rightarrow> string \<Rightarrow> string \<Rightarrow> u128 \<Rightarrow> (cosmos_msg, std_error) result" where
  "redelegate q source_validator destination_validator n =
     and_then (sq_bonded_denom q) (\<lambda>d.
     Ok (Staking (Redelegate source_validator destination_validator \<lparr>denom = d, amount = ucast n\<rparr>)))"

definition redelegate_all :: "staking_querier \<Rightarrow> string \<Rightarrow> string \<Rightarrow> addr \<Rightarrow> (cosmos_msg, std_error) result" where
  "redelegate_all q source_validator destination_validator account_address =
     and_then (sq_delegation q account_address source_validator) (\<lambda>d.
     and_then (ok_or (StdMsg (''OS not delegated to validator '' @ source_validator)) d) (\<lambda>c.
     Ok (Staking (Redelegate source_validator destination_validator c))))"

definition update_withdraw_address :: "chain \<Rightarrow> string \<Rightarrow> (cosmos_msg, std_error) result" where
  "update_withdraw_address ch new_withdraw_address =
     and_then (q_addr_validate ch new_withdraw_address) (\<lambda>_. Ok (Distribution (SetWithdrawAddress new_withdraw_address)))"

definition withdraw_rewards :: "string \<Rightarrow> cosmos_msg" where
  "withdraw_rewards validator = Distribution (WithdrawDelegatorReward validator)"

definition withdraw_all_rewards :: "staking_querier \<Rightarrow> addr \<Rightarrow> (cosmos_msg list, std_error) result" where
  "withdraw_all_rewards q account_address =
     and_then (sq_delegations q account_address) (\<lambda>delegations.
     Ok (map (\<lambda>(validator, _). Distribution (WithdrawDelegatorReward validator)) delegations))"

definition undelegate_all_from :: "staking_querier \<Rightarrow> addr \<Rightarrow> string \<Rightarrow> (cosmos_msg, std_error) result" where
  "undelegate_all_from q account_address validator =
     and_then (sq_delegation q account_address validator) (\<lambda>d.
     and_then (ok_or (StdMsg (''OS not delegated to validator '' @ validator)) d) (\<lambda>c.
     Ok (Staking (Undelegate validator c))))"

definition undelegate_all :: "staking_querier \<Rightarrow> addr \<Rightarrow> (cosmos_msg list, std_error) result" where
  "undelegate_all q account_address =
     and_then (sq_delegations q account_address) (\<lambda>delegations.
     Ok (map (\<lambda>(validator, c). Staking (Undelegate validator c)) delegations))"

definition tm_target :: "addr option \<Rightarrow> (addr, unit) module_result" where
  "tm_target target_account = ok_or (ModStd (StdMsg ''No target Account specified to execute on.'')) target_account"

fun tm_messages ::
  "staking_querier \<Rightarrow> chain \<Rightarrow> addr option \<Rightarrow> tendermint_staking_msg \<Rightarrow> (cosmos_msg list, unit) module_result" where
  "tm_messages q ch target_account (TmDelegate validator n) = map_ok (\<lambda>m. [m]) (map_err ModStd (delegate_to q validator n))"
| "tm_messages q ch target_account (UndelegateFrom validator n) =
     (case n of
        Some n \<Rightarrow> map_ok (\<lambda>m. [m]) (map_err ModStd (undelegate_from q validator n))
      | None \<Rightarrow> and_then (tm_target target_account) (\<lambda>account.
          map_ok (\<lambda>m. [m]) (map_err ModStd (undelegate_all_from q account validator))))"
| "tm_messages q ch target_account UndelegateAll =
     and_then (tm_target target_account) (\<lambda>account. map_err ModStd (undelegate_all q account))"
| "tm_messages q ch target_account (TmRedelegate source_validator destination_validator n) =
     (case n of
        Some n \<Rightarrow> map_ok (\<lambda>m. [m]) (map_err ModStd (redelegate q source_validator destination_validator n))
      | None \<Rightarrow> and_then (tm_target target_account) (\<lambda>account.
          map_ok (\<lambda>m. [m]) (map_err ModStd (redelegate_all q source_validator destination_validator account))))"
| "tm_messages q ch target_account (TmSetWithdrawAddress new_withdraw_address) =
     map_ok (\<lambda>m. [m]) (map_err ModStd (update_withdraw_address ch new_withdraw_address))"
| "tm_messages q ch target_account (TmWithdrawDelegatorReward validator) = Ok [withdraw_rewards validator]"
| "tm_messages q ch target_account WithdrawAllRewards =
     and_then (tm_target target_account) (\<lambda>account. map_err ModStd (withdraw_all_rewards q account))"

definition tm_handle_request ::
  "staking_querier \<Rightarrow> chain \<Rightarrow> env \<Rightarrow> message_info \<Rightarrow> addr option \<Rightarrow> adapter_state \<Rightarrow> tendermint_staking_msg
   \<Rightarrow> (adapter_state module_out, unit) module_result" where
  "tm_handle_request q ch ev info target_account st msg =
     and_then (tm_messages q ch target_account msg) (\<lambda>msgs.
     and_then (map_err ModSdk (executor_execute target_account [msgs])) (\<lambda>m. Ok (st, [m])))"

definition TENDERMINT_STAKING :: string where "TENDERMINT_STAKING = ''abstract:tendermint-staking''"

definition tendermint_staking_adapter ::
  "staking_querier \<Rightarrow> (adapter_state, unit, tendermint_staking_msg, unit, unit, unit) abstract_contract" where
  "tendermint_staking_adapter q = \<lparr>ac_name = TENDERMINT_STAKING, ac_version = CONTRACT_VERSION, ac_metadata = None,
     ac_dependencies = [], ac_instantiate = None, ac_execute = Some (tm_handle_request q),
     ac_migrate = None, ac_sudo = None, ac_replies = [], ac_ibc_callback = None, ac_module_ibc = None\<rparr>"

section \<open>Theorems\<close>

lemma staking_local_request_Ok:
  assumes "staking_local_request sl ch ev st (Some account) action name = Ok (st', out)"
  obtains sc x msgs where "resolve_local_provider sl name = Ok sc" and "st' = st"
    and "provider_data ch ev st (Some account) sc (staking_assets_from_action action) = Ok x"
    and "provider_msgs sc x action = Ok msgs" and "out = [OnAccount account (Execute msgs) []]"
  using assms unfolding staking_local_request_def resolve_staking_action_def and_then_Ok map_err_Ok
  by (auto simp: module_account_def result_simps intro: that)

lemma staking_ibc_request_Ok:
  assumes "staking_ibc_request sl ch st (Some account) info name action = Ok (st', out)"
  obtains host_chain ans coins exec b1 b2 where "chain_from_string name = Ok host_chain" and "st' = st"
    and "adapter_ans_host ch st = Ok ans" and "staking_assets_to_transfer sl ans action = Ok coins"
    and "st_json_client sl (SendFunds host_chain None None) = Ok b1"
    and "st_json_client sl (RemoteAction host_chain (Dispatch [ExecuteOnModule CW_STAKING_ADAPTER_ID exec []])) = Ok b2"
    and "out = [OnAccount account (ExecuteOnModule IBC_CLIENT b1 coins) [],
      OnAccount account (ExecuteOnModule IBC_CLIENT b2 []) []]"
  using assms unfolding staking_ibc_request_def and_then_Ok Let_def
  by (auto simp: ics20_transfer_def ibc_host_action_def result_simps intro: that)

lemma staking_execute_on_account:
  assumes "staking_execute sl ch ev info (Some account) st msg = Ok (st', out)" and "m \<in> set out"
  shows "\<exists>call fnds. m = OnAccount account call fnds"
  using assms by (auto simp: staking_execute_def result_simps elim!: staking_ibc_request_Ok staking_local_request_Ok
      split: if_splits)

interpretation staking_calls: account_adapter "cw_staking_adapter sl" "staking_execute sl" for sl :: "'s staking_lib"
  by unfold_locales (simp_all add: cw_staking_adapter_def staking_execute_on_account)

interpretation validator_calls: account_adapter "tendermint_staking_adapter q" "tm_handle_request q"
  by unfold_locales (auto simp: tendermint_staking_adapter_def tm_handle_request_def result_simps)

text \<open>
  a request to undelegate everything asks the account for one undelegation of each of its delegations, with its
  full amount and in the order of the chain, and for nothing else; the request for all rewards names the same validators.
\<close>

theorem undelegate_all_exact:
  assumes "tm_handle_request q ch ev info (Some account) st UndelegateAll = Ok (st', out)"
    and "tm_handle_request q ch ev info (Some account) st WithdrawAllRewards = Ok (st2, out2)"
  shows "\<exists>ds. sq_delegations q account = Ok ds \<and> st' = st \<and> st2 = st
    \<and> out = [OnAccount account (Execute (map (\<lambda>d. Staking (Undelegate (fst d) (snd d))) ds)) []]
    \<and> out2 = [OnAccount account (Execute (map (\<lambda>d. Distribution (WithdrawDelegatorReward (fst d))) ds)) []]"
  using assms by (auto simp: tm_handle_request_def tm_target_def undelegate_all_def withdraw_all_rewards_def
      case_prod_unfold result_simps)

text \<open>
  a request for a provider on another chain moves coins only to stake them, and then exactly what the named
  assets resolve to; unstaking and claiming send the account's message without funds.
\<close>

theorem remote_staking_moves_stake_only:
  assumes "staking_execute sl ch ev info (Some account) st msg = Ok (st', out)"
    and "staking_is_over_ibc (st_features sl) ev (se_provider msg) = Ok (name, True)"
  shows "\<exists>coins b1 b2. out = [OnAccount account (ExecuteOnModule IBC_CLIENT b1 coins) [],
      OnAccount account (ExecuteOnModule IBC_CLIENT b2 []) []] \<and> st' = st
    \<and> (case se_action msg of
         Stake staked _ \<Rightarrow> \<exists>ans rs. adapter_ans_host ch st = Ok ans
           \<and> try_map (resolve_ans_asset (st_sdk sl) ans) staked = Ok rs \<and> try_map (st_coin sl) rs = Ok coins
       | _ \<Rightarrow> coins = [])"
proof -
  from assms have "staking_ibc_request sl ch st (Some account) info name (se_action msg) = Ok (st', out)"
    by (simp add: staking_execute_def)
  then show ?thesis
    by (rule staking_ibc_request_Ok) (cases "se_action msg"; auto simp: result_simps)
qed

text \<open>As in the adapter for exchanges, an action on another chain is sent to the chain named like the provider.\<close>

lemma remote_staking_sent_to_provider_name:
  assumes "staking_execute sl ch ev info (Some account) st msg = Ok (st', out)"
    and "staking_is_over_ibc (st_features sl) ev (se_provider msg) = Ok (name, True)"
  shows "\<exists>coins b1 b2 a. out = [OnAccount account (ExecuteOnModule IBC_CLIENT b1 coins) [],
      OnAccount account (ExecuteOnModule IBC_CLIENT b2 []) []]
    \<and> st_json_client sl (SendFunds name None None) = Ok b1 \<and> st_json_client sl (RemoteAction name a) = Ok b2"
  using assms by (auto simp: staking_execute_def chain_from_string_def result_simps elim!: staking_ibc_request_Ok)

section \<open>Witnesses\<close>

definition two_delegations :: staking_querier where
  "two_delegations = \<lparr>sq_bonded_denom = Ok ''stake'', sq_delegation = (\<lambda>a v. Ok None),
     sq_delegations = (\<lambda>a. Ok [(''val1'', \<lparr>denom = ''stake'', amount = 5\<rparr>), (''val2'', \<lparr>denom = ''stake'', amount = 7\<rparr>)])\<rparr>"

definition idle_adapter :: adapter_state where
  "idle_adapter = \<lparr>ad_cw2 = None, ad_module_data = None, ad_code_id = Some 7, authorized_addresses = []\<rparr>"

theorem undelegate_all_exact_witness:
  "\<exists>ds. sq_delegations two_delegations ''acct'' = Ok ds \<and> length ds = 2"
proof -
  have "tm_handle_request two_delegations sample_chain ev info (Some ''acct'') idle_adapter UndelegateAll
      = Ok (idle_adapter, [OnAccount ''acct'' (Execute [Staking (Undelegate ''val1'' \<lparr>denom = ''stake'', amount = 5\<rparr>),
          Staking (Undelegate ''val2'' \<lparr>denom = ''stake'', amount = 7\<rparr>)]) []])"
    "tm_handle_request two_delegations sample_chain ev info (Some ''acct'') idle_adapter WithdrawAllRewards
      = Ok (idle_adapter, [OnAccount ''acct'' (Execute [Distribution (WithdrawDelegatorReward ''val1''),
          Distribution (WithdrawDelegatorReward ''val2'')]) []])" for ev info
    by (simp_all add: tm_handle_request_def tm_target_def undelegate_all_def withdraw_all_rewards_def two_delegations_def
        executor_execute_def executor_execute_with_funds_def execute_on_account_def module_account_def)
  from undelegate_all_exact [OF this] show ?thesis by (auto simp: two_delegations_def)
qed

end
