(* ===== verification/Ica_Client.thy ===== *)
theory Ica_Client
  imports Dex
begin

text \<open>
  The client for interchain accounts (\<open>contracts/native/ica-client/src\<close>, \<open>packages/abstract-ica/src\<close>): the owner
  registers the note contract for a chain, and a query turns the actions of an account into the messages the account
  then sends. The notes of other chains, hexadecimal numbers and JSON are the parameter \<open>ica_lib\<close>; the messages
  for an EVM and their callbacks are JSON already.

  Theorems: only the owner changes what is registered, a registered note is changed only by removing it first, and
  the messages of a query go to the registered note without funds or to the forwarder of the name service with
  exactly the funds of an action.
\<close>

section \<open>Chains (abstract-ica/src/chain_type.rs, abstract-std/src/constants.rs)\<close>

datatype chain_type = Evm | Cosmos

definition chain_type_name :: "chain_type \<Rightarrow> string" where
  "chain_type_name t = (case t of Evm \<Rightarrow> ''EVM'' | Cosmos \<Rightarrow> ''Cosmos'')"

definition TERRA :: "string list" where "TERRA = [''phoenix'', ''pisco'']"
definition UNION :: "string list" where "UNION = [''union-testnet'']"
definition XION :: "string list" where "XION = [''xion-testnet'']"
definition BERACHAIN :: "string list" where "BERACHAIN = [''bartio'']"
definition ETHEREUM :: "string list" where "ETHEREUM = [''sepolia'', ''ethereum'']"

definition cast_chain_type :: "truncated_chain_id \<Rightarrow> chain_type option" where
  "cast_chain_type c =
     map_of (map (\<lambda>n. (n, Cosmos)) (ARCHWAY @ NEUTRON @ KUJIRA @ TERRA @ OSMOSIS @ JUNO @ UNION @ XION)
             @ map (\<lambda>n. (n, Evm)) (BERACHAIN @ ETHEREUM)) c"

section \<open>State, messages and errors\<close>

record ica_state =
  ica_ownership :: "cw_ownership option"
  ica_cw2 :: "contract_version option"
  ica_module_data :: "module_data option"
  ica_infra :: "(truncated_chain_id, addr) store"

datatype ica_error =
    IcaStd std_error
  | IcaAbstract abstract_error
  | IcaOwnership cw_ownership_error
  | IcaAns ans_query_error
  | NoChainType string
  | NoRecipient
  | WrongChainType string string
  | ChainExists

type_synonym 'a ica_result = "('a, ica_error) result"

datatype ica_execute_msg =
    IcaUpdateOwnership cw_action
  | IcaRegisterInfrastructure truncated_chain_id string
  | IcaRemoveHost truncated_chain_id

datatype ica_migrate_msg = IcaInstantiate | IcaMigrate

datatype interchain_action =
    IcaExecute "binary list" "binary option"
  | IcaFund "coin list" "binary option" "string option"

record ica_lib =
  il_ans :: ans_querier
  il_remote_address :: "addr \<Rightarrow> string \<Rightarrow> (string option, std_error) result"
  il_from_hex :: "string \<Rightarrow> (binary, std_error) result"
  il_json_note :: "binary list \<Rightarrow> binary option \<Rightarrow> u64 \<Rightarrow> (binary, std_error) result"
  il_json_forwarder :: "string \<Rightarrow> binary \<Rightarrow> string \<Rightarrow> u64 option \<Rightarrow> (binary, std_error) result"

section \<open>The contract (contract.rs)\<close>

definition ica_instantiate :: "chain \<Rightarrow> ica_state \<Rightarrow> message_info \<Rightarrow> ica_state ica_result" where
  "ica_instantiate ch st info =
     (let st = st\<lparr>ica_cw2 := Some \<lparr>cv_contract = ICA_CLIENT, cv_version = CONTRACT_VERSION\<rparr>\<rparr>
      in and_then (map_err IcaStd (q_cwo_initialize ch (Some (info_sender info)))) (\<lambda>ow.
         Ok (st\<lparr>ica_ownership := Some ow\<rparr>)))"

definition assert_ica_owner :: "chain \<Rightarrow> ica_state \<Rightarrow> addr \<Rightarrow> unit ica_result" where
  "assert_ica_owner ch st sndr = map_err IcaOwnership (q_cwo_assert ch (ica_ownership st) sndr)"

definition ica_register_infrastructure ::
  "chain \<Rightarrow> ica_state \<Rightarrow> message_info \<Rightarrow> truncated_chain_id \<Rightarrow> string \<Rightarrow> ica_state ica_result" where
  "ica_register_infrastructure ch st info host_chain note =
     and_then (map_err IcaAbstract (chain_verify host_chain)) (\<lambda>_.
     and_then (assert_ica_owner ch st (info_sender info)) (\<lambda>_.
     and_then (map_err IcaStd (q_addr_validate ch note)) (\<lambda>note.
     if has (ica_infra st) host_chain then Err ChainExists
     else Ok (st\<lparr>ica_infra := save host_chain note (ica_infra st)\<rparr>))))"

definition ica_remove_host ::
  "chain \<Rightarrow> ica_state \<Rightarrow> message_info \<Rightarrow> truncated_chain_id \<Rightarrow> ica_state ica_result" where
  "ica_remove_host ch st info host_chain =
     and_then (map_err IcaAbstract (chain_verify host_chain)) (\<lambda>_.
     and_then (assert_ica_owner ch st (info_sender info)) (\<lambda>_.
     Ok (st\<lparr>ica_infra := remove host_chain (ica_infra st)\<rparr>)))"

fun ica_execute :: "chain \<Rightarrow> env \<Rightarrow> ica_state \<Rightarrow> message_info \<Rightarrow> ica_execute_msg \<Rightarrow> ica_state ica_result" where
  "ica_execute ch ev st info (IcaUpdateOwnership action) =
     and_then (map_err IcaOwnership (q_cwo_update ch (ica_ownership st) (env_block ev) (info_sender info) action)) (\<lambda>ow.
     Ok (st\<lparr>ica_ownership := Some ow\<rparr>))"
| "ica_execute ch ev st info (IcaRegisterInfrastructure chain note) = ica_register_infrastructure ch st info chain note"
| "ica_execute ch ev st info (IcaRemoveHost host_chain) = ica_remove_host ch st info host_chain"

fun ica_migrate :: "chain \<Rightarrow> env \<Rightarrow> ica_state \<Rightarrow> ica_migrate_msg \<Rightarrow> ica_state ica_result" where
  "ica_migrate ch ev st IcaInstantiate = migrate_instantiate ch ev (ica_cw2 st) IcaStd (ica_instantiate ch st)"
| "ica_migrate ch ev st IcaMigrate =
     and_then (unwrap (sv_parse (q_semver ch) CONTRACT_VERSION)) (\<lambda>to_version.
     and_then (map_err IcaAbstract (assert_cw_contract_upgrade (q_semver ch) (ica_cw2 st) ICA_CLIENT to_version)) (\<lambda>_.
     Ok (st\<lparr>ica_cw2 := Some \<lparr>cv_contract = ICA_CLIENT, cv_version = CONTRACT_VERSION\<rparr>,
            ica_module_data := Some (migrate_module_data (ica_module_data st) ICA_CLIENT CONTRACT_VERSION None)\<rparr>)))"

section \<open>Queries (queries.rs, chain_types/evm.rs)\<close>

definition ica_config :: "chain \<Rightarrow> env \<Rightarrow> (addr \<times> addr) ica_result" where
  "ica_config ch ev =
     and_then (map_err IcaStd (abstract_code_id ch (env_contract ev))) (\<lambda>code.
     and_then (map_err IcaAbstract (ans_host_new ch code)) (\<lambda>ans.
     and_then (map_err IcaAbstract (registry_contract_new ch code)) (\<lambda>registry. Ok (ans, registry))))"

definition evm_execute :: "ica_lib \<Rightarrow> addr \<Rightarrow> binary list \<Rightarrow> binary option \<Rightarrow> cosmos_msg ica_result" where
  "evm_execute il note_addr msgs callback =
     and_then (map_err IcaStd (il_json_note il msgs callback PACKET_LIFETIME)) (\<lambda>b.
     Ok (WasmExecute note_addr (Raw b) []))"

definition UCS01_PROTOCOL :: string where "UCS01_PROTOCOL = ''ucs01''"
definition UCS01_FORWARDER_CONTRACT :: string where "UCS01_FORWARDER_CONTRACT = ''forwarder''"

text \<open>Without a receiver the note is asked for the remote account of the client itself.\<close>

definition fund_receiver :: "ica_lib \<Rightarrow> env \<Rightarrow> addr \<Rightarrow> binary option \<Rightarrow> binary ica_result" where
  "fund_receiver il ev note_addr receiver =
     (case receiver of
        Some r \<Rightarrow> Ok r
      | None \<Rightarrow>
          and_then (map_err IcaStd (il_remote_address il note_addr (env_contract ev))) (\<lambda>remote_acc.
          case remote_acc of
            Some remote \<Rightarrow> map_err IcaStd (il_from_hex il remote)
          | None \<Rightarrow> Err NoRecipient))"

definition evm_send_funds ::
  "ica_lib \<Rightarrow> chain \<Rightarrow> env \<Rightarrow> addr \<Rightarrow> truncated_chain_id \<Rightarrow> coin list \<Rightarrow> binary option \<Rightarrow> string option \<Rightarrow> cosmos_msg ica_result" where
  "evm_send_funds il ch ev note_addr evm_chain fnds receiver memo =
     and_then (map_err IcaStd (abstract_code_id ch (env_contract ev))) (\<lambda>code.
     and_then (fund_receiver il ev note_addr receiver) (\<lambda>receiver.
     and_then (map_err IcaAbstract (ans_host_new ch code)) (\<lambda>ans.
     and_then (map_err IcaAns (query_channel (il_ans il) ans
       \<lparr>connected_chain = evm_chain, che_protocol = UCS01_PROTOCOL\<rparr>)) (\<lambda>ics20_channel_id.
     and_then (map_err IcaAns (query_contract (il_ans il) ans
       \<lparr>ce_protocol = UCS01_PROTOCOL, ce_contract = UCS01_FORWARDER_CONTRACT\<rparr>)) (\<lambda>ucs_forwarder_addr.
     and_then (map_err IcaStd (il_json_forwarder il ics20_channel_id receiver
       (case memo of Some m \<Rightarrow> m | None \<Rightarrow> []) (Some 3600))) (\<lambda>b.
     Ok (WasmExecute ucs_forwarder_addr (Raw b) fnds)))))))"

fun process_action ::
  "ica_lib \<Rightarrow> chain \<Rightarrow> env \<Rightarrow> chain_type \<Rightarrow> addr \<Rightarrow> truncated_chain_id \<Rightarrow> interchain_action \<Rightarrow> cosmos_msg list ica_result" where
  "process_action il ch ev t note c (IcaExecute msgs callback) =
     (if t \<noteq> Evm then Err (WrongChainType c (chain_type_name t))
      else map_ok (\<lambda>m. [m]) (evm_execute il note msgs callback))"
| "process_action il ch ev t note c (IcaFund fnds receiver memo) =
     (case t of
        Evm \<Rightarrow> map_ok (\<lambda>m. [m]) (evm_send_funds il ch ev note c fnds receiver memo)
      | Cosmos \<Rightarrow> Panic)"

text \<open>The address of the account is an argument of the query, but is not used.\<close>

definition ica_action_query ::
  "ica_lib \<Rightarrow> chain \<Rightarrow> env \<Rightarrow> ica_state \<Rightarrow> string \<Rightarrow> truncated_chain_id \<Rightarrow> interchain_action list \<Rightarrow> cosmos_msg list ica_result" where
  "ica_action_query il ch ev st account_address c actions =
     and_then (ok_or (NoChainType c) (cast_chain_type c)) (\<lambda>t.
     and_then (ok_or (NoChainType c) (load (ica_infra st) c)) (\<lambda>note.
     map_ok concat (try_map (process_action il ch ev t note c) actions)))"

section \<open>Theorems\<close>

lemma ica_migrate_infra: "ica_migrate ch ev st msg = Ok st' \<Longrightarrow> ica_infra st' = ica_infra st"
  by (cases msg) (auto simp: migrate_instantiate_def ica_instantiate_def Let_def result_simps split: if_splits)

text \<open>
  the notes change only by a message of the owner, for the chain the message names: registering needs a chain
  without a note, so a registered note is never replaced, only removed.
\<close>

theorem ica_infra_changed_by_owner:
  assumes "ica_execute ch ev st info msg = Ok st'" and "load (ica_infra st') c \<noteq> load (ica_infra st) c"
  shows "q_cwo_assert ch (ica_ownership st) (info_sender info) = Ok () \<and> ica_ownership st' = ica_ownership st
    \<and> ((\<exists>note. msg = IcaRegisterInfrastructure c note \<and> load (ica_infra st) c = None \<and> load (ica_infra st') c \<noteq> None)
       \<or> msg = IcaRemoveHost c \<and> load (ica_infra st) c \<noteq> None \<and> load (ica_infra st') c = None)"
proof (cases msg)
  case (IcaRegisterInfrastructure d n)
  with assms show ?thesis
    by (auto simp: ica_register_infrastructure_def assert_ica_owner_def load_save has_def result_simps split: if_splits)
next
  case (IcaRemoveHost d)
  with assms show ?thesis
    by (cases "load (ica_infra st) c")
      (auto simp: ica_remove_host_def assert_ica_owner_def load_remove result_simps split: if_splits)
qed (use assms in \<open>auto simp: result_simps\<close>)

text \<open>What one action may ask for.\<close>

definition ica_msg_ok :: "ica_lib \<Rightarrow> chain \<Rightarrow> env \<Rightarrow> addr \<Rightarrow> interchain_action \<Rightarrow> cosmos_msg \<Rightarrow> bool" where
  "ica_msg_ok il ch ev note action m \<longleftrightarrow>
     (case action of
        IcaExecute msgs callback \<Rightarrow> \<exists>b. il_json_note il msgs callback PACKET_LIFETIME = Ok b \<and> m = WasmExecute note (Raw b) []
      | IcaFund fnds receiver memo \<Rightarrow> \<exists>code ans fwd b. abstract_code_id ch (env_contract ev) = Ok code
          \<and> ans_host_new ch code = Ok ans
          \<and> query_contract (il_ans il) ans \<lparr>ce_protocol = UCS01_PROTOCOL, ce_contract = UCS01_FORWARDER_CONTRACT\<rparr> = Ok fwd
          \<and> m = WasmExecute fwd (Raw b) fnds)"

lemma process_action_Ok:
  assumes "process_action il ch ev t note c action = Ok ms"
  obtains m where "t = Evm" and "ms = [m]" and "ica_msg_ok il ch ev note action m"
proof (cases action)
  case (IcaExecute msgs callback)
  with assms show thesis by (intro that [of "hd ms"])
    (auto simp: evm_execute_def ica_msg_ok_def result_simps split: if_splits)
next
  case (IcaFund fnds receiver memo)
  with assms show thesis by (intro that [of "hd ms"])
    (auto simp: evm_send_funds_def ica_msg_ok_def result_simps split: chain_type.splits)
qed

text \<open>
  the query for the actions of an account answers one message for each action, in their order, only for a chain
  with an EVM and a registered note: an execution is a call of that note without funds, funding is a call of the
  forwarder that the name service has, with exactly the funds of the action.
\<close>

theorem ica_actions_addressed:
  assumes "ica_action_query il ch ev st account c actions = Ok msgs" and "actions \<noteq> []"
  shows "\<exists>note. load (ica_infra st) c = Some note \<and> cast_chain_type c = Some Evm
    \<and> list_all2 (ica_msg_ok il ch ev note) actions msgs"
proof -
  from assms(1) obtain t nt mss where t: "cast_chain_type c = Some t" and infra: "load (ica_infra st) c = Some nt"
    and run: "try_map (process_action il ch ev t nt c) actions = Ok mss" and msgs: "msgs = concat mss"
    by (auto simp: ica_action_query_def result_simps)
  have each: "list_all2 (\<lambda>a ms. process_action il ch ev t nt c a = Ok ms) actions mss"
    using run by (simp add: try_map_Ok_iff)
  then have "t = Evm" using assms(2) by (cases actions) (auto simp: list_all2_Cons1 elim: process_action_Ok)
  moreover from each have "list_all2 (ica_msg_ok il ch ev nt) actions (concat mss)"
    by (induction rule: list_all2_induct) (auto elim!: process_action_Ok)
  ultimately show ?thesis using t infra msgs by blast
qed

text \<open>The account an answer is for does not matter: without a receiver the funds of every account go to the remote
  account of the client.\<close>

lemma fund_without_receiver_ignores_account:
  "ica_action_query il ch ev st account c actions = ica_action_query il ch ev st account' c actions"
  by (simp add: ica_action_query_def)

lemma fund_without_receiver_to_client:
  assumes "il_remote_address il note (env_contract ev) = Ok (Some h)" and "il_from_hex il h = Ok r"
  shows "evm_send_funds il ch ev note c fnds None memo = evm_send_funds il ch ev note c fnds (Some r) memo"
  using assms by (simp add: evm_send_funds_def fund_receiver_def)

section \<open>Witnesses\<close>

definition sepolia_lib :: ica_lib where
  "sepolia_lib = \<lparr>il_ans = (\<lambda>a. Ok empty_ans), il_remote_address = (\<lambda>n a. Ok None), il_from_hex = Ok,
     il_json_note = (\<lambda>ms cb t. Ok ''{}''), il_json_forwarder = (\<lambda>c r m t. Ok ''{}'')\<rparr>"

definition sepolia_client :: ica_state where
  "sepolia_client = \<lparr>ica_ownership = None, ica_cw2 = None, ica_module_data = None, ica_infra = [(''sepolia'', ''note'')]\<rparr>"

theorem ica_actions_addressed_witness:
  "\<exists>note. load (ica_infra sepolia_client) ''sepolia'' = Some note \<and> note = ''note''"
proof -
  have "ica_action_query sepolia_lib sample_chain ev sepolia_client ''acct'' ''sepolia'' [IcaExecute [''{}''] None]
    = Ok [WasmExecute ''note'' (Raw ''{}'') []]" for ev
    by (simp add: ica_action_query_def cast_chain_type_def ETHEREUM_def BERACHAIN_def ARCHWAY_def NEUTRON_def KUJIRA_def TERRA_def
        OSMOSIS_def JUNO_def UNION_def XION_def sepolia_client_def sepolia_lib_def evm_execute_def load_def)
  from ica_actions_addressed [OF this] show ?thesis by (auto simp: sepolia_client_def load_def)
qed

end
