(* ===== verification/Ping_Pong.thy ===== *)
theory Ping_Pong
  imports Sdk_Modules
begin

text \<open>
  The ping-pong app (\<open>modules/contracts/apps/ping-pong/src\<close>): two instances on different chains play against each
  other with messages between modules. A chain whose block height is even returns the ball, one whose height is odd
  loses. JSON is the parameter \<open>ping_lib\<close>. The answer of the module on the other chain is its list of attributes.

  Theorems: the app plays only with itself, a finished round is a win of the caller and a loss of the
  opponent, or a loss of the caller, or goes on with a new ping, and so over every sequence of rounds the wins are
  at most the losses.
\<close>

section \<open>State and messages (state.rs, msg.rs, error.rs)\<close>

record ping_state = app_state +
  WINS :: "u32 option"
  LOSSES :: "u32 option"

datatype ping_execute_msg =
    PingPong truncated_chain_id
  | QueryAndMaybePingPong truncated_chain_id

datatype ping_or_pong = Ping | Pong

datatype ping_callback_msg =
    Pinged truncated_chain_id
  | QueryBlockHeight truncated_chain_id

datatype ping_error =
    NotPingPong module_info
  | ZeroPongs
  | FirstPlayMustBePing

type_synonym 'a ping_result = "('a, ping_error) module_result"
type_synonym ping_out = "ping_state module_out"

record ping_lib =
  pg_json_client :: client_json
  pg_json_hand :: "ping_or_pong \<Rightarrow> (binary, std_error) result"
  pg_from_hand :: "binary \<Rightarrow> (ping_or_pong, std_error) result"
  pg_json_callback :: "ping_callback_msg \<Rightarrow> (binary, std_error) result"
  pg_from_callback :: "binary \<Rightarrow> (ping_callback_msg, std_error) result"
  pg_json_height_query :: "(binary, std_error) result"
  pg_from_height :: "binary \<Rightarrow> (u64, std_error) result"

section \<open>Playing (handlers/execute.rs, handlers/instantiate.rs, ibc/callback.rs, ibc/module.rs)\<close>

definition PING_PONG_ID :: string where "PING_PONG_ID = ''abstract:ping-pong''"

definition ping_dependencies :: "dependency list" where
  "ping_dependencies = [\<lparr>dep_id = IBC_CLIENT, version_req = [CONTRACT_VERSION]\<rparr>]"

definition ping_module_info :: "module_info ping_result" where
  "ping_module_info = map_err ModAbstract (module_info_from_id PING_PONG_ID (Version CONTRACT_VERSION))"

definition ping_client :: "chain \<Rightarrow> ping_state \<Rightarrow> (addr, sdk_error) result" where
  "ping_client ch st = ibc_client_address ch ping_dependencies (app_abstract_registry ch st)"

definition ping_instantiate :: "chain \<Rightarrow> env \<Rightarrow> message_info \<Rightarrow> ping_state \<Rightarrow> unit \<Rightarrow> ping_out ping_result" where
  "ping_instantiate ch ev info st msg = Ok (st\<lparr>WINS := Some 0, LOSSES := Some 0\<rparr>, [])"

definition ping_pong :: "ping_lib \<Rightarrow> chain \<Rightarrow> ping_state \<Rightarrow> truncated_chain_id \<Rightarrow> ping_out ping_result" where
  "ping_pong pl ch st opponent_chain =
     and_then ping_module_info (\<lambda>self_module_info.
     and_then (map_err ModStd (pg_json_callback pl (Pinged opponent_chain))) (\<lambda>callback.
     and_then (map_err ModSdk (module_ibc_action (pg_json_client pl) (pg_json_hand pl) (ping_client ch st)
       opponent_chain self_module_info Ping (Some callback))) (\<lambda>ibc_action.
     Ok (st, [Direct ibc_action]))))"

definition query_and_ping ::
  "ping_lib \<Rightarrow> chain \<Rightarrow> env \<Rightarrow> ping_state \<Rightarrow> truncated_chain_id \<Rightarrow> ping_out ping_result" where
  "query_and_ping pl ch ev st opponent_chain =
     and_then (map_err ModSdk (module_account (ap_account st))) (\<lambda>account.
     and_then (map_err (\<lambda>e. ModSdk (SdkStd e)) (q_account_id ch account)) (\<lambda>account_id.
     let remote_account_id = into_remote_account_id account_id (from_chain_id (chain_id (env_block ev))) opponent_chain
     in and_then ping_module_info (\<lambda>mi.
        and_then (map_err ModStd (pg_json_callback pl (QueryBlockHeight opponent_chain))) (\<lambda>callback.
        and_then (map_err ModSdk (ping_client ch st)) (\<lambda>client.
        and_then (map_err (\<lambda>e. ModSdk (SdkStd e)) (pg_json_height_query pl)) (\<lambda>qry.
        and_then (map_err ModSdk (ibc_query (pg_json_client pl) (Ok client) opponent_chain
          (QCustom (\<lparr>im_module_info = mi, im_account_id = Some remote_account_id\<rparr>, qry)) callback)) (\<lambda>module_query.
        Ok (st, [Direct module_query]))))))))"

fun ping_execute ::
  "ping_lib \<Rightarrow> chain \<Rightarrow> env \<Rightarrow> message_info \<Rightarrow> addr option \<Rightarrow> ping_state \<Rightarrow> ping_execute_msg \<Rightarrow> ping_out ping_result" where
  "ping_execute pl ch ev info base_account st (PingPong opponent_chain) = ping_pong pl ch st opponent_chain"
| "ping_execute pl ch ev info base_account st (QueryAndMaybePingPong host_chain) = query_and_ping pl ch ev st host_chain"

definition add_loss :: "ping_state \<Rightarrow> ping_state ping_result" where
  "add_loss st =
     and_then (ok_or (ModStd (StdNotFound ''losses'')) (LOSSES st)) (\<lambda>l.
     and_then (unwrap (checked_add l 1)) (\<lambda>l. Ok (st\<lparr>LOSSES := Some l\<rparr>)))"

definition add_win :: "ping_state \<Rightarrow> ping_state ping_result" where
  "add_win st =
     and_then (ok_or (ModStd (StdNotFound ''wins'')) (WINS st)) (\<lambda>w.
     and_then (unwrap (checked_add w 1)) (\<lambda>w. Ok (st\<lparr>WINS := Some w\<rparr>)))"

definition is_even :: "env \<Rightarrow> bool" where
  "is_even ev \<longleftrightarrow> height (env_block ev) mod 2 = 0"

definition is_pong :: "sub_event \<Rightarrow> bool" where
  "is_pong e \<longleftrightarrow> ev_ty e = ''wasm'' \<and> list_ex (\<lambda>a. fst a = ''play'' \<and> snd a = ''pong'') (ev_attributes e)"

definition play_if_win ::
  "ping_lib \<Rightarrow> chain \<Rightarrow> ping_state \<Rightarrow> ibc_result \<Rightarrow> truncated_chain_id \<Rightarrow> ping_out ping_result" where
  "play_if_win pl ch st r opponent_chain =
     and_then (map_err ModStd (get_query_result r 0)) (\<lambda>(_, answer).
     and_then (map_err ModStd (pg_from_height pl answer)) (\<lambda>h.
     if h mod 2 = 1 then ping_pong pl ch st opponent_chain else Ok (st, [])))"

definition ping_ibc_callback ::
  "ping_lib \<Rightarrow> chain \<Rightarrow> env \<Rightarrow> ping_state \<Rightarrow> binary \<Rightarrow> ibc_result \<Rightarrow> ping_out ping_result" where
  "ping_ibc_callback pl ch ev st callback r =
     and_then (map_err ModStd (pg_from_callback pl callback)) (\<lambda>c.
     case c of
       Pinged opponent_chain \<Rightarrow>
         and_then (map_err ModStd (get_execute_events r)) (\<lambda>exec_events.
         case List.find is_pong exec_events of
           Some _ \<Rightarrow>
             if is_even ev then ping_pong pl ch st opponent_chain
             else and_then (add_loss st) (\<lambda>st. Ok (st, []))
         | None \<Rightarrow> and_then (add_win st) (\<lambda>st. Ok (st, [])))
     | QueryBlockHeight opponent_chain \<Rightarrow> play_if_win pl ch st r opponent_chain)"

text \<open>The answer: the state and the attribute that says whether the ball was returned.\<close>

definition receive_ping ::
  "ping_lib \<Rightarrow> env \<Rightarrow> ping_state \<Rightarrow> module_info \<Rightarrow> binary \<Rightarrow> (ping_state \<times> (string \<times> string) list) ping_result" where
  "receive_ping pl ev st source_module msg =
     and_then ping_module_info (\<lambda>this_module_info.
     if source_module \<noteq> this_module_info then Err (ModCustom (NotPingPong source_module))
     else
       and_then (map_err ModStd (pg_from_hand pl msg)) (\<lambda>hand.
       if hand \<noteq> Ping then Err (ModCustom FirstPlayMustBePing)
       else if is_even ev then Ok (st, [(''play'', ''pong'')])
       else and_then (add_loss st) (\<lambda>st. Ok (st, []))))"

definition ping_module_ibc ::
  "ping_lib \<Rightarrow> chain \<Rightarrow> env \<Rightarrow> ping_state \<Rightarrow> truncated_chain_id \<Rightarrow> module_info \<Rightarrow> binary \<Rightarrow> ping_out ping_result" where
  "ping_module_ibc pl ch ev st src source_module msg =
     map_ok (\<lambda>(st, _). (st, [])) (receive_ping pl ev st source_module msg)"

definition ping_app ::
  "ping_lib \<Rightarrow> (ping_state, unit, ping_execute_msg, unit, unit, ping_error) abstract_contract" where
  "ping_app pl = \<lparr>ac_name = PING_PONG_ID, ac_version = CONTRACT_VERSION, ac_metadata = None,
     ac_dependencies = ping_dependencies, ac_instantiate = Some ping_instantiate, ac_execute = Some (ping_execute pl),
     ac_migrate = None, ac_sudo = None, ac_replies = [], ac_ibc_callback = Some (ping_ibc_callback pl),
     ac_module_ibc = Some (ping_module_ibc pl)\<rparr>"

section \<open>Queries (handlers/query.rs)\<close>

definition query_wins :: "ping_state \<Rightarrow> (u32 \<times> u32, std_error) result" where
  "query_wins st =
     and_then (ok_or (StdNotFound ''wins'') (WINS st)) (\<lambda>w.
     and_then (ok_or (StdNotFound ''losses'') (LOSSES st)) (\<lambda>l. Ok (w, l)))"

definition query_block_height :: "env \<Rightarrow> u64" where
  "query_block_height ev = height (env_block ev)"

section \<open>Theorems\<close>

lemma add_loss_Ok [result_simps]:
  "add_loss st = Ok st' \<longleftrightarrow> (\<exists>l. LOSSES st = Some l \<and> unat l + 1 < 2 ^ 32 \<and> st' = st\<lparr>LOSSES := Some (l + 1)\<rparr>)"
  by (auto simp: add_loss_def checked_add_def result_simps split: if_splits)

lemma add_win_Ok [result_simps]:
  "add_win st = Ok st' \<longleftrightarrow> (\<exists>w. WINS st = Some w \<and> unat w + 1 < 2 ^ 32 \<and> st' = st\<lparr>WINS := Some (w + 1)\<rparr>)"
  by (auto simp: add_win_def checked_add_def result_simps split: if_splits)

lemma ping_pong_keeps: "ping_pong pl ch st c = Ok (st', ms) \<Longrightarrow> st' = st \<and> length ms = 1"
  by (auto simp: ping_pong_def result_simps)

text \<open>
  One round: the ping of \<open>a\<close> arrives at \<open>b\<close>, and \<open>a\<close> gets the result of the execution. The events it reads are those
  of that execution, where the answer of a contract is its event \<open>wasm\<close>.
\<close>

inductive ping_round :: "ping_lib \<Rightarrow> ping_state \<times> ping_state \<Rightarrow> ping_state \<times> ping_state \<Rightarrow> module_msg list \<Rightarrow> bool" for pl where
  "receive_ping pl eb b mi hand = Ok (b', answer) \<Longrightarrow> get_execute_events r = Ok events
   \<Longrightarrow> list_ex is_pong events \<longleftrightarrow> (''play'', ''pong'') \<in> set answer
   \<Longrightarrow> pg_from_callback pl callback = Ok (Pinged c) \<Longrightarrow> ping_ibc_callback pl ch ea a callback r = Ok (a', ms)
   \<Longrightarrow> ping_round pl (a, b) (a', b') ms"

inductive_cases ping_roundE: "ping_round pl (a, b) (a', b') ms"

lemma find_is_pong: "List.find is_pong es = None \<longleftrightarrow> \<not> list_ex is_pong es"
  by (auto simp: find_None_iff list_ex_iff)

lemma receive_ping_Ok:
  assumes "receive_ping pl ev b mi hand = Ok (b', answer)"
  obtains (returned) "is_even ev" and "b' = b" and "(''play'', ''pong'') \<in> set answer"
    | (lost) "\<not> is_even ev" and "add_loss b = Ok b'" and "(''play'', ''pong'') \<notin> set answer"
  using assms by (cases "is_even ev") (auto simp: receive_ping_def result_simps split: if_splits)

text \<open>
  a round between two instances ends in one of three ways, and changes nothing but the score: the opponent loses
  and the caller wins, at an odd height of the opponent; or the ball is returned and, at an odd height of
  the caller, the caller loses; or the ball is returned and the caller sends exactly one new ping.
\<close>

theorem ping_round_outcome:
  assumes "ping_round pl (a, b) (a', b') ms"
  shows "(\<exists>l w. LOSSES b = Some l \<and> WINS a = Some w \<and> unat (l + 1) = unat l + 1 \<and> unat (w + 1) = unat w + 1
      \<and> b' = b\<lparr>LOSSES := Some (l + 1)\<rparr> \<and> a' = a\<lparr>WINS := Some (w + 1)\<rparr> \<and> ms = [])
    \<or> (\<exists>l. LOSSES a = Some l \<and> unat (l + 1) = unat l + 1 \<and> b' = b \<and> a' = a\<lparr>LOSSES := Some (l + 1)\<rparr> \<and> ms = [])
    \<or> (a' = a \<and> b' = b \<and> length ms = 1)"
proof -
  from assms obtain eb mi hand answer r events callback c ch ea where
    recv: "receive_ping pl eb b mi hand = Ok (b', answer)" and events: "get_execute_events r = Ok events"
    and same: "list_ex is_pong events \<longleftrightarrow> (''play'', ''pong'') \<in> set answer"
    and cb: "pg_from_callback pl callback = Ok (Pinged c)" and run: "ping_ibc_callback pl ch ea a callback r = Ok (a', ms)"
    by (elim ping_roundE)
  have inc: "unat (n + 1) = unat n + 1" if "unat n + 1 < 2 ^ 32" for n :: u32
    using that by (simp add: unat_word_ariths)
  from recv show ?thesis
  proof (cases rule: receive_ping_Ok)
    case returned
    with same find_is_pong obtain e where "List.find is_pong events = Some e" by fastforce
    with run events cb returned show ?thesis
      by (auto simp: ping_ibc_callback_def inc result_simps dest: ping_pong_keeps split: if_splits)
  next
    case lost
    with same find_is_pong have "List.find is_pong events = None" by blast
    with run events cb lost show ?thesis by (auto simp: ping_ibc_callback_def inc result_simps)
  qed
qed

text \<open>The scores of both instances over every sequence of rounds.\<close>

definition scored :: "ping_state \<times> ping_state \<Rightarrow> bool" where
  "scored s \<longleftrightarrow> (\<exists>wa la wb lb. WINS (fst s) = Some wa \<and> LOSSES (fst s) = Some la \<and> WINS (snd s) = Some wb
     \<and> LOSSES (snd s) = Some lb \<and> unat wa \<le> unat lb \<and> unat wb \<le> unat la)"

inductive match_start :: "ping_state \<times> ping_state \<Rightarrow> bool" where
  "ping_instantiate ch1 ev1 i1 a0 () = Ok (a, m1) \<Longrightarrow> ping_instantiate ch2 ev2 i2 b0 () = Ok (b, m2) \<Longrightarrow> match_start (a, b)"

inductive match_step :: "ping_lib \<Rightarrow> ping_state \<times> ping_state \<Rightarrow> ping_state \<times> ping_state \<Rightarrow> bool" for pl where
  first_serves: "ping_round pl (a, b) (a', b') ms \<Longrightarrow> match_step pl (a, b) (a', b')"
| second_serves: "ping_round pl (b, a) (b', a') ms \<Longrightarrow> match_step pl (a, b) (a', b')"

lemma round_scored:
  assumes "ping_round pl (a, b) (a', b') ms" and "scored (a, b)"
  shows "scored (a', b')" and "scored (b', a')"
proof -
  from ping_round_outcome [OF assms(1)] assms(2) show "scored (a', b')"
    by (auto simp: scored_def)
  then show "scored (b', a')" by (auto simp: scored_def)
qed

interpretation ping_match: invariant match_start "match_step pl" scored for pl
proof
  show "scored s" if "match_start s" for s
    using that by cases (auto simp: scored_def ping_instantiate_def)
  show "scored s'" if "scored s" "match_step pl s s'" for s s'
    using that(2,1)
  proof cases
    case (first_serves a b a' b' ms)
    then show ?thesis using that(1) by (blast intro: round_scored(1))
  next
    case (second_serves b a b' a' ms)
    then have "scored (b, a)" using that(1) by (auto simp: scored_def)
    with second_serves show ?thesis by (blast intro: round_scored(2))
  qed
qed

text \<open>
  in a match between two instances, whoever serves, neither has more wins than the other has losses.
\<close>

theorem wins_are_losses_of_the_other:
  assumes "reachable match_start (match_step pl) (a, b)"
  shows "\<exists>wa la wb lb. query_wins a = Ok (wa, la) \<and> query_wins b = Ok (wb, lb) \<and> unat wa \<le> unat lb \<and> unat wb \<le> unat la"
  using ping_match.holds [OF assms] by (auto simp: scored_def query_wins_def)

text \<open>A module that is not this app in this version cannot make it lose.\<close>

lemma only_plays_itself:
  assumes "ping_module_ibc pl ch ev st src mi msg = Ok out"
  shows "ping_module_info = Ok mi"
  using assms by (auto simp: ping_module_ibc_def receive_ping_def result_simps split: if_splits)

end
