(* ===== verification/Spec2Isabelle.thy ===== *)
theory Spec2Isabelle
  imports Calendar_Safety Challenge_Safety Subscription_Safety Payment_Safety Ibc_Client_Safety Money_Market_Safety
    Staking Ica_Client Ping_Pong
begin

text \<open>
  A verification library of the Abstract framework (\<open>src/framework\<close>), the contracts that give a user an account, a
  registry of modules and the means to install them, on one chain and across chains, and of the five apps
  (\<open>src/modules/contracts/apps\<close>) and the four adapters (\<open>src/modules/contracts/adapters\<close>) built on it.

  \<^bold>\<open>The program.\<close> An \<^emph>\<open>account\<close> (\<open>contracts/account\<close>) is a smart-contract wallet with an owner, a set of
  installed modules and possibly sub-accounts. The \<^emph>\<open>registry\<close> (\<open>contracts/native/registry\<close>) holds the
  accounts, the namespaces they claimed and the module versions proposed, approved and yanked in them.
  The \<^emph>\<open>module factory\<close> (\<open>contracts/native/module-factory\<close>) instantiates the modules an account installs
  and forwards their fees. The \<^emph>\<open>name service\<close> (\<open>contracts/native/ans-host\<close>) maps names to assets, contracts, channels and
  pools. The \<^emph>\<open>IBC client\<close> sends actions of an account to the \<^emph>\<open>IBC host\<close> of another chain, which keeps an account there for
  every remote account. The objects they share (identifiers, module descriptions, ownership, fees, votes) are in
  \<open>packages/abstract-std/src/objects\<close>. A module is an \<^emph>\<open>app\<close>, installed for one account, or an \<^emph>\<open>adapter\<close>, shared by all;
  \<open>packages/abstract-app\<close>, \<open>abstract-adapter\<close> and \<open>abstract-sdk\<close> give it its endpoints and the means to act on the account.

  An installation runs through account, registry and factory: the
  owner sends \<open>InstallModules\<close> to the account, the account asks the registry for the modules and calls the
  factory with the predicted addresses, the factory instantiates them and pays the namespace owners, and
  the account's reply handler records dependencies and tells the modules' adapters. An action on another chain runs from the
  client through a note to the proxy of the chain at the host, and back as a callback.

  \<^bold>\<open>The model.\<close> A contract's storage is a record with one field for each \<open>Item\<close> or \<open>Map\<close>; a handler
  is a function from the chain it can query, the block, its storage and the message to
  \<open>Ok (storage, messages)\<close>, \<open>Err e\<close> with the contract's error datatype, or \<open>Panic\<close> where the Rust code
  would abort. The early returns of \<open>?\<close> are the bind of \<open>Prelude\<close>. Integers keep their width
  (\<open>u32\<close>, \<open>u64\<close>, \<open>u128\<close> are words), with the checked operations of the code written out.

  \<^item> \<open>Prelude\<close>: results, loops with early return, Rust string operations, and the generic
    reachability locales \<open>invariant\<close> and its extensions, which the contracts interpret.
  \<^item> \<open>Storage\<close>: \<open>cw_storage_plus\<close> maps as ordered stores (\<open>locale kv_store\<close>).
  \<^item> \<open>Data_Types\<close>, \<open>Identifiers\<close>, \<open>Modules\<close>: \<open>objects/account\<close>, \<open>truncated_chain_id.rs\<close>,
    \<open>validation\<close>, \<open>module.rs\<close>, \<open>module_version.rs\<close>, \<open>module_reference.rs\<close>, \<open>namespace.rs\<close>.
    Round trips of text forms and storage keys, and the exact sets on which they fail.
  \<^item> \<open>Chain\<close>, \<open>Messages\<close>: what a contract can query of others, messages and fixed fees.
  \<^item> \<open>Ownership\<close>: \<open>gov_type.rs\<close>, \<open>ownership/gov_ownable.rs\<close>, \<open>ownership/nested_admin.rs\<close>. Who is
    owner, how ownership moves, who passes the admin check of a module.
  \<^item> \<open>Registry\<close>: \<open>registry/src/commands.rs\<close>, \<open>contract.rs\<close>, \<open>migrate.rs\<close>. \<open>Registry_Invariants\<close>
    (namespaces, account sequence), \<open>Registry_Modules\<close> (life cycle), \<open>Registry_Safety\<close> (who may do what),
    \<open>Registry_Queries\<close> (\<open>queries.rs\<close> and the client \<open>objects/registry.rs\<close>).
  \<^item> \<open>Module_Factory\<close>: \<open>module-factory/src/commands.rs\<close>, \<open>contract.rs\<close>, \<open>queries.rs\<close>, \<open>objects/module_factory.rs\<close>.
  \<^item> \<open>Account\<close> (\<open>account/src/modules.rs\<close>, \<open>modules/migration.rs\<close>, \<open>versioning.rs\<close>), \<open>Account_Contract\<close>
    (\<open>execution.rs\<close>, \<open>config.rs\<close>, \<open>sub_account.rs\<close>, \<open>reply.rs\<close>, \<open>contract.rs\<close>), \<open>Account_Invariants\<close>
    (well-formedness of every reachable account), \<open>Account_Safety\<close> (permissions, suspension and the
    admin permission within a transaction), \<open>Account_Modules\<close> (installation with the factory).

  \<^item> \<open>Account_Queries\<close>: \<open>account/src/queries.rs\<close>.
  \<^item> \<open>Voting\<close>: \<open>objects/voting.rs\<close>. Votes are counted as cast, a decision is final and always possible.
  \<^item> \<open>Ans_Objects\<close> (\<open>objects/entry\<close>, \<open>objects/pool\<close>), \<open>Ans_Host\<close> (\<open>ans-host/src/commands.rs\<close>, \<open>contract.rs\<close>), \<open>Ans_Queries\<close>
    (\<open>queries.rs\<close>, \<open>objects/ans_host.rs\<close>), \<open>Ans_Invariants\<close>: pools and pairings agree in every state; text forms.
  \<^item> \<open>Ibc_Host\<close>, \<open>Ibc_Host_Safety\<close> (\<open>contracts/native/ibc-host\<close>), \<open>Ibc_Client\<close>, \<open>Ibc_Client_Safety\<close>
    (\<open>contracts/native/ibc-client\<close>): who may act for which remote account, what arrives, what happens to funds in flight.
  \<^item> \<open>Module_Base\<close>, \<open>Module_Base_Safety\<close>: \<open>abstract-adapter/src/endpoints\<close>, \<open>abstract-app/src/endpoints\<close>, \<open>abstract-sdk/src/base\<close>.
    Who may call an adapter for an account, the lists of authorised addresses, the guards of the IBC endpoints, and the
    replacement of an adapter by an account.
  \<^item> \<open>Sdk_Apis\<close>: \<open>abstract-sdk/src/apis\<close> (\<open>bank.rs\<close>, \<open>execution.rs\<close>, \<open>splitter.rs\<close>, \<open>verify.rs\<close>), \<open>ans_resolve.rs\<close>,
    \<open>objects/fee.rs\<close>, \<open>objects/deposit_info.rs\<close>.
  \<^item> \<open>Calendar\<close>, \<open>Calendar_Safety\<close>: the calendar app. Stakes are paid once and in full, the app can pay what it owes.
  \<^item> \<open>Challenge\<close>, \<open>Challenge_Safety\<close>: the challenge app over \<open>Voting\<close>, as a refinement; penalties need a passed vote
    and are charged once; friends are fixed while a vote runs.
  \<^item> \<open>Twa\<close> (\<open>objects/time_weighted_average.rs\<close>), \<open>Subscription\<close>, \<open>Subscription_Safety\<close>: the subscription app. The average is exact
    across a wrap of its counter; subscribers are counted, keep what they paid for, and can be removed by anyone after that.
  \<^item> \<open>Sdk_Modules\<close>: \<open>abstract-sdk/src/apis\<close> (\<open>modules.rs\<close>, \<open>adapter.rs\<close>, \<open>app.rs\<close>, \<open>ibc.rs\<close>), \<open>cw_helpers/fees.rs\<close>. Where a message to
    another module goes, and how a fee divides an amount.
  \<^item> \<open>Dex\<close>, \<open>Dex_Safety\<close>: \<open>packages/standards/dex\<close>, \<open>standards/utils/src/identity.rs\<close> and the exchange adapter. The fee of a swap is taken once and
    is bounded, who may change it, simulation and execution agree, and named assets are swapped in a registered pool.
  \<^item> \<open>Payment\<close>, \<open>Payment_Safety\<close>: the payment app over the exchange adapter. Tips are forwarded whole, the counts agree, and the history
    of a tipper (\<open>locale history_map\<close>) is exact.

  \<^item> \<open>Adapters\<close>: what the adapters share (\<open>locale plain_adapter\<close>, \<open>locale account_adapter\<close>): every message is a call of
    one account that the sender may act for. The four adapters interpret it.
  \<^item> \<open>Money_Market\<close>, \<open>Money_Market_Safety\<close>: \<open>packages/standards/money-market\<close> and its adapter. Who changes the fee, a withdrawal
    pays it once, names and queries agree with executions.
  \<^item> \<open>Staking\<close>: \<open>packages/standards/staking\<close> and the adapter for staking contracts, and the adapter for validators
    (\<open>tendermint-staking\<close>). What is moved to another chain, and that undelegating everything is exact.
  \<^item> \<open>Ica_Client\<close>: \<open>contracts/native/ica-client\<close>, \<open>packages/abstract-ica\<close>. Who registers notes, and where the messages of
    interchain actions go.
  \<^item> \<open>Ping_Pong\<close>: the ping-pong app. The outcome of a round on two chains, and the scores of a match.
  \<^item> At the end of this theory: the property of all four adapters.

  \<^bold>\<open>Code outside the repository\<close> is a parameter: \<open>semver\<close> (\<open>semver_lib\<close>), address validation,
  \<open>instantiate2\<close> and the answers of other contracts (\<open>chain\<close>), \<open>cosmwasm_std::Coins\<close>, hashes and the
  JSON parser (\<open>platform\<close>, \<open>ibc_lib\<close>, \<open>client_lib\<close>), \<open>cw_asset\<close> and \<open>cw_utils\<close> (\<open>sdk_lib\<close>), decimals and timestamps
  (\<open>cosmwasm_math\<close>, \<open>decimal_lib\<close>), \<open>chrono\<close> (\<open>chrono_lib\<close>). The exchanges, markets and staking
  providers behind the traits \<open>DexCommand\<close>, \<open>MoneyMarketCommand\<close> and \<open>CwStakingCommand\<close> are parameters too (\<open>dex_lib\<close>, \<open>mm_lib\<close>,
  \<open>staking_lib\<close>), since the adapters only see the traits, as are the lists of \<open>cw_asset\<close> (\<open>pay_lib\<close>), the staking queries of the
  chain (\<open>staking_querier\<close>) and the notes of \<open>polytone-evm\<close> (\<open>ica_lib\<close>). What a theorem needs of them is a named hypothesis, and its witness gives a
  concrete instance.

  \<^bold>\<open>Bounds.\<close> All loops of the contracts run over finite lists and are folds; the only unbounded search of
  the code, for the top-level owner, carries the code's own bound \<open>MAX_ADMIN_RECURSION\<close>. No fuel is used.

  \<^bold>\<open>Not modelled.\<close> Response attributes and events; gas; the \<open>xion\<close> build of the account (its
  authenticators are third-party cryptography); the content of messages the account only forwards;
  JSON encodings, except that equal values have equal encodings; listings by \<open>cw_paginate\<close>. The
  message-building APIs of the sdk that only wrap third-party encoders, the client-side packages and
  the integrations that adapters dispatch to are listed in the manifest with their reasons.
\<close>

section \<open>Adapters\<close>

text \<open>
  C39: the adapters for exchanges, money markets, staking contracts and validators send nothing themselves: every
  accepted message makes them ask one account of the registry to act, an account that the sender is, that
  authorised the sender or whose top-level owner the sender is, or has no message at all. This holds whatever the exchanges, markets,
  providers and the chain answer.
\<close>

theorem adapters_act_for_permitted_accounts:
  "acts_for_permitted (dex_adapter dl) \<and> acts_for_permitted (money_market_adapter ml)
   \<and> acts_for_permitted (cw_staking_adapter sl) \<and> acts_for_permitted (tendermint_staking_adapter q)"
  by (intro conjI dex_calls.acts market_calls.acts staking_calls.acts validator_calls.acts)

end
